(* ===== verification/Dbl.thy ===== *)
theory Dbl
  imports Complex_Main
begin

text \<open>
  The C++ type \<open>double\<close>.  A value is a finite real number, one of the two infinities or the
  not-a-number value; the operations follow IEEE 754 on the exceptional values (an invalid
  operation gives NaN, a non-zero number divided by zero gives an infinity, every ordered
  comparison with NaN is false).  Two things are idealised: the arithmetic on finite values is
  exact (no rounding, no overflow to infinity), and the zero is the positive one (the program
  never produces a negative zero on purpose).  The functions of \<open>math.h\<close> that the program calls
  are defined here as well: \<open>log\<close>, \<open>log2\<close>, \<open>sqrt\<close>, \<open>pow\<close>, \<open>ceil\<close>, \<open>floor\<close>, \<open>fabs\<close>.
\<close>

datatype dbl = Fin real | PInf | NInf | NaN

subsection \<open>Arithmetic\<close>

definition sgn_inf :: "real \<Rightarrow> dbl" where
  "sgn_inf r = (if 0 < r then PInf else if r < 0 then NInf else NaN)"

fun dadd :: "dbl \<Rightarrow> dbl \<Rightarrow> dbl" where
  "dadd (Fin a) (Fin b) = Fin (a + b)"
| "dadd NaN _ = NaN"
| "dadd _ NaN = NaN"
| "dadd PInf NInf = NaN"
| "dadd NInf PInf = NaN"
| "dadd PInf _ = PInf"
| "dadd NInf _ = NInf"
| "dadd _ PInf = PInf"
| "dadd _ NInf = NInf"

fun dneg :: "dbl \<Rightarrow> dbl" where
  "dneg (Fin a) = Fin (- a)"
| "dneg PInf = NInf"
| "dneg NInf = PInf"
| "dneg NaN = NaN"

fun dmul :: "dbl \<Rightarrow> dbl \<Rightarrow> dbl" where
  "dmul (Fin a) (Fin b) = Fin (a * b)"
| "dmul NaN _ = NaN"
| "dmul _ NaN = NaN"
| "dmul (Fin a) PInf = sgn_inf a"
| "dmul (Fin a) NInf = sgn_inf (- a)"
| "dmul PInf (Fin b) = sgn_inf b"
| "dmul NInf (Fin b) = sgn_inf (- b)"
| "dmul PInf PInf = PInf"
| "dmul PInf NInf = NInf"
| "dmul NInf PInf = NInf"
| "dmul NInf NInf = PInf"

fun ddiv :: "dbl \<Rightarrow> dbl \<Rightarrow> dbl" where
  "ddiv (Fin a) (Fin b) = (if b = 0 then sgn_inf a else Fin (a / b))"
| "ddiv NaN _ = NaN"
| "ddiv _ NaN = NaN"
| "ddiv (Fin a) PInf = Fin 0"
| "ddiv (Fin a) NInf = Fin 0"
| "ddiv PInf (Fin b) = (if b < 0 then NInf else PInf)"
| "ddiv NInf (Fin b) = (if b < 0 then PInf else NInf)"
| "ddiv _ _ = NaN"

fun dless :: "dbl \<Rightarrow> dbl \<Rightarrow> bool" where
  "dless (Fin a) (Fin b) = (a < b)"
| "dless (Fin a) PInf = True"
| "dless NInf (Fin b) = True"
| "dless NInf PInf = True"
| "dless _ _ = False"

fun dleq :: "dbl \<Rightarrow> dbl \<Rightarrow> bool" where
  "dleq (Fin a) (Fin b) = (a \<le> b)"
| "dleq NaN _ = False"
| "dleq _ NaN = False"
| "dleq NInf _ = True"
| "dleq _ PInf = True"
| "dleq _ _ = False"

instantiation dbl :: "{zero, one, uminus, plus, minus, times, inverse, ord}"
begin
definition "0 = Fin 0"
definition "1 = Fin 1"
definition "- x = dneg x"
definition "x + y = dadd x y"
definition "x - y = dadd x (dneg y)"
definition "x * y = dmul x y"
definition "inverse x = ddiv (Fin 1) x"
definition "x div y = ddiv x y"
definition "x < y = dless x y"
definition "x \<le> y = dleq x y"
instance ..
end

lemma dadd_assoc: "dadd (dadd a b) c = dadd a (dadd b c)"
  by (cases a; cases b; cases c) auto

instance dbl :: semigroup_add
  by standard (simp add: plus_dbl_def dadd_assoc)

instance dbl :: numeral ..

lemma Fin_arith [simp]:
  "Fin a + Fin b = Fin (a + b)" "Fin a - Fin b = Fin (a - b)" "- Fin a = Fin (- a)"
  "Fin a * Fin b = Fin (a * b)"
  "b \<noteq> 0 \<Longrightarrow> Fin a / Fin b = Fin (a / b)"
  "Fin a / Fin 0 = sgn_inf a"
  by (simp_all add: plus_dbl_def minus_dbl_def uminus_dbl_def times_dbl_def divide_dbl_def)

lemma Fin_order [simp]: "(Fin a < Fin b) = (a < b)" "(Fin a \<le> Fin b) = (a \<le> b)"
  by (simp_all add: less_dbl_def less_eq_dbl_def)

lemma dbl_zero: "0 = Fin 0" and dbl_one: "1 = Fin 1"
  by (simp_all add: zero_dbl_def one_dbl_def)

lemma dbl_numeral: "numeral n = Fin (numeral n)"
  by (induction n) (simp_all only: numeral.simps dbl_one Fin_arith)

text \<open>Rewriting every literal to the finite form evaluates closed expressions.\<close>

lemmas dbl_lits = dbl_zero dbl_one dbl_numeral

lemma Fin_inj [simp]: "(Fin a = Fin b) = (a = b)" by simp

subsection \<open>Comparison with the exceptional values\<close>

lemma NaN_order [simp]: "\<not> NaN < x" "\<not> x < NaN" "\<not> NaN \<le> x" "\<not> x \<le> NaN"
  by (cases x; simp add: less_dbl_def less_eq_dbl_def)+

lemma Inf_order [simp]:
  "Fin a < PInf" "\<not> PInf < x" "NInf < Fin a" "NInf < PInf" "\<not> x < NInf"
  "Fin a \<le> PInf" "\<not> PInf \<le> Fin a" "NInf \<le> Fin a" "NInf \<le> PInf" "\<not> Fin a \<le> NInf"
  "PInf \<le> PInf" "NInf \<le> NInf" "\<not> PInf \<le> NInf"
  by (cases x; simp add: less_dbl_def less_eq_dbl_def)+

lemma dless_irrefl [simp]: "\<not> x < (x::dbl)"
  by (cases x) (simp_all add: less_dbl_def)

lemma dless_trans: "x < y \<Longrightarrow> y < z \<Longrightarrow> x < (z::dbl)"
  by (cases x; cases y; cases z) (simp_all add: less_dbl_def)

lemma dless_imp_dleq: "x < y \<Longrightarrow> x \<le> (y::dbl)"
  by (cases x; cases y) (simp_all add: less_dbl_def less_eq_dbl_def)

lemma dleq_dless_trans: "x \<le> y \<Longrightarrow> y < z \<Longrightarrow> x < (z::dbl)"
  by (cases x; cases y; cases z) (simp_all add: less_dbl_def less_eq_dbl_def)

lemma dless_dleq_trans: "x < y \<Longrightarrow> y \<le> z \<Longrightarrow> x < (z::dbl)"
  by (cases x; cases y; cases z) (simp_all add: less_dbl_def less_eq_dbl_def)

lemma dleq_trans: "x \<le> y \<Longrightarrow> y \<le> z \<Longrightarrow> x \<le> (z::dbl)"
  by (cases x; cases y; cases z) (simp_all add: less_dbl_def less_eq_dbl_def)

lemma dleq_refl: "x \<noteq> NaN \<Longrightarrow> x \<le> x"
  by (cases x) (simp_all add: less_eq_dbl_def)

lemma not_dless: "x \<noteq> NaN \<Longrightarrow> y \<noteq> NaN \<Longrightarrow> (\<not> x < y) = (y \<le> (x::dbl))"
  by (cases x; cases y) (auto simp: less_dbl_def less_eq_dbl_def)

subsection \<open>Finite, non-negative and positive values\<close>

definition fin :: "dbl \<Rightarrow> bool" where "fin x \<longleftrightarrow> (\<exists>r. x = Fin r)"
definition fnn :: "dbl \<Rightarrow> bool" where "fnn x \<longleftrightarrow> (\<exists>r\<ge>0. x = Fin r)"
definition fpos :: "dbl \<Rightarrow> bool" where "fpos x \<longleftrightarrow> (\<exists>r>0. x = Fin r)"

named_theorems fsign

lemma fin_Fin [simp]: "fin (Fin r)" by (simp add: fin_def)
lemma fnn_Fin [simp]: "fnn (Fin r) = (0 \<le> r)" by (auto simp: fnn_def)
lemma fpos_Fin [simp]: "fpos (Fin r) = (0 < r)" by (auto simp: fpos_def)

lemma fpos_fnn [fsign]: "fpos x \<Longrightarrow> fnn x" by (auto simp: fpos_def fnn_def)
lemma fnn_fin [fsign]: "fnn x \<Longrightarrow> fin x" by (auto simp: fnn_def fin_def)

lemma fsign_lits [simp, fsign]: "fnn 0" "fnn 1" "fpos 1" "fpos (numeral n)" "fnn (numeral n)"
  by (simp_all add: dbl_lits)

lemma fpos_E: "fpos x \<Longrightarrow> (\<And>r. 0 < r \<Longrightarrow> x = Fin r \<Longrightarrow> P) \<Longrightarrow> P" by (auto simp: fpos_def)
lemma fnn_E: "fnn x \<Longrightarrow> (\<And>r. 0 \<le> r \<Longrightarrow> x = Fin r \<Longrightarrow> P) \<Longrightarrow> P" by (auto simp: fnn_def)
lemma fin_E: "fin x \<Longrightarrow> (\<And>r. x = Fin r \<Longrightarrow> P) \<Longrightarrow> P" by (auto simp: fin_def)

lemma fnn_add [fsign]: "fnn x \<Longrightarrow> fnn y \<Longrightarrow> fnn (x + y)"
  by (auto simp: fnn_def)

lemma fpos_add1 [fsign]: "fpos x \<Longrightarrow> fnn y \<Longrightarrow> fpos (x + y)"
  by (auto simp: fnn_def fpos_def)

lemma fpos_add2 [fsign]: "fnn x \<Longrightarrow> fpos y \<Longrightarrow> fpos (x + y)"
  by (auto simp: fnn_def fpos_def)

lemma fnn_mult [fsign]: "fnn x \<Longrightarrow> fnn y \<Longrightarrow> fnn (x * y)"
  by (auto simp: fnn_def)

lemma fpos_mult [fsign]: "fpos x \<Longrightarrow> fpos y \<Longrightarrow> fpos (x * y)"
  by (auto simp: fpos_def)

lemma fnn_div [fsign]: "fnn x \<Longrightarrow> fpos y \<Longrightarrow> fnn (x / y)"
  by (auto simp: fnn_def fpos_def)

lemma fpos_div [fsign]: "fpos x \<Longrightarrow> fpos y \<Longrightarrow> fpos (x / y)"
  by (auto simp: fpos_def)

lemma fin_add [fsign]: "fin x \<Longrightarrow> fin y \<Longrightarrow> fin (x + y)"
  by (auto simp: fin_def)

lemma fin_diff [fsign]: "fin x \<Longrightarrow> fin y \<Longrightarrow> fin (x - y)"
  by (auto simp: fin_def)

lemma fin_mult [fsign]: "fin x \<Longrightarrow> fin y \<Longrightarrow> fin (x * y)"
  by (auto simp: fin_def)

lemma fin_div [fsign]: "fin x \<Longrightarrow> fpos y \<Longrightarrow> fin (x / y)"
  by (auto simp: fin_def fpos_def)

lemma fpos_iff: "fpos x \<longleftrightarrow> 0 < x \<and> fin x"
  by (cases x) (auto simp: fpos_def fin_def dbl_zero)

lemma fnn_fposI: "fnn x \<Longrightarrow> 0 < x \<Longrightarrow> fpos x"
  by (auto simp: fpos_def fnn_def dbl_zero)

lemma fpos_zero_less: "fpos x \<Longrightarrow> 0 < x"
  by (simp add: fpos_iff)

lemma fnn_iff: "fnn x \<longleftrightarrow> 0 \<le> x \<and> fin x"
  by (cases x) (auto simp: fnn_def fin_def dbl_zero)

subsection \<open>The functions of math.h\<close>

fun dlog :: "dbl \<Rightarrow> dbl" where
  "dlog (Fin r) = (if 0 < r then Fin (ln r) else if r = 0 then NInf else NaN)"
| "dlog PInf = PInf"
| "dlog _ = NaN"

fun dlog2 :: "dbl \<Rightarrow> dbl" where
  "dlog2 (Fin r) = (if 0 < r then Fin (log 2 r) else if r = 0 then NInf else NaN)"
| "dlog2 PInf = PInf"
| "dlog2 _ = NaN"

fun dsqrt :: "dbl \<Rightarrow> dbl" where
  "dsqrt (Fin r) = (if 0 \<le> r then Fin (sqrt r) else NaN)"
| "dsqrt PInf = PInf"
| "dsqrt _ = NaN"

fun dceil :: "dbl \<Rightarrow> dbl" where
  "dceil (Fin r) = Fin (of_int \<lceil>r\<rceil>)"
| "dceil x = x"

fun dfloor :: "dbl \<Rightarrow> dbl" where
  "dfloor (Fin r) = Fin (of_int \<lfloor>r\<rfloor>)"
| "dfloor x = x"

fun dfabs :: "dbl \<Rightarrow> dbl" where
  "dfabs (Fin r) = Fin \<bar>r\<bar>"
| "dfabs NInf = PInf"
| "dfabs x = x"

text \<open>
  \<open>pow\<close> as the C standard defines it (annex F), for the arguments the program can give: the
  special cases \<open>pow(x, 0) = pow(1, y) = 1\<close> come first, NaN arguments give NaN, infinite exponents
  compare the base's magnitude with one.
\<close>

definition real_pow :: "real \<Rightarrow> real \<Rightarrow> dbl" where
  "real_pow a b =
     (if 0 < a then Fin (a powr b)
      else if a = 0 then (if 0 < b then Fin 0 else PInf)
      else if b = of_int \<lfloor>b\<rfloor>
        then Fin ((if even \<lfloor>b\<rfloor> then 1 else - 1) * ((- a) powr b))
      else NaN)"

definition dpow :: "dbl \<Rightarrow> dbl \<Rightarrow> dbl" where
  "dpow x y =
     (if y = Fin 0 \<or> x = Fin 1 then Fin 1
      else case (x, y) of
        (Fin a, Fin b) \<Rightarrow> real_pow a b
      | (Fin a, PInf) \<Rightarrow> (if \<bar>a\<bar> < 1 then Fin 0 else if \<bar>a\<bar> = 1 then Fin 1 else PInf)
      | (Fin a, NInf) \<Rightarrow> (if \<bar>a\<bar> < 1 then PInf else if \<bar>a\<bar> = 1 then Fin 1 else Fin 0)
      | (PInf, Fin b) \<Rightarrow> (if b < 0 then Fin 0 else PInf)
      | (NInf, Fin b) \<Rightarrow> (if b < 0 then Fin 0
                          else if b = of_int \<lfloor>b\<rfloor> \<and> odd \<lfloor>b\<rfloor> then NInf else PInf)
      | (PInf, PInf) \<Rightarrow> PInf
      | (PInf, NInf) \<Rightarrow> Fin 0
      | (NInf, PInf) \<Rightarrow> PInf
      | (NInf, NInf) \<Rightarrow> Fin 0
      | _ \<Rightarrow> NaN)"

lemma dpow_Fin [simp]: "0 < a \<Longrightarrow> dpow (Fin a) (Fin b) = Fin (a powr b)"
  by (auto simp: dpow_def real_pow_def)

lemma fpos_pow [fsign]: "fpos x \<Longrightarrow> fin y \<Longrightarrow> fpos (dpow x y)"
  by (auto simp: fpos_def fin_def)

lemma fnn_sqrt [fsign]: "fnn x \<Longrightarrow> fnn (dsqrt x)"
  by (auto simp: fnn_def)

lemma fpos_sqrt [fsign]: "fpos x \<Longrightarrow> fpos (dsqrt x)"
  by (auto simp: fpos_def)

lemma fin_log [fsign]: "fpos x \<Longrightarrow> fin (dlog x)"
  by (auto simp: fpos_def)

subsection \<open>Integers as doubles\<close>

definition i2d :: "int \<Rightarrow> dbl" where
  "i2d n = Fin (of_int n)"

lemma fin_i2d [simp, fsign]: "fin (i2d n)" by (simp add: i2d_def)
lemma fnn_i2d [simp, fsign]: "fnn (i2d n) = (0 \<le> n)" by (simp add: i2d_def)
lemma fpos_i2d [simp, fsign]: "fpos (i2d n) = (0 < n)" by (simp add: i2d_def)

subsection \<open>The macros MAX and MIN and the function std::max\<close>

definition cMAX :: "'a::ord \<Rightarrow> 'a \<Rightarrow> 'a" where
  "cMAX a b = (if b < a then a else b)"

definition cMIN :: "'a::ord \<Rightarrow> 'a \<Rightarrow> 'a" where
  "cMIN a b = (if a < b then a else b)"

definition std_max :: "'a::ord \<Rightarrow> 'a \<Rightarrow> 'a" where
  "std_max a b = (if a < b then b else a)"

lemma MAX_Fin [simp]: "cMAX (Fin a) (Fin b) = Fin (max a b)"
  by (simp add: cMAX_def max_def)

lemma MIN_Fin [simp]: "cMIN (Fin a) (Fin b) = Fin (min a b)"
  by (simp add: cMIN_def min_def)

lemma std_max_Fin [simp]: "std_max (Fin a) (Fin b) = Fin (max a b)"
  by (simp add: std_max_def max_def)

lemma MAX_int [simp]: "cMAX a b = max a (b::int)"
  by (simp add: cMAX_def max_def)

lemma MIN_int [simp]: "cMIN a b = min a (b::int)"
  by (simp add: cMIN_def min_def)

lemma fnn_MAX [fsign]: "fnn x \<Longrightarrow> fnn y \<Longrightarrow> fnn (cMAX x y)"
  by (auto simp: cMAX_def)

lemma fpos_MAX [fsign]: "fpos x \<Longrightarrow> fpos y \<Longrightarrow> fpos (cMAX x y)"
  by (auto simp: cMAX_def)

lemma fpos_MAX1 [fsign]: "fpos x \<Longrightarrow> fnn y \<Longrightarrow> fpos (cMAX x y)"
  by (auto simp: fpos_def fnn_def)

lemma fpos_MAX2 [fsign]: "fnn x \<Longrightarrow> fpos y \<Longrightarrow> fpos (cMAX x y)"
  by (auto simp: fpos_def fnn_def)

lemma fin_MAX [fsign]: "fin x \<Longrightarrow> fin y \<Longrightarrow> fin (cMAX x y)"
  by (auto simp: cMAX_def)

lemma fnn_std_max [fsign]: "fnn x \<Longrightarrow> fnn y \<Longrightarrow> fnn (std_max x y)"
  by (auto simp: std_max_def)

lemma fpos_std_max1 [fsign]: "fpos x \<Longrightarrow> fnn y \<Longrightarrow> fpos (std_max x y)"
  by (auto simp: fpos_def fnn_def)

lemma fpos_std_max2 [fsign]: "fnn x \<Longrightarrow> fpos y \<Longrightarrow> fpos (std_max x y)"
  by (auto simp: fpos_def fnn_def)

lemma fpos_mult_commute: "fpos x \<Longrightarrow> fpos y \<Longrightarrow> x * y = y * x"
  by (auto simp: fpos_def)

lemma dleq_MAX: "fin x \<Longrightarrow> fin y \<Longrightarrow> x \<le> cMAX x y \<and> y \<le> cMAX x y"
  by (auto simp: fin_def)

end
