(* ===== verification/Prelude.thy ===== *)
theory Prelude
  imports Dbl "HOL-Library.Monad_Syntax" "HOL-Library.Signed_Division"
begin

text \<open>
  What every component of the model shares: the outcome of a C++ computation, arrays with their
  bounds, casts between \<open>double\<close> and \<open>int\<close>, counted loops and the doubling loops of the design
  space exploration.
\<close>

subsection \<open>Outcomes\<close>

text \<open>
  A call either returns a value or aborts: with \<open>Exit\<close>, where the code calls \<open>exit(-1)\<close> or an
  \<open>assert\<close> fails, with \<open>Undef\<close>, where it runs into undefined behaviour (an index outside an
  array, a cast of a value that does not fit, a shift by too much), or with \<open>Diverge\<close>, where a
  loop does not end.
\<close>

datatype abort = Exit | Undef | Diverge

type_synonym 'a res = "abort + 'a"

definition ebind :: "'a res \<Rightarrow> ('a \<Rightarrow> 'b res) \<Rightarrow> 'b res" where
  "ebind m f = (case m of Inl e \<Rightarrow> Inl e | Inr x \<Rightarrow> f x)"

lemma ebind_simps [simp]: "ebind (Inl e) f = Inl e" "ebind (Inr x) f = f x"
  by (simp_all add: ebind_def)

lemma ebind_Inr: "ebind m f = Inr y \<longleftrightarrow> (\<exists>x. m = Inr x \<and> f x = Inr y)"
  by (cases m) simp_all

lemma ebind_InrE [elim!]:
  assumes "ebind m f = Inr y" obtains x where "m = Inr x" "f x = Inr y"
  using assms by (auto simp: ebind_Inr)

lemma ebind_cong [fundef_cong]:
  "m = m' \<Longrightarrow> (\<And>x. m' = Inr x \<Longrightarrow> f x = g x) \<Longrightarrow> ebind m f = ebind m' g"
  by (cases m') auto

definition guard_exit :: "bool \<Rightarrow> unit res" where
  "guard_exit b = (if b then Inr () else Inl Exit)"

lemma guard_exit_Inr [simp]: "guard_exit b = Inr u \<longleftrightarrow> b"
  by (simp add: guard_exit_def)

lemma guard_exit_True [simp]: "guard_exit True = Inr ()"
  by (simp add: guard_exit_def)

subsection \<open>Arrays\<close>

definition aget :: "'a list \<Rightarrow> int \<Rightarrow> 'a res" where
  "aget xs i = (if 0 \<le> i \<and> i < int (length xs) then Inr (xs ! nat i) else Inl Undef)"

definition aset :: "'a list \<Rightarrow> int \<Rightarrow> 'a \<Rightarrow> 'a list res" where
  "aset xs i v = (if 0 \<le> i \<and> i < int (length xs) then Inr (xs[nat i := v]) else Inl Undef)"

lemma aget_Inr: "aget xs i = Inr v \<longleftrightarrow> 0 \<le> i \<and> i < int (length xs) \<and> v = xs ! nat i"
  by (auto simp: aget_def)

lemma aset_Inr: "aset xs i v = Inr ys \<longleftrightarrow> 0 \<le> i \<and> i < int (length xs) \<and> ys = xs[nat i := v]"
  by (auto simp: aset_def)

lemma aget_in [simp]: "0 \<le> i \<Longrightarrow> i < int (length xs) \<Longrightarrow> aget xs i = Inr (xs ! nat i)"
  by (simp add: aget_def)

lemma aset_in [simp]: "0 \<le> i \<Longrightarrow> i < int (length xs) \<Longrightarrow> aset xs i v = Inr (xs[nat i := v])"
  by (simp add: aset_def)

lemma aset_length: "aset xs i v = Inr ys \<Longrightarrow> length ys = length xs"
  by (auto simp: aset_Inr)

lemma aget_aset: "aset xs i v = Inr ys \<Longrightarrow> aget ys j = (if j = i then Inr v else aget xs j)"
  by (auto simp: aset_Inr aget_def nth_list_update)

text \<open>
  An array that \<open>new\<close> allocates holds no values yet, \<open>None\<close>; reading such an element is undefined.
\<close>

definition uget :: "'a option list \<Rightarrow> int \<Rightarrow> 'a res" where
  "uget xs i = ebind (aget xs i) (\<lambda>x. case x of None \<Rightarrow> Inl Undef | Some v \<Rightarrow> Inr v)"

definition uset :: "'a option list \<Rightarrow> int \<Rightarrow> 'a \<Rightarrow> 'a option list res" where
  "uset xs i v = aset xs i (Some v)"

lemma uset_length: "uset xs i v = Inr ys \<Longrightarrow> length ys = length xs"
  by (auto simp: uset_def aset_length)

lemma uget_uset: "uset xs i v = Inr ys \<Longrightarrow> uget ys j = (if j = i then Inr v else uget xs j)"
  by (auto simp: uget_def uset_def aget_aset)

lemma uset_ok: "0 \<le> i \<Longrightarrow> i < int (length xs) \<Longrightarrow> uset xs i v = Inr (xs[nat i := Some v])"
  by (simp add: uset_def aset_def)

subsection \<open>Casts\<close>

text \<open>
  \<open>(int)x\<close> truncates towards zero; a value whose integral part does not fit in 32 bits, and the
  exceptional values, are undefined behaviour.
\<close>

definition trunc :: "real \<Rightarrow> int" where
  "trunc r = (if 0 \<le> r then \<lfloor>r\<rfloor> else \<lceil>r\<rceil>)"

definition int_ok :: "int \<Rightarrow> bool" where
  "int_ok n \<longleftrightarrow> - (2 ^ 31) \<le> n \<and> n < 2 ^ 31"

definition d2i :: "dbl \<Rightarrow> int res" where
  "d2i x = (case x of Fin r \<Rightarrow> (if int_ok (trunc r) then Inr (trunc r) else Inl Undef)
            | _ \<Rightarrow> Inl Undef)"

lemma d2i_Inr: "d2i x = Inr n \<longleftrightarrow> (\<exists>r. x = Fin r \<and> n = trunc r \<and> int_ok n)"
  by (cases x) (auto simp: d2i_def)

lemma d2i_Fin: "int_ok (trunc r) \<Longrightarrow> d2i (Fin r) = Inr (trunc r)"
  by (simp add: d2i_def)

text \<open>The product of two 32-bit integers, undefined when it overflows.\<close>

definition imul :: "int \<Rightarrow> int \<Rightarrow> int res" where
  "imul a b = (if int_ok (a * b) then Inr (a * b) else Inl Undef)"

text \<open>The division of C++, which truncates and is undefined for a zero divisor.\<close>

definition cdiv :: "int \<Rightarrow> int \<Rightarrow> int res" where
  "cdiv a b = (if b = 0 then Inl Undef else Inr (a sdiv b))"

definition cmod :: "int \<Rightarrow> int \<Rightarrow> int res" where
  "cmod a b = (if b = 0 then Inl Undef else Inr (a smod b))"

lemma cdiv_nonneg: "0 \<le> a \<Longrightarrow> 0 < b \<Longrightarrow> cdiv a b = Inr (a div b)"
  by (simp add: cdiv_def signed_divide_int_def sgn_if)

lemma cdiv_dvd: "0 < b \<Longrightarrow> 0 \<le> a \<Longrightarrow> b dvd a \<Longrightarrow> cdiv a b = Inr q \<Longrightarrow> a = q * b"
  by (auto simp: cdiv_nonneg)

text \<open>Two's complement: what a conversion to a 32-bit integer keeps.\<close>

definition wrap32 :: "int \<Rightarrow> int" where
  "wrap32 x = (x + 2147483648) mod 4294967296 - 2147483648"

lemma wrap32_id: "int_ok x \<Longrightarrow> wrap32 x = x"
  by (simp add: wrap32_def int_ok_def)

lemma wrap32_0 [simp]: "wrap32 0 = 0"
  by (simp add: wrap32_def)

text \<open>
  A block of a function that may return from the function early: \<open>Return\<close> carries what the
  function returns, \<open>Go\<close> what the code behind the block goes on with.
\<close>

datatype ('r, 'a) early = Return 'r | Go 'a

definition fbind :: "('r, 'a) early res \<Rightarrow> ('a \<Rightarrow> ('r, 'b) early res) \<Rightarrow> ('r, 'b) early res" where
  "fbind m f = ebind m (\<lambda>x. case x of Return r \<Rightarrow> Inr (Return r) | Go a \<Rightarrow> f a)"

definition finish :: "('r, 'r) early res \<Rightarrow> 'r res" where
  "finish m = ebind m (\<lambda>x. case x of Return r \<Rightarrow> Inr r | Go r \<Rightarrow> Inr r)"

lemma fbind_simps [simp]:
  "fbind (Inl e) f = Inl e" "fbind (Inr (Return r)) f = Inr (Return r)" "fbind (Inr (Go a)) f = f a"
  by (simp_all add: fbind_def)

lemma finish_simps [simp]:
  "finish (Inl e) = Inl e" "finish (Inr (Return r)) = Inr r" "finish (Inr (Go r)) = Inr r"
  by (simp_all add: finish_def)

lemma fbind_cong [fundef_cong]:
  "m = m' \<Longrightarrow> (\<And>a. m' = Inr (Go a) \<Longrightarrow> f a = g a) \<Longrightarrow> fbind m f = fbind m' g"
  by (auto simp: fbind_def ebind_def split: sum.splits early.splits)

lemma fbind_Go: "fbind m f = Inr (Go b) \<longleftrightarrow> (\<exists>a. m = Inr (Go a) \<and> f a = Inr (Go b))"
  by (auto simp: fbind_def ebind_def split: sum.splits early.splits)

lemma fbind_Return:
  "fbind m f = Inr (Return r) \<longleftrightarrow> m = Inr (Return r) \<or> (\<exists>a. m = Inr (Go a) \<and> f a = Inr (Return r))"
  by (auto simp: fbind_def ebind_def split: sum.splits early.splits)

lemma finish_Inr: "finish m = Inr r \<longleftrightarrow> m = Inr (Return r) \<or> m = Inr (Go r)"
  by (auto simp: finish_def ebind_def split: sum.splits early.splits)

lemma early_cases:
  obtains (abort) e where "m = Inl e" | (ret) r where "m = Inr (Return r)" | (go) a where "m = Inr (Go a)"
  by (metis early.exhaust sum.exhaust)

text \<open>
  A property that every state a block passes on or returns has: it carries over to a sequence of
  blocks.
\<close>

definition always :: "('s \<Rightarrow> bool) \<Rightarrow> ('s, 's) early res \<Rightarrow> bool" where
  "always P m \<longleftrightarrow> (case m of Inr (Return s) \<Rightarrow> P s | Inr (Go s) \<Rightarrow> P s | Inl _ \<Rightarrow> True)"

lemma always_simps [simp]:
  "always P (Inl e)" "always P (Inr (Return s)) = P s" "always P (Inr (Go s)) = P s"
  by (simp_all add: always_def)

lemma always_fbind: "always P m \<Longrightarrow> (\<And>s. P s \<Longrightarrow> always P (f s)) \<Longrightarrow> always P (fbind m f)"
  by (cases m rule: early_cases) auto

lemma always_ebind: "(\<And>x. m = Inr x \<Longrightarrow> always P (f x)) \<Longrightarrow> always P (ebind m f)"
  by (cases m) simp_all

lemma always_finish: "always P m \<Longrightarrow> finish m = Inr s \<Longrightarrow> P s"
  by (auto simp: finish_Inr)

text \<open>A loop of which \<open>None\<close> says that it does not end.\<close>

definition ended :: "'a option \<Rightarrow> 'a res" where
  "ended x = (case x of None \<Rightarrow> Inl Diverge | Some y \<Rightarrow> Inr y)"

lemma ended_simps [simp]: "ended None = Inl Diverge" "ended (Some y) = Inr y"
  by (simp_all add: ended_def)

lemma trunc_of_int [simp]: "trunc (of_int n) = n"
  by (simp add: trunc_def)

lemma trunc_nonneg: "0 \<le> r \<Longrightarrow> 0 \<le> trunc r"
  by (simp add: trunc_def)

lemma trunc_eqI: "of_int n \<le> r \<Longrightarrow> r < of_int n + 1 \<Longrightarrow> 0 \<le> n \<Longrightarrow> trunc r = n"
  by (simp add: trunc_def floor_eq_iff)

lemma int_ok_small: "0 \<le> n \<Longrightarrow> n < 2147483648 \<Longrightarrow> int_ok n"
  by (simp add: int_ok_def)

subsection \<open>The idiom (int)(log2(x) + 0.1)\<close>

text \<open>
  The program takes the logarithm of a power of two with \<open>(int)(log2(x) + 0.1)\<close>, the 0.1 against
  rounding.
\<close>

definition ilog2 :: "dbl \<Rightarrow> int res" where
  "ilog2 x = d2i (dlog2 x + 1 / 10)"

lemma ilog2_pow2: "k < 2 ^ 30 \<Longrightarrow> ilog2 (Fin (2 ^ k)) = Inr (int k)"
proof -
  assume k: "k < 2 ^ 30"
  have "trunc (real k + 1 / 10) = int k"
    by (rule trunc_eqI) simp_all
  moreover have "int_ok (int k)" using k by (simp add: int_ok_def)
  ultimately show ?thesis
    by (simp add: ilog2_def dbl_lits log_nat_power d2i_def)
qed

subsection \<open>Counted loops\<close>

fun efold :: "('a \<Rightarrow> 's \<Rightarrow> 's res) \<Rightarrow> 'a list \<Rightarrow> 's \<Rightarrow> 's res" where
  "efold f [] s = Inr s"
| "efold f (x # xs) s = ebind (f x s) (efold f xs)"

lemma efold_append: "efold f (xs @ ys) s = ebind (efold f xs s) (efold f ys)"
  by (induction xs arbitrary: s) (auto simp: ebind_def split: sum.splits)

lemma efold_inv:
  assumes "efold f xs s = Inr t" "P s"
    and "\<And>x u v. x \<in> set xs \<Longrightarrow> P u \<Longrightarrow> f x u = Inr v \<Longrightarrow> P v"
  shows "P t"
  using assms
proof (induction xs arbitrary: s)
  case Nil
  then show ?case by simp
next
  case (Cons x xs)
  from Cons.prems(1) obtain u where "f x s = Inr u" "efold f xs u = Inr t" by auto
  with Cons.IH [of u] Cons.prems(2,3) show ?case by (meson list.set_intros)
qed

lemma efold_total:
  assumes "P s" "\<And>x u. x \<in> set xs \<Longrightarrow> P u \<Longrightarrow> \<exists>v. f x u = Inr v \<and> P v"
  shows "\<exists>t. efold f xs s = Inr t \<and> P t"
  using assms
proof (induction xs arbitrary: s)
  case Nil
  then show ?case by simp
next
  case (Cons x xs)
  from Cons.prems(2) [of x s] Cons.prems(1) obtain u where u: "f x s = Inr u" "P u" by auto
  with Cons.IH [of u] Cons.prems(2) show ?case by simp
qed

text \<open>\<open>for (i = lo; i < hi; i++)\<close> and \<open>for (i = hi; i >= lo; i--)\<close>.\<close>

definition for_up :: "int \<Rightarrow> int \<Rightarrow> (int \<Rightarrow> 's \<Rightarrow> 's res) \<Rightarrow> 's \<Rightarrow> 's res" where
  "for_up lo hi f = efold f [lo..hi - 1]"

definition for_down :: "int \<Rightarrow> int \<Rightarrow> (int \<Rightarrow> 's \<Rightarrow> 's res) \<Rightarrow> 's \<Rightarrow> 's res" where
  "for_down hi lo f = efold f (rev [lo..hi])"

lemma for_up_empty [simp]: "hi \<le> lo \<Longrightarrow> for_up lo hi f s = Inr s"
  by (simp add: for_up_def)

lemma for_up_step: "lo < hi \<Longrightarrow> for_up lo hi f s = ebind (f lo s) (for_up (lo + 1) hi f)"
  by (simp add: for_up_def upto_rec1)

lemma for_up_last:
  assumes "lo \<le> hi" shows "for_up lo (hi + 1) f s = ebind (for_up lo hi f s) (f hi)"
proof -
  have "[lo..hi] = [lo..hi - 1] @ [hi]" using assms by (simp add: upto_rec2)
  moreover have "efold f [hi] = f hi" by (rule ext) (simp add: ebind_def split: sum.splits)
  ultimately show ?thesis by (simp add: for_up_def efold_append)
qed

lemma for_up_total:
  assumes "lo \<le> hi" "P lo s"
    "\<And>i u. lo \<le> i \<Longrightarrow> i < hi \<Longrightarrow> P i u \<Longrightarrow> \<exists>v. f i u = Inr v \<and> P (i + 1) v"
  shows "\<exists>t. for_up lo hi f s = Inr t \<and> P hi t"
  using assms
proof (induction "nat (hi - lo)" arbitrary: lo s)
  case 0
  then have "hi = lo" by simp
  with 0 show ?case by simp
next
  case (Suc n)
  then have lt: "lo < hi" by simp
  with Suc.prems(2,3) obtain v where v: "f lo s = Inr v" "P (lo + 1) v" by blast
  with Suc.hyps(1) [of "lo + 1" v] Suc.hyps(2) Suc.prems(3) lt obtain t where
    "for_up (lo + 1) hi f v = Inr t" "P hi t" by fastforce
  with v lt show ?case by (simp add: for_up_step)
qed

lemma for_down_empty [simp]: "hi < lo \<Longrightarrow> for_down hi lo f s = Inr s"
  by (simp add: for_down_def)

lemma for_down_step: "lo \<le> hi \<Longrightarrow> for_down hi lo f s = ebind (f hi s) (for_down (hi - 1) lo f)"
  by (simp add: for_down_def upto_rec2)

subsection \<open>Powers of two\<close>

definition pow2 :: "int \<Rightarrow> bool" where
  "pow2 n \<longleftrightarrow> (\<exists>k::nat. n = 2 ^ k)"

lemma pow2_I [intro, simp]: "pow2 (2 ^ k)" by (auto simp: pow2_def)

lemma pow2_1 [simp]: "pow2 1" by (auto simp: pow2_def intro: exI [of _ 0])

lemma pow2_2 [simp]: "pow2 2" by (auto simp: pow2_def intro: exI [of _ 1])

lemma pow2_pos: "pow2 n \<Longrightarrow> 0 < n" by (auto simp: pow2_def)

lemma pow2_mult [intro]: "pow2 a \<Longrightarrow> pow2 b \<Longrightarrow> pow2 (a * b)"
  by (auto simp: pow2_def power_add [symmetric])

lemma pow2_le_dvd: "pow2 a \<Longrightarrow> pow2 b \<Longrightarrow> a \<le> b \<Longrightarrow> a dvd b"
  by (auto simp: pow2_def le_imp_power_dvd)

lemma pow2_div: "pow2 a \<Longrightarrow> pow2 b \<Longrightarrow> a \<le> b \<Longrightarrow> pow2 (b div a)"
  by (auto simp: pow2_def power_diff [symmetric])

lemma pow2_double: "pow2 (2 * m) \<longleftrightarrow> pow2 m"
proof
  assume "pow2 (2 * m)"
  then obtain k where k: "2 * m = 2 ^ k" by (auto simp: pow2_def)
  show "pow2 m"
  proof (cases k)
    case 0
    with k have "2 * m = 1" by simp
    then have False by presburger
    then show ?thesis ..
  next
    case (Suc j)
    with k show ?thesis by simp
  qed
next
  assume "pow2 m"
  then show "pow2 (2 * m)" by (rule pow2_mult [OF pow2_2])
qed

lemma pow2_odd: "pow2 (2 * m + 1) \<longleftrightarrow> m = 0"
proof
  assume "pow2 (2 * m + 1)"
  then obtain k where k: "2 * m + 1 = 2 ^ k" by (auto simp: pow2_def)
  show "m = 0"
  proof (cases k)
    case 0
    with k show ?thesis by simp
  next
    case (Suc j)
    with k have "2 * m + 1 = 2 * 2 ^ j" by simp
    then show ?thesis by presburger
  qed
qed simp

subsection \<open>Doubling loops\<close>

text \<open>
  \<open>for (x = lo; x <= hi; x *= 2)\<close>: the values of \<open>x\<close> in order, where \<open>x\<close> is a 32-bit integer and
  its doubling wraps.  From a value that is not positive, or up to a bound of \<open>2^30\<close> or more, the
  loop does not end, which is the value \<open>None\<close>.
\<close>

partial_function (option) doubling :: "int \<Rightarrow> int \<Rightarrow> int list option" where
  "doubling x hi =
     (if x \<le> hi then do { xs \<leftarrow> doubling (wrap32 (x * 2)) hi; Some (x # xs) } else Some [])"

abbreviation (input) loop_bound :: "int \<Rightarrow> bool" where
  "loop_bound hi \<equiv> hi < 1073741824"

lemma doubling_above: "hi < x \<Longrightarrow> doubling x hi = Some []"
  by (simp add: doubling.simps)

lemma doubling_unfold:
  "x \<le> hi \<Longrightarrow> doubling x hi = do { xs \<leftarrow> doubling (wrap32 (x * 2)) hi; Some (x # xs) }"
  by (subst doubling.simps) simp

lemma doubling_step:
  assumes "0 < x" "x \<le> hi" "loop_bound hi"
  shows "doubling x hi = do { xs \<leftarrow> doubling (x * 2) hi; Some (x # xs) }"
proof -
  have "wrap32 (x * 2) = x * 2" by (rule wrap32_id) (use assms in \<open>simp add: int_ok_def\<close>)
  then show ?thesis using doubling_unfold [OF assms(2)] by simp
qed

lemma doubling_total: "0 < x \<Longrightarrow> loop_bound hi \<Longrightarrow> \<exists>xs. doubling x hi = Some xs"
proof (induction "nat (hi + 1 - x)" arbitrary: x rule: less_induct)
  case less
  show ?case
  proof (cases "x \<le> hi")
    case True
    with less.hyps [of "x * 2"] less.prems obtain xs where "doubling (x * 2) hi = Some xs"
      by fastforce
    with True less.prems show ?thesis by (simp add: doubling_step)
  next
    case False
    then show ?thesis by (simp add: doubling_above)
  qed
qed

lemma doubling_sound:
  "doubling x hi = Some xs \<Longrightarrow> 0 < x \<Longrightarrow> loop_bound hi \<Longrightarrow> y \<in> set xs
   \<Longrightarrow> \<exists>k::nat. y = x * 2 ^ k \<and> y \<le> hi"
proof (induction xs arbitrary: x)
  case Nil
  then show ?case by simp
next
  case (Cons z zs)
  from Cons.prems(1) have le: "x \<le> hi"
    by (cases "x \<le> hi") (auto simp: doubling_above)
  with Cons.prems have z: "z = x" and zs: "doubling (x * 2) hi = Some zs"
    by (auto simp: doubling_step bind_eq_Some_conv)
  show ?case
  proof (cases "y = x")
    case True
    with le show ?thesis by (auto intro!: exI [of _ 0])
  next
    case False
    with Cons.prems(4) z have "y \<in> set zs" by simp
    with Cons.IH [OF zs _ Cons.prems(3)] Cons.prems(2) obtain k where "y = x * 2 * 2 ^ k" "y \<le> hi"
      by auto
    then have "y = x * 2 ^ Suc k" by simp
    with \<open>y \<le> hi\<close> show ?thesis by blast
  qed
qed

lemma doubling_complete:
  "doubling x hi = Some xs \<Longrightarrow> 0 < x \<Longrightarrow> loop_bound hi \<Longrightarrow> x * 2 ^ k \<le> hi \<Longrightarrow> x * 2 ^ k \<in> set xs"
proof (induction k arbitrary: x xs)
  case 0
  then show ?case by (auto simp: doubling_step bind_eq_Some_conv)
next
  case (Suc k)
  have "x * 1 \<le> x * 2 ^ Suc k"
    using Suc.prems(2) by (intro mult_left_mono one_le_power) simp_all
  with Suc.prems(4) have le: "x \<le> hi" by linarith
  with Suc.prems(1,2,3) obtain zs where zs: "doubling (x * 2) hi = Some zs" "xs = x # zs"
    by (auto simp: doubling_step bind_eq_Some_conv)
  with Suc.IH [of "x * 2" zs] Suc.prems show ?case by (simp add: mult.assoc)
qed

lemma doubling_pow2:
  "doubling x hi = Some xs \<Longrightarrow> pow2 x \<Longrightarrow> loop_bound hi \<Longrightarrow> y \<in> set xs \<Longrightarrow> pow2 y \<and> x \<le> y \<and> y \<le> hi"
proof -
  assume a: "doubling x hi = Some xs" "pow2 x" "loop_bound hi" "y \<in> set xs"
  then obtain k where k: "y = x * 2 ^ k" "y \<le> hi" using doubling_sound pow2_pos by blast
  have "x \<le> x * 2 ^ k" using pow2_pos [OF a(2)] by simp
  with k a(2) show ?thesis by auto
qed

text \<open>What the loop visits, once it ends.\<close>

lemma doubling_set:
  assumes "0 < x" "loop_bound hi"
  shows "\<exists>xs. doubling x hi = Some xs \<and> set xs = {y. \<exists>k::nat. y = x * 2 ^ k \<and> y \<le> hi}"
proof -
  obtain xs where xs: "doubling x hi = Some xs" using doubling_total [OF assms] ..
  have "set xs = {y. \<exists>k::nat. y = x * 2 ^ k \<and> y \<le> hi}"
    using doubling_sound [OF xs assms] doubling_complete [OF xs assms] by auto
  with xs show ?thesis by blast
qed

text \<open>From zero the loop does not end.\<close>

lemma doubling_zero:
  assumes "0 \<le> hi" shows "doubling 0 hi = None"
proof (rule ccontr)
  assume "doubling 0 hi \<noteq> None"
  then obtain xs where xs: "doubling 0 hi = Some xs" by auto
  have step: "doubling 0 hi = do { ys \<leftarrow> doubling 0 hi; Some (0 # ys) }"
    using doubling_unfold [OF assms] by simp
  from xs show False
  proof (induction xs)
    case Nil
    then show ?case using step by (metis bind_eq_Some_conv list.distinct(1) option.inject)
  next
    case (Cons a xs)
    then show ?case using step by (metis bind_eq_Some_conv list.inject option.inject)
  qed
qed

subsection \<open>Keeping the best\<close>

text \<open>
  A search keeps the candidate it has and replaces it by an admissible one that is strictly better.
  Strictness is all that is needed of the comparison: it may leave candidates incomparable, as the
  comparison of doubles does with NaN.
\<close>

definition keep :: "('a \<Rightarrow> 'a \<Rightarrow> bool) \<Rightarrow> ('a \<Rightarrow> bool) \<Rightarrow> 'a \<Rightarrow> 'a \<Rightarrow> 'a" where
  "keep better ok x b = (if ok x \<and> better x b then x else b)"

locale keeper =
  fixes better :: "'a \<Rightarrow> 'a \<Rightarrow> bool" and ok :: "'a \<Rightarrow> bool"
  assumes irrefl: "\<not> better x x"
    and trans: "better x y \<Longrightarrow> better y z \<Longrightarrow> better x z"
begin

text \<open>The candidate never gets worse.\<close>

lemma fold_mono: "better x (fold (keep better ok) xs b) \<Longrightarrow> better x b"
proof (induction xs arbitrary: b)
  case (Cons y ys)
  then have b: "better x (keep better ok y b)" by simp
  show ?case
  proof (cases "ok y \<and> better y b")
    case True
    then have "better x y" using b by (simp add: keep_def)
    then show ?thesis using trans True by blast
  next
    case False
    then show ?thesis using b by (auto simp: keep_def split: if_splits)
  qed
qed simp

text \<open>No admissible candidate is better than the one kept.\<close>

lemma fold_best: "y \<in> set xs \<Longrightarrow> ok y \<Longrightarrow> \<not> better y (fold (keep better ok) xs b)"
proof (induction xs arbitrary: b)
  case (Cons z zs)
  show ?case
  proof (cases "y = z")
    case True
    then have "\<not> better y (keep better ok z b)"
      using Cons.prems(2) irrefl [of z] by (simp add: keep_def)
    then show ?thesis using fold_mono [of y zs "keep better ok z b"] by auto
  next
    case False
    then show ?thesis using Cons.IH [of "keep better ok z b"] Cons.prems by simp
  qed
qed simp

text \<open>The one kept is the first one or an admissible one that is better.\<close>

lemma fold_source:
  "fold (keep better ok) xs b = b
   \<or> fold (keep better ok) xs b \<in> set xs \<and> ok (fold (keep better ok) xs b)
      \<and> better (fold (keep better ok) xs b) b"
proof (induction xs arbitrary: b)
  case (Cons z zs)
  show ?case
  proof (cases "ok z \<and> better z b")
    case True
    then have k: "keep better ok z b = z" by (simp add: keep_def)
    show ?thesis using Cons [of z] trans [OF _ conjunct2 [OF True]] True by (simp add: k) metis
  next
    case False
    then have "keep better ok z b = b" by (auto simp: keep_def)
    then show ?thesis using Cons [of b] by auto
  qed
qed simp

end

end
