(* ===== verification/Types.thy ===== *)
theory Types
  imports Prelude
begin

text \<open>
  The enumerations of \<open>typedef.h\<close>, the constants of \<open>constant.h\<close> and \<open>global.h\<close>, and the record of
  the configuration (\<open>InputParameter\<close>, the fields that are not search ranges).
\<close>

subsection \<open>typedef.h\<close>

datatype MemCellType = SRAM | DRAM | eDRAM | MRAM | PCRAM | memristor | FBRAM | SLCNAND | MLCNAND

datatype CellAccessType = CMOS_access | BJT_access | diode_access | none_access

datatype DeviceRoadmap = HP | LSTP | LOP | EDRAM

datatype WireType = local_aggressive | local_conservative | semi_aggressive | semi_conservative
  | global_aggressive | global_conservative | dram_wordline

datatype WireRepeaterType = repeated_none | repeated_opt | repeated_5 | repeated_10 | repeated_20
  | repeated_30 | repeated_40 | repeated_50

datatype BufferDesignTarget = latency_first | latency_area_trade_off | area_first

datatype MemoryType = data | tag | CAM

datatype RoutingMode = h_tree | non_h_tree

datatype WriteScheme = set_before_reset | reset_before_set | erase_before_set | erase_before_reset
  | write_and_verify | normal_write

datatype DesignTarget = cache | RAM_chip | CAM_chip

datatype OptimizationTarget = read_latency_optimized | write_latency_optimized
  | read_energy_optimized | write_energy_optimized | read_edp_optimized | write_edp_optimized
  | leakage_optimized | area_optimized | full_exploration

datatype CacheAccessMode = normal_access_mode | sequential_access_mode | fast_access_mode

datatype TSV_type = Fine | Coarse

text \<open>The enumerators with explicit values, as the integers that the code casts them from and to.\<close>

fun int_of_WireType :: "WireType \<Rightarrow> int" where
  "int_of_WireType local_aggressive = 0"
| "int_of_WireType local_conservative = 1"
| "int_of_WireType semi_aggressive = 2"
| "int_of_WireType semi_conservative = 3"
| "int_of_WireType global_aggressive = 4"
| "int_of_WireType global_conservative = 5"
| "int_of_WireType dram_wordline = 6"

fun int_of_TSV_type :: "TSV_type \<Rightarrow> int" where
  "int_of_TSV_type Fine = 0"
| "int_of_TSV_type Coarse = 1"

fun int_of_OptimizationTarget :: "OptimizationTarget \<Rightarrow> int" where
  "int_of_OptimizationTarget read_latency_optimized = 0"
| "int_of_OptimizationTarget write_latency_optimized = 1"
| "int_of_OptimizationTarget read_energy_optimized = 2"
| "int_of_OptimizationTarget write_energy_optimized = 3"
| "int_of_OptimizationTarget read_edp_optimized = 4"
| "int_of_OptimizationTarget write_edp_optimized = 5"
| "int_of_OptimizationTarget leakage_optimized = 6"
| "int_of_OptimizationTarget area_optimized = 7"
| "int_of_OptimizationTarget full_exploration = 8"

subsection \<open>constant.h and global.h\<close>

text \<open>A decimal literal with an exponent, \<open>lit m e\<close> for \<open>m * 10^e\<close>.\<close>

definition lit :: "int \<Rightarrow> int \<Rightarrow> dbl" where
  "lit m e = Fin (of_int m * 10 powi e)"

lemma fpos_lit [simp, fsign]: "fpos (lit m e) = (0 < m)"
proof -
  have "(0::real) < 10 powi e" by (rule zero_less_power_int) simp
  from mult_less_cancel_right_pos [OF this, of 0 "of_int m"]
  have "0 < of_int m * (10::real) powi e \<longleftrightarrow> 0 < (of_int m :: real)" by simp
  then show ?thesis by (simp only: lit_def fpos_Fin of_int_0_less_iff)
qed

lemma fin_lit [simp, fsign]: "fin (lit m e)"
  by (simp add: lit_def)

abbreviation (input) INV :: int where "INV \<equiv> 0"
abbreviation (input) NOR :: int where "NOR \<equiv> 1"
abbreviation (input) NAND :: int where "NAND \<equiv> 2"
abbreviation (input) NMOS :: int where "NMOS \<equiv> 0"
abbreviation (input) PMOS :: int where "PMOS \<equiv> 1"

abbreviation (input) MAX_INV_CHAIN_LEN :: int where "MAX_INV_CHAIN_LEN \<equiv> 20"
abbreviation (input) OPT_F :: dbl where "OPT_F \<equiv> 4"
abbreviation (input) COMPARATOR_INV_CHAIN_LEN :: int where "COMPARATOR_INV_CHAIN_LEN \<equiv> 4"
abbreviation (input) MAX_NMOS_SIZE :: dbl where "MAX_NMOS_SIZE \<equiv> 100"
abbreviation (input) MIN_NMOS_SIZE :: dbl where "MIN_NMOS_SIZE \<equiv> 3 / 2"
abbreviation (input) AREA_OPT_CONSTRAIN :: dbl where "AREA_OPT_CONSTRAIN \<equiv> 1"
abbreviation (input) MAX_TRANSISTOR_HEIGHT :: dbl where "MAX_TRANSISTOR_HEIGHT \<equiv> 20"
abbreviation (input) MIN_GAP_BET_P_AND_N_DIFFS :: dbl where "MIN_GAP_BET_P_AND_N_DIFFS \<equiv> 2"
abbreviation (input) MIN_GAP_BET_SAME_TYPE_DIFFS :: dbl where "MIN_GAP_BET_SAME_TYPE_DIFFS \<equiv> 3 / 2"
abbreviation (input) MIN_GAP_BET_POLY :: dbl where "MIN_GAP_BET_POLY \<equiv> 3 / 2"
abbreviation (input) MIN_GAP_BET_CONTACT_POLY :: dbl where "MIN_GAP_BET_CONTACT_POLY \<equiv> 3 / 4"
abbreviation (input) CONTACT_SIZE :: dbl where "CONTACT_SIZE \<equiv> 1"
abbreviation (input) MIN_WIDTH_POWER_RAIL :: dbl where "MIN_WIDTH_POWER_RAIL \<equiv> 2"
abbreviation (input) AVG_RATIO_LEAK_2INPUT_NAND :: dbl where "AVG_RATIO_LEAK_2INPUT_NAND \<equiv> 48 / 100"
abbreviation (input) AVG_RATIO_LEAK_3INPUT_NAND :: dbl where "AVG_RATIO_LEAK_3INPUT_NAND \<equiv> 31 / 100"
abbreviation (input) AVG_RATIO_LEAK_2INPUT_NOR :: dbl where "AVG_RATIO_LEAK_2INPUT_NOR \<equiv> 95 / 100"
abbreviation (input) AVG_RATIO_LEAK_3INPUT_NOR :: dbl where "AVG_RATIO_LEAK_3INPUT_NOR \<equiv> 62 / 100"
abbreviation (input) W_SENSE_P :: dbl where "W_SENSE_P \<equiv> 15 / 2"
abbreviation (input) W_SENSE_N :: dbl where "W_SENSE_N \<equiv> 15 / 4"
abbreviation (input) W_SENSE_ISO :: dbl where "W_SENSE_ISO \<equiv> 25 / 2"
abbreviation (input) W_SENSE_EN :: dbl where "W_SENSE_EN \<equiv> 5"
abbreviation (input) W_SENSE_MUX :: dbl where "W_SENSE_MUX \<equiv> 9"
abbreviation (input) IV_CONVERTER_AREA :: dbl where "IV_CONVERTER_AREA \<equiv> 50000"
abbreviation (input) CONSTRAINT_ASPECT_RATIO_BANK :: dbl where "CONSTRAINT_ASPECT_RATIO_BANK \<equiv> 3"
abbreviation (input) IR_DROP_TOLERANCE :: dbl where "IR_DROP_TOLERANCE \<equiv> 2 / 10"
abbreviation (input) TOTAL_ADDRESS_BIT :: int where "TOTAL_ADDRESS_BIT \<equiv> 48"
abbreviation (input) MAX_NUMBER_GATES_STAGE :: int where "MAX_NUMBER_GATES_STAGE \<equiv> 20"
abbreviation (input) STITCHING_OVERHEAD :: dbl where "STITCHING_OVERHEAD \<equiv> 15 / 2"
abbreviation (input) SHAPER_EFFICIENCY_CONSERVATIVE :: dbl where "SHAPER_EFFICIENCY_CONSERVATIVE \<equiv> 2 / 10"
abbreviation (input) SHAPER_EFFICIENCY_AGGRESSIVE :: dbl where "SHAPER_EFFICIENCY_AGGRESSIVE \<equiv> 1"
abbreviation (input) TUNNEL_CURRENT_FLOW :: dbl where "TUNNEL_CURRENT_FLOW \<equiv> 10"
abbreviation (input) DELTA_V_TH :: dbl where "DELTA_V_TH \<equiv> 5"
abbreviation (input) fopt :: dbl where "fopt \<equiv> 4"

definition BULK_CU_RESISTIVITY :: dbl where "BULK_CU_RESISTIVITY = lit 18 (-3)"
definition PERMITTIVITY_FREE_SPACE :: dbl where "PERMITTIVITY_FREE_SPACE = lit 8854 (-21)"

definition COPPER_RESISTIVITY :: dbl where "COPPER_RESISTIVITY = lit 22 (-9)"
definition COPPER_RESISTIVITY_TEMPERATURE_COEFFICIENT :: dbl where
  "COPPER_RESISTIVITY_TEMPERATURE_COEFFICIENT = lit 39 (-4)"
definition DRAM_REFRESH_PERIOD :: dbl where "DRAM_REFRESH_PERIOD = lit 64 (-3)"
definition PERMITTIVITY :: dbl where "PERMITTIVITY = lit 885 (-14)"
definition RES_ADJ :: dbl where "RES_ADJ = lit 86 (-1)"
definition VOL_SWING :: dbl where "VOL_SWING = lit 1 (-1)"

definition invalid_value :: dbl where "invalid_value = lit 1 41"
definition infinite_ramp :: dbl where "infinite_ramp = lit 1 41"

lemma invalid_value_pos [simp, fsign]: "fpos invalid_value" "fpos infinite_ramp"
  by (simp_all add: invalid_value_def infinite_ramp_def)

subsection \<open>InputParameter\<close>

record InputParameter =
  designTarget :: DesignTarget
  optimizationTarget :: OptimizationTarget
  processNode :: int
  ip_capacity :: int
  wordWidth :: int
  ip_deviceRoadmap :: DeviceRoadmap
  ip_temperature :: int
  writeScheme :: WriteScheme
  isConstraintApplied :: bool
  isPruningEnabled :: bool
  ip_associativity :: int
  cacheAccessMode :: CacheAccessMode
  pageSize :: int
  flashBlockSize :: int
  routingMode :: RoutingMode
  internalSensing :: bool
  maxNmosSize :: dbl
  maxLocalWireType :: int
  maxGlobalWireType :: int
  ip_partitionGranularity :: int
  localTsvProjection :: int
  globalTsvProjection :: int
  tsvRedundancy :: dbl
  ip_monolithicStackCount :: int

subsection \<open>MemCell\<close>

record MemCell =
  memCellType :: MemCellType
  cell_processNode :: int
  cell_area :: dbl
  cell_aspectRatio :: dbl
  widthInFeatureSize :: dbl
  heightInFeatureSize :: dbl
  resistanceOn :: dbl
  resistanceOff :: dbl
  capacitanceOn :: dbl
  capacitanceOff :: dbl
  readMode :: bool
  readVoltage :: dbl
  readCurrent :: dbl
  minSenseVoltage :: dbl
  wordlineBoostRatio :: dbl
  readPower :: dbl
  resetMode :: bool
  resetVoltage :: dbl
  resetCurrent :: dbl
  resetPulse :: dbl
  resetEnergy :: dbl
  setMode :: bool
  setVoltage :: dbl
  setCurrent :: dbl
  setPulse :: dbl
  setEnergy :: dbl
  accessType :: CellAccessType
  stitching :: int
  gateOxThicknessFactor :: dbl
  widthSOIDevice :: dbl
  widthAccessCMOS :: dbl
  voltageDropAccessDevice :: dbl
  leakageCurrentAccessDevice :: dbl
  capDRAMCell :: dbl
  widthSRAMCellNMOS :: dbl
  widthSRAMCellPMOS :: dbl
  readFloating :: bool
  resistanceOnAtSetVoltage :: dbl
  resistanceOffAtSetVoltage :: dbl
  resistanceOnAtResetVoltage :: dbl
  resistanceOffAtResetVoltage :: dbl
  resistanceOnAtReadVoltage :: dbl
  resistanceOffAtReadVoltage :: dbl
  resistanceOnAtHalfReadVoltage :: dbl
  resistanceOffAtHalfReadVoltage :: dbl
  resistanceOnAtHalfResetVoltage :: dbl
  flashEraseVoltage :: dbl
  flashPassVoltage :: dbl
  flashProgramVoltage :: dbl
  flashEraseTime :: dbl
  flashProgramTime :: dbl
  gateCouplingRatio :: dbl
  retentionTime :: dbl
  cell_temperature :: dbl

end
