(* ===== verification/Technology.thy ===== *)
theory Technology
  imports Types
begin

text \<open>
  \<open>Technology.h\<close> and the computed part of \<open>Technology.cpp\<close>: the interpolation between two process
  nodes, the TSV (through-silicon via) models and their selection by layer count.  The numeric
  tables of \<open>Technology::Initialize\<close> are not part of this theory.  The two-dimensional private
  arrays \<open>tsv_x[projection][type]\<close> are functions of the two indices.
\<close>

type_synonym tsv_table = "int \<Rightarrow> int \<Rightarrow> dbl"

record Technology =
  tech_initialized :: bool
  featureSizeInNano :: int
  featureSize :: dbl
  deviceRoadmap :: DeviceRoadmap
  vdd :: dbl
  vpp :: dbl
  vth :: dbl
  vdsatNmos :: dbl
  vdsatPmos :: dbl
  phyGateLength :: dbl
  capIdealGate :: dbl
  capFringe :: dbl
  capJunction :: dbl
  capOverlap :: dbl
  capSidewall :: dbl
  capDrainToChannel :: dbl
  capOx :: dbl
  buildInPotential :: dbl
  effectiveElectronMobility :: dbl
  effectiveHoleMobility :: dbl
  pnSizeRatio :: dbl
  effectiveResistanceMultiplier :: dbl
  currentOnNmos :: "dbl list"
  currentOnPmos :: "dbl list"
  currentOffNmos :: "dbl list"
  currentOffPmos :: "dbl list"
  capPolywire :: dbl
  capTSV :: "TSV_type \<Rightarrow> dbl"
  resTSV :: "TSV_type \<Rightarrow> dbl"
  areaTSV :: "TSV_type \<Rightarrow> dbl"

record TsvParameters =
  layerCount :: int
  tsv_pitch :: tsv_table
  tsv_diameter :: tsv_table
  tsv_length :: tsv_table
  tsv_dielec_thickness :: tsv_table
  tsv_contact_resistance :: tsv_table
  tsv_depletion_width :: tsv_table
  tsv_liner_dielectric_constant :: tsv_table
  tsv_parasitic_res :: tsv_table
  tsv_parasitic_cap :: tsv_table
  tsv_occupation_area :: tsv_table

subsection \<open>Interpolation between two nodes\<close>

definition lerp :: "dbl \<Rightarrow> dbl \<Rightarrow> dbl \<Rightarrow> dbl" where
  "lerp alpha x y = (1 - alpha) * x + alpha * y"

definition InterpolateWith :: "Technology \<Rightarrow> dbl \<Rightarrow> Technology \<Rightarrow> Technology" where
  "InterpolateWith rhs alpha T =
     (if featureSizeInNano T \<noteq> featureSizeInNano rhs then
        let v = lerp alpha (vdd T) (vdd rhs);
            pgl = lerp alpha (phyGateLength T) (phyGateLength rhs);
            eem = lerp alpha (effectiveElectronMobility T) (effectiveElectronMobility rhs);
            ehm = lerp alpha (effectiveHoleMobility T) (effectiveHoleMobility rhs);
            cjd = lit 1 (-3); cjswd = lit 25 (-11); cjswgd = lit 5 (-11);
            mjd = 5 / 10; mjswd = 33 / 100; mjswgd = 33 / 100;
            bip = 9 / 10
        in T\<lparr>vdd := v,
             vth := lerp alpha (vth T) (vth rhs),
             phyGateLength := pgl,
             capIdealGate := lerp alpha (capIdealGate T) (capIdealGate rhs),
             capFringe := lerp alpha (capFringe T) (capFringe rhs),
             capOx := lerp alpha (capOx T) (capOx rhs),
             effectiveElectronMobility := eem,
             effectiveHoleMobility := ehm,
             pnSizeRatio := lerp alpha (pnSizeRatio T) (pnSizeRatio rhs),
             effectiveResistanceMultiplier :=
               lerp alpha (effectiveResistanceMultiplier T) (effectiveResistanceMultiplier rhs),
             currentOnNmos := map2 (lerp alpha) (currentOnNmos T) (currentOnNmos rhs),
             currentOnPmos := map2 (lerp alpha) (currentOnPmos T) (currentOnPmos rhs),
             currentOffNmos := map2 (\<lambda>x y. dpow x (1 - alpha) * dpow y alpha)
                                 (currentOffNmos T) (currentOffNmos rhs),
             currentOffPmos := map2 (\<lambda>x y. dpow x (1 - alpha) * dpow y alpha)
                                 (currentOffPmos T) (currentOffPmos rhs),
             buildInPotential := bip,
             capJunction := cjd / dpow (1 + v / bip) mjd,
             capSidewall := cjswd / dpow (1 + v / bip) mjswd,
             capDrainToChannel := cjswgd / dpow (1 + v / bip) mjswgd,
             vdsatNmos := pgl * lit 1 5 / eem,
             vdsatPmos := pgl * lit 1 5 / ehm\<rparr>
      else T)"

subsection \<open>The TSV models\<close>

definition tsv_resistance :: "dbl \<Rightarrow> dbl \<Rightarrow> dbl \<Rightarrow> dbl \<Rightarrow> dbl" where
  "tsv_resistance resistivity len diam contact_res =
     resistivity * len / (lit 31416 (-4) * (diam / 2) * (diam / 2)) + contact_res"

definition tsv_capacitance :: "dbl \<Rightarrow> dbl \<Rightarrow> dbl \<Rightarrow> dbl \<Rightarrow> dbl \<Rightarrow> dbl \<Rightarrow> dbl" where
  "tsv_capacitance len diam pitch dielec liner depletion =
     (let e_si = PERMITTIVITY_FREE_SPACE * lit 119 (-1);
          PI = lit 31416 (-4);
          lateral_coupling_constant = lit 41 (-1);
          diagonal_coupling_constant = lit 53 (-1);
          liner_cap = 2 * PI * PERMITTIVITY_FREE_SPACE * liner * len / dlog (1 + dielec / (diam / 2));
          depletion_cap = 2 * PI * e_si * len / dlog (1 + depletion / (dielec + diam / 2));
          self_cap = 1 / (1 / liner_cap + 1 / depletion_cap);
          lateral_coupling_cap = lit 4 (-1) * (lit 225 (-3) * dlog (lit 97 (-2) * len / diam) + lit 53 (-2))
            * e_si / (pitch - diam) * PI * diam * len;
          diagonal_coupling_cap = lit 4 (-1) * (lit 225 (-3) * dlog (lit 97 (-2) * len / diam) + lit 53 (-2))
            * e_si / (lit 1414 (-3) * pitch - diam) * PI * diam * len
      in self_cap + lateral_coupling_constant * lateral_coupling_cap
           + diagonal_coupling_constant * diagonal_coupling_cap)"

definition tsv_area :: "dbl \<Rightarrow> dbl" where
  "tsv_area pitch = dpow pitch 2"

definition WireTypeToTSVType :: "int \<Rightarrow> TSV_type" where
  "WireTypeToTSVType wiretype =
     (if wiretype = int_of_WireType local_aggressive \<or> wiretype = int_of_WireType semi_aggressive
         \<or> wiretype = int_of_WireType global_aggressive then Fine
      else if wiretype = int_of_WireType local_conservative
         \<or> wiretype = int_of_WireType semi_conservative
         \<or> wiretype = int_of_WireType global_conservative
         \<or> wiretype = int_of_WireType dram_wordline then Coarse
      else Fine)"

text \<open>
  \<open>SetLayerCount\<close> recomputes the four parasitic entries for the given number of layers and selects
  the entry of each TSV type.  The selecting indices come from the configuration; an index outside
  the two-by-two tables is undefined behaviour.
\<close>

definition tset :: "tsv_table \<Rightarrow> int \<Rightarrow> int \<Rightarrow> dbl \<Rightarrow> tsv_table" where
  "tset t i j v = t(i := (t i)(j := v))"

definition tget :: "tsv_table \<Rightarrow> int \<Rightarrow> int \<Rightarrow> dbl res" where
  "tget t i j = (if i \<in> {0, 1} \<and> j \<in> {0, 1} then Inr (t i j) else Inl Undef)"

definition set_layer_entry :: "int \<Rightarrow> int \<Rightarrow> int \<Rightarrow> TsvParameters \<Rightarrow> TsvParameters" where
  "set_layer_entry layers i j P =
     (let length_value = tsv_length P i j * i2d layers
      in P\<lparr>tsv_parasitic_res := tset (tsv_parasitic_res P) i j
             (tsv_resistance BULK_CU_RESISTIVITY length_value (tsv_diameter P i j)
                (tsv_contact_resistance P i j)),
           tsv_parasitic_cap := tset (tsv_parasitic_cap P) i j
             (tsv_capacitance length_value (tsv_diameter P i j) (tsv_pitch P i j)
                (tsv_dielec_thickness P i j) (tsv_liner_dielectric_constant P i j)
                (tsv_depletion_width P i j)),
           tsv_occupation_area := tset (tsv_occupation_area P) i j (tsv_area (tsv_pitch P i j))\<rparr>)"

definition SetLayerCount ::
  "InputParameter \<Rightarrow> int \<Rightarrow> Technology \<times> TsvParameters \<Rightarrow> (Technology \<times> TsvParameters) res" where
  "SetLayerCount ip layers TP =
     (let T = fst TP; P = snd TP in
      if layers = layerCount P then Inr (T, P)
      else
        let P1 = set_layer_entry layers 1 1 (set_layer_entry layers 0 1
                   (set_layer_entry layers 1 0 (set_layer_entry layers 0 0 P)));
            local_ic_proj_type = int_of_TSV_type (WireTypeToTSVType (maxLocalWireType ip));
            global_ic_proj_type = int_of_TSV_type (WireTypeToTSVType (maxGlobalWireType ip))
        in ebind (tget (tsv_parasitic_res P1) local_ic_proj_type (localTsvProjection ip)) (\<lambda>rF.
           ebind (tget (tsv_parasitic_cap P1) local_ic_proj_type (localTsvProjection ip)) (\<lambda>cF.
           ebind (tget (tsv_occupation_area P1) local_ic_proj_type (localTsvProjection ip)) (\<lambda>aF.
           ebind (tget (tsv_parasitic_res P1) global_ic_proj_type (globalTsvProjection ip)) (\<lambda>rC.
           ebind (tget (tsv_parasitic_cap P1) global_ic_proj_type (globalTsvProjection ip)) (\<lambda>cC.
           ebind (tget (tsv_occupation_area P1) global_ic_proj_type (globalTsvProjection ip)) (\<lambda>aC.
             Inr (T\<lparr>resTSV := (\<lambda>t. if t = Fine then rF else rC),
                    capTSV := (\<lambda>t. if t = Fine then cF else cC),
                    areaTSV := (\<lambda>t. if t = Fine then aF else aC)\<rparr>,
                  P1\<lparr>layerCount := layers\<rparr>))))))))"

subsection \<open>Well-formed technologies\<close>

text \<open>
  The parameters are finite and of the expected sign and the four current tables have one entry
  per degree from 300 K to 400 K.
\<close>

definition table_ok :: "dbl list \<Rightarrow> bool" where
  "table_ok xs \<longleftrightarrow> length xs = 101 \<and> (\<forall>x \<in> set xs. fpos x)"

definition tech_ok :: "Technology \<Rightarrow> bool" where
  "tech_ok T \<longleftrightarrow> fpos (featureSize T) \<and> fpos (vdd T) \<and> fpos (vth T) \<and> fpos (vdd T - vth T)
     \<and> fpos (vdsatNmos T) \<and> fpos (vdsatPmos T)
     \<and> fpos (phyGateLength T) \<and> fpos (capIdealGate T) \<and> fnn (capFringe T) \<and> fpos (capJunction T)
     \<and> fnn (capOverlap T) \<and> fpos (capSidewall T) \<and> fpos (capDrainToChannel T) \<and> fpos (capOx T)
     \<and> fpos (effectiveElectronMobility T) \<and> fpos (effectiveHoleMobility T) \<and> fpos (pnSizeRatio T)
     \<and> fpos (effectiveResistanceMultiplier T) \<and> fnn (capPolywire T) \<and> fpos (vpp T)
     \<and> table_ok (currentOnNmos T) \<and> table_ok (currentOnPmos T)
     \<and> table_ok (currentOffNmos T) \<and> table_ok (currentOffPmos T)"

lemma tech_okD [fsign]:
  assumes "tech_ok T"
  shows "fpos (featureSize T)" "fpos (vdd T)" "fpos (vth T)" "fpos (vdd T - vth T)"
    "fpos (vdsatNmos T)" "fpos (vdsatPmos T)" "fpos (phyGateLength T)" "fpos (capIdealGate T)"
    "fnn (capFringe T)" "fpos (capJunction T)" "fnn (capOverlap T)" "fpos (capSidewall T)"
    "fpos (capDrainToChannel T)" "fpos (capOx T)" "fpos (effectiveElectronMobility T)"
    "fpos (effectiveHoleMobility T)" "fpos (pnSizeRatio T)"
    "fpos (effectiveResistanceMultiplier T)" "fnn (capPolywire T)" "fpos (vpp T)"
  using assms by (simp_all add: tech_ok_def)

lemma tech_ok_tables:
  assumes "tech_ok T"
  shows "table_ok (currentOnNmos T)" "table_ok (currentOnPmos T)"
    "table_ok (currentOffNmos T)" "table_ok (currentOffPmos T)"
  using assms by (simp_all add: tech_ok_def)

lemma table_ok_aget:
  "table_ok xs \<Longrightarrow> 0 \<le> i \<Longrightarrow> i \<le> 100 \<Longrightarrow> \<exists>v. aget xs i = Inr v \<and> fpos v"
  by (auto simp: table_ok_def aget_def)

subsection \<open>Interpolation keeps a technology well-formed\<close>

lemma lerp_Fin: "lerp (Fin a) (Fin x) (Fin y) = Fin ((1 - a) * x + a * y)"
  by (simp add: lerp_def dbl_lits)

lemma convex_pos: "0 \<le> a \<Longrightarrow> a \<le> 1 \<Longrightarrow> 0 < x \<Longrightarrow> 0 < y \<Longrightarrow> 0 < (1 - a) * x + a * (y::real)"
  by (cases "a = 0") (auto intro!: add_nonneg_pos mult_nonneg_nonneg mult_pos_pos)

lemma lerp_pos:
  assumes "0 \<le> a" "a \<le> 1"
  shows "fpos x \<Longrightarrow> fpos y \<Longrightarrow> fpos (lerp (Fin a) x y)"
    and "fnn x \<Longrightarrow> fnn y \<Longrightarrow> fnn (lerp (Fin a) x y)"
  using assms convex_pos [OF assms] by (auto simp: fpos_def fnn_def lerp_Fin)

lemma lerp_diff_pos:
  assumes "0 \<le> a" "a \<le> 1" "fin x" "fin y" "fin x'" "fin y'" "fpos (x - x')" "fpos (y - y')"
  shows "fpos (lerp (Fin a) x y - lerp (Fin a) x' y')"
proof -
  obtain r s r' s' where r: "x = Fin r" "y = Fin s" "x' = Fin r'" "y' = Fin s'"
    using assms(3-6) by (auto simp: fin_def)
  then have "0 < (1 - a) * (r - r') + a * (s - s')" using assms(7,8) by (intro convex_pos assms) simp_all
  then show ?thesis by (simp add: r lerp_Fin algebra_simps)
qed

lemma table_map2:
  assumes "table_ok xs" "table_ok ys" "\<And>x y. fpos x \<Longrightarrow> fpos y \<Longrightarrow> fpos (f x y)"
  shows "table_ok (map2 f xs ys)"
proof -
  have "fpos (f a b)" if "(a, b) \<in> set (zip xs ys)" for a b
    using set_zip_leftD [OF that] set_zip_rightD [OF that] assms by (simp add: table_ok_def)
  then show ?thesis using assms(1,2) by (auto simp: table_ok_def)
qed

lemma InterpolateWith_ok:
  assumes T: "tech_ok T" and R: "tech_ok rhs" and a: "0 \<le> a" "a \<le> 1"
  shows "tech_ok (InterpolateWith rhs (Fin a) T)"
proof (cases "featureSizeInNano T = featureSizeInNano rhs")
  case True
  then show ?thesis using T by (simp add: InterpolateWith_def)
next
  case False
  note t = tech_okD [OF T] and r = tech_okD [OF R] and p = lerp_pos [OF a]
  have lv: "fpos (lerp (Fin a) (vdd T) (vdd rhs))" by (rule p(1) [OF t(2) r(2)])
  have gap: "fpos (lerp (Fin a) (vdd T) (vdd rhs) - lerp (Fin a) (vth T) (vth rhs))"
    by (rule lerp_diff_pos [OF a]) (use t(2-4) r(2-4) in \<open>simp_all add: fsign\<close>)
  have jn: "fpos (x / dpow (1 + lerp (Fin a) (vdd T) (vdd rhs) / (9 / 10)) (y / 100))"
    "fpos (x / dpow (1 + lerp (Fin a) (vdd T) (vdd rhs) / (9 / 10)) (5 / 10))"
    if "fpos x" "fin y" for x y
    using lv that by (simp_all add: fsign)
  have "fpos (1 - Fin a) \<or> fnn (1 - Fin a)" using a by (simp add: dbl_lits)
  then have off: "fpos (dpow x (1 - Fin a) * dpow y (Fin a))" if "fpos x" "fpos y" for x y
    using that by (auto simp: fsign)
  show ?thesis
    unfolding tech_ok_def InterpolateWith_def if_P [OF False] Let_def
    using t r lv gap
    by (simp add: p jn(1) [of _ 33] jn(2) table_map2 tech_ok_tables [OF T] tech_ok_tables [OF R] off fsign)
qed

subsection \<open>The number of layers\<close>

text \<open>A second call with the same number of layers changes nothing.\<close>

lemma SetLayerCount_layers:
  "SetLayerCount ip n TP = Inr TP' \<Longrightarrow> layerCount (snd TP') = n"
  by (auto simp: SetLayerCount_def Let_def split: if_splits)

lemma SetLayerCount_again:
  assumes "SetLayerCount ip n TP = Inr TP'" shows "SetLayerCount ip' n TP' = Inr TP'"
  using SetLayerCount_layers [OF assms] by (simp add: SetLayerCount_def Let_def)

end
