(* ===== verification/Formula.thy ===== *)
theory Formula
  imports Technology "HOL-Library.Word"
begin

text \<open>
  \<open>formula.cpp\<close>: the closed formulas every circuit component is built from.  Output parameters
  (pointers) are part of the result; a null pointer only means that the caller drops that part.
\<close>

unbundle bit_operations_syntax

subsection \<open>isPow2\<close>

definition isPow2 :: "int \<Rightarrow> bool" where
  "isPow2 n = (if n < 1 then False
               else (word_of_int n AND word_of_int (n - 1) :: 32 word) = 0)"

subsection \<open>Gate capacitances\<close>

definition CalculateGateCap :: "dbl \<Rightarrow> Technology \<Rightarrow> dbl" where
  "CalculateGateCap width T =
     (capIdealGate T + capOverlap T + 3 * capFringe T) * width + phyGateLength T * capPolywire T"

definition CalculateFBRAMGateCap :: "dbl \<Rightarrow> dbl \<Rightarrow> Technology \<Rightarrow> dbl" where
  "CalculateFBRAMGateCap width thicknessFactor T =
     (capIdealGate T / thicknessFactor + capOverlap T + 3 * capFringe T) * width
       + phyGateLength T * capPolywire T"

definition CalculateFBRAMDrainCap :: "dbl \<Rightarrow> Technology \<Rightarrow> dbl" where
  "CalculateFBRAMDrainCap width T = (3 * capSidewall T + capDrainToChannel T) * width"

subsection \<open>CalculateGateArea\<close>

text \<open>The widths available to the two diffusion regions, \<open>(maxWidthPMOS, maxWidthNMOS)\<close>.\<close>

definition maxWidths :: "dbl \<Rightarrow> dbl \<Rightarrow> dbl \<Rightarrow> Technology \<Rightarrow> dbl \<times> dbl" where
  "maxWidths widthNMOS widthPMOS heightTransistorRegion T =
     (let ratio = widthPMOS / (widthPMOS + widthNMOS)
      in if ratio = 0 then (0, heightTransistorRegion)
         else if ratio = 1 then (heightTransistorRegion, 0)
         else let maxWidthPMOS = ratio * (heightTransistorRegion
                                            - MIN_GAP_BET_P_AND_N_DIFFS * featureSize T);
                  maxWidthNMOS = maxWidthPMOS / ratio * (1 - ratio)
              in (maxWidthPMOS, maxWidthNMOS))"

text \<open>\<open>(unitWidthRegion, heightRegion)\<close> of one transistor type, folded when it is too wide.\<close>

definition foldRegion :: "dbl \<Rightarrow> dbl \<Rightarrow> Technology \<Rightarrow> (dbl \<times> dbl) res" where
  "foldRegion width maxWidth T =
     (if 0 < width then
        if width < maxWidth then Inr (featureSize T, width)
        else ebind (d2i (dceil (width / (maxWidth - 3 * featureSize T)))) (\<lambda>numFolded.
               Inr (i2d numFolded * featureSize T
                      + i2d (numFolded - 1) * featureSize T * MIN_GAP_BET_POLY, maxWidth))
      else Inr (0, 0))"

definition CalculateGateArea ::
  "int \<Rightarrow> int \<Rightarrow> dbl \<Rightarrow> dbl \<Rightarrow> dbl \<Rightarrow> Technology \<Rightarrow> (dbl \<times> dbl \<times> dbl) res" where
  "CalculateGateArea gateType numInput widthNMOS widthPMOS heightTransistorRegion T =
     (let F = featureSize T;
          mw = maxWidths widthNMOS widthPMOS heightTransistorRegion T;
          contact = CONTACT_SIZE + MIN_GAP_BET_CONTACT_POLY * 2
      in ebind (foldRegion widthPMOS (fst mw) T) (\<lambda>(unitWidthRegionP, heightRegionP).
         ebind (foldRegion widthNMOS (snd mw) T) (\<lambda>(unitWidthRegionN, heightRegionN).
         let (widthRegionP, widthRegionN) =
               (if gateType = INV then
                  (2 * F * contact + unitWidthRegionP, 2 * F * contact + unitWidthRegionN)
                else if gateType = NOR then
                  (2 * F * contact + unitWidthRegionP * i2d numInput
                     + i2d (numInput - 1) * F * MIN_GAP_BET_POLY,
                   2 * F * contact + unitWidthRegionN * i2d numInput + i2d (numInput - 1) * F * contact)
                else if gateType = NAND then
                  (2 * F * contact + unitWidthRegionP * i2d numInput + i2d (numInput - 1) * F * contact,
                   2 * F * contact + unitWidthRegionN * i2d numInput
                     + i2d (numInput - 1) * F * MIN_GAP_BET_POLY)
                else (0, 0));
             width = cMAX widthRegionN widthRegionP;
             height = (if 0 < widthPMOS \<and> 0 < widthNMOS
                       then heightRegionN + heightRegionP + F * MIN_GAP_BET_P_AND_N_DIFFS
                              + 2 * F * MIN_WIDTH_POWER_RAIL
                       else heightRegionN + heightRegionP)
         in Inr (height, width, width * height))))"

subsection \<open>CalculateGateCapacitance\<close>

text \<open>
  \<open>(numFolded, unitWidthDrain, heightDrain)\<close>; unlike the area, the capacitance refuses a region
  that is too narrow to be folded.
\<close>

definition foldDrain :: "dbl \<Rightarrow> dbl \<Rightarrow> Technology \<Rightarrow> (int \<times> dbl \<times> dbl) res" where
  "foldDrain width maxWidth T =
     (if 0 < width then
        if width < maxWidth then Inr (1, 0, width)
        else if maxWidth < 3 * featureSize T then Inl Exit
        else ebind (d2i (dceil (width / (maxWidth - 3 * featureSize T)))) (\<lambda>numFolded.
               Inr (numFolded, i2d (numFolded - 1) * featureSize T * MIN_GAP_BET_POLY, maxWidth))
      else Inr (1, 0, 0))"

text \<open>The parity test is C's \<open>n % 2 == 0\<close>, which agrees with \<open>even\<close> for negative numbers too.\<close>

definition drainSidewall :: "int \<Rightarrow> dbl \<Rightarrow> dbl \<Rightarrow> Technology \<Rightarrow> dbl" where
  "drainSidewall numFolded widthDrain heightDrain T =
     (if even numFolded then 2 * widthDrain * capSidewall T
      else (2 * widthDrain + heightDrain) * capSidewall T)"

definition CalculateGateCapacitance ::
  "int \<Rightarrow> int \<Rightarrow> dbl \<Rightarrow> dbl \<Rightarrow> dbl \<Rightarrow> Technology \<Rightarrow> (dbl \<times> dbl) res" where
  "CalculateGateCapacitance gateType numInput widthNMOS widthPMOS heightTransistorRegion T =
     (let F = featureSize T;
          mw = maxWidths widthNMOS widthPMOS heightTransistorRegion T;
          contact = F * (CONTACT_SIZE + MIN_GAP_BET_CONTACT_POLY * 2);
          series = (\<lambda>unit. contact + unit * i2d numInput + i2d (numInput - 1) * F * MIN_GAP_BET_POLY);
          parallel = (\<lambda>unit. (contact + unit) * i2d numInput)
      in ebind (foldDrain widthPMOS (fst mw) T) (\<lambda>(numFoldedPMOS, unitWidthDrainP, heightDrainP).
         ebind (foldDrain widthNMOS (snd mw) T) (\<lambda>(numFoldedNMOS, unitWidthDrainN, heightDrainN).
         let widthDrainP = (if \<not> 0 < widthPMOS then 0
               else if gateType = INV then contact + unitWidthDrainP
               else if gateType = NOR then series unitWidthDrainP
               else if gateType = NAND then parallel unitWidthDrainP else 0);
             widthDrainN = (if \<not> 0 < widthNMOS then 0
               else if gateType = INV then contact + unitWidthDrainN
               else if gateType = NOR then parallel unitWidthDrainN
               else if gateType = NAND then series unitWidthDrainN else 0);
             capDrainBottomN = widthDrainN * heightDrainN * capJunction T;
             capDrainBottomP = widthDrainP * heightDrainP * capJunction T;
             capDrainSidewallN = drainSidewall numFoldedNMOS widthDrainN heightDrainN T;
             capDrainSidewallP = drainSidewall numFoldedPMOS widthDrainP heightDrainP T;
             capDrainToChannelN = i2d numFoldedNMOS * heightDrainN * capDrainToChannel T;
             capDrainToChannelP = i2d numFoldedPMOS * heightDrainP * capDrainToChannel T
         in Inr (CalculateGateCap widthNMOS T + CalculateGateCap widthPMOS T,
                 capDrainBottomN + capDrainBottomP + capDrainSidewallN + capDrainSidewallP
                   + capDrainToChannelN + capDrainToChannelP))))"

definition CalculateDrainCap :: "dbl \<Rightarrow> int \<Rightarrow> dbl \<Rightarrow> Technology \<Rightarrow> dbl res" where
  "CalculateDrainCap width type heightTransistorRegion T =
     (if type = NMOS
      then ebind (CalculateGateCapacitance INV 1 width 0 heightTransistorRegion T) (\<lambda>r. Inr (snd r))
      else ebind (CalculateGateCapacitance INV 1 0 width heightTransistorRegion T) (\<lambda>r. Inr (snd r)))"

subsection \<open>Leakage, resistance, transconductance\<close>

definition tempIndex :: "dbl \<Rightarrow> int res" where
  "tempIndex temperature =
     ebind (d2i temperature) (\<lambda>t. if 100 < t - 300 \<or> t - 300 < 0 then Inl Exit else Inr (t - 300))"

definition CalculateGateLeakage ::
  "int \<Rightarrow> int \<Rightarrow> dbl \<Rightarrow> dbl \<Rightarrow> dbl \<Rightarrow> Technology \<Rightarrow> dbl res" where
  "CalculateGateLeakage gateType numInput widthNMOS widthPMOS temperature T =
     ebind (tempIndex temperature) (\<lambda>i.
       if gateType = INV then
         ebind (aget (currentOffNmos T) i) (\<lambda>leakN.
         ebind (aget (currentOffPmos T) i) (\<lambda>leakP.
           Inr (cMAX (widthNMOS * leakN) (widthPMOS * leakP))))
       else if gateType = NOR then
         ebind (aget (currentOffNmos T) i) (\<lambda>leakN.
           let leakageN = widthNMOS * leakN * i2d numInput
           in Inr (if numInput = 2 then AVG_RATIO_LEAK_2INPUT_NOR * leakageN
                   else AVG_RATIO_LEAK_3INPUT_NOR * leakageN))
       else if gateType = NAND then
         ebind (aget (currentOffPmos T) i) (\<lambda>leakP.
           let leakageP = widthPMOS * leakP * i2d numInput
           in Inr (if numInput = 2 then AVG_RATIO_LEAK_2INPUT_NAND * leakageP
                   else AVG_RATIO_LEAK_3INPUT_NAND * leakageP))
       else Inr 0)"

definition CalculateOnResistance :: "dbl \<Rightarrow> int \<Rightarrow> dbl \<Rightarrow> Technology \<Rightarrow> dbl res" where
  "CalculateOnResistance width type temperature T =
     ebind (tempIndex temperature) (\<lambda>i.
     ebind (if type = NMOS then aget (currentOnNmos T) i else aget (currentOnPmos T) i) (\<lambda>current.
       Inr (effectiveResistanceMultiplier T * vdd T / (current * width))))"

definition CalculateTransconductance :: "dbl \<Rightarrow> int \<Rightarrow> Technology \<Rightarrow> dbl" where
  "CalculateTransconductance width type T =
     (if type = NMOS then
        let vsat = cMIN (vdsatNmos T) (vdd T - vth T)
        in (effectiveElectronMobility T * capOx T) / 2 * width / phyGateLength T * vsat
      else
        let vsat = cMIN (vdsatPmos T) (vdd T - vth T)
        in (effectiveHoleMobility T * capOx T) / 2 * width / phyGateLength T * vsat)"

subsection \<open>The Horowitz delay and the wire formulas\<close>

text \<open>The delay and the output ramp.\<close>

definition horowitz :: "dbl \<Rightarrow> dbl \<Rightarrow> dbl \<Rightarrow> dbl \<times> dbl" where
  "horowitz tr beta rampInput =
     (let alpha = 1 / rampInput / tr;
          vs = 1 / 2;
          result = tr * dsqrt (dlog vs * dlog vs + 2 * alpha * beta * (1 - vs))
      in (result, (1 - vs) / result))"

definition CalculateWireResistance :: "dbl \<Rightarrow> dbl \<Rightarrow> dbl \<Rightarrow> dbl \<Rightarrow> dbl \<Rightarrow> dbl \<Rightarrow> dbl" where
  "CalculateWireResistance resistivity wireWidth wireThickness barrierThickness dishingThickness
     alphaScatter =
     alphaScatter * resistivity / (wireThickness - barrierThickness - dishingThickness)
       / (wireWidth - 2 * barrierThickness)"

definition CalculateWireCapacitance ::
  "dbl \<Rightarrow> dbl \<Rightarrow> dbl \<Rightarrow> dbl \<Rightarrow> dbl \<Rightarrow> dbl \<Rightarrow> dbl \<Rightarrow> dbl \<Rightarrow> dbl \<Rightarrow> dbl" where
  "CalculateWireCapacitance permittivity wireWidth wireThickness wireSpacing ildThickness
     millerValue horizontalDielectric verticalDielectric fringeCap =
     (let verticalCap = 2 * permittivity * verticalDielectric * wireWidth / ildThickness;
          sidewallCap = 2 * permittivity * millerValue * horizontalDielectric * wireThickness / wireSpacing
      in verticalCap + sidewallCap + fringeCap)"

subsection \<open>Facts about isPow2\<close>

lemma land_pred_even: "(2 * m) AND (2 * m - 1) = 2 * (m AND (m - 1))" for m :: int
proof -
  have "(2 * m - 1) div 2 = m - 1" by linarith
  then show ?thesis by (subst and_int_rec) simp
qed

lemma land_pred_pow2: "0 < n \<Longrightarrow> (n AND (n - 1)) = 0 \<longleftrightarrow> pow2 n" for n :: int
proof (induction "nat n" arbitrary: n rule: less_induct)
  case less
  show ?case
  proof (cases "even n")
    case True
    then obtain m where m: "n = 2 * m" by auto
    with less have "(m AND (m - 1)) = 0 \<longleftrightarrow> pow2 m" by simp
    then show ?thesis using m by (simp add: land_pred_even pow2_double)
  next
    case False
    then obtain m where m: "n = 2 * m + 1" by (auto elim: oddE)
    have "(n AND (n - 1)) = 2 * m" unfolding m by (subst and_int_rec) simp
    then show ?thesis by (simp add: m pow2_odd)
  qed
qed

lemma land_pred_word:
  assumes "0 < n" "n < 2 ^ 31"
  shows "(word_of_int n AND word_of_int (n - 1) :: 32 word) = 0 \<longleftrightarrow> (n AND (n - 1)) = 0"
proof -
  have eq: "word_of_int n AND word_of_int (n - 1) = (word_of_int (n AND (n - 1)) :: 32 word)"
    by (rule word_wi_log_defs)
  have "0 \<le> n AND (n - 1)" "n AND (n - 1) \<le> n" using assms by (simp_all add: AND_upper1)
  then have "uint (word_of_int (n AND (n - 1)) :: 32 word) = (n AND (n - 1))"
    using assms by (simp add: uint_word_of_int_eq take_bit_int_eq_self)
  then show ?thesis by (metis eq uint_0_iff)
qed

subsection \<open>Signs of the gate formulas\<close>

lemma fpos_GateCap [fsign]: "tech_ok T \<Longrightarrow> fpos w \<Longrightarrow> fpos (CalculateGateCap w T)"
  by (simp add: CalculateGateCap_def fsign)

lemma fnn_GateCap [fsign]: "tech_ok T \<Longrightarrow> fnn w \<Longrightarrow> fnn (CalculateGateCap w T)"
  by (simp add: CalculateGateCap_def fsign)

lemma fin_maxWidths:
  assumes "tech_ok T" "fnn wN" "fnn wP" "fpos (wP + wN)" "fin h"
  shows "fin (fst (maxWidths wN wP h T))" "fin (snd (maxWidths wN wP h T))"
proof -
  have r: "fnn (wP / (wP + wN))" using assms by (simp add: fsign)
  have "wP / (wP + wN) = 0 \<or> fpos (wP / (wP + wN))"
    using r by (auto simp: fnn_def fpos_def dbl_zero)
  then show "fin (fst (maxWidths wN wP h T))" "fin (snd (maxWidths wN wP h T))"
    using assms r by (auto simp: maxWidths_def Let_def fsign)
qed

text \<open>
  A transistor of width \<open>w\<close> fits into a region of width \<open>mw\<close>: it is absent, it needs no folding,
  or the region is wider than the folding overhead and the number of fingers is representable.
\<close>

definition fits :: "dbl \<Rightarrow> dbl \<Rightarrow> Technology \<Rightarrow> bool" where
  "fits w mw T \<longleftrightarrow> \<not> 0 < w \<or> w < mw
     \<or> fpos (mw - 3 * featureSize T) \<and> w / (mw - 3 * featureSize T) \<le> 1073741824"

lemma numFolded_ok:
  assumes "tech_ok T" "fpos w" "fin mw" "fpos (mw - 3 * featureSize T)"
    "w / (mw - 3 * featureSize T) \<le> 1073741824"
  shows "\<exists>n\<ge>1. d2i (dceil (w / (mw - 3 * featureSize T))) = Inr n"
proof -
  from assms(2,4) obtain r where r: "0 < r" "w / (mw - 3 * featureSize T) = Fin r"
    using fpos_div by (metis fpos_def)
  have le: "r \<le> 1073741824" using assms(5) unfolding r(2) by (simp add: dbl_lits)
  have "1 \<le> \<lceil>r\<rceil>" "\<lceil>r\<rceil> \<le> 1073741824" using r(1) le by (simp_all add: ceiling_le_iff le_ceiling_iff)
  then show ?thesis using r(1) by (auto simp: r(2) d2i_def int_ok_def trunc_of_int)
qed

lemma fpos_wide: "tech_ok T \<Longrightarrow> fin mw \<Longrightarrow> fpos (mw - 3 * featureSize T) \<Longrightarrow> fpos mw"
  using tech_okD(1) [of T] by (auto simp: fpos_def fin_def dbl_lits)

lemma foldRegion_ok:
  assumes "tech_ok T" "fnn w" "fin mw" "fits w mw T"
  shows "\<exists>u h. foldRegion w mw T = Inr (u, h) \<and> fnn u \<and> fnn h \<and> (0 < w \<longrightarrow> fpos u \<and> fpos h)"
proof (cases "0 < w \<and> \<not> w < mw")
  case True
  then have w: "fpos w" using assms(2) by (simp add: fpos_iff fsign)
  have wide: "fpos (mw - 3 * featureSize T)" and le: "w / (mw - 3 * featureSize T) \<le> 1073741824"
    using assms(4) True by (auto simp: fits_def)
  obtain n where n: "1 \<le> n" "d2i (dceil (w / (mw - 3 * featureSize T))) = Inr n"
    using numFolded_ok [OF assms(1) w assms(3) wide le] by blast
  show ?thesis using True n fpos_wide [OF assms(1,3) wide] assms(1)
    by (simp add: foldRegion_def fsign)
next
  case False
  with assms fnn_fposI [OF assms(2)] show ?thesis by (auto simp: foldRegion_def fsign)
qed

lemma foldDrain_ok:
  assumes "tech_ok T" "fnn w" "fin mw" "fits w mw T"
  shows "\<exists>n u h. foldDrain w mw T = Inr (n, u, h) \<and> 1 \<le> n \<and> fnn u \<and> fnn h \<and> (0 < w \<longrightarrow> fpos h)"
proof (cases "0 < w \<and> \<not> w < mw")
  case True
  then have w: "fpos w" using assms(2) by (simp add: fpos_iff fsign)
  have wide: "fpos (mw - 3 * featureSize T)" and le: "w / (mw - 3 * featureSize T) \<le> 1073741824"
    using assms(4) True by (auto simp: fits_def)
  obtain n where n: "1 \<le> n" "d2i (dceil (w / (mw - 3 * featureSize T))) = Inr n"
    using numFolded_ok [OF assms(1) w assms(3) wide le] by blast
  have "\<not> mw < 3 * featureSize T" using wide assms(3) tech_okD(1) [OF assms(1)]
    by (auto simp: fpos_def fin_def dbl_lits)
  then show ?thesis using True n fpos_wide [OF assms(1,3) wide] assms(1)
    by (simp add: foldDrain_def fsign)
next
  case False
  with assms fnn_fposI [OF assms(2)] show ?thesis by (auto simp: foldDrain_def fsign)
qed

text \<open>A gate whose two transistors fit.\<close>

definition gate_fits :: "dbl \<Rightarrow> dbl \<Rightarrow> dbl \<Rightarrow> Technology \<Rightarrow> bool" where
  "gate_fits wN wP h T \<longleftrightarrow> fnn wN \<and> fnn wP \<and> (0 < wN \<or> 0 < wP) \<and> fin h
     \<and> fits wP (fst (maxWidths wN wP h T)) T \<and> fits wN (snd (maxWidths wN wP h T)) T"

lemma gate_fits_sum: "gate_fits wN wP h T \<Longrightarrow> fpos (wP + wN)"
  by (auto simp: gate_fits_def fnn_def dbl_zero)

lemma GateArea_ok:
  assumes T: "tech_ok T" and g: "gate_fits wN wP h T" and n: "1 \<le> numInput"
    and ty: "gateType \<in> {0, 1, 2}"
  shows "\<exists>ht wd. CalculateGateArea gateType numInput wN wP h T = Inr (ht, wd, wd * ht)
           \<and> fpos ht \<and> fpos wd"
proof -
  have nn: "fnn wN" "fnn wP" "0 < wN \<or> 0 < wP" "fin h"
    and f: "fits wP (fst (maxWidths wN wP h T)) T" "fits wN (snd (maxWidths wN wP h T)) T"
    using g by (simp_all add: gate_fits_def)
  note mw = fin_maxWidths [OF T nn(1,2) gate_fits_sum [OF g] nn(4)]
  obtain uP hP where P: "foldRegion wP (fst (maxWidths wN wP h T)) T = Inr (uP, hP)"
    "fnn uP" "fnn hP" "0 < wP \<longrightarrow> fpos uP \<and> fpos hP"
    using foldRegion_ok [OF T nn(2) mw(1) f(1)] by blast
  obtain uN hN where N: "foldRegion wN (snd (maxWidths wN wP h T)) T = Inr (uN, hN)"
    "fnn uN" "fnn hN" "0 < wN \<longrightarrow> fpos uN \<and> fpos hN"
    using foldRegion_ok [OF T nn(1) mw(2) f(2)] by blast
  have h: "fpos (hN + hP)" using nn(3) P N by (auto simp: fsign)
  show ?thesis
    using T n ty nn(3) h P(2,3) N(2,3)
    by (auto simp: CalculateGateArea_def Let_def P(1) N(1) fsign)
qed

lemma fnn_drainSidewall:
  assumes "tech_ok T" "fnn w" "fnn h"
  shows "fnn (drainSidewall n w h T)"
  using assms by (simp add: drainSidewall_def fsign)

text \<open>The output capacitance is a sum of six parts; one positive part is enough.\<close>

lemma fpos_sum6:
  assumes "fnn a" "fnn b" "fnn c" "fnn d" "fnn e" "fnn f" "fpos a \<or> fpos b"
  shows "fpos (a + b + c + d + e + f)"
proof -
  have "fpos (a + b)" using assms(1,2,7) fpos_add1 fpos_add2 by blast
  then show ?thesis
    by (rule fpos_add1 [OF fpos_add1 [OF fpos_add1 [OF fpos_add1]]]) (fact assms)+
qed

lemma GateCapacitance_ok:
  assumes T: "tech_ok T" and g: "gate_fits wN wP h T" and n: "1 \<le> numInput"
    and ty: "gateType \<in> {0, 1, 2}"
  shows "\<exists>ci co. CalculateGateCapacitance gateType numInput wN wP h T = Inr (ci, co)
           \<and> ci = CalculateGateCap wN T + CalculateGateCap wP T \<and> fpos ci \<and> fpos co"
proof -
  have nn: "fnn wN" "fnn wP" "0 < wN \<or> 0 < wP" "fin h"
    and f: "fits wP (fst (maxWidths wN wP h T)) T" "fits wN (snd (maxWidths wN wP h T)) T"
    using g by (simp_all add: gate_fits_def)
  note mw = fin_maxWidths [OF T nn(1,2) gate_fits_sum [OF g] nn(4)]
  obtain kP uP hP where P: "foldDrain wP (fst (maxWidths wN wP h T)) T = Inr (kP, uP, hP)"
    "1 \<le> kP" "fnn uP" "fnn hP" "0 < wP \<longrightarrow> fpos hP"
    using foldDrain_ok [OF T nn(2) mw(1) f(1)] by blast
  obtain kN uN hN where N: "foldDrain wN (snd (maxWidths wN wP h T)) T = Inr (kN, uN, hN)"
    "1 \<le> kN" "fnn uN" "fnn hN" "0 < wN \<longrightarrow> fpos hN"
    using foldDrain_ok [OF T nn(1) mw(2) f(2)] by blast
  have ci: "fpos (CalculateGateCap wN T + CalculateGateCap wP T)"
    using T nn(3) fnn_fposI [OF nn(1)] fnn_fposI [OF nn(2)] nn(1,2) by (auto simp: fsign)
  define F where "F = featureSize T"
  define contact where "contact = F * (CONTACT_SIZE + MIN_GAP_BET_CONTACT_POLY * 2)"
  define series where "series = (\<lambda>unit. contact + unit * i2d numInput
                                    + i2d (numInput - 1) * F * MIN_GAP_BET_POLY)"
  define parallel where "parallel = (\<lambda>unit. (contact + unit) * i2d numInput)"
  have F: "fpos F" using T by (simp add: F_def fsign)
  have c: "fpos contact" using F by (simp add: contact_def fsign)
  have ser: "fpos (series u)" if "fnn u" for u using that c F n by (simp add: series_def fsign)
  have par: "fpos (parallel u)" if "fnn u" for u using that c n by (simp add: parallel_def fsign)
  define wdP where "wdP = (if \<not> 0 < wP then 0
               else if gateType = INV then contact + uP
               else if gateType = NOR then series uP
               else if gateType = NAND then parallel uP else 0)"
  define wdN where "wdN = (if \<not> 0 < wN then 0
               else if gateType = INV then contact + uN
               else if gateType = NOR then parallel uN
               else if gateType = NAND then series uN else 0)"
  have wd: "fnn wdP" "fnn wdN" "0 < wP \<Longrightarrow> fpos wdP" "0 < wN \<Longrightarrow> fpos wdN"
    using ty c ser [OF P(3)] ser [OF N(3)] par [OF P(3)] par [OF N(3)] P(3) N(3)
    by (auto simp: wdP_def wdN_def fsign)
  have co: "fpos (wdN * hN * capJunction T + wdP * hP * capJunction T
      + drainSidewall kN wdN hN T + drainSidewall kP wdP hP T
      + i2d kN * hN * capDrainToChannel T + i2d kP * hP * capDrainToChannel T)"
    by (rule fpos_sum6) (use T wd P(2-5) N(2-5) nn(3) in \<open>auto simp: fnn_drainSidewall fsign\<close>)
  have "CalculateGateCapacitance gateType numInput wN wP h T
      = Inr (CalculateGateCap wN T + CalculateGateCap wP T,
             wdN * hN * capJunction T + wdP * hP * capJunction T
      + drainSidewall kN wdN hN T + drainSidewall kP wdP hP T
      + i2d kN * hN * capDrainToChannel T + i2d kP * hP * capDrainToChannel T)"
    unfolding CalculateGateCapacitance_def Let_def P(1) N(1) ebind_simps prod.case
      wdP_def wdN_def series_def parallel_def contact_def F_def ..
  with ci co show ?thesis by simp
qed

lemma fits_drain: "gate_fits w 0 h T \<longleftrightarrow> fpos w \<and> fin h \<and> fits w h T" if "fnn w"
proof -
  have z: "0 < w \<longleftrightarrow> fpos w" using that fnn_fposI fpos_zero_less by blast
  have q: "fpos w \<Longrightarrow> 0 / (0 + w) = 0" by (auto simp: fpos_def dbl_lits)
  show ?thesis using that by (auto simp: gate_fits_def maxWidths_def fits_def z q)
qed

lemma DrainCap_NMOS_ok:
  assumes "tech_ok T" "fpos w" "fin h" "fits w h T"
  shows "\<exists>c. CalculateDrainCap w NMOS h T = Inr c \<and> fpos c"
proof -
  have "gate_fits w 0 h T" using assms fits_drain [of w h T] by (simp add: fsign)
  from GateCapacitance_ok [OF assms(1) this, of 1 0] show ?thesis
    by (auto simp: CalculateDrainCap_def)
qed

subsection \<open>Temperature\<close>

text \<open>The tables cover 300 K to 400 K; every other temperature ends the program.\<close>

definition temp_ok :: "int \<Rightarrow> bool" where
  "temp_ok t \<longleftrightarrow> 300 \<le> t \<and> t \<le> 400"

lemma tempIndex_ok [simp]: "temp_ok t \<Longrightarrow> tempIndex (i2d t) = Inr (t - 300)"
  by (simp add: tempIndex_def temp_ok_def i2d_def d2i_def int_ok_def)

lemma tempIndex_exit: "int_ok t \<Longrightarrow> \<not> temp_ok t \<Longrightarrow> tempIndex (i2d t) = Inl Exit"
  by (auto simp: tempIndex_def temp_ok_def i2d_def d2i_def)

lemma OnResistance_ok:
  assumes "tech_ok T" "temp_ok t" "fpos w"
  shows "\<exists>r. CalculateOnResistance w type (i2d t) T = Inr r \<and> fpos r"
proof -
  have i: "0 \<le> t - 300" "t - 300 \<le> 100" using assms(2) by (simp_all add: temp_ok_def)
  obtain a b where "aget (currentOnNmos T) (t - 300) = Inr a" "fpos a"
    "aget (currentOnPmos T) (t - 300) = Inr b" "fpos b"
    using table_ok_aget [OF tech_ok_tables(1) [OF assms(1)] i]
      table_ok_aget [OF tech_ok_tables(2) [OF assms(1)] i] by blast
  then show ?thesis using assms by (auto simp: CalculateOnResistance_def fsign)
qed

lemma GateLeakage_ok:
  assumes "tech_ok T" "temp_ok t" "fnn wN" "fnn wP" "0 \<le> numInput"
  shows "\<exists>l. CalculateGateLeakage gateType numInput wN wP (i2d t) T = Inr l \<and> fnn l"
proof -
  have i: "0 \<le> t - 300" "t - 300 \<le> 100" using assms(2) by (simp_all add: temp_ok_def)
  obtain a b where "aget (currentOffNmos T) (t - 300) = Inr a" "fpos a"
    "aget (currentOffPmos T) (t - 300) = Inr b" "fpos b"
    using table_ok_aget [OF tech_ok_tables(3) [OF assms(1)] i]
      table_ok_aget [OF tech_ok_tables(4) [OF assms(1)] i] by blast
  then show ?thesis using assms by (auto simp: CalculateGateLeakage_def Let_def fsign)
qed

lemma fpos_cMIN [fsign]: "fpos x \<Longrightarrow> fpos y \<Longrightarrow> fpos (cMIN x y)"
  by (auto simp: cMIN_def)

lemma Transconductance_pos [fsign]:
  "tech_ok T \<Longrightarrow> fpos w \<Longrightarrow> fpos (CalculateTransconductance w type T)"
  by (simp add: CalculateTransconductance_def Let_def fsign)

subsection \<open>The Horowitz delay\<close>

text \<open>For a finite, non-negative slope factor the closed form over the reals.\<close>

definition horowitz_real :: "real \<Rightarrow> real \<Rightarrow> real \<Rightarrow> real" where
  "horowitz_real tr beta rampInput = tr * sqrt (ln 2 * ln 2 + beta / (rampInput * tr))"

lemma ln2_sq_pos: "0 < ln (2::real) * ln 2"
  by simp

lemma horowitz_Fin:
  assumes "0 < tr" "0 \<le> beta" "0 < rampInput"
  shows "horowitz (Fin tr) (Fin beta) (Fin rampInput)
    = (Fin (horowitz_real tr beta rampInput), Fin (1 / 2 / horowitz_real tr beta rampInput))"
    and "tr * ln 2 \<le> horowitz_real tr beta rampInput" and "0 < horowitz_real tr beta rampInput"
proof -
  have b: "0 \<le> beta / (rampInput * tr)" using assms by simp
  have "ln 2 = sqrt (ln 2 * ln (2::real))" by simp
  also have "\<dots> \<le> sqrt (ln 2 * ln 2 + beta / (rampInput * tr))" using b by (simp only: real_sqrt_le_iff)
  finally have s: "ln 2 \<le> sqrt (ln 2 * ln 2 + beta / (rampInput * tr))" .
  show le: "tr * ln 2 \<le> horowitz_real tr beta rampInput"
    unfolding horowitz_real_def using s assms(1) by (intro mult_left_mono) simp_all
  have "0 < tr * ln 2" using assms(1) by simp
  with le show pos: "0 < horowitz_real tr beta rampInput" by linarith
  have nn: "0 \<le> ln 2 * ln (2::real) + beta / (rampInput * tr)"
    using b ln2_sq_pos by linarith
  have eq: "2 * (1 / rampInput / tr) * beta * (1 - 1 / 2) = beta / (rampInput * tr)"
    by (simp add: field_simps)
  have l: "dlog (1 / 2) * dlog (1 / 2) = Fin (ln 2 * ln 2)"
    by (simp add: dbl_lits ln_div)
  have r: "fst (horowitz (Fin tr) (Fin beta) (Fin rampInput)) = Fin (horowitz_real tr beta rampInput)"
    using assms nn eq unfolding horowitz_def Let_def fst_conv l
    by (simp add: dbl_lits horowitz_real_def)
  then have "snd (horowitz (Fin tr) (Fin beta) (Fin rampInput))
      = Fin (1 / 2 / horowitz_real tr beta rampInput)"
    using pos by (simp add: horowitz_def Let_def dbl_lits)
  with r show "horowitz (Fin tr) (Fin beta) (Fin rampInput)
    = (Fin (horowitz_real tr beta rampInput), Fin (1 / 2 / horowitz_real tr beta rampInput))"
    by (simp add: prod_eq_iff)
qed

lemma horowitz_pos:
  assumes "fpos tr" "fnn beta" "fpos rampInput" "horowitz tr beta rampInput = (d, r)"
  shows "fpos d" "fpos r"
  using assms horowitz_Fin by (auto simp: fpos_def fnn_def)

end
