(* ===== verification/FunctionUnit.thy ===== *)
theory FunctionUnit
  imports Formula
begin

text \<open>
  The base class of every circuit component (\<open>FunctionUnit.h\<close>, \<open>FunctionUnit.cpp\<close>).  A derived
  class is an extension of the record \<open>FunctionUnit\<close>, so that the operations here apply to it.
  A constructor takes the raw memory it runs on: the members it does not assign keep whatever the
  memory holds.
\<close>

record FunctionUnit =
  height :: dbl
  width :: dbl
  area :: dbl
  readLatency :: dbl
  writeLatency :: dbl
  readDynamicEnergy :: dbl
  writeDynamicEnergy :: dbl
  leakage :: dbl
  setLatency :: dbl
  resetLatency :: dbl
  refreshLatency :: dbl
  setDynamicEnergy :: dbl
  resetDynamicEnergy :: dbl
  cellReadEnergy :: dbl
  cellSetEnergy :: dbl
  cellResetEnergy :: dbl
  refreshDynamicEnergy :: dbl

definition FunctionUnit_new :: "'a FunctionUnit_scheme \<Rightarrow> 'a FunctionUnit_scheme" where
  "FunctionUnit_new raw = raw\<lparr>height := 0, width := 0, area := 0, readLatency := 0, writeLatency := 0,
     readDynamicEnergy := 0, writeDynamicEnergy := 0, leakage := 0, setLatency := 0,
     resetLatency := 0, refreshLatency := 0, setDynamicEnergy := 0, resetDynamicEnergy := 0,
     cellReadEnergy := 0, cellSetEnergy := 0, cellResetEnergy := 0, refreshDynamicEnergy := 0\<rparr>"

text \<open>
  The members that the assignment operators of the components copy: all of the base class except
  the two refresh values (\<open>refreshLatency\<close>, \<open>refreshDynamicEnergy\<close>), which only some copy.
\<close>

definition FunctionUnit_copy ::
  "'a FunctionUnit_scheme \<Rightarrow> 'a FunctionUnit_scheme \<Rightarrow> 'a FunctionUnit_scheme" where
  "FunctionUnit_copy lhs rhs = lhs\<lparr>height := height rhs, width := width rhs, area := area rhs,
     readLatency := readLatency rhs, writeLatency := writeLatency rhs,
     readDynamicEnergy := readDynamicEnergy rhs, writeDynamicEnergy := writeDynamicEnergy rhs,
     resetLatency := resetLatency rhs, setLatency := setLatency rhs,
     resetDynamicEnergy := resetDynamicEnergy rhs, setDynamicEnergy := setDynamicEnergy rhs,
     cellReadEnergy := cellReadEnergy rhs, cellSetEnergy := cellSetEnergy rhs,
     cellResetEnergy := cellResetEnergy rhs, leakage := leakage rhs\<rparr>"

subsection \<open>logical_effort\<close>

text \<open>One step of the sizing loop, from the last stage down to stage 1.\<close>

definition le_step ::
  "dbl \<Rightarrow> dbl \<Rightarrow> Technology \<Rightarrow> int \<Rightarrow> dbl list \<times> dbl list \<Rightarrow> (dbl list \<times> dbl list) res" where
  "le_step f p_to_n_sz_ratio T i w =
     ebind (aget (fst w) (i + 1)) (\<lambda>next_w.
       let wi = cMAX (next_w / f) (MIN_NMOS_SIZE * featureSize T)
       in ebind (aset (fst w) i wi) (\<lambda>wn.
          ebind (aset (snd w) i (p_to_n_sz_ratio * wi)) (\<lambda>wp. Inr (wn, wp))))"

text \<open>The number of gates, made even, at least \<open>num_gates_min\<close>.\<close>

definition le_gates :: "int \<Rightarrow> int \<Rightarrow> int" where
  "le_gates num_gates_min n = cMAX (if odd n then n + 1 else n) num_gates_min"

definition logical_effort ::
  "int \<Rightarrow> dbl \<Rightarrow> dbl \<Rightarrow> dbl list \<Rightarrow> dbl list \<Rightarrow> dbl \<Rightarrow> dbl \<Rightarrow> dbl \<Rightarrow> Technology
     \<Rightarrow> (int \<times> dbl list \<times> dbl list) res" where
  "logical_effort num_gates_min g F w_n w_p C_load p_to_n_sz_ratio max_w_nmos T =
     ebind (d2i (dlog F / dlog fopt)) (\<lambda>n0.
     let num_gates = le_gates num_gates_min n0;
         f = dpow F (1 / i2d num_gates);
         C_in = C_load / f;
         w = cMAX ((1 / (1 + p_to_n_sz_ratio)) * C_in / CalculateGateCap 1 T)
               (MIN_NMOS_SIZE * featureSize T)
     in ebind (aset w_n (num_gates - 1) w) (\<lambda>wn.
        ebind (aset w_p (num_gates - 1) (p_to_n_sz_ratio * w)) (\<lambda>wp.
        ebind (if max_w_nmos < w then
                 let C_ld = CalculateGateCap ((1 + p_to_n_sz_ratio) * max_w_nmos) T
                 in ebind (aget wn 0) (\<lambda>wn0. ebind (aget wp 0) (\<lambda>wp0.
                    let F' = g * C_ld / CalculateGateCap (wn0 + wp0) T
                    in ebind (d2i (dlog F' / dlog fopt)) (\<lambda>n1.
                       let num_gates' = le_gates num_gates_min (n1 + 1);
                           f' = dpow F' (1 / i2d (num_gates' - 1))
                       in ebind (aset wn (num_gates' - 1) max_w_nmos) (\<lambda>wn'.
                          ebind (aset wp (num_gates' - 1) (p_to_n_sz_ratio * max_w_nmos)) (\<lambda>wp'.
                            Inr (num_gates', f', wn', wp'))))))
               else Inr (num_gates, f, wn, wp)) (\<lambda>(ng, f, wn, wp).
        ebind (for_down (ng - 2) 1 (le_step f p_to_n_sz_ratio T) (wn, wp)) (\<lambda>(wn, wp).
        ebind (guard_exit (ng \<le> MAX_NUMBER_GATES_STAGE)) (\<lambda>_. Inr (ng, wn, wp)))))))"

end
