(* ===== verification/Component.thy ===== *)
theory Component
  imports FunctionUnit
begin

text \<open>
  The contract of a circuit component.  Every component of the program has the same life: it is
  initialized, then its area, parasitics (\<open>CalculateRC\<close>), latency and power are calculated.  The
  locale states what a user of a component relies on; each component discharges it for its own
  operations.
\<close>

subsection \<open>The environment\<close>

text \<open>
  Technology, temperature and transistor bounds under which the circuit formulas are meaningful.
  \<open>Technology::Initialize\<close> sets \<open>capPolywire\<close> to zero for every node; the configured largest
  transistor is 100 F by default.
\<close>

definition env_ok :: "Technology \<Rightarrow> InputParameter \<Rightarrow> bool" where
  "env_ok T ip \<longleftrightarrow> tech_ok T \<and> temp_ok (ip_temperature ip) \<and> fpos (maxNmosSize ip)
     \<and> 5 \<le> maxNmosSize ip \<and> maxNmosSize ip \<le> 1000000 \<and> capPolywire T = 0
     \<and> 1 / 4 \<le> pnSizeRatio T \<and> pnSizeRatio T \<le> 4"

lemma env_okD: "env_ok T ip \<Longrightarrow> tech_ok T" "env_ok T ip \<Longrightarrow> temp_ok (ip_temperature ip)"
  "env_ok T ip \<Longrightarrow> fpos (maxNmosSize ip)"
  by (simp_all add: env_ok_def)

subsection \<open>The contract\<close>

definition geometry :: "'a FunctionUnit_scheme \<Rightarrow> dbl \<times> dbl \<times> dbl" where
  "geometry s = (height s, width s, area s)"

definition geometry_ok :: "'a FunctionUnit_scheme \<Rightarrow> bool" where
  "geometry_ok s \<longleftrightarrow> fpos (height s) \<and> fpos (width s) \<and> area s = height s * width s"

definition latency_of :: "'a FunctionUnit_scheme \<Rightarrow> dbl \<times> dbl" where
  "latency_of s = (readLatency s, writeLatency s)"

definition latency_ok :: "'a FunctionUnit_scheme \<Rightarrow> bool" where
  "latency_ok s \<longleftrightarrow> fpos (readLatency s) \<and> writeLatency s = readLatency s"

definition power_ok :: "'a FunctionUnit_scheme \<Rightarrow> bool" where
  "power_ok s \<longleftrightarrow> fnn (leakage s) \<and> fpos (readDynamicEnergy s)
     \<and> writeDynamicEnergy s = readDynamicEnergy s"

definition power_of :: "'a FunctionUnit_scheme \<Rightarrow> dbl \<times> dbl \<times> dbl" where
  "power_of s = (leakage s, readDynamicEnergy s, writeDynamicEnergy s)"

lemma geometry_ok_cong: "geometry s' = geometry s \<Longrightarrow> geometry_ok s' = geometry_ok s"
  by (simp add: geometry_def geometry_ok_def)

lemma latency_ok_cong: "latency_of s' = latency_of s \<Longrightarrow> latency_ok s' = latency_ok s"
  by (simp add: latency_of_def latency_ok_def)

text \<open>The order in which the program evaluates a component.\<close>

definition evaluate ::
  "('s \<Rightarrow> 's res) \<Rightarrow> ('s \<Rightarrow> 's res) \<Rightarrow> (dbl \<Rightarrow> 's \<Rightarrow> 's res) \<Rightarrow> ('s \<Rightarrow> 's res) \<Rightarrow> dbl \<Rightarrow> 's \<Rightarrow> 's res" where
  "evaluate calcArea calcRC calcLatency calcPower ramp s =
     ebind (calcArea s) (\<lambda>s. ebind (calcRC s) (\<lambda>s. ebind (calcLatency ramp s) calcPower))"

locale component =
  fixes ready :: "'a FunctionUnit_scheme \<Rightarrow> bool"
    and hasRC :: "'a FunctionUnit_scheme \<Rightarrow> bool"
    and rampOut :: "'a FunctionUnit_scheme \<Rightarrow> dbl"
    and calcArea :: "'a FunctionUnit_scheme \<Rightarrow> 'a FunctionUnit_scheme res"
    and calcRC :: "'a FunctionUnit_scheme \<Rightarrow> 'a FunctionUnit_scheme res"
    and calcLatency :: "dbl \<Rightarrow> 'a FunctionUnit_scheme \<Rightarrow> 'a FunctionUnit_scheme res"
    and calcPower :: "'a FunctionUnit_scheme \<Rightarrow> 'a FunctionUnit_scheme res"
  assumes area_law: "ready s \<Longrightarrow> \<exists>s'. calcArea s = Inr s' \<and> ready s' \<and> (hasRC s \<longrightarrow> hasRC s')
      \<and> geometry_ok s' \<and> power_of s' = power_of s"
    and rc_law: "ready s \<Longrightarrow> \<exists>s'. calcRC s = Inr s' \<and> ready s' \<and> hasRC s' \<and> geometry s' = geometry s
      \<and> power_of s' = power_of s"
    and latency_law: "ready s \<Longrightarrow> hasRC s \<Longrightarrow> fpos ramp \<Longrightarrow>
      \<exists>s'. calcLatency ramp s = Inr s' \<and> ready s' \<and> hasRC s' \<and> geometry s' = geometry s
        \<and> latency_ok s' \<and> fpos (rampOut s') \<and> power_of s' = power_of s"
    and power_law: "ready s \<Longrightarrow> hasRC s \<Longrightarrow>
      \<exists>s'. calcPower s = Inr s' \<and> ready s' \<and> hasRC s' \<and> geometry s' = geometry s
        \<and> latency_of s' = latency_of s \<and> power_ok s'"
begin

text \<open>A ready component can be evaluated, and every figure of merit has the right sign.\<close>

lemma evaluate_ok:
  assumes "ready s" "fpos ramp"
  shows "\<exists>s'. evaluate calcArea calcRC calcLatency calcPower ramp s = Inr s' \<and> ready s' \<and> hasRC s'
    \<and> geometry_ok s' \<and> latency_ok s' \<and> power_ok s'"
proof -
  obtain s1 where 1: "calcArea s = Inr s1" "ready s1" "geometry_ok s1"
    using area_law [OF assms(1)] by blast
  obtain s2 where 2: "calcRC s1 = Inr s2" "ready s2" "hasRC s2" "geometry_ok s2"
    using rc_law [OF 1(2)] 1(3) geometry_ok_cong by blast
  obtain s3 where 3: "calcLatency ramp s2 = Inr s3" "ready s3" "hasRC s3" "geometry_ok s3" "latency_ok s3"
    using latency_law [OF 2(2,3) assms(2)] 2(4) geometry_ok_cong by blast
  obtain s4 where "calcPower s3 = Inr s4" "ready s4" "hasRC s4" "geometry_ok s4" "latency_ok s4"
    "power_ok s4"
    using power_law [OF 3(2,3)] 3(4,5) geometry_ok_cong latency_ok_cong by blast
  then show ?thesis by (simp add: evaluate_def 1 2 3)
qed

text \<open>Evaluating again is possible.\<close>

lemma evaluate_twice:
  assumes "ready s" "fpos ramp" "fpos ramp'"
  shows "\<exists>s'. ebind (evaluate calcArea calcRC calcLatency calcPower ramp s)
      (evaluate calcArea calcRC calcLatency calcPower ramp') = Inr s' \<and> ready s'"
  using evaluate_ok [OF assms(1,2)] evaluate_ok [OF _ assms(3)] by (metis ebind_simps(2))

end

subsection \<open>A sample environment\<close>

text \<open>
  A technology and a configuration with round numbers, used to exhibit instances of the theorems:
  a feature size of one, capacitances of one, tables with the same current at every temperature.
\<close>

definition sample_tech :: Technology where
  "sample_tech = \<lparr>tech_initialized = True, featureSizeInNano = 32, featureSize = 1, deviceRoadmap = LOP,
     vdd = 2, vpp = 3, vth = 1, vdsatNmos = 1, vdsatPmos = 1, phyGateLength = 1, capIdealGate = 1,
     capFringe = 0, capJunction = 1, capOverlap = 0, capSidewall = 1, capDrainToChannel = 1, capOx = 1,
     buildInPotential = 9 / 10, effectiveElectronMobility = 1, effectiveHoleMobility = 1,
     pnSizeRatio = 2, effectiveResistanceMultiplier = 1,
     currentOnNmos = replicate 101 1, currentOnPmos = replicate 101 1,
     currentOffNmos = replicate 101 1, currentOffPmos = replicate 101 1, capPolywire = 0,
     capTSV = (\<lambda>_. 1), resTSV = (\<lambda>_. 1), areaTSV = (\<lambda>_. 1)\<rparr>"

definition sample_ip :: InputParameter where
  "sample_ip = \<lparr>designTarget = RAM_chip, optimizationTarget = read_latency_optimized, processNode = 32,
     ip_capacity = 1024, wordWidth = 32, ip_deviceRoadmap = LOP, ip_temperature = 350,
     writeScheme = normal_write, isConstraintApplied = False, isPruningEnabled = False,
     ip_associativity = 1, cacheAccessMode = normal_access_mode, pageSize = 0, flashBlockSize = 0,
     routingMode = h_tree, internalSensing = True, maxNmosSize = 100, maxLocalWireType = 0,
     maxGlobalWireType = 5, ip_partitionGranularity = 0, localTsvProjection = 0,
     globalTsvProjection = 0, tsvRedundancy = 1, ip_monolithicStackCount = 1\<rparr>"

lemma env_ok_sample: "env_ok sample_tech sample_ip"
  by (simp add: env_ok_def sample_tech_def sample_ip_def tech_ok_def temp_ok_def table_ok_def dbl_lits)

end
