(* ===== verification/OutputDriver.thy ===== *)
theory OutputDriver
  imports Component
begin

text \<open>
  The inverter chain that drives a large load (\<open>OutputDriver.cpp\<close>): its sizing by logical effort,
  by a fixed trade-off or for area, and its area, parasitics, latency and power.
\<close>

record OutputDriver = FunctionUnit +
  od_initialized :: bool
  od_invalid :: bool
  logicEffort :: dbl
  inputCap :: dbl
  outputCap :: dbl
  outputRes :: dbl
  inv :: bool
  numStage :: int
  od_areaOptimizationLevel :: BufferDesignTarget
  od_minDriverCurrent :: dbl
  widthNMOS :: "dbl list"
  widthPMOS :: "dbl list"
  capInput :: "dbl list"
  capOutput :: "dbl list"
  od_rampInput :: dbl
  od_rampOutput :: dbl

text \<open>The four arrays have \<open>MAX_INV_CHAIN_LEN\<close> elements.\<close>

definition od_arrays :: "OutputDriver \<Rightarrow> bool" where
  "od_arrays od \<longleftrightarrow> length (widthNMOS od) = 20 \<and> length (widthPMOS od) = 20
     \<and> length (capInput od) = 20 \<and> length (capOutput od) = 20"

definition OutputDriver_new :: "OutputDriver \<Rightarrow> OutputDriver" where
  "OutputDriver_new raw = (FunctionUnit_new raw)\<lparr>od_initialized := False, od_invalid := False\<rparr>"

subsection \<open>Initialize\<close>

text \<open>The number of stages before it is bounded: the parity is adjusted so that the chain inverts.\<close>

definition stage_count :: "dbl \<Rightarrow> int res" where
  "stage_count F = ebind (d2i (dlog F / dlog OPT_F + 1 / 2)) (\<lambda>n. Inr (cMAX 0 (n - 1)))"

definition adjust_parity :: "bool \<Rightarrow> bool \<Rightarrow> int \<Rightarrow> int" where
  "adjust_parity want_odd inv' n = (if (odd n \<noteq> inv') = want_odd then n + 1 else n)"

definition bound_stages :: "int \<Rightarrow> int" where
  "bound_stages n = (if MAX_INV_CHAIN_LEN < n then MAX_INV_CHAIN_LEN else n)"

text \<open>The sizes of the stages in front of an already sized one, last to first.\<close>

definition chain_step ::
  "dbl \<Rightarrow> Technology \<Rightarrow> int \<Rightarrow> dbl list \<times> dbl list \<Rightarrow> (dbl list \<times> dbl list) res" where
  "chain_step f T i w =
     ebind (aget (fst w) (i + 1)) (\<lambda>next_w.
       let wi = next_w / f;
           wi = (if wi < MIN_NMOS_SIZE * featureSize T then MIN_NMOS_SIZE * featureSize T else wi)
       in ebind (aset (fst w) i wi) (\<lambda>wn.
          ebind (aset (snd w) i (wi * pnSizeRatio T)) (\<lambda>wp. Inr (wn, wp))))"

definition minNMOSDriverWidth :: "Technology \<Rightarrow> InputParameter \<Rightarrow> dbl \<Rightarrow> dbl res" where
  "minNMOSDriverWidth T ip minCurrent =
     ebind (aget (currentOnNmos T) (ip_temperature ip - 300)) (\<lambda>ion.
       Inr (cMAX (MIN_NMOS_SIZE * featureSize T) (minCurrent / ion)))"

text \<open>\<open>areaOptimizationLevel == latency_first\<close>.\<close>

definition init_latency_first ::
  "Technology \<Rightarrow> InputParameter \<Rightarrow> dbl \<Rightarrow> OutputDriver \<Rightarrow> OutputDriver res" where
  "init_latency_first T ip minW od =
     (let F = cMAX 1 (logicEffort od * outputCap od / inputCap od);
          maxW = maxNmosSize ip * featureSize T
      in ebind (stage_count F) (\<lambda>n0.
         let opt = bound_stages (adjust_parity True (inv od) n0);
             f = dpow F (1 / i2d (opt + 1));
             inputCapLast = outputCap od / f;
             w0 = cMAX (MIN_NMOS_SIZE * featureSize T)
                    (inputCapLast / CalculateGateCap 1 T / (1 + pnSizeRatio T));
             od1 = od\<lparr>numStage := opt\<rparr>
         in ebind (aset (widthNMOS od1) (opt - 1) w0) (\<lambda>wn0.
            ebind (if maxW < w0 then
                     ebind (aset wn0 (opt - 1) maxW) (\<lambda>wn1.
                       let capLastStage = CalculateGateCap
                             ((1 + pnSizeRatio T) * maxNmosSize ip * featureSize T) T;
                           F' = logicEffort od * capLastStage / inputCap od
                       in Inr (wn1, maxW, dpow F' (1 / i2d opt)))
                   else Inr (wn0, w0, f)) (\<lambda>(wn, w, f).
            if w < minW
            then Inr (od1\<lparr>widthNMOS := wn, od_areaOptimizationLevel := latency_area_trade_off\<rparr>)
            else ebind (aset (widthPMOS od1) (opt - 1) (w * pnSizeRatio T)) (\<lambda>wp.
                 ebind (for_down (opt - 2) 0 (chain_step f T) (wn, wp)) (\<lambda>(wn, wp).
                   Inr (od1\<lparr>widthNMOS := wn, widthPMOS := wp\<rparr>)))))))"

text \<open>\<open>areaOptimizationLevel == latency_area_trade_off\<close>, also the fallback of the first mode.\<close>

definition init_trade_off ::
  "Technology \<Rightarrow> dbl \<Rightarrow> OutputDriver \<Rightarrow> OutputDriver res" where
  "init_trade_off T minW od =
     (let newOutputCap = CalculateGateCap minW T * (1 + pnSizeRatio T);
          F = cMAX 1 (logicEffort od * newOutputCap / inputCap od)
      in ebind (stage_count F) (\<lambda>n0.
         let opt = bound_stages (adjust_parity False (inv od) n0);
             f = dpow F (1 / i2d (opt + 1))
         in ebind (aset (widthNMOS od) opt minW) (\<lambda>wn.
            ebind (aset (widthPMOS od) opt (minW * pnSizeRatio T)) (\<lambda>wp.
            ebind (for_down (opt - 1) 0 (chain_step f T) (wn, wp)) (\<lambda>(wn, wp).
              Inr (od\<lparr>numStage := opt + 1, widthNMOS := wn, widthPMOS := wp\<rparr>))))))"

text \<open>\<open>areaOptimizationLevel == area_first\<close>; the result says whether the driver is possible.\<close>

definition init_area_first ::
  "Technology \<Rightarrow> InputParameter \<Rightarrow> dbl \<Rightarrow> OutputDriver \<Rightarrow> (bool \<times> OutputDriver) res" where
  "init_area_first T ip minW od =
     (let w = cMAX (MIN_NMOS_SIZE * featureSize T) minW
      in ebind (aset (widthNMOS od) 0 w) (\<lambda>wn.
         if AREA_OPT_CONSTRAIN * maxNmosSize ip * featureSize T < w
         then Inr (False, od\<lparr>numStage := 1, widthNMOS := wn, od_invalid := True\<rparr>)
         else ebind (aset (widthPMOS od) 0 (w * pnSizeRatio T)) (\<lambda>wp.
                Inr (True, od\<lparr>numStage := 1, widthNMOS := wn, widthPMOS := wp\<rparr>))))"

definition OutputDriver_Initialize ::
  "Technology \<Rightarrow> InputParameter \<Rightarrow> dbl \<Rightarrow> dbl \<Rightarrow> dbl \<Rightarrow> dbl \<Rightarrow> bool \<Rightarrow> BufferDesignTarget \<Rightarrow> dbl
     \<Rightarrow> OutputDriver \<Rightarrow> OutputDriver res" where
  "OutputDriver_Initialize T ip effort inCap outCap outRes inv' level minCurrent od =
     (let od0 = od\<lparr>logicEffort := effort, inputCap := inCap, outputCap := outCap,
                   outputRes := outRes, inv := inv', od_areaOptimizationLevel := level,
                   od_minDriverCurrent := minCurrent\<rparr>
      in ebind (minNMOSDriverWidth T ip minCurrent) (\<lambda>minW.
         if maxNmosSize ip * featureSize T < minW then Inr (od0\<lparr>od_invalid := True\<rparr>)
         else
           ebind (if od_areaOptimizationLevel od0 = latency_first
                  then init_latency_first T ip minW od0 else Inr od0) (\<lambda>od1.
           ebind (if od_areaOptimizationLevel od1 = latency_area_trade_off
                  then ebind (init_trade_off T minW od1) (\<lambda>od2. Inr (True, od2))
                  else if od_areaOptimizationLevel od1 = area_first
                  then init_area_first T ip minW od1
                  else Inr (True, od1)) (\<lambda>(ok, od2).
             if ok then Inr (od2\<lparr>od_areaOptimizationLevel := level, od_initialized := True\<rparr>)
             else Inr od2))))"

subsection \<open>Area, parasitics, latency, power\<close>

definition OutputDriver_CalculateArea :: "Technology \<Rightarrow> OutputDriver \<Rightarrow> OutputDriver res" where
  "OutputDriver_CalculateArea T od =
     (if \<not> od_initialized od then Inr od
      else if od_invalid od
      then Inr (od\<lparr>height := invalid_value, width := invalid_value, area := invalid_value\<rparr>)
      else ebind (for_up 0 (numStage od) (\<lambda>i (totalHeight, totalWidth).
             ebind (aget (widthNMOS od) i) (\<lambda>wn. ebind (aget (widthPMOS od) i) (\<lambda>wp.
             ebind (CalculateGateArea INV 1 wn wp (featureSize T * 40) T) (\<lambda>(h, w, _).
               Inr (cMAX totalHeight h, totalWidth + w))))) (0, 0)) (\<lambda>(totalHeight, totalWidth).
           Inr (od\<lparr>height := totalHeight, width := totalWidth, area := totalHeight * totalWidth\<rparr>)))"

definition OutputDriver_CalculateRC :: "Technology \<Rightarrow> OutputDriver \<Rightarrow> OutputDriver res" where
  "OutputDriver_CalculateRC T od =
     (if \<not> od_initialized od then Inr od
      else if od_invalid od then Inr od
      else if numStage od = 0
      then ebind (aset (capInput od) 0 0) (\<lambda>ci. Inr (od\<lparr>capInput := ci\<rparr>))
      else ebind (for_up 0 (numStage od) (\<lambda>i (ci, co).
             ebind (aget (widthNMOS od) i) (\<lambda>wn. ebind (aget (widthPMOS od) i) (\<lambda>wp.
             ebind (CalculateGateCapacitance INV 1 wn wp (featureSize T * MAX_TRANSISTOR_HEIGHT) T)
               (\<lambda>(cin, cout).
             ebind (aset ci i cin) (\<lambda>ci'. ebind (aset co i cout) (\<lambda>co'. Inr (ci', co')))))))
             (capInput od, capOutput od)) (\<lambda>(ci, co).
           Inr (od\<lparr>capInput := ci, capOutput := co\<rparr>)))"

text \<open>One inverter: pull-down resistance, time constant, slope factor, Horowitz delay.\<close>

definition inverter_delay ::
  "Technology \<Rightarrow> InputParameter \<Rightarrow> dbl \<Rightarrow> (dbl \<Rightarrow> dbl) \<Rightarrow> dbl \<Rightarrow> (dbl \<times> dbl) res" where
  "inverter_delay T ip w time_constant ramp =
     ebind (CalculateOnResistance w NMOS (i2d (ip_temperature ip)) T) (\<lambda>resPullDown.
       let tr = time_constant resPullDown;
           gm = CalculateTransconductance w NMOS T;
           beta = 1 / (resPullDown * gm)
       in Inr (horowitz tr beta ramp))"

definition OutputDriver_CalculateLatency ::
  "Technology \<Rightarrow> InputParameter \<Rightarrow> dbl \<Rightarrow> OutputDriver \<Rightarrow> OutputDriver res" where
  "OutputDriver_CalculateLatency T ip ramp od =
     (if \<not> od_initialized od then Inr od
      else if od_invalid od
      then Inr (od\<lparr>readLatency := invalid_value, writeLatency := invalid_value\<rparr>)
      else ebind (for_up 0 (numStage od - 1) (\<lambda>i (lat, rin).
             ebind (aget (widthNMOS od) i) (\<lambda>w.
             ebind (aget (capOutput od) i) (\<lambda>co. ebind (aget (capInput od) (i + 1)) (\<lambda>ci.
             ebind (inverter_delay T ip w (\<lambda>r. r * (co + ci)) rin) (\<lambda>(d, rout).
               Inr (lat + d, rout)))))) (0, ramp)) (\<lambda>(lat, rin).
           ebind (aget (widthNMOS od) (numStage od - 1)) (\<lambda>w.
           ebind (aget (capOutput od) (numStage od - 1)) (\<lambda>co.
           ebind (inverter_delay T ip w
                    (\<lambda>r. r * (co + outputCap od) + outputCap od * outputRes od / 2) rin) (\<lambda>(d, rout).
             Inr (od\<lparr>readLatency := lat + d, od_rampOutput := rout, od_rampInput := ramp,
                     writeLatency := lat + d\<rparr>))))))"

definition OutputDriver_CalculatePower ::
  "Technology \<Rightarrow> InputParameter \<Rightarrow> OutputDriver \<Rightarrow> OutputDriver res" where
  "OutputDriver_CalculatePower T ip od =
     (if \<not> od_initialized od then Inr od
      else if od_invalid od
      then Inr (od\<lparr>readDynamicEnergy := invalid_value, writeDynamicEnergy := invalid_value,
                   leakage := invalid_value\<rparr>)
      else ebind (for_up 0 (numStage od) (\<lambda>i leak.
             ebind (aget (widthNMOS od) i) (\<lambda>wn. ebind (aget (widthPMOS od) i) (\<lambda>wp.
             ebind (CalculateGateLeakage INV 1 wn wp (i2d (ip_temperature ip)) T) (\<lambda>l.
               Inr (leak + l * vdd T))))) 0) (\<lambda>leak.
           ebind (for_up 0 (numStage od - 1) (\<lambda>i e.
             ebind (aget (capOutput od) i) (\<lambda>co. ebind (aget (capInput od) (i + 1)) (\<lambda>ci.
               Inr (e + (co + ci) * vdd T * vdd T)))) 0) (\<lambda>e.
           ebind (aget (capOutput od) (numStage od - 1)) (\<lambda>co.
             let e' = e + (co + outputCap od) * vdd T * vdd T
             in Inr (od\<lparr>leakage := leak, readDynamicEnergy := e', writeDynamicEnergy := e'\<rparr>)))))"

text \<open>The assignment operator copies neither the arrays nor the refresh values.\<close>

definition OutputDriver_assign :: "OutputDriver \<Rightarrow> OutputDriver \<Rightarrow> OutputDriver" where
  "OutputDriver_assign lhs rhs = (FunctionUnit_copy lhs rhs)\<lparr>
     od_initialized := od_initialized rhs, od_invalid := od_invalid rhs,
     logicEffort := logicEffort rhs, inputCap := inputCap rhs, outputCap := outputCap rhs,
     outputRes := outputRes rhs, inv := inv rhs, numStage := numStage rhs,
     od_areaOptimizationLevel := od_areaOptimizationLevel rhs,
     od_minDriverCurrent := od_minDriverCurrent rhs,
     od_rampInput := od_rampInput rhs, od_rampOutput := od_rampOutput rhs\<rparr>"

subsection \<open>The sizing\<close>

text \<open>
  Stage \<open>j\<close> of the chain is at least of the minimum size, at most \<open>maxW\<close>, and its PMOS has the
  width ratio of the technology.
\<close>


definition width_ok :: "Technology \<Rightarrow> dbl \<Rightarrow> dbl list \<times> dbl list \<Rightarrow> nat \<Rightarrow> bool" where
  "width_ok T maxW w j \<longleftrightarrow> fpos (fst w ! j) \<and> MIN_NMOS_SIZE * featureSize T \<le> fst w ! j
     \<and> fst w ! j \<le> maxW \<and> snd w ! j = fst w ! j * pnSizeRatio T"

lemma min_width: "tech_ok T \<Longrightarrow> fpos (MIN_NMOS_SIZE * featureSize T)"
  by (simp add: fsign)

lemma div_le_self: "fnn x \<Longrightarrow> fpos f \<Longrightarrow> 1 \<le> f \<Longrightarrow> x / f \<le> x"
  by (auto simp: fnn_def fpos_def dbl_lits divide_le_eq mult_le_cancel_left1)

lemma chain_step_ok:
  assumes T: "tech_ok T" and f: "fpos f" "1 \<le> f" and M: "MIN_NMOS_SIZE * featureSize T \<le> maxW"
    and len: "length wn = 20" "length wp = 20"
    and k: "0 \<le> k" "k < 19" and nxt: "fpos (wn ! nat (k + 1))" "wn ! nat (k + 1) \<le> maxW"
  shows "\<exists>wn' wp'. chain_step f T k (wn, wp) = Inr (wn', wp') \<and> length wn' = 20 \<and> length wp' = 20
    \<and> width_ok T maxW (wn', wp') (nat k) \<and> (\<forall>j. j \<noteq> nat k \<longrightarrow> wn' ! j = wn ! j \<and> wp' ! j = wp ! j)"
proof -
  define m where "m = MIN_NMOS_SIZE * featureSize T"
  define q where "q = wn ! nat (k + 1) / f"
  define w where "w = (if q < m then m else q)"
  have m: "fpos m" using min_width [OF T] by (simp only: m_def)
  have q: "fpos q" using nxt f by (simp add: q_def fsign)
  have "q \<le> wn ! nat (k + 1)" unfolding q_def by (rule div_le_self) (use nxt f in \<open>auto simp: fsign\<close>)
  then have qM: "q \<le> maxW" using nxt(2) by (rule dleq_trans)
  have w: "fpos w" "m \<le> w" "w \<le> maxW"
    using m q not_dless [of q m] qM M by (auto simp: w_def m_def fpos_def)
  have "chain_step f T k (wn, wp) = Inr (wn[nat k := w], wp[nat k := w * pnSizeRatio T])"
    using k len by (simp add: chain_step_def Let_def w_def q_def m_def)
  then show ?thesis using w len k by (auto simp: width_ok_def m_def)
qed

lemma chain_loop:
  assumes T: "tech_ok T" and f: "fpos f" "1 \<le> f" and M: "MIN_NMOS_SIZE * featureSize T \<le> maxW"
  shows "k = int n - 1 \<Longrightarrow> n \<le> 19 \<Longrightarrow> length wn = 20 \<Longrightarrow> length wp = 20 \<Longrightarrow> fpos (wn ! n) \<Longrightarrow>
    wn ! n \<le> maxW \<Longrightarrow>
    \<exists>wn' wp'. for_down k 0 (chain_step f T) (wn, wp) = Inr (wn', wp')
      \<and> length wn' = 20 \<and> length wp' = 20 \<and> (\<forall>j<n. width_ok T maxW (wn', wp') j)
      \<and> (\<forall>j\<ge>n. wn' ! j = wn ! j \<and> wp' ! j = wp ! j)"
proof (induction n arbitrary: k wn wp)
  case 0
  then show ?case by simp
next
  case (Suc n)
  have k: "0 \<le> k" "k < 19" "nat k = n" "nat (k + 1) = Suc n" using Suc.prems(1,2) by auto
  obtain wn1 wp1 where s: "chain_step f T k (wn, wp) = Inr (wn1, wp1)" "length wn1 = 20"
    "length wp1 = 20" "width_ok T maxW (wn1, wp1) n"
    "\<forall>j. j \<noteq> n \<longrightarrow> wn1 ! j = wn ! j \<and> wp1 ! j = wp ! j"
    using chain_step_ok [OF T f M Suc.prems(3,4) k(1,2)] Suc.prems(5,6) k(3,4) by auto
  have "fpos (wn1 ! n)" "wn1 ! n \<le> maxW" using s(4) by (simp_all add: width_ok_def)
  from Suc.IH [OF _ _ s(2,3) this, of "k - 1"] Suc.prems(1,2) obtain wn' wp' where
    r: "for_down (k - 1) 0 (chain_step f T) (wn1, wp1) = Inr (wn', wp')" "length wn' = 20"
      "length wp' = 20" "\<forall>j<n. width_ok T maxW (wn', wp') j"
      "\<forall>j\<ge>n. wn' ! j = wn1 ! j \<and> wp' ! j = wp1 ! j" by auto
  have "for_down k 0 (chain_step f T) (wn, wp) = Inr (wn', wp')"
    using k(1) by (simp add: for_down_step s(1) r(1))
  moreover have "\<forall>j<Suc n. width_ok T maxW (wn', wp') j"
    using r(4,5) s(4) by (auto simp: less_Suc_eq width_ok_def)
  ultimately show ?case using r s(5) by auto
qed

text \<open>The number of stages.\<close>

definition dbl_range :: "dbl \<Rightarrow> bool" where
  "dbl_range x \<longleftrightarrow> x \<le> Fin (2 ^ 1024)"

lemma stage_count_ok:
  assumes "fpos F" "1 \<le> F" "dbl_range F"
  shows "\<exists>n\<ge>0. stage_count F = Inr n"
proof -
  obtain r where r: "F = Fin r" "1 \<le> r" "r \<le> 2 ^ 1024"
    using assms by (auto simp: fpos_def dbl_lits dbl_range_def)
  have l: "0 \<le> ln r / ln 4" using r(2) by simp
  have "ln r \<le> ln (2 ^ 1024)" using r(2,3) by simp
  also have "\<dots> = 1024 * ln 2" by (subst ln_realpow) simp_all
  also have "\<dots> \<le> 1024 * ln 4" by simp
  finally have u: "ln r / ln 4 \<le> 1024" by (simp add: pos_divide_le_eq)
  have F0: "\<not> r < 0" "r \<noteq> 0" "0 < r" using r(2) by auto
  have eq: "dlog F / dlog OPT_F + 1 / 2 = Fin (ln r / ln 4 + 1 / 2)"
    using F0 by (simp add: r(1) dbl_lits)
  have "int_ok (trunc (ln r / ln 4 + 1 / 2))"
  proof (rule int_ok_small)
    show "0 \<le> trunc (ln r / ln 4 + 1 / 2)" using l by (intro trunc_nonneg) simp
    have "\<lfloor>ln r / ln 4 + 1 / 2\<rfloor> < 2147483648" using u by (simp add: floor_less_iff)
    then show "trunc (ln r / ln 4 + 1 / 2) < 2147483648" using l by (simp add: trunc_def)
  qed
  then have "d2i (dlog F / dlog OPT_F + 1 / 2) = Inr (trunc (ln r / ln 4 + 1 / 2))"
    unfolding eq by (rule d2i_Fin)
  then show ?thesis by (simp add: stage_count_def)
qed

lemma stage_count_small:
  assumes "fpos F" "1 \<le> F" "F \<le> Fin (4 ^ k)" "k < 1000"
  shows "\<exists>n\<ge>0. stage_count F = Inr n \<and> n \<le> max 0 (int k - 1)"
proof -
  obtain r where r: "F = Fin r" "1 \<le> r" "r \<le> 4 ^ k"
    using assms by (auto simp: fpos_def dbl_lits)
  have l: "0 \<le> ln r / ln 4" using r(2) by simp
  have "ln r \<le> ln (4 ^ k)" using r(2,3) by simp
  also have "\<dots> = real k * ln 4" by (subst ln_realpow) simp_all
  finally have u: "ln r / ln 4 \<le> real k" by (simp add: pos_divide_le_eq)
  have F0: "\<not> r < 0" "r \<noteq> 0" "0 < r" using r(2) by auto
  have eq: "dlog F / dlog OPT_F + 1 / 2 = Fin (ln r / ln 4 + 1 / 2)"
    using F0 by (simp add: r(1) dbl_lits)
  have f: "\<lfloor>ln r / ln 4 + 1 / 2\<rfloor> \<le> int k" using u by (simp add: floor_le_iff)
  have t: "trunc (ln r / ln 4 + 1 / 2) \<le> int k" "0 \<le> trunc (ln r / ln 4 + 1 / 2)"
    using l f by (simp_all add: trunc_def)
  have "int_ok (trunc (ln r / ln 4 + 1 / 2))"
    by (rule int_ok_small) (use t assms(4) in auto)
  then have "d2i (dlog F / dlog OPT_F + 1 / 2) = Inr (trunc (ln r / ln 4 + 1 / 2))"
    unfolding eq by (rule d2i_Fin)
  then show ?thesis using t by (simp add: stage_count_def)
qed

text \<open>The result of the sizing: 1 to 20 stages, each of at least the minimum size.\<close>

definition sized :: "Technology \<Rightarrow> dbl \<Rightarrow> dbl \<Rightarrow> int \<Rightarrow> dbl list \<Rightarrow> dbl list \<Rightarrow> bool" where
  "sized T maxW minW n wn wp \<longleftrightarrow> length wn = 20 \<and> length wp = 20 \<and> 1 \<le> n \<and> n \<le> 20
     \<and> (\<forall>j<nat n. width_ok T maxW (wn, wp) j) \<and> minW \<le> wn ! nat (n - 1)"

lemma chain_sized:
  assumes T: "tech_ok T" and f: "fpos f" "1 \<le> f" and M: "MIN_NMOS_SIZE * featureSize T \<le> maxW"
    and n: "1 \<le> n" "n \<le> 20"
    and len: "length wn = 20" "length wp = 20"
    and last: "width_ok T maxW (wn, wp) (nat (n - 1))" "minW \<le> wn ! nat (n - 1)"
  shows "\<exists>wn' wp'. for_down (n - 2) 0 (chain_step f T) (wn, wp) = Inr (wn', wp')
    \<and> sized T maxW minW n wn' wp'"
proof -
  have p: "fpos (wn ! nat (n - 1))" "wn ! nat (n - 1) \<le> maxW"
    using last(1) by (simp_all add: width_ok_def)
  have "n - 2 = int (nat (n - 1)) - 1" "nat (n - 1) \<le> 19" using n by auto
  from chain_loop [OF T f M this len p] obtain wn' wp' where r:
    "for_down (n - 2) 0 (chain_step f T) (wn, wp) = Inr (wn', wp')"
    "length wn' = 20" "length wp' = 20" "\<forall>j<nat (n - 1). width_ok T maxW (wn', wp') j"
    "\<forall>j\<ge>nat (n - 1). wn' ! j = wn ! j \<and> wp' ! j = wp ! j" by blast
  have "width_ok T maxW (wn', wp') j" if j: "j < nat n" for j
  proof (cases "j = nat (n - 1)")
    case True
    then show ?thesis using r(5) last(1) by (simp add: width_ok_def)
  next
    case False
    then have "j < nat (n - 1)" using j n by auto
    then show ?thesis using r(4) by blast
  qed
  then show ?thesis using r last(2) n by (auto simp: sized_def)
qed

lemma bound_stages_le: "bound_stages n \<le> 20" "1 \<le> n \<Longrightarrow> 1 \<le> bound_stages n" "0 \<le> n \<Longrightarrow> 0 \<le> bound_stages n"
  by (simp_all add: bound_stages_def)

lemma adjust_parity_True: "0 \<le> n \<Longrightarrow> odd (adjust_parity True True n) \<and> 1 \<le> adjust_parity True True n"
  by (auto simp: adjust_parity_def) presburger

lemma adjust_parity_False: "0 \<le> n \<Longrightarrow> even (adjust_parity False True n) \<and> n \<le> adjust_parity False True n
    \<and> adjust_parity False True n \<le> n + 1"
  by (auto simp: adjust_parity_def)

definition stages_ok :: "int \<Rightarrow> bool" where
  "stages_ok n \<longleftrightarrow> odd n \<or> n = 20"

text \<open>The loads of a driver: finite, of the expected sign, in the range of a double.\<close>

definition load_ok :: "dbl \<Rightarrow> dbl \<Rightarrow> dbl \<Rightarrow> bool" where
  "load_ok effort inCap outCap \<longleftrightarrow> fpos effort \<and> fpos inCap \<and> fnn outCap
     \<and> dbl_range (effort * outCap / inCap)"

lemma effort_ok:
  assumes "load_ok effort inCap outCap"
  shows "fpos (cMAX 1 (effort * outCap / inCap))" "1 \<le> cMAX 1 (effort * outCap / inCap)"
    "dbl_range (cMAX 1 (effort * outCap / inCap))"
proof -
  have n: "fnn (effort * outCap / inCap)" "dbl_range (effort * outCap / inCap)"
    using assms by (simp_all add: load_ok_def fsign)
  then obtain r where r: "effort * outCap / inCap = Fin r" "0 \<le> r" "r \<le> 2 ^ 1024"
    by (auto simp: fnn_def dbl_range_def)
  show "fpos (cMAX 1 (effort * outCap / inCap))" "1 \<le> cMAX 1 (effort * outCap / inCap)"
    "dbl_range (cMAX 1 (effort * outCap / inCap))"
    unfolding r(1) using r(2,3) by (auto simp: dbl_lits dbl_range_def)
qed

lemma dleq_cMAX: "fin a \<Longrightarrow> fin b \<Longrightarrow> a \<le> cMAX a b"
  by (simp add: dleq_MAX)

lemma root_ge_1: "fpos F \<Longrightarrow> 1 \<le> F \<Longrightarrow> 0 < k \<Longrightarrow> 1 \<le> dpow F (1 / i2d k)"
  by (auto simp: fpos_def dbl_lits i2d_def ge_one_powr_ge_zero)

lemma init_latency_first_ok:
  assumes T: "tech_ok T" and mx: "fpos (maxNmosSize ip)" and arr: "od_arrays od"
    and L: "load_ok (logicEffort od) (inputCap od) (outputCap od)" and inv: "inv od"
    and minW: "fpos minW" "MIN_NMOS_SIZE * featureSize T \<le> minW"
      "minW \<le> maxNmosSize ip * featureSize T"
    and drv: "1 \<le> logicEffort od * CalculateGateCap ((1 + pnSizeRatio T) * maxNmosSize ip
                  * featureSize T) T / inputCap od"
    and maxW_def: "maxW = maxNmosSize ip * featureSize T"
  shows "\<exists>n wn wp lv. init_latency_first T ip minW od = Inr (od\<lparr>numStage := n, widthNMOS := wn,
      widthPMOS := wp, od_areaOptimizationLevel := lv\<rparr>)
    \<and> length wn = 20 \<and> length wp = 20
    \<and> (lv = latency_area_trade_off
       \<or> lv = od_areaOptimizationLevel od \<and> sized T maxW minW n wn wp \<and> stages_ok n)"
proof -
  define F where "F = cMAX 1 (logicEffort od * outputCap od / inputCap od)"
  define m where "m = MIN_NMOS_SIZE * featureSize T"
  have F: "fpos F" "1 \<le> F" "dbl_range F" using effort_ok [OF L] by (simp_all add: F_def)
  obtain n0 where n0: "0 \<le> n0" "stage_count F = Inr n0" using stage_count_ok [OF F] by blast
  define opt where "opt = bound_stages (adjust_parity True (inv od) n0)"
  have opt: "1 \<le> opt" "opt \<le> 20" "stages_ok opt"
    using inv n0(1) adjust_parity_True [of n0]
    by (auto simp: opt_def bound_stages_def stages_ok_def)
  define f where "f = dpow F (1 / i2d (opt + 1))"
  define w0 where "w0 = cMAX m (outputCap od / f / CalculateGateCap 1 T / (1 + pnSizeRatio T))"
  have f: "fpos f" "1 \<le> f" using F(1,2) opt by (simp_all add: f_def fsign root_ge_1)
  have m: "fpos m" using min_width [OF T] by (simp only: m_def)
  have oc: "fnn (outputCap od)" using L by (simp add: load_ok_def)
  have x: "fnn (outputCap od / f / CalculateGateCap 1 T / (1 + pnSizeRatio T))"
    using T f oc by (simp add: fsign)
  have w0: "fpos w0" "m \<le> w0" using m x by (auto simp: w0_def fsign dleq_cMAX)
  define F' where "F' = logicEffort od * CalculateGateCap ((1 + pnSizeRatio T) * maxNmosSize ip
    * featureSize T) T / inputCap od"
  have F': "fpos F'" using T mx L by (simp add: F'_def load_ok_def fsign)
  define w where "w = (if maxW < w0 then maxW else w0)"
  define g where "g = (if maxW < w0 then dpow F' (1 / i2d opt) else f)"
  define wn where "wn = (widthNMOS od)[nat (opt - 1) := w]"
  define wp where "wp = (widthPMOS od)[nat (opt - 1) := w * pnSizeRatio T]"
  have len: "length (widthNMOS od) = 20" "length (widthPMOS od) = 20"
    using arr by (simp_all add: od_arrays_def)
  have W: "fpos maxW" "m \<le> maxW" using T mx dleq_trans [OF minW(2,3)]
    by (simp_all add: maxW_def m_def fsign)
  have "w0 \<le> maxW" if "\<not> maxW < w0" using that not_dless [of maxW w0] w0(1) W(1)
    by (auto simp: fpos_def)
  then have w: "fpos w" "m \<le> w" "w \<le> maxW" using w0 W by (auto simp: w_def fpos_def)
  have g: "fpos g" "1 \<le> g" using F' drv f opt by (simp_all add: g_def F'_def fsign root_ge_1)
  have wnl: "wn ! nat (opt - 1) = w" "length wn = 20" "length wp = 20"
    "wp ! nat (opt - 1) = w * pnSizeRatio T"
    using len opt by (simp_all add: wn_def wp_def)
  have step: "init_latency_first T ip minW od
    = (if w < minW then Inr (od\<lparr>numStage := opt, widthNMOS := wn,
                                od_areaOptimizationLevel := latency_area_trade_off\<rparr>)
       else ebind (for_down (opt - 2) 0 (chain_step g T) (wn, wp)) (\<lambda>(wn, wp).
              Inr (od\<lparr>numStage := opt, widthNMOS := wn, widthPMOS := wp\<rparr>)))"
    using len opt n0(2)
    by (simp add: init_latency_first_def Let_def F_def [symmetric] opt_def [symmetric]
        f_def [symmetric] m_def [symmetric] maxW_def [symmetric] w0_def [symmetric]
        F'_def [symmetric] w_def g_def wn_def wp_def)
  show ?thesis
  proof (cases "w < minW")
    case True
    then have "init_latency_first T ip minW od = Inr (od\<lparr>numStage := opt, widthNMOS := wn,
        widthPMOS := widthPMOS od, od_areaOptimizationLevel := latency_area_trade_off\<rparr>)"
      by (simp add: step)
    then show ?thesis using wnl len by blast
  next
    case False
    have mw: "minW \<le> wn ! nat (opt - 1)"
      using False w(1) minW(1) not_dless [of w minW] wnl(1) by (auto simp: fpos_def)
    have wo: "width_ok T maxW (wn, wp) (nat (opt - 1))" using wnl w by (simp add: width_ok_def m_def)
    have M: "MIN_NMOS_SIZE * featureSize T \<le> maxW" using W(2) by (simp only: m_def)
    obtain wn' wp' where
      r: "for_down (opt - 2) 0 (chain_step g T) (wn, wp) = Inr (wn', wp')"
        "sized T maxW minW opt wn' wp'"
      using chain_sized [OF T g M opt(1,2) wnl(2,3) wo mw] by blast
    have "init_latency_first T ip minW od = Inr (od\<lparr>numStage := opt, widthNMOS := wn',
        widthPMOS := wp', od_areaOptimizationLevel := od_areaOptimizationLevel od\<rparr>)"
      using False by (simp add: step r(1))
    moreover have "length wn' = 20" "length wp' = 20" using r(2) by (simp_all add: sized_def)
    ultimately show ?thesis using r(2) opt(3) by blast
  qed
qed


lemma init_trade_off_ok:
  assumes T: "tech_ok T" and arr: "od_arrays od" and inv: "inv od"
    and eff: "fpos (logicEffort od)" "fpos (inputCap od)"
    and minW: "fpos minW" "MIN_NMOS_SIZE * featureSize T \<le> minW" "minW \<le> maxW"
    and le: "logicEffort od * (CalculateGateCap minW T * (1 + pnSizeRatio T)) / inputCap od \<le> Fin (4 ^ 18)"
  shows "\<exists>n wn wp. init_trade_off T minW od = Inr (od\<lparr>numStage := n, widthNMOS := wn,
      widthPMOS := wp\<rparr>) \<and> sized T maxW minW n wn wp \<and> odd n"
proof -
  define x where "x = logicEffort od * (CalculateGateCap minW T * (1 + pnSizeRatio T)) / inputCap od"
  define F where "F = cMAX 1 x"
  have x: "fpos x" using T eff minW by (simp add: x_def fsign)
  then obtain r where r: "x = Fin r" "0 < r" "r \<le> 4 ^ 18" using le
    unfolding x_def [symmetric] by (auto simp: fpos_def)
  have F: "fpos F" "1 \<le> F" "F \<le> Fin (4 ^ 18)" using r by (auto simp: F_def dbl_lits)
  obtain n0 where n0: "0 \<le> n0" "stage_count F = Inr n0" "n0 \<le> 17"
    using stage_count_small [OF F] by auto
  define opt where "opt = bound_stages (adjust_parity False (inv od) n0)"
  have opt: "0 \<le> opt" "opt \<le> 18" "even opt"
    using inv n0(1,3) adjust_parity_False [of n0] by (auto simp: opt_def bound_stages_def)
  define f where "f = dpow F (1 / i2d (opt + 1))"
  have f: "fpos f" "1 \<le> f" using F(1,2) opt by (simp_all add: f_def fsign root_ge_1)
  define wn where "wn = (widthNMOS od)[nat opt := minW]"
  define wp where "wp = (widthPMOS od)[nat opt := minW * pnSizeRatio T]"
  have len: "length (widthNMOS od) = 20" "length (widthPMOS od) = 20"
    using arr by (simp_all add: od_arrays_def)
  have wnl: "wn ! nat opt = minW" "length wn = 20" "length wp = 20"
    "wp ! nat opt = minW * pnSizeRatio T"
    using len opt by (simp_all add: wn_def wp_def)
  have "width_ok T maxW (wn, wp) (nat (opt + 1 - 1))" "minW \<le> wn ! nat (opt + 1 - 1)"
    using wnl minW by (auto simp: width_ok_def fpos_def)
  from chain_sized [OF T f dleq_trans [OF minW(2,3)] _ _ wnl(2,3) this] opt obtain wn' wp' where
    r': "for_down (opt - 1) 0 (chain_step f T) (wn, wp) = Inr (wn', wp')"
      "sized T maxW minW (opt + 1) wn' wp'" by auto
  have "init_trade_off T minW od = Inr (od\<lparr>numStage := opt + 1, widthNMOS := wn', widthPMOS := wp'\<rparr>)"
    using n0(2) len opt r'(1)
    by (simp add: init_trade_off_def Let_def x_def [symmetric] F_def [symmetric] opt_def [symmetric]
        f_def [symmetric] wn_def [symmetric] wp_def [symmetric])
  then show ?thesis using r'(2) opt(3) by (intro exI [of _ "opt + 1"] exI conjI) auto
qed

lemma init_area_first_ok:
  assumes T: "tech_ok T" and mx: "fpos (maxNmosSize ip)" and arr: "od_arrays od"
    and minW: "fpos minW" "MIN_NMOS_SIZE * featureSize T \<le> minW"
      "minW \<le> maxNmosSize ip * featureSize T"
  shows "\<exists>wn wp. init_area_first T ip minW od = Inr (True, od\<lparr>numStage := 1, widthNMOS := wn,
      widthPMOS := wp\<rparr>) \<and> sized T (maxNmosSize ip * featureSize T) minW 1 wn wp"
proof -
  define m where "m = MIN_NMOS_SIZE * featureSize T"
  have m: "fpos m" using min_width [OF T] by (simp only: m_def)
  have c: "cMAX m minW = minW" using minW(1,2) m unfolding m_def [symmetric]
    by (auto simp: fpos_def)
  have "fpos (maxNmosSize ip * featureSize T)" using T mx by (simp add: fsign)
  then have l: "\<not> AREA_OPT_CONSTRAIN * maxNmosSize ip * featureSize T < minW"
    using minW(1,3) mx tech_okD(1) [OF T] by (auto simp: fpos_def dbl_lits)
  have len: "length (widthNMOS od) = 20" "length (widthPMOS od) = 20"
    using arr by (simp_all add: od_arrays_def)
  have "init_area_first T ip minW od = Inr (True, od\<lparr>numStage := 1,
      widthNMOS := (widthNMOS od)[0 := minW], widthPMOS := (widthPMOS od)[0 := minW * pnSizeRatio T]\<rparr>)"
    using len l c by (simp add: init_area_first_def m_def [symmetric])
  moreover have "sized T (maxNmosSize ip * featureSize T) minW 1 ((widthNMOS od)[0 := minW]) ((widthPMOS od)[0 := minW * pnSizeRatio T])"
    using len minW by (auto simp: sized_def width_ok_def fpos_def)
  ultimately show ?thesis by blast
qed

lemma minNMOSDriverWidth_ok:
  assumes "env_ok T ip" "fnn c"
  shows "\<exists>w. minNMOSDriverWidth T ip c = Inr w \<and> fpos w \<and> MIN_NMOS_SIZE * featureSize T \<le> w"
proof -
  have i: "0 \<le> ip_temperature ip - 300" "ip_temperature ip - 300 \<le> 100"
    using env_okD(2) [OF assms(1)] by (simp_all add: temp_ok_def)
  obtain a where a: "aget (currentOnNmos T) (ip_temperature ip - 300) = Inr a" "fpos a"
    using table_ok_aget [OF tech_ok_tables(1) [OF env_okD(1) [OF assms(1)]] i] by blast
  have m: "fpos (MIN_NMOS_SIZE * featureSize T)" using min_width env_okD(1) assms(1) by blast
  have "fnn (c / a)" using assms(2) a(2) by (simp add: fsign)
  with m a show ?thesis by (auto simp: minNMOSDriverWidth_def fsign dleq_cMAX)
qed

text \<open>The driver after the assignment of the parameters.\<close>

definition od_params ::
  "dbl \<Rightarrow> dbl \<Rightarrow> dbl \<Rightarrow> dbl \<Rightarrow> bool \<Rightarrow> BufferDesignTarget \<Rightarrow> dbl \<Rightarrow> OutputDriver \<Rightarrow> OutputDriver" where
  "od_params effort inCap outCap outRes inv' level minCurrent od =
     od\<lparr>logicEffort := effort, inputCap := inCap, outputCap := outCap, outputRes := outRes,
        inv := inv', od_areaOptimizationLevel := level, od_minDriverCurrent := minCurrent\<rparr>"

lemma OutputDriver_Initialize_ok:
  assumes E: "env_ok T ip" and arr: "od_arrays od" and L: "load_ok effort inCap outCap"
    and c: "fnn minCurrent" and w: "minNMOSDriverWidth T ip minCurrent = Inr minW"
    and fallback: "effort * (CalculateGateCap minW T * (1 + pnSizeRatio T)) / inCap \<le> Fin (4 ^ 18)"
    and fit: "minW \<le> maxNmosSize ip * featureSize T"
    and drv: "1 \<le> effort * CalculateGateCap ((1 + pnSizeRatio T) * maxNmosSize ip
                  * featureSize T) T / inCap"
    and maxW: "maxW = maxNmosSize ip * featureSize T"
  shows "\<exists>n wn wp. OutputDriver_Initialize T ip effort inCap outCap outRes True level minCurrent od
      = Inr ((od_params effort inCap outCap outRes True level minCurrent od)\<lparr>numStage := n,
          widthNMOS := wn, widthPMOS := wp, od_initialized := True\<rparr>)
    \<and> sized T maxW minW n wn wp \<and> stages_ok n"
proof -
  define od0 where "od0 = od_params effort inCap outCap outRes True level minCurrent od"
  have T: "tech_ok T" and mx: "fpos (maxNmosSize ip)" using env_okD [OF E] by simp_all
  have minW: "fpos minW" "MIN_NMOS_SIZE * featureSize T \<le> minW"
    using minNMOSDriverWidth_ok [OF E c] w by simp_all
  have f0: "od_arrays od0" "logicEffort od0 = effort" "inputCap od0 = inCap" "outputCap od0 = outCap"
    "inv od0" "od_areaOptimizationLevel od0 = level"
    using arr by (simp_all add: od0_def od_params_def od_arrays_def)
  have nf: "\<not> maxNmosSize ip * featureSize T < minW"
    using fit by (metis dleq_dless_trans dless_irrefl)
  have unf: "OutputDriver_Initialize T ip effort inCap outCap outRes True level minCurrent od =
      ebind (if od_areaOptimizationLevel od0 = latency_first
             then init_latency_first T ip minW od0 else Inr od0) (\<lambda>od1.
      ebind (if od_areaOptimizationLevel od1 = latency_area_trade_off
             then ebind (init_trade_off T minW od1) (\<lambda>od2. Inr (True, od2))
             else if od_areaOptimizationLevel od1 = area_first
             then init_area_first T ip minW od1
             else Inr (True, od1)) (\<lambda>(ok, od2).
        if ok then Inr (od2\<lparr>od_areaOptimizationLevel := level, od_initialized := True\<rparr>)
        else Inr od2))"
    using nf by (simp add: OutputDriver_Initialize_def w od0_def od_params_def)
  have eff: "fpos effort" "fpos inCap" using L by (simp_all add: load_ok_def)
  have trade: "\<exists>n wn wp. init_trade_off T minW od1 = Inr (od1\<lparr>numStage := n, widthNMOS := wn,
      widthPMOS := wp\<rparr>) \<and> sized T maxW minW n wn wp \<and> odd n"
    if "od_arrays od1" "inv od1" "logicEffort od1 = effort" "inputCap od1 = inCap" for od1
    by (rule init_trade_off_ok [OF T that(1,2) _ _ minW fit [folded maxW]])
      (use that eff fallback in simp_all)
  consider (lat) "level = latency_first" | (tr) "level = latency_area_trade_off"
    | (ar) "level = area_first" by (cases level) auto
  then show ?thesis
  proof cases
    case lat
    have "load_ok (logicEffort od0) (inputCap od0) (outputCap od0)" using L f0 by simp
    from init_latency_first_ok [OF T mx f0(1) this f0(5) minW fit _ maxW] f0(2,3) drv
    obtain n wn wp lv where r: "init_latency_first T ip minW od0 = Inr (od0\<lparr>numStage := n,
        widthNMOS := wn, widthPMOS := wp, od_areaOptimizationLevel := lv\<rparr>)"
      "length wn = 20" "length wp = 20"
      "lv = latency_area_trade_off \<or> lv = level \<and> sized T maxW minW n wn wp \<and> stages_ok n"
      using f0(6) by auto
    define od1 where "od1 = od0\<lparr>numStage := n, widthNMOS := wn, widthPMOS := wp,
        od_areaOptimizationLevel := lv\<rparr>"
    have o1: "od_arrays od1" "inv od1" "logicEffort od1 = effort" "inputCap od1 = inCap"
      "od_areaOptimizationLevel od1 = lv"
      using f0 r(2,3) by (simp_all add: od1_def od_arrays_def)
    show ?thesis
    proof (cases "lv = latency_area_trade_off")
      case True
      from trade [OF o1(1-4)] obtain n' wn' wp' where t: "init_trade_off T minW od1 =
          Inr (od1\<lparr>numStage := n', widthNMOS := wn', widthPMOS := wp'\<rparr>)"
        "sized T maxW minW n' wn' wp'" "odd n'" by blast
      have "OutputDriver_Initialize T ip effort inCap outCap outRes True level minCurrent od
        = Inr (od0\<lparr>numStage := n', widthNMOS := wn', widthPMOS := wp', od_initialized := True\<rparr>)"
        unfolding unf using lat f0(6) r(1) t(1) o1(5) True
        by (simp add: od1_def [symmetric]) (simp add: od1_def f0(6) [symmetric])
      then show ?thesis unfolding od0_def using t(2,3) stages_ok_def by blast
    next
      case False
      then have q: "lv = level" "sized T maxW minW n wn wp" "stages_ok n" using r(4) by simp_all
      have "OutputDriver_Initialize T ip effort inCap outCap outRes True level minCurrent od
        = Inr (od0\<lparr>numStage := n, widthNMOS := wn, widthPMOS := wp, od_initialized := True\<rparr>)"
        unfolding unf using lat f0(6) r(1) q(1) by simp
      then show ?thesis unfolding od0_def using q(2,3) by blast
    qed
  next
    case tr
    from trade [OF f0(1,5,2,3)] obtain n' wn' wp' where t: "init_trade_off T minW od0 =
        Inr (od0\<lparr>numStage := n', widthNMOS := wn', widthPMOS := wp'\<rparr>)"
      "sized T maxW minW n' wn' wp'" "odd n'" by blast
    have "OutputDriver_Initialize T ip effort inCap outCap outRes True level minCurrent od
      = Inr (od0\<lparr>numStage := n', widthNMOS := wn', widthPMOS := wp', od_initialized := True\<rparr>)"
      unfolding unf using tr f0(6) t(1) by simp
    then show ?thesis unfolding od0_def using t(2,3) stages_ok_def by blast
  next
    case ar
    from init_area_first_ok [OF T mx f0(1) minW fit] obtain wn wp where
      t: "init_area_first T ip minW od0 = Inr (True, od0\<lparr>numStage := 1, widthNMOS := wn,
        widthPMOS := wp\<rparr>)" "sized T maxW minW 1 wn wp" unfolding maxW by blast
    have "OutputDriver_Initialize T ip effort inCap outCap outRes True level minCurrent od
      = Inr (od0\<lparr>numStage := 1, widthNMOS := wn, widthPMOS := wp, od_initialized := True\<rparr>)"
      unfolding unf using ar f0(6) t(1) by simp
    then show ?thesis unfolding od0_def using t(2) stages_ok_def by (metis odd_one)
  qed
qed

lemma OutputDriver_Initialize_invalid:
  assumes "minNMOSDriverWidth T ip minCurrent = Inr minW" "maxNmosSize ip * featureSize T < minW"
  shows "OutputDriver_Initialize T ip effort inCap outCap outRes inv' level minCurrent od
      = Inr ((od_params effort inCap outCap outRes inv' level minCurrent od)\<lparr>od_invalid := True\<rparr>)"
  using assms by (simp add: OutputDriver_Initialize_def od_params_def)

subsection \<open>The inverters of a driver fit into their regions\<close>

lemma inverter_fits:
  assumes E: "env_ok T ip" and w: "fpos w" "w \<le> maxNmosSize ip * featureSize T"
    and h: "20 \<le> h" "h \<le> 40"
  shows "gate_fits w (w * pnSizeRatio T) (featureSize T * h) T"
proof -
  obtain a where a: "featureSize T = Fin a" "0 < a"
    using tech_okD(1) [OF env_okD(1) [OF E]] by (auto simp: fpos_def)
  obtain p where p: "pnSizeRatio T = Fin p" "1 / 4 \<le> p" "p \<le> 4"
    using tech_okD(17) [OF env_okD(1) [OF E]] E by (auto simp: fpos_def env_ok_def dbl_lits)
  obtain m where m: "maxNmosSize ip = Fin m" "0 < m" "m \<le> 1000000"
    using E by (auto simp: fpos_def env_ok_def dbl_lits)
  obtain x where x: "w = Fin x" "0 < x" "x \<le> m * a"
    using w a m by (auto simp: fpos_def)
  obtain k where k: "h = Fin k" "20 \<le> k" "k \<le> 40"
    using h by (cases h) (auto simp: dbl_lits)
  have xp: "0 < x * p" "0 < x * p + x" using x(2) p(2) by (simp_all add: add_pos_pos)
  have r: "x * p / (x * p + x) = p / (1 + p)" 
  proof -
    have "x * p + x = x * (1 + p)" by (simp add: algebra_simps)
    then show ?thesis using x(2) by simp
  qed
  have r01: "p / (1 + p) \<noteq> 0" "p / (1 + p) \<noteq> 1" "0 < 1 + p" using p(2) by (auto simp: field_simps)
  define A where "A = (k - 2) * a"
  have A: "18 * a \<le> A" using k(2) a(2) by (simp add: A_def)
  have mw: "maxWidths w (w * pnSizeRatio T) (featureSize T * h) T = (Fin (p / (1 + p) * A), Fin (A / (1 + p)))"
  proof -
    have "p / (1 + p) * A / (p / (1 + p)) * (1 - p / (1 + p)) = A / (1 + p)"

    proof -
      have "1 - p / (1 + p) = 1 / (1 + p)" using r01(3) by (simp add: field_simps)
      moreover have "p / (1 + p) * A / (p / (1 + p)) = A" using r01(1) by simp
      ultimately show ?thesis by simp
    qed
    moreover have "a * k - 2 * a = A" by (simp add: A_def algebra_simps)
    ultimately show ?thesis
      using r r01 xp by (simp add: maxWidths_def Let_def x(1) p(1) a(1) k(1) dbl_lits)
  qed
  have lo: "1 / 5 \<le> p / (1 + p)" "1 / 5 \<le> 1 / (1 + p)" using p(2,3) r01(3) by (simp_all add: field_simps)
  have P: "3 / 5 * a \<le> p / (1 + p) * A - 3 * a"
  proof -
    have "1 / 5 * (18 * a) \<le> p / (1 + p) * A" using lo(1) A a(2) p(2) by (intro mult_mono) auto
    then show ?thesis by simp
  qed
  have N: "3 / 5 * a \<le> A / (1 + p) - 3 * a"
  proof -
    have "1 / 5 * (18 * a) \<le> 1 / (1 + p) * A" using lo(2) A a(2) p(2) by (intro mult_mono) auto
    then show ?thesis by simp
  qed
  have fit: "fits (Fin y) (Fin q) T" if "3 / 5 * a \<le> q - 3 * a" "y \<le> 4000000 * a" for y q
  proof -
    have q: "0 < q - 3 * a" using that(1) a(2) by simp
    have "1073741824 * (3 / 5 * a) \<le> 1073741824 * (q - 3 * a)" using that(1) by simp
    then have "y \<le> 1073741824 * (q - 3 * a)" using that(2) a(2) by linarith
    then have "y / (q - 3 * a) \<le> 1073741824" using q by (simp add: pos_divide_le_eq)
    then show ?thesis using q by (simp add: fits_def a(1) dbl_lits)
  qed
  have xm: "x \<le> 1000000 * a" using x(3) m(3) a(2) by (meson mult_right_mono order_trans less_imp_le)
  have "x * p \<le> (1000000 * a) * 4" using xm p x(2) a(2) by (intro mult_mono) auto
  then have "fits w (Fin (A / (1 + p))) T" "fits (w * pnSizeRatio T) (Fin (p / (1 + p) * A)) T"
    using fit [OF N] fit [OF P] xm a(2) by (simp_all add: x(1) p(1))
  moreover have "fnn w" "fnn (w * pnSizeRatio T)" "0 < w" "fin (featureSize T * h)"
    using xp x(2) by (simp_all add: x(1) p(1) a(1) k(1) dbl_lits)
  ultimately show ?thesis unfolding gate_fits_def mw by simp
qed

definition od_ready :: "Technology \<Rightarrow> InputParameter \<Rightarrow> OutputDriver \<Rightarrow> bool" where
  "od_ready T ip od \<longleftrightarrow> env_ok T ip \<and> od_initialized od \<and> \<not> od_invalid od \<and> od_arrays od
     \<and> 1 \<le> numStage od \<and> numStage od \<le> 20
     \<and> (\<forall>j<nat (numStage od). width_ok T (maxNmosSize ip * featureSize T) (widthNMOS od, widthPMOS od) j)
     \<and> fnn (outputCap od) \<and> fnn (outputRes od)"

definition od_rc :: "OutputDriver \<Rightarrow> bool" where
  "od_rc od \<longleftrightarrow> (\<forall>j<nat (numStage od). fpos (capInput od ! j) \<and> fpos (capOutput od ! j))"

lemma od_ready_stage:
  assumes E: "env_ok T ip" and R: "od_ready T ip od" and i: "0 \<le> i" "i < numStage od"
  shows "\<exists>w. aget (widthNMOS od) i = Inr w \<and> aget (widthPMOS od) i = Inr (w * pnSizeRatio T)
    \<and> fpos w \<and> gate_fits w (w * pnSizeRatio T) (featureSize T * 40) T
    \<and> gate_fits w (w * pnSizeRatio T) (featureSize T * MAX_TRANSISTOR_HEIGHT) T"
proof -
  have len: "length (widthNMOS od) = 20" "length (widthPMOS od) = 20" "numStage od \<le> 20"
    using R by (simp_all add: od_ready_def od_arrays_def)
  have "nat i < nat (numStage od)" using i by simp
  then have w: "fpos (widthNMOS od ! nat i)" "widthNMOS od ! nat i \<le> maxNmosSize ip * featureSize T"
    "widthPMOS od ! nat i = widthNMOS od ! nat i * pnSizeRatio T"
    using R by (auto simp: od_ready_def width_ok_def)
  have "(20::dbl) \<le> 40" "(20::dbl) \<le> 20" "(40::dbl) \<le> 40" by (simp_all add: dbl_lits)
  then have "gate_fits (widthNMOS od ! nat i) (widthNMOS od ! nat i * pnSizeRatio T) (featureSize T * 40) T"
    "gate_fits (widthNMOS od ! nat i) (widthNMOS od ! nat i * pnSizeRatio T) (featureSize T * 20) T"
    using inverter_fits [OF E w(1,2)] by simp_all
  then show ?thesis using w i len by simp
qed

lemma OutputDriver_CalculateArea_ok:
  assumes E: "env_ok T ip" and R: "od_ready T ip od"
  shows "\<exists>h w. OutputDriver_CalculateArea T od = Inr (od\<lparr>height := h, width := w, area := h * w\<rparr>)
    \<and> fpos h \<and> fpos w"
proof -
  define P where "P i s \<longleftrightarrow> fnn (fst s) \<and> fnn (snd s) \<and> (0 < i \<longrightarrow> fpos (fst s) \<and> fpos (snd s))"
    for i :: int and s :: "dbl \<times> dbl"
  define body where "body = (\<lambda>i (totalHeight, totalWidth).
             ebind (aget (widthNMOS od) i) (\<lambda>wn. ebind (aget (widthPMOS od) i) (\<lambda>wp.
             ebind (CalculateGateArea INV 1 wn wp (featureSize T * 40) T) (\<lambda>(h, w, _).
               Inr (cMAX totalHeight h, totalWidth + w)))))"
  have n: "1 \<le> numStage od" "od_initialized od" "\<not> od_invalid od" using R by (simp_all add: od_ready_def)
  have "\<exists>t. for_up 0 (numStage od) body (0, 0) = Inr t \<and> P (numStage od) t"
  proof (rule for_up_total)
    show "P 0 (0, 0)" by (simp add: P_def)
  next
    fix i u assume i: "0 \<le> i" "i < numStage od" and P: "P i u"
    obtain w where w: "aget (widthNMOS od) i = Inr w" "aget (widthPMOS od) i = Inr (w * pnSizeRatio T)"
      "gate_fits w (w * pnSizeRatio T) (featureSize T * 40) T"
      using od_ready_stage [OF E R i] by blast
    obtain h v where g: "CalculateGateArea INV 1 w (w * pnSizeRatio T) (featureSize T * 40) T
      = Inr (h, v, v * h)" "fpos h" "fpos v"
      using GateArea_ok [OF env_okD(1) [OF E] w(3), of 1 0] by auto
    have "body i u = Inr (cMAX (fst u) h, snd u + v)"
      by (simp add: body_def w(1,2) g(1) split: prod.splits)
    moreover have "P (i + 1) (cMAX (fst u) h, snd u + v)"
      using P g(2,3) by (auto simp: P_def fsign)
    ultimately show "\<exists>v. body i u = Inr v \<and> P (i + 1) v" by blast
  qed (use n in simp)
  then obtain h w where "for_up 0 (numStage od) body (0, 0) = Inr (h, w)" and hw: "fpos h" "fpos w"
    using n by (auto simp: P_def)
  then have "OutputDriver_CalculateArea T od = Inr (od\<lparr>height := h, width := w, area := h * w\<rparr>)"
    using n by (simp add: OutputDriver_CalculateArea_def body_def)
  then show ?thesis using hw by blast
qed

lemma OutputDriver_CalculateRC_ok:
  assumes E: "env_ok T ip" and R: "od_ready T ip od"
  shows "\<exists>ci co. OutputDriver_CalculateRC T od = Inr (od\<lparr>capInput := ci, capOutput := co\<rparr>)
    \<and> od_ready T ip (od\<lparr>capInput := ci, capOutput := co\<rparr>) \<and> od_rc (od\<lparr>capInput := ci, capOutput := co\<rparr>)"
proof -
  define P where "P i s \<longleftrightarrow> length (fst s) = 20 \<and> length (snd s) = 20
      \<and> (\<forall>j<nat i. fpos (fst s ! j) \<and> fpos (snd s ! j))"
    for i :: int and s :: "dbl list \<times> dbl list"
  define body where "body = (\<lambda>i (ci, co).
             ebind (aget (widthNMOS od) i) (\<lambda>wn. ebind (aget (widthPMOS od) i) (\<lambda>wp.
             ebind (CalculateGateCapacitance INV 1 wn wp (featureSize T * MAX_TRANSISTOR_HEIGHT) T)
               (\<lambda>(cin, cout).
             ebind (aset ci i cin) (\<lambda>ci'. ebind (aset co i cout) (\<lambda>co'. Inr (ci', co')))))))"
  have n: "1 \<le> numStage od" "numStage od \<le> 20" "od_initialized od" "\<not> od_invalid od"
    "length (capInput od) = 20" "length (capOutput od) = 20"
    using R by (simp_all add: od_ready_def od_arrays_def)
  have "\<exists>t. for_up 0 (numStage od) body (capInput od, capOutput od) = Inr t \<and> P (numStage od) t"
  proof (rule for_up_total)
    show "P 0 (capInput od, capOutput od)" using n by (simp add: P_def)
  next
    fix i u assume i: "0 \<le> i" "i < numStage od" and P: "P i u"
    obtain w where w: "aget (widthNMOS od) i = Inr w" "aget (widthPMOS od) i = Inr (w * pnSizeRatio T)"
      "gate_fits w (w * pnSizeRatio T) (featureSize T * MAX_TRANSISTOR_HEIGHT) T"
      using od_ready_stage [OF E R i] by blast
    obtain a b where g: "CalculateGateCapacitance INV 1 w (w * pnSizeRatio T)
      (featureSize T * MAX_TRANSISTOR_HEIGHT) T = Inr (a, b)" "fpos a" "fpos b"
      using GateCapacitance_ok [OF env_okD(1) [OF E] w(3), of 1 0] by auto
    obtain ci co where u: "u = (ci, co)" by (cases u)
    have l: "length ci = 20" "length co = 20" "nat i < 20" using P u i n(2) by (auto simp: P_def)
    have "body i u = Inr (ci[nat i := a], co[nat i := b])"
      using l i by (simp add: u body_def w(1,2) g(1))
    moreover have "P (i + 1) (ci[nat i := a], co[nat i := b])"
      using P g(2,3) l i by (auto simp: P_def u nth_list_update nat_add_distrib less_Suc_eq)
    ultimately show "\<exists>v. body i u = Inr v \<and> P (i + 1) v" by blast
  qed (use n in simp)
  then obtain ci co where r: "for_up 0 (numStage od) body (capInput od, capOutput od) = Inr (ci, co)"
    "P (numStage od) (ci, co)" by auto
  have "OutputDriver_CalculateRC T od = Inr (od\<lparr>capInput := ci, capOutput := co\<rparr>)"
    using n(1,3,4) r(1) by (simp add: OutputDriver_CalculateRC_def body_def)
  moreover have "od_ready T ip (od\<lparr>capInput := ci, capOutput := co\<rparr>)" "od_rc (od\<lparr>capInput := ci, capOutput := co\<rparr>)"
    using R r(2) by (auto simp: od_ready_def od_rc_def od_arrays_def P_def)
  ultimately show ?thesis by blast
qed


lemma inverter_delay_ok:
  assumes E: "env_ok T ip" and w: "fpos w" and tc: "\<And>r. fpos r \<Longrightarrow> fpos (tc r)" and ramp: "fpos ramp"
  shows "\<exists>d r. inverter_delay T ip w tc ramp = Inr (d, r) \<and> fpos d \<and> fpos r"
proof -
  obtain r where r: "CalculateOnResistance w NMOS (i2d (ip_temperature ip)) T = Inr r" "fpos r"
    using OnResistance_ok env_okD [OF E] w by blast
  define gm where "gm = CalculateTransconductance w NMOS T"
  have "fpos gm" using env_okD(1) [OF E] w by (simp add: gm_def fsign)
  then have b: "fnn (1 / (r * gm))" using r(2) by (simp add: fsign)
  obtain d ro where h: "horowitz (tc r) (1 / (r * gm)) ramp = (d, ro)" by fastforce
  have "fpos d" "fpos ro" using horowitz_pos [OF tc [OF r(2)] b ramp h] by simp_all
  with h show ?thesis by (simp add: inverter_delay_def r(1) Let_def gm_def)
qed

lemma od_rc_aget:
  assumes R: "od_ready T ip od" and C: "od_rc od" and i: "0 \<le> i" "i < numStage od"
  shows "\<exists>a b. aget (capInput od) i = Inr a \<and> aget (capOutput od) i = Inr b \<and> fpos a \<and> fpos b"
proof -
  have "length (capInput od) = 20" "length (capOutput od) = 20" "numStage od \<le> 20"
    using R by (simp_all add: od_ready_def od_arrays_def)
  then show ?thesis using C i by (simp add: od_rc_def)
qed

lemma OutputDriver_CalculateLatency_ok:
  assumes E: "env_ok T ip" and R: "od_ready T ip od" and C: "od_rc od" and ramp: "fpos ramp"
  shows "\<exists>l r. OutputDriver_CalculateLatency T ip ramp od = Inr (od\<lparr>readLatency := l,
      od_rampOutput := r, od_rampInput := ramp, writeLatency := l\<rparr>) \<and> fpos l \<and> fpos r"
proof -
  define P where "P i s \<longleftrightarrow> fnn (fst s) \<and> fpos (snd s)" for i :: int and s :: "dbl \<times> dbl"
  define body where "body = (\<lambda>i (lat, rin).
             ebind (aget (widthNMOS od) i) (\<lambda>w.
             ebind (aget (capOutput od) i) (\<lambda>co. ebind (aget (capInput od) (i + 1)) (\<lambda>ci.
             ebind (inverter_delay T ip w (\<lambda>r. r * (co + ci)) rin) (\<lambda>(d, rout).
               Inr (lat + d, rout))))))"
  have n: "1 \<le> numStage od" "numStage od \<le> 20" "od_initialized od" "\<not> od_invalid od"
    "fnn (outputCap od)" "fnn (outputRes od)"
    using R by (simp_all add: od_ready_def)
  have "\<exists>t. for_up 0 (numStage od - 1) body (0, ramp) = Inr t \<and> P (numStage od - 1) t"
  proof (rule for_up_total)
    show "P 0 (0, ramp)" using ramp by (simp add: P_def)
  next
    fix i u assume i: "0 \<le> i" "i < numStage od - 1" and P: "P i u"
    obtain w where w: "aget (widthNMOS od) i = Inr w" "fpos w"
      using od_ready_stage [OF E R, of i] i by auto
    obtain b where b: "aget (capOutput od) i = Inr b" "fpos b"
      using od_rc_aget [OF R C, of i] i by auto
    obtain a where a: "aget (capInput od) (i + 1) = Inr a" "fpos a"
      using od_rc_aget [OF R C, of "i + 1"] i by auto
    obtain l r where u: "u = (l, r)" by (cases u)
    have lr: "fnn l" "fpos r" using P by (simp_all add: P_def u)
    have tc: "\<And>r. fpos r \<Longrightarrow> fpos (r * (b + a))" using a(2) b(2) by (simp add: fsign)
    obtain d r' where h: "inverter_delay T ip w (\<lambda>r. r * (b + a)) r = Inr (d, r')" "fpos d" "fpos r'"
      using inverter_delay_ok [where tc = "\<lambda>r. r * (b + a)", OF E w(2) tc lr(2)] by blast
    have "body i u = Inr (l + d, r')" by (simp add: body_def u w(1) a(1) b(1) h(1))
    moreover have "P (i + 1) (l + d, r')" using lr h by (simp add: P_def fsign)
    ultimately show "\<exists>v. body i u = Inr v \<and> P (i + 1) v" by blast
  qed (use n in simp)
  then obtain l r where lr: "for_up 0 (numStage od - 1) body (0, ramp) = Inr (l, r)" "fnn l" "fpos r"
    by (auto simp: P_def)
  obtain w where w: "aget (widthNMOS od) (numStage od - 1) = Inr w" "fpos w"
    using od_ready_stage [OF E R, of "numStage od - 1"] n by auto
  obtain b where b: "aget (capOutput od) (numStage od - 1) = Inr b" "fpos b"
    using od_rc_aget [OF R C, of "numStage od - 1"] n by auto
  have tc: "fpos (r * (b + outputCap od) + outputCap od * outputRes od / 2)" if "fpos r" for r
    using n(5,6) that b(2) by (simp add: fsign)
  obtain d r' where h: "inverter_delay T ip w (\<lambda>r. r * (b + outputCap od)
      + outputCap od * outputRes od / 2) r = Inr (d, r')" "fpos d" "fpos r'"
    using inverter_delay_ok [where tc = "\<lambda>r. r * (b + outputCap od) + outputCap od * outputRes od / 2",
        OF E w(2) tc lr(3)] by blast
  have "OutputDriver_CalculateLatency T ip ramp od = Inr (od\<lparr>readLatency := l + d,
      od_rampOutput := r', od_rampInput := ramp, writeLatency := l + d\<rparr>)"
    using n(3,4) lr(1) by (simp add: OutputDriver_CalculateLatency_def body_def w(1) b(1) h(1))
  moreover have "fpos (l + d)" using lr(2) h(2) by (simp add: fsign)
  ultimately show ?thesis using h(3) by blast
qed

lemma OutputDriver_CalculatePower_ok:
  assumes E: "env_ok T ip" and R: "od_ready T ip od" and C: "od_rc od"
  shows "\<exists>l e. OutputDriver_CalculatePower T ip od = Inr (od\<lparr>leakage := l,
      readDynamicEnergy := e, writeDynamicEnergy := e\<rparr>) \<and> fnn l \<and> fpos e"
proof -
  define lb where "lb = (\<lambda>i leak.
             ebind (aget (widthNMOS od) i) (\<lambda>wn. ebind (aget (widthPMOS od) i) (\<lambda>wp.
             ebind (CalculateGateLeakage INV 1 wn wp (i2d (ip_temperature ip)) T) (\<lambda>l.
               Inr (leak + l * vdd T)))))"
  define eb where "eb = (\<lambda>i e.
             ebind (aget (capOutput od) i) (\<lambda>co. ebind (aget (capInput od) (i + 1)) (\<lambda>ci.
               Inr (e + (co + ci) * vdd T * vdd T))))"
  have n: "1 \<le> numStage od" "numStage od \<le> 20" "od_initialized od" "\<not> od_invalid od"
    "fnn (outputCap od)" using R by (simp_all add: od_ready_def)
  have T: "tech_ok T" by (rule env_okD [OF E])
  have "\<exists>t. for_up 0 (numStage od) lb 0 = Inr t \<and> fnn t"
  proof (rule for_up_total [where P = "\<lambda>_. fnn"])
    fix i u assume i: "0 \<le> i" "i < numStage od" and u: "fnn u"
    obtain w where w: "aget (widthNMOS od) i = Inr w" "aget (widthPMOS od) i = Inr (w * pnSizeRatio T)"
      "fpos w" using od_ready_stage [OF E R i] by blast
    have "fnn w" "fnn (w * pnSizeRatio T)" using w(3) T by (simp_all add: fsign)
    from GateLeakage_ok [OF T env_okD(2) [OF E] this, of 1 0] obtain l where
      "CalculateGateLeakage INV 1 w (w * pnSizeRatio T) (i2d (ip_temperature ip)) T = Inr l" "fnn l"
      by auto
    then show "\<exists>v. lb i u = Inr v \<and> fnn v" using w u T by (simp add: lb_def fsign)
  qed (use n in simp_all)
  then obtain l where l: "for_up 0 (numStage od) lb 0 = Inr l" "fnn l" by blast
  have "\<exists>t. for_up 0 (numStage od - 1) eb 0 = Inr t \<and> fnn t"
  proof (rule for_up_total [where P = "\<lambda>_. fnn"])
    fix i u assume i: "0 \<le> i" "i < numStage od - 1" and u: "fnn u"
    obtain b where "aget (capOutput od) i = Inr b" "fpos b"
      using od_rc_aget [OF R C, of i] i by auto
    moreover obtain a where "aget (capInput od) (i + 1) = Inr a" "fpos a"
      using od_rc_aget [OF R C, of "i + 1"] i by auto
    ultimately show "\<exists>v. eb i u = Inr v \<and> fnn v" using u T by (simp add: eb_def fsign)
  qed (use n in simp_all)
  then obtain e where e: "for_up 0 (numStage od - 1) eb 0 = Inr e" "fnn e" by blast
  obtain b where b: "aget (capOutput od) (numStage od - 1) = Inr b" "fpos b"
    using od_rc_aget [OF R C, of "numStage od - 1"] n by auto
  define e' where "e' = e + (b + outputCap od) * vdd T * vdd T"
  have "fpos ((b + outputCap od) * vdd T * vdd T)" using b(2) n(5) T by (simp add: fsign)
  then have p: "fpos e'" using e(2) by (simp add: e'_def fsign)
  have "OutputDriver_CalculatePower T ip od = Inr (od\<lparr>leakage := l,
      readDynamicEnergy := e', writeDynamicEnergy := e'\<rparr>)"
    using n(3,4) l(1) e(1) by (simp add: OutputDriver_CalculatePower_def lb_def eb_def b(1) e'_def Let_def)
  then show ?thesis using l(2) p by blast
qed

subsection \<open>The driver fulfils the contract of a component\<close>

lemma od_ready_env: "od_ready T ip od \<Longrightarrow> env_ok T ip"
  by (simp add: od_ready_def)

interpretation od: component "od_ready T ip" od_rc od_rampOutput "OutputDriver_CalculateArea T"
  "OutputDriver_CalculateRC T" "OutputDriver_CalculateLatency T ip" "OutputDriver_CalculatePower T ip"
  for T ip
proof
  fix s :: OutputDriver assume R: "od_ready T ip s"
  note E = od_ready_env [OF R]
  obtain h w where A: "OutputDriver_CalculateArea T s = Inr (s\<lparr>height := h, width := w, area := h * w\<rparr>)"
    "fpos h" "fpos w" using OutputDriver_CalculateArea_ok [OF E R] by blast
  then show "\<exists>s'. OutputDriver_CalculateArea T s = Inr s' \<and> od_ready T ip s' \<and> (od_rc s \<longrightarrow> od_rc s')
      \<and> geometry_ok s' \<and> power_of s' = power_of s"
    using R by (simp add: od_ready_def od_rc_def od_arrays_def geometry_ok_def power_of_def)
  obtain ci co where C: "OutputDriver_CalculateRC T s = Inr (s\<lparr>capInput := ci, capOutput := co\<rparr>)"
    "od_ready T ip (s\<lparr>capInput := ci, capOutput := co\<rparr>)" "od_rc (s\<lparr>capInput := ci, capOutput := co\<rparr>)"
    using OutputDriver_CalculateRC_ok [OF E R] by blast
  then show "\<exists>s'. OutputDriver_CalculateRC T s = Inr s' \<and> od_ready T ip s' \<and> od_rc s'
      \<and> geometry s' = geometry s \<and> power_of s' = power_of s"
    by (simp add: geometry_def power_of_def)
next
  fix s :: OutputDriver and ramp assume R: "od_ready T ip s" "od_rc s" "fpos ramp"
  from OutputDriver_CalculateLatency_ok [OF od_ready_env [OF R(1)] R]
  obtain l r where "OutputDriver_CalculateLatency T ip ramp s = Inr (s\<lparr>readLatency := l,
      od_rampOutput := r, od_rampInput := ramp, writeLatency := l\<rparr>)" "fpos l" "fpos r" by blast
  with R show "\<exists>s'. OutputDriver_CalculateLatency T ip ramp s = Inr s' \<and> od_ready T ip s' \<and> od_rc s'
      \<and> geometry s' = geometry s \<and> latency_ok s' \<and> fpos (od_rampOutput s') \<and> power_of s' = power_of s"
    by (simp add: od_ready_def od_rc_def od_arrays_def geometry_def power_of_def latency_ok_def)
next
  fix s :: OutputDriver assume R: "od_ready T ip s" "od_rc s"
  from OutputDriver_CalculatePower_ok [OF od_ready_env [OF R(1)] R]
  obtain l e where "OutputDriver_CalculatePower T ip s = Inr (s\<lparr>leakage := l,
      readDynamicEnergy := e, writeDynamicEnergy := e\<rparr>)" "fnn l" "fpos e" by blast
  with R show "\<exists>s'. OutputDriver_CalculatePower T ip s = Inr s' \<and> od_ready T ip s' \<and> od_rc s'
      \<and> geometry s' = geometry s \<and> latency_of s' = latency_of s \<and> power_ok s'"
    by (simp add: od_ready_def od_rc_def od_arrays_def geometry_def latency_of_def power_ok_def)
qed

text \<open>
  A driver behind a gate of the decoders: the input capacitance is that of an NMOS of one to three
  minimum widths with a minimum PMOS, and no drive current is asked for.
\<close>

definition gate_load :: "Technology \<Rightarrow> dbl \<Rightarrow> dbl" where
  "gate_load T wN = CalculateGateCap wN T + CalculateGateCap (pnSizeRatio T * MIN_NMOS_SIZE * featureSize T) T"

lemma min_current_zero: "env_ok T ip \<Longrightarrow>
    minNMOSDriverWidth T ip 0 = Inr (MIN_NMOS_SIZE * featureSize T)"
proof -
  assume E: "env_ok T ip"
  have i: "0 \<le> ip_temperature ip - 300" "ip_temperature ip - 300 \<le> 100"
    using env_okD(2) [OF E] by (simp_all add: temp_ok_def)
  obtain a where a: "aget (currentOnNmos T) (ip_temperature ip - 300) = Inr a" "fpos a"
    using table_ok_aget [OF tech_ok_tables(1) [OF env_okD(1) [OF E]] i] by blast
  then have "cMAX (MIN_NMOS_SIZE * featureSize T) (0 / a) = MIN_NMOS_SIZE * featureSize T"
    using tech_okD(1) [OF env_okD(1) [OF E]] by (auto simp: fpos_def dbl_lits)
  with a(1) show ?thesis by (simp add: minNMOSDriverWidth_def)
qed

lemma gate_load_bounds:
  assumes E: "env_ok T ip" and e: "1 \<le> effort" "effort \<le> 3"
    and w: "MIN_NMOS_SIZE * featureSize T \<le> wN" "wN \<le> 3 * MIN_NMOS_SIZE * featureSize T"
  shows "fpos (gate_load T wN)"
    "effort * (CalculateGateCap (MIN_NMOS_SIZE * featureSize T) T * (1 + pnSizeRatio T)) / gate_load T wN
       \<le> Fin (4 ^ 18)"
    "1 \<le> effort * CalculateGateCap ((1 + pnSizeRatio T) * maxNmosSize ip * featureSize T) T / gate_load T wN"
proof -
  have T: "tech_ok T" by (rule env_okD [OF E])
  obtain a where a: "featureSize T = Fin a" "0 < a" using tech_okD(1) [OF T] by (auto simp: fpos_def)
  obtain p where p: "pnSizeRatio T = Fin p" "0 < p" using tech_okD(17) [OF T] by (auto simp: fpos_def)
  obtain m where m: "maxNmosSize ip = Fin m" "5 \<le> m" using E by (auto simp: fpos_def env_ok_def dbl_lits)
  obtain x where x: "wN = Fin x" "3 / 2 * a \<le> x" "x \<le> 9 / 2 * a"
    using w by (cases wN) (auto simp: a dbl_lits)
  obtain k where k: "effort = Fin k" "1 \<le> k" "k \<le> 3" using e by (cases effort) (auto simp: dbl_lits)
  obtain c where c: "capIdealGate T + capOverlap T + 3 * capFringe T = Fin c" "0 < c"
  proof -
    have "fpos (capIdealGate T + capOverlap T + 3 * capFringe T)" using T by (simp add: fsign)
    then show ?thesis using that by (auto simp: fpos_def)
  qed
  obtain g where g: "phyGateLength T = Fin g" using tech_okD(7) [OF T] by (auto simp: fpos_def)
  have cap: "CalculateGateCap (Fin y) T = Fin (c * y)" for y
    using E unfolding CalculateGateCap_def c(1) g env_ok_def by (simp add: dbl_lits)
  define s where "s = x + p * (3 / 2) * a"
  have s: "0 < s" "3 / 2 * a * (1 + p) \<le> s" "s \<le> 9 / 2 * a * (1 + p)"
  proof -
    have "0 < p * (3 / 2) * a" using a p by simp
    then show "0 < s" "3 / 2 * a * (1 + p) \<le> s" "s \<le> 9 / 2 * a * (1 + p)"
      using x a by (simp_all add: s_def algebra_simps)
  qed
  have L: "gate_load T wN = Fin (c * s)"
    by (simp add: gate_load_def x(1) p(1) a(1) dbl_lits cap s_def algebra_simps)
  have cs: "0 < c * s" using c s by simp
  then show "fpos (gate_load T wN)" by (simp add: L)
  have "k * (c * (3 / 2 * a) * (1 + p)) = k * c * (3 / 2 * a * (1 + p))" by (simp add: algebra_simps)
  also have "\<dots> \<le> k * c * s" using k(2) c(2) s(2) by (intro mult_left_mono) simp_all
  also have "\<dots> \<le> 3 * c * s" using k(3) c(2) s(1) by (intro mult_right_mono) simp_all
  also have "\<dots> \<le> 4 ^ 18 * (c * s)" using cs by simp
  finally have "k * (c * (3 / 2 * a) * (1 + p)) / (c * s) \<le> 4 ^ 18" using cs by (simp only: pos_divide_le_eq)
  moreover have "effort * (CalculateGateCap (MIN_NMOS_SIZE * featureSize T) T * (1 + pnSizeRatio T))
      / gate_load T wN = Fin (k * (c * (3 / 2 * a) * (1 + p)) / (c * s))"
    using c(2) s(1) by (simp add: L k(1) a(1) p(1) dbl_lits cap)
  ultimately show "effort * (CalculateGateCap (MIN_NMOS_SIZE * featureSize T) T * (1 + pnSizeRatio T))
      / gate_load T wN \<le> Fin (4 ^ 18)" by (simp only: Fin_order)
  have "c * s \<le> c * (9 / 2 * a * (1 + p))" using c(2) s(3) by simp
  also have "\<dots> \<le> c * ((1 + p) * m * a)"
  proof -
    have "9 / 2 * (a * (1 + p)) \<le> m * (a * (1 + p))"
      using m(2) a(2) p(2) by (intro mult_right_mono) simp_all
    then have "9 / 2 * a * (1 + p) \<le> (1 + p) * m * a" by (simp only: ac_simps)
    then show ?thesis using c(2) by (intro mult_left_mono) simp_all
  qed
  also have "\<dots> \<le> k * (c * ((1 + p) * m * a))" using k(2) c(2) m(2) a(2) p(2) by simp
  finally have "1 \<le> k * (c * ((1 + p) * m * a)) / (c * s)" using cs by (simp only: pos_le_divide_eq mult_1)
  moreover have "effort * CalculateGateCap ((1 + pnSizeRatio T) * maxNmosSize ip * featureSize T) T
      / gate_load T wN = Fin (k * (c * ((1 + p) * m * a)) / (c * s))"
    using c(2) s(1) by (simp add: L k(1) a(1) p(1) m(1) dbl_lits cap)
  ultimately show "1 \<le> effort * CalculateGateCap ((1 + pnSizeRatio T) * maxNmosSize ip * featureSize T) T
      / gate_load T wN" by (simp only: Fin_order dbl_one)
qed

lemma driver_ready:
  assumes E: "env_ok T ip" and od: "od_arrays od" "\<not> od_invalid od"
    and e: "1 \<le> effort" "effort \<le> 3"
    and w: "MIN_NMOS_SIZE * featureSize T \<le> wN" "wN \<le> 3 * MIN_NMOS_SIZE * featureSize T"
    and load: "fnn cap" "fnn rl" "dbl_range (effort * cap / gate_load T wN)"
  shows "\<exists>od'. OutputDriver_Initialize T ip effort (gate_load T wN) cap rl True latency_first 0 od = Inr od'
    \<and> od_ready T ip od' \<and> stages_ok (numStage od')"
proof -
  define M where "M = maxNmosSize ip * featureSize T"
  have T: "tech_ok T" by (rule env_okD [OF E])
  note b = gate_load_bounds [OF E e w]
  have eff: "fpos effort" using e by (cases effort) (auto simp: dbl_lits)
  have L: "load_ok effort (gate_load T wN) cap" using eff b(1) load by (simp add: load_ok_def)
  have fit: "MIN_NMOS_SIZE * featureSize T \<le> maxNmosSize ip * featureSize T"
    using E T tech_okD(1) [OF T] by (auto simp: env_ok_def fpos_def dbl_lits)
  from OutputDriver_Initialize_ok [OF E od(1) L _ min_current_zero [OF E] b(2) fit b(3) refl]
  obtain n wn wp where r: "OutputDriver_Initialize T ip effort (gate_load T wN) cap rl True latency_first 0 od
      = Inr ((od_params effort (gate_load T wN) cap rl True latency_first 0 od)\<lparr>numStage := n,
          widthNMOS := wn, widthPMOS := wp, od_initialized := True\<rparr>)"
    "sized T M (MIN_NMOS_SIZE * featureSize T) n wn wp" "stages_ok n"
    unfolding M_def by fastforce
  show ?thesis using r E od load by (auto simp: od_ready_def sized_def od_params_def od_arrays_def M_def)
qed

end
