(* ===== verification/BasicDecoder.thy ===== *)
theory BasicDecoder
  imports OutputDriver
begin

text \<open>
  A 1-to-2, 2-to-4 or 3-to-8 decoder (\<open>BasicDecoder.cpp\<close>): one NAND gate per output (none for the
  1-to-2 decoder), each followed by an inverting output driver.
\<close>

record BasicDecoder = FunctionUnit +
  bd_initialized :: bool
  bd_outputDriver :: OutputDriver
  bd_capLoad :: dbl
  bd_resLoad :: dbl
  bd_numNandInput :: int
  bd_numNandGate :: int
  bd_widthNandN :: dbl
  bd_widthNandP :: dbl
  bd_capNandInput :: dbl
  bd_capNandOutput :: dbl
  bd_rampInput :: dbl
  bd_rampOutput :: dbl

definition BasicDecoder_new :: "BasicDecoder \<Rightarrow> BasicDecoder" where
  "BasicDecoder_new raw = (FunctionUnit_new raw)\<lparr>bd_initialized := False,
     bd_outputDriver := OutputDriver_new (bd_outputDriver raw)\<rparr>"

text \<open>A NAND gate of \<open>k\<close> inputs with the load \<open>cap\<close>: the delay and the output ramp.\<close>

definition nand_delay ::
  "Technology \<Rightarrow> InputParameter \<Rightarrow> dbl \<Rightarrow> int \<Rightarrow> dbl \<Rightarrow> dbl \<Rightarrow> (dbl \<times> dbl) res" where
  "nand_delay T ip w k cap ramp =
     ebind (CalculateOnResistance w NMOS (i2d (ip_temperature ip)) T) (\<lambda>r.
       let resPullDown = r * i2d k;
           tr = resPullDown * cap;
           gm = CalculateTransconductance w NMOS T;
           beta = 1 / (resPullDown * gm)
       in Inr (horowitz tr beta ramp))"

text \<open>The width of the NMOS and the logic effort of a NAND gate of \<open>k\<close> inputs (2, otherwise 3).\<close>

definition nand_width :: "Technology \<Rightarrow> int \<Rightarrow> dbl" where
  "nand_width T k = (if k = 2 then 2 * MIN_NMOS_SIZE * featureSize T
                     else 3 * MIN_NMOS_SIZE * featureSize T)"

definition nand_effort :: "Technology \<Rightarrow> int \<Rightarrow> dbl" where
  "nand_effort T k = (if k = 2 then (2 + pnSizeRatio T) / (1 + pnSizeRatio T)
                      else (3 + pnSizeRatio T) / (1 + pnSizeRatio T))"

definition BasicDecoder_Initialize ::
  "Technology \<Rightarrow> InputParameter \<Rightarrow> int \<Rightarrow> dbl \<Rightarrow> dbl \<Rightarrow> BasicDecoder \<Rightarrow> BasicDecoder res" where
  "BasicDecoder_Initialize T ip numAddressBits cap rl bd =
     (let k = (if numAddressBits = 1 then 0 else numAddressBits);
          bd0 = bd\<lparr>bd_numNandInput := k, bd_capLoad := cap, bd_resLoad := rl\<rparr>
      in if k = 0 then
           let widthInvN = MIN_NMOS_SIZE * featureSize T;
               widthInvP = pnSizeRatio T * MIN_NMOS_SIZE * featureSize T;
               capInv = CalculateGateCap widthInvN T + CalculateGateCap widthInvP T
           in ebind (OutputDriver_Initialize T ip 1 capInv cap rl True latency_first 0
                       (bd_outputDriver bd0)) (\<lambda>od.
                Inr (bd0\<lparr>bd_numNandGate := 0, bd_outputDriver := od, bd_initialized := True\<rparr>))
         else
           let wN = nand_width T k;
               wP = pnSizeRatio T * MIN_NMOS_SIZE * featureSize T;
               capNand = CalculateGateCap wN T + CalculateGateCap wP T
           in ebind (OutputDriver_Initialize T ip (nand_effort T k) capNand cap rl True
                       latency_first 0 (bd_outputDriver bd0)) (\<lambda>od.
                Inr (bd0\<lparr>bd_numNandGate := (if k = 2 then 4 else 8), bd_widthNandN := wN,
                         bd_widthNandP := wP, bd_outputDriver := od, bd_initialized := True\<rparr>)))"

definition BasicDecoder_CalculateArea :: "Technology \<Rightarrow> BasicDecoder \<Rightarrow> BasicDecoder res" where
  "BasicDecoder_CalculateArea T bd =
     (if \<not> bd_initialized bd then Inr bd
      else ebind (OutputDriver_CalculateArea T (bd_outputDriver bd)) (\<lambda>od.
        if bd_numNandInput bd = 0 then
          let h = 2 * height od; w = width od
          in Inr (bd\<lparr>bd_outputDriver := od, height := h, width := w, area := h * w\<rparr>)
        else
          ebind (CalculateGateArea NAND (bd_numNandInput bd) (bd_widthNandN bd) (bd_widthNandP bd)
                   (featureSize T * 40) T) (\<lambda>(hNand, wNand, _).
            let h = cMAX hNand (height od) * i2d (bd_numNandGate bd); w = wNand + width od
            in Inr (bd\<lparr>bd_outputDriver := od, height := h, width := w, area := h * w\<rparr>))))"

definition BasicDecoder_CalculateRC :: "Technology \<Rightarrow> BasicDecoder \<Rightarrow> BasicDecoder res" where
  "BasicDecoder_CalculateRC T bd =
     (if \<not> bd_initialized bd then Inr bd
      else ebind (OutputDriver_CalculateRC T (bd_outputDriver bd)) (\<lambda>od.
        if 0 < bd_numNandInput bd then
          ebind (CalculateGateCapacitance NAND (bd_numNandInput bd) (bd_widthNandN bd)
                   (bd_widthNandP bd) (featureSize T * MAX_TRANSISTOR_HEIGHT) T) (\<lambda>(ci, co).
            Inr (bd\<lparr>bd_outputDriver := od, bd_capNandInput := ci, bd_capNandOutput := co\<rparr>))
        else Inr (bd\<lparr>bd_outputDriver := od\<rparr>)))"

definition BasicDecoder_CalculateLatency ::
  "Technology \<Rightarrow> InputParameter \<Rightarrow> dbl \<Rightarrow> BasicDecoder \<Rightarrow> BasicDecoder res" where
  "BasicDecoder_CalculateLatency T ip ramp bd =
     (if \<not> bd_initialized bd then Inr bd
      else if bd_numNandInput bd = 0 then
        ebind (OutputDriver_CalculateLatency T ip ramp (bd_outputDriver bd)) (\<lambda>od.
          Inr (bd\<lparr>bd_rampInput := ramp, bd_outputDriver := od, readLatency := readLatency od,
                  writeLatency := readLatency od, bd_rampOutput := od_rampOutput od\<rparr>))
      else
        ebind (aget (capInput (bd_outputDriver bd)) 0) (\<lambda>ci0.
        ebind (nand_delay T ip (bd_widthNandN bd) (bd_numNandInput bd)
                 (bd_capNandOutput bd + ci0) ramp) (\<lambda>(d, rampInputForDriver).
        ebind (OutputDriver_CalculateLatency T ip rampInputForDriver (bd_outputDriver bd)) (\<lambda>od.
          Inr (bd\<lparr>bd_rampInput := ramp, bd_outputDriver := od,
                  readLatency := d + readLatency od, writeLatency := d + readLatency od,
                  bd_rampOutput := od_rampOutput od\<rparr>)))))"

definition BasicDecoder_CalculatePower ::
  "Technology \<Rightarrow> InputParameter \<Rightarrow> BasicDecoder \<Rightarrow> BasicDecoder res" where
  "BasicDecoder_CalculatePower T ip bd =
     (if \<not> bd_initialized bd then Inr bd
      else ebind (OutputDriver_CalculatePower T ip (bd_outputDriver bd)) (\<lambda>od.
        if bd_numNandInput bd = 0 then
          ebind (aget (capInput od) 0) (\<lambda>ci0. ebind (aget (capOutput od) 0) (\<lambda>co0.
            let e = (ci0 + co0) * vdd T * vdd T + readDynamicEnergy od
            in Inr (bd\<lparr>bd_outputDriver := od, leakage := 2 * leakage od,
                       readDynamicEnergy := e * 1, writeDynamicEnergy := e * 1\<rparr>)))
        else
          ebind (CalculateGateLeakage NAND (bd_numNandInput bd) (bd_widthNandN bd) (bd_widthNandP bd)
                   (i2d (ip_temperature ip)) T) (\<lambda>l.
          ebind (aget (capInput od) 0) (\<lambda>ci0.
            let e = (bd_capNandOutput bd + ci0) * vdd T * vdd T + readDynamicEnergy od
            in Inr (bd\<lparr>bd_outputDriver := od,
                       leakage := (l * vdd T + leakage od) * i2d (bd_numNandGate bd),
                       readDynamicEnergy := e * 1, writeDynamicEnergy := e * 1\<rparr>)))))"

subsection \<open>The NAND gates of the decoders\<close>

lemma gate_fits_small:
  assumes wN: "fpos wN" and wP: "fpos wP" and h: "fin h"
    and sum: "wP + wN < h - MIN_GAP_BET_P_AND_N_DIFFS * featureSize T" and F: "fin (featureSize T)"
  shows "gate_fits wN wP h T"
proof -
  obtain x y a k where e: "wN = Fin x" "0 < x" "wP = Fin y" "0 < y" "featureSize T = Fin a" "h = Fin k"
    using wN wP h F by (auto simp: fpos_def fin_def)
  define A where "A = k - 2 * a"
  have A: "y + x < A" using sum by (simp add: e A_def dbl_lits)
  define q where "q = y / (y + x)"
  have q: "q \<noteq> 0" "q \<noteq> 1" "0 < q" "q < 1" using e(2,4) by (simp_all add: q_def field_simps)
  have mw: "maxWidths wN wP h T = (Fin (q * A), Fin ((1 - q) * A))"
  proof -
    have "q * A / q * (1 - q) = (1 - q) * A" using q(1) by simp
    then show ?thesis using e(2,4) q(1,2)
      by (simp add: maxWidths_def Let_def e(1,3,5,6) q_def [symmetric] A_def [symmetric] dbl_lits)
  qed
  have "y = q * (y + x)" using e(2,4) by (simp add: q_def)
  also have "\<dots> < q * A" using A q(3) by (intro mult_strict_left_mono)
  finally have 1: "wP < Fin (q * A)" by (simp add: e(3))
  have "x = (1 - q) * (y + x)" using e(2,4) by (simp add: q_def field_simps)
  also have "\<dots> < (1 - q) * A" using A q(4) by (intro mult_strict_left_mono) simp_all
  finally have 2: "wN < Fin ((1 - q) * A)" by (simp add: e(1))
  show ?thesis unfolding gate_fits_def mw fits_def using 1 2 e wN wP h
    by (simp add: dbl_lits)
qed

lemma nand_fits:
  assumes E: "env_ok T ip" and h: "h = 20 \<or> h = 40"
  shows "gate_fits (nand_width T k) (pnSizeRatio T * MIN_NMOS_SIZE * featureSize T) (featureSize T * h) T"
proof (rule gate_fits_small)
  have T: "tech_ok T" by (rule env_okD [OF E])
  obtain a where a: "featureSize T = Fin a" "0 < a" using tech_okD(1) [OF T] by (auto simp: fpos_def)
  obtain p where p: "pnSizeRatio T = Fin p" "0 < p" "p \<le> 4"
    using tech_okD(17) [OF T] E by (auto simp: fpos_def env_ok_def dbl_lits)
  show "fpos (nand_width T k)" "fpos (pnSizeRatio T * MIN_NMOS_SIZE * featureSize T)"
    using T by (simp_all add: nand_width_def fsign)
  show "fin (featureSize T)" "fin (featureSize T * h)"
    using h by (auto simp: a dbl_lits)
  have pa: "p * a \<le> 4 * a" using p a by (intro mult_right_mono) simp_all
  show "pnSizeRatio T * MIN_NMOS_SIZE * featureSize T + nand_width T k
      < featureSize T * h - MIN_GAP_BET_P_AND_N_DIFFS * featureSize T"
  proof -
    have "p * 3 * a / 2 + 9 * a / 2 < 18 * a" "p * 3 * a / 2 + 3 * a < 18 * a"
      "18 * a < 38 * a"
    proof -
      have "p * 3 * a / 2 = 3 / 2 * (p * a)" by simp
      then show "p * 3 * a / 2 + 9 * a / 2 < 18 * a" "p * 3 * a / 2 + 3 * a < 18 * a" "18 * a < 38 * a"
        using pa a(2) by linarith+
    qed
    then show ?thesis using h by (auto simp: nand_width_def a(1) p(1) dbl_lits)
  qed
qed

lemma nand_width_bounds:
  assumes "tech_ok T"
  shows "fpos (nand_width T k)" "MIN_NMOS_SIZE * featureSize T \<le> nand_width T k"
    "nand_width T k \<le> 3 * MIN_NMOS_SIZE * featureSize T"
proof -
  obtain a where a: "featureSize T = Fin a" "0 < a" using tech_okD(1) [OF assms] by (auto simp: fpos_def)
  show "fpos (nand_width T k)" "MIN_NMOS_SIZE * featureSize T \<le> nand_width T k"
    "nand_width T k \<le> 3 * MIN_NMOS_SIZE * featureSize T"
    using a(2) by (auto simp: nand_width_def a(1) dbl_lits)
qed

lemma nand_effort_bounds:
  assumes "env_ok T ip"
  shows "1 \<le> nand_effort T k" "nand_effort T k \<le> 3"
proof -
  obtain p where p: "pnSizeRatio T = Fin p" "1 / 4 \<le> p"
    using tech_okD(17) [OF env_okD(1) [OF assms]] assms by (auto simp: fpos_def env_ok_def dbl_lits)
  show "1 \<le> nand_effort T k" "nand_effort T k \<le> 3"
    using p(2) by (auto simp: nand_effort_def p(1) dbl_lits field_simps)
qed

lemma nand_delay_ok:
  assumes E: "env_ok T ip" and w: "fpos w" and k: "0 < k" and c: "fpos c" and ramp: "fpos ramp"
  shows "\<exists>d r. nand_delay T ip w k c ramp = Inr (d, r) \<and> fpos d \<and> fpos r"
proof -
  obtain r where r: "CalculateOnResistance w NMOS (i2d (ip_temperature ip)) T = Inr r" "fpos r"
    using OnResistance_ok env_okD [OF E] w by blast
  define res where "res = r * i2d k"
  define gm where "gm = CalculateTransconductance w NMOS T"
  have res: "fpos res" using r(2) k by (simp add: res_def fsign)
  have "fpos gm" using env_okD(1) [OF E] w by (simp add: gm_def fsign)
  then have b: "fnn (1 / (res * gm))" "fpos (res * c)" using res c by (simp_all add: fsign)
  obtain d ro where h: "horowitz (res * c) (1 / (res * gm)) ramp = (d, ro)" by fastforce
  have "fpos d" "fpos ro" using horowitz_pos [OF b(2,1) ramp h] by simp_all
  with h show ?thesis by (simp add: nand_delay_def r(1) Let_def gm_def res_def)
qed

subsection \<open>The basic decoder fulfils the contract of a component\<close>

text \<open>
  Selecting a member of the base class after an update of the driver, and the driver after an
  update of a member of the base class (the driver is itself a \<open>FunctionUnit\<close>).
\<close>

lemma bd_driver_select [simp]:
  fixes s :: BasicDecoder
  shows
    "height (s\<lparr>bd_outputDriver := d\<rparr>) = height s"
    "width (s\<lparr>bd_outputDriver := d\<rparr>) = width s"
    "area (s\<lparr>bd_outputDriver := d\<rparr>) = area s"
    "readLatency (s\<lparr>bd_outputDriver := d\<rparr>) = readLatency s"
    "writeLatency (s\<lparr>bd_outputDriver := d\<rparr>) = writeLatency s"
    "readDynamicEnergy (s\<lparr>bd_outputDriver := d\<rparr>) = readDynamicEnergy s"
    "writeDynamicEnergy (s\<lparr>bd_outputDriver := d\<rparr>) = writeDynamicEnergy s"
    "leakage (s\<lparr>bd_outputDriver := d\<rparr>) = leakage s"
    "setLatency (s\<lparr>bd_outputDriver := d\<rparr>) = setLatency s"
    "resetLatency (s\<lparr>bd_outputDriver := d\<rparr>) = resetLatency s"
    "refreshLatency (s\<lparr>bd_outputDriver := d\<rparr>) = refreshLatency s"
    "setDynamicEnergy (s\<lparr>bd_outputDriver := d\<rparr>) = setDynamicEnergy s"
    "resetDynamicEnergy (s\<lparr>bd_outputDriver := d\<rparr>) = resetDynamicEnergy s"
    "cellReadEnergy (s\<lparr>bd_outputDriver := d\<rparr>) = cellReadEnergy s"
    "cellSetEnergy (s\<lparr>bd_outputDriver := d\<rparr>) = cellSetEnergy s"
    "cellResetEnergy (s\<lparr>bd_outputDriver := d\<rparr>) = cellResetEnergy s"
    "refreshDynamicEnergy (s\<lparr>bd_outputDriver := d\<rparr>) = refreshDynamicEnergy s"
    "bd_outputDriver (s\<lparr>height := x\<rparr>) = bd_outputDriver s"
    "bd_outputDriver (s\<lparr>width := x\<rparr>) = bd_outputDriver s"
    "bd_outputDriver (s\<lparr>area := x\<rparr>) = bd_outputDriver s"
    "bd_outputDriver (s\<lparr>readLatency := x\<rparr>) = bd_outputDriver s"
    "bd_outputDriver (s\<lparr>writeLatency := x\<rparr>) = bd_outputDriver s"
    "bd_outputDriver (s\<lparr>readDynamicEnergy := x\<rparr>) = bd_outputDriver s"
    "bd_outputDriver (s\<lparr>writeDynamicEnergy := x\<rparr>) = bd_outputDriver s"
    "bd_outputDriver (s\<lparr>leakage := x\<rparr>) = bd_outputDriver s"
    "bd_outputDriver (s\<lparr>setLatency := x\<rparr>) = bd_outputDriver s"
    "bd_outputDriver (s\<lparr>resetLatency := x\<rparr>) = bd_outputDriver s"
    "bd_outputDriver (s\<lparr>refreshLatency := x\<rparr>) = bd_outputDriver s"
    "bd_outputDriver (s\<lparr>setDynamicEnergy := x\<rparr>) = bd_outputDriver s"
    "bd_outputDriver (s\<lparr>resetDynamicEnergy := x\<rparr>) = bd_outputDriver s"
    "bd_outputDriver (s\<lparr>cellReadEnergy := x\<rparr>) = bd_outputDriver s"
    "bd_outputDriver (s\<lparr>cellSetEnergy := x\<rparr>) = bd_outputDriver s"
    "bd_outputDriver (s\<lparr>cellResetEnergy := x\<rparr>) = bd_outputDriver s"
    "bd_outputDriver (s\<lparr>refreshDynamicEnergy := x\<rparr>) = bd_outputDriver s"
  by (cases s, simp)+


definition bd_ready :: "Technology \<Rightarrow> InputParameter \<Rightarrow> BasicDecoder \<Rightarrow> bool" where
  "bd_ready T ip bd \<longleftrightarrow> bd_initialized bd \<and> od_ready T ip (bd_outputDriver bd)
     \<and> (bd_numNandInput bd = 0 \<or> (bd_numNandInput bd, bd_numNandGate bd) \<in> {(2, 4), (3, 8)}
         \<and> bd_widthNandN bd = nand_width T (bd_numNandInput bd)
         \<and> bd_widthNandP bd = pnSizeRatio T * MIN_NMOS_SIZE * featureSize T)"

definition bd_rc :: "BasicDecoder \<Rightarrow> bool" where
  "bd_rc bd \<longleftrightarrow> od_rc (bd_outputDriver bd)
     \<and> (bd_numNandInput bd = 0 \<or> fpos (bd_capNandInput bd) \<and> fpos (bd_capNandOutput bd))"

lemma od_first_stage:
  assumes "od_ready T ip od" "od_rc od"
  shows "\<exists>a b. aget (capInput od) 0 = Inr a \<and> aget (capOutput od) 0 = Inr b \<and> fpos a \<and> fpos b"
  by (rule od_rc_aget [OF assms]) (use assms in \<open>simp_all add: od_ready_def\<close>)

lemma bd_ready_env: "bd_ready T ip bd \<Longrightarrow> env_ok T ip"
  by (auto simp: bd_ready_def od_ready_env)

lemma bd_ready_cases:
  assumes "bd_ready T ip bd"
  obtains (none) "bd_numNandInput bd = 0"
  | (nand) "bd_numNandInput bd \<in> {2, 3}" "0 < bd_numNandGate bd"
      "bd_widthNandN bd = nand_width T (bd_numNandInput bd)"
      "bd_widthNandP bd = pnSizeRatio T * MIN_NMOS_SIZE * featureSize T"
  using assms by (auto simp: bd_ready_def)

lemma bd_area:
  assumes R: "bd_ready T ip s"
  shows "\<exists>s'. BasicDecoder_CalculateArea T s = Inr s' \<and> bd_ready T ip s' \<and> (bd_rc s \<longrightarrow> bd_rc s')
      \<and> geometry_ok s' \<and> power_of s' = power_of s"
proof -
  have i: "bd_initialized s" "od_ready T ip (bd_outputDriver s)" using R by (simp_all add: bd_ready_def)
  obtain od where od: "OutputDriver_CalculateArea T (bd_outputDriver s) = Inr od" "od_ready T ip od"
    "od_rc (bd_outputDriver s) \<longrightarrow> od_rc od" "geometry_ok od" using od.area_law [OF i(2)] by blast
  have g: "fpos (height od)" "fpos (width od)" using od(4) by (simp_all add: geometry_ok_def)
  from R show ?thesis
  proof (cases rule: bd_ready_cases)
    case none
    then show ?thesis using R i od g
      by (simp add: BasicDecoder_CalculateArea_def Let_def bd_ready_def bd_rc_def geometry_ok_def power_of_def fsign)
  next
    case nand
    obtain h v where a: "CalculateGateArea NAND (bd_numNandInput s) (bd_widthNandN s) (bd_widthNandP s)
        (featureSize T * 40) T = Inr (h, v, v * h)" "fpos h" "fpos v"
      using GateArea_ok [OF env_okD(1) [OF bd_ready_env [OF R]]
          nand_fits [OF bd_ready_env [OF R], of 40 "bd_numNandInput s"], of "bd_numNandInput s" 2] nand
      by auto
    then show ?thesis using R i od g nand
      by (auto simp: BasicDecoder_CalculateArea_def Let_def bd_ready_def bd_rc_def geometry_ok_def power_of_def fsign)
  qed
qed

lemma bd_parasitics:
  assumes R: "bd_ready T ip s"
  shows "\<exists>s'. BasicDecoder_CalculateRC T s = Inr s' \<and> bd_ready T ip s' \<and> bd_rc s'
      \<and> geometry s' = geometry s \<and> power_of s' = power_of s"
proof -
  have i: "bd_initialized s" "od_ready T ip (bd_outputDriver s)" using R by (simp_all add: bd_ready_def)
  obtain od where od: "OutputDriver_CalculateRC T (bd_outputDriver s) = Inr od" "od_ready T ip od"
    "od_rc od" using od.rc_law [OF i(2)] by blast
  from R show ?thesis
  proof (cases rule: bd_ready_cases)
    case none
    then show ?thesis using R i od
      by (simp add: BasicDecoder_CalculateRC_def bd_ready_def bd_rc_def geometry_def power_of_def)
  next
    case nand
    obtain a b where c: "CalculateGateCapacitance NAND (bd_numNandInput s) (bd_widthNandN s)
        (bd_widthNandP s) (featureSize T * MAX_TRANSISTOR_HEIGHT) T = Inr (a, b)" "fpos a" "fpos b"
      using GateCapacitance_ok [OF env_okD(1) [OF bd_ready_env [OF R]]
          nand_fits [OF bd_ready_env [OF R], of 20 "bd_numNandInput s"], of "bd_numNandInput s" 2] nand
      by auto
    then show ?thesis using R i od nand
      by (auto simp: BasicDecoder_CalculateRC_def bd_ready_def bd_rc_def geometry_def power_of_def)
  qed
qed

lemma bd_delay:
  assumes R: "bd_ready T ip s" "bd_rc s" "fpos ramp"
  shows "\<exists>s'. BasicDecoder_CalculateLatency T ip ramp s = Inr s' \<and> bd_ready T ip s' \<and> bd_rc s'
      \<and> geometry s' = geometry s \<and> latency_ok s' \<and> fpos (bd_rampOutput s') \<and> power_of s' = power_of s"
proof -
  have i: "bd_initialized s" "od_ready T ip (bd_outputDriver s)" "od_rc (bd_outputDriver s)"
    using R by (simp_all add: bd_ready_def bd_rc_def)
  from R(1) show ?thesis
  proof (cases rule: bd_ready_cases)
    case none
    obtain od where od: "OutputDriver_CalculateLatency T ip ramp (bd_outputDriver s) = Inr od"
      "od_ready T ip od" "od_rc od" "latency_ok od" "fpos (od_rampOutput od)"
      using od.latency_law [OF i(2,3) R(3)] by blast
    then show ?thesis using none R i
      by (simp add: BasicDecoder_CalculateLatency_def bd_ready_def bd_rc_def geometry_def power_of_def latency_ok_def)
  next
    case nand
    obtain ci where ci: "aget (capInput (bd_outputDriver s)) 0 = Inr ci" "fpos ci"
      using od_first_stage [OF i(2,3)] by blast
    have "fpos (bd_widthNandN s)" "fpos (bd_capNandOutput s + ci)" "0 < bd_numNandInput s"
      using nand R(2) ci nand_width_bounds(1) [OF env_okD(1) [OF bd_ready_env [OF R(1)]]]
      by (auto simp: bd_rc_def fsign)
    from nand_delay_ok [OF bd_ready_env [OF R(1)] this(1,3,2) R(3)]
    obtain d r where d: "nand_delay T ip (bd_widthNandN s) (bd_numNandInput s) (bd_capNandOutput s + ci) ramp
        = Inr (d, r)" "fpos d" "fpos r" by blast
    obtain od where od: "OutputDriver_CalculateLatency T ip r (bd_outputDriver s) = Inr od"
      "od_ready T ip od" "od_rc od" "latency_ok od" "fpos (od_rampOutput od)"
      using od.latency_law [OF i(2,3) d(3)] by blast
    have nz: "bd_numNandInput s \<noteq> 0" using nand(1) by auto
    have "BasicDecoder_CalculateLatency T ip ramp s = Inr (s\<lparr>bd_rampInput := ramp, bd_outputDriver := od,
                  readLatency := d + readLatency od, writeLatency := d + readLatency od,
                  bd_rampOutput := od_rampOutput od\<rparr>)"
      using nz i(1) by (simp add: BasicDecoder_CalculateLatency_def ci(1) d(1) od(1))
    then show ?thesis using nand R d(2) od
      by (auto simp: bd_ready_def bd_rc_def geometry_def power_of_def latency_ok_def fsign)
  qed
qed

lemma bd_power:
  assumes R: "bd_ready T ip s" "bd_rc s"
  shows "\<exists>s'. BasicDecoder_CalculatePower T ip s = Inr s' \<and> bd_ready T ip s' \<and> bd_rc s'
      \<and> geometry s' = geometry s \<and> latency_of s' = latency_of s \<and> power_ok s'"
proof -
  have T: "tech_ok T" "temp_ok (ip_temperature ip)" using env_okD [OF bd_ready_env [OF R(1)]] by simp_all
  have i: "bd_initialized s" "od_ready T ip (bd_outputDriver s)" "od_rc (bd_outputDriver s)"
    using R by (simp_all add: bd_ready_def bd_rc_def)
  obtain od where od: "OutputDriver_CalculatePower T ip (bd_outputDriver s) = Inr od"
    "od_ready T ip od" "od_rc od" "power_ok od" using od.power_law [OF i(2,3)] by blast
  obtain ci co where c: "aget (capInput od) 0 = Inr ci" "aget (capOutput od) 0 = Inr co" "fpos ci" "fpos co"
    using od_first_stage [OF od(2,3)] by blast
  have p: "fnn (leakage od)" "fpos (readDynamicEnergy od)" using od(4) by (simp_all add: power_ok_def)
  from R(1) show ?thesis
  proof (cases rule: bd_ready_cases)
    case none
    then show ?thesis using R i od(1-3) c p T
      by (simp add: BasicDecoder_CalculatePower_def bd_ready_def bd_rc_def geometry_def latency_of_def
          power_ok_def Let_def fsign)
  next
    case nand
    have "fnn (bd_widthNandN s)" "fnn (bd_widthNandP s)" "0 \<le> bd_numNandInput s"
      using nand T(1) nand_width_bounds(1) [OF T(1)] by (auto simp: fsign)
    from GateLeakage_ok [OF T this] obtain l where
      l: "CalculateGateLeakage NAND (bd_numNandInput s) (bd_widthNandN s) (bd_widthNandP s)
        (i2d (ip_temperature ip)) T = Inr l" "fnn l" by blast
    define e where "e = (bd_capNandOutput s + ci) * vdd T * vdd T + readDynamicEnergy od"
    define lk where "lk = (l * vdd T + leakage od) * i2d (bd_numNandGate s)"
    have "fpos (bd_capNandOutput s)" using R(2) nand by (auto simp: bd_rc_def)
    then have "fpos (e * 1)" "fnn lk" using c p l(2) T(1) nand(2) by (simp_all add: e_def lk_def fsign)
    moreover have nz: "bd_numNandInput s \<noteq> 0" using nand(1) by auto
    moreover have "BasicDecoder_CalculatePower T ip s = Inr (s\<lparr>bd_outputDriver := od,
        leakage := lk, readDynamicEnergy := e * 1, writeDynamicEnergy := e * 1\<rparr>)"
      using nz i(1) by (simp add: BasicDecoder_CalculatePower_def od(1) l(1) c(1) e_def lk_def Let_def)
    ultimately show ?thesis using nand R od(2,3)
      by (auto simp: bd_ready_def bd_rc_def geometry_def latency_of_def power_ok_def)
  qed
qed

interpretation bd: component "bd_ready T ip" bd_rc bd_rampOutput "BasicDecoder_CalculateArea T"
  "BasicDecoder_CalculateRC T" "BasicDecoder_CalculateLatency T ip" "BasicDecoder_CalculatePower T ip"
  for T ip
  by (unfold_locales; rule bd_area bd_parasitics bd_delay bd_power)

text \<open>A decoder of one to three address bits with a load in range is ready.\<close>

definition bd_load_ok :: "Technology \<Rightarrow> int \<Rightarrow> dbl \<Rightarrow> dbl \<Rightarrow> bool" where
  "bd_load_ok T bits cap rl \<longleftrightarrow> fnn cap \<and> fnn rl
     \<and> dbl_range (if bits = 1 then 1 * cap / gate_load T (MIN_NMOS_SIZE * featureSize T)
                  else nand_effort T bits * cap / gate_load T (nand_width T bits))"

lemma BasicDecoder_Initialize_ok:
  assumes E: "env_ok T ip" and bits: "bits \<in> {1, 2, 3}" and arr: "od_arrays (bd_outputDriver bd)"
    "\<not> od_invalid (bd_outputDriver bd)" and load: "bd_load_ok T bits cap rl"
  shows "\<exists>bd'. BasicDecoder_Initialize T ip bits cap rl bd = Inr bd' \<and> bd_ready T ip bd'
    \<and> bd_numNandGate bd' = (if bits = 1 then 0 else 2 ^ nat bits)"
proof -
  have T: "tech_ok T" by (rule env_okD [OF E])
  obtain a where a: "featureSize T = Fin a" "0 < a" using tech_okD(1) [OF T] by (auto simp: fpos_def)
  show ?thesis
  proof (cases "bits = 1")
    case True
    have "MIN_NMOS_SIZE * featureSize T \<le> MIN_NMOS_SIZE * featureSize T"
      "MIN_NMOS_SIZE * featureSize T \<le> 3 * MIN_NMOS_SIZE * featureSize T" "(1::dbl) \<le> 1" "(1::dbl) \<le> 3"
      using a by (simp_all add: dbl_lits)
    from driver_ready [OF E arr this(3,4,1,2)] load True obtain od where
      "OutputDriver_Initialize T ip 1 (gate_load T (MIN_NMOS_SIZE * featureSize T)) cap rl True
         latency_first 0 (bd_outputDriver bd) = Inr od" "od_ready T ip od"
      by (auto simp: bd_load_ok_def)
    then show ?thesis using True
      by (simp add: BasicDecoder_Initialize_def gate_load_def bd_ready_def)
  next
    case False
    from driver_ready [OF E arr nand_effort_bounds [OF E, of bits] nand_width_bounds(2,3) [OF T, of bits]] load False
    obtain od where "OutputDriver_Initialize T ip (nand_effort T bits) (gate_load T (nand_width T bits))
         cap rl True latency_first 0 (bd_outputDriver bd) = Inr od" "od_ready T ip od"
      by (auto simp: bd_load_ok_def)
    then show ?thesis using False bits
      by (auto simp: BasicDecoder_Initialize_def gate_load_def bd_ready_def Let_def)
  qed
qed

end
