(* ===== verification/RowDecoder.thy ===== *)
theory RowDecoder
  imports BasicDecoder
begin

text \<open>
  The decoder of a row (\<open>RowDecoder.cpp\<close>): per row an optional NAND gate that combines predecoder
  outputs (and the way select of a cache) and an output driver for the wordline.
\<close>

record RowDecoder = FunctionUnit +
  rd_initialized :: bool
  rd_invalid :: bool
  rd_outputDriver :: OutputDriver
  rd_numRow :: int
  rd_multipleRowPerSet :: bool
  rd_numNandInput :: int
  rd_capLoad :: dbl
  rd_resLoad :: dbl
  rd_areaOptimizationLevel :: BufferDesignTarget
  rd_minDriverCurrent :: dbl
  rd_widthNandN :: dbl
  rd_widthNandP :: dbl
  rd_capNandInput :: dbl
  rd_capNandOutput :: dbl
  rd_rampInput :: dbl
  rd_rampOutput :: dbl

definition RowDecoder_new :: "RowDecoder \<Rightarrow> RowDecoder" where
  "RowDecoder_new raw = (FunctionUnit_new raw)\<lparr>rd_initialized := False, rd_invalid := False,
     rd_outputDriver := OutputDriver_new (rd_outputDriver raw)\<rparr>"

definition row_nand_inputs :: "int \<Rightarrow> bool \<Rightarrow> int" where
  "row_nand_inputs numRow multipleRowPerSet =
     (if numRow \<le> 8 then if multipleRowPerSet then 2 else 0
      else if multipleRowPerSet then 3 else 2)"

definition RowDecoder_Initialize ::
  "Technology \<Rightarrow> InputParameter \<Rightarrow> int \<Rightarrow> dbl \<Rightarrow> dbl \<Rightarrow> bool \<Rightarrow> BufferDesignTarget \<Rightarrow> dbl
     \<Rightarrow> RowDecoder \<Rightarrow> RowDecoder res" where
  "RowDecoder_Initialize T ip numRow cap rl multipleRowPerSet level minCurrent rd =
     (let k = row_nand_inputs numRow multipleRowPerSet;
          wN = (if 0 < k then nand_width T k else MIN_NMOS_SIZE * featureSize T);
          wP = pnSizeRatio T * MIN_NMOS_SIZE * featureSize T;
          effort = (if 0 < k then nand_effort T k else 1);
          capIn = CalculateGateCap wN T + CalculateGateCap wP T
      in ebind (OutputDriver_Initialize T ip effort capIn cap rl True level minCurrent
                  (rd_outputDriver rd)) (\<lambda>od.
         let rd1 = rd\<lparr>rd_numRow := numRow, rd_capLoad := cap, rd_resLoad := rl,
                      rd_multipleRowPerSet := multipleRowPerSet, rd_areaOptimizationLevel := level,
                      rd_minDriverCurrent := minCurrent, rd_numNandInput := k,
                      rd_widthNandN := wN, rd_widthNandP := wP, rd_outputDriver := od\<rparr>
         in if od_invalid od then Inr (rd1\<lparr>rd_invalid := True\<rparr>)
            else Inr (rd1\<lparr>rd_initialized := True\<rparr>)))"

definition RowDecoder_CalculateArea :: "Technology \<Rightarrow> RowDecoder \<Rightarrow> RowDecoder res" where
  "RowDecoder_CalculateArea T rd =
     (if \<not> rd_initialized rd then Inr rd
      else ebind (OutputDriver_CalculateArea T (rd_outputDriver rd)) (\<lambda>od.
           ebind (if rd_numNandInput rd = 0 then Inr (height od, width od)
                  else ebind (CalculateGateArea NAND (rd_numNandInput rd) (rd_widthNandN rd)
                                (rd_widthNandP rd) (featureSize T * 40) T) (\<lambda>(hNand, wNand, _).
                         Inr (cMAX hNand (height od), wNand + width od))) (\<lambda>(h, w).
             let h' = h * i2d (rd_numRow rd)
             in Inr (rd\<lparr>rd_outputDriver := od, height := h', width := w, area := h' * w\<rparr>))))"

definition RowDecoder_CalculateRC :: "Technology \<Rightarrow> RowDecoder \<Rightarrow> RowDecoder res" where
  "RowDecoder_CalculateRC T rd =
     (if \<not> rd_initialized rd then Inr rd
      else ebind (OutputDriver_CalculateRC T (rd_outputDriver rd)) (\<lambda>od.
           ebind (if rd_numNandInput rd = 0 then Inr (0, 0)
                  else CalculateGateCapacitance NAND (rd_numNandInput rd) (rd_widthNandN rd)
                         (rd_widthNandP rd) (featureSize T * MAX_TRANSISTOR_HEIGHT) T) (\<lambda>(ci, co).
             Inr (rd\<lparr>rd_outputDriver := od, rd_capNandInput := ci, rd_capNandOutput := co\<rparr>))))"

definition RowDecoder_CalculateLatency ::
  "Technology \<Rightarrow> InputParameter \<Rightarrow> dbl \<Rightarrow> RowDecoder \<Rightarrow> RowDecoder res" where
  "RowDecoder_CalculateLatency T ip ramp rd =
     (if \<not> rd_initialized rd then Inr rd
      else if rd_numNandInput rd = 0 then
        ebind (OutputDriver_CalculateLatency T ip ramp (rd_outputDriver rd)) (\<lambda>od.
          Inr (rd\<lparr>rd_outputDriver := od, readLatency := readLatency od,
                  writeLatency := readLatency od, rd_rampOutput := od_rampOutput od\<rparr>))
      else
        ebind (aget (capInput (rd_outputDriver rd)) 0) (\<lambda>ci0.
        ebind (nand_delay T ip (rd_widthNandN rd) (rd_numNandInput rd)
                 (rd_capNandOutput rd + ci0) ramp) (\<lambda>(d, rampInputForDriver).
        ebind (OutputDriver_CalculateLatency T ip rampInputForDriver (rd_outputDriver rd)) (\<lambda>od.
          Inr (rd\<lparr>rd_rampInput := ramp, rd_outputDriver := od,
                  readLatency := d + readLatency od, writeLatency := d + readLatency od,
                  rd_rampOutput := od_rampOutput od\<rparr>)))))"

text \<open>DRAM and eDRAM overdrive the wordline, so the NAND is charged to \<open>vpp\<close>.\<close>

definition wordline_voltage :: "Technology \<Rightarrow> MemCell \<Rightarrow> dbl" where
  "wordline_voltage T cell =
     (if memCellType cell = DRAM \<or> memCellType cell = eDRAM then vpp T else vdd T)"

definition RowDecoder_CalculatePower ::
  "Technology \<Rightarrow> InputParameter \<Rightarrow> MemCell \<Rightarrow> RowDecoder \<Rightarrow> RowDecoder res" where
  "RowDecoder_CalculatePower T ip cell rd =
     (if \<not> rd_initialized rd then Inr rd
      else ebind (OutputDriver_CalculatePower T ip (rd_outputDriver rd)) (\<lambda>od.
        if rd_numNandInput rd = 0 then
          Inr (rd\<lparr>rd_outputDriver := od, leakage := leakage od * i2d (rd_numRow rd),
                  readDynamicEnergy := readDynamicEnergy od,
                  writeDynamicEnergy := readDynamicEnergy od\<rparr>)
        else
          ebind (CalculateGateLeakage NAND (rd_numNandInput rd) (rd_widthNandN rd) (rd_widthNandP rd)
                   (i2d (ip_temperature ip)) T) (\<lambda>l.
          ebind (aget (capInput od) 0) (\<lambda>ci0.
            let v = wordline_voltage T cell;
                e = (rd_capNandOutput rd + ci0) * v * v + readDynamicEnergy od
            in Inr (rd\<lparr>rd_outputDriver := od,
                       leakage := (leakage od + l * vdd T) * i2d (rd_numRow rd),
                       readDynamicEnergy := e * 1, writeDynamicEnergy := e * 1\<rparr>)))))"

definition RowDecoder_assign :: "RowDecoder \<Rightarrow> RowDecoder \<Rightarrow> RowDecoder" where
  "RowDecoder_assign lhs rhs = (FunctionUnit_copy lhs rhs)\<lparr>
     rd_initialized := rd_initialized rhs, rd_invalid := rd_invalid rhs,
     rd_outputDriver := OutputDriver_assign (rd_outputDriver lhs) (rd_outputDriver rhs),
     rd_numRow := rd_numRow rhs, rd_multipleRowPerSet := rd_multipleRowPerSet rhs,
     rd_numNandInput := rd_numNandInput rhs, rd_capLoad := rd_capLoad rhs,
     rd_resLoad := rd_resLoad rhs, rd_areaOptimizationLevel := rd_areaOptimizationLevel rhs,
     rd_minDriverCurrent := rd_minDriverCurrent rhs,
     rd_widthNandN := rd_widthNandN rhs, rd_widthNandP := rd_widthNandP rhs,
     rd_capNandInput := rd_capNandInput rhs, rd_capNandOutput := rd_capNandOutput rhs,
     rd_rampInput := rd_rampInput rhs, rd_rampOutput := rd_rampOutput rhs\<rparr>"

subsection \<open>The row decoder fulfils the contract of a component\<close>

text \<open>
  Selecting a member of the base class after an update of the driver, and the driver after an
  update of a member of the base class (the driver is itself a \<open>FunctionUnit\<close>).
\<close>

lemma rd_driver_select [simp]:
  fixes s :: RowDecoder
  shows
    "height (s\<lparr>rd_outputDriver := d\<rparr>) = height s"
    "width (s\<lparr>rd_outputDriver := d\<rparr>) = width s"
    "area (s\<lparr>rd_outputDriver := d\<rparr>) = area s"
    "readLatency (s\<lparr>rd_outputDriver := d\<rparr>) = readLatency s"
    "writeLatency (s\<lparr>rd_outputDriver := d\<rparr>) = writeLatency s"
    "readDynamicEnergy (s\<lparr>rd_outputDriver := d\<rparr>) = readDynamicEnergy s"
    "writeDynamicEnergy (s\<lparr>rd_outputDriver := d\<rparr>) = writeDynamicEnergy s"
    "leakage (s\<lparr>rd_outputDriver := d\<rparr>) = leakage s"
    "setLatency (s\<lparr>rd_outputDriver := d\<rparr>) = setLatency s"
    "resetLatency (s\<lparr>rd_outputDriver := d\<rparr>) = resetLatency s"
    "refreshLatency (s\<lparr>rd_outputDriver := d\<rparr>) = refreshLatency s"
    "setDynamicEnergy (s\<lparr>rd_outputDriver := d\<rparr>) = setDynamicEnergy s"
    "resetDynamicEnergy (s\<lparr>rd_outputDriver := d\<rparr>) = resetDynamicEnergy s"
    "cellReadEnergy (s\<lparr>rd_outputDriver := d\<rparr>) = cellReadEnergy s"
    "cellSetEnergy (s\<lparr>rd_outputDriver := d\<rparr>) = cellSetEnergy s"
    "cellResetEnergy (s\<lparr>rd_outputDriver := d\<rparr>) = cellResetEnergy s"
    "refreshDynamicEnergy (s\<lparr>rd_outputDriver := d\<rparr>) = refreshDynamicEnergy s"
    "rd_outputDriver (s\<lparr>height := x\<rparr>) = rd_outputDriver s"
    "rd_outputDriver (s\<lparr>width := x\<rparr>) = rd_outputDriver s"
    "rd_outputDriver (s\<lparr>area := x\<rparr>) = rd_outputDriver s"
    "rd_outputDriver (s\<lparr>readLatency := x\<rparr>) = rd_outputDriver s"
    "rd_outputDriver (s\<lparr>writeLatency := x\<rparr>) = rd_outputDriver s"
    "rd_outputDriver (s\<lparr>readDynamicEnergy := x\<rparr>) = rd_outputDriver s"
    "rd_outputDriver (s\<lparr>writeDynamicEnergy := x\<rparr>) = rd_outputDriver s"
    "rd_outputDriver (s\<lparr>leakage := x\<rparr>) = rd_outputDriver s"
    "rd_outputDriver (s\<lparr>setLatency := x\<rparr>) = rd_outputDriver s"
    "rd_outputDriver (s\<lparr>resetLatency := x\<rparr>) = rd_outputDriver s"
    "rd_outputDriver (s\<lparr>refreshLatency := x\<rparr>) = rd_outputDriver s"
    "rd_outputDriver (s\<lparr>setDynamicEnergy := x\<rparr>) = rd_outputDriver s"
    "rd_outputDriver (s\<lparr>resetDynamicEnergy := x\<rparr>) = rd_outputDriver s"
    "rd_outputDriver (s\<lparr>cellReadEnergy := x\<rparr>) = rd_outputDriver s"
    "rd_outputDriver (s\<lparr>cellSetEnergy := x\<rparr>) = rd_outputDriver s"
    "rd_outputDriver (s\<lparr>cellResetEnergy := x\<rparr>) = rd_outputDriver s"
    "rd_outputDriver (s\<lparr>refreshDynamicEnergy := x\<rparr>) = rd_outputDriver s"
  by (cases s, simp)+


definition rd_ready :: "Technology \<Rightarrow> InputParameter \<Rightarrow> RowDecoder \<Rightarrow> bool" where
  "rd_ready T ip rd \<longleftrightarrow> rd_initialized rd \<and> od_ready T ip (rd_outputDriver rd) \<and> 0 < rd_numRow rd
     \<and> (rd_numNandInput rd = 0 \<or> rd_numNandInput rd \<in> {2, 3}
         \<and> rd_widthNandN rd = nand_width T (rd_numNandInput rd)
         \<and> rd_widthNandP rd = pnSizeRatio T * MIN_NMOS_SIZE * featureSize T)"

definition rd_rc :: "RowDecoder \<Rightarrow> bool" where
  "rd_rc rd \<longleftrightarrow> od_rc (rd_outputDriver rd) \<and> fnn (rd_capNandInput rd)
     \<and> (rd_numNandInput rd = 0 \<or> fpos (rd_capNandInput rd) \<and> fpos (rd_capNandOutput rd))"

lemma rd_ready_env: "rd_ready T ip rd \<Longrightarrow> env_ok T ip"
  by (auto simp: rd_ready_def od_ready_env)

lemma rd_ready_cases:
  assumes "rd_ready T ip rd"
  obtains (none) "rd_numNandInput rd = 0"
  | (nand) "rd_numNandInput rd \<noteq> 0" "0 < rd_numNandInput rd"
      "rd_widthNandN rd = nand_width T (rd_numNandInput rd)"
      "rd_widthNandP rd = pnSizeRatio T * MIN_NMOS_SIZE * featureSize T"
  using assms by (auto simp: rd_ready_def)

lemma rd_area:
  assumes R: "rd_ready T ip s"
  shows "\<exists>s'. RowDecoder_CalculateArea T s = Inr s' \<and> rd_ready T ip s' \<and> (rd_rc s \<longrightarrow> rd_rc s')
      \<and> geometry_ok s' \<and> power_of s' = power_of s"
proof -
  have i: "rd_initialized s" "od_ready T ip (rd_outputDriver s)" "0 < rd_numRow s"
    using R by (simp_all add: rd_ready_def)
  obtain od where od: "OutputDriver_CalculateArea T (rd_outputDriver s) = Inr od" "od_ready T ip od"
    "od_rc (rd_outputDriver s) \<longrightarrow> od_rc od" "geometry_ok od" using od.area_law [OF i(2)] by blast
  have g: "fpos (height od)" "fpos (width od)" using od(4) by (simp_all add: geometry_ok_def)
  from R show ?thesis
  proof (cases rule: rd_ready_cases)
    case none
    then show ?thesis using R i od g
      by (simp add: RowDecoder_CalculateArea_def Let_def rd_ready_def rd_rc_def geometry_ok_def power_of_def fsign)
  next
    case nand
    obtain h v where a: "CalculateGateArea NAND (rd_numNandInput s) (rd_widthNandN s) (rd_widthNandP s)
        (featureSize T * 40) T = Inr (h, v, v * h)" "fpos h" "fpos v"
      using GateArea_ok [OF env_okD(1) [OF rd_ready_env [OF R]]
          nand_fits [OF rd_ready_env [OF R], of 40 "rd_numNandInput s"], of "rd_numNandInput s" 2] nand
      by auto
    then show ?thesis using R i od g nand
      by (simp add: RowDecoder_CalculateArea_def Let_def rd_ready_def rd_rc_def geometry_ok_def power_of_def fsign)
  qed
qed

text \<open>The input capacitance of the gate of a row, known after \<open>CalculateRC\<close>.\<close>

definition row_gate_cap :: "Technology \<Rightarrow> int \<Rightarrow> dbl" where
  "row_gate_cap T k = (if k = 0 then 0 else gate_load T (nand_width T k))"

lemma rd_parasitics_full:
  assumes R: "rd_ready T ip s"
  shows "\<exists>s'. RowDecoder_CalculateRC T s = Inr s' \<and> rd_ready T ip s' \<and> rd_rc s'
      \<and> geometry s' = geometry s \<and> power_of s' = power_of s \<and> rd_numRow s' = rd_numRow s
      \<and> rd_capNandInput s' = row_gate_cap T (rd_numNandInput s)"
proof -
  have i: "rd_initialized s" "od_ready T ip (rd_outputDriver s)" using R by (simp_all add: rd_ready_def)
  obtain od where od: "OutputDriver_CalculateRC T (rd_outputDriver s) = Inr od" "od_ready T ip od"
    "od_rc od" using od.rc_law [OF i(2)] by blast
  from R show ?thesis
  proof (cases rule: rd_ready_cases)
    case none
    then show ?thesis using R i od
      by (simp add: RowDecoder_CalculateRC_def rd_ready_def rd_rc_def geometry_def power_of_def row_gate_cap_def)
  next
    case nand
    obtain a b where c: "CalculateGateCapacitance NAND (rd_numNandInput s) (rd_widthNandN s)
        (rd_widthNandP s) (featureSize T * MAX_TRANSISTOR_HEIGHT) T = Inr (a, b)" "fpos a" "fpos b"
        "a = gate_load T (nand_width T (rd_numNandInput s))"
      using GateCapacitance_ok [OF env_okD(1) [OF rd_ready_env [OF R]]
          nand_fits [OF rd_ready_env [OF R], of 20 "rd_numNandInput s"], of "rd_numNandInput s" 2] nand
      by (auto simp: gate_load_def)
    then show ?thesis using R i od nand
      by (simp add: RowDecoder_CalculateRC_def rd_ready_def rd_rc_def geometry_def power_of_def
          row_gate_cap_def fsign)
  qed
qed

lemma rd_parasitics:
  assumes R: "rd_ready T ip s"
  shows "\<exists>s'. RowDecoder_CalculateRC T s = Inr s' \<and> rd_ready T ip s' \<and> rd_rc s'
      \<and> geometry s' = geometry s \<and> power_of s' = power_of s"
  using rd_parasitics_full [OF R] by blast

lemma rd_delay:
  assumes R: "rd_ready T ip s" "rd_rc s" "fpos ramp"
  shows "\<exists>s'. RowDecoder_CalculateLatency T ip ramp s = Inr s' \<and> rd_ready T ip s' \<and> rd_rc s'
      \<and> geometry s' = geometry s \<and> latency_ok s' \<and> fpos (rd_rampOutput s') \<and> power_of s' = power_of s"
proof -
  have i: "rd_initialized s" "od_ready T ip (rd_outputDriver s)" "od_rc (rd_outputDriver s)"
    using R by (simp_all add: rd_ready_def rd_rc_def)
  from R(1) show ?thesis
  proof (cases rule: rd_ready_cases)
    case none
    obtain od where od: "OutputDriver_CalculateLatency T ip ramp (rd_outputDriver s) = Inr od"
      "od_ready T ip od" "od_rc od" "latency_ok od" "fpos (od_rampOutput od)"
      using od.latency_law [OF i(2,3) R(3)] by blast
    then show ?thesis using none R i
      by (simp add: RowDecoder_CalculateLatency_def rd_ready_def rd_rc_def geometry_def power_of_def latency_ok_def)
  next
    case nand
    obtain ci where ci: "aget (capInput (rd_outputDriver s)) 0 = Inr ci" "fpos ci"
      using od_first_stage [OF i(2,3)] by blast
    have "fpos (rd_widthNandN s)" "fpos (rd_capNandOutput s + ci)"
      using nand R(2) ci nand_width_bounds(1) [OF env_okD(1) [OF rd_ready_env [OF R(1)]]]
      by (auto simp: rd_rc_def fsign)
    from nand_delay_ok [OF rd_ready_env [OF R(1)] this(1) nand(2) this(2) R(3)]
    obtain d r where d: "nand_delay T ip (rd_widthNandN s) (rd_numNandInput s) (rd_capNandOutput s + ci) ramp
        = Inr (d, r)" "fpos d" "fpos r" by blast
    obtain od where od: "OutputDriver_CalculateLatency T ip r (rd_outputDriver s) = Inr od"
      "od_ready T ip od" "od_rc od" "latency_ok od" "fpos (od_rampOutput od)"
      using od.latency_law [OF i(2,3) d(3)] by blast
    have "RowDecoder_CalculateLatency T ip ramp s = Inr (s\<lparr>rd_rampInput := ramp, rd_outputDriver := od,
                  readLatency := d + readLatency od, writeLatency := d + readLatency od,
                  rd_rampOutput := od_rampOutput od\<rparr>)"
      using nand(1) i(1) by (simp add: RowDecoder_CalculateLatency_def ci(1) d(1) od(1))
    then show ?thesis using nand R d(2) od
      by (simp add: rd_ready_def rd_rc_def geometry_def power_of_def latency_ok_def fsign)
  qed
qed

lemma wordline_voltage_pos [fsign]: "tech_ok T \<Longrightarrow> fpos (wordline_voltage T cell)"
  by (simp add: wordline_voltage_def fsign)

lemma rd_power:
  assumes R: "rd_ready T ip s" "rd_rc s"
  shows "\<exists>s'. RowDecoder_CalculatePower T ip cell s = Inr s' \<and> rd_ready T ip s' \<and> rd_rc s'
      \<and> geometry s' = geometry s \<and> latency_of s' = latency_of s \<and> power_ok s'"
proof -
  have T: "tech_ok T" "temp_ok (ip_temperature ip)" using env_okD [OF rd_ready_env [OF R(1)]] by simp_all
  have i: "rd_initialized s" "od_ready T ip (rd_outputDriver s)" "od_rc (rd_outputDriver s)" "0 < rd_numRow s"
    using R by (simp_all add: rd_ready_def rd_rc_def)
  obtain od where od: "OutputDriver_CalculatePower T ip (rd_outputDriver s) = Inr od"
    "od_ready T ip od" "od_rc od" "power_ok od" using od.power_law [OF i(2,3)] by blast
  obtain ci where c: "aget (capInput od) 0 = Inr ci" "fpos ci"
    using od_first_stage [OF od(2,3)] by blast
  have p: "fnn (leakage od)" "fpos (readDynamicEnergy od)" using od(4) by (simp_all add: power_ok_def)
  from R(1) show ?thesis
  proof (cases rule: rd_ready_cases)
    case none
    then show ?thesis using R i od(1-3) p
      by (simp add: RowDecoder_CalculatePower_def rd_ready_def rd_rc_def geometry_def latency_of_def
          power_ok_def Let_def fsign)
  next
    case nand
    have "fnn (rd_widthNandN s)" "fnn (rd_widthNandP s)" "0 \<le> rd_numNandInput s"
      using nand T(1) nand_width_bounds(1) [OF T(1)] by (auto simp: fsign)
    from GateLeakage_ok [OF T this] obtain l where
      l: "CalculateGateLeakage NAND (rd_numNandInput s) (rd_widthNandN s) (rd_widthNandP s)
        (i2d (ip_temperature ip)) T = Inr l" "fnn l" by blast
    define v where "v = wordline_voltage T cell"
    define e where "e = (rd_capNandOutput s + ci) * v * v + readDynamicEnergy od"
    define lk where "lk = (leakage od + l * vdd T) * i2d (rd_numRow s)"
    have "fpos (rd_capNandOutput s)" "fpos v" using R(2) nand T(1) by (auto simp: rd_rc_def v_def fsign)
    then have "fpos (e * 1)" "fnn lk" using c p l(2) T(1) i(4) by (simp_all add: e_def lk_def fsign)
    moreover have "RowDecoder_CalculatePower T ip cell s = Inr (s\<lparr>rd_outputDriver := od,
        leakage := lk, readDynamicEnergy := e * 1, writeDynamicEnergy := e * 1\<rparr>)"
      using nand(1) i(1) by (simp add: RowDecoder_CalculatePower_def od(1) l(1) c(1) v_def e_def lk_def Let_def)
    ultimately show ?thesis using nand R od(2,3)
      by (simp add: rd_ready_def rd_rc_def geometry_def latency_of_def power_ok_def)
  qed
qed

interpretation rd: component "rd_ready T ip" rd_rc rd_rampOutput "RowDecoder_CalculateArea T"
  "RowDecoder_CalculateRC T" "RowDecoder_CalculateLatency T ip" "RowDecoder_CalculatePower T ip cell"
  for T ip cell
  by (unfold_locales; rule rd_area rd_parasitics rd_delay rd_power)

definition row_load_ok :: "Technology \<Rightarrow> int \<Rightarrow> bool \<Rightarrow> dbl \<Rightarrow> dbl \<Rightarrow> bool" where
  "row_load_ok T rows multi cap rl \<longleftrightarrow> fnn cap \<and> fnn rl
     \<and> (let k = row_nand_inputs rows multi
        in dbl_range (if k = 0 then 1 * cap / gate_load T (MIN_NMOS_SIZE * featureSize T)
                      else nand_effort T k * cap / gate_load T (nand_width T k)))"

lemma row_nand_inputs_cases: "row_nand_inputs rows multi \<in> {0, 2, 3}"
  by (simp add: row_nand_inputs_def)

lemma RowDecoder_Initialize_ok:
  assumes E: "env_ok T ip" and rows: "0 < rows" and arr: "od_arrays (rd_outputDriver rd)"
    "\<not> od_invalid (rd_outputDriver rd)" and load: "row_load_ok T rows multi cap rl"
  shows "\<exists>rd'. RowDecoder_Initialize T ip rows cap rl multi latency_first 0 rd = Inr rd' \<and> rd_ready T ip rd'
    \<and> rd_numRow rd' = rows \<and> rd_numNandInput rd' = row_nand_inputs rows multi
    \<and> rd_invalid rd' = rd_invalid rd \<and> power_of rd' = power_of rd"
proof -
  have T: "tech_ok T" by (rule env_okD [OF E])
  obtain a where a: "featureSize T = Fin a" "0 < a" using tech_okD(1) [OF T] by (auto simp: fpos_def)
  define k where "k = row_nand_inputs rows multi"
  have k: "k \<in> {0, 2, 3}" using row_nand_inputs_cases by (simp add: k_def)
  show ?thesis
  proof (cases "k = 0")
    case True
    have "MIN_NMOS_SIZE * featureSize T \<le> MIN_NMOS_SIZE * featureSize T"
      "MIN_NMOS_SIZE * featureSize T \<le> 3 * MIN_NMOS_SIZE * featureSize T" "(1::dbl) \<le> 1" "(1::dbl) \<le> 3"
      using a by (simp_all add: dbl_lits)
    from driver_ready [OF E arr this(3,4,1,2)] load True obtain od where
      od: "OutputDriver_Initialize T ip 1 (gate_load T (MIN_NMOS_SIZE * featureSize T)) cap rl True
         latency_first 0 (rd_outputDriver rd) = Inr od" "od_ready T ip od"
      by (auto simp: row_load_ok_def k_def Let_def)
    then have "\<not> od_invalid od" by (simp add: od_ready_def)
    then show ?thesis using True od rows
      by (simp add: RowDecoder_Initialize_def gate_load_def rd_ready_def power_of_def k_def)
  next
    case False
    from driver_ready [OF E arr nand_effort_bounds [OF E, of k] nand_width_bounds(2,3) [OF T, of k]] load False
    obtain od where od: "OutputDriver_Initialize T ip (nand_effort T k) (gate_load T (nand_width T k))
         cap rl True latency_first 0 (rd_outputDriver rd) = Inr od" "od_ready T ip od"
      by (auto simp: row_load_ok_def k_def Let_def)
    then have "\<not> od_invalid od" by (simp add: od_ready_def)
    moreover have "0 < k" using False k by auto
    ultimately show ?thesis using False od rows k
      by (simp add: RowDecoder_Initialize_def gate_load_def rd_ready_def power_of_def k_def [symmetric] Let_def)
  qed
qed

end
