(* ===== verification/PredecodeBlock.thy ===== *)
theory PredecodeBlock
  imports RowDecoder
begin

text \<open>
  A predecoder block (\<open>PredecodeBlock.cpp\<close>): it decodes up to 27 address bits with basic decoders
  (1-to-2, 2-to-4, 3-to-8), combined by one to three first stages of NAND row decoders and, from
  four basic decoders on, a second stage.
\<close>

record PredecodeBlock = FunctionUnit +
  pb_initialized :: bool
  rowDecoderStage1A :: "RowDecoder option"
  rowDecoderStage1B :: "RowDecoder option"
  rowDecoderStage1C :: "RowDecoder option"
  numNandInputStage1A :: int
  numNandInputStage1B :: int
  numNandInputStage1C :: int
  numAddressBitStage1A :: int
  numAddressBitStage1B :: int
  numAddressBitStage1C :: int
  rowDecoderStage2 :: "RowDecoder option"
  basicDecoderA1 :: "BasicDecoder option"
  basicDecoderA2 :: "BasicDecoder option"
  basicDecoderB :: "BasicDecoder option"
  basicDecoderC :: "BasicDecoder option"
  pb_capLoad :: dbl
  pb_resLoad :: dbl
  pb_numAddressBit :: int
  numOutputAddressBit :: int
  numDecoder12 :: int
  numDecoder24 :: int
  numDecoder38 :: int
  numBasicDecoderA1 :: int
  numBasicDecoderA2 :: int
  capLoadBasicDecoderA1 :: dbl
  capLoadBasicDecoderA2 :: dbl
  capLoadBasicDecoderB :: dbl
  capLoadBasicDecoderC :: dbl
  pb_rampInput :: dbl
  pb_rampOutput :: dbl

definition PredecodeBlock_new :: "PredecodeBlock \<Rightarrow> PredecodeBlock" where
  "PredecodeBlock_new raw = (FunctionUnit_new raw)\<lparr>pb_initialized := False,
     rowDecoderStage1A := None, rowDecoderStage1B := None, rowDecoderStage1C := None,
     rowDecoderStage2 := None, basicDecoderA1 := None, basicDecoderA2 := None,
     basicDecoderB := None, basicDecoderC := None\<rparr>"

subsection \<open>The numbers of the parts\<close>

text \<open>How many 1-to-2, 2-to-4 and 3-to-8 decoders \<open>n\<close> address bits need.\<close>

definition basic_decoders :: "int \<Rightarrow> int \<times> int \<times> int" where
  "basic_decoders n =
     (if n = 1 then (1, 0, 0)
      else let d24 = (if n mod 3 = 2 then 1 else if n mod 3 = 1 then 2 else 0)
           in (0, d24, (n - 2 * d24) div 3))"

text \<open>\<open>1 << n\<close> on 32-bit integers: undefined outside 0 to 30.\<close>

definition shl1 :: "int \<Rightarrow> int res" where
  "shl1 n = (if 0 \<le> n \<and> n < 31 then Inr (2 ^ nat n) else Inl Undef)"

subsection \<open>Initialize\<close>

text \<open>
  The raw memory of the objects that \<open>Initialize\<close> allocates is a parameter, as is the raw value of
  \<open>numAddressBitStage1A\<close>, which the member of the block holds.
\<close>

definition new_row_decoder ::
  "Technology \<Rightarrow> InputParameter \<Rightarrow> RowDecoder \<Rightarrow> int \<Rightarrow> dbl \<Rightarrow> dbl \<Rightarrow> bool \<Rightarrow> RowDecoder res" where
  "new_row_decoder T ip rawR rows cap rl three =
     ebind (RowDecoder_Initialize T ip rows cap rl three latency_first 0 (RowDecoder_new rawR))
       (RowDecoder_CalculateRC T)"

definition new_basic_decoder ::
  "Technology \<Rightarrow> InputParameter \<Rightarrow> BasicDecoder \<Rightarrow> int \<Rightarrow> dbl \<Rightarrow> dbl \<Rightarrow> BasicDecoder res" where
  "new_basic_decoder T ip rawB bits cap rl =
     BasicDecoder_Initialize T ip bits cap rl (BasicDecoder_new rawB)"

text \<open>Two or three basic decoders: one first stage.\<close>

definition stage1_small ::
  "Technology \<Rightarrow> InputParameter \<Rightarrow> RowDecoder \<Rightarrow> int \<Rightarrow> PredecodeBlock \<Rightarrow> PredecodeBlock res" where
  "stage1_small T ip rawR n pb =
     ebind (new_row_decoder T ip rawR (numOutputAddressBit pb) (pb_capLoad pb) (pb_resLoad pb) (n = 3))
       (\<lambda>r. Inr (pb\<lparr>numNandInputStage1A := n, rowDecoderStage2 := None, rowDecoderStage1B := None,
                    rowDecoderStage1C := None, rowDecoderStage1A := Some r\<rparr>))"

text \<open>Four to six basic decoders: two first stages and a second one.\<close>

definition stage1_medium ::
  "Technology \<Rightarrow> InputParameter \<Rightarrow> RowDecoder \<Rightarrow> int \<Rightarrow> PredecodeBlock \<Rightarrow> PredecodeBlock res" where
  "stage1_medium T ip rawR n pb =
     ebind (new_row_decoder T ip rawR (numOutputAddressBit pb) (pb_capLoad pb) (pb_resLoad pb) False)
       (\<lambda>r2.
     let nB = n div 2; nA = n - nB in
     ebind (shl1 (3 * nA - numDecoder24 pb)) (\<lambda>bitsA.
     ebind (shl1 (3 * nB)) (\<lambda>bitsB.
     ebind (new_row_decoder T ip rawR bitsA (i2d bitsB * rd_capNandInput r2) 0 (nA = 3)) (\<lambda>rA.
     ebind (new_row_decoder T ip rawR bitsB (i2d bitsA * rd_capNandInput r2) 0 (nB = 3)) (\<lambda>rB.
       Inr (pb\<lparr>rowDecoderStage2 := Some r2, numNandInputStage1A := nA, numNandInputStage1B := nB,
               numAddressBitStage1A := bitsA, numAddressBitStage1B := bitsB,
               rowDecoderStage1C := None, rowDecoderStage1A := Some rA,
               rowDecoderStage1B := Some rB\<rparr>))))))"

text \<open>
  Seven to nine basic decoders: three first stages.  The code shifts the member
  \<open>numAddressBitStage1A\<close> without having set it; \<open>shl_member\<close> is that shift, undefined when the
  member is negative or the result does not fit.
\<close>

definition shl_member :: "int \<Rightarrow> int \<Rightarrow> int res" where
  "shl_member x n = (if 0 \<le> x \<and> 0 \<le> n \<and> n < 32 \<and> int_ok (x * 2 ^ nat n)
                     then Inr (x * 2 ^ nat n) else Inl Undef)"

definition large_config :: "int \<Rightarrow> int \<times> int \<times> int \<times> int \<times> int" where
  "large_config n = (if n = 7 then (3, 2, 2, 64, 64)
                     else if n = 8 then (3, 3, 2, 512, 64)
                     else (3, 3, 3, 512, 512))"

definition stage1_large ::
  "Technology \<Rightarrow> InputParameter \<Rightarrow> RowDecoder \<Rightarrow> int \<Rightarrow> PredecodeBlock \<Rightarrow> PredecodeBlock res" where
  "stage1_large T ip rawR n pb =
     ebind (new_row_decoder T ip rawR (numOutputAddressBit pb) (pb_capLoad pb) (pb_resLoad pb) True)
       (\<lambda>r2.
     let (nA, nB, nC, bitsB, bitsC) = large_config n in
     ebind (shl_member (numAddressBitStage1A pb) (3 * nA - numDecoder24 pb)) (\<lambda>bitsA.
     let cin = rd_capNandInput r2 in
     ebind (imul bitsB bitsC) (\<lambda>bc. ebind (imul bitsA bitsC) (\<lambda>ac. ebind (imul bitsA bitsB) (\<lambda>ab.
     ebind (new_row_decoder T ip rawR bitsA (i2d bc * cin) 0 (nA = 3)) (\<lambda>rA.
     ebind (new_row_decoder T ip rawR bitsB (i2d ac * cin) 0 (nB = 3)) (\<lambda>rB.
     ebind (new_row_decoder T ip rawR bitsC (i2d ab * cin) 0 (nC = 3)) (\<lambda>rC.
       Inr (pb\<lparr>rowDecoderStage2 := Some r2, numNandInputStage1A := nA, numNandInputStage1B := nB,
               numNandInputStage1C := nC, numAddressBitStage1A := bitsA,
               numAddressBitStage1B := bitsB, numAddressBitStage1C := bitsC,
               rowDecoderStage1A := Some rA, rowDecoderStage1B := Some rB,
               rowDecoderStage1C := Some rC\<rparr>)))))))))"

text \<open>The first and second stages for \<open>n\<close> basic decoders; above nine the code leaves only stage 2.\<close>

definition predecode_stages ::
  "Technology \<Rightarrow> InputParameter \<Rightarrow> RowDecoder \<Rightarrow> int \<Rightarrow> PredecodeBlock \<Rightarrow> PredecodeBlock res" where
  "predecode_stages T ip rawR n pb =
     (if n \<le> 1 then Inr (pb\<lparr>rowDecoderStage1A := None, rowDecoderStage1B := None,
                             rowDecoderStage1C := None, rowDecoderStage2 := None\<rparr>)
      else if n \<le> 3 then stage1_small T ip rawR n pb
      else if n \<le> 6 then stage1_medium T ip rawR n pb
      else if n \<le> 9 then stage1_large T ip rawR n pb
      else Inr (pb\<lparr>rowDecoderStage2 := Some (RowDecoder_new rawR)\<rparr>))"

text \<open>The 3-to-8 decoders in front of the stages 1B and 1C.\<close>

definition decoder_load :: "int \<Rightarrow> RowDecoder \<Rightarrow> dbl" where
  "decoder_load n r = (if n = 2 then 8 * rd_capNandInput r else 64 * rd_capNandInput r)"

definition predecode_basic_C ::
  "Technology \<Rightarrow> InputParameter \<Rightarrow> BasicDecoder \<Rightarrow> PredecodeBlock \<Rightarrow> PredecodeBlock res" where
  "predecode_basic_C T ip rawB pb =
     (case rowDecoderStage1C pb of
        None \<Rightarrow> Inr (pb\<lparr>basicDecoderC := None\<rparr>)
      | Some r \<Rightarrow>
          let cap = decoder_load (numNandInputStage1C pb) r
          in ebind (new_basic_decoder T ip rawB 3 cap 0) (\<lambda>b.
               Inr (pb\<lparr>capLoadBasicDecoderC := cap, basicDecoderC := Some b\<rparr>)))"

definition predecode_basic_B ::
  "Technology \<Rightarrow> InputParameter \<Rightarrow> BasicDecoder \<Rightarrow> PredecodeBlock \<Rightarrow> PredecodeBlock res" where
  "predecode_basic_B T ip rawB pb =
     (case rowDecoderStage1B pb of
        None \<Rightarrow> Inr (pb\<lparr>basicDecoderB := None\<rparr>)
      | Some r \<Rightarrow>
          let cap = decoder_load (numNandInputStage1B pb) r
          in ebind (new_basic_decoder T ip rawB 3 cap 0) (\<lambda>b.
               Inr (pb\<lparr>capLoadBasicDecoderB := cap, basicDecoderB := Some b\<rparr>)))"

text \<open>
  The basic decoders in front of stage 1A: \<open>A1\<close> (2-to-4 when the address needs one, otherwise
  3-to-8) and \<open>A2\<close> (the 3-to-8 decoders that share the stage with 2-to-4 ones).
\<close>

definition predecode_basic_A ::
  "Technology \<Rightarrow> InputParameter \<Rightarrow> BasicDecoder \<Rightarrow> RowDecoder \<Rightarrow> PredecodeBlock
     \<Rightarrow> PredecodeBlock res" where
  "predecode_basic_A T ip rawB r pb =
     (let cin = rd_capNandInput r; nA = numNandInputStage1A pb in
      if numDecoder24 pb = 0 then
        ebind (shl1 (3 * (nA - 1))) (\<lambda>n1.
        ebind (new_basic_decoder T ip rawB 3 (i2d n1 * cin) 0) (\<lambda>b1.
          Inr (pb\<lparr>numBasicDecoderA1 := nA, numBasicDecoderA2 := 0,
                  capLoadBasicDecoderA1 := i2d n1 * cin,
                  basicDecoderA1 := Some b1, basicDecoderA2 := None\<rparr>)))
      else if numDecoder24 pb = 1 then
        let a2 = nA - 1 in
        ebind (shl1 (3 * a2)) (\<lambda>n1. ebind (shl1 (2 + 3 * (a2 - 1))) (\<lambda>n2.
        ebind (new_basic_decoder T ip rawB 2 (i2d n1 * cin) 0) (\<lambda>b1.
        ebind (new_basic_decoder T ip rawB 3 (i2d n2 * cin) 0) (\<lambda>b2.
          Inr (pb\<lparr>numBasicDecoderA1 := 1, numBasicDecoderA2 := a2,
                  capLoadBasicDecoderA1 := i2d n1 * cin, capLoadBasicDecoderA2 := i2d n2 * cin,
                  basicDecoderA1 := Some b1, basicDecoderA2 := Some b2\<rparr>)))))
      else if numDecoder24 pb = 2 then
        if nA = 2 then
          ebind (new_basic_decoder T ip rawB 2 (4 * cin) 0) (\<lambda>b1.
            Inr (pb\<lparr>numBasicDecoderA1 := 2, numBasicDecoderA2 := 0,
                    basicDecoderA1 := Some b1, basicDecoderA2 := None\<rparr>))
        else
          ebind (new_basic_decoder T ip rawB 2 (32 * cin) 0) (\<lambda>b1.
          ebind (new_basic_decoder T ip rawB 3 (16 * cin) 0) (\<lambda>b2.
            Inr (pb\<lparr>numBasicDecoderA1 := 2, numBasicDecoderA2 := 1,
                    basicDecoderA1 := Some b1, basicDecoderA2 := Some b2\<rparr>)))
      else Inr pb)"

text \<open>Without a first stage, the single basic decoder drives the load.\<close>

definition predecode_single ::
  "Technology \<Rightarrow> InputParameter \<Rightarrow> BasicDecoder \<Rightarrow> PredecodeBlock \<Rightarrow> PredecodeBlock res" where
  "predecode_single T ip rawB pb =
     ebind (if numDecoder12 pb = 1
            then new_basic_decoder T ip rawB 1 (pb_capLoad pb) (pb_resLoad pb)
            else if numDecoder24 pb = 1
            then new_basic_decoder T ip rawB 2 (pb_capLoad pb) (pb_resLoad pb)
            else if numDecoder38 pb = 1
            then new_basic_decoder T ip rawB 3 (pb_capLoad pb) (pb_resLoad pb)
            else Inr (BasicDecoder_new rawB)) (\<lambda>b.
       Inr (pb\<lparr>numBasicDecoderA1 := 1, numBasicDecoderA2 := 0,
               basicDecoderA1 := Some b, basicDecoderA2 := None\<rparr>))"

definition PredecodeBlock_Initialize ::
  "Technology \<Rightarrow> InputParameter \<Rightarrow> RowDecoder \<Rightarrow> BasicDecoder \<Rightarrow> int \<Rightarrow> dbl \<Rightarrow> dbl
     \<Rightarrow> PredecodeBlock \<Rightarrow> PredecodeBlock res" where
  "PredecodeBlock_Initialize T ip rawR rawB n cap rl pb =
     (if 27 < n then Inl Exit
      else if n = 0 then
        Inr (pb\<lparr>pb_numAddressBit := 0, height := 0, width := 0, area := 0, readLatency := 0,
                writeLatency := 0, readDynamicEnergy := 0, writeDynamicEnergy := 0, leakage := 0,
                pb_initialized := True\<rparr>)
      else
        ebind (shl1 n) (\<lambda>outputs.
        let (d12, d24, d38) = basic_decoders n;
            pb0 = pb\<lparr>pb_numAddressBit := n, pb_capLoad := cap, pb_resLoad := rl,
                     numOutputAddressBit := outputs,
                     numDecoder12 := d12, numDecoder24 := d24, numDecoder38 := d38\<rparr>
        in ebind (predecode_stages T ip rawR (d12 + d24 + d38) pb0) (\<lambda>pb1.
           ebind (predecode_basic_C T ip rawB pb1) (\<lambda>pb2.
           ebind (predecode_basic_B T ip rawB pb2) (\<lambda>pb3.
           ebind (case rowDecoderStage1A pb3 of
                    Some r \<Rightarrow> predecode_basic_A T ip rawB r pb3
                  | None \<Rightarrow> predecode_single T ip rawB pb3) (\<lambda>pb4.
             Inr (pb4\<lparr>pb_initialized := True\<rparr>)))))))"

subsection \<open>Area and parasitics\<close>

text \<open>An operation on the object behind a pointer, when there is one.\<close>

definition opt_op :: "('a \<Rightarrow> 'a res) \<Rightarrow> 'a option \<Rightarrow> 'a option res" where
  "opt_op f x = (case x of None \<Rightarrow> Inr None | Some d \<Rightarrow> ebind (f d) (\<lambda>d'. Inr (Some d')))"

text \<open>\<open>n\<close> copies of a decoder stacked below the height and width so far.\<close>

definition stack_part ::
  "dbl \<Rightarrow> 'a FunctionUnit_scheme option \<Rightarrow> dbl \<times> dbl \<Rightarrow> dbl \<times> dbl" where
  "stack_part n d hw = (case d of None \<Rightarrow> hw
     | Some d \<Rightarrow> (fst hw + n * height d, std_max (snd hw) (width d)))"

text \<open>
  Whether the operations reach a part: the basic decoders behind \<open>A1\<close>, \<open>C\<close> behind \<open>B\<close>, the row
  decoders behind \<open>1A\<close>, \<open>1C\<close> behind \<open>1B\<close>.
\<close>

definition reach :: "'b option \<Rightarrow> 'a option \<Rightarrow> 'a option" where
  "reach guard x = (case guard of None \<Rightarrow> None | Some _ \<Rightarrow> x)"

definition upd_reached :: "'b option \<Rightarrow> 'a option \<Rightarrow> 'a option \<Rightarrow> 'a option" where
  "upd_reached guard old new = (case guard of None \<Rightarrow> old | Some _ \<Rightarrow> new)"

text \<open>Height and width of the basic decoders, stacked, and of the row decoders in front of them.\<close>

definition decoders_hw ::
  "PredecodeBlock \<Rightarrow> BasicDecoder option \<Rightarrow> BasicDecoder option \<Rightarrow> BasicDecoder option
     \<Rightarrow> BasicDecoder option \<Rightarrow> dbl \<times> dbl" where
  "decoders_hw pb a1 a2 b c =
     stack_part (i2d (numNandInputStage1C pb)) c (stack_part (i2d (numNandInputStage1B pb)) b
       (stack_part (i2d (numBasicDecoderA2 pb)) a2 (stack_part (i2d (numBasicDecoderA1 pb)) a1 (0, 0))))"

definition rows_hw ::
  "RowDecoder option \<Rightarrow> RowDecoder option \<Rightarrow> RowDecoder option \<Rightarrow> RowDecoder option \<Rightarrow> dbl \<times> dbl" where
  "rows_hw r1a r1b r1c r2 =
     (let hr = stack_part 1 r1c (stack_part 1 r1b (stack_part 1 r1a (0, 0)))
      in case r2 of None \<Rightarrow> hr | Some r \<Rightarrow> (std_max (fst hr) (height r), snd hr + width r))"

definition PredecodeBlock_CalculateArea ::
  "Technology \<Rightarrow> PredecodeBlock \<Rightarrow> PredecodeBlock res" where
  "PredecodeBlock_CalculateArea T pb =
     (if \<not> pb_initialized pb then Inr pb
      else if pb_numAddressBit pb = 0 then Inr (pb\<lparr>height := 0, width := 0, area := 0\<rparr>)
      else
        let gA = basicDecoderA1 pb; gB = reach gA (basicDecoderB pb);
            g1A = rowDecoderStage1A pb; g1B = reach g1A (rowDecoderStage1B pb);
            bd = opt_op (BasicDecoder_CalculateArea T); rd = opt_op (RowDecoder_CalculateArea T)
        in ebind (bd gA) (\<lambda>a1.
           ebind (bd (reach gA (basicDecoderA2 pb))) (\<lambda>a2.
           ebind (bd gB) (\<lambda>b.
           ebind (bd (reach gB (basicDecoderC pb))) (\<lambda>c.
           ebind (rd g1A) (\<lambda>r1a.
           ebind (rd g1B) (\<lambda>r1b.
           ebind (rd (reach g1B (rowDecoderStage1C pb))) (\<lambda>r1c.
           ebind (rd (reach g1A (rowDecoderStage2 pb))) (\<lambda>r2.
           let hw = decoders_hw pb a1 a2 b c;
               hr = rows_hw r1a r1b r1c r2;
               w = snd hw + snd hr;
               h = std_max (fst hw) (fst hr)
           in Inr (pb\<lparr>basicDecoderA1 := a1,
                      basicDecoderA2 := upd_reached gA (basicDecoderA2 pb) a2,
                      basicDecoderB := upd_reached gA (basicDecoderB pb) b,
                      basicDecoderC := upd_reached gB (basicDecoderC pb) c,
                      rowDecoderStage1A := r1a,
                      rowDecoderStage1B := upd_reached g1A (rowDecoderStage1B pb) r1b,
                      rowDecoderStage1C := upd_reached g1B (rowDecoderStage1C pb) r1c,
                      rowDecoderStage2 := upd_reached g1A (rowDecoderStage2 pb) r2,
                      width := w, height := h, area := w * h\<rparr>))))))))))"

definition PredecodeBlock_CalculateRC :: "Technology \<Rightarrow> PredecodeBlock \<Rightarrow> PredecodeBlock res" where
  "PredecodeBlock_CalculateRC T pb =
     (if \<not> pb_initialized pb then Inr pb
      else if \<not> 0 < pb_numAddressBit pb then Inr pb
      else
        let gA = basicDecoderA1 pb; gB = reach gA (basicDecoderB pb);
            bd = opt_op (BasicDecoder_CalculateRC T)
        in ebind (bd gA) (\<lambda>a1.
           ebind (bd (reach gA (basicDecoderA2 pb))) (\<lambda>a2.
           ebind (bd gB) (\<lambda>b.
           ebind (bd (reach gB (basicDecoderC pb))) (\<lambda>c.
             Inr (pb\<lparr>basicDecoderA1 := a1,
                     basicDecoderA2 := upd_reached gA (basicDecoderA2 pb) a2,
                     basicDecoderB := upd_reached gA (basicDecoderB pb) b,
                     basicDecoderC := upd_reached gB (basicDecoderC pb) c\<rparr>))))))"

subsection \<open>Latency\<close>

text \<open>A null pointer dereference.\<close>

definition deref :: "'a option \<Rightarrow> 'a res" where
  "deref x = (case x of None \<Rightarrow> Inl Undef | Some d \<Rightarrow> Inr d)"

text \<open>
  The second stage behind a first one, when there is one: the delay and the ramp so far, and the
  second stage after the call.
\<close>

definition stage2_delay ::
  "Technology \<Rightarrow> InputParameter \<Rightarrow> RowDecoder option \<Rightarrow> dbl \<Rightarrow> dbl
     \<Rightarrow> (RowDecoder option \<times> dbl \<times> dbl) res" where
  "stage2_delay T ip r2 delay ramp =
     (case r2 of None \<Rightarrow> Inr (None, delay, ramp)
      | Some r \<Rightarrow> ebind (RowDecoder_CalculateLatency T ip ramp r) (\<lambda>r'.
                    Inr (Some r', delay + readLatency r', rd_rampOutput r')))"

text \<open>Path A1; the first stage may be missing.\<close>

definition path_A1 ::
  "Technology \<Rightarrow> InputParameter \<Rightarrow> dbl \<Rightarrow> PredecodeBlock \<Rightarrow> (PredecodeBlock \<times> dbl \<times> dbl) res" where
  "path_A1 T ip ramp pb =
     (case basicDecoderA1 pb of None \<Rightarrow> Inr (pb, 0, 0)
      | Some a \<Rightarrow>
          ebind (BasicDecoder_CalculateLatency T ip ramp a) (\<lambda>a.
          let pb = pb\<lparr>basicDecoderA1 := Some a\<rparr> in
          (case rowDecoderStage1A pb of None \<Rightarrow> Inr (pb, readLatency a, bd_rampOutput a)
           | Some r \<Rightarrow>
               ebind (RowDecoder_CalculateLatency T ip (bd_rampOutput a) r) (\<lambda>r.
               ebind (stage2_delay T ip (rowDecoderStage2 pb) (readLatency a + readLatency r)
                        (rd_rampOutput r)) (\<lambda>(r2, delay, out).
                 Inr (pb\<lparr>rowDecoderStage1A := Some r, rowDecoderStage2 := r2\<rparr>, delay, out))))))"

text \<open>Path A2; the delay of the basic decoder is taken from \<open>A1\<close>, as in the code.\<close>

definition path_A2 ::
  "Technology \<Rightarrow> InputParameter \<Rightarrow> dbl \<Rightarrow> PredecodeBlock \<Rightarrow> (PredecodeBlock \<times> dbl \<times> dbl) res" where
  "path_A2 T ip ramp pb =
     (case basicDecoderA2 pb of None \<Rightarrow> Inr (pb, 0, 0)
      | Some a \<Rightarrow>
          ebind (BasicDecoder_CalculateLatency T ip ramp a) (\<lambda>a.
          ebind (deref (basicDecoderA1 pb)) (\<lambda>a1.
          ebind (deref (rowDecoderStage1A pb)) (\<lambda>r.
          ebind (RowDecoder_CalculateLatency T ip (bd_rampOutput a) r) (\<lambda>r.
          ebind (stage2_delay T ip (rowDecoderStage2 pb) (readLatency a1 + readLatency r)
                   (rd_rampOutput r)) (\<lambda>(r2, delay, out).
            Inr (pb\<lparr>basicDecoderA2 := Some a, rowDecoderStage1A := Some r,
                    rowDecoderStage2 := r2\<rparr>, delay, out)))))))"

definition path_B ::
  "Technology \<Rightarrow> InputParameter \<Rightarrow> dbl \<Rightarrow> PredecodeBlock \<Rightarrow> (PredecodeBlock \<times> dbl \<times> dbl) res" where
  "path_B T ip ramp pb =
     (case basicDecoderB pb of None \<Rightarrow> Inr (pb, 0, 0)
      | Some a \<Rightarrow>
          ebind (BasicDecoder_CalculateLatency T ip ramp a) (\<lambda>a.
          ebind (deref (rowDecoderStage1B pb)) (\<lambda>r.
          ebind (RowDecoder_CalculateLatency T ip (bd_rampOutput a) r) (\<lambda>r.
          ebind (deref (rowDecoderStage2 pb)) (\<lambda>r2.
          ebind (RowDecoder_CalculateLatency T ip (rd_rampOutput r) r2) (\<lambda>r2.
            Inr (pb\<lparr>basicDecoderB := Some a, rowDecoderStage1B := Some r,
                    rowDecoderStage2 := Some r2\<rparr>,
                 readLatency a + readLatency r + readLatency r2, rd_rampOutput r2)))))))"

definition path_C ::
  "Technology \<Rightarrow> InputParameter \<Rightarrow> dbl \<Rightarrow> PredecodeBlock \<Rightarrow> (PredecodeBlock \<times> dbl \<times> dbl) res" where
  "path_C T ip ramp pb =
     (case basicDecoderC pb of None \<Rightarrow> Inr (pb, 0, 0)
      | Some a \<Rightarrow>
          ebind (BasicDecoder_CalculateLatency T ip ramp a) (\<lambda>a.
          ebind (deref (rowDecoderStage1C pb)) (\<lambda>r.
          ebind (RowDecoder_CalculateLatency T ip (bd_rampOutput a) r) (\<lambda>r.
          ebind (deref (rowDecoderStage2 pb)) (\<lambda>r2.
          ebind (RowDecoder_CalculateLatency T ip (rd_rampOutput r) r2) (\<lambda>r2.
            Inr (pb\<lparr>basicDecoderC := Some a, rowDecoderStage1C := Some r,
                    rowDecoderStage2 := Some r2\<rparr>,
                 readLatency a + readLatency r + readLatency r2, rd_rampOutput r2)))))))"

definition PredecodeBlock_CalculateLatency ::
  "Technology \<Rightarrow> InputParameter \<Rightarrow> dbl \<Rightarrow> PredecodeBlock \<Rightarrow> PredecodeBlock res" where
  "PredecodeBlock_CalculateLatency T ip ramp pb =
     (if \<not> pb_initialized pb then Inr pb
      else if pb_numAddressBit pb = 0
      then Inr (pb\<lparr>readLatency := 0, writeLatency := 0, pb_rampOutput := ramp\<rparr>)
      else
        ebind (path_A1 T ip ramp pb) (\<lambda>(pb, delayA1, rampA1).
        ebind (path_A2 T ip ramp pb) (\<lambda>(pb, delayA2, rampA2).
        ebind (path_B T ip ramp pb) (\<lambda>(pb, delayB, rampB).
        ebind (path_C T ip ramp pb) (\<lambda>(pb, delayC, rampC).
        let l = std_max (std_max (std_max (std_max 0 delayA1) delayA2) delayB) delayC;
            r = std_max (std_max (std_max (std_max 0 rampA1) rampA2) rampB) rampC
        in Inr (pb\<lparr>pb_rampInput := ramp, pb_rampOutput := r, readLatency := l,
                   writeLatency := l\<rparr>))))))"

subsection \<open>Power\<close>

definition sum_part ::
  "'a FunctionUnit_scheme option \<Rightarrow> dbl \<times> dbl \<Rightarrow> dbl \<times> dbl" where
  "sum_part d s = (case d of None \<Rightarrow> s
     | Some d \<Rightarrow> (fst s + leakage d, snd s + readDynamicEnergy d))"

text \<open>The second stage contributes its members as they are: its power is never calculated.\<close>

definition PredecodeBlock_CalculatePower ::
  "Technology \<Rightarrow> InputParameter \<Rightarrow> MemCell \<Rightarrow> PredecodeBlock \<Rightarrow> PredecodeBlock res" where
  "PredecodeBlock_CalculatePower T ip cell pb =
     (if \<not> pb_initialized pb then Inr pb
      else if pb_numAddressBit pb = 0
      then Inr (pb\<lparr>leakage := 0, readDynamicEnergy := 0, writeDynamicEnergy := 0\<rparr>)
      else
        let gA = basicDecoderA1 pb; gB = reach gA (basicDecoderB pb);
            g1A = rowDecoderStage1A pb; g1B = reach g1A (rowDecoderStage1B pb);
            bd = opt_op (BasicDecoder_CalculatePower T ip);
            rd = opt_op (RowDecoder_CalculatePower T ip cell)
        in ebind (bd gA) (\<lambda>a1.
           ebind (bd (reach gA (basicDecoderA2 pb))) (\<lambda>a2.
           ebind (bd gB) (\<lambda>b.
           ebind (bd (reach gB (basicDecoderC pb))) (\<lambda>c.
           ebind (rd g1A) (\<lambda>r1a.
           ebind (rd g1B) (\<lambda>r1b.
           ebind (rd (reach g1B (rowDecoderStage1C pb))) (\<lambda>r1c.
           let s = sum_part c (sum_part b (sum_part a2 (sum_part a1 (0, 0))));
               s = sum_part r1c (sum_part r1b (sum_part r1a s));
               s = sum_part (reach g1A (rowDecoderStage2 pb)) s
           in Inr (pb\<lparr>basicDecoderA1 := a1,
                      basicDecoderA2 := upd_reached gA (basicDecoderA2 pb) a2,
                      basicDecoderB := upd_reached gA (basicDecoderB pb) b,
                      basicDecoderC := upd_reached gB (basicDecoderC pb) c,
                      rowDecoderStage1A := r1a,
                      rowDecoderStage1B := upd_reached g1A (rowDecoderStage1B pb) r1b,
                      rowDecoderStage1C := upd_reached g1B (rowDecoderStage1C pb) r1c,
                      leakage := fst s, readDynamicEnergy := snd s,
                      writeDynamicEnergy := snd s\<rparr>)))))))))"

text \<open>The assignment operator leaves the eight pointers alone.\<close>

definition PredecodeBlock_assign :: "PredecodeBlock \<Rightarrow> PredecodeBlock \<Rightarrow> PredecodeBlock" where
  "PredecodeBlock_assign lhs rhs = (FunctionUnit_copy lhs rhs)\<lparr>
     pb_initialized := pb_initialized rhs,
     numNandInputStage1A := numNandInputStage1A rhs, numNandInputStage1B := numNandInputStage1B rhs,
     numNandInputStage1C := numNandInputStage1C rhs,
     numAddressBitStage1A := numAddressBitStage1A rhs,
     numAddressBitStage1B := numAddressBitStage1B rhs,
     numAddressBitStage1C := numAddressBitStage1C rhs,
     pb_capLoad := pb_capLoad rhs, pb_resLoad := pb_resLoad rhs,
     pb_numAddressBit := pb_numAddressBit rhs, numOutputAddressBit := numOutputAddressBit rhs,
     numDecoder12 := numDecoder12 rhs, numDecoder24 := numDecoder24 rhs,
     numDecoder38 := numDecoder38 rhs, numBasicDecoderA1 := numBasicDecoderA1 rhs,
     numBasicDecoderA2 := numBasicDecoderA2 rhs,
     capLoadBasicDecoderA1 := capLoadBasicDecoderA1 rhs,
     capLoadBasicDecoderA2 := capLoadBasicDecoderA2 rhs,
     capLoadBasicDecoderB := capLoadBasicDecoderB rhs,
     capLoadBasicDecoderC := capLoadBasicDecoderC rhs,
     pb_rampInput := pb_rampInput rhs, pb_rampOutput := pb_rampOutput rhs\<rparr>"

subsection \<open>The decomposition of the address\<close>

lemma basic_decoders_sum:
  assumes "1 \<le> n" "basic_decoders n = (d12, d24, d38)"
  shows "d12 + 2 * d24 + 3 * d38 = n" "0 \<le> d12" "0 \<le> d24" "0 \<le> d38" "d24 \<le> 2"
    "n = 1 \<or> d12 = 0"
  using assms by (auto simp: basic_decoders_def Let_def split: if_splits; presburger)+

lemma shl1_ok: "0 \<le> n \<Longrightarrow> n < 31 \<Longrightarrow> shl1 n = Inr (2 ^ nat n)"
  by (simp add: shl1_def)

subsection \<open>Internal loads are in range\<close>

lemma gate_load_rep:
  assumes "env_ok T ip"
  shows "\<exists>c d. 0 < c \<and> 0 < d \<and> (\<forall>x. gate_load T (Fin x) = Fin (c * x + d))"
proof -
  have T: "tech_ok T" by (rule env_okD [OF assms])
  obtain a p g where e: "featureSize T = Fin a" "0 < a" "pnSizeRatio T = Fin p" "0 < p"
    "phyGateLength T = Fin g"
    using tech_okD(1,7,17) [OF T] by (auto simp: fpos_def)
  have "fpos (capIdealGate T + capOverlap T + 3 * capFringe T)" using T by (simp add: fsign)
  then obtain c where c: "capIdealGate T + capOverlap T + 3 * capFringe T = Fin c" "0 < c"
    by (auto simp: fpos_def)
  have cap: "CalculateGateCap (Fin y) T = Fin (c * y)" for y
    using assms unfolding CalculateGateCap_def c(1) e(5) env_ok_def by (simp add: dbl_lits)
  have "gate_load T (Fin x) = Fin (c * x + c * (p * (3 / 2) * a))" for x
    by (simp add: gate_load_def e(1,3) dbl_lits cap)
  moreover have "0 < c * (p * (3 / 2) * a)" using c e by simp
  ultimately show ?thesis using c(2) by blast
qed

lemma row_gate_cap_range:
  assumes E: "env_ok T ip" and e: "1 \<le> effort" "effort \<le> 3" and b: "0 \<le> b" "b \<le> 2 ^ 30"
    and w: "MIN_NMOS_SIZE * featureSize T \<le> w" "w \<le> 3 * MIN_NMOS_SIZE * featureSize T"
  shows "dbl_range (effort * (i2d b * row_gate_cap T k) / gate_load T w)" "fnn (i2d b * row_gate_cap T k)"
proof -
  obtain c d where g: "0 < c" "0 < d" "\<And>x. gate_load T (Fin x) = Fin (c * x + d)"
    using gate_load_rep [OF E] by blast
  obtain a where a: "featureSize T = Fin a" "0 < a" using tech_okD(1) [OF env_okD(1) [OF E]] by (auto simp: fpos_def)
  obtain x where x: "w = Fin x" "3 / 2 * a \<le> x" using w by (cases w) (auto simp: a dbl_lits)
  obtain q where q: "effort = Fin q" "1 \<le> q" "q \<le> 3" using e by (cases effort) (auto simp: dbl_lits)
  obtain y where y: "nand_width T k = Fin y" "0 < y" "y \<le> 9 / 2 * a"
    using nand_width_bounds [OF env_okD(1) [OF E], of k] by (auto simp: fpos_def a dbl_lits)
  define s where "s = c * x + d"
  have s: "0 < s" using g x(2) a(2) by (simp add: s_def add_pos_pos)
  have "c * y + d \<le> 3 * s"
  proof -
    have "c * y \<le> c * (3 * x)" using g(1) y(3) x(2) by simp
    then show ?thesis using g(2) by (simp add: s_def)
  qed
  moreover have yd: "0 < c * y + d" using g y by (simp add: add_pos_pos)
  ultimately have r: "(c * y + d) / s \<le> 3" using s by (simp add: pos_divide_le_eq)
  define t where "t = (c * y + d) / s"
  have t: "0 \<le> t" "t \<le> 3" using r yd s by (simp_all add: t_def)
  have bR: "0 \<le> real_of_int b" "real_of_int b \<le> 1073741824" using b by simp_all
  have "real_of_int b * t \<le> 1073741824 * 3" using bR t by (intro mult_mono) simp_all
  then have "q * (real_of_int b * t) \<le> 3 * (1073741824 * 3)"
    using q bR t by (intro mult_mono) simp_all
  moreover have "q * (real_of_int b * (c * y + d)) / s = q * (real_of_int b * t)" by (simp add: t_def)
  ultimately have "q * (real_of_int b * (c * y + d)) / s \<le> 3 * (1073741824 * 3)" by simp
  also have "\<dots> \<le> (2 ^ 1024 :: real)"
  proof -
    have "(2::real) ^ 34 \<le> 2 ^ 1024" by (rule power_increasing) simp_all
    then show ?thesis by simp
  qed
  finally have "q * (real_of_int b * (c * y + d)) / s \<le> 2 ^ 1024" .
  moreover have "q * 0 / s \<le> 2 ^ 1024" by simp
  ultimately show "dbl_range (effort * (i2d b * row_gate_cap T k) / gate_load T w)"
    using s by (simp add: dbl_range_def row_gate_cap_def q(1) x(1) y(1) g(3) i2d_def s_def [symmetric] dbl_zero)
  show "fnn (i2d b * row_gate_cap T k)"
    using yd b by (simp add: row_gate_cap_def y(1) g(3) i2d_def dbl_zero)
qed

subsection \<open>The parts\<close>

definition raw_ok :: "RowDecoder \<Rightarrow> BasicDecoder \<Rightarrow> bool" where
  "raw_ok rawR rawB \<longleftrightarrow> od_arrays (rd_outputDriver rawR) \<and> od_arrays (bd_outputDriver rawB)"

lemma OutputDriver_new_arrays: "od_arrays od \<Longrightarrow> od_arrays (OutputDriver_new od) \<and> \<not> od_invalid (OutputDriver_new od)"
  by (simp add: OutputDriver_new_def od_arrays_def FunctionUnit_new_def)

lemma RowDecoder_new_fields:
  "rd_outputDriver (RowDecoder_new raw) = OutputDriver_new (rd_outputDriver raw)"
  "power_of (RowDecoder_new raw) = (0, 0, 0)"
  by (cases raw; simp add: RowDecoder_new_def FunctionUnit_new_def power_of_def)+

lemma BasicDecoder_new_fields:
  "bd_outputDriver (BasicDecoder_new raw) = OutputDriver_new (bd_outputDriver raw)"
  by (cases raw; simp add: BasicDecoder_new_def FunctionUnit_new_def)

text \<open>A row decoder of a predecoder block: parasitics known, no power so far.\<close>

definition stage_ok :: "Technology \<Rightarrow> InputParameter \<Rightarrow> RowDecoder \<Rightarrow> bool" where
  "stage_ok T ip r \<longleftrightarrow> rd_ready T ip r \<and> rd_rc r \<and> fnn (leakage r) \<and> fnn (readDynamicEnergy r)"

lemma new_row_decoder_ok:
  assumes E: "env_ok T ip" and rows: "0 < rows" and arr: "od_arrays (rd_outputDriver rawR)"
    and load: "row_load_ok T rows three cap rl"
  shows "\<exists>r. new_row_decoder T ip rawR rows cap rl three = Inr r \<and> stage_ok T ip r
    \<and> rd_numRow r = rows \<and> rd_capNandInput r = row_gate_cap T (row_nand_inputs rows three)
    \<and> power_of r = (0, 0, 0)"
proof -
  have a: "od_arrays (rd_outputDriver (RowDecoder_new rawR))" "\<not> od_invalid (rd_outputDriver (RowDecoder_new rawR))"
    using OutputDriver_new_arrays [OF arr] by (simp_all add: RowDecoder_new_fields)
  obtain r where r: "RowDecoder_Initialize T ip rows cap rl three latency_first 0 (RowDecoder_new rawR) = Inr r"
    "rd_ready T ip r" "rd_numRow r = rows" "rd_numNandInput r = row_nand_inputs rows three"
    "power_of r = (0, 0, 0)"
    using RowDecoder_Initialize_ok [OF E rows a load] RowDecoder_new_fields(2) by metis
  obtain s where "RowDecoder_CalculateRC T r = Inr s" "rd_ready T ip s" "rd_rc s" "power_of s = (0, 0, 0)"
    "rd_numRow s = rows" "rd_capNandInput s = row_gate_cap T (row_nand_inputs rows three)"
    using rd_parasitics_full [OF r(2)] r(3-5) by auto
  then show ?thesis by (simp add: new_row_decoder_def r(1) stage_ok_def power_of_def)
qed

lemma internal_row_load:
  assumes "env_ok T ip" "0 \<le> b" "b \<le> 2 ^ 30"
  shows "row_load_ok T rows three (i2d b * row_gate_cap T k) 0"
proof -
  have "tech_ok T" by (rule env_okD [OF assms(1)])
  then obtain a where a: "featureSize T = Fin a" "0 < a" using tech_okD(1) by (auto simp: fpos_def)
  have m: "MIN_NMOS_SIZE * featureSize T \<le> MIN_NMOS_SIZE * featureSize T"
    "MIN_NMOS_SIZE * featureSize T \<le> 3 * MIN_NMOS_SIZE * featureSize T" "(1::dbl) \<le> 1" "(1::dbl) \<le> 3"
    using a by (simp_all add: dbl_lits)
  show ?thesis unfolding row_load_ok_def Let_def
    using row_gate_cap_range [OF assms(1) m(3,4) assms(2,3) m(1,2), of k]
      row_gate_cap_range [OF assms(1) nand_effort_bounds [OF assms(1), of "row_nand_inputs rows three"]
        assms(2,3) nand_width_bounds(2,3) [OF \<open>tech_ok T\<close>, of "row_nand_inputs rows three"], of k]
    by simp
qed

lemma new_basic_decoder_ok:
  assumes E: "env_ok T ip" and bits: "bits \<in> {1, 2, 3}" and arr: "od_arrays (bd_outputDriver rawB)"
    and load: "bd_load_ok T bits cap rl"
  shows "\<exists>b. new_basic_decoder T ip rawB bits cap rl = Inr b \<and> bd_ready T ip b"
  using BasicDecoder_Initialize_ok [OF E bits _ _ load, of "BasicDecoder_new rawB"]
    OutputDriver_new_arrays [OF arr]
  by (auto simp: new_basic_decoder_def BasicDecoder_new_fields)

lemma internal_basic_load:
  assumes "env_ok T ip" "0 \<le> b" "b \<le> 2 ^ 30" "bits \<in> {2, 3}"
  shows "bd_load_ok T bits (i2d b * row_gate_cap T k) 0"
  using row_gate_cap_range [OF assms(1) nand_effort_bounds [OF assms(1), of bits] assms(2,3)
      nand_width_bounds(2,3) [OF env_okD(1) [OF assms(1)], of bits], of k] assms(4)
  by (auto simp: bd_load_ok_def)

text \<open>An internal basic decoder whose load is a number of gates of a row decoder.\<close>

lemma internal_basic_decoder:
  assumes "env_ok T ip" "od_arrays (bd_outputDriver rawB)" "bits \<in> {2, 3}"
    "rd_capNandInput r = row_gate_cap T k" "0 \<le> b" "b \<le> 2 ^ 30"
  shows "\<exists>d. new_basic_decoder T ip rawB bits (i2d b * rd_capNandInput r) 0 = Inr d \<and> bd_ready T ip d"
proof -
  have "bits \<in> {1, 2, 3}" using assms(3) by auto
  then show ?thesis
    using new_basic_decoder_ok [OF assms(1) _ assms(2)] internal_basic_load [OF assms(1,5,6,3), of k]
    by (simp add: assms(4))
qed

lemma internal_row_decoder:
  assumes "env_ok T ip" "od_arrays (rd_outputDriver rawR)" "0 < rows"
    "cap = row_gate_cap T k" "0 \<le> b" "b \<le> 2 ^ 30"
  shows "\<exists>r. new_row_decoder T ip rawR rows (i2d b * cap) 0 three = Inr r \<and> stage_ok T ip r
    \<and> rd_numRow r = rows \<and> rd_capNandInput r = row_gate_cap T (row_nand_inputs rows three)
    \<and> power_of r = (0, 0, 0)"
  unfolding assms(4) by (rule new_row_decoder_ok [OF assms(1,3,2) internal_row_load [OF assms(1,5,6)]])

subsection \<open>Well-formed blocks\<close>

definition opt_all :: "('a \<Rightarrow> bool) \<Rightarrow> 'a option \<Rightarrow> bool" where
  "opt_all P x \<longleftrightarrow> (\<forall>d. x = Some d \<longrightarrow> P d)"

lemma opt_all_simps [simp]: "opt_all P None" "opt_all P (Some d) = P d"
  by (simp_all add: opt_all_def)

text \<open>Which pointers are set: one of the four shapes that \<open>Initialize\<close> builds.\<close>

definition pb_shape :: "PredecodeBlock \<Rightarrow> bool" where
  "pb_shape pb \<longleftrightarrow> basicDecoderA1 pb \<noteq> None
     \<and> (basicDecoderA2 pb \<noteq> None \<longrightarrow> rowDecoderStage1A pb \<noteq> None)
     \<and> (basicDecoderB pb \<noteq> None \<longrightarrow> rowDecoderStage1B pb \<noteq> None \<and> rowDecoderStage2 pb \<noteq> None)
     \<and> (basicDecoderC pb \<noteq> None \<longrightarrow> basicDecoderB pb \<noteq> None \<and> rowDecoderStage1C pb \<noteq> None
          \<and> rowDecoderStage2 pb \<noteq> None)
     \<and> (rowDecoderStage1B pb \<noteq> None \<longrightarrow> rowDecoderStage1A pb \<noteq> None)
     \<and> (rowDecoderStage1C pb \<noteq> None \<longrightarrow> rowDecoderStage1B pb \<noteq> None)
     \<and> (rowDecoderStage2 pb \<noteq> None \<longrightarrow> rowDecoderStage1A pb \<noteq> None)"

definition pb_counts :: "PredecodeBlock \<Rightarrow> bool" where
  "pb_counts pb \<longleftrightarrow> 1 \<le> numBasicDecoderA1 pb
     \<and> (basicDecoderA2 pb \<noteq> None \<longrightarrow> 0 \<le> numBasicDecoderA2 pb)
     \<and> (basicDecoderB pb \<noteq> None \<longrightarrow> 0 \<le> numNandInputStage1B pb)
     \<and> (basicDecoderC pb \<noteq> None \<longrightarrow> 0 \<le> numNandInputStage1C pb)"

definition pb_ready :: "Technology \<Rightarrow> InputParameter \<Rightarrow> PredecodeBlock \<Rightarrow> bool" where
  "pb_ready T ip pb \<longleftrightarrow> pb_initialized pb \<and> 0 < pb_numAddressBit pb \<and> pb_shape pb \<and> pb_counts pb
     \<and> opt_all (bd_ready T ip) (basicDecoderA1 pb) \<and> opt_all (bd_ready T ip) (basicDecoderA2 pb)
     \<and> opt_all (bd_ready T ip) (basicDecoderB pb) \<and> opt_all (bd_ready T ip) (basicDecoderC pb)
     \<and> opt_all (stage_ok T ip) (rowDecoderStage1A pb) \<and> opt_all (stage_ok T ip) (rowDecoderStage1B pb)
     \<and> opt_all (stage_ok T ip) (rowDecoderStage1C pb) \<and> opt_all (stage_ok T ip) (rowDecoderStage2 pb)"

definition pb_rc :: "PredecodeBlock \<Rightarrow> bool" where
  "pb_rc pb \<longleftrightarrow> opt_all bd_rc (basicDecoderA1 pb) \<and> opt_all bd_rc (basicDecoderA2 pb)
     \<and> opt_all bd_rc (basicDecoderB pb) \<and> opt_all bd_rc (basicDecoderC pb)"

lemma opt_op_ok:
  assumes "opt_all P x" "\<And>d. P d \<Longrightarrow> \<exists>d'. f d = Inr d' \<and> Q d d'"
  shows "\<exists>x'. opt_op f x = Inr x' \<and> rel_option Q x x'"
  using assms by (cases x) (fastforce simp: opt_op_def)+

lemma rel_option_all: "rel_option Q x x' \<Longrightarrow> opt_all P x \<Longrightarrow> (\<And>d d'. P d \<Longrightarrow> Q d d' \<Longrightarrow> P' d') \<Longrightarrow> opt_all P' x'"
  by (auto elim!: option.rel_cases)

lemma rel_option_None: "rel_option Q x x' \<Longrightarrow> (x' = None) = (x = None)"
  by (auto elim!: option.rel_cases)

lemma reach_shape:
  assumes "pb_shape pb"
  shows "reach (basicDecoderA1 pb) x = x" "upd_reached (basicDecoderA1 pb) y x = x"
    "reach (basicDecoderB pb) (basicDecoderC pb) = basicDecoderC pb"
    "reach (rowDecoderStage1A pb) (rowDecoderStage1B pb) = rowDecoderStage1B pb"
    "reach (rowDecoderStage1A pb) (rowDecoderStage2 pb) = rowDecoderStage2 pb"
    "reach (rowDecoderStage1B pb) (rowDecoderStage1C pb) = rowDecoderStage1C pb"
  using assms by (auto simp: pb_shape_def reach_def upd_reached_def split: option.splits)

lemma upd_reached_same: "(g = None \<longrightarrow> x = None) \<Longrightarrow> rel_option Q x x' \<Longrightarrow> upd_reached g x x' = x'"
  by (auto simp: upd_reached_def split: option.splits)

subsection \<open>Initialize builds a well-formed block\<close>

text \<open>The external load: in the range of a double even in units of a minimum gate.\<close>

definition ext_load :: "Technology \<Rightarrow> dbl \<Rightarrow> dbl \<Rightarrow> bool" where
  "ext_load T cap rl \<longleftrightarrow> fnn cap \<and> fnn rl
     \<and> cap \<le> Fin (2 ^ 1000) * gate_load T (MIN_NMOS_SIZE * featureSize T)"

lemma ext_load_range:
  assumes E: "env_ok T ip" and e: "1 \<le> effort" "effort \<le> 3" and L: "ext_load T cap rl"
    and w: "MIN_NMOS_SIZE * featureSize T \<le> w"
  shows "w \<noteq> PInf \<Longrightarrow> dbl_range (effort * cap / gate_load T w)"
proof -
  assume fin: "w \<noteq> PInf"
  obtain c d where g: "0 < c" "0 < d" "\<And>x. gate_load T (Fin x) = Fin (c * x + d)"
    using gate_load_rep [OF E] by blast
  obtain a where a: "featureSize T = Fin a" "0 < a" using tech_okD(1) [OF env_okD(1) [OF E]] by (auto simp: fpos_def)
  obtain x where x: "w = Fin x" "3 / 2 * a \<le> x" using w fin by (cases w) (auto simp: a dbl_lits)
  obtain q where q: "effort = Fin q" "1 \<le> q" "q \<le> 3" using e by (cases effort) (auto simp: dbl_lits)
  define s where "s = c * (3 / 2 * a) + d"
  have s: "0 < s" "s \<le> c * x + d" using g a x by (simp_all add: s_def add_pos_pos)
  obtain y where y: "cap = Fin y" "0 \<le> y" "y \<le> 2 ^ 1000 * s"
    using L by (auto simp: ext_load_def fnn_def a dbl_lits g(3) s_def)
  have "y \<le> 2 ^ 1000 * (c * x + d)" using y(3) s(2) by (meson mult_left_mono order_trans zero_le_numeral zero_le_power)
  then have "y / (c * x + d) \<le> 2 ^ 1000" using s by (simp only: pos_divide_le_eq)
  then have "q * (y / (c * x + d)) \<le> 3 * 2 ^ 1000" using q y(2) s by (intro mult_mono) simp_all
  also have "\<dots> \<le> (4::real) * 2 ^ 1000" by simp
  also have "\<dots> \<le> 2 ^ 1024"
  proof -
    have "(2::real) ^ (2 + 1000) \<le> 2 ^ 1024" by (rule power_increasing) simp_all
    then show ?thesis by (simp only: power_add) simp
  qed
  finally have "q * y / (c * x + d) \<le> 2 ^ 1024" by simp
  then show ?thesis using s by (simp add: dbl_range_def q(1) y(1) x(1) g(3))
qed

lemma ext_loads:
  assumes E: "env_ok T ip" and L: "ext_load T cap rl"
  shows "row_load_ok T rows three cap rl" "bd_load_ok T bits cap rl"
proof -
  have T: "tech_ok T" by (rule env_okD [OF E])
  then obtain a where a: "featureSize T = Fin a" "0 < a" using tech_okD(1) by (auto simp: fpos_def)
  have m: "MIN_NMOS_SIZE * featureSize T \<le> MIN_NMOS_SIZE * featureSize T" "(1::dbl) \<le> 1" "(1::dbl) \<le> 3"
    "MIN_NMOS_SIZE * featureSize T \<noteq> PInf"
    using a by (simp_all add: dbl_lits)
  have n: "nand_width T k \<noteq> PInf" for k using nand_width_bounds(1) [OF T, of k] by (auto simp: fpos_def)
  have 1: "dbl_range (1 * cap / gate_load T (MIN_NMOS_SIZE * featureSize T))"
    using ext_load_range [OF E m(2,3) L m(1,4)] .
  have 2: "dbl_range (nand_effort T k * cap / gate_load T (nand_width T k))" for k
    using ext_load_range [OF E nand_effort_bounds [OF E, of k] L nand_width_bounds(2) [OF T, of k] n] .
  show "row_load_ok T rows three cap rl" "bd_load_ok T bits cap rl"
    using L 1 2 by (simp_all add: row_load_ok_def bd_load_ok_def ext_load_def Let_def)
qed

lemma i2d_numeral: "i2d (numeral k) = numeral k"
  by (simp add: i2d_def dbl_lits)

lemma predecode_basic_A_ok:
  assumes E: "env_ok T ip" and raw: "raw_ok rawR rawB" and r: "rd_capNandInput r = row_gate_cap T k"
    and nA: "numNandInputStage1A pb \<in> {2, 3}" and d: "numDecoder24 pb \<in> {0, 1, 2}"
  shows "\<exists>n1 n2 c1 c2 a1 a2. predecode_basic_A T ip rawB r pb = Inr (pb\<lparr>numBasicDecoderA1 := n1,
      numBasicDecoderA2 := n2, capLoadBasicDecoderA1 := c1, capLoadBasicDecoderA2 := c2,
      basicDecoderA1 := Some a1, basicDecoderA2 := a2\<rparr>)
    \<and> bd_ready T ip a1 \<and> opt_all (bd_ready T ip) a2 \<and> 1 \<le> n1 \<and> 0 \<le> n2
    \<and> n1 + n2 = numNandInputStage1A pb"
proof -
  have arr: "od_arrays (bd_outputDriver rawB)" using raw by (simp add: raw_ok_def)
  have ex: "\<exists>x. new_basic_decoder T ip rawB bits (i2d b * rd_capNandInput r) 0 = Inr x \<and> bd_ready T ip x"
    if "bits \<in> {2, 3}" "0 \<le> b" "b \<le> 2 ^ 30" for bits b
    using internal_basic_decoder [OF E arr that(1) r that(2,3)] .
  have res: ?thesis if "predecode_basic_A T ip rawB r pb = Inr (pb\<lparr>numBasicDecoderA1 := na,
      numBasicDecoderA2 := nb, capLoadBasicDecoderA1 := ca, capLoadBasicDecoderA2 := cb,
      basicDecoderA1 := Some xa, basicDecoderA2 := xb\<rparr>)" "bd_ready T ip xa"
      "opt_all (bd_ready T ip) xb" "1 \<le> na" "0 \<le> nb" "na + nb = numNandInputStage1A pb"
    for na nb ca cb xa xb
    using that by blast
  consider (0) "numDecoder24 pb = 0" | (1) "numDecoder24 pb = 1"
    | (22) "numDecoder24 pb = 2" "numNandInputStage1A pb = 2"
    | (23) "numDecoder24 pb = 2" "numNandInputStage1A pb = 3" using d nA by auto
  then show ?thesis
  proof cases
    case 0
    define n where "n = (2::int) ^ nat (3 * (numNandInputStage1A pb - 1))"
    have n: "shl1 (3 * (numNandInputStage1A pb - 1)) = Inr n" "0 \<le> n" "n \<le> 2 ^ 30"
      using nA by (auto simp: shl1_def n_def)
    obtain b where b: "new_basic_decoder T ip rawB 3 (i2d n * rd_capNandInput r) 0 = Inr b" "bd_ready T ip b"
      using ex [of 3 n] n by auto
    show ?thesis
      by (rule res [where na = "numNandInputStage1A pb" and nb = 0 and ca = "i2d n * rd_capNandInput r" and cb = "capLoadBasicDecoderA2 pb" and xa = b and xb = None])
        (use 0 b n(1) nA in \<open>auto simp: predecode_basic_A_def Let_def\<close>)
  next
    case 1
    define a2 where "a2 = numNandInputStage1A pb - 1"
    define n where "n = (2::int) ^ nat (3 * a2)"
    define m where "m = (2::int) ^ nat (2 + 3 * (a2 - 1))"
    have n: "shl1 (3 * a2) = Inr n" "0 \<le> n" "n \<le> 2 ^ 30" "shl1 (2 + 3 * (a2 - 1)) = Inr m" "0 \<le> m" "m \<le> 2 ^ 30"
      using nA by (auto simp: shl1_def n_def m_def a2_def)
    obtain b where b: "new_basic_decoder T ip rawB 2 (i2d n * rd_capNandInput r) 0 = Inr b" "bd_ready T ip b"
      using ex [of 2 n] n by auto
    obtain e where e: "new_basic_decoder T ip rawB 3 (i2d m * rd_capNandInput r) 0 = Inr e" "bd_ready T ip e"
      using ex [of 3 m] n by auto
    show ?thesis
      by (rule res [where na = 1 and nb = a2 and ca = "i2d n * rd_capNandInput r" and cb = "i2d m * rd_capNandInput r" and xa = b and xb = "Some e"])
        (use 1 b e n(1,4) nA in \<open>auto simp: predecode_basic_A_def Let_def a2_def\<close>)
  next
    case 22
    obtain b where b: "new_basic_decoder T ip rawB 2 (4 * rd_capNandInput r) 0 = Inr b" "bd_ready T ip b"
      using ex [of 2 4] by (auto simp: i2d_numeral)
    show ?thesis
      by (rule res [where na = 2 and nb = 0 and ca = "capLoadBasicDecoderA1 pb" and cb = "capLoadBasicDecoderA2 pb" and xa = b and xb = None])
        (use 22 b in \<open>simp_all add: predecode_basic_A_def Let_def\<close>)
  next
    case 23
    obtain b where b: "new_basic_decoder T ip rawB 2 (32 * rd_capNandInput r) 0 = Inr b" "bd_ready T ip b"
      using ex [of 2 32] by (auto simp: i2d_numeral)
    obtain e where e: "new_basic_decoder T ip rawB 3 (16 * rd_capNandInput r) 0 = Inr e" "bd_ready T ip e"
      using ex [of 3 16] by (auto simp: i2d_numeral)
    show ?thesis
      by (rule res [where na = 2 and nb = 1 and ca = "capLoadBasicDecoderA1 pb" and cb = "capLoadBasicDecoderA2 pb" and xa = b and xb = "Some e"])
        (use 23 b e in \<open>simp_all add: predecode_basic_A_def Let_def\<close>)
  qed
qed

text \<open>The stages decode the whole address: the last one has one row per address.\<close>

definition decodes :: "int \<Rightarrow> PredecodeBlock \<Rightarrow> bool" where
  "decodes n pb \<longleftrightarrow> pb_numAddressBit pb = n
     \<and> (case rowDecoderStage2 pb of
          Some r2 \<Rightarrow> rd_numRow r2 = 2 ^ nat n \<and> power_of r2 = (0, 0, 0)
            \<and> (\<exists>rA rB. rowDecoderStage1A pb = Some rA \<and> rowDecoderStage1B pb = Some rB
                 \<and> rowDecoderStage1C pb = None \<and> rd_numRow rA * rd_numRow rB = 2 ^ nat n)
        | None \<Rightarrow> (case rowDecoderStage1A pb of Some rA \<Rightarrow> rd_numRow rA = 2 ^ nat n | None \<Rightarrow> n \<le> 3))"

lemma basic_decoders_range:
  assumes "1 \<le> n" "n \<le> 18" "basic_decoders n = (d12, d24, d38)"
  shows "d12 + d24 + d38 \<le> 6" "d24 \<in> {0, 1, 2}" "d12 + d24 + d38 \<le> 1 \<longleftrightarrow> n \<le> 3" "n < 31"
    "n \<le> 3 \<Longrightarrow> (d12, d24, d38) \<in> {(1, 0, 0), (0, 1, 0), (0, 0, 1)}"
    "3 < n \<Longrightarrow> d12 = 0"
proof -
  have "n \<in> {1, 2, 3, 4, 5, 6, 7, 8, 9, 10, 11, 12, 13, 14, 15, 16, 17, 18}" using assms(1,2) by (simp only: insert_iff empty_iff) presburger
  then show "d12 + d24 + d38 \<le> 6" "d24 \<in> {0, 1, 2}" "d12 + d24 + d38 \<le> 1 \<longleftrightarrow> n \<le> 3" "n < 31"
    "n \<le> 3 \<Longrightarrow> (d12, d24, d38) \<in> {(1, 0, 0), (0, 1, 0), (0, 0, 1)}" "3 < n \<Longrightarrow> d12 = 0"
    using assms(3) by (auto simp: basic_decoders_def Let_def)
qed

definition pb_params :: "int \<Rightarrow> dbl \<Rightarrow> dbl \<Rightarrow> int \<Rightarrow> int \<Rightarrow> int \<Rightarrow> PredecodeBlock \<Rightarrow> PredecodeBlock" where
  "pb_params n cap rl d12 d24 d38 pb = pb\<lparr>pb_numAddressBit := n, pb_capLoad := cap, pb_resLoad := rl,
     numOutputAddressBit := 2 ^ nat n, numDecoder12 := d12, numDecoder24 := d24, numDecoder38 := d38\<rparr>"

lemma Initialize_unfold:
  assumes "1 \<le> n" "n \<le> 18" "basic_decoders n = (d12, d24, d38)"
  shows "PredecodeBlock_Initialize T ip rawR rawB n cap rl pb =
    ebind (predecode_stages T ip rawR (d12 + d24 + d38) (pb_params n cap rl d12 d24 d38 pb)) (\<lambda>pb1.
           ebind (predecode_basic_C T ip rawB pb1) (\<lambda>pb2.
           ebind (predecode_basic_B T ip rawB pb2) (\<lambda>pb3.
           ebind (case rowDecoderStage1A pb3 of
                    Some r \<Rightarrow> predecode_basic_A T ip rawB r pb3
                  | None \<Rightarrow> predecode_single T ip rawB pb3) (\<lambda>pb4.
             Inr (pb4\<lparr>pb_initialized := True\<rparr>)))))"
  using assms by (simp add: PredecodeBlock_Initialize_def shl1_def pb_params_def)

lemma Initialize_single:
  assumes E: "env_ok T ip" and raw: "raw_ok rawR rawB" and L: "ext_load T cap rl"
    and n: "1 \<le> n" "n \<le> 3"
  shows "\<exists>pb'. PredecodeBlock_Initialize T ip rawR rawB n cap rl pb = Inr pb' \<and> pb_ready T ip pb' \<and> decodes n pb'"
proof -
  obtain d12 d24 d38 where d: "basic_decoders n = (d12, d24, d38)" using prod_cases3 by blast
  have n18: "n \<le> 18" using n by simp
  note r = basic_decoders_range [OF n(1) n18 d]
  have c: "(d12, d24, d38) \<in> {(1, 0, 0), (0, 1, 0), (0, 0, 1)}" using r(5) n by simp
  define bits where "bits = (if d12 = 1 then 1 else if d24 = 1 then 2 else 3 :: int)"
  have "bits \<in> {1, 2, 3}" by (simp add: bits_def)
  from new_basic_decoder_ok [OF E this _ ext_loads(2) [OF E L]] raw obtain b where
    b: "new_basic_decoder T ip rawB bits cap rl = Inr b" "bd_ready T ip b" by (auto simp: raw_ok_def)
  have s: "d12 + d24 + d38 \<le> 1" using r(3) n by simp
  show ?thesis unfolding Initialize_unfold [OF n(1) n18 d]
    using s c b n
    by (auto simp: predecode_stages_def predecode_basic_C_def predecode_basic_B_def predecode_single_def
        pb_params_def bits_def pb_ready_def pb_shape_def pb_counts_def decodes_def)
qed

lemma Initialize_small:
  assumes E: "env_ok T ip" and raw: "raw_ok rawR rawB" and L: "ext_load T cap rl"
    and n: "4 \<le> n" "n \<le> 9"
  shows "\<exists>pb'. PredecodeBlock_Initialize T ip rawR rawB n cap rl pb = Inr pb' \<and> pb_ready T ip pb' \<and> decodes n pb'"
proof -
  obtain d12 d24 d38 where d: "basic_decoders n = (d12, d24, d38)" using prod_cases3 by blast
  have n1: "1 \<le> n" "n \<le> 18" using n by simp_all
  note r = basic_decoders_range [OF n1 d]
  define k where "k = d12 + d24 + d38"
  have "n \<in> {4, 5, 6, 7, 8, 9}" using n by (simp only: insert_iff empty_iff) presburger
  then have k: "k \<in> {2, 3}" using d by (auto simp: basic_decoders_def k_def Let_def)
  have arr: "od_arrays (rd_outputDriver rawR)" using raw by (simp add: raw_ok_def)
  have rows: "0 < (2::int) ^ nat n" by simp
  obtain rA where rA: "new_row_decoder T ip rawR (2 ^ nat n) cap rl (k = 3) = Inr rA" "stage_ok T ip rA"
    "rd_numRow rA = 2 ^ nat n" "rd_capNandInput rA = row_gate_cap T (row_nand_inputs (2 ^ nat n) (k = 3))"
    using new_row_decoder_ok [OF E rows arr ext_loads(1) [OF E L]] by blast
  define pb0 where "pb0 = pb_params n cap rl d12 d24 d38 pb"
  define pb3 where "pb3 = pb0\<lparr>numNandInputStage1A := k, rowDecoderStage2 := None, rowDecoderStage1B := None,
                    rowDecoderStage1C := None, rowDecoderStage1A := Some rA, basicDecoderC := None,
                    basicDecoderB := None\<rparr>"
  have 1: "predecode_stages T ip rawR k pb0 = Inr (pb0\<lparr>numNandInputStage1A := k, rowDecoderStage2 := None,
      rowDecoderStage1B := None, rowDecoderStage1C := None, rowDecoderStage1A := Some rA\<rparr>)"
  proof -
    have "numOutputAddressBit pb0 = 2 ^ nat n" "pb_capLoad pb0 = cap" "pb_resLoad pb0 = rl" "\<not> k \<le> 1" "k \<le> 3"
      using k by (auto simp: pb0_def pb_params_def)
    then show ?thesis by (simp add: predecode_stages_def stage1_small_def rA(1))
  qed
  have f3: "numNandInputStage1A pb3 \<in> {2, 3}" "numDecoder24 pb3 \<in> {0, 1, 2}"
    using k r(2) by (simp_all add: pb3_def pb0_def pb_params_def)
  obtain na nb ca cb xa xb where A: "predecode_basic_A T ip rawB rA pb3 = Inr (pb3\<lparr>numBasicDecoderA1 := na,
      numBasicDecoderA2 := nb, capLoadBasicDecoderA1 := ca, capLoadBasicDecoderA2 := cb,
      basicDecoderA1 := Some xa, basicDecoderA2 := xb\<rparr>)"
    "bd_ready T ip xa" "opt_all (bd_ready T ip) xb" "1 \<le> na" "0 \<le> nb"
    using predecode_basic_A_ok [OF E raw rA(4) f3] by blast
  have "PredecodeBlock_Initialize T ip rawR rawB n cap rl pb = Inr (pb3\<lparr>numBasicDecoderA1 := na,
      numBasicDecoderA2 := nb, capLoadBasicDecoderA1 := ca, capLoadBasicDecoderA2 := cb,
      basicDecoderA1 := Some xa, basicDecoderA2 := xb, pb_initialized := True\<rparr>)"
    unfolding Initialize_unfold [OF n1 d] k_def [symmetric] pb0_def [symmetric] 1
    using A(1) by (simp add: predecode_basic_C_def predecode_basic_B_def pb3_def)
  moreover have "pb_ready T ip (pb3\<lparr>numBasicDecoderA1 := na,
      numBasicDecoderA2 := nb, capLoadBasicDecoderA1 := ca, capLoadBasicDecoderA2 := cb,
      basicDecoderA1 := Some xa, basicDecoderA2 := xb, pb_initialized := True\<rparr>)"
    using A(2-5) rA(2) n by (simp add: pb_ready_def pb_shape_def pb_counts_def pb3_def pb0_def pb_params_def)
  moreover have "decodes n (pb3\<lparr>numBasicDecoderA1 := na,
      numBasicDecoderA2 := nb, capLoadBasicDecoderA1 := ca, capLoadBasicDecoderA2 := cb,
      basicDecoderA1 := Some xa, basicDecoderA2 := xb, pb_initialized := True\<rparr>)"
    using rA(3) by (simp add: decodes_def pb3_def pb0_def pb_params_def)
  ultimately show ?thesis by blast
qed

lemma medium_split:
  assumes "10 \<le> n" "n \<le> 18" "basic_decoders n = (d12, d24, d38)"
  defines "k \<equiv> d12 + d24 + d38"
  shows "\<not> k \<le> 3" "k \<le> 6" "k div 2 \<in> {2, 3}" "k - k div 2 \<in> {2, 3}"
    "0 \<le> 3 * (k - k div 2) - d24" "3 * (k - k div 2) - d24 \<le> 9" "3 * (k div 2) \<le> 9"
    "(3 * (k - k div 2) - d24) + 3 * (k div 2) = n"
proof -
  have "n \<in> {10, 11, 12, 13, 14, 15, 16, 17, 18}" using assms(1,2)
    by (simp only: insert_iff empty_iff) presburger
  then show "\<not> k \<le> 3" "k \<le> 6" "k div 2 \<in> {2, 3}" "k - k div 2 \<in> {2, 3}"
    "0 \<le> 3 * (k - k div 2) - d24" "3 * (k - k div 2) - d24 \<le> 9" "3 * (k div 2) \<le> 9"
    "(3 * (k - k div 2) - d24) + 3 * (k div 2) = n"
    using assms(3) by (auto simp: basic_decoders_def k_def Let_def)
qed

lemma decoder_load_i2d: "decoder_load n r = i2d (if n = 2 then 8 else 64) * rd_capNandInput r"
  by (simp add: decoder_load_def i2d_numeral)

lemma Initialize_medium:
  assumes E: "env_ok T ip" and raw: "raw_ok rawR rawB" and L: "ext_load T cap rl"
    and n: "10 \<le> n" "n \<le> 18"
  shows "\<exists>pb'. PredecodeBlock_Initialize T ip rawR rawB n cap rl pb = Inr pb' \<and> pb_ready T ip pb' \<and> decodes n pb'"
proof -
  obtain d12 d24 d38 where d: "basic_decoders n = (d12, d24, d38)" using prod_cases3 by blast
  have n1: "1 \<le> n" "n \<le> 18" using n by simp_all
  note r = basic_decoders_range [OF n1 d]
  define k where "k = d12 + d24 + d38"
  note k = medium_split [OF n d, folded k_def]
  define kB where "kB = k div 2"
  define kA where "kA = k - kB"
  define eA where "eA = 3 * kA - d24"
  define bA where "bA = (2::int) ^ nat eA"
  define bB where "bB = (2::int) ^ nat (3 * kB)"
  have sh: "shl1 eA = Inr bA" "shl1 (3 * kB) = Inr bB"
    using k(3,5-7) by (auto simp: shl1_def bA_def bB_def eA_def kA_def kB_def)
  have b: "0 < bA" "0 < bB" "0 \<le> bA" "0 \<le> bB" "bA \<le> 2 ^ 30" "bB \<le> 2 ^ 30"
  proof -
    have "nat eA \<le> 30" "nat (3 * kB) \<le> 30" using k(3,6,7) by (auto simp: eA_def kA_def kB_def)
    then show "bA \<le> 2 ^ 30" "bB \<le> 2 ^ 30" unfolding bA_def bB_def by (intro power_increasing; simp)+
  qed (simp_all add: bA_def bB_def)
  have prod: "bA * bB = 2 ^ nat n"
  proof -
    have "0 \<le> eA" "0 \<le> 3 * kB" using k(3,5) by (auto simp: eA_def kA_def kB_def)
    then have "nat n = nat eA + nat (3 * kB)" using k(8) by (simp add: eA_def kA_def kB_def nat_add_distrib [symmetric])
    then show ?thesis by (simp add: bA_def bB_def power_add)
  qed
  have arr: "od_arrays (rd_outputDriver rawR)" using raw by (simp add: raw_ok_def)
  have rows: "0 < (2::int) ^ nat n" by simp
  obtain r2 c2 where r2: "new_row_decoder T ip rawR (2 ^ nat n) cap rl False = Inr r2" "stage_ok T ip r2"
    "rd_numRow r2 = 2 ^ nat n" "rd_capNandInput r2 = row_gate_cap T c2" "power_of r2 = (0, 0, 0)"
    using new_row_decoder_ok [OF E rows arr ext_loads(1) [OF E L]] by blast
  obtain rA cA where rA: "new_row_decoder T ip rawR bA (i2d bB * rd_capNandInput r2) 0 (kA = 3) = Inr rA"
    "stage_ok T ip rA" "rd_numRow rA = bA" "rd_capNandInput rA = row_gate_cap T cA"
    using internal_row_decoder [OF E arr b(1) r2(4) b(4,6)] by blast
  obtain rB cB where rB: "new_row_decoder T ip rawR bB (i2d bA * rd_capNandInput r2) 0 (kB = 3) = Inr rB"
    "stage_ok T ip rB" "rd_numRow rB = bB" "rd_capNandInput rB = row_gate_cap T cB"
    using internal_row_decoder [OF E arr b(2) r2(4) b(3,5)] by blast
  define pb0 where "pb0 = pb_params n cap rl d12 d24 d38 pb"
  define pb1 where "pb1 = pb0\<lparr>rowDecoderStage2 := Some r2, numNandInputStage1A := kA, numNandInputStage1B := kB,
               numAddressBitStage1A := bA, numAddressBitStage1B := bB,
               rowDecoderStage1C := None, rowDecoderStage1A := Some rA,
               rowDecoderStage1B := Some rB\<rparr>"
  have f0: "numOutputAddressBit pb0 = 2 ^ nat n" "pb_capLoad pb0 = cap" "pb_resLoad pb0 = rl"
    "numDecoder24 pb0 = d24" by (simp_all add: pb0_def pb_params_def)
  have 1: "predecode_stages T ip rawR k pb0 = Inr pb1"
  proof -
    have "stage1_medium T ip rawR k pb0 = Inr pb1"
      unfolding stage1_medium_def f0 Let_def kB_def [symmetric] kA_def [symmetric] eA_def [symmetric]
      by (simp add: r2(1) sh rA(1) rB(1) pb1_def)
    then show ?thesis using k(1,2) by (simp add: predecode_stages_def)
  qed
  define cb where "cb = decoder_load kB rB"
  have "\<exists>x. new_basic_decoder T ip rawB 3 cb 0 = Inr x \<and> bd_ready T ip x"
    unfolding cb_def decoder_load_i2d
    by (rule internal_basic_decoder [OF E _ _ rB(4)]) (use raw in \<open>simp_all add: raw_ok_def\<close>)
  then obtain xB where xB: "new_basic_decoder T ip rawB 3 cb 0 = Inr xB" "bd_ready T ip xB" by blast
  define pb3 where "pb3 = pb1\<lparr>basicDecoderC := None, capLoadBasicDecoderB := cb, basicDecoderB := Some xB\<rparr>"
  have 2: "predecode_basic_C T ip rawB pb1 = Inr (pb1\<lparr>basicDecoderC := None\<rparr>)"
    "predecode_basic_B T ip rawB (pb1\<lparr>basicDecoderC := None\<rparr>) = Inr pb3"
    "rowDecoderStage1A pb3 = Some rA"
    using xB(1) by (simp_all add: predecode_basic_C_def predecode_basic_B_def pb1_def pb3_def cb_def)
  have f3: "numNandInputStage1A pb3 \<in> {2, 3}" "numDecoder24 pb3 \<in> {0, 1, 2}"
    using k(4) r(2) by (simp_all add: pb3_def pb1_def f0 kA_def kB_def)
  obtain na nb ca cb' xa xb where A: "predecode_basic_A T ip rawB rA pb3 = Inr (pb3\<lparr>numBasicDecoderA1 := na,
      numBasicDecoderA2 := nb, capLoadBasicDecoderA1 := ca, capLoadBasicDecoderA2 := cb',
      basicDecoderA1 := Some xa, basicDecoderA2 := xb\<rparr>)"
    "bd_ready T ip xa" "opt_all (bd_ready T ip) xb" "1 \<le> na" "0 \<le> nb"
    using predecode_basic_A_ok [OF E raw rA(4) f3] by blast
  define pb4 where "pb4 = pb3\<lparr>numBasicDecoderA1 := na,
      numBasicDecoderA2 := nb, capLoadBasicDecoderA1 := ca, capLoadBasicDecoderA2 := cb',
      basicDecoderA1 := Some xa, basicDecoderA2 := xb\<rparr>"
  have "PredecodeBlock_Initialize T ip rawR rawB n cap rl pb = Inr (pb4\<lparr>pb_initialized := True\<rparr>)"
    unfolding Initialize_unfold [OF n1 d] k_def [symmetric] pb0_def [symmetric] 1
    using A(1) by (simp add: 2 pb4_def)
  moreover have "pb_ready T ip (pb4\<lparr>pb_initialized := True\<rparr>)"
    using A(2-5) rA(2) rB(2) r2(2) xB(2) n k(3)
    by (auto simp: pb_ready_def pb_shape_def pb_counts_def pb4_def pb3_def pb1_def pb0_def pb_params_def kB_def)
  moreover have "decodes n (pb4\<lparr>pb_initialized := True\<rparr>)"
    using rA(3) rB(3) r2(3,5) prod
    by (simp add: decodes_def pb4_def pb3_def pb1_def pb0_def pb_params_def)
  ultimately show ?thesis by blast
qed

lemma PredecodeBlock_Initialize_ok:
  assumes E: "env_ok T ip" and raw: "raw_ok rawR rawB" and L: "ext_load T cap rl"
    and n: "1 \<le> n" "n \<le> 18"
  shows "\<exists>pb'. PredecodeBlock_Initialize T ip rawR rawB n cap rl pb = Inr pb' \<and> pb_ready T ip pb' \<and> decodes n pb'"
proof -
  consider "n \<le> 3" | "4 \<le> n" "n \<le> 9" | "10 \<le> n" by linarith
  then show ?thesis
    using Initialize_single [OF E raw L n(1)] Initialize_small [OF E raw L] Initialize_medium [OF E raw L _ n(2)]
    by cases blast+
qed

subsection \<open>The block fulfils the contract of a component\<close>

lemma stage_area: "stage_ok T ip r \<Longrightarrow> \<exists>r'. RowDecoder_CalculateArea T r = Inr r' \<and> stage_ok T ip r' \<and> geometry_ok r'"
  using rd.area_law [of T ip r] by (fastforce simp: stage_ok_def power_of_def)

lemma stage_latency:
  "stage_ok T ip r \<Longrightarrow> fpos ramp \<Longrightarrow> \<exists>r'. RowDecoder_CalculateLatency T ip ramp r = Inr r'
     \<and> stage_ok T ip r' \<and> fpos (readLatency r') \<and> fpos (rd_rampOutput r')"
  using rd.latency_law [of T ip r ramp] by (fastforce simp: stage_ok_def power_of_def latency_ok_def)

lemma stage_power:
  "stage_ok T ip r \<Longrightarrow> \<exists>r'. RowDecoder_CalculatePower T ip cell r = Inr r' \<and> stage_ok T ip r'"
  using rd.power_law [of T ip r cell] by (auto simp: stage_ok_def power_ok_def intro: fpos_fnn)

lemma stack_part_ok:
  assumes "fnn n" "opt_all geometry_ok d" "fnn (fst hw)" "fnn (snd hw)"
  shows "fnn (fst (stack_part n d hw))" "fnn (snd (stack_part n d hw))"
    "fpos (fst hw) \<Longrightarrow> fpos (fst (stack_part n d hw))" "fpos (snd hw) \<Longrightarrow> fpos (snd (stack_part n d hw))"
  using assms by (auto simp: stack_part_def geometry_ok_def fpos_std_max1 fsign split: option.splits)

lemma pb_area:
  assumes R: "pb_ready T ip s"
  shows "\<exists>s'. PredecodeBlock_CalculateArea T s = Inr s' \<and> pb_ready T ip s' \<and> (pb_rc s \<longrightarrow> pb_rc s')
      \<and> geometry_ok s' \<and> power_of s' = power_of s"
proof -
  have sh: "pb_shape s" "pb_counts s" "pb_initialized s" "0 < pb_numAddressBit s"
    using R by (simp_all add: pb_ready_def)
  define bd where "bd = opt_op (BasicDecoder_CalculateArea T)"
  define rd where "rd = opt_op (RowDecoder_CalculateArea T)"
  define Q where "Q d d' \<longleftrightarrow> bd_ready T ip d' \<and> (bd_rc d \<longrightarrow> bd_rc d') \<and> geometry_ok d'" for d d'
  define Q' where "Q' (r :: RowDecoder) r' \<longleftrightarrow> stage_ok T ip r' \<and> geometry_ok r'" for r r'
  have B: "\<exists>x'. bd x = Inr x' \<and> rel_option Q x x'" if "opt_all (bd_ready T ip) x" for x
    unfolding bd_def by (rule opt_op_ok [OF that]) (use bd.area_law in \<open>fastforce simp: Q_def\<close>)
  have D: "\<exists>x'. rd x = Inr x' \<and> rel_option Q' x x'" if "opt_all (stage_ok T ip) x" for x
    unfolding rd_def by (rule opt_op_ok [OF that]) (use stage_area in \<open>fastforce simp: Q'_def\<close>)
  obtain a1 where a1: "bd (basicDecoderA1 s) = Inr a1" "rel_option Q (basicDecoderA1 s) a1"
    using B R by (auto simp: pb_ready_def)
  obtain a2 where a2: "bd (basicDecoderA2 s) = Inr a2" "rel_option Q (basicDecoderA2 s) a2"
    using B R by (auto simp: pb_ready_def)
  obtain b where b: "bd (basicDecoderB s) = Inr b" "rel_option Q (basicDecoderB s) b"
    using B R by (auto simp: pb_ready_def)
  obtain c where c: "bd (basicDecoderC s) = Inr c" "rel_option Q (basicDecoderC s) c"
    using B R by (auto simp: pb_ready_def)
  obtain ra where ra: "rd (rowDecoderStage1A s) = Inr ra" "rel_option Q' (rowDecoderStage1A s) ra"
    using D R by (auto simp: pb_ready_def)
  obtain rb where rb: "rd (rowDecoderStage1B s) = Inr rb" "rel_option Q' (rowDecoderStage1B s) rb"
    using D R by (auto simp: pb_ready_def)
  obtain rc where rc: "rd (rowDecoderStage1C s) = Inr rc" "rel_option Q' (rowDecoderStage1C s) rc"
    using D R by (auto simp: pb_ready_def)
  obtain r2 where r2: "rd (rowDecoderStage2 s) = Inr r2" "rel_option Q' (rowDecoderStage2 s) r2"
    using D R by (auto simp: pb_ready_def)
  note rels = a1(2) a2(2) b(2) c(2) ra(2) rb(2) rc(2) r2(2)
  have upd: "upd_reached (basicDecoderB s) (basicDecoderC s) c = c"
    "upd_reached (rowDecoderStage1A s) (rowDecoderStage1B s) rb = rb"
    "upd_reached (rowDecoderStage1B s) (rowDecoderStage1C s) rc = rc"
    "upd_reached (rowDecoderStage1A s) (rowDecoderStage2 s) r2 = r2"
    using sh(1) rels by (auto simp: pb_shape_def intro!: upd_reached_same)
  define hw where "hw = decoders_hw s a1 a2 b c"
  define hr2 where "hr2 = rows_hw ra rb rc r2"
  define w where "w = snd hw + snd hr2"
  define h where "h = std_max (fst hw) (fst hr2)"
  define s' where "s' = s\<lparr>basicDecoderA1 := a1, basicDecoderA2 := a2, basicDecoderB := b, basicDecoderC := c,
      rowDecoderStage1A := ra, rowDecoderStage1B := rb, rowDecoderStage1C := rc, rowDecoderStage2 := r2,
      width := w, height := h, area := w * h\<rparr>"
  have nz: "pb_numAddressBit s \<noteq> 0" using sh(4) by simp
  have res: "PredecodeBlock_CalculateArea T s = Inr s'"
    unfolding PredecodeBlock_CalculateArea_def Let_def bd_def [symmetric] rd_def [symmetric]
      reach_shape [OF sh(1)]
    unfolding a1(1) a2(1) b(1) c(1) ra(1) rb(1) rc(1) r2(1) ebind_simps upd s'_def w_def h_def hw_def hr2_def
      if_not_P [OF nz]
    using sh(3) by simp
  have "opt_all (bd_ready T ip) x' \<and> opt_all geometry_ok x' \<and> (opt_all bd_rc x \<longrightarrow> opt_all bd_rc x')"
    if "rel_option Q x x'" for x x'
    using that by (cases x; cases x') (simp_all add: Q_def)
  note B' = this [OF a1(2)] this [OF a2(2)] this [OF b(2)] this [OF c(2)]
  have "opt_all (stage_ok T ip) x' \<and> opt_all geometry_ok x'" if "rel_option Q' x x'" for x x'
    using that by (cases x; cases x') (simp_all add: Q'_def)
  note D' = this [OF ra(2)] this [OF rb(2)] this [OF rc(2)] this [OF r2(2)]
  have ok: "opt_all (bd_ready T ip) a1" "opt_all (bd_ready T ip) a2" "opt_all (bd_ready T ip) b"
    "opt_all (bd_ready T ip) c" "opt_all (stage_ok T ip) ra" "opt_all (stage_ok T ip) rb"
    "opt_all (stage_ok T ip) rc" "opt_all (stage_ok T ip) r2"
    using B' D' by blast+
  have geo: "opt_all geometry_ok a1" "opt_all geometry_ok a2" "opt_all geometry_ok b"
    "opt_all geometry_ok c" "opt_all geometry_ok ra" "opt_all geometry_ok rb"
    "opt_all geometry_ok rc" "opt_all geometry_ok r2"
    using B' D' by blast+
  have N: "a1 \<noteq> None" "(a2 = None) = (basicDecoderA2 s = None)" "(b = None) = (basicDecoderB s = None)"
    "(c = None) = (basicDecoderC s = None)" "(ra = None) = (rowDecoderStage1A s = None)"
    "(rb = None) = (rowDecoderStage1B s = None)" "(rc = None) = (rowDecoderStage1C s = None)"
    "(r2 = None) = (rowDecoderStage2 s = None)"
    using rels [THEN rel_option_None] sh(1) by (simp_all add: pb_shape_def)
  have ready: "pb_ready T ip s'"
    using sh ok N by (simp add: pb_ready_def s'_def pb_shape_def pb_counts_def)
  have rcs: "pb_rc s \<longrightarrow> pb_rc s'"
    using B' by (simp add: pb_rc_def s'_def)
  have geom: "geometry_ok s'"
  proof -
    obtain d where d: "a1 = Some d" "fpos (height d)" "fpos (width d)"
      using N(1) geo(1) by (auto simp: geometry_ok_def)
    have n: "0 < numBasicDecoderA1 s" "a2 = None \<or> fnn (i2d (numBasicDecoderA2 s))"
      "b = None \<or> fnn (i2d (numNandInputStage1B s))" "c = None \<or> fnn (i2d (numNandInputStage1C s))"
      using sh(2) N by (auto simp: pb_counts_def)
    have 0: "fpos (fst (stack_part (i2d (numBasicDecoderA1 s)) a1 (0, 0)))"
      "fpos (snd (stack_part (i2d (numBasicDecoderA1 s)) a1 (0, 0)))"
      using d n(1) by (simp_all add: stack_part_def fsign)
    have step: "fpos (fst (stack_part k x p)) \<and> fpos (snd (stack_part k x p))"
      if "x = None \<or> fnn k" "opt_all geometry_ok x" "fpos (fst p)" "fpos (snd p)"
      for k x p and y :: "BasicDecoder"
      using that stack_part_ok [of k x p] by (cases x) (auto simp: stack_part_def fsign)
    have hw: "fpos (fst hw)" "fpos (snd hw)"
      unfolding hw_def decoders_hw_def using step n(2-4) geo(2-4) 0 by blast+
    define hr where "hr = stack_part 1 rc (stack_part 1 rb (stack_part 1 ra (0, 0)))"
    have "fnn (fst hr)" "fnn (snd hr)"
      unfolding hr_def using stack_part_ok(1,2) geo(5-7) fsign_lits by (metis fst_conv snd_conv)+
    then have "fnn (fst hr2)" "fnn (snd hr2)"
      using geo(8) by (auto simp: hr2_def rows_hw_def hr_def [symmetric] geometry_ok_def fsign split: option.splits)
    then have "fpos w" "fpos h" using hw by (simp_all add: w_def h_def fsign)
    then show ?thesis by (simp add: geometry_ok_def s'_def fpos_mult_commute)
  qed
  have "power_of s' = power_of s" by (simp add: power_of_def s'_def)
  then show ?thesis using res ready rcs geom by blast
qed

lemma pb_parasitics:
  assumes R: "pb_ready T ip s"
  shows "\<exists>s'. PredecodeBlock_CalculateRC T s = Inr s' \<and> pb_ready T ip s' \<and> pb_rc s'
      \<and> geometry s' = geometry s \<and> power_of s' = power_of s"
proof -
  have sh: "pb_shape s" "pb_counts s" "pb_initialized s" "0 < pb_numAddressBit s"
    using R by (simp_all add: pb_ready_def)
  define bd where "bd = opt_op (BasicDecoder_CalculateRC T)"
  define Q where "Q d d' \<longleftrightarrow> bd_ready T ip d' \<and> bd_rc d'" for d d' :: BasicDecoder
  have B: "\<exists>x'. bd x = Inr x' \<and> rel_option Q x x'" if "opt_all (bd_ready T ip) x" for x
    unfolding bd_def by (rule opt_op_ok [OF that]) (use bd.rc_law in \<open>fastforce simp: Q_def\<close>)
  obtain a1 where a1: "bd (basicDecoderA1 s) = Inr a1" "rel_option Q (basicDecoderA1 s) a1"
    using B R by (auto simp: pb_ready_def)
  obtain a2 where a2: "bd (basicDecoderA2 s) = Inr a2" "rel_option Q (basicDecoderA2 s) a2"
    using B R by (auto simp: pb_ready_def)
  obtain b where b: "bd (basicDecoderB s) = Inr b" "rel_option Q (basicDecoderB s) b"
    using B R by (auto simp: pb_ready_def)
  obtain c where c: "bd (basicDecoderC s) = Inr c" "rel_option Q (basicDecoderC s) c"
    using B R by (auto simp: pb_ready_def)
  have upd: "upd_reached (basicDecoderB s) (basicDecoderC s) c = c"
    using sh(1) c(2) by (auto simp: pb_shape_def intro!: upd_reached_same)
  define s' where "s' = s\<lparr>basicDecoderA1 := a1, basicDecoderA2 := a2, basicDecoderB := b, basicDecoderC := c\<rparr>"
  have res: "PredecodeBlock_CalculateRC T s = Inr s'"
    unfolding PredecodeBlock_CalculateRC_def Let_def bd_def [symmetric] reach_shape [OF sh(1)]
    unfolding a1(1) a2(1) b(1) c(1) ebind_simps upd s'_def
    using sh(3,4) by simp
  have "opt_all (bd_ready T ip) x' \<and> opt_all bd_rc x' \<and> (x' = None) = (x = None)" if "rel_option Q x x'" for x x'
    using that by (cases x; cases x') (simp_all add: Q_def)
  note B' = this [OF a1(2)] this [OF a2(2)] this [OF b(2)] this [OF c(2)]
  have "pb_ready T ip s'" using R B' by (simp add: pb_ready_def s'_def pb_shape_def pb_counts_def)
  moreover have "pb_rc s'" using B' by (simp add: pb_rc_def s'_def)
  moreover have "geometry s' = geometry s" "power_of s' = power_of s"
    by (simp_all add: geometry_def power_of_def s'_def)
  ultimately show ?thesis using res by blast
qed

subsubsection \<open>The paths\<close>

definition path_ok ::
  "Technology \<Rightarrow> InputParameter \<Rightarrow> PredecodeBlock \<Rightarrow> (PredecodeBlock \<times> dbl \<times> dbl) res \<Rightarrow> bool" where
  "path_ok T ip s out \<longleftrightarrow> (\<exists>s' d r. out = Inr (s', d, r) \<and> pb_ready T ip s' \<and> pb_rc s'
     \<and> geometry s' = geometry s \<and> power_of s' = power_of s \<and> fnn d \<and> fnn r
     \<and> (basicDecoderA2 s' = None) = (basicDecoderA2 s = None))"

lemma basic_latency:
  assumes "opt_all (bd_ready T ip) x" "opt_all bd_rc x" "x = Some a" "fpos ramp"
  shows "\<exists>a'. BasicDecoder_CalculateLatency T ip ramp a = Inr a' \<and> bd_ready T ip a' \<and> bd_rc a'
    \<and> fpos (readLatency a') \<and> fpos (bd_rampOutput a')"
  using bd.latency_law [of T ip a ramp] assms by (auto simp: latency_ok_def)

lemma stage2_delay_ok:
  assumes "opt_all (stage_ok T ip) r2" "fpos delay" "fpos ramp"
  shows "\<exists>r2' d r. stage2_delay T ip r2 delay ramp = Inr (r2', d, r) \<and> opt_all (stage_ok T ip) r2'
    \<and> fpos d \<and> fpos r \<and> (r2' = None) = (r2 = None)"
proof (cases r2)
  case None
  then show ?thesis using assms by (simp add: stage2_delay_def)
next
  case (Some q)
  then obtain q' where "RowDecoder_CalculateLatency T ip ramp q = Inr q'" "stage_ok T ip q'"
    "fpos (readLatency q')" "fpos (rd_rampOutput q')"
    using stage_latency [of T ip q ramp] assms by auto
  then show ?thesis using assms Some by (simp add: stage2_delay_def fsign)
qed

lemma path_A1_ok:
  assumes R: "pb_ready T ip s" "pb_rc s" "fpos ramp"
  shows "\<exists>s' d r. path_A1 T ip ramp s = Inr (s', d, r) \<and> pb_ready T ip s' \<and> pb_rc s'
     \<and> geometry s' = geometry s \<and> power_of s' = power_of s \<and> fpos d \<and> fpos r
     \<and> (\<forall>a. basicDecoderA1 s' = Some a \<longrightarrow> fpos (readLatency a))"
proof -
  obtain a where a: "basicDecoderA1 s = Some a" using R by (auto simp: pb_ready_def pb_shape_def)
  obtain a' where a': "BasicDecoder_CalculateLatency T ip ramp a = Inr a'" "bd_ready T ip a'" "bd_rc a'"
    "fpos (readLatency a')" "fpos (bd_rampOutput a')"
    using basic_latency [OF _ _ a R(3)] R by (auto simp: pb_ready_def pb_rc_def)
  show ?thesis
  proof (cases "rowDecoderStage1A s")
    case None
    then show ?thesis using R a a'
      by (auto simp add: path_A1_def pb_ready_def pb_rc_def pb_shape_def pb_counts_def geometry_def power_of_def)
  next
    case (Some r)
    then obtain r' where r': "RowDecoder_CalculateLatency T ip (bd_rampOutput a') r = Inr r'" "stage_ok T ip r'"
      "fpos (readLatency r')" "fpos (rd_rampOutput r')"
      using stage_latency [OF _ a'(5), of T ip r] R by (auto simp: pb_ready_def)
    obtain r2 d q where s2: "stage2_delay T ip (rowDecoderStage2 s) (readLatency a' + readLatency r')
        (rd_rampOutput r') = Inr (r2, d, q)" "opt_all (stage_ok T ip) r2" "fpos d" "fpos q"
        "(r2 = None) = (rowDecoderStage2 s = None)"
      using stage2_delay_ok [of T ip "rowDecoderStage2 s" "readLatency a' + readLatency r'" "rd_rampOutput r'"]
        R a' r' by (auto simp: pb_ready_def fsign)
    then show ?thesis using R a a' r' Some
      by (auto simp add: path_A1_def pb_ready_def pb_rc_def pb_shape_def pb_counts_def geometry_def power_of_def)
  qed
qed

lemma path_A2_ok:
  assumes R: "pb_ready T ip s" "pb_rc s" "fpos ramp" and A1: "\<forall>a. basicDecoderA1 s = Some a \<longrightarrow> fpos (readLatency a)"
  shows "path_ok T ip s (path_A2 T ip ramp s)"
proof (cases "basicDecoderA2 s")
  case None
  then show ?thesis using R by (simp add: path_A2_def path_ok_def)
next
  case (Some a)
  obtain a1 r where s: "basicDecoderA1 s = Some a1" "rowDecoderStage1A s = Some r"
    using R Some by (auto simp: pb_ready_def pb_shape_def)
  obtain a' where a': "BasicDecoder_CalculateLatency T ip ramp a = Inr a'" "bd_ready T ip a'" "bd_rc a'"
    "fpos (readLatency a')" "fpos (bd_rampOutput a')"
    using basic_latency [OF _ _ Some R(3)] R by (auto simp: pb_ready_def pb_rc_def)
  obtain r' where r': "RowDecoder_CalculateLatency T ip (bd_rampOutput a') r = Inr r'" "stage_ok T ip r'"
    "fpos (readLatency r')" "fpos (rd_rampOutput r')"
    using stage_latency [OF _ a'(5), of T ip r] R s by (auto simp: pb_ready_def)
  obtain r2 d q where s2: "stage2_delay T ip (rowDecoderStage2 s) (readLatency a1 + readLatency r')
      (rd_rampOutput r') = Inr (r2, d, q)" "opt_all (stage_ok T ip) r2" "fpos d" "fpos q"
      "(r2 = None) = (rowDecoderStage2 s = None)"
    using stage2_delay_ok [of T ip "rowDecoderStage2 s" "readLatency a1 + readLatency r'" "rd_rampOutput r'"]
      R A1 s r' by (auto simp: pb_ready_def fsign)
  then show ?thesis using R s a' r' Some
    by (auto simp add: path_A2_def path_ok_def deref_def pb_ready_def pb_rc_def pb_shape_def pb_counts_def
        geometry_def power_of_def fpos_fnn)
qed

text \<open>The paths B and C: a basic decoder, a first stage and the second stage in a row.\<close>

lemma three_stages:
  assumes "bd_ready T ip a" "bd_rc a" "stage_ok T ip r" "stage_ok T ip r2" "fpos ramp"
  shows "\<exists>a' r' r2'. BasicDecoder_CalculateLatency T ip ramp a = Inr a'
    \<and> RowDecoder_CalculateLatency T ip (bd_rampOutput a') r = Inr r'
    \<and> RowDecoder_CalculateLatency T ip (rd_rampOutput r') r2 = Inr r2'
    \<and> bd_ready T ip a' \<and> bd_rc a' \<and> stage_ok T ip r' \<and> stage_ok T ip r2'
    \<and> fnn (readLatency a' + readLatency r' + readLatency r2') \<and> fnn (rd_rampOutput r2')"
proof -
  obtain a' where a': "BasicDecoder_CalculateLatency T ip ramp a = Inr a'" "bd_ready T ip a'" "bd_rc a'"
    "fpos (readLatency a')" "fpos (bd_rampOutput a')"
    using basic_latency [of T ip "Some a" a ramp] assms by auto
  obtain r' where r': "RowDecoder_CalculateLatency T ip (bd_rampOutput a') r = Inr r'" "stage_ok T ip r'"
    "fpos (readLatency r')" "fpos (rd_rampOutput r')"
    using stage_latency [OF assms(3) a'(5)] by auto
  obtain q where q: "RowDecoder_CalculateLatency T ip (rd_rampOutput r') r2 = Inr q" "stage_ok T ip q"
    "fpos (readLatency q)" "fpos (rd_rampOutput q)"
    using stage_latency [OF assms(4) r'(4)] by auto
  show ?thesis using a' r' q by (auto simp: fsign intro: fpos_fnn)
qed

lemma path_B_ok:
  assumes R: "pb_ready T ip s" "pb_rc s" "fpos ramp"
  shows "path_ok T ip s (path_B T ip ramp s)"
proof (cases "basicDecoderB s")
  case None
  then show ?thesis using R by (simp add: path_B_def path_ok_def)
next
  case (Some a)
  obtain r q where s: "rowDecoderStage1B s = Some r" "rowDecoderStage2 s = Some q"
    using R Some by (auto simp: pb_ready_def pb_shape_def)
  have *: "bd_ready T ip a" "bd_rc a" "stage_ok T ip r" "stage_ok T ip q"
    using R Some s by (simp_all add: pb_ready_def pb_rc_def)
  obtain a' r' q' where "BasicDecoder_CalculateLatency T ip ramp a = Inr a'"
    "RowDecoder_CalculateLatency T ip (bd_rampOutput a') r = Inr r'"
    "RowDecoder_CalculateLatency T ip (rd_rampOutput r') q = Inr q'"
    "bd_ready T ip a'" "bd_rc a'" "stage_ok T ip r'" "stage_ok T ip q'"
    "fnn (readLatency a' + readLatency r' + readLatency q')" "fnn (rd_rampOutput q')"
    using three_stages [OF * R(3)] by blast
  then show ?thesis using R s Some
    by (simp add: path_B_def path_ok_def deref_def pb_ready_def pb_rc_def pb_shape_def pb_counts_def
        geometry_def power_of_def)
qed

lemma path_C_ok:
  assumes R: "pb_ready T ip s" "pb_rc s" "fpos ramp"
  shows "path_ok T ip s (path_C T ip ramp s)"
proof (cases "basicDecoderC s")
  case None
  then show ?thesis using R by (simp add: path_C_def path_ok_def)
next
  case (Some a)
  obtain r q where s: "rowDecoderStage1C s = Some r" "rowDecoderStage2 s = Some q"
    using R Some by (auto simp: pb_ready_def pb_shape_def)
  have *: "bd_ready T ip a" "bd_rc a" "stage_ok T ip r" "stage_ok T ip q"
    using R Some s by (simp_all add: pb_ready_def pb_rc_def)
  obtain a' r' q' where "BasicDecoder_CalculateLatency T ip ramp a = Inr a'"
    "RowDecoder_CalculateLatency T ip (bd_rampOutput a') r = Inr r'"
    "RowDecoder_CalculateLatency T ip (rd_rampOutput r') q = Inr q'"
    "bd_ready T ip a'" "bd_rc a'" "stage_ok T ip r'" "stage_ok T ip q'"
    "fnn (readLatency a' + readLatency r' + readLatency q')" "fnn (rd_rampOutput q')"
    using three_stages [OF * R(3)] by blast
  then show ?thesis using R s Some
    by (simp add: path_C_def path_ok_def deref_def pb_ready_def pb_rc_def pb_shape_def pb_counts_def
        geometry_def power_of_def)
qed

lemma pb_delay:
  assumes R: "pb_ready T ip s" "pb_rc s" "fpos ramp"
  shows "\<exists>s'. PredecodeBlock_CalculateLatency T ip ramp s = Inr s' \<and> pb_ready T ip s' \<and> pb_rc s'
      \<and> geometry s' = geometry s \<and> latency_ok s' \<and> fpos (pb_rampOutput s') \<and> power_of s' = power_of s"
proof -
  obtain sa da ra where A: "path_A1 T ip ramp s = Inr (sa, da, ra)" "pb_ready T ip sa" "pb_rc sa"
    "geometry sa = geometry s" "power_of sa = power_of s" "fpos da" "fpos ra"
    "\<forall>a. basicDecoderA1 sa = Some a \<longrightarrow> fpos (readLatency a)"
    using path_A1_ok [OF R] by blast
  obtain sb db rb where B: "path_A2 T ip ramp sa = Inr (sb, db, rb)" "pb_ready T ip sb" "pb_rc sb"
    "geometry sb = geometry s" "power_of sb = power_of s" "fnn db" "fnn rb"
    using path_A2_ok [OF A(2,3) R(3) A(8)] A(4,5) unfolding path_ok_def by auto
  obtain sc dc rc where C: "path_B T ip ramp sb = Inr (sc, dc, rc)" "pb_ready T ip sc" "pb_rc sc"
    "geometry sc = geometry s" "power_of sc = power_of s" "fnn dc" "fnn rc"
    using path_B_ok [OF B(2,3) R(3)] B(4,5) unfolding path_ok_def by auto
  obtain sd dd rd where D: "path_C T ip ramp sc = Inr (sd, dd, rd)" "pb_ready T ip sd" "pb_rc sd"
    "geometry sd = geometry s" "power_of sd = power_of s" "fnn dd" "fnn rd"
    using path_C_ok [OF C(2,3) R(3)] C(4,5) unfolding path_ok_def by auto
  define l where "l = std_max (std_max (std_max (std_max 0 da) db) dc) dd"
  define q where "q = std_max (std_max (std_max (std_max 0 ra) rb) rc) rd"
  define s' where "s' = sd\<lparr>pb_rampInput := ramp, pb_rampOutput := q, readLatency := l, writeLatency := l\<rparr>"
  have init: "pb_initialized s" "pb_numAddressBit s \<noteq> 0" using R(1) by (simp_all add: pb_ready_def)
  have res: "PredecodeBlock_CalculateLatency T ip ramp s = Inr s'"
    unfolding PredecodeBlock_CalculateLatency_def A(1) ebind_simps prod.case B(1) C(1) D(1) Let_def
      s'_def l_def q_def
    using init by simp
  have "fpos l" "fpos q" using A(6,7) B(6,7) C(6,7) D(6,7) by (simp_all add: l_def q_def fsign)
  then show ?thesis
    using res D(2-5)
    by (auto simp: s'_def pb_ready_def pb_rc_def pb_shape_def pb_counts_def geometry_def power_of_def latency_ok_def)
qed

lemma sum_part_ok:
  assumes "fnn (fst s)" "opt_all (\<lambda>d. fnn (leakage d) \<and> fnn (readDynamicEnergy d)) d"
  shows "fnn (fst (sum_part d s))" "fpos (snd s) \<Longrightarrow> fpos (snd (sum_part d s))"
  using assms by (cases d; simp add: sum_part_def fsign)+

lemma pb_power:
  assumes R: "pb_ready T ip s" "pb_rc s"
  shows "\<exists>s'. PredecodeBlock_CalculatePower T ip cell s = Inr s' \<and> pb_ready T ip s' \<and> pb_rc s'
      \<and> geometry s' = geometry s \<and> latency_of s' = latency_of s \<and> power_ok s'"
proof -
  have sh: "pb_shape s" "pb_counts s" "pb_initialized s" "0 < pb_numAddressBit s"
    using R by (simp_all add: pb_ready_def)
  define bd where "bd = opt_op (BasicDecoder_CalculatePower T ip)"
  define rd where "rd = opt_op (RowDecoder_CalculatePower T ip cell)"
  define P where "P d \<longleftrightarrow> bd_ready T ip d \<and> bd_rc d" for d
  define Q where "Q d d' \<longleftrightarrow> bd_ready T ip d' \<and> bd_rc d' \<and> power_ok d'" for d d' :: BasicDecoder
  define Q' where "Q' r r' \<longleftrightarrow> stage_ok T ip r'" for r r' :: RowDecoder
  have B: "\<exists>x'. bd x = Inr x' \<and> rel_option Q x x'" if "opt_all P x" for x
    unfolding bd_def by (rule opt_op_ok [OF that]) (use bd.power_law in \<open>fastforce simp: Q_def P_def\<close>)
  have D: "\<exists>x'. rd x = Inr x' \<and> rel_option Q' x x'" if "opt_all (stage_ok T ip) x" for x
    unfolding rd_def by (rule opt_op_ok [OF that]) (use stage_power in \<open>fastforce simp: Q'_def\<close>)
  have P: "opt_all P (basicDecoderA1 s)" "opt_all P (basicDecoderA2 s)" "opt_all P (basicDecoderB s)"
    "opt_all P (basicDecoderC s)"
    using R by (simp_all add: pb_ready_def pb_rc_def opt_all_def P_def)
  obtain a1 where a1: "bd (basicDecoderA1 s) = Inr a1" "rel_option Q (basicDecoderA1 s) a1" using B P by blast
  obtain a2 where a2: "bd (basicDecoderA2 s) = Inr a2" "rel_option Q (basicDecoderA2 s) a2" using B P by blast
  obtain b where b: "bd (basicDecoderB s) = Inr b" "rel_option Q (basicDecoderB s) b" using B P by blast
  obtain c where c: "bd (basicDecoderC s) = Inr c" "rel_option Q (basicDecoderC s) c" using B P by blast
  obtain ra where ra: "rd (rowDecoderStage1A s) = Inr ra" "rel_option Q' (rowDecoderStage1A s) ra"
    using D R by (auto simp: pb_ready_def)
  obtain rb where rb: "rd (rowDecoderStage1B s) = Inr rb" "rel_option Q' (rowDecoderStage1B s) rb"
    using D R by (auto simp: pb_ready_def)
  obtain rc where rc: "rd (rowDecoderStage1C s) = Inr rc" "rel_option Q' (rowDecoderStage1C s) rc"
    using D R by (auto simp: pb_ready_def)
  have upd: "upd_reached (basicDecoderB s) (basicDecoderC s) c = c"
    "upd_reached (rowDecoderStage1A s) (rowDecoderStage1B s) rb = rb"
    "upd_reached (rowDecoderStage1B s) (rowDecoderStage1C s) rc = rc"
    using sh(1) c(2) rb(2) rc(2) by (auto simp: pb_shape_def intro!: upd_reached_same)
  define e where "e = sum_part (rowDecoderStage2 s) (sum_part rc (sum_part rb (sum_part ra
    (sum_part c (sum_part b (sum_part a2 (sum_part a1 (0, 0))))))))"
  define s' where "s' = s\<lparr>basicDecoderA1 := a1, basicDecoderA2 := a2, basicDecoderB := b, basicDecoderC := c,
      rowDecoderStage1A := ra, rowDecoderStage1B := rb, rowDecoderStage1C := rc,
      leakage := fst e, readDynamicEnergy := snd e, writeDynamicEnergy := snd e\<rparr>"
  have res: "PredecodeBlock_CalculatePower T ip cell s = Inr s'"
    unfolding PredecodeBlock_CalculatePower_def Let_def bd_def [symmetric] rd_def [symmetric]
      reach_shape [OF sh(1)]
    unfolding a1(1) a2(1) b(1) c(1) ra(1) rb(1) rc(1) ebind_simps upd s'_def e_def
    using sh(3,4) by simp
  let ?F = "\<lambda>d. fnn (leakage d) \<and> fnn (readDynamicEnergy d)"
  have "opt_all (bd_ready T ip) x' \<and> opt_all bd_rc x' \<and> (x' = None) = (x = None) \<and> opt_all ?F x'
      \<and> opt_all (\<lambda>d. fpos (readDynamicEnergy d)) x'" if "rel_option Q x x'" for x x'
    using that by (cases x; cases x') (simp_all add: Q_def power_ok_def fpos_fnn)
  note B' = this [OF a1(2)] this [OF a2(2)] this [OF b(2)] this [OF c(2)]
  have "opt_all (stage_ok T ip) x' \<and> (x' = None) = (x = None) \<and> opt_all ?F x'" if "rel_option Q' x x'" for x x'
    using that by (cases x; cases x') (simp_all add: Q'_def stage_ok_def)
  note D' = this [OF ra(2)] this [OF rb(2)] this [OF rc(2)]
  have r2: "opt_all ?F (rowDecoderStage2 s)"
    using R by (auto simp: pb_ready_def opt_all_def stage_ok_def)
  have ready: "pb_ready T ip s'"
    using R(1) B' D' by (simp add: pb_ready_def s'_def pb_shape_def pb_counts_def)
  have rcs: "pb_rc s'" using B' by (simp add: pb_rc_def s'_def)
  obtain d where d: "a1 = Some d" "fpos (readDynamicEnergy d)" "fnn (leakage d)"
    using B'(1) sh(1) by (cases a1) (auto simp: pb_shape_def)
  have 0: "fnn (fst (sum_part a1 (0, 0)))" "fpos (snd (sum_part a1 (0, 0)))"
    using d by (simp_all add: sum_part_def fsign)
  have "fnn (fst e) \<and> fpos (snd e)"
    unfolding e_def using 0 B' D' r2 by (simp add: sum_part_ok)
  then have "power_ok s'" by (simp add: power_ok_def s'_def)
  moreover have "geometry s' = geometry s" "latency_of s' = latency_of s"
    by (simp_all add: geometry_def latency_of_def s'_def)
  ultimately show ?thesis using res ready rcs by blast
qed

interpretation pb: component "pb_ready T ip" pb_rc pb_rampOutput "PredecodeBlock_CalculateArea T"
  "PredecodeBlock_CalculateRC T" "PredecodeBlock_CalculateLatency T ip" "PredecodeBlock_CalculatePower T ip cell"
  for T ip cell
proof
  fix s :: PredecodeBlock
  assume R: "pb_ready T ip s"
  show "\<exists>s'. PredecodeBlock_CalculateArea T s = Inr s' \<and> pb_ready T ip s' \<and> (pb_rc s \<longrightarrow> pb_rc s')
      \<and> geometry_ok s' \<and> power_of s' = power_of s" by (rule pb_area [OF R])
  show "\<exists>s'. PredecodeBlock_CalculateRC T s = Inr s' \<and> pb_ready T ip s' \<and> pb_rc s'
      \<and> geometry s' = geometry s \<and> power_of s' = power_of s" by (rule pb_parasitics [OF R])
  assume "pb_rc s"
  then show "\<exists>s'. PredecodeBlock_CalculatePower T ip cell s = Inr s' \<and> pb_ready T ip s' \<and> pb_rc s'
      \<and> geometry s' = geometry s \<and> latency_of s' = latency_of s \<and> power_ok s'" by (rule pb_power [OF R])
next
  fix s :: PredecodeBlock and ramp
  assume "pb_ready T ip s" "pb_rc s" "fpos ramp"
  then show "\<exists>s'. PredecodeBlock_CalculateLatency T ip ramp s = Inr s' \<and> pb_ready T ip s' \<and> pb_rc s'
      \<and> geometry s' = geometry s \<and> latency_ok s' \<and> fpos (pb_rampOutput s') \<and> power_of s' = power_of s"
    by (rule pb_delay)
qed

end
