(* ===== verification/TSV.thy ===== *)
theory TSV
  imports FunctionUnit
begin

text \<open>
  A through-silicon via and its optional buffer chain (\<open>TSV.cpp\<close>).
\<close>

record TSV = FunctionUnit +
  tsv_res :: dbl
  tsv_cap :: dbl
  C_load_TSV :: dbl
  min_area :: dbl
  tsv_F :: dbl
  num_gates :: int
  w_TSV_n :: "dbl list"
  w_TSV_p :: "dbl list"
  numTotalBits :: int
  numAccessBits :: int
  numReadBits :: int
  numDataBits :: int
  TSV_metal_area :: dbl
  buffer_area :: dbl
  buffer_area_height :: dbl
  buffer_area_width :: dbl
  tsv_type :: int
  tsv_initialized :: bool
  tsv_invalid :: bool

definition TSV_new :: "TSV \<Rightarrow> TSV" where
  "TSV_new raw = (FunctionUnit_new raw)\<lparr>w_TSV_n := replicate 20 0, w_TSV_p := replicate 20 0,
     numTotalBits := 0, numAccessBits := 0, tsv_initialized := False, tsv_invalid := True\<rparr>"

definition TSV_Initialize :: "Technology \<Rightarrow> TSV_type \<Rightarrow> bool \<Rightarrow> TSV \<Rightarrow> TSV res" where
  "TSV_Initialize T ty buffered v =
     (let F = featureSize T;
          min_w_pmos = pnSizeRatio T * MIN_NMOS_SIZE * F;
          v0 = v\<lparr>tsv_cap := capTSV T ty, tsv_res := resTSV T ty,
                min_area := areaTSV T ty * lit 1 (-12)\<rparr>
      in ebind (if \<not> buffered then Inr (v0\<lparr>num_gates := 0\<rparr>)
                else
                  let w0 = MIN_NMOS_SIZE * 5 * F;
                      p0 = w0 * pnSizeRatio T;
                      c_load = tsv_cap v0 + CalculateGateCap (MIN_NMOS_SIZE * F + min_w_pmos) T
                  in ebind (aset (w_TSV_n v0) 0 w0) (\<lambda>wn. ebind (aset (w_TSV_p v0) 0 p0) (\<lambda>wp.
                     let F' = c_load / CalculateGateCap (w0 + p0) T
                     in ebind (logical_effort 1 1 F' wn wp c_load (pnSizeRatio T)
                                 (MAX_NMOS_SIZE * F) T) (\<lambda>(ng, wn', wp').
                        Inr (v0\<lparr>C_load_TSV := c_load, tsv_F := F', num_gates := ng,
                                w_TSV_n := wn', w_TSV_p := wp'\<rparr>))))) (\<lambda>v1.
         Inr (v1\<lparr>tsv_initialized := True,
                 tsv_invalid := (if MAX_NUMBER_GATES_STAGE < num_gates v1 then True
                                 else tsv_invalid v1)\<rparr>)))"

text \<open>The area does not ask for initialization.\<close>

definition TSV_CalculateArea :: "Technology \<Rightarrow> InputParameter \<Rightarrow> TSV \<Rightarrow> TSV res" where
  "TSV_CalculateArea T ip v =
     (let t = i2d (ip_temperature ip)
      in ebind (for_up 0 (num_gates v) (\<lambda>i (cumulative_area, cumulative_curr_Ig).
           ebind (aget (w_TSV_n v) i) (\<lambda>wn. ebind (aget (w_TSV_p v) i) (\<lambda>wp.
           ebind (CalculateGateArea INV 1 wn wp (featureSize T * MAX_TRANSISTOR_HEIGHT) T)
             (\<lambda>(_, _, a).
           ebind (CalculateGateLeakage INV 1 wn wp t T) (\<lambda>l.
             Inr (cumulative_area + a, cumulative_curr_Ig + l)))))) (0, 0))
         (\<lambda>(cumulative_area, cumulative_curr_Ig).
         let bh = 50 * featureSize T;
             metal = min_area v * lit 31416 (-4) / 16
         in Inr (v\<lparr>buffer_area_height := bh, leakage := cumulative_curr_Ig * vdd T,
                   buffer_area := cumulative_area, buffer_area_width := cumulative_area / bh,
                   TSV_metal_area := metal,
                   area := (if cumulative_area < min_area v - metal then min_area v
                            else cumulative_area + metal)\<rparr>)))"

definition tsv_beta :: dbl where "tsv_beta = lit 5 (-1)"

text \<open>The two drain capacitances of stage \<open>i\<close>.\<close>

definition tsv_intrinsic :: "Technology \<Rightarrow> TSV \<Rightarrow> int \<Rightarrow> dbl res" where
  "tsv_intrinsic T v i =
     (let hr = featureSize T * MAX_TRANSISTOR_HEIGHT
      in ebind (aget (w_TSV_p v) i) (\<lambda>wp. ebind (CalculateDrainCap wp PMOS hr T) (\<lambda>dp.
         ebind (aget (w_TSV_n v) i) (\<lambda>wn. ebind (CalculateDrainCap wn NMOS hr T) (\<lambda>dn.
           Inr (dp + dn))))))"

text \<open>One stage that drives the next one: energy, delay and output ramp.\<close>

definition tsv_stage ::
  "Technology \<Rightarrow> InputParameter \<Rightarrow> TSV \<Rightarrow> int \<Rightarrow> dbl \<Rightarrow> (dbl \<times> dbl \<times> dbl) res" where
  "tsv_stage T ip v i ramp =
     ebind (aget (w_TSV_n v) i) (\<lambda>wn.
     ebind (CalculateOnResistance wn NMOS (i2d (ip_temperature ip)) T) (\<lambda>rd.
     ebind (aget (w_TSV_n v) (i + 1)) (\<lambda>wn1. ebind (aget (w_TSV_p v) (i + 1)) (\<lambda>wp1.
     ebind (CalculateGateCapacitance INV 1 wn1 wp1 (featureSize T * MAX_TRANSISTOR_HEIGHT) T)
       (\<lambda>(ci, co).
     ebind (tsv_intrinsic T v i) (\<lambda>c_intrinsic.
       let c_load = ci + co;
           tf = rd * (c_intrinsic + c_load);
           (d, rout) = horowitz tf tsv_beta ramp
       in Inr ((c_load + c_intrinsic) * vdd T * vdd T, d, rout)))))))"

text \<open>
  \<open>_CalculateLatencyAndPower\<close>: the new value of the energy member it is given (\<open>e0\<close> is its value
  before the call) and the latency.
\<close>

definition TSV_latency_power ::
  "Technology \<Rightarrow> InputParameter \<Rightarrow> TSV \<Rightarrow> dbl \<Rightarrow> dbl \<Rightarrow> (dbl \<times> dbl) res" where
  "TSV_latency_power T ip v ramp e0 =
     (if 0 < num_gates v then
        ebind (tsv_stage T ip v 0 ramp) (\<lambda>(e, d, rout).
        ebind (for_up 1 (num_gates v - 1) (\<lambda>i (en, delay, rin).
          ebind (tsv_stage T ip v i rin) (\<lambda>(e, d, rout). Inr (en + e, delay + d, rout)))
          (e, 0 + d, rout)) (\<lambda>(en, delay, rin).
        let i = num_gates v - 1; c_load = C_load_TSV v
        in ebind (aget (w_TSV_n v) i) (\<lambda>wn.
           ebind (CalculateOnResistance wn NMOS (i2d (ip_temperature ip)) T) (\<lambda>rd.
           ebind (tsv_intrinsic T v i) (\<lambda>c_intrinsic.
             let tf = rd * (c_intrinsic + c_load) + tsv_res v * c_load / 2;
                 (d, rout) = horowitz tf tsv_beta rin
             in Inr (en + (c_load + c_intrinsic) * vdd T * vdd T, delay + d))))))
      else
        let c_load = tsv_cap v;
            tf = tsv_res v * c_load / 2;
            (d, rout) = horowitz tf tsv_beta ramp
        in Inr (e0 + c_load * vdd T * vdd T, 0 + d))"

definition TSV_CalculateLatencyAndPower ::
  "Technology \<Rightarrow> InputParameter \<Rightarrow> dbl \<Rightarrow> dbl \<Rightarrow> TSV \<Rightarrow> TSV res" where
  "TSV_CalculateLatencyAndPower T ip rampRead rampWrite v =
     ebind (guard_exit (rampRead \<noteq> 0 \<and> rampWrite \<noteq> 0)) (\<lambda>_.
     ebind (TSV_latency_power T ip v rampRead (readDynamicEnergy v)) (\<lambda>(er, lr).
     ebind (TSV_latency_power T ip v rampWrite (writeDynamicEnergy v)) (\<lambda>(ew, lw).
       Inr (v\<lparr>readDynamicEnergy := er, readLatency := lr,
              writeDynamicEnergy := ew, writeLatency := lw,
              setDynamicEnergy := ew, resetDynamicEnergy := ew,
              setLatency := lw, resetLatency := lw\<rparr>))))"

definition TSV_assign :: "TSV \<Rightarrow> TSV \<Rightarrow> TSV" where
  "TSV_assign lhs rhs = (FunctionUnit_copy lhs rhs)\<lparr>
     tsv_res := tsv_res rhs, tsv_cap := tsv_cap rhs, C_load_TSV := C_load_TSV rhs,
     min_area := min_area rhs, tsv_F := tsv_F rhs, num_gates := num_gates rhs,
     w_TSV_n := w_TSV_n rhs, w_TSV_p := w_TSV_p rhs, numTotalBits := numTotalBits rhs,
     numAccessBits := numAccessBits rhs, numReadBits := numReadBits rhs,
     numDataBits := numDataBits rhs, TSV_metal_area := TSV_metal_area rhs,
     buffer_area := buffer_area rhs, buffer_area_height := buffer_area_height rhs,
     buffer_area_width := buffer_area_width rhs, tsv_type := tsv_type rhs,
     tsv_initialized := tsv_initialized rhs, tsv_invalid := tsv_invalid rhs\<rparr>"

subsection \<open>An unbuffered TSV\<close>

text \<open>Without buffers the energy of a transfer is added to what the member held before.\<close>

lemma TSV_unbuffered:
  assumes "num_gates v = 0" "fpos rr" "fpos rw"
  shows "\<exists>v'. TSV_CalculateLatencyAndPower T ip rr rw v = Inr v' \<and> num_gates v' = 0
    \<and> tsv_cap v' = tsv_cap v \<and> tsv_res v' = tsv_res v
    \<and> readDynamicEnergy v' = readDynamicEnergy v + tsv_cap v * vdd T * vdd T
    \<and> writeDynamicEnergy v' = writeDynamicEnergy v + tsv_cap v * vdd T * vdd T
    \<and> readLatency v' = 0 + fst (horowitz (tsv_res v * tsv_cap v / 2) tsv_beta rr)"
proof -
  have "rr \<noteq> 0" "rw \<noteq> 0" using assms(2,3) by (auto simp: fpos_def dbl_zero)
  then show ?thesis
    by (simp add: TSV_CalculateLatencyAndPower_def TSV_latency_power_def assms(1) Let_def split: prod.split)
qed

lemma TSV_Initialize_invalid:
  "TSV_Initialize T ty buffered v = Inr v' \<Longrightarrow> tsv_invalid v \<Longrightarrow> tsv_invalid v'"
  by (auto simp: TSV_Initialize_def Let_def split: if_splits)

end
