(* ===== verification/SampleUnits.thy ===== *)
theory SampleUnits
  imports PredecodeBlock TSV
begin

text \<open>
  Raw memory for the components, all zero, used to exhibit instances of the theorems.
\<close>

definition sample_driver :: OutputDriver where
  "sample_driver = \<lparr>
     height = 0, width = 0, area = 0, readLatency = 0, writeLatency = 0, readDynamicEnergy = 0,
     writeDynamicEnergy = 0, leakage = 0, setLatency = 0, resetLatency = 0, refreshLatency = 0,
     setDynamicEnergy = 0, resetDynamicEnergy = 0, cellReadEnergy = 0, cellSetEnergy = 0,
     cellResetEnergy = 0, refreshDynamicEnergy = 0, od_initialized = False, od_invalid = False,
     logicEffort = 0, inputCap = 0, outputCap = 0, outputRes = 0, inv = False, numStage = 0,
     od_areaOptimizationLevel = latency_first, od_minDriverCurrent = 0,
     widthNMOS = replicate 20 0, widthPMOS = replicate 20 0, capInput = replicate 20 0,
     capOutput = replicate 20 0, od_rampInput = 0, od_rampOutput = 0\<rparr>"

definition sample_basic :: BasicDecoder where
  "sample_basic = \<lparr>
     height = 0, width = 0, area = 0, readLatency = 0, writeLatency = 0, readDynamicEnergy = 0,
     writeDynamicEnergy = 0, leakage = 0, setLatency = 0, resetLatency = 0, refreshLatency = 0,
     setDynamicEnergy = 0, resetDynamicEnergy = 0, cellReadEnergy = 0, cellSetEnergy = 0,
     cellResetEnergy = 0, refreshDynamicEnergy = 0, bd_initialized = False,
     bd_outputDriver = sample_driver, bd_capLoad = 0, bd_resLoad = 0, bd_numNandInput = 0,
     bd_numNandGate = 0, bd_widthNandN = 0, bd_widthNandP = 0, bd_capNandInput = 0,
     bd_capNandOutput = 0, bd_rampInput = 0, bd_rampOutput = 0\<rparr>"

definition sample_row :: RowDecoder where
  "sample_row = \<lparr>
     height = 0, width = 0, area = 0, readLatency = 0, writeLatency = 0, readDynamicEnergy = 0,
     writeDynamicEnergy = 0, leakage = 0, setLatency = 0, resetLatency = 0, refreshLatency = 0,
     setDynamicEnergy = 0, resetDynamicEnergy = 0, cellReadEnergy = 0, cellSetEnergy = 0,
     cellResetEnergy = 0, refreshDynamicEnergy = 0, rd_initialized = False, rd_invalid = False,
     rd_outputDriver = sample_driver, rd_numRow = 0, rd_multipleRowPerSet = False,
     rd_numNandInput = 0, rd_capLoad = 0, rd_resLoad = 0,
     rd_areaOptimizationLevel = latency_first, rd_minDriverCurrent = 0, rd_widthNandN = 0,
     rd_widthNandP = 0, rd_capNandInput = 0, rd_capNandOutput = 0, rd_rampInput = 0,
     rd_rampOutput = 0\<rparr>"

definition sample_predecoder :: PredecodeBlock where
  "sample_predecoder = \<lparr>
     height = 0, width = 0, area = 0, readLatency = 0, writeLatency = 0, readDynamicEnergy = 0,
     writeDynamicEnergy = 0, leakage = 0, setLatency = 0, resetLatency = 0, refreshLatency = 0,
     setDynamicEnergy = 0, resetDynamicEnergy = 0, cellReadEnergy = 0, cellSetEnergy = 0,
     cellResetEnergy = 0, refreshDynamicEnergy = 0, pb_initialized = False,
     rowDecoderStage1A = None, rowDecoderStage1B = None, rowDecoderStage1C = None,
     numNandInputStage1A = 0, numNandInputStage1B = 0, numNandInputStage1C = 0,
     numAddressBitStage1A = 0, numAddressBitStage1B = 0, numAddressBitStage1C = 0,
     rowDecoderStage2 = None, basicDecoderA1 = None, basicDecoderA2 = None, basicDecoderB = None,
     basicDecoderC = None, pb_capLoad = 0, pb_resLoad = 0, pb_numAddressBit = 0,
     numOutputAddressBit = 0, numDecoder12 = 0, numDecoder24 = 0, numDecoder38 = 0,
     numBasicDecoderA1 = 0, numBasicDecoderA2 = 0, capLoadBasicDecoderA1 = 0,
     capLoadBasicDecoderA2 = 0, capLoadBasicDecoderB = 0, capLoadBasicDecoderC = 0,
     pb_rampInput = 0, pb_rampOutput = 0\<rparr>"

definition sample_tsv :: TSV where
  "sample_tsv = \<lparr>
     height = 0, width = 0, area = 0, readLatency = 0, writeLatency = 0, readDynamicEnergy = 0,
     writeDynamicEnergy = 0, leakage = 0, setLatency = 0, resetLatency = 0, refreshLatency = 0,
     setDynamicEnergy = 0, resetDynamicEnergy = 0, cellReadEnergy = 0, cellSetEnergy = 0,
     cellResetEnergy = 0, refreshDynamicEnergy = 0, tsv_res = 1, tsv_cap = 1, C_load_TSV = 0,
     min_area = 0, tsv_F = 0, num_gates = 0, w_TSV_n = replicate 20 0, w_TSV_p = replicate 20 0,
     numTotalBits = 0, numAccessBits = 0, numReadBits = 0, numDataBits = 0, TSV_metal_area = 0,
     buffer_area = 0, buffer_area_height = 0, buffer_area_width = 0, tsv_type = 0,
     tsv_initialized = False, tsv_invalid = False\<rparr>"

lemma sample_driver_ok: "od_arrays sample_driver" "\<not> od_invalid sample_driver"
  by (simp_all add: od_arrays_def sample_driver_def)

lemma sample_raw_ok: "raw_ok sample_row sample_basic"
  by (simp add: raw_ok_def sample_row_def sample_basic_def sample_driver_ok)

lemma sample_loads:
  "fpos (gate_load sample_tech (MIN_NMOS_SIZE * featureSize sample_tech))"
  "ext_load sample_tech 0 0"
proof -
  show g: "fpos (gate_load sample_tech (MIN_NMOS_SIZE * featureSize sample_tech))"
    by (simp add: gate_load_def CalculateGateCap_def sample_tech_def dbl_lits)
  then obtain x where "gate_load sample_tech (MIN_NMOS_SIZE * featureSize sample_tech) = Fin x" "0 < x"
    by (auto simp: fpos_def)
  then show "ext_load sample_tech 0 0" by (simp add: ext_load_def dbl_lits)
qed

end
