(* ===== verification/Mux.thy ===== *)
theory Mux
  imports FunctionUnit
begin

text \<open>
  A pass-transistor multiplexer (\<open>Mux.cpp\<close>).  With one input, or with no multiplexer, there is no
  circuit and every result is zero.
\<close>

record Mux = FunctionUnit +
  mux_initialized :: bool
  mux_numInput :: int
  numMux :: int
  mux_capLoad :: dbl
  capInputNextStage :: dbl
  mux_minDriverCurrent :: dbl
  mux_capOutput :: dbl
  widthNMOSPassTransistor :: dbl
  resNMOSPassTransistor :: dbl
  capNMOSPassTransistor :: dbl
  capForPreviousDelayCalculation :: dbl
  capForPreviousPowerCalculation :: dbl
  mux_rampInput :: dbl
  mux_rampOutput :: dbl

definition Mux_new :: "Mux \<Rightarrow> Mux" where
  "Mux_new raw = (FunctionUnit_new raw)\<lparr>mux_initialized := False,
     capForPreviousPowerCalculation := 0, capForPreviousDelayCalculation := 0,
     capNMOSPassTransistor := 0, resNMOSPassTransistor := 0\<rparr>"

definition mux_needed :: "Mux \<Rightarrow> bool" where
  "mux_needed m \<longleftrightarrow> 1 < mux_numInput m \<and> 0 < numMux m"

text \<open>
  For the resistive memories the transistor must also be wide enough not to disturb the voltage
  division with the cell, up to the largest transistor.
\<close>

definition pass_transistor_width ::
  "Technology \<Rightarrow> InputParameter \<Rightarrow> MemCell \<Rightarrow> dbl \<Rightarrow> dbl res" where
  "pass_transistor_width T ip cell minNMOSWidth =
     (let F = featureSize T in
      if memCellType cell = MRAM \<or> memCellType cell = PCRAM \<or> memCellType cell = memristor then
        ebind (CalculateOnResistance F NMOS (i2d (ip_temperature ip)) T) (\<lambda>r.
          let maxRes = resistanceOn cell * IR_DROP_TOLERANCE;
              w = r * F / maxRes;
              w' = (if maxNmosSize ip * F < w then maxNmosSize ip * F else w)
          in Inr (cMAX (cMAX w' minNMOSWidth) (6 * MIN_NMOS_SIZE * F)))
      else Inr (cMAX (6 * MIN_NMOS_SIZE * F) minNMOSWidth))"

definition Mux_Initialize ::
  "Technology \<Rightarrow> InputParameter \<Rightarrow> MemCell \<Rightarrow> int \<Rightarrow> int \<Rightarrow> dbl \<Rightarrow> dbl \<Rightarrow> dbl \<Rightarrow> Mux \<Rightarrow> Mux res" where
  "Mux_Initialize T ip cell ni nm cap capNext minCurrent m =
     (let m0 = m\<lparr>mux_numInput := ni, numMux := nm, mux_capLoad := cap,
                capInputNextStage := capNext, mux_minDriverCurrent := minCurrent\<rparr>
      in if mux_needed m0 then
           ebind (aget (currentOnNmos T) (ip_temperature ip - 300)) (\<lambda>ion.
           ebind (pass_transistor_width T ip cell (minCurrent / ion)) (\<lambda>w.
             Inr (m0\<lparr>widthNMOSPassTransistor := w, mux_initialized := True\<rparr>)))
         else Inr (m0\<lparr>mux_initialized := True\<rparr>))"

definition Mux_CalculateArea :: "Technology \<Rightarrow> Mux \<Rightarrow> Mux res" where
  "Mux_CalculateArea T m =
     (if \<not> mux_initialized m then Inr m
      else if mux_needed m then
        ebind (CalculateGateArea INV 1 (widthNMOSPassTransistor m) 0 (featureSize T * 40) T)
          (\<lambda>(h, w, _).
            let wd = i2d (numMux m) * i2d (mux_numInput m) * w
            in Inr (m\<lparr>width := wd, height := h, area := wd * h\<rparr>))
      else Inr (m\<lparr>height := 0, width := 0, area := 0\<rparr>))"

definition Mux_CalculateRC :: "Technology \<Rightarrow> InputParameter \<Rightarrow> Mux \<Rightarrow> Mux res" where
  "Mux_CalculateRC T ip m =
     (if \<not> mux_initialized m then Inr m
      else if mux_needed m then
        ebind (CalculateDrainCap (widthNMOSPassTransistor m) NMOS (featureSize T * 40) T) (\<lambda>c.
        ebind (CalculateOnResistance (widthNMOSPassTransistor m) NMOS (i2d (ip_temperature ip)) T)
          (\<lambda>r.
            let co = i2d (mux_numInput m) * c
            in Inr (m\<lparr>capNMOSPassTransistor := c, capForPreviousPowerCalculation := c,
                      mux_capOutput := co,
                      capForPreviousDelayCalculation := co + c + mux_capLoad m,
                      resNMOSPassTransistor := r\<rparr>)))
      else Inr m)"

definition Mux_CalculateLatency :: "dbl \<Rightarrow> Mux \<Rightarrow> Mux" where
  "Mux_CalculateLatency ramp m =
     (if \<not> mux_initialized m then m
      else if mux_needed m then
        let tr = resNMOSPassTransistor m * (mux_capOutput m + mux_capLoad m);
            l = lit 23 (-1) * tr
        in m\<lparr>mux_rampInput := ramp, readLatency := l, writeLatency := l\<rparr>
      else m\<lparr>readLatency := 0, writeLatency := 0\<rparr>)"

definition Mux_CalculatePower :: "Technology \<Rightarrow> Mux \<Rightarrow> Mux" where
  "Mux_CalculatePower T m =
     (if \<not> mux_initialized m then m
      else if mux_needed m then
        let e = (mux_capOutput m + capInputNextStage m) * vdd T * (vdd T - vth T) * i2d (numMux m)
        in m\<lparr>leakage := 0, readDynamicEnergy := e, writeDynamicEnergy := e\<rparr>
      else m\<lparr>readDynamicEnergy := 0, writeDynamicEnergy := 0, leakage := 0\<rparr>)"

text \<open>The assignment operator copies none of the set, reset, refresh and cell values.\<close>

definition Mux_assign :: "Mux \<Rightarrow> Mux \<Rightarrow> Mux" where
  "Mux_assign lhs rhs = lhs\<lparr>height := height rhs, width := width rhs, area := area rhs,
     readLatency := readLatency rhs, writeLatency := writeLatency rhs,
     readDynamicEnergy := readDynamicEnergy rhs, writeDynamicEnergy := writeDynamicEnergy rhs,
     leakage := leakage rhs, mux_initialized := mux_initialized rhs,
     mux_numInput := mux_numInput rhs, numMux := numMux rhs, mux_capLoad := mux_capLoad rhs,
     capInputNextStage := capInputNextStage rhs, mux_minDriverCurrent := mux_minDriverCurrent rhs,
     mux_capOutput := mux_capOutput rhs, widthNMOSPassTransistor := widthNMOSPassTransistor rhs,
     resNMOSPassTransistor := resNMOSPassTransistor rhs,
     capNMOSPassTransistor := capNMOSPassTransistor rhs,
     capForPreviousDelayCalculation := capForPreviousDelayCalculation rhs,
     capForPreviousPowerCalculation := capForPreviousPowerCalculation rhs,
     mux_rampInput := mux_rampInput rhs, mux_rampOutput := mux_rampOutput rhs\<rparr>"

end
