(* ===== verification/Comparator.thy ===== *)
theory Comparator
  imports OutputDriver
begin

text \<open>
  The tag comparator of a cache (\<open>Comparator.cpp\<close>): four quarter comparators, each fed by a fixed
  chain of four inverters.
\<close>

record Comparator = FunctionUnit +
  cmp_initialized :: bool
  numTagBits :: int
  cmp_capLoad :: dbl
  widthNMOSInv :: "dbl list"
  widthPMOSInv :: "dbl list"
  widthNMOSComp :: dbl
  widthPMOSComp :: dbl
  cmp_capInput :: "dbl list"
  cmp_capOutput :: "dbl list"
  capBottom :: dbl
  capTop :: dbl
  resBottom :: dbl
  resTop :: dbl
  cmp_rampInput :: dbl
  cmp_rampOutput :: dbl

text \<open>The four arrays have \<open>COMPARATOR_INV_CHAIN_LEN\<close> elements.\<close>

definition cmp_arrays :: "Comparator \<Rightarrow> bool" where
  "cmp_arrays c \<longleftrightarrow> length (widthNMOSInv c) = 4 \<and> length (widthPMOSInv c) = 4
     \<and> length (cmp_capInput c) = 4 \<and> length (cmp_capOutput c) = 4"

definition Comparator_new :: "Comparator \<Rightarrow> Comparator" where
  "Comparator_new raw = (FunctionUnit_new raw)\<lparr>cmp_initialized := False, cmp_capLoad := 0,
     cmp_rampOutput := lit 1 40\<rparr>"

text \<open>\<open>_numTagBits / 4\<close> is C's division, which truncates towards zero.\<close>

definition Comparator_Initialize ::
  "Technology \<Rightarrow> int \<Rightarrow> dbl \<Rightarrow> Comparator \<Rightarrow> Comparator" where
  "Comparator_Initialize T bits cap c =
     (let F = featureSize T
      in c\<lparr>numTagBits := (if 0 \<le> bits then bits div 4 else - (- bits div 4)), cmp_capLoad := cap,
           widthNMOSInv := [15 / 2 * F, 15 * F, 30 * F, 50 * F],
           widthPMOSInv := [25 / 2 * F, 25 * F, 50 * F, 100 * F],
           widthNMOSComp := 25 / 2 * F, widthPMOSComp := 75 / 2 * F, cmp_initialized := True\<rparr>)"

definition Comparator_CalculateArea :: "Technology \<Rightarrow> Comparator \<Rightarrow> Comparator res" where
  "Comparator_CalculateArea T c =
     (if \<not> cmp_initialized c then Inr c
      else
        ebind (for_up 0 COMPARATOR_INV_CHAIN_LEN (\<lambda>i (totalHeight, totalWidth).
          ebind (aget (widthNMOSInv c) i) (\<lambda>wn. ebind (aget (widthPMOSInv c) i) (\<lambda>wp.
          ebind (CalculateGateArea INV 1 wn wp (featureSize T * 40) T) (\<lambda>(h, w, _).
            Inr (cMAX totalHeight h, totalWidth + w))))) (0, 0)) (\<lambda>(totalHeight, totalWidth).
        ebind (CalculateGateArea NAND 2 (widthNMOSComp c) 0 (featureSize T * 40) T) (\<lambda>(h, w, _).
        let th = totalHeight + h;
            tw = cMAX totalWidth (i2d (numTagBits c) * w)
        in Inr (c\<lparr>height := th * 1, width := tw * 4, area := (th * 1) * (tw * 4)\<rparr>))))"

definition Comparator_CalculateRC ::
  "Technology \<Rightarrow> InputParameter \<Rightarrow> Comparator \<Rightarrow> Comparator res" where
  "Comparator_CalculateRC T ip c =
     (if \<not> cmp_initialized c then Inr c
      else
        let hr = featureSize T * MAX_TRANSISTOR_HEIGHT; t = i2d (ip_temperature ip)
        in ebind (for_up 0 COMPARATOR_INV_CHAIN_LEN (\<lambda>i (ci, co).
             ebind (aget (widthNMOSInv c) i) (\<lambda>wn. ebind (aget (widthPMOSInv c) i) (\<lambda>wp.
             ebind (CalculateGateCapacitance INV 1 wn wp hr T) (\<lambda>(cin, cout).
             ebind (aset ci i cin) (\<lambda>ci'. ebind (aset co i cout) (\<lambda>co'. Inr (ci', co')))))))
             (cmp_capInput c, cmp_capOutput c)) (\<lambda>(ci, co).
           ebind (CalculateGateCapacitance NAND 2 (widthNMOSComp c) 0 (featureSize T * 40) T)
             (\<lambda>(capTemp, capComp).
           ebind (aget co (COMPARATOR_INV_CHAIN_LEN - 1)) (\<lambda>coLast.
           ebind (CalculateDrainCap (widthPMOSComp c) PMOS hr T) (\<lambda>dP.
           ebind (aget (widthNMOSInv c) (COMPARATOR_INV_CHAIN_LEN - 1)) (\<lambda>wLast.
           ebind (CalculateOnResistance wLast NMOS t T) (\<lambda>rb.
           ebind (CalculateOnResistance (widthNMOSComp c) NMOS t T) (\<lambda>rt.
             Inr (c\<lparr>cmp_capInput := ci, cmp_capOutput := co,
                    capBottom := coLast + i2d (numTagBits c) * capComp,
                    capTop := i2d (numTagBits c) * capComp + dP + cmp_capLoad c,
                    resBottom := rb, resTop := 2 * rt\<rparr>)))))))))"

definition Comparator_CalculateLatency ::
  "Technology \<Rightarrow> InputParameter \<Rightarrow> dbl \<Rightarrow> Comparator \<Rightarrow> Comparator res" where
  "Comparator_CalculateLatency T ip ramp c =
     (if \<not> cmp_initialized c then Inr c
      else
        ebind (for_up 0 (COMPARATOR_INV_CHAIN_LEN - 1) (\<lambda>i (lat, rin).
          ebind (aget (widthNMOSInv c) i) (\<lambda>w.
          ebind (aget (cmp_capOutput c) i) (\<lambda>co. ebind (aget (cmp_capInput c) (i + 1)) (\<lambda>ci.
          ebind (inverter_delay T ip w (\<lambda>r. r * (co + ci)) rin) (\<lambda>(d, temp).
            Inr (lat + d, temp)))))) (0, ramp)) (\<lambda>(lat, rin).
        let tr = resBottom c * capBottom c + (resBottom c + resTop c) * capTop c;
            (d, rout) = horowitz tr 0 rin
        in Inr (c\<lparr>cmp_rampInput := ramp, readLatency := lat + d, cmp_rampOutput := rout,
                  writeLatency := lat + d\<rparr>)))"

definition Comparator_CalculatePower ::
  "Technology \<Rightarrow> InputParameter \<Rightarrow> Comparator \<Rightarrow> Comparator res" where
  "Comparator_CalculatePower T ip c =
     (if \<not> cmp_initialized c then Inr c
      else
        let t = i2d (ip_temperature ip)
        in ebind (for_up 0 COMPARATOR_INV_CHAIN_LEN (\<lambda>i leak.
             ebind (aget (widthNMOSInv c) i) (\<lambda>wn. ebind (aget (widthPMOSInv c) i) (\<lambda>wp.
             ebind (CalculateGateLeakage INV 1 wn wp t T) (\<lambda>l. Inr (leak + l * vdd T))))) 0) (\<lambda>leak.
           ebind (CalculateGateLeakage NAND 2 (widthNMOSComp c) 0 t T) (\<lambda>l.
           ebind (for_up 0 (COMPARATOR_INV_CHAIN_LEN - 1) (\<lambda>i e.
             ebind (aget (cmp_capOutput c) i) (\<lambda>co. ebind (aget (cmp_capInput c) (i + 1)) (\<lambda>ci.
               Inr (e + (co + ci) * vdd T * vdd T)))) 0) (\<lambda>e.
           let e' = (e + (capBottom c + capTop c) * vdd T * vdd T) * 4
           in Inr (c\<lparr>leakage := (leak + i2d (numTagBits c) * l * vdd T) * 4,
                     readDynamicEnergy := e', writeDynamicEnergy := e'\<rparr>)))))"

definition Comparator_assign :: "Comparator \<Rightarrow> Comparator \<Rightarrow> Comparator" where
  "Comparator_assign lhs rhs = (FunctionUnit_copy lhs rhs)\<lparr>
     cmp_initialized := cmp_initialized rhs, numTagBits := numTagBits rhs,
     cmp_capLoad := cmp_capLoad rhs, widthNMOSComp := widthNMOSComp rhs,
     widthPMOSComp := widthPMOSComp rhs, capBottom := capBottom rhs, capTop := capTop rhs,
     resBottom := resBottom rhs, resTop := resTop rhs,
     widthNMOSInv := widthNMOSInv rhs, widthPMOSInv := widthPMOSInv rhs,
     cmp_capInput := cmp_capInput rhs, cmp_capOutput := cmp_capOutput rhs,
     cmp_rampInput := cmp_rampInput rhs, cmp_rampOutput := cmp_rampOutput rhs\<rparr>"

end
