(* ===== verification/SenseAmp.thy ===== *)
theory SenseAmp
  imports FunctionUnit
begin

text \<open>
  The sense amplifiers of a subarray (\<open>SenseAmp.cpp\<close>): one per column, with an I/V converter in
  front of it when the sensing is current-based.
\<close>

record SenseAmp = FunctionUnit +
  sa_initialized :: bool
  sa_invalid :: bool
  sa_numColumn :: int
  currentSense :: bool
  sa_senseVoltage :: dbl
  sa_capLoad :: dbl
  pitchSenseAmp :: dbl

definition SenseAmp_new :: "SenseAmp \<Rightarrow> SenseAmp" where
  "SenseAmp_new raw = (FunctionUnit_new raw)\<lparr>sa_initialized := False, sa_invalid := False\<rparr>"

definition SenseAmp_Initialize ::
  "Technology \<Rightarrow> int \<Rightarrow> bool \<Rightarrow> dbl \<Rightarrow> dbl \<Rightarrow> SenseAmp \<Rightarrow> SenseAmp" where
  "SenseAmp_Initialize T numColumn current voltage pitch sa =
     sa\<lparr>sa_numColumn := numColumn, currentSense := current, sa_senseVoltage := voltage,
        pitchSenseAmp := pitch,
        sa_invalid := (if pitch \<le> featureSize T * 3 then True else sa_invalid sa),
        sa_initialized := True\<rparr>"

text \<open>
  The layout exchanges width and height: of the area of a gate the first component (its height)
  is stacked into the width of the amplifier and the second one into its height.
\<close>

definition sense_layout ::
  "Technology \<Rightarrow> dbl \<Rightarrow> dbl \<Rightarrow> dbl \<Rightarrow> dbl \<Rightarrow> dbl \<times> dbl \<Rightarrow> (dbl \<times> dbl) res" where
  "sense_layout T wN wP pitch n hw =
     ebind (CalculateGateArea INV 1 wN wP pitch T) (\<lambda>(tempWidth, tempHeight, _).
       Inr (fst hw + n * tempHeight, cMAX (snd hw) tempWidth))"

definition SenseAmp_CalculateArea :: "Technology \<Rightarrow> SenseAmp \<Rightarrow> SenseAmp res" where
  "SenseAmp_CalculateArea T sa =
     (if \<not> sa_initialized sa then Inr sa
      else if sa_invalid sa
      then Inr (sa\<lparr>height := invalid_value, width := invalid_value, area := invalid_value\<rparr>)
      else
        let F = featureSize T; pitch = pitchSenseAmp sa;
            a = (if currentSense sa then 0 + IV_CONVERTER_AREA * F * F else 0);
            gap = 2 * MIN_GAP_BET_SAME_TYPE_DIFFS * F
        in ebind (sense_layout T 0 (W_SENSE_P * F) pitch 2 (0, 0)) (\<lambda>hw.
           ebind (sense_layout T 0 (W_SENSE_ISO * F) pitch 1 hw) (\<lambda>hw.
           let hw = (fst hw + gap, snd hw) in
           ebind (sense_layout T (W_SENSE_N * F) 0 pitch 2 hw) (\<lambda>hw.
           ebind (sense_layout T (W_SENSE_EN * F) 0 pitch 1 hw) (\<lambda>hw.
           let h = fst hw + gap + MIN_GAP_BET_P_AND_N_DIFFS * F;
               h = h * snd hw / pitch;
               h = h + a / pitch;
               w = pitch * i2d (sa_numColumn sa)
           in Inr (sa\<lparr>height := h, width := w, area := h * w\<rparr>))))))"

definition SenseAmp_CalculateRC :: "Technology \<Rightarrow> SenseAmp \<Rightarrow> SenseAmp res" where
  "SenseAmp_CalculateRC T sa =
     (if \<not> sa_initialized sa then Inr sa
      else if sa_invalid sa then Inr (sa\<lparr>readLatency := invalid_value, writeLatency := invalid_value\<rparr>)
      else
        let F = featureSize T; pitch = pitchSenseAmp sa
        in ebind (CalculateDrainCap (W_SENSE_N * F) NMOS pitch T) (\<lambda>c1.
           ebind (CalculateDrainCap (W_SENSE_P * F) PMOS pitch T) (\<lambda>c2.
           ebind (CalculateDrainCap (W_SENSE_ISO * F) PMOS pitch T) (\<lambda>c3.
           ebind (CalculateDrainCap (W_SENSE_MUX * F) NMOS pitch T) (\<lambda>c4.
             Inr (sa\<lparr>sa_capLoad := CalculateGateCap ((W_SENSE_P + W_SENSE_N) * F) T
                        + c1 + c2 + c3 + c4\<rparr>))))))"

definition iv_latency :: "dbl \<Rightarrow> dbl" where
  "iv_latency F =
     (if lit 179 (-9) \<le> F then lit 46 (-11)
      else if lit 119 (-9) \<le> F then lit 49 (-11)
      else if lit 89 (-9) \<le> F then lit 53 (-11)
      else if lit 64 (-9) \<le> F then lit 62 (-11)
      else if lit 44 (-9) \<le> F then lit 80 (-11)
      else if lit 31 (-9) \<le> F then lit 107 (-11)
      else lit 145 (-11))"

text \<open>Unlike the other operations, the latency does not test \<open>invalid\<close>.\<close>

definition SenseAmp_CalculateLatency :: "Technology \<Rightarrow> dbl \<Rightarrow> SenseAmp \<Rightarrow> SenseAmp" where
  "SenseAmp_CalculateLatency T ramp sa =
     (if \<not> sa_initialized sa then sa
      else
        let F = featureSize T;
            base = (if currentSense sa then 0 + iv_latency F else 0);
            gm = CalculateTransconductance (W_SENSE_N * F) NMOS T
                   + CalculateTransconductance (W_SENSE_P * F) PMOS T;
            tau = sa_capLoad sa / gm;
            l = base + tau * dlog (vdd T / sa_senseVoltage sa)
        in sa\<lparr>writeLatency := 0, readLatency := l, refreshLatency := l\<rparr>)"

text \<open>The dynamic energy and the leakage of the I/V converter.\<close>

definition iv_power :: "dbl \<Rightarrow> dbl \<times> dbl" where
  "iv_power F =
     (if lit 119 (-9) \<le> F then (lit 852 (-16), lit 140 (-10))
      else if lit 89 (-9) \<le> F then (lit 872 (-16), lit 187 (-10))
      else if lit 64 (-9) \<le> F then (lit 900 (-16), lit 257 (-10))
      else if lit 44 (-9) \<le> F then (lit 1026 (-16), lit 441 (-11))
      else if lit 31 (-9) \<le> F then (lit 1256 (-16), lit 1254 (-10))
      else (lit 15 (-14), lit 15 (-8)))"

definition SenseAmp_CalculatePower ::
  "Technology \<Rightarrow> InputParameter \<Rightarrow> SenseAmp \<Rightarrow> SenseAmp res" where
  "SenseAmp_CalculatePower T ip sa =
     (if \<not> sa_initialized sa then Inr sa
      else if sa_invalid sa
      then Inr (sa\<lparr>readDynamicEnergy := invalid_value, writeDynamicEnergy := invalid_value,
                   leakage := invalid_value\<rparr>)
      else
        let F = featureSize T;
            e0 = (if currentSense sa then 0 + fst (iv_power F) else 0);
            l0 = (if currentSense sa then 0 + snd (iv_power F) else 0)
        in ebind (CalculateGateLeakage INV 1 (W_SENSE_EN * F) 0 (i2d (ip_temperature ip)) T) (\<lambda>l.
           let idleCurrent = l * vdd T;
               e = (e0 + sa_capLoad sa * vdd T * vdd T) * i2d (sa_numColumn sa);
               lk = (l0 + idleCurrent * vdd T) * i2d (sa_numColumn sa)
           in Inr (sa\<lparr>writeDynamicEnergy := 0, readDynamicEnergy := e, leakage := lk,
                      refreshDynamicEnergy := e\<rparr>)))"

definition SenseAmp_assign :: "SenseAmp \<Rightarrow> SenseAmp \<Rightarrow> SenseAmp" where
  "SenseAmp_assign lhs rhs = (FunctionUnit_copy lhs rhs)\<lparr>
     refreshLatency := refreshLatency rhs, refreshDynamicEnergy := refreshDynamicEnergy rhs,
     sa_initialized := sa_initialized rhs, sa_invalid := sa_invalid rhs,
     sa_numColumn := sa_numColumn rhs, currentSense := currentSense rhs,
     sa_senseVoltage := sa_senseVoltage rhs, sa_capLoad := sa_capLoad rhs,
     pitchSenseAmp := pitchSenseAmp rhs\<rparr>"

end
