(* ===== verification/Wire.thy ===== *)
theory Wire
  imports SenseAmp
begin

text \<open>
  A wire (\<open>Wire.h\<close>, \<open>Wire.cpp\<close>): its geometry and its resistance and capacitance per unit length
  from the tables of the process nodes, the repeaters inserted into it, and the delay, energy and
  leakage of a wire of a given length, with full or low swing.
\<close>

record Wire =
  wire_initialized :: bool
  wire_featureSizeInNano :: int
  wire_featureSize :: dbl
  wireType :: WireType
  wireRepeaterType :: WireRepeaterType
  wire_temperature :: int
  isLowSwing :: bool
  barrierThickness :: dbl
  horizontalDielectric :: dbl
  wirePitch :: dbl
  wire_aspectRatio :: dbl
  ildThickness :: dbl
  wireWidth :: dbl
  wireThickness :: dbl
  wireSpacing :: dbl
  repeaterSize :: dbl
  repeaterSpacing :: dbl
  repeaterHeight :: dbl
  repeaterWidth :: dbl
  repeatedWirePitch :: dbl
  resWirePerUnit :: dbl
  capWirePerUnit :: dbl
  wire_senseAmp :: "SenseAmp option"

definition Wire_new :: "Wire \<Rightarrow> Wire" where
  "Wire_new raw = raw\<lparr>wire_initialized := False, wire_senseAmp := None\<rparr>"

subsection \<open>The tables\<close>

text \<open>
  Barrier thickness, horizontal dielectric, pitch, aspect ratio, thickness of the inter-layer
  dielectric and resistivity of copper; the argument \<open>F\<close> is the feature size of the node.  From 65 nm
  on the resistivity is the default one.
\<close>

type_synonym wire_entry = "dbl \<times> dbl \<times> dbl \<times> dbl \<times> dbl \<times> dbl"

fun wire_table22 :: "dbl \<Rightarrow> WireType \<Rightarrow> wire_entry" where
  "wire_table22 F local_aggressive =
     (0, lit 255 (-2), 2 * F, lit 19 (-1), lit 19 (-1) * F, lit 6 (-8))"
| "wire_table22 F local_conservative =
     (lit 21 (-10), 3, 2 * F, lit 19 (-1), lit 19 (-1) * F, lit 6 (-8))"
| "wire_table22 F semi_aggressive =
     (0, lit 255 (-2), 4 * F, lit 19 (-1), 2 * lit 19 (-1) * F, lit 6 (-8))"
| "wire_table22 F semi_conservative =
     (lit 21 (-10), 3, 4 * F, lit 19 (-1), 2 * lit 19 (-1) * F, lit 6 (-8))"
| "wire_table22 F global_aggressive =
     (0, lit 255 (-2), 8 * F, lit 234 (-2), lit 42 (-8) * 22 / 32, lit 3 (-8))"
| "wire_table22 F global_conservative =
     (lit 63 (-10), 3, 8 * F, lit 234 (-2), lit 385 (-9) * 22 / 32, lit 3 (-8))"
| "wire_table22 F dram_wordline =
     (0, 0, 2 * F, 0, 0, COPPER_RESISTIVITY)"

fun wire_table32 :: "dbl \<Rightarrow> WireType \<Rightarrow> wire_entry" where
  "wire_table32 F local_aggressive =
     (0, lit 282 (-2), 2 * F, lit 18 (-1), lit 18 (-1) * F, lit 5 (-8))"
| "wire_table32 F local_conservative =
     (lit 26 (-10), lit 316 (-2), 2 * F, lit 18 (-1), lit 18 (-1) * F, lit 5 (-8))"
| "wire_table32 F semi_aggressive =
     (0, lit 282 (-2), 4 * F, lit 19 (-1), 2 * lit 19 (-1) * F, lit 5 (-8))"
| "wire_table32 F semi_conservative =
     (lit 26 (-10), lit 316 (-2), 4 * F, lit 19 (-1), 2 * lit 19 (-1) * F, lit 5 (-8))"
| "wire_table32 F global_aggressive =
     (0, lit 282 (-2), 8 * F, lit 234 (-2), lit 42 (-8), lit 25 (-9))"
| "wire_table32 F global_conservative =
     (lit 78 (-10), lit 316 (-2), 8 * F, lit 234 (-2), lit 385 (-9), lit 25 (-9))"
| "wire_table32 F dram_wordline =
     (0, 0, 2 * F, 0, 0, COPPER_RESISTIVITY)"

fun wire_table45 :: "dbl \<Rightarrow> WireType \<Rightarrow> wire_entry" where
  "wire_table45 F local_aggressive =
     (0, lit 26 (-1), lit 102 (-9), lit 18 (-1), lit 918 (-10), lit 408 (-10))"
| "wire_table45 F local_conservative =
     (lit 33 (-10), lit 29 (-1), lit 102 (-9), lit 18 (-1), lit 918 (-10), lit 408 (-10))"
| "wire_table45 F semi_aggressive =
     (0, lit 26 (-1), 4 * F, lit 18 (-1), 2 * lit 18 (-1) * F, lit 408 (-10))"
| "wire_table45 F semi_conservative =
     (lit 33 (-10), lit 29 (-1), 4 * F, lit 18 (-1), 2 * lit 18 (-1) * F, lit 408 (-10))"
| "wire_table45 F global_aggressive =
     (0, lit 26 (-1), 8 * F, lit 234 (-2), lit 63 (-8), lit 206 (-10))"
| "wire_table45 F global_conservative =
     (lit 1 (-8), lit 29 (-1), 8 * F, lit 234 (-2), lit 55 (-8), lit 206 (-10))"
| "wire_table45 F dram_wordline =
     (0, 0, 2 * F, 0, 0, COPPER_RESISTIVITY)"

fun wire_table65 :: "dbl \<Rightarrow> WireType \<Rightarrow> wire_entry" where
  "wire_table65 F local_aggressive =
     (0, lit 2303 (-3), lit 25 (-1) * F, lit 27 (-1), lit 405 (-9), COPPER_RESISTIVITY)"
| "wire_table65 F local_conservative =
     (lit 6 (-9), lit 2734 (-3), lit 25 (-1) * F, 2, lit 405 (-9), COPPER_RESISTIVITY)"
| "wire_table65 F semi_aggressive =
     (0, lit 2303 (-3), 4 * F, lit 27 (-1), lit 405 (-9), COPPER_RESISTIVITY)"
| "wire_table65 F semi_conservative =
     (lit 6 (-9), lit 2734 (-3), 4 * F, 2, lit 405 (-9), COPPER_RESISTIVITY)"
| "wire_table65 F global_aggressive =
     (0, lit 2303 (-3), 8 * F, lit 28 (-1), lit 81 (-8), COPPER_RESISTIVITY)"
| "wire_table65 F global_conservative =
     (lit 6 (-9), lit 2734 (-3), 8 * F, lit 22 (-1), lit 77 (-8), COPPER_RESISTIVITY)"
| "wire_table65 F dram_wordline =
     (0, 0, 2 * F, 0, 0, COPPER_RESISTIVITY)"

fun wire_table90 :: "dbl \<Rightarrow> WireType \<Rightarrow> wire_entry" where
  "wire_table90 F local_aggressive =
     (lit 1 (-8), lit 2709 (-3), lit 25 (-1) * F, lit 24 (-1), lit 48 (-8), COPPER_RESISTIVITY)"
| "wire_table90 F local_conservative =
     (lit 8 (-9), lit 3038 (-3), lit 25 (-1) * F, 2, lit 48 (-8), COPPER_RESISTIVITY)"
| "wire_table90 F semi_aggressive =
     (lit 1 (-8), lit 2709 (-3), 4 * F, lit 24 (-1), lit 48 (-8), COPPER_RESISTIVITY)"
| "wire_table90 F semi_conservative =
     (lit 8 (-9), lit 3038 (-3), 4 * F, 2, lit 48 (-8), COPPER_RESISTIVITY)"
| "wire_table90 F global_aggressive =
     (lit 1 (-8), lit 2709 (-3), 8 * F, lit 27 (-1), lit 96 (-8), COPPER_RESISTIVITY)"
| "wire_table90 F global_conservative =
     (lit 8 (-9), lit 3038 (-3), 8 * F, lit 22 (-1), lit 11 (-7), COPPER_RESISTIVITY)"
| "wire_table90 F dram_wordline =
     (0, 0, 2 * F, 0, 0, COPPER_RESISTIVITY)"

fun wire_table120 :: "dbl \<Rightarrow> WireType \<Rightarrow> wire_entry" where
  "wire_table120 F local_aggressive =
     (lit 12 (-9), lit 33 (-1), lit 24 (-8), lit 16 (-1), lit 48 (-8), COPPER_RESISTIVITY)"
| "wire_table120 F local_conservative =
     (lit 1 (-8), lit 36 (-1), lit 24 (-8), lit 14 (-1), lit 48 (-8), COPPER_RESISTIVITY)"
| "wire_table120 F semi_aggressive =
     (lit 12 (-9), lit 33 (-1), lit 32 (-8), lit 17 (-1), lit 48 (-8), COPPER_RESISTIVITY)"
| "wire_table120 F semi_conservative =
     (lit 1 (-8), lit 36 (-1), lit 32 (-8), lit 15 (-1), lit 48 (-8), COPPER_RESISTIVITY)"
| "wire_table120 F global_aggressive =
     (lit 12 (-9), lit 33 (-1), lit 475 (-9), lit 21 (-1), lit 96 (-8), COPPER_RESISTIVITY)"
| "wire_table120 F global_conservative =
     (lit 1 (-8), lit 36 (-1), lit 475 (-9), lit 19 (-1), lit 11 (-7), COPPER_RESISTIVITY)"
| "wire_table120 F dram_wordline =
     (0, 0, 2 * F, 0, 0, COPPER_RESISTIVITY)"

fun wire_table200 :: "dbl \<Rightarrow> WireType \<Rightarrow> wire_entry" where
  "wire_table200 F local_aggressive =
     (lit 16 (-9), lit 375 (-2), lit 45 (-8), lit 24 (-1), lit 1 (-6), COPPER_RESISTIVITY)"
| "wire_table200 F local_conservative =
     (lit 16 (-9) * lit 8 (-1), lit 375 (-2) * lit 3038 (-3) / lit 2709 (-3), lit 45 (-8), lit 12 (-1), lit 1 (-6), COPPER_RESISTIVITY)"
| "wire_table200 F semi_aggressive =
     (lit 16 (-9), lit 375 (-2), lit 575 (-9), lit 21 (-1), lit 1 (-6), COPPER_RESISTIVITY)"
| "wire_table200 F semi_conservative =
     (lit 16 (-9) * lit 8 (-1), lit 375 (-2) * lit 3038 (-3) / lit 2709 (-3), lit 575 (-9), lit 21 (-1) * 2 / lit 24 (-1), lit 1 (-6), COPPER_RESISTIVITY)"
| "wire_table200 F global_aggressive =
     (lit 16 (-9), lit 375 (-2), lit 945 (-9), lit 21 (-1), lit 2 (-6), COPPER_RESISTIVITY)"
| "wire_table200 F global_conservative =
     (lit 16 (-9) * lit 8 (-1), lit 375 (-2) * lit 3038 (-3) / lit 2709 (-3), lit 945 (-9), lit 21 (-1) * lit 22 (-1) / lit 27 (-1), lit 22 (-7), COPPER_RESISTIVITY)"
| "wire_table200 F dram_wordline =
     (0, 0, 2 * F, 0, 0, COPPER_RESISTIVITY)"

text \<open>The node that a feature size selects, with its entry; above 200 nm there is none.\<close>

definition wire_node :: "int \<Rightarrow> (dbl \<times> (dbl \<Rightarrow> WireType \<Rightarrow> wire_entry)) option" where
  "wire_node nano =
     (if nano \<le> 22 then Some (lit 22 (-9), wire_table22)
      else if nano \<le> 32 then Some (lit 32 (-9), wire_table32)
      else if nano \<le> 45 then Some (lit 45 (-9), wire_table45)
      else if nano \<le> 65 then Some (lit 65 (-9), wire_table65)
      else if nano \<le> 90 then Some (lit 90 (-9), wire_table90)
      else if nano \<le> 120 then Some (lit 120 (-9), wire_table120)
      else if nano \<le> 200 then Some (lit 200 (-9), wire_table200)
      else None)"

text \<open>The part of \<open>Initialize\<close> before the repeaters.\<close>

definition wire_geometry :: "int \<Rightarrow> WireType \<Rightarrow> WireRepeaterType \<Rightarrow> int \<Rightarrow> bool \<Rightarrow> Wire \<Rightarrow> Wire" where
  "wire_geometry nano ty rep temp low w0 =
     (let w = (if wire_initialized w0 then w0\<lparr>wire_initialized := False, wire_senseAmp := None\<rparr> else w0);
          w = w\<lparr>wire_featureSizeInNano := nano, wire_featureSize := i2d nano * lit 1 (-9),
                wireType := ty, wireRepeaterType := rep, wire_temperature := temp, isLowSwing := low\<rparr>
      in case wire_node nano of None \<Rightarrow> w
         | Some (F, table) \<Rightarrow>
             (let (barrier, dielectric, pitch, aspect, ild, _) = table F ty
              in w\<lparr>wire_featureSize := F, barrierThickness := barrier,
                   horizontalDielectric := dielectric, wirePitch := pitch,
                   wire_aspectRatio := aspect, ildThickness := ild\<rparr>))"

definition copper_resistivity :: "int \<Rightarrow> WireType \<Rightarrow> int \<Rightarrow> dbl" where
  "copper_resistivity nano ty temp =
     (let rho = (case wire_node nano of None \<Rightarrow> COPPER_RESISTIVITY
                 | Some (F, table) \<Rightarrow> (let (_, _, _, _, _, rho) = table F ty in rho))
      in rho * (1 + COPPER_RESISTIVITY_TEMPERATURE_COEFFICIENT * i2d (temp - 293)))"

definition wire_parasitics :: "dbl \<Rightarrow> Wire \<Rightarrow> Wire" where
  "wire_parasitics rho w =
     (let wd = wirePitch w / 2; th = wire_aspectRatio w * wd; sp = wirePitch w - wd
      in w\<lparr>wireWidth := wd, wireThickness := th, wireSpacing := sp,
           resWirePerUnit := CalculateWireResistance rho wd th (barrierThickness w) 0 1,
           capWirePerUnit := CalculateWireCapacitance PERMITTIVITY wd th sp (ildThickness w)
             (lit 15 (-1)) (horizontalDielectric w) (lit 39 (-1)) (lit 115 (-12))\<rparr>)"

subsection \<open>Repeaters\<close>

text \<open>
  Input capacitance, output capacitance and output resistance of a repeater whose NMOS transistor
  has the given width.
\<close>

definition repeater_gate :: "Technology \<Rightarrow> InputParameter \<Rightarrow> dbl \<Rightarrow> (dbl \<times> dbl \<times> dbl) res" where
  "repeater_gate T ip nmosSize =
     (let pmosSize = nmosSize * pnSizeRatio T; temp = i2d (ip_temperature ip);
          inCap = CalculateGateCap nmosSize T + CalculateGateCap pmosSize T
      in ebind (CalculateDrainCap nmosSize NMOS 1 T) (\<lambda>cn.
         ebind (CalculateDrainCap pmosSize PMOS 1 T) (\<lambda>cp.
         ebind (CalculateOnResistance nmosSize NMOS temp T) (\<lambda>rn.
         ebind (CalculateOnResistance pmosSize PMOS temp T) (\<lambda>rp.
           Inr (inCap, cn + cp, rn + rp))))))"

definition findOptimalRepeater :: "Technology \<Rightarrow> InputParameter \<Rightarrow> Wire \<Rightarrow> Wire res" where
  "findOptimalRepeater T ip w =
     ebind (repeater_gate T ip (MIN_NMOS_SIZE * featureSize T)) (\<lambda>(inCap, outCap, outRes).
       Inr (w\<lparr>repeaterSize := dsqrt (outRes * capWirePerUnit w / inCap / resWirePerUnit w),
              repeaterSpacing := dsqrt (2 * outRes * (outCap + inCap)
                                   / (resWirePerUnit w * capWirePerUnit w))\<rparr>))"

definition getRepeatedWireUnitDelay :: "Technology \<Rightarrow> InputParameter \<Rightarrow> Wire \<Rightarrow> dbl res" where
  "getRepeatedWireUnitDelay T ip w =
     ebind (repeater_gate T ip (MIN_NMOS_SIZE * featureSize T * repeaterSize w))
       (\<lambda>(inCap, outCap, outRes).
         let wireCap = capWirePerUnit w * repeaterSpacing w;
             wireRes = resWirePerUnit w * repeaterSpacing w;
             tau = outRes * (inCap + outCap) + outRes * wireCap + wireRes * outCap
                     + lit 5 (-1) * wireRes * wireCap
         in Inr (lit 693 (-3) * tau / repeaterSpacing w))"

definition getRepeatedWireUnitDynamicEnergy :: "Technology \<Rightarrow> Wire \<Rightarrow> dbl res" where
  "getRepeatedWireUnitDynamicEnergy T w =
     (let nmosSize = MIN_NMOS_SIZE * featureSize T * repeaterSize w;
          pmosSize = nmosSize * pnSizeRatio T;
          inCap = CalculateGateCap nmosSize T + CalculateGateCap pmosSize T
      in ebind (CalculateDrainCap nmosSize NMOS 1 T) (\<lambda>cn.
         ebind (CalculateDrainCap pmosSize PMOS 1 T) (\<lambda>cp.
           let wireCap = capWirePerUnit w * repeaterSpacing w;
               switchingEnergy = (inCap + (cn + cp) + wireCap) * vdd T * vdd T
           in Inr ((switchingEnergy + 0) / repeaterSpacing w))))"

definition getRepeatedWireUnitLeakage :: "Technology \<Rightarrow> InputParameter \<Rightarrow> Wire \<Rightarrow> dbl res" where
  "getRepeatedWireUnitLeakage T ip w =
     (let nmosSize = MIN_NMOS_SIZE * featureSize T * repeaterSize w;
          pmosSize = nmosSize * pnSizeRatio T
      in ebind (CalculateGateLeakage INV 1 nmosSize pmosSize (i2d (ip_temperature ip)) T) (\<lambda>l.
           Inr (l * vdd T / repeaterSpacing w)))"

text \<open>
  The penalized repeater: the search state is the wire and the best repeater so far, as dynamic
  energy, leakage, spacing and size.
\<close>

type_synonym penalized = "Wire \<times> dbl \<times> dbl \<times> dbl \<times> dbl"

definition penalized_step ::
  "Technology \<Rightarrow> InputParameter \<Rightarrow> dbl \<Rightarrow> penalized \<Rightarrow> penalized res" where
  "penalized_step T ip targetDelay st =
     (let (w, e, l, sp, sz) = st in
      ebind (getRepeatedWireUnitDelay T ip w) (\<lambda>thisDelay.
      ebind (getRepeatedWireUnitDynamicEnergy T w) (\<lambda>thisE.
      ebind (getRepeatedWireUnitLeakage T ip w) (\<lambda>thisL.
        Inr (if thisDelay \<le> targetDelay \<and> thisE / e + thisL / l < 2
             then (w, thisE, thisL, repeaterSpacing w, repeaterSize w)
             else (w, e, l, sp, sz))))))"

text \<open>\<open>for (; repeaterSize >= endSize; repeaterSize -= stepSize)\<close>\<close>

partial_function (option) penalized_sizes ::
  "Technology \<Rightarrow> InputParameter \<Rightarrow> dbl \<Rightarrow> penalized \<Rightarrow> penalized res option" where
  "penalized_sizes T ip targetDelay st =
     (if 1 \<le> repeaterSize (fst st) then
        (case penalized_step T ip targetDelay st of
           Inl a \<Rightarrow> Some (Inl a)
         | Inr st' \<Rightarrow> penalized_sizes T ip targetDelay
                        ((fst st')\<lparr>repeaterSize := repeaterSize (fst st') - 1\<rparr>, snd st'))
      else Some (Inr st))"

text \<open>
  \<open>for (; repeaterSpacing <= endSpacing; repeaterSpacing += stepSpacing)\<close> around it.  The code does
  not set the size back before the next spacing.
\<close>

partial_function (option) penalized_spacings ::
  "Technology \<Rightarrow> InputParameter \<Rightarrow> dbl \<Rightarrow> dbl \<Rightarrow> penalized \<Rightarrow> penalized res option" where
  "penalized_spacings T ip targetDelay endSpacing st =
     (if repeaterSpacing (fst st) \<le> endSpacing then
        do { r \<leftarrow> penalized_sizes T ip targetDelay st;
             case r of
               Inl a \<Rightarrow> Some (Inl a)
             | Inr st' \<Rightarrow> penalized_spacings T ip targetDelay endSpacing
                 ((fst st')\<lparr>repeaterSpacing := repeaterSpacing (fst st') + lit 1 (-4)\<rparr>, snd st') }
      else Some (Inr st))"

definition findPenalizedRepeater ::
  "Technology \<Rightarrow> InputParameter \<Rightarrow> dbl \<Rightarrow> Wire \<Rightarrow> Wire res" where
  "findPenalizedRepeater T ip penalty w =
     ebind (getRepeatedWireUnitDelay T ip w) (\<lambda>d.
     ebind (getRepeatedWireUnitDynamicEnergy T w) (\<lambda>e.
     ebind (getRepeatedWireUnitLeakage T ip w) (\<lambda>l.
     ebind (ended (penalized_spacings T ip (d * (1 + penalty)) (4 * repeaterSpacing w)
                     (w, e, l, repeaterSpacing w, repeaterSize w))) (\<lambda>r.
     ebind r (\<lambda>(w', _, _, sp, sz).
       Inr (w'\<lparr>repeaterSpacing := sp, repeaterSize := sz\<rparr>))))))"

fun repeater_penalty :: "WireRepeaterType \<Rightarrow> dbl" where
  "repeater_penalty repeated_5 = lit 5 (-2)"
| "repeater_penalty repeated_10 = lit 1 (-1)"
| "repeater_penalty repeated_20 = lit 2 (-1)"
| "repeater_penalty repeated_30 = lit 3 (-1)"
| "repeater_penalty repeated_40 = lit 4 (-1)"
| "repeater_penalty _ = lit 5 (-1)"

definition wire_repeaters :: "Technology \<Rightarrow> InputParameter \<Rightarrow> Wire \<Rightarrow> Wire res" where
  "wire_repeaters T ip w =
     (if wireRepeaterType w = repeated_none then Inr w
      else
        ebind (findOptimalRepeater T ip w) (\<lambda>w.
        ebind (if wireRepeaterType w = repeated_opt then Inr w
               else findPenalizedRepeater T ip (repeater_penalty (wireRepeaterType w)) w) (\<lambda>w.
        let nmosSize = repeaterSize w * MIN_NMOS_SIZE * featureSize T
        in ebind (CalculateGateArea INV 1 nmosSize (nmosSize * pnSizeRatio T) (lit 1 41) T)
             (\<lambda>(h, wd, _).
               let (h, wd) = (if wd < h then (wd, h) else (h, wd))
               in Inr (w\<lparr>repeaterHeight := h, repeaterWidth := wd,
                         repeatedWirePitch := wirePitch w + wd\<rparr>)))))"

definition Wire_Initialize ::
  "Technology \<Rightarrow> InputParameter \<Rightarrow> int \<Rightarrow> WireType \<Rightarrow> WireRepeaterType \<Rightarrow> int \<Rightarrow> bool \<Rightarrow> Wire \<Rightarrow> Wire res" where
  "Wire_Initialize T ip nano ty rep temp low w =
     (if rep \<noteq> repeated_none \<and> low then Inl Exit
      else
        ebind (wire_repeaters T ip
                 (wire_parasitics (copper_resistivity nano ty temp) (wire_geometry nano ty rep temp low w)))
          (\<lambda>w. Inr (w\<lparr>wire_initialized := True\<rparr>)))"

subsection \<open>Latency and power\<close>

text \<open>The ramp at the input of a low-swing transmitter, the fan-out-of-four delay and the resistance
  of the pull-down.\<close>

definition low_swing_input :: "Technology \<Rightarrow> InputParameter \<Rightarrow> (dbl \<times> dbl \<times> dbl \<times> dbl) res" where
  "low_swing_input T ip =
     (let widthNmos = MIN_NMOS_SIZE * featureSize T; widthPmos = widthNmos * pnSizeRatio T;
          temp = i2d (ip_temperature ip)
      in ebind (CalculateGateCapacitance INV 1 widthNmos widthPmos
                  (featureSize T * MAX_TRANSISTOR_HEIGHT) T) (\<lambda>(capInput, capOutput).
         ebind (CalculateOnResistance widthNmos NMOS temp T) (\<lambda>_.
         ebind (CalculateOnResistance widthPmos PMOS temp T) (\<lambda>resPullUp.
         ebind (CalculateOnResistance widthNmos NMOS temp T) (\<lambda>resPullDown.
         let gmP = CalculateTransconductance widthPmos PMOS T;
             riseTime = snd (horowitz (resPullUp * (capInput + capOutput))
                               (1 / (resPullUp * gmP)) (lit 1 20));
             gmN = CalculateTransconductance widthNmos NMOS T;
             beta = 1 / (resPullDown * gmN);
             fallTime = snd (horowitz (resPullDown * (capInput + capOutput)) beta riseTime);
             delayFO4 = fst (horowitz (resPullDown * (capOutput + 4 * capInput)) beta (lit 1 20))
         in Inr (fallTime, delayFO4, resPullDown, gmN))))))"

text \<open>The width of the driver of a low-swing wire.\<close>

definition low_swing_driver ::
  "Technology \<Rightarrow> InputParameter \<Rightarrow> dbl \<Rightarrow> dbl \<Rightarrow> dbl \<Rightarrow> dbl \<Rightarrow> dbl" where
  "low_swing_driver T ip capWire resWire delayFO4 resPullDown =
     (let F = featureSize T; widthNmos = MIN_NMOS_SIZE * F;
          resDriver = (0 - 8) * delayFO4 / (dlog (lit 5 (-1)) * capWire) / RES_ADJ;
          w = resPullDown * widthNmos / resDriver;
          w = cMIN w (MAX_NMOS_SIZE * F);
          w = cMAX w (MIN_NMOS_SIZE * F)
      in if 8 * delayFO4 < resWire * capWire then maxNmosSize ip * F else w)"

text \<open>The gate capacitance of the driver and the size of the inverter in front of it.\<close>

definition low_swing_inverter :: "Technology \<Rightarrow> dbl \<Rightarrow> (dbl \<times> dbl) res" where
  "low_swing_inverter T widthNmosDriver =
     (let F = featureSize T; widthNmos = MIN_NMOS_SIZE * F; widthPmos = widthNmos * pnSizeRatio T;
          effort = (2 + pnSizeRatio T) / (1 + pnSizeRatio T)
      in ebind (CalculateGateCapacitance INV 1 widthNmosDriver 0 (F * 40) T) (\<lambda>(capGateDriver, _).
         ebind (CalculateGateCapacitance INV 1 (2 * widthNmos) (2 * widthPmos) (F * 40) T) (\<lambda>(capInput, _).
         let stageEffort = dsqrt (effort * capGateDriver / capInput);
             reqCin = effort * capGateDriver / stageEffort
         in ebind (CalculateGateCapacitance INV 1 widthNmos widthPmos (F * 40) T) (\<lambda>(capInput, _).
            Inr (capGateDriver, cMAX (reqCin / capInput) 1)))))"

text \<open>
  The sense amplifier at the end of the wire: it is initialized and its capacitance is calculated,
  but neither its latency nor its power, so that the code adds the zeros of the constructor.
\<close>

definition low_swing_receiver :: "Technology \<Rightarrow> MemCell \<Rightarrow> SenseAmp \<Rightarrow> SenseAmp res" where
  "low_swing_receiver T cell rawS =
     SenseAmp_CalculateRC T (SenseAmp_Initialize T 1 False (minSenseVoltage cell) 1 (SenseAmp_new rawS))"

definition low_swing ::
  "Technology \<Rightarrow> InputParameter \<Rightarrow> MemCell \<Rightarrow> SenseAmp \<Rightarrow> dbl \<Rightarrow> Wire \<Rightarrow> (Wire \<times> dbl \<times> dbl \<times> dbl) res" where
  "low_swing T ip cell rawS len w =
     (let F = featureSize T; widthNmos = MIN_NMOS_SIZE * F; widthPmos = widthNmos * pnSizeRatio T;
          temp = i2d (ip_temperature ip);
          capWire = capWirePerUnit w * len; resWire = resWirePerUnit w * len
      in ebind (low_swing_input T ip) (\<lambda>(ramp, delayFO4, resPullDown, gm).
         let widthDriver = low_swing_driver T ip capWire resWire delayFO4 resPullDown
         in ebind (low_swing_inverter T widthDriver) (\<lambda>(capGateDriver, sizeInverter).
         let resNand = resPullDown * 2
         in ebind (CalculateGateCapacitance NAND 2 (2 * widthNmos) widthPmos (F * 40) T) (\<lambda>(_, capNandOutput).
            ebind (CalculateGateCapacitance INV 1 (sizeInverter * widthNmos) (sizeInverter * widthPmos)
                     (F * 40) T) (\<lambda>(capInput, capOutput).
         let capLoad = capNandOutput + capInput;
             (delay, ramp) = horowitz (resNand * capLoad) (1 / (resNand * gm)) ramp;
             energy = capLoad * vdd T * vdd T
         in ebind (CalculateOnResistance (sizeInverter * widthNmos) NMOS temp T) (\<lambda>resInv.
         let capLoad = capOutput + capGateDriver;
             (d, ramp) = horowitz (resInv * capLoad) (1 / (resInv * gm)) ramp;
             delay = delay + d;
             energy = energy + capLoad * vdd T * vdd T
         in ebind (CalculateGateLeakage INV 1 (sizeInverter * widthNmos) (sizeInverter * widthPmos) temp T) (\<lambda>leakInv.
            ebind (CalculateGateLeakage NAND 2 (2 * widthNmos) widthPmos temp T) (\<lambda>leakNand.
         let leak = (2 * vdd T * leakInv + 2 * vdd T * leakNand) * 2
         in ebind (low_swing_receiver T cell rawS) (\<lambda>sa.
            ebind (CalculateDrainCap widthDriver NMOS (F * 40) T) (\<lambda>drainCapDriver.
            ebind (CalculateOnResistance widthDriver NMOS temp T) (\<lambda>resDrv.
         let capLoad = capWire + drainCapDriver * 2 + sa_capLoad sa;
             gm = CalculateTransconductance widthDriver NMOS T;
             tr = resDrv * RES_ADJ * (capWire + drainCapDriver * 2) + capWire * resWire / 2
                    + (resDrv + resWire) * sa_capLoad sa;
             delay = delay + fst (horowitz tr (1 / (resDrv * gm)) ramp);
             energy = (energy + capLoad * VOL_SWING * lit 4 (-1)) * 2
         in ebind (CalculateGateLeakage INV 1 widthDriver 0 temp T) (\<lambda>leakDrv.
         let leak = leak + 4 * vdd T * leakDrv
         in Inr (w\<lparr>wire_senseAmp := Some sa\<rparr>, delay + readLatency sa,
                 energy + readDynamicEnergy sa, leak + leakage sa)))))))))))))"

text \<open>The result is the wire, the delay, the dynamic energy and the leakage; \<open>old\<close> holds what the three
  output variables contain before the call.\<close>

definition Wire_CalculateLatencyAndPower ::
  "Technology \<Rightarrow> InputParameter \<Rightarrow> MemCell \<Rightarrow> SenseAmp \<Rightarrow> dbl \<Rightarrow> dbl \<times> dbl \<times> dbl \<Rightarrow> Wire
     \<Rightarrow> (Wire \<times> dbl \<times> dbl \<times> dbl) res" where
  "Wire_CalculateLatencyAndPower T ip cell rawS len old w =
     (if \<not> wire_initialized w then Inr (w, old)
      else if isLowSwing w then
        (if wireRepeaterType w = repeated_none then low_swing T ip cell rawS len w else Inl Exit)
      else if wireRepeaterType w = repeated_none then
        Inr (w, lit 23 (-1) * resWirePerUnit w * capWirePerUnit w * len * len / 2,
             capWirePerUnit w * len * vdd T * vdd T, 0)
      else
        ebind (getRepeatedWireUnitDelay T ip w) (\<lambda>d.
        ebind (getRepeatedWireUnitDynamicEnergy T w) (\<lambda>e.
        ebind (getRepeatedWireUnitLeakage T ip w) (\<lambda>l. Inr (w, d * len, e * len, l * len)))))"

subsection \<open>Assignment\<close>

text \<open>The sense amplifier keeps its owner.\<close>

definition Wire_assign :: "Wire \<Rightarrow> Wire \<Rightarrow> Wire" where
  "Wire_assign lhs rhs = lhs\<lparr>wire_initialized := wire_initialized rhs,
     wire_featureSizeInNano := wire_featureSizeInNano rhs, wire_featureSize := wire_featureSize rhs,
     wireType := wireType rhs, wireRepeaterType := wireRepeaterType rhs,
     wire_temperature := wire_temperature rhs, isLowSwing := isLowSwing rhs,
     barrierThickness := barrierThickness rhs, horizontalDielectric := horizontalDielectric rhs,
     wirePitch := wirePitch rhs, wire_aspectRatio := wire_aspectRatio rhs,
     ildThickness := ildThickness rhs, wireWidth := wireWidth rhs,
     wireThickness := wireThickness rhs, wireSpacing := wireSpacing rhs,
     repeaterSize := repeaterSize rhs, repeaterSpacing := repeaterSpacing rhs,
     repeaterHeight := repeaterHeight rhs, repeaterWidth := repeaterWidth rhs,
     repeatedWirePitch := repeatedWirePitch rhs, resWirePerUnit := resWirePerUnit rhs,
     capWirePerUnit := capWirePerUnit rhs\<rparr>"

lemma Wire_assign_eq: "Wire_assign lhs rhs = rhs\<lparr>wire_senseAmp := wire_senseAmp lhs\<rparr>"
  by (cases lhs; cases rhs) (simp add: Wire_assign_def)

subsection \<open>Initialization without repeaters\<close>

text \<open>A wire without repeaters is always initialized; a repeated one with low swing ends the program.\<close>

lemma wire_geometry_repeater [simp]: "wireRepeaterType (wire_geometry nano ty rep temp low w) = rep"
  by (simp add: wire_geometry_def Let_def split: option.split prod.split)

lemma wire_parasitics_repeater [simp]: "wireRepeaterType (wire_parasitics rho w) = wireRepeaterType w"
  by (simp add: wire_parasitics_def Let_def)

lemma Wire_Initialize_plain:
  "\<exists>w'. Wire_Initialize T ip nano ty repeated_none temp low w = Inr w' \<and> wireRepeaterType w' = repeated_none"
  by (simp add: Wire_Initialize_def wire_repeaters_def)

lemma Wire_Initialize_low_swing:
  "rep \<noteq> repeated_none \<Longrightarrow> Wire_Initialize T ip nano ty rep temp True w = Inl Exit"
  by (simp add: Wire_Initialize_def)

end
