(* ===== verification/Precharger.thy ===== *)
theory Precharger
  imports OutputDriver Wire
begin

text \<open>
  The bitline prechargers of a subarray (\<open>Precharger.cpp\<close>): per column two precharge transistors,
  an equalizer and an inverter, all switched by one output driver.
\<close>

record Precharger = FunctionUnit +
  pc_initialized :: bool
  pc_outputDriver :: OutputDriver
  pc_voltagePrecharge :: dbl
  pc_capBitline :: dbl
  pc_resBitline :: dbl
  capLoadInv :: dbl
  capOutputBitlinePrecharger :: dbl
  capWireLoadPerColumn :: dbl
  resWireLoadPerColumn :: dbl
  enableLatency :: dbl
  pc_numColumn :: int
  widthPMOSBitlinePrecharger :: dbl
  widthPMOSBitlineEqual :: dbl
  widthInvNmos :: dbl
  widthInvPmos :: dbl
  capLoadPerColumn :: dbl
  pc_rampInput :: dbl
  pc_rampOutput :: dbl

definition Precharger_new :: "Precharger \<Rightarrow> Precharger" where
  "Precharger_new raw = (FunctionUnit_new raw)\<lparr>pc_initialized := False, enableLatency := 0,
     pc_outputDriver := OutputDriver_new (pc_outputDriver raw)\<rparr>"

definition Precharger_Initialize ::
  "Technology \<Rightarrow> InputParameter \<Rightarrow> MemCell \<Rightarrow> Wire \<Rightarrow> dbl \<Rightarrow> int \<Rightarrow> dbl \<Rightarrow> dbl
     \<Rightarrow> Precharger \<Rightarrow> Precharger res" where
  "Precharger_Initialize T ip cell localWire voltage numColumn capB resB pc =
     (let F = featureSize T;
          wN = MIN_NMOS_SIZE * F;
          wP = wN * pnSizeRatio T;
          wEq = MIN_NMOS_SIZE * F;
          wPre = 6 * F;
          capWire = widthInFeatureSize cell * F * capWirePerUnit localWire
      in ebind (CalculateDrainCap wN NMOS (F * 40) T) (\<lambda>dN.
         ebind (CalculateDrainCap wP PMOS (F * 40) T) (\<lambda>dP.
         ebind (CalculateDrainCap wPre PMOS (F * 40) T) (\<lambda>dPre.
         ebind (CalculateDrainCap wEq PMOS (F * 40) T) (\<lambda>dEq.
         let capInputInv = CalculateGateCap wN T + CalculateGateCap wP T;
             perColumn = capInputInv + capWire
         in ebind (OutputDriver_Initialize T ip 1 capInputInv (i2d numColumn * perColumn) 0 True
                     latency_first 0 (pc_outputDriver pc)) (\<lambda>od.
            Inr (pc\<lparr>pc_voltagePrecharge := voltage, pc_numColumn := numColumn,
                    pc_capBitline := capB, pc_resBitline := resB,
                    capWireLoadPerColumn := capWire,
                    resWireLoadPerColumn := widthInFeatureSize cell * F * resWirePerUnit localWire,
                    widthInvNmos := wN, widthInvPmos := wP,
                    widthPMOSBitlineEqual := wEq, widthPMOSBitlinePrecharger := wPre,
                    capLoadInv := CalculateGateCap wEq T + 2 * CalculateGateCap wPre T + dN + dP,
                    capOutputBitlinePrecharger := dPre + dEq,
                    capLoadPerColumn := perColumn,
                    pc_outputDriver := od, pc_initialized := True\<rparr>)))))))"

definition Precharger_CalculateArea :: "Technology \<Rightarrow> Precharger \<Rightarrow> Precharger res" where
  "Precharger_CalculateArea T pc =
     (if \<not> pc_initialized pc then Inr pc
      else
        let hr = featureSize T * 40
        in ebind (OutputDriver_CalculateArea T (pc_outputDriver pc)) (\<lambda>od.
           ebind (CalculateGateArea INV 1 0 (widthPMOSBitlinePrecharger pc) hr T) (\<lambda>(hPre, wPre, _).
           ebind (CalculateGateArea INV 1 0 (widthPMOSBitlineEqual pc) hr T) (\<lambda>(hEq, wEq, _).
           ebind (CalculateGateArea INV 1 (widthInvNmos pc) (widthInvPmos pc) hr T) (\<lambda>(hInv, wInv, _).
           let w = 2 * wPre + wEq;
               w = cMAX w wInv;
               w = w * i2d (pc_numColumn pc);
               w = cMAX w (width od);
               h = cMAX hPre hEq;
               h = h + hInv;
               h = cMAX h (height od)
           in Inr (pc\<lparr>pc_outputDriver := od, width := w, height := h, area := h * w\<rparr>))))))"

definition Precharger_CalculateRC :: "Technology \<Rightarrow> Precharger \<Rightarrow> Precharger res" where
  "Precharger_CalculateRC T pc =
     (if \<not> pc_initialized pc then Inr pc
      else ebind (OutputDriver_CalculateRC T (pc_outputDriver pc)) (\<lambda>od.
             Inr (pc\<lparr>pc_outputDriver := od\<rparr>)))"

definition Precharger_CalculateLatency ::
  "Technology \<Rightarrow> InputParameter \<Rightarrow> dbl \<Rightarrow> Precharger \<Rightarrow> Precharger res" where
  "Precharger_CalculateLatency T ip ramp pc =
     (if \<not> pc_initialized pc then Inr pc
      else
        ebind (OutputDriver_CalculateLatency T ip ramp (pc_outputDriver pc)) (\<lambda>od.
        ebind (inverter_delay T ip (widthInvNmos pc) (\<lambda>r. r * capLoadInv pc) (od_rampOutput od))
          (\<lambda>(d, temp).
        ebind (CalculateOnResistance (widthPMOSBitlinePrecharger pc) PMOS
                 (i2d (ip_temperature ip)) T) (\<lambda>resPullUp.
        let tau = resPullUp * (pc_capBitline pc + capOutputBitlinePrecharger pc)
                    + pc_resBitline pc * pc_capBitline pc / 2;
            gm = CalculateTransconductance (widthPMOSBitlinePrecharger pc) PMOS T;
            beta = 1 / (resPullUp * gm);
            (l, rampOut) = horowitz tau beta temp
        in Inr (pc\<lparr>pc_outputDriver := od, pc_rampInput := ramp,
                   enableLatency := readLatency od + d, readLatency := 0 + l,
                   pc_rampOutput := rampOut, writeLatency := 0 + l, refreshLatency := 0 + l\<rparr>)))))"

definition Precharger_CalculatePower ::
  "Technology \<Rightarrow> InputParameter \<Rightarrow> Precharger \<Rightarrow> Precharger res" where
  "Precharger_CalculatePower T ip pc =
     (if \<not> pc_initialized pc then Inr pc
      else
        let t = i2d (ip_temperature ip); n = i2d (pc_numColumn pc)
        in ebind (OutputDriver_CalculatePower T ip (pc_outputDriver pc)) (\<lambda>od.
           ebind (CalculateGateLeakage INV 1 (widthInvNmos pc) (widthInvPmos pc) t T) (\<lambda>l1.
           ebind (CalculateGateLeakage INV 1 0 (widthPMOSBitlinePrecharger pc) t T) (\<lambda>l2.
           let e = readDynamicEnergy od + capLoadInv pc * vdd T * vdd T * n
           in Inr (pc\<lparr>pc_outputDriver := od,
                      leakage := leakage od + n * vdd T * l1 + n * pc_voltagePrecharge pc * l2,
                      readDynamicEnergy := e, writeDynamicEnergy := 0,
                      refreshDynamicEnergy := e\<rparr>)))))"

text \<open>The assignment operator leaves out the precharge voltage and the two inverter widths.\<close>

definition Precharger_assign :: "Precharger \<Rightarrow> Precharger \<Rightarrow> Precharger" where
  "Precharger_assign lhs rhs = (FunctionUnit_copy lhs rhs)\<lparr>
     refreshLatency := refreshLatency rhs, refreshDynamicEnergy := refreshDynamicEnergy rhs,
     pc_initialized := pc_initialized rhs,
     pc_outputDriver := OutputDriver_assign (pc_outputDriver lhs) (pc_outputDriver rhs),
     pc_capBitline := pc_capBitline rhs, pc_resBitline := pc_resBitline rhs,
     capLoadInv := capLoadInv rhs, capOutputBitlinePrecharger := capOutputBitlinePrecharger rhs,
     capWireLoadPerColumn := capWireLoadPerColumn rhs,
     resWireLoadPerColumn := resWireLoadPerColumn rhs,
     enableLatency := enableLatency rhs, pc_numColumn := pc_numColumn rhs,
     widthPMOSBitlinePrecharger := widthPMOSBitlinePrecharger rhs,
     widthPMOSBitlineEqual := widthPMOSBitlineEqual rhs,
     capLoadPerColumn := capLoadPerColumn rhs,
     pc_rampInput := pc_rampInput rhs, pc_rampOutput := pc_rampOutput rhs\<rparr>"

end
