(* ===== verification/Repeater.thy ===== *)
theory Repeater
  imports Wire
begin

text \<open>
  The search for a penalized repeater (\<open>Wire::findPenalizedRepeater\<close>): it ends, it keeps the delay
  within the penalty, and since the size is not set back before the next spacing it never finds
  another spacing than the one it starts from.
\<close>

subsection \<open>What cannot run forever\<close>

definition halts :: "'a res \<Rightarrow> bool" where
  "halts m \<longleftrightarrow> m \<noteq> Inl Diverge"

lemma halts_simps [simp]: "halts (Inr x)" "halts (Inl Exit)" "halts (Inl Undef)" "\<not> halts (Inl Diverge)"
  by (simp_all add: halts_def)

lemma halts_ebind: "halts m \<Longrightarrow> (\<And>x. m = Inr x \<Longrightarrow> halts (f x)) \<Longrightarrow> halts (ebind m f)"
  by (cases m) (auto simp: halts_def)

lemma halts_if: "(b \<Longrightarrow> halts x) \<Longrightarrow> (\<not> b \<Longrightarrow> halts y) \<Longrightarrow> halts (if b then x else y)"
  by simp

lemma halts_prod: "(\<And>a b. p = (a, b) \<Longrightarrow> halts (f a b)) \<Longrightarrow> halts (case p of (a, b) \<Rightarrow> f a b)"
  by (cases p) simp

lemmas halts_intros = halts_ebind halts_if halts_prod

lemma halts_base: "halts (aget xs i)" "halts (d2i x)" "halts (tempIndex t)"
  by (auto simp: aget_def d2i_def tempIndex_def intro!: halts_intros split: dbl.splits)

lemma halts_foldDrain: "halts (foldDrain w mw T)"
  by (auto simp: foldDrain_def Let_def intro!: halts_intros halts_base)

lemma halts_formulas:
  "halts (CalculateGateCapacitance gate n wN wP h T)" "halts (CalculateDrainCap w ty h T)"
  "halts (CalculateOnResistance w ty t T)" "halts (CalculateGateLeakage gate n wN wP t T)"
proof -
  show c: "halts (CalculateGateCapacitance gate n wN wP h T)" for gate n wN wP
    by (auto simp: CalculateGateCapacitance_def Let_def intro!: halts_intros halts_foldDrain)
  show "halts (CalculateDrainCap w ty h T)" by (auto simp: CalculateDrainCap_def intro!: halts_intros c)
  show "halts (CalculateOnResistance w ty t T)" "halts (CalculateGateLeakage gate n wN wP t T)"
    by (auto simp: CalculateOnResistance_def CalculateGateLeakage_def Let_def intro!: halts_intros halts_base)
qed

lemma halts_unit:
  "halts (repeater_gate T ip n)" "halts (getRepeatedWireUnitDelay T ip w)"
  "halts (getRepeatedWireUnitDynamicEnergy T w)" "halts (getRepeatedWireUnitLeakage T ip w)"
proof -
  show g: "halts (repeater_gate T ip n)" for n
    by (auto simp: repeater_gate_def Let_def intro!: halts_intros halts_formulas)
  show "halts (getRepeatedWireUnitDelay T ip w)" "halts (getRepeatedWireUnitDynamicEnergy T w)"
    "halts (getRepeatedWireUnitLeakage T ip w)"
    by (auto simp: getRepeatedWireUnitDelay_def getRepeatedWireUnitDynamicEnergy_def
        getRepeatedWireUnitLeakage_def Let_def intro!: halts_intros halts_formulas g)
qed

subsection \<open>One candidate\<close>

text \<open>The best repeater so far: the one at the start or one of the given spacing within the delay.\<close>

definition acceptable ::
  "Technology \<Rightarrow> InputParameter \<Rightarrow> dbl \<Rightarrow> Wire \<Rightarrow> dbl \<Rightarrow> dbl \<Rightarrow> penalized \<Rightarrow> bool" where
  "acceptable T ip target w sp0 sz0 st \<longleftrightarrow>
     (case st of (w', _, _, sp, sz) \<Rightarrow> sp = sp0 \<and>
       (sz = sz0 \<or> (\<exists>d. getRepeatedWireUnitDelay T ip (w\<lparr>repeaterSpacing := sp, repeaterSize := sz\<rparr>) = Inr d
                        \<and> d \<le> target)))"

lemma penalized_step_halts: "halts (penalized_step T ip target st)"
  by (auto simp: penalized_step_def Let_def intro!: halts_intros halts_unit split: prod.split)

lemma penalized_step_fst: "penalized_step T ip target st = Inr st' \<Longrightarrow> fst st' = fst st"
  by (auto simp: penalized_step_def Let_def split: prod.splits if_splits)

lemma acceptable_fst: "acceptable T ip target w sp0 sz0 (w1, b) \<longleftrightarrow> acceptable T ip target w sp0 sz0 (w2, b)"
  by (simp add: acceptable_def split: prod.split)

lemma penalized_step_ok:
  assumes "penalized_step T ip target st = Inr st'" "acceptable T ip target w sp0 sz0 st"
    and "fst st = w\<lparr>repeaterSpacing := sp0, repeaterSize := sz\<rparr>"
  shows "acceptable T ip target w sp0 sz0 st'"
  using assms
  by (auto simp: penalized_step_def acceptable_def Let_def split: prod.splits if_splits)

subsection \<open>The inner loop\<close>

lemma penalized_sizes_stop: "\<not> 1 \<le> repeaterSize (fst st) \<Longrightarrow> penalized_sizes T ip target st = Some (Inr st)"
  by (simp add: penalized_sizes.simps)

lemma penalized_sizes_step:
  "1 \<le> repeaterSize (fst st) \<Longrightarrow> penalized_sizes T ip target st =
     (case penalized_step T ip target st of Inl a \<Rightarrow> Some (Inl a)
      | Inr st' \<Rightarrow> penalized_sizes T ip target
                     ((fst st')\<lparr>repeaterSize := repeaterSize (fst st') - 1\<rparr>, snd st'))"
  by (subst penalized_sizes.simps) simp

text \<open>From a finite size the loop ends, with a size below one or an error.\<close>

lemma penalized_sizes_ok:
  assumes "fst st = w\<lparr>repeaterSpacing := sp0, repeaterSize := Fin r\<rparr>"
    and "acceptable T ip target w sp0 sz0 st"
  shows "(\<exists>a. penalized_sizes T ip target st = Some (Inl a) \<and> a \<noteq> Diverge)
    \<or> (\<exists>st' r'. penalized_sizes T ip target st = Some (Inr st') \<and> r' < 1
         \<and> fst st' = w\<lparr>repeaterSpacing := sp0, repeaterSize := Fin r'\<rparr>
         \<and> acceptable T ip target w sp0 sz0 st')"
  using assms
proof (induction "nat \<lfloor>r\<rfloor>" arbitrary: r st rule: less_induct)
  case less
  show ?case
  proof (cases "1 \<le> r")
    case False
    then have "\<not> 1 \<le> repeaterSize (fst st)" by (simp add: less.prems(1) dbl_lits)
    then have "penalized_sizes T ip target st = Some (Inr st)" by (rule penalized_sizes_stop)
    moreover have "r < 1" using False by simp
    ultimately show ?thesis using less.prems by blast
  next
    case True
    then have go: "1 \<le> repeaterSize (fst st)" by (simp add: less.prems(1) dbl_lits)
    show ?thesis
    proof (cases "penalized_step T ip target st")
      case (Inl a)
      then have "a \<noteq> Diverge" using penalized_step_halts [of T ip target st] by auto
      with Inl go show ?thesis by (simp add: penalized_sizes_step)
    next
      case (Inr st1)
      let ?st = "((fst st1)\<lparr>repeaterSize := repeaterSize (fst st1) - 1\<rparr>, snd st1)"
      have f: "fst st1 = fst st" by (rule penalized_step_fst [OF Inr])
      have s: "fst ?st = w\<lparr>repeaterSpacing := sp0, repeaterSize := Fin (r - 1)\<rparr>"
        by (simp add: f less.prems(1) dbl_lits)
      have "acceptable T ip target w sp0 sz0 st1"
        by (rule penalized_step_ok [OF Inr less.prems(2,1)])
      then have a: "acceptable T ip target w sp0 sz0 ?st" using acceptable_fst by (metis prod.collapse)
      have "nat \<lfloor>r - 1\<rfloor> < nat \<lfloor>r\<rfloor>" using True by (simp add: floor_diff_one le_floor_iff)
      from less.hyps [OF this s a] show ?thesis using Inr go by (simp add: penalized_sizes_step)
    qed
  qed
qed

subsection \<open>The outer loop\<close>

lemma penalized_spacings_unfold:
  "penalized_spacings T ip target end st =
     (if repeaterSpacing (fst st) \<le> end then
        do { r \<leftarrow> penalized_sizes T ip target st;
             case r of Inl a \<Rightarrow> Some (Inl a)
             | Inr st' \<Rightarrow> penalized_spacings T ip target end
                 ((fst st')\<lparr>repeaterSpacing := repeaterSpacing (fst st') + lit 1 (-4)\<rparr>, snd st') }
      else Some (Inr st))"
  by (rule penalized_spacings.simps)

lemma step_spacing: "lit 1 (-4) = Fin (1 / 10000)"
  by (simp add: lit_def power_int_def power_divide)

text \<open>Once the size is below one, the remaining spacings change nothing.\<close>

lemma penalized_spacings_done:
  assumes "fst st = w\<lparr>repeaterSpacing := Fin s, repeaterSize := Fin r\<rparr>" "r < 1"
  shows "\<exists>s'. penalized_spacings T ip target (Fin e) st
      = Some (Inr (w\<lparr>repeaterSpacing := Fin s', repeaterSize := Fin r\<rparr>, snd st))"
  using assms(1)
proof (induction "nat \<lceil>(e - s) * 10000 + 1\<rceil>" arbitrary: s st rule: less_induct)
  case less
  show ?case
  proof (cases "s \<le> e")
    case False
    then show ?thesis using less.prems
      by (subst penalized_spacings_unfold) (auto intro!: exI [of _ s] simp: prod_eq_iff)
  next
    case True
    let ?st = "((fst st)\<lparr>repeaterSpacing := repeaterSpacing (fst st) + lit 1 (-4)\<rparr>, snd st)"
    have s: "fst ?st = w\<lparr>repeaterSpacing := Fin (s + 1 / 10000), repeaterSize := Fin r\<rparr>"
      by (simp add: less.prems step_spacing)
    have "\<not> 1 \<le> repeaterSize (fst st)" using assms(2) by (simp add: less.prems dbl_lits)
    then have "penalized_sizes T ip target st = Some (Inr st)" by (rule penalized_sizes_stop)
    then have u: "penalized_spacings T ip target (Fin e) st = penalized_spacings T ip target (Fin e) ?st"
      using True by (subst penalized_spacings_unfold) (simp add: less.prems)
    have "nat \<lceil>(e - (s + 1 / 10000)) * 10000 + 1\<rceil> < nat \<lceil>(e - s) * 10000 + 1\<rceil>"
    proof -
      define x where "x = (e - s) * 10000 + 1"
      have "(e - (s + 1 / 10000)) * 10000 + 1 = x - 1" by (simp add: x_def algebra_simps)
      moreover have "0 < \<lceil>x\<rceil>" using True by (simp add: x_def add_nonneg_pos)
      then have "nat (\<lceil>x\<rceil> - 1) < nat \<lceil>x\<rceil>" by simp
      ultimately show ?thesis by (simp add: x_def [symmetric])
    qed
    from less.hyps [OF this s] show ?thesis unfolding u by simp
  qed
qed

lemma unit_delay_cong:
  "capWirePerUnit w = capWirePerUnit v \<Longrightarrow> resWirePerUnit w = resWirePerUnit v
   \<Longrightarrow> repeaterSpacing w = repeaterSpacing v \<Longrightarrow> repeaterSize w = repeaterSize v
   \<Longrightarrow> getRepeatedWireUnitDelay T ip w = getRepeatedWireUnitDelay T ip v"
  by (simp add: getRepeatedWireUnitDelay_def)

text \<open>The search as a whole.\<close>

lemma penalized_search:
  assumes st: "fst st = w\<lparr>repeaterSpacing := Fin s, repeaterSize := Fin r\<rparr>"
    and acc: "acceptable T ip target w (Fin s) sz0 st"
  shows "(\<exists>a. penalized_spacings T ip target (Fin e) st = Some (Inl a) \<and> a \<noteq> Diverge)
    \<or> (\<exists>s' r' b. penalized_spacings T ip target (Fin e) st
          = Some (Inr (w\<lparr>repeaterSpacing := s', repeaterSize := r'\<rparr>, b))
        \<and> acceptable T ip target w (Fin s) sz0 (w, b))"
proof (cases "s \<le> e")
  case False
  then have "penalized_spacings T ip target (Fin e) st = Some (Inr st)"
    by (subst penalized_spacings_unfold) (simp add: st)
  moreover have "acceptable T ip target w (Fin s) sz0 (w, snd st)" using acc acceptable_fst by (metis prod.collapse)
  ultimately show ?thesis using st by (metis prod.collapse)
next
  case True
  consider (abort) a where "penalized_sizes T ip target st = Some (Inl a)" "a \<noteq> Diverge"
    | (finish) st' r' where "penalized_sizes T ip target st = Some (Inr st')" "r' < 1"
        "fst st' = w\<lparr>repeaterSpacing := Fin s, repeaterSize := Fin r'\<rparr>"
        "acceptable T ip target w (Fin s) sz0 st'"
    using penalized_sizes_ok [OF st acc] by blast
  then show ?thesis
  proof cases
    case abort
    then show ?thesis using True by (subst penalized_spacings_unfold) (simp add: st)
  next
    case finish
    let ?st = "((fst st')\<lparr>repeaterSpacing := repeaterSpacing (fst st') + lit 1 (-4)\<rparr>, snd st')"
    have u: "penalized_spacings T ip target (Fin e) st = penalized_spacings T ip target (Fin e) ?st"
      using True finish(1) by (subst penalized_spacings_unfold) (simp add: st)
    have "fst ?st = w\<lparr>repeaterSpacing := Fin (s + 1 / 10000), repeaterSize := Fin r'\<rparr>"
      by (simp add: finish(3) step_spacing)
    from penalized_spacings_done [OF this finish(2), of T ip target e] obtain s' where
      "penalized_spacings T ip target (Fin e) st
        = Some (Inr (w\<lparr>repeaterSpacing := Fin s', repeaterSize := Fin r'\<rparr>, snd st'))" by (auto simp: u)
    moreover have "acceptable T ip target w (Fin s) sz0 (w, snd st')"
      using finish(4) acceptable_fst by (metis prod.collapse)
    ultimately show ?thesis by blast
  qed
qed

lemma findPenalizedRepeater_ok:
  assumes "repeaterSpacing w = Fin s" "repeaterSize w = Fin r"
  shows "halts (findPenalizedRepeater T ip penalty w)"
    and "findPenalizedRepeater T ip penalty w = Inr w' \<Longrightarrow> repeaterSpacing w' = repeaterSpacing w
      \<and> (\<exists>d. getRepeatedWireUnitDelay T ip w = Inr d
           \<and> (repeaterSize w' = repeaterSize w
              \<or> (\<exists>d'. getRepeatedWireUnitDelay T ip w' = Inr d' \<and> d' \<le> d * (1 + penalty))))"
proof -
  have w: "w = w\<lparr>repeaterSpacing := Fin s, repeaterSize := Fin r\<rparr>"
    using assms by (cases w) simp
  have four: "4 * repeaterSpacing w = Fin (4 * s)" by (simp add: assms dbl_lits)
  have start: "acceptable T ip t w (Fin s) (Fin r) (w, e, l, repeaterSpacing w, repeaterSize w)" for t e l
    by (simp add: acceptable_def assms)
  have search: "(\<exists>a. penalized_spacings T ip t (Fin (4 * s)) (w, e, l, repeaterSpacing w, repeaterSize w)
          = Some (Inl a) \<and> a \<noteq> Diverge)
    \<or> (\<exists>s' r' b. penalized_spacings T ip t (Fin (4 * s)) (w, e, l, repeaterSpacing w, repeaterSize w)
          = Some (Inr (w\<lparr>repeaterSpacing := s', repeaterSize := r'\<rparr>, b))
        \<and> acceptable T ip t w (Fin s) (Fin r) (w, b))" for t e l
    by (rule penalized_search [where r = r, OF _ start]) (simp add: w [symmetric])
  show "halts (findPenalizedRepeater T ip penalty w)"
    unfolding findPenalizedRepeater_def four
  proof (intro halts_ebind halts_unit)
    fix d e l
    show "halts (ended (penalized_spacings T ip (d * (1 + penalty)) (Fin (4 * s))
        (w, e, l, repeaterSpacing w, repeaterSize w)))"
      using search [of "d * (1 + penalty)" e l] by auto
    fix x assume "ended (penalized_spacings T ip (d * (1 + penalty)) (Fin (4 * s))
        (w, e, l, repeaterSpacing w, repeaterSize w)) = Inr x"
    then show "halts x" using search [of "d * (1 + penalty)" e l] by (auto simp: halts_def)
  qed (simp split: prod.split)
  assume "findPenalizedRepeater T ip penalty w = Inr w'"
  then obtain d e l x v b where x: "getRepeatedWireUnitDelay T ip w = Inr d"
    "penalized_spacings T ip (d * (1 + penalty)) (Fin (4 * s))
        (w, e, l, repeaterSpacing w, repeaterSize w) = Some (Inr (v, b))"
    "w' = v\<lparr>repeaterSpacing := fst (snd (snd b)), repeaterSize := snd (snd (snd b))\<rparr>"
    unfolding findPenalizedRepeater_def four
    by (auto simp: ended_def split: option.splits prod.splits)
  with search [of "d * (1 + penalty)" e l] obtain s' r' where
    v: "v = w\<lparr>repeaterSpacing := s', repeaterSize := r'\<rparr>"
    and acc: "acceptable T ip (d * (1 + penalty)) w (Fin s) (Fin r) (w, b)" by auto
  obtain be bl bsp bsz where b: "b = (be, bl, bsp, bsz)" by (cases b)
  have w': "w' = w\<lparr>repeaterSpacing := bsp, repeaterSize := bsz\<rparr>" by (simp add: x(3) v b)
  show "repeaterSpacing w' = repeaterSpacing w
      \<and> (\<exists>d. getRepeatedWireUnitDelay T ip w = Inr d
           \<and> (repeaterSize w' = repeaterSize w
              \<or> (\<exists>d'. getRepeatedWireUnitDelay T ip w' = Inr d' \<and> d' \<le> d * (1 + penalty))))"
    using acc x(1) by (auto simp: acceptable_def b w' assms)
qed

end
