(* ===== verification/Bank.thy ===== *)
theory Bank
  imports Component
begin

text \<open>
  The members of a bank (\<open>Bank.h\<close>), its constructor and its assignment operator (\<open>Bank.cpp\<close>).  The
  mat and the TSVs inside the bank are fields of the records of the two derived classes; of the mat
  the record of the base class keeps the numbers of rows and columns of a subarray, which are all
  that the search reads of it.
\<close>

subsection \<open>What a bank is initialized from\<close>

text \<open>A design of the search, and the arguments of \<open>Initialize\<close>.\<close>

record Design =
  numRowMat :: int
  numColumnMat :: int
  stackedDieCount :: int
  numActiveMatPerRow :: int
  numActiveMatPerColumn :: int
  numRowSubarray :: int
  numColumnSubarray :: int
  numActiveSubarrayPerRow :: int
  numActiveSubarrayPerColumn :: int
  muxSenseAmp :: int
  muxOutputLev1 :: int
  muxOutputLev2 :: int
  numRowPerSet :: int
  areaOptimizationLevel :: int

record BankArgs =
  ba_design :: Design
  ba_capacity :: int
  ba_blockSize :: int
  ba_associativity :: int
  ba_memoryType :: MemoryType
  ba_partitionGranularity :: int

text \<open>The cast of an integer to an enumeration, given by the list of its values.\<close>

definition enum_of :: "'a list \<Rightarrow> int \<Rightarrow> 'a res" where
  "enum_of xs n = aget xs n"

definition buffer_targets :: "BufferDesignTarget list" where
  "buffer_targets = [latency_first, latency_area_trade_off, area_first]"

subsection \<open>The members of the base class\<close>

record Bank = FunctionUnit +
  bank_initialized :: bool
  bank_invalid :: bool
  bank_internalSenseAmp :: bool
  bank_numRowMat :: int
  bank_numColumnMat :: int
  bank_capacity :: int
  bank_blockSize :: int
  bank_associativity :: int
  bank_numRowPerSet :: int
  bank_numActiveMatPerRow :: int
  bank_numActiveMatPerColumn :: int
  bank_muxSenseAmp :: int
  bank_muxOutputLev1 :: int
  bank_muxOutputLev2 :: int
  bank_numRowSubarray :: int
  bank_numColumnSubarray :: int
  bank_numActiveSubarrayPerRow :: int
  bank_numActiveSubarrayPerColumn :: int
  bank_areaOptimizationLevel :: int
  bank_memoryType :: MemoryType
  bank_stackedDieCount :: int
  bank_partitionGranularity :: int
  routingReadLatency :: dbl
  routingWriteLatency :: dbl
  routingResetLatency :: dbl
  routingSetLatency :: dbl
  routingRefreshLatency :: dbl
  routingReadDynamicEnergy :: dbl
  routingWriteDynamicEnergy :: dbl
  routingResetDynamicEnergy :: dbl
  routingSetDynamicEnergy :: dbl
  routingRefreshDynamicEnergy :: dbl
  routingLeakage :: dbl
  mat_subarray_numRow :: int
  mat_subarray_numColumn :: int

definition Bank_new :: "Bank \<Rightarrow> Bank" where
  "Bank_new raw = (FunctionUnit_new raw)\<lparr>bank_initialized := False, bank_invalid := False\<rparr>"

definition Bank_assign :: "Bank \<Rightarrow> Bank \<Rightarrow> Bank" where
  "Bank_assign lhs rhs = (FunctionUnit_copy lhs rhs)\<lparr>
     refreshLatency := refreshLatency rhs, refreshDynamicEnergy := refreshDynamicEnergy rhs,
     bank_initialized := bank_initialized rhs, bank_invalid := bank_invalid rhs,
     bank_numRowMat := bank_numRowMat rhs, bank_numColumnMat := bank_numColumnMat rhs,
     bank_capacity := bank_capacity rhs, bank_blockSize := bank_blockSize rhs,
     bank_associativity := bank_associativity rhs, bank_numRowPerSet := bank_numRowPerSet rhs,
     bank_numActiveMatPerRow := bank_numActiveMatPerRow rhs,
     bank_numActiveMatPerColumn := bank_numActiveMatPerColumn rhs,
     bank_muxSenseAmp := bank_muxSenseAmp rhs, bank_internalSenseAmp := bank_internalSenseAmp rhs,
     bank_muxOutputLev1 := bank_muxOutputLev1 rhs, bank_muxOutputLev2 := bank_muxOutputLev2 rhs,
     bank_areaOptimizationLevel := bank_areaOptimizationLevel rhs,
     bank_memoryType := bank_memoryType rhs,
     bank_numRowSubarray := bank_numRowSubarray rhs,
     bank_numColumnSubarray := bank_numColumnSubarray rhs,
     bank_numActiveSubarrayPerRow := bank_numActiveSubarrayPerRow rhs,
     bank_numActiveSubarrayPerColumn := bank_numActiveSubarrayPerColumn rhs,
     bank_stackedDieCount := bank_stackedDieCount rhs,
     bank_partitionGranularity := bank_partitionGranularity rhs,
     routingReadLatency := routingReadLatency rhs, routingWriteLatency := routingWriteLatency rhs,
     routingResetLatency := routingResetLatency rhs, routingSetLatency := routingSetLatency rhs,
     routingRefreshLatency := routingRefreshLatency rhs,
     routingReadDynamicEnergy := routingReadDynamicEnergy rhs,
     routingWriteDynamicEnergy := routingWriteDynamicEnergy rhs,
     routingResetDynamicEnergy := routingResetDynamicEnergy rhs,
     routingSetDynamicEnergy := routingSetDynamicEnergy rhs,
     routingRefreshDynamicEnergy := routingRefreshDynamicEnergy rhs,
     routingLeakage := routingLeakage rhs,
     mat_subarray_numRow := mat_subarray_numRow rhs,
     mat_subarray_numColumn := mat_subarray_numColumn rhs\<rparr>"

text \<open>Every member of the record is copied, so the assignment makes the two banks equal.\<close>

lemma Bank_assign_eq: "Bank_assign lhs rhs = rhs"
  by (cases lhs; cases rhs) (simp add: Bank_assign_def FunctionUnit_copy_def)

end
