(* ===== verification/Result.thy ===== *)
theory Result
  imports Bank Wire
begin

text \<open>
  A result of the search (\<open>Result.h\<close>, \<open>Result.cpp\<close>): the best bank found so far for one
  optimization target, under limits on the eight figures of merit, with the wires it was found
  with.  The pointer \<open>cellTech\<close> to one of the swept cells is the index of the cell.
\<close>

record Result =
  res_optimizationTarget :: OptimizationTarget
  bank :: Bank
  res_localWire :: Wire
  res_globalWire :: Wire
  limitReadLatency :: dbl
  limitWriteLatency :: dbl
  limitReadDynamicEnergy :: dbl
  limitWriteDynamicEnergy :: dbl
  limitReadEdp :: dbl
  limitWriteEdp :: dbl
  limitArea :: dbl
  limitLeakage :: dbl
  cellTech :: "int option"

text \<open>The worst case, which the constructor and \<open>reset\<close> write into the bank.\<close>

definition worst_case :: "Bank \<Rightarrow> Bank" where
  "worst_case b = b\<lparr>readLatency := invalid_value, writeLatency := invalid_value,
     readDynamicEnergy := invalid_value, writeDynamicEnergy := invalid_value,
     leakage := invalid_value, height := invalid_value, width := invalid_value,
     area := invalid_value\<rparr>"

text \<open>The bank and the wires that the constructor allocates are parameters.\<close>

definition Result_new :: "Bank \<Rightarrow> Wire \<Rightarrow> Wire \<Rightarrow> Result" where
  "Result_new rawBank rawLocal rawGlobal =
     \<lparr>res_optimizationTarget = read_latency_optimized,
      bank = worst_case (Bank_new rawBank), res_localWire = Wire_new rawLocal,
      res_globalWire = Wire_new rawGlobal,
      limitReadLatency = invalid_value, limitWriteLatency = invalid_value,
      limitReadDynamicEnergy = invalid_value, limitWriteDynamicEnergy = invalid_value,
      limitReadEdp = invalid_value, limitWriteEdp = invalid_value,
      limitArea = invalid_value, limitLeakage = invalid_value, cellTech = None\<rparr>"

definition reset :: "Result \<Rightarrow> Result" where
  "reset r = r\<lparr>bank := worst_case (bank r)\<rparr>"

text \<open>The figure of merit of a target; there is none for the full exploration.\<close>

definition readEdp :: "'a FunctionUnit_scheme \<Rightarrow> dbl" where
  "readEdp b = readLatency b * readDynamicEnergy b"

definition writeEdp :: "'a FunctionUnit_scheme \<Rightarrow> dbl" where
  "writeEdp b = writeLatency b * writeDynamicEnergy b"

fun metric :: "OptimizationTarget \<Rightarrow> 'a FunctionUnit_scheme \<Rightarrow> dbl option" where
  "metric read_latency_optimized b = Some (readLatency b)"
| "metric write_latency_optimized b = Some (writeLatency b)"
| "metric read_energy_optimized b = Some (readDynamicEnergy b)"
| "metric write_energy_optimized b = Some (writeDynamicEnergy b)"
| "metric read_edp_optimized b = Some (readEdp b)"
| "metric write_edp_optimized b = Some (writeEdp b)"
| "metric area_optimized b = Some (area b)"
| "metric leakage_optimized b = Some (leakage b)"
| "metric full_exploration b = None"

definition better :: "OptimizationTarget \<Rightarrow> 'a FunctionUnit_scheme \<Rightarrow> 'b FunctionUnit_scheme \<Rightarrow> bool" where
  "better t b c = (case (metric t b, metric t c) of (Some x, Some y) \<Rightarrow> x < y | _ \<Rightarrow> False)"

definition within_limits :: "Result \<Rightarrow> 'a FunctionUnit_scheme \<Rightarrow> bool" where
  "within_limits r b \<longleftrightarrow> readLatency b \<le> limitReadLatency r \<and> writeLatency b \<le> limitWriteLatency r
     \<and> readDynamicEnergy b \<le> limitReadDynamicEnergy r
     \<and> writeDynamicEnergy b \<le> limitWriteDynamicEnergy r
     \<and> readEdp b \<le> limitReadEdp r \<and> writeEdp b \<le> limitWriteEdp r
     \<and> area b \<le> limitArea r \<and> leakage b \<le> limitLeakage r"

definition compareAndUpdate :: "Result \<Rightarrow> Result \<Rightarrow> Result \<times> bool" where
  "compareAndUpdate r new =
     (if within_limits r (bank new) \<and> better (res_optimizationTarget r) (bank new) (bank r)
      then (r\<lparr>bank := Bank_assign (bank r) (bank new),
              res_localWire := Wire_assign (res_localWire r) (res_localWire new),
              res_globalWire := Wire_assign (res_globalWire r) (res_globalWire new)\<rparr>, True)
      else (r, False))"

subsection \<open>Better is a strict order\<close>

lemma better_irrefl: "\<not> better t b b"
  by (simp add: better_def split: option.splits)

lemma better_trans: "better t a b \<Longrightarrow> better t b c \<Longrightarrow> better t a c"
  using dless_trans by (fastforce simp: better_def split: option.splits)

interpretation kept: keeper "better t" "within_limits r" for t and r :: Result
  by unfold_locales (auto simp: better_irrefl intro: better_trans)

subsection \<open>One comparison\<close>

text \<open>The comparison is a step of the keeper; target, limits and cell stay.\<close>

definition same_goal :: "Result \<Rightarrow> Result \<Rightarrow> bool" where
  "same_goal r s \<longleftrightarrow> res_optimizationTarget r = res_optimizationTarget s
     \<and> limitReadLatency r = limitReadLatency s \<and> limitWriteLatency r = limitWriteLatency s
     \<and> limitReadDynamicEnergy r = limitReadDynamicEnergy s
     \<and> limitWriteDynamicEnergy r = limitWriteDynamicEnergy s
     \<and> limitReadEdp r = limitReadEdp s \<and> limitWriteEdp r = limitWriteEdp s
     \<and> limitArea r = limitArea s \<and> limitLeakage r = limitLeakage s \<and> cellTech r = cellTech s"

lemma same_goal_refl [simp]: "same_goal r r" by (simp add: same_goal_def)

lemma same_goal_within: "same_goal r s \<Longrightarrow> within_limits r = within_limits s"
  by (rule ext) (simp add: same_goal_def within_limits_def)

lemma same_goal_target: "same_goal r s \<Longrightarrow> res_optimizationTarget r = res_optimizationTarget s"
  by (simp add: same_goal_def)

lemma same_goal_trans: "same_goal r s \<Longrightarrow> same_goal s u \<Longrightarrow> same_goal r u"
  by (simp add: same_goal_def)

lemma compareAndUpdate_goal: "same_goal (fst (compareAndUpdate r new)) r"
  by (simp add: compareAndUpdate_def same_goal_def)

lemma compareAndUpdate_keep:
  "bank (fst (compareAndUpdate r new))
   = keep (better (res_optimizationTarget r)) (within_limits r) (bank new) (bank r)"
  by (simp add: compareAndUpdate_def keep_def Bank_assign_eq)

lemma compareAndUpdate_snd:
  "snd (compareAndUpdate r new)
   \<longleftrightarrow> within_limits r (bank new) \<and> better (res_optimizationTarget r) (bank new) (bank r)"
  by (simp add: compareAndUpdate_def)

text \<open>A sequence of comparisons.\<close>

lemma fold_compare:
  "same_goal (fold (\<lambda>new r. fst (compareAndUpdate r new)) news r) r
   \<and> bank (fold (\<lambda>new r. fst (compareAndUpdate r new)) news r)
     = fold (keep (better (res_optimizationTarget r)) (within_limits r)) (map bank news) (bank r)"
proof (induction news arbitrary: r)
  case (Cons n ns)
  note g = compareAndUpdate_goal [of r n]
  show ?case
    using Cons [of "fst (compareAndUpdate r n)"] same_goal_trans [OF _ g]
    by (simp add: compareAndUpdate_keep same_goal_within [OF g] same_goal_target [OF g])
qed simp

text \<open>A figure that is not a number is never kept.\<close>

lemma better_not_NaN: "better t b c \<Longrightarrow> metric t b \<noteq> Some NaN"
  by (auto simp: better_def split: option.splits)

end
