(* ===== verification/Explore.thy ===== *)
theory Explore
  imports Result
begin

text \<open>
  The exploration of the design space (\<open>main.cpp\<close> and the macros of \<open>macros.h\<close>): the ranges of the
  search, the nested loops \<open>BIGFOR\<close> and \<open>BIGFOR_TAG\<close> as the list of designs they visit, the loops
  that refine the wires, and the function \<open>nvsim\<close> for one memory cell.  The construction and
  evaluation of a bank (the macro \<open>CALCULATE\<close>) is an argument of the definitions, a function of the
  global state it reads.
\<close>

subsection \<open>Ranges\<close>

text \<open>
  A pair of members \<open>minX\<close>, \<open>maxX\<close> of \<open>InputParameter\<close> is a range.  The ranges of the data array
  (\<open>minNumRowMat\<close>, \<open>maxNumRowMat\<close>, ...) and those of the tag array (\<open>minTagNumRowMat\<close>, ...) have the
  same record; two ranges are common to both.
\<close>

type_synonym range = "int \<times> int"

record Space =
  numRowMat_range :: range
  numColumnMat_range :: range
  numActiveMatPerRow_range :: range
  numActiveMatPerColumn_range :: range
  numRowSubarray_range :: range
  numColumnSubarray_range :: range
  numActiveSubarrayPerRow_range :: range
  numActiveSubarrayPerColumn_range :: range
  muxSenseAmp_range :: range
  muxOutputLev1_range :: range
  muxOutputLev2_range :: range
  areaOptimizationLevel_range :: range
  localWireType_range :: range
  localWireRepeaterType_range :: range
  isLocalWireLowSwing_range :: range
  globalWireType_range :: range
  globalWireRepeaterType_range :: range
  isGlobalWireLowSwing_range :: range

record Search =
  dataSpace :: Space
  tagSpace :: Space
  numRowPerSet_range :: range
  stackLayer_range :: range

definition RESTORE_SEARCH_SIZE :: "int \<Rightarrow> Search \<Rightarrow> Search" where
  "RESTORE_SEARCH_SIZE assoc S = S\<lparr>
     dataSpace := \<lparr>numRowMat_range = (1, 512), numColumnMat_range = (1, 512),
       numActiveMatPerRow_range = (1, 512), numActiveMatPerColumn_range = (1, 512),
       numRowSubarray_range = (1, 2), numColumnSubarray_range = (1, 2),
       numActiveSubarrayPerRow_range = (1, 2), numActiveSubarrayPerColumn_range = (1, 2),
       muxSenseAmp_range = (1, 256), muxOutputLev1_range = (1, 256), muxOutputLev2_range = (1, 256),
       areaOptimizationLevel_range = (0, 2),
       localWireType_range = (0, 3), localWireRepeaterType_range = (0, 7),
       isLocalWireLowSwing_range = (0, 1),
       globalWireType_range = (2, 5), globalWireRepeaterType_range = (0, 7),
       isGlobalWireLowSwing_range = (0, 1)\<rparr>,
     tagSpace := \<lparr>numRowMat_range = (1, 64), numColumnMat_range = (1, 64),
       numActiveMatPerRow_range = (1, 64), numActiveMatPerColumn_range = (1, 64),
       numRowSubarray_range = (1, 2), numColumnSubarray_range = (1, 2),
       numActiveSubarrayPerRow_range = (1, 2), numActiveSubarrayPerColumn_range = (1, 2),
       muxSenseAmp_range = (1, 64), muxOutputLev1_range = (1, 64), muxOutputLev2_range = (1, 64),
       areaOptimizationLevel_range = (0, 2),
       localWireType_range = (0, 3), localWireRepeaterType_range = (0, 7),
       isLocalWireLowSwing_range = (0, 1),
       globalWireType_range = (2, 5), globalWireRepeaterType_range = (0, 7),
       isGlobalWireLowSwing_range = (0, 1)\<rparr>,
     numRowPerSet_range := (1, assoc)\<rparr>"

text \<open>The tag phase reduces the ranges of the data array, not those of the tag array.\<close>

definition REDUCE_SEARCH_SIZE :: "Search \<Rightarrow> Search" where
  "REDUCE_SEARCH_SIZE S = S\<lparr>
     dataSpace := \<lparr>numRowMat_range = (1, 64), numColumnMat_range = (1, 64),
       numActiveMatPerRow_range = (1, 64), numActiveMatPerColumn_range = (1, 64),
       numRowSubarray_range = (1, 2), numColumnSubarray_range = (1, 2),
       numActiveSubarrayPerRow_range = (1, 2), numActiveSubarrayPerColumn_range = (1, 2),
       muxSenseAmp_range = (1, 64), muxOutputLev1_range = (1, 64), muxOutputLev2_range = (1, 64),
       areaOptimizationLevel_range = (0, 2),
       localWireType_range = (0, 1), localWireRepeaterType_range = (0, 1),
       isLocalWireLowSwing_range = (0, 1),
       globalWireType_range = (4, 5), globalWireRepeaterType_range = (0, 1),
       isGlobalWireLowSwing_range = (0, 1)\<rparr>,
     numRowPerSet_range := (1, 1)\<rparr>"

subsection \<open>The nested loops\<close>

text \<open>\<open>for (x = min; x <= max; x *= 2) body\<close>: what the bodies visit, in order.\<close>

definition nest :: "int list option \<Rightarrow> (int \<Rightarrow> 'a list option) \<Rightarrow> 'a list option" where
  "nest xs f = do { xs \<leftarrow> xs; yss \<leftarrow> those (map f xs); Some (concat yss) }"

definition loop2 :: "range \<Rightarrow> (int \<Rightarrow> 'a list option) \<Rightarrow> 'a list option" where
  "loop2 r = nest (doubling (fst r) (snd r))"

text \<open>The loops over an active number start and end at most at the number there is.\<close>

definition loop_active :: "int \<Rightarrow> range \<Rightarrow> (int \<Rightarrow> 'a list option) \<Rightarrow> 'a list option" where
  "loop_active n r = nest (doubling (cMIN n (fst r)) (cMIN n (snd r)))"

text \<open>The macros \<open>BIGFOR\<close> and \<open>BIGFOR_TAG\<close>, which differ in the ranges only.\<close>

definition BIGFOR :: "int \<Rightarrow> range \<Rightarrow> range \<Rightarrow> Space \<Rightarrow> Design list option" where
  "BIGFOR assoc stack rowPerSet S =
     loop2 (numRowMat_range S) (\<lambda>rm.
     loop2 (numColumnMat_range S) (\<lambda>cm.
     loop2 stack (\<lambda>sd.
     loop_active cm (numActiveMatPerRow_range S) (\<lambda>amr.
     loop_active rm (numActiveMatPerColumn_range S) (\<lambda>amc.
     loop2 (numRowSubarray_range S) (\<lambda>rs.
     loop2 (numColumnSubarray_range S) (\<lambda>cs.
     loop_active cs (numActiveSubarrayPerRow_range S) (\<lambda>asr.
     loop_active rs (numActiveSubarrayPerColumn_range S) (\<lambda>asc.
     loop2 (muxSenseAmp_range S) (\<lambda>ms.
     loop2 (muxOutputLev1_range S) (\<lambda>m1.
     loop2 (muxOutputLev2_range S) (\<lambda>m2.
     loop2 (fst rowPerSet, cMIN (snd rowPerSet) assoc) (\<lambda>rps.
       Some (map (\<lambda>lev. \<lparr>numRowMat = rm, numColumnMat = cm, stackedDieCount = sd,
                   numActiveMatPerRow = amr, numActiveMatPerColumn = amc,
                   numRowSubarray = rs, numColumnSubarray = cs,
                   numActiveSubarrayPerRow = asr, numActiveSubarrayPerColumn = asc,
                   muxSenseAmp = ms, muxOutputLev1 = m1, muxOutputLev2 = m2,
                   numRowPerSet = rps, areaOptimizationLevel = lev\<rparr>)
              [fst (areaOptimizationLevel_range S)..snd (areaOptimizationLevel_range S)]))))))))))))))"

text \<open>The number of subarrays that one access activates.\<close>

definition active_subarrays :: "Design \<Rightarrow> int res" where
  "active_subarrays d =
     ebind (imul (numActiveMatPerRow d) (numActiveMatPerColumn d)) (\<lambda>a.
     ebind (imul a (numActiveSubarrayPerRow d)) (\<lambda>b. imul b (numActiveSubarrayPerColumn d)))"

text \<open>The loops over the wires, with the test that excludes low-swing repeated wires.\<close>

definition wire_loop :: "range \<Rightarrow> range \<Rightarrow> range \<Rightarrow> (int \<times> int \<times> int) list" where
  "wire_loop types repeaters lowSwing =
     [(t, r, l). t \<leftarrow> [fst types..snd types], r \<leftarrow> [fst repeaters..snd repeaters],
                 l \<leftarrow> [fst lowSwing..snd lowSwing], r = 0 \<or> l = 0]"

subsection \<open>The global state\<close>

text \<open>
  What the evaluation of a bank reads besides its arguments: the two wires, the technology with its
  TSV parameters and the ranges of the search.
\<close>

record Globals =
  g_localWire :: Wire
  g_globalWire :: Wire
  g_tech :: "Technology \<times> TsvParameters"
  g_search :: Search

text \<open>
  The macro \<open>CALCULATE\<close>: construct, initialize and evaluate a bank.  (A low-swing wire also keeps the
  sense amplifier of its last evaluation; nothing reads it.)
\<close>

type_synonym calculate = "Globals \<Rightarrow> BankArgs \<Rightarrow> Bank res"

definition wire_types :: "WireType list" where
  "wire_types = [local_aggressive, local_conservative, semi_aggressive, semi_conservative,
     global_aggressive, global_conservative, dram_wordline]"

definition repeater_types :: "WireRepeaterType list" where
  "repeater_types = [repeated_none, repeated_opt, repeated_5, repeated_10, repeated_20,
     repeated_30, repeated_40, repeated_50]"

text \<open>Initialize a wire from the integers of the search.\<close>

definition init_wire :: "Technology \<Rightarrow> InputParameter \<Rightarrow> int \<times> int \<times> int \<Rightarrow> Wire \<Rightarrow> Wire res" where
  "init_wire T ip trl w = (let (t, r, l) = trl in
     ebind (enum_of wire_types t) (\<lambda>ty. ebind (enum_of repeater_types r) (\<lambda>rep.
       Wire_Initialize T ip (processNode ip) ty rep (ip_temperature ip) (l \<noteq> 0) w)))"

definition INITIAL_BASIC_WIRE :: "InputParameter \<Rightarrow> Globals \<Rightarrow> Globals res" where
  "INITIAL_BASIC_WIRE ip G =
     (let S = dataSpace (g_search G); T = fst (g_tech G);
          pick = (\<lambda>r d. if fst r = snd r then fst r else d)
      in ebind (init_wire T ip (pick (localWireType_range S) 0, pick (localWireRepeaterType_range S) 0,
                                pick (isLocalWireLowSwing_range S) 0) (g_localWire G)) (\<lambda>lw.
         ebind (init_wire T ip (pick (globalWireType_range S) 4, pick (globalWireRepeaterType_range S) 0,
                                pick (isGlobalWireLowSwing_range S) 0) (g_globalWire G)) (\<lambda>gw.
           Inr (G\<lparr>g_localWire := lw, g_globalWire := gw\<rparr>))))"

text \<open>The configuration as the technology sees it, with the wire types of the current ranges.\<close>

definition ip_now :: "InputParameter \<Rightarrow> Globals \<Rightarrow> InputParameter" where
  "ip_now ip G = ip\<lparr>maxLocalWireType := snd (localWireType_range (dataSpace (g_search G))),
                   maxGlobalWireType := snd (globalWireType_range (dataSpace (g_search G)))\<rparr>"

subsection \<open>One design\<close>

text \<open>The best results of the eight targets, the number of solutions and the number of designs.\<close>

record Tally =
  bests :: "Result list"
  numSolution :: int
  numDesigns :: int

text \<open>\<open>tempResult\<close>: the bank and the current wires, in a freshly constructed result.\<close>

definition temp_result :: "Result \<Rightarrow> Globals \<Rightarrow> Bank \<Rightarrow> Result" where
  "temp_result fresh G b = fresh\<lparr>bank := Bank_assign (bank fresh) b,
     res_localWire := Wire_assign (res_localWire fresh) (g_localWire G),
     res_globalWire := Wire_assign (res_globalWire fresh) (g_globalWire G)\<rparr>"

definition UPDATE_BEST :: "Result \<Rightarrow> Result list \<Rightarrow> Result list" where
  "UPDATE_BEST new rs = map (\<lambda>r. fst (compareAndUpdate r new)) rs"

definition bank_bits :: "Bank \<Rightarrow> int \<Rightarrow> int" where
  "bank_bits b dies = mat_subarray_numColumn b * mat_subarray_numRow b * bank_numColumnMat b
     * bank_numRowMat b * bank_numColumnSubarray b * bank_numRowSubarray b * dies"

definition VERIFY_CAPACITY :: "Bank \<Rightarrow> int \<Rightarrow> int \<Rightarrow> unit res" where
  "VERIFY_CAPACITY b dies cap = guard_exit (bank_bits b dies = cap)"

text \<open>Evaluate a design and keep it where it is valid, accepted and better.\<close>

definition visit ::
  "calculate \<Rightarrow> Result \<Rightarrow> Globals \<Rightarrow> (Bank \<Rightarrow> bool) \<Rightarrow> BankArgs \<Rightarrow> Tally \<Rightarrow> Tally res" where
  "visit calc fresh G accept a s =
     ebind (calc G a) (\<lambda>b.
     let s = s\<lparr>numDesigns := numDesigns s + 1\<rparr> in
     if \<not> bank_invalid b \<and> accept b then
       ebind (VERIFY_CAPACITY b (stackedDieCount (ba_design a)) (ba_capacity a)) (\<lambda>_.
         Inr (s\<lparr>numSolution := numSolution s + 1,
                bests := UPDATE_BEST (temp_result fresh G b) (bests s)\<rparr>))
     else Inr s)"

text \<open>The body of the loop over the data array: too aggressive a partitioning is skipped.\<close>

definition data_step ::
  "calculate \<Rightarrow> Result \<Rightarrow> InputParameter \<Rightarrow> Globals \<Rightarrow> (Bank \<Rightarrow> bool) \<Rightarrow> int \<Rightarrow> int \<Rightarrow> int
     \<Rightarrow> Design \<Rightarrow> Tally \<Rightarrow> Tally res" where
  "data_step calc fresh ip G accept cap blk assoc d s =
     ebind (active_subarrays d) (\<lambda>n. ebind (cdiv blk n) (\<lambda>q.
       if q = 0 then Inr s
       else visit calc fresh G accept
              \<lparr>ba_design = d, ba_capacity = cap, ba_blockSize = blk, ba_associativity = assoc,
               ba_memoryType = data, ba_partitionGranularity = ip_partitionGranularity ip\<rparr> s))"

text \<open>The bits of a tag, with the dirty and the valid bit.\<close>

definition tag_bits :: "int \<Rightarrow> int \<Rightarrow> int" where
  "tag_bits numIndexBit numOffsetBit = TOTAL_ADDRESS_BIT - numIndexBit - numOffsetBit + 2"

text \<open>The tag is widened to a multiple of the number of active subarrays.\<close>

definition round_block :: "int \<Rightarrow> int \<Rightarrow> int res" where
  "round_block blk n =
     ebind (cmod blk n) (\<lambda>r. if r = 0 then Inr blk
                            else ebind (cdiv blk n) (\<lambda>q. Inr ((q + 1) * n)))"

definition tag_step ::
  "calculate \<Rightarrow> Result \<Rightarrow> InputParameter \<Rightarrow> int \<Rightarrow> Design \<Rightarrow> Globals \<times> Tally \<Rightarrow> (Globals \<times> Tally) res" where
  "tag_step calc fresh ip tagBits d Gs =
     (let G = fst Gs; s = snd Gs in
      ebind (SetLayerCount (ip_now ip G) (stackedDieCount d) (g_tech G)) (\<lambda>TP.
      let G = G\<lparr>g_tech := TP\<rparr> in
      ebind (active_subarrays d) (\<lambda>n. ebind (cdiv tagBits n) (\<lambda>q.
        if q = 0 then Inr (G, s)
        else
          ebind (round_block tagBits n) (\<lambda>blk. ebind (cdiv (ip_capacity ip * 8) (wordWidth ip)) (\<lambda>words.
          ebind (visit calc fresh G (\<lambda>_. True)
                   \<lparr>ba_design = d, ba_capacity = words * blk, ba_blockSize = blk,
                    ba_associativity = ip_associativity ip, ba_memoryType = tag,
                    ba_partitionGranularity = ip_partitionGranularity ip\<rparr> s)
            (\<lambda>s. Inr (G, s))))))))"

subsection \<open>Refining the wires\<close>

text \<open>The arguments of \<open>Initialize\<close> as they are kept in the bank of a result.\<close>

definition bank_args :: "MemoryType \<Rightarrow> Bank \<Rightarrow> BankArgs" where
  "bank_args mt b =
     \<lparr>ba_design = \<lparr>numRowMat = bank_numRowMat b, numColumnMat = bank_numColumnMat b,
        stackedDieCount = bank_stackedDieCount b,
        numActiveMatPerRow = bank_numActiveMatPerRow b,
        numActiveMatPerColumn = bank_numActiveMatPerColumn b,
        numRowSubarray = bank_numRowSubarray b, numColumnSubarray = bank_numColumnSubarray b,
        numActiveSubarrayPerRow = bank_numActiveSubarrayPerRow b,
        numActiveSubarrayPerColumn = bank_numActiveSubarrayPerColumn b,
        muxSenseAmp = bank_muxSenseAmp b, muxOutputLev1 = bank_muxOutputLev1 b,
        muxOutputLev2 = bank_muxOutputLev2 b, numRowPerSet = bank_numRowPerSet b,
        areaOptimizationLevel = bank_areaOptimizationLevel b\<rparr>,
      ba_capacity = bank_capacity b, ba_blockSize = bank_blockSize b,
      ba_associativity = bank_associativity b, ba_memoryType = mt,
      ba_partitionGranularity = bank_partitionGranularity b\<rparr>"

definition TRY_AND_UPDATE ::
  "calculate \<Rightarrow> Result \<Rightarrow> MemoryType \<Rightarrow> Globals \<Rightarrow> Result \<Rightarrow> Result res" where
  "TRY_AND_UPDATE calc fresh mt G r =
     ebind (calc G (bank_args mt (bank r))) (\<lambda>b. Inr (fst (compareAndUpdate r (temp_result fresh G b))))"

definition reload_wire :: "InputParameter \<Rightarrow> Technology \<Rightarrow> Wire \<Rightarrow> Wire \<Rightarrow> Wire res" where
  "reload_wire ip T old w =
     Wire_Initialize T ip (processNode ip) (wireType old) (wireRepeaterType old) (ip_temperature ip)
       (isLowSwing old) w"

definition LOAD_GLOBAL_WIRE :: "InputParameter \<Rightarrow> Result \<Rightarrow> Globals \<Rightarrow> Globals res" where
  "LOAD_GLOBAL_WIRE ip r G =
     ebind (reload_wire ip (fst (g_tech G)) (res_globalWire r) (g_globalWire G)) (\<lambda>gw.
       Inr (G\<lparr>g_globalWire := gw\<rparr>))"

definition LOAD_LOCAL_WIRE :: "InputParameter \<Rightarrow> Result \<Rightarrow> Globals \<Rightarrow> Globals res" where
  "LOAD_LOCAL_WIRE ip r G =
     ebind (reload_wire ip (fst (g_tech G)) (res_localWire r) (g_localWire G)) (\<lambda>lw.
       Inr (G\<lparr>g_localWire := lw\<rparr>))"

text \<open>The body of the loop over the eight targets: load the other wire of the result and try.\<close>

definition refine_step ::
  "calculate \<Rightarrow> Result \<Rightarrow> MemoryType \<Rightarrow> (Result \<Rightarrow> Globals \<Rightarrow> Globals res) \<Rightarrow> int
     \<Rightarrow> Globals \<times> Result list \<Rightarrow> (Globals \<times> Result list) res" where
  "refine_step calc fresh mt load i Gr =
     ebind (aget (snd Gr) i) (\<lambda>r.
     ebind (load r (fst Gr)) (\<lambda>G.
     ebind (TRY_AND_UPDATE calc fresh mt G r) (\<lambda>r.
     ebind (aset (snd Gr) i r) (\<lambda>rs. Inr (G, rs)))))"

definition refine_local ::
  "calculate \<Rightarrow> Result \<Rightarrow> MemoryType \<Rightarrow> InputParameter \<Rightarrow> int \<times> int \<times> int
     \<Rightarrow> Globals \<times> Result list \<Rightarrow> (Globals \<times> Result list) res" where
  "refine_local calc fresh mt ip trl Gr =
     ebind (init_wire (fst (g_tech (fst Gr))) ip trl (g_localWire (fst Gr))) (\<lambda>lw.
       for_up 0 8 (refine_step calc fresh mt (LOAD_GLOBAL_WIRE ip))
         ((fst Gr)\<lparr>g_localWire := lw\<rparr>, snd Gr))"

definition refine_global ::
  "calculate \<Rightarrow> Result \<Rightarrow> MemoryType \<Rightarrow> InputParameter \<Rightarrow> int \<times> int \<times> int
     \<Rightarrow> Globals \<times> Result list \<Rightarrow> (Globals \<times> Result list) res" where
  "refine_global calc fresh mt ip trl Gr =
     ebind (init_wire (fst (g_tech (fst Gr))) ip trl (g_globalWire (fst Gr))) (\<lambda>gw.
       for_up 0 8 (refine_step calc fresh mt (LOAD_LOCAL_WIRE ip))
         ((fst Gr)\<lparr>g_globalWire := gw\<rparr>, snd Gr))"

text \<open>Both refinements in turn, when the search found a solution.\<close>

definition refine ::
  "calculate \<Rightarrow> Result \<Rightarrow> MemoryType \<Rightarrow> InputParameter \<Rightarrow> Space \<Rightarrow> Globals \<times> Tally \<Rightarrow> (Globals \<times> Tally) res" where
  "refine calc fresh mt ip S Gs =
     (if numSolution (snd Gs) \<le> 0 then Inr Gs
      else
        ebind (efold (refine_local calc fresh mt ip)
                 (wire_loop (localWireType_range S) (localWireRepeaterType_range S)
                    (isLocalWireLowSwing_range S)) (fst Gs, bests (snd Gs))) (\<lambda>Gr.
        ebind (efold (refine_global calc fresh mt ip)
                 (wire_loop (globalWireType_range S) (globalWireRepeaterType_range S)
                    (isGlobalWireLowSwing_range S)) Gr) (\<lambda>Gr.
          Inr (fst Gr, (snd Gs)\<lparr>bests := snd Gr\<rparr>))))"

subsection \<open>Limits\<close>

text \<open>The allowed overheads of the configuration and the limits they give.\<close>

record Overheads =
  readLatencyConstraint :: dbl
  writeLatencyConstraint :: dbl
  readDynamicEnergyConstraint :: dbl
  writeDynamicEnergyConstraint :: dbl
  leakageConstraint :: dbl
  areaConstraint :: dbl
  readEdpConstraint :: dbl
  writeEdpConstraint :: dbl

record Limits =
  allowedReadLatency :: dbl
  allowedWriteLatency :: dbl
  allowedReadDynamicEnergy :: dbl
  allowedWriteDynamicEnergy :: dbl
  allowedLeakage :: dbl
  allowedArea :: dbl
  allowedReadEdp :: dbl
  allowedWriteEdp :: dbl

definition best_bank :: "Result list \<Rightarrow> OptimizationTarget \<Rightarrow> Bank" where
  "best_bank rs t = bank (rs ! nat (int_of_OptimizationTarget t))"

definition allowed :: "Overheads \<Rightarrow> Result list \<Rightarrow> Limits" where
  "allowed c rs =
     \<lparr>allowedReadLatency = readLatency (best_bank rs read_latency_optimized)
        * (readLatencyConstraint c + 1),
      allowedWriteLatency = writeLatency (best_bank rs write_latency_optimized)
        * (writeLatencyConstraint c + 1),
      allowedReadDynamicEnergy = readDynamicEnergy (best_bank rs read_energy_optimized)
        * (readDynamicEnergyConstraint c + 1),
      allowedWriteDynamicEnergy = writeDynamicEnergy (best_bank rs write_energy_optimized)
        * (writeDynamicEnergyConstraint c + 1),
      allowedLeakage = leakage (best_bank rs leakage_optimized) * (leakageConstraint c + 1),
      allowedArea = area (best_bank rs area_optimized) * (areaConstraint c + 1),
      allowedReadEdp = readLatency (best_bank rs read_edp_optimized)
        * readDynamicEnergy (best_bank rs read_edp_optimized) * (readEdpConstraint c + 1),
      allowedWriteEdp = writeLatency (best_bank rs write_edp_optimized)
        * writeDynamicEnergy (best_bank rs write_edp_optimized) * (writeEdpConstraint c + 1)\<rparr>"

definition APPLY_LIMIT :: "Limits \<Rightarrow> Result \<Rightarrow> Result" where
  "APPLY_LIMIT l r = (reset r)\<lparr>limitReadLatency := allowedReadLatency l,
     limitWriteLatency := allowedWriteLatency l,
     limitReadDynamicEnergy := allowedReadDynamicEnergy l,
     limitWriteDynamicEnergy := allowedWriteDynamicEnergy l,
     limitReadEdp := allowedReadEdp l, limitWriteEdp := allowedWriteEdp l,
     limitArea := allowedArea l, limitLeakage := allowedLeakage l\<rparr>"

definition satisfies :: "Limits \<Rightarrow> 'a FunctionUnit_scheme \<Rightarrow> bool" where
  "satisfies l b \<longleftrightarrow> readLatency b \<le> allowedReadLatency l \<and> writeLatency b \<le> allowedWriteLatency l
     \<and> readDynamicEnergy b \<le> allowedReadDynamicEnergy l
     \<and> writeDynamicEnergy b \<le> allowedWriteDynamicEnergy l
     \<and> leakage b \<le> allowedLeakage l \<and> area b \<le> allowedArea l
     \<and> readLatency b * readDynamicEnergy b \<le> allowedReadEdp l
     \<and> writeLatency b * writeDynamicEnergy b \<le> allowedWriteEdp l"

text \<open>
  The pruned results: optimized for \<open>i\<close> under a limit on \<open>j\<close> with an overhead of 10, 20 or 30 percent
  (\<open>k\<close> is 0, 1 or 2).  The code assigns them and then deletes them without a search.
\<close>

fun limit_for :: "OptimizationTarget \<Rightarrow> dbl \<Rightarrow> Bank \<Rightarrow> Result \<Rightarrow> Result" where
  "limit_for read_latency_optimized f b r = r\<lparr>limitReadLatency := readLatency b * f\<rparr>"
| "limit_for write_latency_optimized f b r = r\<lparr>limitWriteLatency := writeLatency b * f\<rparr>"
| "limit_for read_energy_optimized f b r = r\<lparr>limitReadDynamicEnergy := readDynamicEnergy b * f\<rparr>"
| "limit_for write_energy_optimized f b r = r\<lparr>limitWriteDynamicEnergy := writeDynamicEnergy b * f\<rparr>"
| "limit_for read_edp_optimized f b r = r\<lparr>limitReadEdp := readLatency b * readDynamicEnergy b * f\<rparr>"
| "limit_for write_edp_optimized f b r = r\<lparr>limitWriteEdp := writeLatency b * writeDynamicEnergy b * f\<rparr>"
| "limit_for area_optimized f b r = r\<lparr>limitArea := area b * f\<rparr>"
| "limit_for leakage_optimized f b r = r\<lparr>limitLeakage := leakage b * f\<rparr>"
| "limit_for full_exploration f b r = r"

definition pruning_result ::
  "Result \<Rightarrow> Result list \<Rightarrow> OptimizationTarget \<Rightarrow> OptimizationTarget \<Rightarrow> int \<Rightarrow> Result" where
  "pruning_result fresh rs i j k =
     (let best = rs ! nat (int_of_OptimizationTarget i)
      in limit_for j (1 + (i2d k + 1) / 10) (best_bank rs j)
           (fresh\<lparr>res_optimizationTarget := i,
              res_localWire := Wire_assign (res_localWire fresh) (res_localWire best),
              res_globalWire := Wire_assign (res_globalWire fresh) (res_globalWire best)\<rparr>))"

subsection \<open>nvsim\<close>

text \<open>
  \<open>applyConstraint\<close>: what is not supported ends the program; the associativity is ignored unless a
  cache is designed.  (An associativity that is not a power of two only prints a message.)
\<close>

definition applyConstraint :: "MemCell \<Rightarrow> InputParameter \<Rightarrow> InputParameter res" where
  "applyConstraint cell ip =
     (if designTarget ip = CAM_chip \<or> memCellType cell = DRAM \<or> memCellType cell = MLCNAND
      then Inl Exit
      else
        let ip = (if designTarget ip \<noteq> cache \<and> 1 < ip_associativity ip
                  then ip\<lparr>ip_associativity := 1\<rparr> else ip)
        in if routingMode ip = h_tree \<and> \<not> internalSensing ip then Inl Exit else Inr ip)"

text \<open>The eight results at the start of \<open>nvsim\<close>: one per target, for the cell with the given index.\<close>

definition targets :: "OptimizationTarget list" where
  "targets = [read_latency_optimized, write_latency_optimized, read_energy_optimized,
     write_energy_optimized, read_edp_optimized, write_edp_optimized, leakage_optimized,
     area_optimized]"

definition init_results :: "Result \<Rightarrow> int \<Rightarrow> Result list" where
  "init_results fresh cellIdx =
     map (\<lambda>t. fresh\<lparr>res_optimizationTarget := t, cellTech := Some cellIdx\<rparr>) targets"

text \<open>Index bits and offset bits of the tag.\<close>

definition tag_width :: "InputParameter \<Rightarrow> int res" where
  "tag_width ip =
     ebind (cdiv (ip_capacity ip * 8) (wordWidth ip)) (\<lambda>words.
     ebind (cdiv words (ip_associativity ip)) (\<lambda>numDataSet.
     if \<not> int_ok numDataSet then Inl Undef else
     ebind (ilog2 (i2d numDataSet)) (\<lambda>numIndexBit.
     ebind (ilog2 (i2d (wordWidth ip sdiv 8))) (\<lambda>numOffsetBit.
       Inr (tag_bits numIndexBit numOffsetBit)))))"

definition start_tally :: "Result list \<Rightarrow> Tally" where
  "start_tally rs = \<lparr>bests = rs, numSolution = 0, numDesigns = 0\<rparr>"

text \<open>The tag phase: the search over the tag arrays and the refinement of the wires.\<close>

definition tag_phase ::
  "calculate \<Rightarrow> Result \<Rightarrow> InputParameter \<Rightarrow> Globals \<Rightarrow> Result list \<Rightarrow> (Globals \<times> Tally) res" where
  "tag_phase calc fresh ip G rs =
     (let G = G\<lparr>g_search := REDUCE_SEARCH_SIZE (g_search G)\<rparr>; S = g_search G in
      ebind (tag_width ip) (\<lambda>tagBits.
      ebind (INITIAL_BASIC_WIRE ip G) (\<lambda>G.
      ebind (ended (BIGFOR (ip_associativity ip) (stackLayer_range S) (numRowPerSet_range S) (tagSpace S)))
        (\<lambda>ds.
      ebind (efold (tag_step calc fresh ip tagBits) ds (G, start_tally rs)) (\<lambda>Gs.
        refine calc fresh tag ip (tagSpace S) Gs)))))"

text \<open>
  Capacity, block size and associativity of the data array.  In normal mode a set must not be
  distributed over several rows, which narrows the range of the search.
\<close>

definition data_parameters ::
  "InputParameter \<Rightarrow> MemCell \<Rightarrow> Search \<Rightarrow> int \<times> int \<times> int \<times> Search" where
  "data_parameters ip cell S =
     (let cap = ip_capacity ip * 8; blk = wordWidth ip; assoc = ip_associativity ip;
          (blk, assoc, S) =
            (if designTarget ip \<noteq> cache then (blk, assoc, S)
             else case cacheAccessMode ip of
                    sequential_access_mode \<Rightarrow> (blk, 1, S)
                  | fast_access_mode \<Rightarrow> (blk * assoc, 1, S)
                  | normal_access_mode \<Rightarrow> (blk, assoc, S\<lparr>numRowPerSet_range := (1, 1)\<rparr>));
          (blk, assoc) =
            (if designTarget ip = RAM_chip \<and> (memCellType cell = SLCNAND \<or> memCellType cell = DRAM)
             then (pageSize ip, 1) else (blk, assoc))
      in (cap, blk, assoc, S))"

text \<open>One pass over the data arrays.\<close>

definition data_pass ::
  "calculate \<Rightarrow> Result \<Rightarrow> InputParameter \<Rightarrow> Globals \<Rightarrow> (Bank \<Rightarrow> bool) \<Rightarrow> int \<Rightarrow> int \<Rightarrow> int \<Rightarrow> Tally
     \<Rightarrow> (Globals \<times> Tally) res" where
  "data_pass calc fresh ip G accept cap blk assoc s =
     (let S = g_search G in
      ebind (INITIAL_BASIC_WIRE ip G) (\<lambda>G.
      ebind (ended (BIGFOR (ip_associativity ip) (stackLayer_range S) (numRowPerSet_range S) (dataSpace S)))
        (\<lambda>ds. ebind (efold (data_step calc fresh ip G accept cap blk assoc) ds s) (\<lambda>s. Inr (G, s)))))"

text \<open>The second pass under the limits, when constraints are configured.\<close>

definition constrained_phase ::
  "calculate \<Rightarrow> Result \<Rightarrow> InputParameter \<Rightarrow> Overheads \<Rightarrow> int \<Rightarrow> int \<Rightarrow> int \<Rightarrow> Globals \<times> Tally
     \<Rightarrow> (Globals \<times> Tally) res" where
  "constrained_phase calc fresh ip c cap blk assoc Gs =
     (if optimizationTarget ip \<noteq> full_exploration \<and> isConstraintApplied ip then
        let s = snd Gs; l = allowed c (bests s)
        in data_pass calc fresh ip (fst Gs) (satisfies l) cap blk assoc
             (s\<lparr>bests := map (APPLY_LIMIT l) (bests s), numSolution := 0\<rparr>)
      else Inr Gs)"

text \<open>
  The data array: the pass over all designs, the refinement of the wires and the pass under the
  constraints.
\<close>

definition data_phase ::
  "calculate \<Rightarrow> Result \<Rightarrow> Overheads \<Rightarrow> MemCell \<Rightarrow> InputParameter \<Rightarrow> Globals \<Rightarrow> Result list
     \<Rightarrow> (Globals \<times> Tally) res" where
  "data_phase calc fresh c cell ip G rs =
     (let (cap, blk, assoc, S) = data_parameters ip cell (g_search G);
          G = G\<lparr>g_search := S\<rparr>
      in ebind (data_pass calc fresh ip G (\<lambda>_. True) cap blk assoc (start_tally rs)) (\<lambda>Gs.
         ebind (refine calc fresh data ip (dataSpace S) Gs) (\<lambda>Gs.
           constrained_phase calc fresh ip c cap blk assoc Gs)))"

text \<open>
  The whole search for one cell.  \<open>reread\<close> is the effect of reading the configuration file once more
  on the ranges.  The result is the value that the function returns (1 when there is no tag array),
  the data results, the tag results, the number of solutions and the configuration.
\<close>

definition nvsim ::
  "calculate \<Rightarrow> Result \<Rightarrow> (Search \<Rightarrow> Search) \<Rightarrow> Overheads \<Rightarrow> MemCell \<Rightarrow> int \<Rightarrow> InputParameter \<Rightarrow> Globals
     \<Rightarrow> (int \<times> Result list \<times> Result list \<times> int \<times> InputParameter \<times> Globals) res" where
  "nvsim calc fresh reread c cell cellIdx ip G =
     ebind (applyConstraint cell ip) (\<lambda>ip.
     let rs = init_results fresh cellIdx;
         G = G\<lparr>g_localWire := Wire_new (g_localWire G), g_globalWire := Wire_new (g_globalWire G)\<rparr> in
     ebind (if designTarget ip = cache then
              ebind (tag_phase calc fresh ip G rs) (\<lambda>(G, s).
                if numSolution s = 0 then Inr (True, G, bests s)
                else ebind (applyConstraint cell ip) (\<lambda>ip.
                  Inr (False, G\<lparr>g_search := reread (RESTORE_SEARCH_SIZE (ip_associativity ip)
                                                   (g_search G))\<rparr>, bests s)))
            else Inr (False, G, rs)) (\<lambda>(failed, G, tags).
     if failed then Inr (1, rs, tags, 0, ip, G)
     else ebind (data_phase calc fresh c cell ip G rs) (\<lambda>(G, s).
            Inr (0, bests s, tags, numSolution s, ip, G))))"

subsection \<open>main: the best over the memory cells\<close>

text \<open>
  The comparison of the results of the cell with index \<open>idx\<close> with those of the first cell, for one
  target.  When the tag array must use the same technology as the data array, the tag result
  follows the data result.
\<close>

definition copy_parts :: "Result \<Rightarrow> Result \<Rightarrow> Result" where
  "copy_parts r new = r\<lparr>bank := Bank_assign (bank r) (bank new),
     res_localWire := Wire_assign (res_localWire r) (res_localWire new),
     res_globalWire := Wire_assign (res_globalWire r) (res_globalWire new)\<rparr>"

definition merge_cell :: "bool \<Rightarrow> int \<Rightarrow> Result \<times> Result \<Rightarrow> Result \<times> Result \<Rightarrow> Result \<times> Result" where
  "merge_cell allowDifferentTagTech idx best new =
     (let (d, t) = best; (d', t') = new;
          (d, updated) = compareAndUpdate d d';
          d = (if updated then d\<lparr>cellTech := Some idx\<rparr> else d);
          t = (if updated \<and> \<not> allowDifferentTagTech
               then (copy_parts t t')\<lparr>cellTech := Some idx\<rparr> else t)
      in if allowDifferentTagTech then
           let (t, updated) = compareAndUpdate t t'
           in (d, if updated then t\<lparr>cellTech := Some idx\<rparr> else t)
         else (d, t))"

text \<open>All cells after the first one, in order, with their indices.\<close>

definition merge_cells ::
  "bool \<Rightarrow> (int \<times> Result \<times> Result) list \<Rightarrow> Result \<times> Result \<Rightarrow> Result \<times> Result" where
  "merge_cells different news best =
     fold (\<lambda>(idx, new) best. merge_cell different idx best new) news best"

end
