(* ===== verification/Search.thy ===== *)
theory Search
  imports Explore
begin

text \<open>
  The search visits every design of its space once and ends: the set of the designs of the nested
  loops, for ranges that start above zero and stay below \<open>2^30\<close>.
\<close>

subsection \<open>One loop\<close>

definition doubles :: "range \<Rightarrow> int set" where
  "doubles r = {y. \<exists>k::nat. y = fst r * 2 ^ k \<and> y \<le> snd r}"

definition range_ok :: "range \<Rightarrow> bool" where
  "range_ok r \<longleftrightarrow> 0 < fst r \<and> loop_bound (snd r)"

text \<open>A range of a loop over the active parts of \<open>n\<close> parts.\<close>

definition capped :: "int \<Rightarrow> range \<Rightarrow> range" where
  "capped n r = (cMIN n (fst r), cMIN n (snd r))"

lemma doubles_pos: "range_ok r \<Longrightarrow> y \<in> doubles r \<Longrightarrow> 0 < y"
  by (auto simp: doubles_def range_ok_def)

lemma doubles_le: "y \<in> doubles r \<Longrightarrow> y \<le> snd r"
  by (auto simp: doubles_def)

lemma capped_ok: "0 < n \<Longrightarrow> range_ok r \<Longrightarrow> range_ok (capped n r)"
  by (auto simp: capped_def range_ok_def cMIN_def)

lemma capped_le: "y \<in> doubles (capped n r) \<Longrightarrow> y \<le> n"
  by (auto simp: doubles_def capped_def cMIN_def split: if_splits)

lemma doubles_pow2: "pow2 (fst r) \<Longrightarrow> y \<in> doubles r \<Longrightarrow> pow2 y"
  by (auto simp: doubles_def)

lemma capped_pow2: "pow2 n \<Longrightarrow> pow2 (fst r) \<Longrightarrow> y \<in> doubles (capped n r) \<Longrightarrow> pow2 y"
  by (rule doubles_pow2 [of "capped n r"]) (auto simp: capped_def min_def)

text \<open>What a nest of loops visits: it ends, and visits each element of a set once.\<close>

definition covers :: "'a list option \<Rightarrow> 'a set \<Rightarrow> bool" where
  "covers x A \<longleftrightarrow> (\<exists>xs. x = Some xs \<and> distinct xs \<and> set xs = A)"

lemma coversI: "distinct xs \<Longrightarrow> set xs = A \<Longrightarrow> covers (Some xs) A"
  by (auto simp: covers_def)

lemma doubling_distinct: "doubling x hi = Some xs \<Longrightarrow> 0 < x \<Longrightarrow> loop_bound hi \<Longrightarrow> distinct xs"
proof (induction xs arbitrary: x)
  case (Cons z zs)
  then have le: "x \<le> hi" by (cases "x \<le> hi") (auto simp: doubling_above)
  with Cons.prems have z: "z = x" and zs: "doubling (x * 2) hi = Some zs"
    by (auto simp: doubling_step bind_eq_Some_conv)
  have "x \<notin> set zs"
    using doubling_sound [OF zs _ Cons.prems(3)] Cons.prems(2)
    by (smt (verit) mult_le_cancel_left1 one_le_power)
  then show ?case using Cons.IH [OF zs] Cons.prems z by simp
qed simp

lemma doubling_covers: "range_ok r \<Longrightarrow> covers (doubling (fst r) (snd r)) (doubles r)"
  using doubling_set [of "fst r" "snd r"] doubling_distinct [of "fst r" "snd r"]
  by (auto simp: covers_def doubles_def range_ok_def)

lemma those_covers:
  assumes "distinct xs" "\<And>x. x \<in> set xs \<Longrightarrow> covers (f x) (G x)"
    and "\<And>x d. x \<in> set xs \<Longrightarrow> d \<in> G x \<Longrightarrow> proj d = x"
  shows "\<exists>yss. those (map f xs) = Some yss \<and> distinct (concat yss)
           \<and> set (concat yss) = (\<Union>x\<in>set xs. G x)"
  using assms
proof (induction xs)
  case (Cons x xs)
  then obtain yss where yss: "those (map f xs) = Some yss" "distinct (concat yss)"
    "set (concat yss) = (\<Union>x\<in>set xs. G x)" by auto
  from Cons.prems(2) [of x] obtain ys where ys: "f x = Some ys" "distinct ys" "set ys = G x"
    by (auto simp: covers_def)
  have "G x \<inter> (\<Union>y\<in>set xs. G y) = {}" 
  proof -
    have "proj d = x" "\<forall>y\<in>set xs. d \<in> G y \<longrightarrow> proj d = y" if "d \<in> G x" for d
      using that Cons.prems(3) by auto
    then show ?thesis using Cons.prems(1) by auto
  qed
  with yss ys show ?case by (intro exI [of _ "ys # yss"]) simp
qed simp

text \<open>
  The rule of a nest: the set of the outer loop, what the body visits for each value, and a
  projection that tells the values apart.
\<close>

lemma nest_covers:
  assumes "covers o1 A" "\<And>x. x \<in> A \<Longrightarrow> covers (f x) (G x)" "\<And>x d. x \<in> A \<Longrightarrow> d \<in> G x \<Longrightarrow> proj d = x"
  shows "covers (nest o1 f) (\<Union>x\<in>A. G x)"
proof -
  from assms(1) obtain xs where xs: "o1 = Some xs" "distinct xs" "set xs = A"
    by (auto simp: covers_def)
  with those_covers [of xs f G proj] assms(2,3) show ?thesis by (auto simp: nest_def covers_def)
qed

lemma loop2_covers:
  assumes "range_ok r" "\<And>x. 0 < x \<Longrightarrow> x \<in> doubles r \<Longrightarrow> covers (f x) (G x)"
    and "\<And>x d. x \<in> doubles r \<Longrightarrow> d \<in> G x \<Longrightarrow> proj d = x"
  shows "covers (loop2 r f) (\<Union>x\<in>doubles r. G x)"
  unfolding loop2_def
  by (rule nest_covers [OF doubling_covers [OF assms(1)], where proj = proj])
     (auto intro: assms doubles_pos [OF assms(1)])

lemma loop_active_covers:
  assumes "0 < n" "range_ok r"
    and "\<And>x. 0 < x \<Longrightarrow> x \<in> doubles (capped n r) \<Longrightarrow> covers (f x) (G x)"
    and "\<And>x d. x \<in> doubles (capped n r) \<Longrightarrow> d \<in> G x \<Longrightarrow> proj d = x"
  shows "covers (loop_active n r f) (\<Union>x\<in>doubles (capped n r). G x)"
proof -
  have "loop_active n r f = loop2 (capped n r) f"
    by (simp add: loop_active_def loop2_def capped_def)
  then show ?thesis using loop2_covers [OF capped_ok [OF assms(1,2)] assms(3,4)] by simp
qed

subsection \<open>The nested loops\<close>

text \<open>The designs of a space.\<close>

definition legal :: "int \<Rightarrow> range \<Rightarrow> range \<Rightarrow> Space \<Rightarrow> Design \<Rightarrow> bool" where
  "legal assoc stack rowPerSet S d \<longleftrightarrow>
     numRowMat d \<in> doubles (numRowMat_range S)
     \<and> numColumnMat d \<in> doubles (numColumnMat_range S)
     \<and> stackedDieCount d \<in> doubles stack
     \<and> numActiveMatPerRow d \<in> doubles (capped (numColumnMat d) (numActiveMatPerRow_range S))
     \<and> numActiveMatPerColumn d \<in> doubles (capped (numRowMat d) (numActiveMatPerColumn_range S))
     \<and> numRowSubarray d \<in> doubles (numRowSubarray_range S)
     \<and> numColumnSubarray d \<in> doubles (numColumnSubarray_range S)
     \<and> numActiveSubarrayPerRow d \<in> doubles (capped (numColumnSubarray d) (numActiveSubarrayPerRow_range S))
     \<and> numActiveSubarrayPerColumn d \<in> doubles (capped (numRowSubarray d) (numActiveSubarrayPerColumn_range S))
     \<and> muxSenseAmp d \<in> doubles (muxSenseAmp_range S)
     \<and> muxOutputLev1 d \<in> doubles (muxOutputLev1_range S)
     \<and> muxOutputLev2 d \<in> doubles (muxOutputLev2_range S)
     \<and> numRowPerSet d \<in> doubles (fst rowPerSet, cMIN (snd rowPerSet) assoc)
     \<and> areaOptimizationLevel d \<in> {fst (areaOptimizationLevel_range S)..snd (areaOptimizationLevel_range S)}"

definition space_ok :: "int \<Rightarrow> range \<Rightarrow> range \<Rightarrow> Space \<Rightarrow> bool" where
  "space_ok assoc stack rowPerSet S \<longleftrightarrow>
     list_all range_ok [stack, (fst rowPerSet, cMIN (snd rowPerSet) assoc),
       numRowMat_range S, numColumnMat_range S, numActiveMatPerRow_range S,
       numActiveMatPerColumn_range S, numRowSubarray_range S, numColumnSubarray_range S,
       numActiveSubarrayPerRow_range S, numActiveSubarrayPerColumn_range S, muxSenseAmp_range S,
       muxOutputLev1_range S, muxOutputLev2_range S]"

lemma levels_covers:
  assumes "inj g" shows "covers (Some (map g [a..b])) (\<Union>l\<in>{a..b}. {g l})"
  by (rule coversI) (auto simp: distinct_map intro: inj_on_subset [OF assms])

lemma space_okD:
  assumes "space_ok assoc stack rps S"
  shows "range_ok stack" "range_ok (fst rps, cMIN (snd rps) assoc)"
    "range_ok (numRowMat_range S)" "range_ok (numColumnMat_range S)"
    "range_ok (numActiveMatPerRow_range S)" "range_ok (numActiveMatPerColumn_range S)"
    "range_ok (numRowSubarray_range S)" "range_ok (numColumnSubarray_range S)"
    "range_ok (numActiveSubarrayPerRow_range S)" "range_ok (numActiveSubarrayPerColumn_range S)"
    "range_ok (muxSenseAmp_range S)" "range_ok (muxOutputLev1_range S)" "range_ok (muxOutputLev2_range S)"
  using assms by (auto simp: space_ok_def)

lemma legalD:
  assumes "legal assoc stack rps S d"
  shows "numRowMat d \<in> doubles (numRowMat_range S)"
    "numColumnMat d \<in> doubles (numColumnMat_range S)" "stackedDieCount d \<in> doubles stack"
    "numActiveMatPerRow d \<in> doubles (capped (numColumnMat d) (numActiveMatPerRow_range S))"
    "numActiveMatPerColumn d \<in> doubles (capped (numRowMat d) (numActiveMatPerColumn_range S))"
    "numRowSubarray d \<in> doubles (numRowSubarray_range S)"
    "numColumnSubarray d \<in> doubles (numColumnSubarray_range S)"
    "numActiveSubarrayPerRow d \<in> doubles (capped (numColumnSubarray d) (numActiveSubarrayPerRow_range S))"
    "numActiveSubarrayPerColumn d \<in> doubles (capped (numRowSubarray d) (numActiveSubarrayPerColumn_range S))"
    "muxSenseAmp d \<in> doubles (muxSenseAmp_range S)" "muxOutputLev1 d \<in> doubles (muxOutputLev1_range S)"
    "muxOutputLev2 d \<in> doubles (muxOutputLev2_range S)"
  using assms by (simp_all add: legal_def)

lemma BIGFOR_covers:
  assumes "space_ok assoc stack rps S"
  shows "covers (BIGFOR assoc stack rps S) {d. legal assoc stack rps S d}"
proof -
  note r = space_okD [OF assms]
  show ?thesis
    unfolding BIGFOR_def
    apply (rule back_subst [where P = "covers _"])
     apply (rule loop2_covers [where proj = numRowMat], rule r)
      apply (rule loop2_covers [where proj = numColumnMat], rule r)
       apply (rule loop2_covers [where proj = stackedDieCount], rule r)
        apply (rule loop_active_covers [where proj = numActiveMatPerRow], assumption, rule r)
         apply (rule loop_active_covers [where proj = numActiveMatPerColumn], assumption, rule r)
          apply (rule loop2_covers [where proj = numRowSubarray], rule r)
           apply (rule loop2_covers [where proj = numColumnSubarray], rule r)
            apply (rule loop_active_covers [where proj = numActiveSubarrayPerRow], assumption, rule r)
             apply (rule loop_active_covers [where proj = numActiveSubarrayPerColumn], assumption, rule r)
              apply (rule loop2_covers [where proj = muxSenseAmp], rule r)
               apply (rule loop2_covers [where proj = muxOutputLev1], rule r)
                apply (rule loop2_covers [where proj = muxOutputLev2], rule r)
                 apply (rule loop2_covers [where proj = numRowPerSet], rule r)
                  apply (rule levels_covers, rule injI, simp)
                 apply (auto simp: legal_def)[13]
    apply (rule set_eqI)
    subgoal for d by (cases d) (simp add: legal_def)
    done
qed

end
