(* ===== verification/Optimum.thy ===== *)
theory Optimum
  imports Search
begin

text \<open>
  What the search keeps: the passes over the data arrays as a log of the banks found, the optimality
  of the results, the refinement of the wires, which never worsens a result, and the merge over the
  memory cells.
\<close>

subsection \<open>The banks that a pass evaluates and finds\<close>

definition data_args :: "InputParameter \<Rightarrow> int \<Rightarrow> int \<Rightarrow> int \<Rightarrow> Design \<Rightarrow> BankArgs" where
  "data_args ip cap blk assoc d =
     \<lparr>ba_design = d, ba_capacity = cap, ba_blockSize = blk, ba_associativity = assoc,
      ba_memoryType = data, ba_partitionGranularity = ip_partitionGranularity ip\<rparr>"

definition evaluated ::
  "calculate \<Rightarrow> InputParameter \<Rightarrow> Globals \<Rightarrow> int \<Rightarrow> int \<Rightarrow> int \<Rightarrow> Design \<Rightarrow> Bank list" where
  "evaluated calc ip G cap blk assoc d =
     (case active_subarrays d of Inl _ \<Rightarrow> []
      | Inr n \<Rightarrow> if n = 0 \<or> blk sdiv n = 0 then []
                else case calc G (data_args ip cap blk assoc d) of Inl _ \<Rightarrow> [] | Inr b \<Rightarrow> [b])"

definition found ::
  "calculate \<Rightarrow> InputParameter \<Rightarrow> Globals \<Rightarrow> (Bank \<Rightarrow> bool) \<Rightarrow> int \<Rightarrow> int \<Rightarrow> int \<Rightarrow> Design \<Rightarrow> Bank list" where
  "found calc ip G accept cap blk assoc d =
     filter (\<lambda>b. \<not> bank_invalid b \<and> accept b) (evaluated calc ip G cap blk assoc d)"

definition all_found ::
  "calculate \<Rightarrow> InputParameter \<Rightarrow> Globals \<Rightarrow> (Bank \<Rightarrow> bool) \<Rightarrow> int \<Rightarrow> int \<Rightarrow> int \<Rightarrow> Design list \<Rightarrow> Bank list" where
  "all_found calc ip G accept cap blk assoc ds =
     concat (map (found calc ip G accept cap blk assoc) ds)"

text \<open>The effect of evaluating \<open>n\<close> designs that gave the banks \<open>bs\<close>.\<close>

definition log_banks :: "Result \<Rightarrow> Globals \<Rightarrow> Bank list \<Rightarrow> int \<Rightarrow> Tally \<Rightarrow> Tally" where
  "log_banks fresh G bs n s =
     s\<lparr>bests := fold UPDATE_BEST (map (temp_result fresh G) bs) (bests s),
       numSolution := numSolution s + int (length bs), numDesigns := numDesigns s + n\<rparr>"

lemma log_banks_nil [simp]: "log_banks fresh G [] 0 s = s"
  by (simp add: log_banks_def)

lemma log_banks_append:
  "log_banks fresh G cs m (log_banks fresh G bs n s) = log_banks fresh G (bs @ cs) (n + m) s"
  by (simp add: log_banks_def)

lemma visit_log:
  "visit calc fresh G accept a s = Inr t \<longleftrightarrow>
     (\<exists>b. calc G a = Inr b \<and>
        (if \<not> bank_invalid b \<and> accept b
         then bank_bits b (stackedDieCount (ba_design a)) = ba_capacity a \<and> t = log_banks fresh G [b] 1 s
         else t = log_banks fresh G [] 1 s))"
  by (cases "calc G a") (auto simp: visit_def log_banks_def VERIFY_CAPACITY_def Let_def ebind_Inr)

text \<open>One design.\<close>

lemma data_step_log:
  "data_step calc fresh ip G accept cap blk assoc d s = Inr t \<Longrightarrow>
     t = log_banks fresh G (found calc ip G accept cap blk assoc d)
           (int (length (evaluated calc ip G cap blk assoc d))) s
     \<and> (\<forall>b \<in> set (found calc ip G accept cap blk assoc d). bank_bits b (stackedDieCount d) = cap)"
  by (auto simp: data_step_def cdiv_def found_def evaluated_def data_args_def visit_log
      split: if_splits sum.splits)

text \<open>All designs.\<close>

lemma data_steps_log:
  "efold (data_step calc fresh ip G accept cap blk assoc) ds s = Inr t \<Longrightarrow>
     t = log_banks fresh G (all_found calc ip G accept cap blk assoc ds)
           (int (length (concat (map (evaluated calc ip G cap blk assoc) ds)))) s
     \<and> (\<forall>d \<in> set ds. \<forall>b \<in> set (found calc ip G accept cap blk assoc d).
           bank_bits b (stackedDieCount d) = cap)"
proof (induction ds arbitrary: s)
  case Nil
  then show ?case by (simp add: all_found_def)
next
  case (Cons d ds)
  then obtain u where u: "data_step calc fresh ip G accept cap blk assoc d s = Inr u"
    "efold (data_step calc fresh ip G accept cap blk assoc) ds u = Inr t" by auto
  show ?case
    using data_step_log [OF u(1)] Cons.IH [OF u(2)]
    by (simp add: all_found_def log_banks_append add.commute)
qed

text \<open>The whole pass, over the designs of the space.\<close>

lemma data_pass_log:
  assumes "data_pass calc fresh ip G accept cap blk assoc s = Inr (G', t)"
  obtains ds where
    "BIGFOR (ip_associativity ip) (stackLayer_range (g_search G)) (numRowPerSet_range (g_search G))
       (dataSpace (g_search G)) = Some ds"
    "INITIAL_BASIC_WIRE ip G = Inr G'"
    "bests t = fold UPDATE_BEST (map (temp_result fresh G') (all_found calc ip G' accept cap blk assoc ds)) (bests s)"
    "numSolution t = numSolution s + int (length (all_found calc ip G' accept cap blk assoc ds))"
    "\<forall>d \<in> set ds. \<forall>b \<in> set (found calc ip G' accept cap blk assoc d). bank_bits b (stackedDieCount d) = cap"
proof -
  from assms obtain ds where ds: "INITIAL_BASIC_WIRE ip G = Inr G'"
    "BIGFOR (ip_associativity ip) (stackLayer_range (g_search G)) (numRowPerSet_range (g_search G))
       (dataSpace (g_search G)) = Some ds"
    "efold (data_step calc fresh ip G' accept cap blk assoc) ds s = Inr t"
    by (auto simp: data_pass_def Let_def ended_def split: option.splits)
  show ?thesis
    by (rule that [OF ds(2,1)]) (use data_steps_log [OF ds(3)] in \<open>simp_all add: log_banks_def\<close>)
qed

subsection \<open>The results kept\<close>

abbreviation (input) compare_all :: "Result list \<Rightarrow> Result \<Rightarrow> Result" where
  "compare_all news r \<equiv> fold (\<lambda>new r. fst (compareAndUpdate r new)) news r"

lemma fold_UPDATE_BEST: "fold UPDATE_BEST news rs = map (compare_all news) rs"
  by (induction news arbitrary: rs) (simp_all add: UPDATE_BEST_def)

lemma bank_temp_result [simp]: "bank (temp_result fresh G b) = b"
  by (simp add: temp_result_def Bank_assign_eq)

abbreviation (input) best_of :: "Result \<Rightarrow> Bank list \<Rightarrow> Bank" where
  "best_of r bs \<equiv> fold (keep (better (res_optimizationTarget r)) (within_limits r)) bs (bank r)"

lemma compare_all_temp:
  "same_goal (compare_all (map (temp_result fresh G) bs) r) r"
  "bank (compare_all (map (temp_result fresh G) bs) r) = best_of r bs"
  using fold_compare [of "map (temp_result fresh G) bs" r] by (simp_all add: comp_def)

text \<open>
  A result after a pass: no bank found within the limits is better; it is the result before, or a
  bank found within the limits that is better.
\<close>

definition optimal :: "Result \<Rightarrow> Bank set \<Rightarrow> Result \<Rightarrow> bool" where
  "optimal r B r' \<longleftrightarrow> same_goal r' r
     \<and> (\<forall>b \<in> B. within_limits r b \<longrightarrow> \<not> better (res_optimizationTarget r) b (bank r'))
     \<and> (bank r' = bank r
        \<or> bank r' \<in> B \<and> within_limits r (bank r') \<and> better (res_optimizationTarget r) (bank r') (bank r))"

lemma optimal_compare_all: "optimal r (set bs) (compare_all (map (temp_result fresh G) bs) r)"
  unfolding optimal_def compare_all_temp(2)
  using compare_all_temp(1) [of fresh G bs r] kept.fold_best [of _ bs r "res_optimizationTarget r" "bank r"]
    kept.fold_source [of "res_optimizationTarget r" r bs "bank r"] by blast

text \<open>The banks found over all designs of a space.\<close>

definition found_in ::
  "calculate \<Rightarrow> InputParameter \<Rightarrow> Globals \<Rightarrow> (Bank \<Rightarrow> bool) \<Rightarrow> int \<Rightarrow> int \<Rightarrow> int \<Rightarrow> Bank set" where
  "found_in calc ip G accept cap blk assoc =
     {b. \<exists>d. legal (ip_associativity ip) (stackLayer_range (g_search G)) (numRowPerSet_range (g_search G))
               (dataSpace (g_search G)) d
           \<and> b \<in> set (found calc ip G accept cap blk assoc d)}"

definition search_ok :: "InputParameter \<Rightarrow> Globals \<Rightarrow> bool" where
  "search_ok ip G \<longleftrightarrow> space_ok (ip_associativity ip) (stackLayer_range (g_search G))
     (numRowPerSet_range (g_search G)) (dataSpace (g_search G))"

lemma INITIAL_BASIC_WIRE_search: "INITIAL_BASIC_WIRE ip G = Inr G' \<Longrightarrow> g_search G' = g_search G"
  by (auto simp: INITIAL_BASIC_WIRE_def Let_def)

lemma all_found_set:
  assumes "search_ok ip G" "g_search G' = g_search G"
    "BIGFOR (ip_associativity ip) (stackLayer_range (g_search G)) (numRowPerSet_range (g_search G))
       (dataSpace (g_search G)) = Some ds"
  shows "set (all_found calc ip G' accept cap blk assoc ds) = found_in calc ip G' accept cap blk assoc"
  using BIGFOR_covers assms
  by (fastforce simp: search_ok_def covers_def all_found_def found_in_def)

theorem data_pass_optimal:
  assumes "search_ok ip G" "data_pass calc fresh ip G accept cap blk assoc s = Inr (G', t)"
    and "i < length (bests s)"
  shows "length (bests t) = length (bests s)"
    and "optimal (bests s ! i) (found_in calc ip G' accept cap blk assoc) (bests t ! i)"
proof -
  from data_pass_log [OF assms(2)] obtain ds where ds:
    "BIGFOR (ip_associativity ip) (stackLayer_range (g_search G)) (numRowPerSet_range (g_search G))
       (dataSpace (g_search G)) = Some ds"
    "INITIAL_BASIC_WIRE ip G = Inr G'"
    "bests t = fold UPDATE_BEST (map (temp_result fresh G') (all_found calc ip G' accept cap blk assoc ds)) (bests s)"
    by metis
  show "length (bests t) = length (bests s)" by (simp add: ds(3) fold_UPDATE_BEST)
  show "optimal (bests s ! i) (found_in calc ip G' accept cap blk assoc) (bests t ! i)"
    using optimal_compare_all [of "bests s ! i" "all_found calc ip G' accept cap blk assoc ds" fresh G'] assms(3)
      all_found_set [OF assms(1) INITIAL_BASIC_WIRE_search [OF ds(2)] ds(1)]
    by (simp add: ds(3) fold_UPDATE_BEST)
qed

text \<open>Every bank kept is the one before or has the capacity asked for.\<close>

lemma data_pass_capacity:
  assumes "search_ok ip G" "data_pass calc fresh ip G accept cap blk assoc s = Inr (G', t)"
    and "i < length (bests s)"
  shows "bank (bests t ! i) = bank (bests s ! i)
         \<or> \<not> bank_invalid (bank (bests t ! i)) \<and> accept (bank (bests t ! i))
            \<and> (\<exists>dies. bank_bits (bank (bests t ! i)) dies = cap)"
proof -
  from data_pass_log [OF assms(2)] obtain ds where ds:
    "BIGFOR (ip_associativity ip) (stackLayer_range (g_search G)) (numRowPerSet_range (g_search G))
       (dataSpace (g_search G)) = Some ds"
    "INITIAL_BASIC_WIRE ip G = Inr G'"
    "\<forall>d \<in> set ds. \<forall>b \<in> set (found calc ip G' accept cap blk assoc d). bank_bits b (stackedDieCount d) = cap"
    by metis
  have "\<exists>dies. bank_bits b dies = cap" "\<not> bank_invalid b" "accept b"
    if "b \<in> found_in calc ip G' accept cap blk assoc" for b
    using that ds(3) all_found_set [OF assms(1) INITIAL_BASIC_WIRE_search [OF ds(2)] ds(1), symmetric]
    by (auto simp: all_found_def found_def)
  then show ?thesis using data_pass_optimal(2) [OF assms] by (auto simp: optimal_def)
qed

subsection \<open>Termination\<close>

text \<open>No more than all subarrays of a design are active, and at least one is.\<close>

definition active_bound :: "Space \<Rightarrow> int" where
  "active_bound S = snd (numActiveMatPerRow_range S) * snd (numActiveMatPerColumn_range S)
     * snd (numActiveSubarrayPerRow_range S) * snd (numActiveSubarrayPerColumn_range S)"

lemma capped_doubles_bounds:
  assumes "0 < n" "range_ok r" "y \<in> doubles (capped n r)" shows "0 < y" "y \<le> snd r" "y \<le> n"
proof -
  show "0 < y" by (rule doubles_pos [OF capped_ok [OF assms(1,2)] assms(3)])
  show "y \<le> n" by (rule capped_le [OF assms(3)])
  show "y \<le> snd r" using assms(3) by (auto simp: doubles_def capped_def)
qed

lemma space_ok_legal:
  assumes "space_ok assoc stack rps S" "legal assoc stack rps S d"
  shows "0 < numRowMat d" "0 < numColumnMat d" "0 < stackedDieCount d" "0 < numRowSubarray d"
    "0 < numColumnSubarray d"
    "0 < numActiveMatPerRow d" "numActiveMatPerRow d \<le> numColumnMat d"
    "0 < numActiveMatPerColumn d" "numActiveMatPerColumn d \<le> numRowMat d"
    "0 < numActiveSubarrayPerRow d" "numActiveSubarrayPerRow d \<le> numColumnSubarray d"
    "0 < numActiveSubarrayPerColumn d" "numActiveSubarrayPerColumn d \<le> numRowSubarray d"
    "numActiveMatPerRow d \<le> snd (numActiveMatPerRow_range S)"
    "numActiveMatPerColumn d \<le> snd (numActiveMatPerColumn_range S)"
    "numActiveSubarrayPerRow d \<le> snd (numActiveSubarrayPerRow_range S)"
    "numActiveSubarrayPerColumn d \<le> snd (numActiveSubarrayPerColumn_range S)"
proof -
  note r = space_okD [OF assms(1)] and l = legalD [OF assms(2)]
  show p: "0 < numRowMat d" "0 < numColumnMat d" "0 < stackedDieCount d" "0 < numRowSubarray d"
    "0 < numColumnSubarray d"
    by (rule doubles_pos [OF r(3) l(1)] doubles_pos [OF r(4) l(2)] doubles_pos [OF r(1) l(3)]
        doubles_pos [OF r(7) l(6)] doubles_pos [OF r(8) l(7)])+
  note c = capped_doubles_bounds [OF p(2) r(5) l(4)] capped_doubles_bounds [OF p(1) r(6) l(5)]
    capped_doubles_bounds [OF p(5) r(9) l(8)] capped_doubles_bounds [OF p(4) r(10) l(9)]
  show "0 < numActiveMatPerRow d" "numActiveMatPerRow d \<le> numColumnMat d"
    "0 < numActiveMatPerColumn d" "numActiveMatPerColumn d \<le> numRowMat d"
    "0 < numActiveSubarrayPerRow d" "numActiveSubarrayPerRow d \<le> numColumnSubarray d"
    "0 < numActiveSubarrayPerColumn d" "numActiveSubarrayPerColumn d \<le> numRowSubarray d"
    "numActiveMatPerRow d \<le> snd (numActiveMatPerRow_range S)"
    "numActiveMatPerColumn d \<le> snd (numActiveMatPerColumn_range S)"
    "numActiveSubarrayPerRow d \<le> snd (numActiveSubarrayPerRow_range S)"
    "numActiveSubarrayPerColumn d \<le> snd (numActiveSubarrayPerColumn_range S)"
    by (rule c)+
qed

lemma imul_le:
  assumes "0 < a" "0 < b" "a \<le> x" "b \<le> y" "x * y < 2147483648"
  shows "imul a b = Inr (a * b)"
proof -
  have "a * b \<le> x * y" using assms by (intro mult_mono) simp_all
  moreover have "0 < a * b" using assms by simp
  ultimately have "int_ok (a * b)" using assms(5) by (simp add: int_ok_def)
  then show ?thesis by (simp add: imul_def)
qed

lemma active_subarrays_ok:
  assumes "space_ok assoc stack rps S" "legal assoc stack rps S d" "active_bound S < 2147483648"
  shows "active_subarrays d = Inr (numActiveMatPerRow d * numActiveMatPerColumn d
           * numActiveSubarrayPerRow d * numActiveSubarrayPerColumn d)"
    and "0 < numActiveMatPerRow d * numActiveMatPerColumn d
           * numActiveSubarrayPerRow d * numActiveSubarrayPerColumn d"
    and "numActiveMatPerRow d * numActiveMatPerColumn d
           * numActiveSubarrayPerRow d * numActiveSubarrayPerColumn d
         \<le> numRowMat d * numColumnMat d * numRowSubarray d * numColumnSubarray d"
proof -
  note L = space_ok_legal [OF assms(1,2)]
  let ?a = "numActiveMatPerRow d" and ?b = "numActiveMatPerColumn d"
  let ?c = "numActiveSubarrayPerRow d" and ?e = "numActiveSubarrayPerColumn d"
  let ?A = "snd (numActiveMatPerRow_range S)" and ?B = "snd (numActiveMatPerColumn_range S)"
  let ?C = "snd (numActiveSubarrayPerRow_range S)" and ?E = "snd (numActiveSubarrayPerColumn_range S)"
  have pos: "0 < ?A" "0 < ?B" "0 < ?C" "0 < ?E" using L by linarith+
  have m: "?a * ?b \<le> ?A * ?B" "?a * ?b * ?c \<le> ?A * ?B * ?C" "0 < ?a * ?b" "0 < ?a * ?b * ?c"
    using L pos by (intro mult_mono mult_pos_pos; simp)+
  have top: "?A * ?B * ?C * ?E < 2147483648" using assms(3) by (simp add: active_bound_def)
  have "?A * ?B * ?C * 1 \<le> ?A * ?B * ?C * ?E" using pos by (intro mult_left_mono) auto
  with top have t2: "?A * ?B * ?C < 2147483648" by linarith
  have "?A * ?B * 1 \<le> ?A * ?B * ?C" using pos by (intro mult_left_mono) auto
  with t2 have t3: "?A * ?B < 2147483648" by linarith
  show "active_subarrays d = Inr (?a * ?b * ?c * ?e)"
    using imul_le [OF L(6,8,14,15) t3] imul_le [OF m(3) L(10) m(1) L(16) t2]
      imul_le [OF m(4) L(12) m(2) L(17) top]
    by (simp add: active_subarrays_def)
  show "0 < ?a * ?b * ?c * ?e" using L by simp
  have "?a * ?b * ?c * ?e \<le> numColumnMat d * numRowMat d * numColumnSubarray d * numRowSubarray d"
    using L by (intro mult_mono) auto
  then show "?a * ?b * ?c * ?e \<le> numRowMat d * numColumnMat d * numRowSubarray d * numColumnSubarray d"
    by (simp add: ac_simps)
qed

text \<open>
  The pass over the data arrays returns when the evaluation of a bank does and gives the capacity
  asked for.
\<close>

definition calc_ok :: "calculate \<Rightarrow> InputParameter \<Rightarrow> Globals \<Rightarrow> int \<Rightarrow> int \<Rightarrow> int \<Rightarrow> Design \<Rightarrow> bool" where
  "calc_ok calc ip G cap blk assoc d \<longleftrightarrow>
     (\<exists>b. calc G (data_args ip cap blk assoc d) = Inr b
        \<and> (bank_invalid b \<or> bank_bits b (stackedDieCount d) = cap))"

lemma data_step_returns:
  assumes "active_subarrays d = Inr n" "n \<noteq> 0" "calc_ok calc ip G cap blk assoc d"
  shows "\<exists>t. data_step calc fresh ip G accept cap blk assoc d s = Inr t"
  using assms by (auto simp: data_step_def cdiv_def calc_ok_def data_args_def visit_def
      VERIFY_CAPACITY_def Let_def)

lemma data_pass_returns:
  assumes "search_ok ip G" "active_bound (dataSpace (g_search G)) < 2147483648"
    and "INITIAL_BASIC_WIRE ip G = Inr G'"
    and "\<And>d. legal (ip_associativity ip) (stackLayer_range (g_search G))
               (numRowPerSet_range (g_search G)) (dataSpace (g_search G)) d
             \<Longrightarrow> calc_ok calc ip G' cap blk assoc d"
  shows "\<exists>t. data_pass calc fresh ip G accept cap blk assoc s = Inr (G', t)"
proof -
  from BIGFOR_covers assms(1) obtain ds where ds:
    "BIGFOR (ip_associativity ip) (stackLayer_range (g_search G)) (numRowPerSet_range (g_search G))
       (dataSpace (g_search G)) = Some ds"
    "set ds = {d. legal (ip_associativity ip) (stackLayer_range (g_search G))
       (numRowPerSet_range (g_search G)) (dataSpace (g_search G)) d}"
    by (fastforce simp: search_ok_def covers_def)
  have "\<exists>t. efold (data_step calc fresh ip G' accept cap blk assoc) ds s = Inr t \<and> True"
  proof (rule efold_total)
    fix d u
    assume "d \<in> set ds"
    then have d: "legal (ip_associativity ip) (stackLayer_range (g_search G))
       (numRowPerSet_range (g_search G)) (dataSpace (g_search G)) d" using ds(2) by simp
    note A = active_subarrays_ok [OF assms(1) [unfolded search_ok_def] d assms(2)]
    show "\<exists>v. data_step calc fresh ip G' accept cap blk assoc d u = Inr v \<and> True"
      using data_step_returns [OF A(1) less_imp_neq [OF A(2), symmetric] assms(4) [OF d]] by simp
  qed simp
  then show ?thesis by (auto simp: data_pass_def Let_def assms(3) ds(1))
qed

subsection \<open>Refining the wires\<close>

text \<open>
  One result is not worse than another: what is better than it is better than the other, and it has the same
  bank or one within the limits.
\<close>

definition not_worse :: "Result \<Rightarrow> Result \<Rightarrow> bool" where
  "not_worse r r' \<longleftrightarrow> same_goal r' r
     \<and> (\<forall>x :: Bank. better (res_optimizationTarget r) x (bank r')
                   \<longrightarrow> better (res_optimizationTarget r) x (bank r))
     \<and> (bank r' = bank r \<or> within_limits r (bank r'))"

lemma not_worse_refl [simp]: "not_worse r r"
  by (simp add: not_worse_def)

lemma not_worse_trans:
  assumes "not_worse r s" "not_worse s u" shows "not_worse r u"
proof -
  have "same_goal s r" using assms(1) by (simp add: not_worse_def)
  note g = this same_goal_target [OF this] same_goal_within [OF this, THEN fun_cong]
  have "same_goal u r" using assms(2) same_goal_trans [OF _ g(1)] by (simp add: not_worse_def)
  then show ?thesis using assms g(2) g(3) [of "bank u"] unfolding not_worse_def by auto
qed

lemma not_worse_compare: "not_worse r (fst (compareAndUpdate r new))"
proof -
  have "keep b ok x c = c \<or> ok (keep b ok x c)" for b ok and x c :: Bank by (simp add: keep_def)
  then show ?thesis
    using kept.fold_mono [of "res_optimizationTarget r" _ r "[bank new]" "bank r"]
    unfolding not_worse_def compareAndUpdate_keep by (simp add: compareAndUpdate_goal)
qed

lemma TRY_AND_UPDATE_not_worse: "TRY_AND_UPDATE calc fresh mt G r = Inr r' \<Longrightarrow> not_worse r r'"
  by (auto simp: TRY_AND_UPDATE_def not_worse_compare)

abbreviation (input) none_worse :: "Result list \<Rightarrow> Result list \<Rightarrow> bool" where
  "none_worse \<equiv> list_all2 not_worse"

lemma none_worse_refl: "none_worse rs rs"
  by (simp add: list_all2_same)

lemma none_worse_trans: "none_worse rs ss \<Longrightarrow> none_worse ss us \<Longrightarrow> none_worse rs us"
  by (rule list_all2_trans [OF not_worse_trans])

lemma none_worse_aset:
  "aget rs i = Inr r \<Longrightarrow> not_worse r r' \<Longrightarrow> aset rs i r' = Inr rs' \<Longrightarrow> none_worse rs rs'"
  by (auto simp: aget_def aset_def list_all2_conv_all_nth nth_list_update split: if_splits)

lemma efold_none_worse:
  assumes "efold f xs (G, rs) = Inr (G', rs')"
    and "\<And>x G rs G' rs'. f x (G, rs) = Inr (G', rs') \<Longrightarrow> none_worse rs rs'"
  shows "none_worse rs rs'"
  using efold_inv [OF assms(1), of "\<lambda>Gr. none_worse rs (snd Gr)"] assms(2) none_worse_refl none_worse_trans
  by (smt (verit) prod.collapse snd_conv)

lemma refine_step_none_worse:
  "refine_step calc fresh mt load i (G, rs) = Inr (G', rs') \<Longrightarrow> none_worse rs rs'"
  by (auto simp: refine_step_def intro: none_worse_aset TRY_AND_UPDATE_not_worse)

lemma refine_local_none_worse:
  "refine_local calc fresh mt ip trl (G, rs) = Inr (G', rs') \<Longrightarrow> none_worse rs rs'"
  by (auto simp: refine_local_def for_up_def elim!: efold_none_worse refine_step_none_worse)

lemma refine_global_none_worse:
  "refine_global calc fresh mt ip trl (G, rs) = Inr (G', rs') \<Longrightarrow> none_worse rs rs'"
  by (auto simp: refine_global_def for_up_def elim!: efold_none_worse refine_step_none_worse)

lemma refine_none_worse:
  assumes "refine calc fresh mt ip S (G, s) = Inr (G', t)"
  shows "none_worse (bests s) (bests t)" "numSolution t = numSolution s"
proof -
  have "none_worse (bests s) (bests t) \<and> numSolution t = numSolution s"
  proof (cases "numSolution s \<le> 0")
    case True
    with assms show ?thesis by (simp add: refine_def none_worse_refl)
  next
    case False
    with assms obtain G1 rs1 rs2 where
      "efold (refine_local calc fresh mt ip)
         (wire_loop (localWireType_range S) (localWireRepeaterType_range S)
            (isLocalWireLowSwing_range S)) (G, bests s) = Inr (G1, rs1)"
      "efold (refine_global calc fresh mt ip)
         (wire_loop (globalWireType_range S) (globalWireRepeaterType_range S)
            (isGlobalWireLowSwing_range S)) (G1, rs1) = Inr (G', rs2)"
      "t = s\<lparr>bests := rs2\<rparr>"
      by (auto simp: refine_def)
    note R = this
    have "none_worse (bests s) rs1" "none_worse rs1 rs2"
      by (rule efold_none_worse [OF R(1)], erule refine_local_none_worse,
          rule efold_none_worse [OF R(2)], erule refine_global_none_worse)
    then show ?thesis using none_worse_trans by (auto simp: R(3))
  qed
  then show "none_worse (bests s) (bests t)" "numSolution t = numSolution s" by auto
qed

text \<open>With wires without repeaters and an evaluation that returns, the refinement returns.\<close>

abbreviation (input) plain :: "Wire \<Rightarrow> bool" where
  "plain w \<equiv> wireRepeaterType w = repeated_none"

lemma init_wire_plain:
  assumes "0 \<le> t" "t < 7" shows "\<exists>w'. init_wire T ip (t, 0, l) w = Inr w' \<and> plain w'"
proof -
  have "enum_of repeater_types 0 = Inr repeated_none" by (simp add: enum_of_def aget_def repeater_types_def)
  moreover have "\<exists>ty. enum_of wire_types t = Inr ty"
    using assms by (simp add: enum_of_def aget_def wire_types_def)
  ultimately show ?thesis using Wire_Initialize_plain by (auto simp: init_wire_def)
qed

lemma reload_wire_plain: "plain old \<Longrightarrow> \<exists>w'. reload_wire ip T old w = Inr w' \<and> plain w'"
  using Wire_Initialize_plain by (simp add: reload_wire_def)

definition returns :: "calculate \<Rightarrow> bool" where
  "returns calc \<longleftrightarrow> (\<forall>G a. \<exists>b. calc G a = Inr b)"

definition plain_state :: "Globals \<times> Result list \<Rightarrow> bool" where
  "plain_state Gr \<longleftrightarrow> plain (g_localWire (fst Gr)) \<and> plain (g_globalWire (fst Gr)) \<and> length (snd Gr) = 8
     \<and> (\<forall>r \<in> set (snd Gr). plain (res_localWire r) \<and> plain (res_globalWire r))"

lemma TRY_AND_UPDATE_plain:
  assumes "returns calc" "plain (g_localWire G)" "plain (g_globalWire G)"
    "plain (res_localWire r)" "plain (res_globalWire r)"
  shows "\<exists>r'. TRY_AND_UPDATE calc fresh mt G r = Inr r' \<and> plain (res_localWire r') \<and> plain (res_globalWire r')"
  using assms(1) [unfolded returns_def, rule_format, of G "bank_args mt (bank r)"] assms(2-)
  by (auto simp: TRY_AND_UPDATE_def compareAndUpdate_def temp_result_def Wire_assign_eq)

lemma plain_state_aset:
  assumes "plain_state (G, rs)" "0 \<le> i" "i < 8" "plain (res_localWire r)" "plain (res_globalWire r)"
  shows "\<exists>rs'. aset rs i r = Inr rs' \<and> plain_state (G, rs')"
  using assms by (auto simp: aset_def plain_state_def dest!: subsetD [OF set_update_subset_insert])

definition keeps_plain :: "(Result \<Rightarrow> Globals \<Rightarrow> Globals res) \<Rightarrow> bool" where
  "keeps_plain load \<longleftrightarrow> (\<forall>r G. plain (res_localWire r) \<and> plain (res_globalWire r)
     \<and> plain (g_localWire G) \<and> plain (g_globalWire G)
     \<longrightarrow> (\<exists>G'. load r G = Inr G' \<and> plain (g_localWire G') \<and> plain (g_globalWire G')))"

lemma keeps_plain_LOAD: "keeps_plain (LOAD_GLOBAL_WIRE ip)" "keeps_plain (LOAD_LOCAL_WIRE ip)"
proof -
  have "\<exists>w'. reload_wire ip T old w = Inr w' \<and> plain w'" if "plain old" for T old w
    using reload_wire_plain [OF that] .
  then show "keeps_plain (LOAD_GLOBAL_WIRE ip)" "keeps_plain (LOAD_LOCAL_WIRE ip)"
    unfolding keeps_plain_def LOAD_GLOBAL_WIRE_def LOAD_LOCAL_WIRE_def ebind_Inr by fastforce+
qed

lemma refine_step_plain:
  assumes calc: "returns calc" and load: "keeps_plain load"
    and Gr: "plain_state Gr" "0 \<le> i" "i < 8"
  shows "\<exists>Gr'. refine_step calc fresh mt load i Gr = Inr Gr' \<and> plain_state Gr'"
proof -
  obtain G rs where U: "Gr = (G, rs)" by (cases Gr)
  have g: "aget rs i = Inr (rs ! nat i)" "plain (res_localWire (rs ! nat i))"
    "plain (res_globalWire (rs ! nat i))" using Gr by (auto simp: U plain_state_def aget_def)
  moreover have "plain (g_localWire G)" "plain (g_globalWire G)" using Gr(1) by (auto simp: U plain_state_def)
  ultimately obtain G' where G': "load (rs ! nat i) G = Inr G'" "plain (g_localWire G')" "plain (g_globalWire G')"
    using load unfolding keeps_plain_def by blast
  obtain r where r: "TRY_AND_UPDATE calc fresh mt G' (rs ! nat i) = Inr r"
    "plain (res_localWire r)" "plain (res_globalWire r)"
    using TRY_AND_UPDATE_plain [OF calc G'(2,3) g(2,3)] by blast
  have "plain_state (G', rs)" using Gr(1) G' by (simp add: U plain_state_def)
  from plain_state_aset [OF this Gr(2,3) r(2,3)] obtain rs' where
    "aset rs i r = Inr rs'" "plain_state (G', rs')" by blast
  then show ?thesis by (simp add: refine_step_def U g(1) G'(1) r(1))
qed

lemma refine_steps_plain:
  assumes "returns calc" "keeps_plain load" "plain_state Gr"
  shows "\<exists>Gr'. for_up 0 8 (refine_step calc fresh mt load) Gr = Inr Gr' \<and> plain_state Gr'"
  unfolding for_up_def
  by (rule efold_total [where P = plain_state], rule assms(3))
     (use refine_step_plain [OF assms(1,2)] in auto)

lemma refine_wire_plain:
  assumes "returns calc" "plain_state Gr" "0 \<le> t" "t < 7"
  shows "\<exists>Gr'. refine_local calc fresh mt ip (t, 0, l) Gr = Inr Gr' \<and> plain_state Gr'"
    and "\<exists>Gr'. refine_global calc fresh mt ip (t, 0, l) Gr = Inr Gr' \<and> plain_state Gr'"
proof -
  let ?T = "fst (g_tech (fst Gr))"
  obtain lw where lw: "init_wire ?T ip (t, 0, l) (g_localWire (fst Gr)) = Inr lw" "plain lw"
    using init_wire_plain [OF assms(3,4)] by blast
  then have "plain_state ((fst Gr)\<lparr>g_localWire := lw\<rparr>, snd Gr)" using assms(2) by (simp add: plain_state_def)
  with lw(1) show "\<exists>Gr'. refine_local calc fresh mt ip (t, 0, l) Gr = Inr Gr' \<and> plain_state Gr'"
    using refine_steps_plain [OF assms(1) keeps_plain_LOAD(1)] by (simp add: refine_local_def)
  obtain gw where gw: "init_wire ?T ip (t, 0, l) (g_globalWire (fst Gr)) = Inr gw" "plain gw"
    using init_wire_plain [OF assms(3,4)] by blast
  then have "plain_state ((fst Gr)\<lparr>g_globalWire := gw\<rparr>, snd Gr)" using assms(2) by (simp add: plain_state_def)
  with gw(1) show "\<exists>Gr'. refine_global calc fresh mt ip (t, 0, l) Gr = Inr Gr' \<and> plain_state Gr'"
    using refine_steps_plain [OF assms(1) keeps_plain_LOAD(2)] by (simp add: refine_global_def)
qed

definition plain_space :: "Space \<Rightarrow> bool" where
  "plain_space S \<longleftrightarrow> localWireRepeaterType_range S = (0, 0) \<and> globalWireRepeaterType_range S = (0, 0)
     \<and> 0 \<le> fst (localWireType_range S) \<and> snd (localWireType_range S) < 7
     \<and> 0 \<le> fst (globalWireType_range S) \<and> snd (globalWireType_range S) < 7"

lemma wire_loop_plain:
  assumes "plain_state Gr" "0 \<le> fst ts" "snd ts < 7"
    and "\<And>t l Gr. 0 \<le> t \<Longrightarrow> t < 7 \<Longrightarrow> plain_state Gr \<Longrightarrow> \<exists>Gr'. f (t, 0, l) Gr = Inr Gr' \<and> plain_state Gr'"
  shows "\<exists>Gr'. efold f (wire_loop ts (0, 0) ls) Gr = Inr Gr' \<and> plain_state Gr'"
  by (rule efold_total [where P = plain_state], rule assms(1))
     (use assms(2-) in \<open>auto simp: wire_loop_def\<close>)

lemma refine_returns:
  assumes "returns calc" "plain_space S" "plain_state (G, bests s)"
  shows "\<exists>G' t. refine calc fresh mt ip S (G, s) = Inr (G', t)"
proof -
  from assms(2) have S: "localWireRepeaterType_range S = (0, 0)" "globalWireRepeaterType_range S = (0, 0)"
    "0 \<le> fst (localWireType_range S)" "snd (localWireType_range S) < 7"
    "0 \<le> fst (globalWireType_range S)" "snd (globalWireType_range S) < 7"
    by (simp_all add: plain_space_def)
  obtain Gr where Gr: "efold (refine_local calc fresh mt ip) (wire_loop (localWireType_range S)
      (0, 0) (isLocalWireLowSwing_range S)) (G, bests s) = Inr Gr" "plain_state Gr"
    using wire_loop_plain [OF assms(3) S(3,4), of "refine_local calc fresh mt ip"]
      refine_wire_plain(1) [OF assms(1)] by blast
  obtain Gr' where "efold (refine_global calc fresh mt ip) (wire_loop (globalWireType_range S)
      (0, 0) (isGlobalWireLowSwing_range S)) Gr = Inr Gr'"
    using wire_loop_plain [OF Gr(2) S(5,6), of "refine_global calc fresh mt ip"]
      refine_wire_plain(2) [OF assms(1)] by blast
  then show ?thesis by (auto simp: refine_def Gr(1) S(1,2))
qed

end
