(* ===== verification/Nvsim.thy ===== *)
theory Nvsim
  imports Optimum
begin

text \<open>
  The whole search for one cell and the merge over the cells: what \<open>nvsim\<close> returns, under the
  constraints of the configuration or without, and what \<open>main\<close> reports.
\<close>

subsection \<open>The default space\<close>

lemma RESTORE_space_ok:
  assumes "range_ok stack" "1 \<le> assoc" "loop_bound assoc"
  shows "space_ok assoc stack (1, assoc) (dataSpace (RESTORE_SEARCH_SIZE assoc S))"
    and "space_ok assoc stack (1, assoc) (tagSpace (RESTORE_SEARCH_SIZE assoc S))"
  using assms by (simp_all add: space_ok_def RESTORE_SEARCH_SIZE_def range_ok_def cMIN_def)

lemma RESTORE_active_bound:
  "active_bound (dataSpace (RESTORE_SEARCH_SIZE assoc S)) < 2147483648"
  by (simp add: active_bound_def RESTORE_SEARCH_SIZE_def)

lemma REDUCE_space_ok:
  assumes "range_ok stack" "1 \<le> assoc"
  shows "space_ok assoc stack (1, 1) (dataSpace (REDUCE_SEARCH_SIZE S))"
  using assms by (simp add: space_ok_def REDUCE_SEARCH_SIZE_def range_ok_def cMIN_def)

text \<open>The reduction for the tag phase leaves the space of the tag arrays as it is.\<close>

lemma REDUCE_tagSpace: "tagSpace (REDUCE_SEARCH_SIZE S) = tagSpace S"
  by (simp add: REDUCE_SEARCH_SIZE_def)

lemma pow2_512: "pow2 512" and pow2_64: "pow2 64" and pow2_256: "pow2 256"
  using pow2_I [of 9] pow2_I [of 6] pow2_I [of 8] by simp_all

text \<open>In a space whose loops start from powers of two, every number of a design is one.\<close>

definition pow2_space :: "range \<Rightarrow> range \<Rightarrow> Space \<Rightarrow> bool" where
  "pow2_space stack rowPerSet S \<longleftrightarrow>
     list_all (\<lambda>r. pow2 (fst r)) [stack, rowPerSet,
       numRowMat_range S, numColumnMat_range S, numActiveMatPerRow_range S,
       numActiveMatPerColumn_range S, numRowSubarray_range S, numColumnSubarray_range S,
       numActiveSubarrayPerRow_range S, numActiveSubarrayPerColumn_range S, muxSenseAmp_range S,
       muxOutputLev1_range S, muxOutputLev2_range S]"

lemma pow2_spaceD:
  assumes "pow2_space stack rps S"
  shows "pow2 (fst stack)" "pow2 (fst rps)" "pow2 (fst (numRowMat_range S))"
    "pow2 (fst (numColumnMat_range S))" "pow2 (fst (numActiveMatPerRow_range S))"
    "pow2 (fst (numActiveMatPerColumn_range S))" "pow2 (fst (numRowSubarray_range S))"
    "pow2 (fst (numColumnSubarray_range S))" "pow2 (fst (numActiveSubarrayPerRow_range S))"
    "pow2 (fst (numActiveSubarrayPerColumn_range S))" "pow2 (fst (muxSenseAmp_range S))"
    "pow2 (fst (muxOutputLev1_range S))" "pow2 (fst (muxOutputLev2_range S))"
  using assms by (auto simp: pow2_space_def)

lemma legal_pow2:
  assumes "pow2_space stack rps S" "legal assoc stack rps S d"
  shows "pow2 (numRowMat d)" "pow2 (numColumnMat d)" "pow2 (stackedDieCount d)"
    "pow2 (numActiveMatPerRow d)" "pow2 (numActiveMatPerColumn d)"
    "pow2 (numRowSubarray d)" "pow2 (numColumnSubarray d)"
    "pow2 (numActiveSubarrayPerRow d)" "pow2 (numActiveSubarrayPerColumn d)"
    "pow2 (muxSenseAmp d)" "pow2 (muxOutputLev1 d)" "pow2 (muxOutputLev2 d)"
proof -
  note r = pow2_spaceD [OF assms(1)] and l = legalD [OF assms(2)]
  show p: "pow2 (numRowMat d)" "pow2 (numColumnMat d)" "pow2 (stackedDieCount d)"
    "pow2 (numRowSubarray d)" "pow2 (numColumnSubarray d)"
    "pow2 (muxSenseAmp d)" "pow2 (muxOutputLev1 d)" "pow2 (muxOutputLev2 d)"
    by (rule doubles_pow2 [OF r(3) l(1)] doubles_pow2 [OF r(4) l(2)] doubles_pow2 [OF r(1) l(3)]
        doubles_pow2 [OF r(7) l(6)] doubles_pow2 [OF r(8) l(7)] doubles_pow2 [OF r(11) l(10)]
        doubles_pow2 [OF r(12) l(11)] doubles_pow2 [OF r(13) l(12)])+
  show "pow2 (numActiveMatPerRow d)" "pow2 (numActiveMatPerColumn d)"
    "pow2 (numActiveSubarrayPerRow d)" "pow2 (numActiveSubarrayPerColumn d)"
    by (rule capped_pow2 [OF p(2) r(5) l(4)] capped_pow2 [OF p(1) r(6) l(5)]
        capped_pow2 [OF p(5) r(9) l(8)] capped_pow2 [OF p(4) r(10) l(9)])+
qed

text \<open>What is active divides what there is, and so no mat and no subarray is activated in part.\<close>

lemma legal_dvd:
  assumes "space_ok assoc stack rps S" "pow2_space stack rps S" "legal assoc stack rps S d"
  shows "numActiveMatPerRow d dvd numColumnMat d" "numActiveMatPerColumn d dvd numRowMat d"
    "numActiveSubarrayPerRow d dvd numColumnSubarray d"
    "numActiveSubarrayPerColumn d dvd numRowSubarray d"
  using legal_pow2 [OF assms(2,3)] space_ok_legal [OF assms(1,3)] pow2_le_dvd by blast+

lemma RESTORE_pow2:
  assumes "pow2 (fst stack)"
  shows "pow2_space stack (1, assoc) (dataSpace (RESTORE_SEARCH_SIZE assoc S))"
    and "pow2_space stack (1, assoc) (tagSpace (RESTORE_SEARCH_SIZE assoc S))"
  using assms by (simp_all add: pow2_space_def RESTORE_SEARCH_SIZE_def)

subsection \<open>The width of a tag\<close>

text \<open>The width after rounding is the least multiple of the number of active subarrays.\<close>

lemma round_block_least:
  assumes "0 < blk" "0 < n"
  shows "\<exists>m. round_block blk n = Inr m \<and> n dvd m \<and> blk \<le> m
           \<and> (\<forall>k. n dvd k \<and> blk \<le> k \<longrightarrow> m \<le> k)"
proof (cases "blk mod n = 0")
  case True
  then show ?thesis using assms by (auto simp: round_block_def cmod_def signed_modulo_int_def)
next
  case False
  have d: "blk sdiv n = blk div n" "blk smod n = blk mod n"
    using assms by (simp_all add: signed_divide_int_def signed_modulo_int_def)
  have e: "round_block blk n = Inr ((blk div n + 1) * n)"
    using assms False by (simp add: round_block_def cmod_def cdiv_def d)
  have m: "n * (blk div n) + blk mod n = blk" by simp
  have "0 \<le> blk mod n" "blk mod n < n" using assms by simp_all
  with m False have "n * (blk div n) < blk" "blk < n * (blk div n) + n" by linarith+
  then have b: "blk div n * n < blk" "blk < (blk div n + 1) * n"
    by (simp_all add: algebra_simps)
  have "(blk div n + 1) * n \<le> k" if "n dvd k" "blk \<le> k" for k
  proof -
    from that(1) obtain j where j: "k = j * n" by (auto simp: dvd_def mult.commute)
    with b(1) that(2) have "blk div n * n < j * n" by simp
    then have "blk div n < j" using assms(2) by simp
    then show ?thesis using j assms(2) by (intro mult_right_mono [of "blk div n + 1" j n, folded j]) simp_all
  qed
  with e b show ?thesis by auto
qed

subsection \<open>The data array\<close>

lemma length_targets [simp]: "length targets = 8"
  by (simp add: targets_def)

lemma length_init_results [simp]: "length (init_results fresh idx) = 8"
  by (simp add: init_results_def)

lemma init_results_nth:
  "i < 8 \<Longrightarrow> init_results fresh idx ! i
     = fresh\<lparr>res_optimizationTarget := targets ! i, cellTech := Some idx\<rparr>"
  by (simp add: init_results_def)

abbreviation (input) unconstrained :: "InputParameter \<Rightarrow> bool" where
  "unconstrained ip \<equiv> optimizationTarget ip = full_exploration \<or> \<not> isConstraintApplied ip"

lemma not_worse_best:
  "not_worse r r' \<Longrightarrow> \<not> better (res_optimizationTarget r) (b :: Bank) (bank r)
   \<Longrightarrow> \<not> better (res_optimizationTarget r) b (bank r')"
  by (auto simp: not_worse_def)

lemma refine_best:
  assumes "refine calc fresh mt ip S (G, s) = Inr (G', t)" "i < length (bests s)"
  shows "length (bests t) = length (bests s)" "not_worse (bests s ! i) (bests t ! i)"
  using refine_none_worse(1) [OF assms(1)] assms(2) by (auto simp: list_all2_conv_all_nth)

text \<open>No bank found is better than the one that the data phase keeps, for any target.\<close>

lemma data_phase_optimal:
  assumes "data_phase calc fresh c cell ip G rs = Inr (G', t)"
    and "data_parameters ip cell (g_search G) = (cap, blk, assoc, S)"
    and "search_ok ip (G\<lparr>g_search := S\<rparr>)" "unconstrained ip" "i < length rs"
  obtains G1 where "INITIAL_BASIC_WIRE ip (G\<lparr>g_search := S\<rparr>) = Inr G1"
    "same_goal (bests t ! i) (rs ! i)" "length (bests t) = length rs"
    "\<forall>b \<in> found_in calc ip G1 (\<lambda>_. True) cap blk assoc. within_limits (rs ! i) b
       \<longrightarrow> \<not> better (res_optimizationTarget (rs ! i)) b (bank (bests t ! i))"
proof -
  from assms(1,2,4) obtain G1 s where p:
    "data_pass calc fresh ip (G\<lparr>g_search := S\<rparr>) (\<lambda>_. True) cap blk assoc (start_tally rs) = Inr (G1, s)"
    "refine calc fresh data ip (dataSpace S) (G1, s) = Inr (G', t)"
    by (auto simp: data_phase_def constrained_phase_def)
  from data_pass_log [OF p(1)] have w: "INITIAL_BASIC_WIRE ip (G\<lparr>g_search := S\<rparr>) = Inr G1" by blast
  have i: "i < length (bests (start_tally rs))" and b: "bests (start_tally rs) = rs"
    using assms(5) by (simp_all add: start_tally_def)
  note o = data_pass_optimal [OF assms(3) p(1) i, unfolded b]
  note r = refine_best [OF p(2), of i, unfolded o(1), OF assms(5)]
  have g: "same_goal (bests s ! i) (rs ! i)" using o(2) by (simp add: optimal_def)
  have "same_goal (bests t ! i) (bests s ! i)" using r(2) by (simp add: not_worse_def)
  then have "same_goal (bests t ! i) (rs ! i)" using g same_goal_trans by blast
  moreover have "\<forall>b \<in> found_in calc ip G1 (\<lambda>_. True) cap blk assoc. within_limits (rs ! i) b
       \<longrightarrow> \<not> better (res_optimizationTarget (rs ! i)) b (bank (bests t ! i))"
    using o(2) not_worse_best [OF r(2)] same_goal_target [OF g] by (auto simp: optimal_def)
  ultimately show ?thesis using that [OF w] r(1) o(1) by simp
qed

subsection \<open>The pass under constraints\<close>

lemma within_APPLY_LIMIT: "within_limits (APPLY_LIMIT l r) b \<longleftrightarrow> satisfies l b"
  by (auto simp: within_limits_def APPLY_LIMIT_def satisfies_def readEdp_def writeEdp_def)

lemma APPLY_LIMIT_simps [simp]:
  "bank (APPLY_LIMIT l r) = worst_case (bank r)"
  "res_optimizationTarget (APPLY_LIMIT l r) = res_optimizationTarget r"
  "cellTech (APPLY_LIMIT l r) = cellTech r"
  by (simp_all add: APPLY_LIMIT_def reset_def)

lemma constrained_phase_optimal:
  assumes "constrained_phase calc fresh ip c cap blk assoc (G, s) = Inr (G', t)"
    and "optimizationTarget ip \<noteq> full_exploration" "isConstraintApplied ip"
    and "search_ok ip G" "i < length (bests s)"
  defines "l \<equiv> allowed c (bests s)"
  shows "\<forall>b \<in> found_in calc ip G' (satisfies l) cap blk assoc.
           \<not> better (res_optimizationTarget (bests s ! i)) b (bank (bests t ! i))"
    and "bank (bests t ! i) = worst_case (bank (bests s ! i))
         \<or> bank (bests t ! i) \<in> found_in calc ip G' (satisfies l) cap blk assoc
            \<and> satisfies l (bank (bests t ! i))"
    and "res_optimizationTarget (bests t ! i) = res_optimizationTarget (bests s ! i)"
proof -
  let ?s = "s\<lparr>bests := map (APPLY_LIMIT l) (bests s), numSolution := 0\<rparr>"
  from assms(1-3) have p: "data_pass calc fresh ip G (satisfies l) cap blk assoc ?s = Inr (G', t)"
    by (simp add: constrained_phase_def l_def Let_def)
  have i: "i < length (bests ?s)" using assms(5) by simp
  have o: "optimal (APPLY_LIMIT l (bests s ! i)) (found_in calc ip G' (satisfies l) cap blk assoc)
             (bests t ! i)"
    using data_pass_optimal(2) [OF assms(4) p i] assms(5) by simp
  have f: "satisfies l b" if "b \<in> found_in calc ip G' (satisfies l) cap blk assoc" for b
    using that by (auto simp: found_in_def found_def)
  show "\<forall>b \<in> found_in calc ip G' (satisfies l) cap blk assoc.
           \<not> better (res_optimizationTarget (bests s ! i)) b (bank (bests t ! i))"
    using o f by (simp add: optimal_def within_APPLY_LIMIT)
  show "bank (bests t ! i) = worst_case (bank (bests s ! i))
         \<or> bank (bests t ! i) \<in> found_in calc ip G' (satisfies l) cap blk assoc
            \<and> satisfies l (bank (bests t ! i))"
    using o f by (auto simp: optimal_def)
  show "res_optimizationTarget (bests t ! i) = res_optimizationTarget (bests s ! i)"
    using o same_goal_target by (fastforce simp: optimal_def)
qed

subsection \<open>The merge over the memory cells\<close>

abbreviation (input) data_of :: "int \<times> Result \<times> Result \<Rightarrow> Result" where
  "data_of new \<equiv> fst (snd new)"

text \<open>Target and limits of a result, without the cell.\<close>

lemma within_limits_cell [simp]: "within_limits (r\<lparr>cellTech := c\<rparr>) = within_limits r"
  by (rule ext) (simp add: within_limits_def)

lemma merge_cell_data:
  "bank (fst (merge_cell different idx (d, t) (d', t')))
     = keep (better (res_optimizationTarget d)) (within_limits d) (bank d') (bank d)"
  "res_optimizationTarget (fst (merge_cell different idx (d, t) (d', t'))) = res_optimizationTarget d"
  "within_limits (fst (merge_cell different idx (d, t) (d', t')))
     = (within_limits d :: Bank \<Rightarrow> bool)"
  using compareAndUpdate_keep [of d d'] compareAndUpdate_goal [of d d'] same_goal_within
  by (cases "compareAndUpdate d d'"; auto simp: merge_cell_def same_goal_target split: prod.split; fail)+

lemma merge_cells_data:
  "bank (fst (merge_cells different news b)) = best_of (fst b) (map (\<lambda>n. bank (data_of n)) news)"
proof (induction news arbitrary: b)
  case (Cons n news)
  obtain idx d' t' where n: "n = (idx, d', t')" by (cases n)
  obtain d t where b: "b = (d, t)" by (cases b)
  show ?case
    using Cons.IH [of "merge_cell different idx b (d', t')"] merge_cell_data [of different idx d t d' t']
    by (simp add: merge_cells_def n b)
qed (simp add: merge_cells_def)

text \<open>The data bank and its cell come from the same run.\<close>

lemma merge_cell_source:
  assumes "(d1, t1) = merge_cell different idx (d, t) (d', t')"
  shows "bank d1 = bank d \<and> cellTech d1 = cellTech d
           \<and> (\<not> different \<longrightarrow> bank t1 = bank t \<and> cellTech t1 = cellTech t)
         \<or> bank d1 = bank d' \<and> cellTech d1 = Some idx
           \<and> (\<not> different \<longrightarrow> bank t1 = bank t' \<and> cellTech t1 = Some idx)"
  using assms
  by (auto simp: merge_cell_def compareAndUpdate_def copy_parts_def Bank_assign_eq Let_def
      split: if_splits prod.splits)

definition from_run :: "bool \<Rightarrow> int option \<times> Bank \<times> Bank \<Rightarrow> Result \<times> Result \<Rightarrow> bool" where
  "from_run different run b \<longleftrightarrow> bank (fst b) = fst (snd run) \<and> cellTech (fst b) = fst run
     \<and> (\<not> different \<longrightarrow> bank (snd b) = snd (snd run) \<and> cellTech (snd b) = fst run)"

definition run_of :: "int \<times> Result \<times> Result \<Rightarrow> int option \<times> Bank \<times> Bank" where
  "run_of n = (Some (fst n), bank (data_of n), bank (snd (snd n)))"

lemma merge_cells_source:
  assumes "from_run different run b"
  shows "\<exists>run' \<in> insert run (run_of ` set news). from_run different run' (merge_cells different news b)"
  using assms
proof (induction news arbitrary: b run)
  case (Cons n news)
  obtain idx d' t' where n: "n = (idx, d', t')" by (cases n)
  let ?b = "merge_cell different idx b (d', t')"
  have "from_run different run ?b \<or> from_run different (run_of n) ?b"
    using Cons.prems merge_cell_source [of "fst ?b" "snd ?b" different idx "fst b" "snd b" d' t']
    by (auto simp: from_run_def run_of_def n)
  then have "\<exists>run1 \<in> {run, run_of n}. from_run different run1 ?b" by auto
  then obtain run1 where "run1 \<in> {run, run_of n}" "from_run different run1 ?b" by blast
  with Cons.IH [of run1 ?b] show ?case by (auto simp: merge_cells_def n)
qed (simp add: merge_cells_def)

lemma merge_cells_optimal:
  assumes "(d, t) = best" "n \<in> set news" "within_limits d (bank (data_of n))"
  shows "\<not> better (res_optimizationTarget d) (bank (data_of n)) (bank (fst (merge_cells different news best)))"
  using kept.fold_best [of "bank (data_of n)" "map (\<lambda>n. bank (data_of n)) news" d
      "res_optimizationTarget d" "bank d"] assms(2,3)
  by (simp add: merge_cells_data assms(1) [symmetric])

lemma merge_cells_runs:
  assumes "(d, t) = best" "cellTech t = cellTech d"
  shows "\<exists>run \<in> insert (cellTech d, bank d, bank t) (run_of ` set news).
           from_run different run (merge_cells different news best)"
  by (rule merge_cells_source) (use assms in \<open>auto simp: from_run_def\<close>)

end
