(* ===== verification/Sample.thy ===== *)
theory Sample
  imports Nvsim
begin

text \<open>
  A small search used to exhibit instances of the theorems: three designs, with one, two and four
  rows of mats, and an evaluation whose read latency is the number of rows of mats and that fails
  for no design.
\<close>

definition sample_wire :: Wire where
  "sample_wire = \<lparr>
     wire_initialized = False, wire_featureSizeInNano = 1, wire_featureSize = 1,
     wireType = local_aggressive, wireRepeaterType = repeated_none, wire_temperature = 1,
     isLowSwing = False, barrierThickness = 1, horizontalDielectric = 1, wirePitch = 1,
     wire_aspectRatio = 1, ildThickness = 1, wireWidth = 1, wireThickness = 1, wireSpacing = 1,
     repeaterSize = 1, repeaterSpacing = 1, repeaterHeight = 1, repeaterWidth = 1,
     repeatedWirePitch = 1, resWirePerUnit = 1, capWirePerUnit = 1, wire_senseAmp = None\<rparr>"

definition sample_bank :: Bank where
  "sample_bank = \<lparr>
     height = 1, width = 1, area = 1, readLatency = 1, writeLatency = 1, readDynamicEnergy = 1,
     writeDynamicEnergy = 1, leakage = 1, setLatency = 1, resetLatency = 1, refreshLatency = 1,
     setDynamicEnergy = 1, resetDynamicEnergy = 1, cellReadEnergy = 1, cellSetEnergy = 1,
     cellResetEnergy = 1, refreshDynamicEnergy = 1, bank_initialized = False,
     bank_invalid = False, bank_internalSenseAmp = False, bank_numRowMat = 1,
     bank_numColumnMat = 1, bank_capacity = 1, bank_blockSize = 1, bank_associativity = 1,
     bank_numRowPerSet = 1, bank_numActiveMatPerRow = 1, bank_numActiveMatPerColumn = 1,
     bank_muxSenseAmp = 1, bank_muxOutputLev1 = 1, bank_muxOutputLev2 = 1,
     bank_numRowSubarray = 1, bank_numColumnSubarray = 1, bank_numActiveSubarrayPerRow = 1,
     bank_numActiveSubarrayPerColumn = 1, bank_areaOptimizationLevel = 1, bank_memoryType = data,
     bank_stackedDieCount = 1, bank_partitionGranularity = 1, routingReadLatency = 1,
     routingWriteLatency = 1, routingResetLatency = 1, routingSetLatency = 1,
     routingRefreshLatency = 1, routingReadDynamicEnergy = 1, routingWriteDynamicEnergy = 1,
     routingResetDynamicEnergy = 1, routingSetDynamicEnergy = 1, routingRefreshDynamicEnergy = 1,
     routingLeakage = 1, mat_subarray_numRow = 1, mat_subarray_numColumn = 1\<rparr>"

definition sample_result :: Result where
  "sample_result = Result_new sample_bank sample_wire sample_wire"

definition sample_space :: Space where
  "sample_space = \<lparr>
     numRowMat_range = (1, 4), numColumnMat_range = (1, 1), numActiveMatPerRow_range = (1, 1),
     numActiveMatPerColumn_range = (1, 1), numRowSubarray_range = (1, 1),
     numColumnSubarray_range = (1, 1), numActiveSubarrayPerRow_range = (1, 1),
     numActiveSubarrayPerColumn_range = (1, 1), muxSenseAmp_range = (1, 1),
     muxOutputLev1_range = (1, 1), muxOutputLev2_range = (1, 1),
     areaOptimizationLevel_range = (0, 0), localWireType_range = (0, 0),
     localWireRepeaterType_range = (0, 0), isLocalWireLowSwing_range = (0, 0),
     globalWireType_range = (4, 4), globalWireRepeaterType_range = (0, 0),
     isGlobalWireLowSwing_range = (0, 0)\<rparr>"

definition sample_search :: Search where
  "sample_search = \<lparr>dataSpace = sample_space, tagSpace = sample_space, numRowPerSet_range = (1, 1),
     stackLayer_range = (1, 1)\<rparr>"

definition sample_params :: TsvParameters where
  "sample_params = \<lparr>
     layerCount = 1, tsv_pitch = (\<lambda>_ _. 1), tsv_diameter = (\<lambda>_ _. 1),
     tsv_length = (\<lambda>_ _. 1), tsv_dielec_thickness = (\<lambda>_ _. 1),
     tsv_contact_resistance = (\<lambda>_ _. 1), tsv_depletion_width = (\<lambda>_ _. 1),
     tsv_liner_dielectric_constant = (\<lambda>_ _. 1), tsv_parasitic_res = (\<lambda>_ _. 1),
     tsv_parasitic_cap = (\<lambda>_ _. 1), tsv_occupation_area = (\<lambda>_ _. 1)\<rparr>"

definition sample_globals :: Globals where
  "sample_globals = \<lparr>g_localWire = sample_wire, g_globalWire = sample_wire,
     g_tech = (sample_tech, sample_params), g_search = sample_search\<rparr>"

definition sample_overheads :: Overheads where
  "sample_overheads = \<lparr>
     readLatencyConstraint = 1, writeLatencyConstraint = 1, readDynamicEnergyConstraint = 1,
     writeDynamicEnergyConstraint = 1, leakageConstraint = 1, areaConstraint = 1,
     readEdpConstraint = 1, writeEdpConstraint = 1\<rparr>"

definition sample_calc :: calculate where
  "sample_calc G a = (let d = ba_design a in Inr (sample_bank\<lparr>
     readLatency := i2d (numRowMat d), bank_numRowMat := numRowMat d,
     mat_subarray_numRow := ba_capacity a div numRowMat d\<rparr>))"

definition sample_cell :: MemCell where
  "sample_cell = \<lparr>
     memCellType = SRAM, cell_processNode = 1, cell_area = 1, cell_aspectRatio = 1,
     widthInFeatureSize = 1, heightInFeatureSize = 1, resistanceOn = 1, resistanceOff = 1,
     capacitanceOn = 1, capacitanceOff = 1, readMode = False, readVoltage = 1, readCurrent = 1,
     minSenseVoltage = 1, wordlineBoostRatio = 1, readPower = 1, resetMode = False,
     resetVoltage = 1, resetCurrent = 1, resetPulse = 1, resetEnergy = 1, setMode = False,
     setVoltage = 1, setCurrent = 1, setPulse = 1, setEnergy = 1, accessType = CMOS_access,
     stitching = 1, gateOxThicknessFactor = 1, widthSOIDevice = 1, widthAccessCMOS = 1,
     voltageDropAccessDevice = 1, leakageCurrentAccessDevice = 1, capDRAMCell = 1,
     widthSRAMCellNMOS = 1, widthSRAMCellPMOS = 1, readFloating = False,
     resistanceOnAtSetVoltage = 1, resistanceOffAtSetVoltage = 1, resistanceOnAtResetVoltage = 1,
     resistanceOffAtResetVoltage = 1, resistanceOnAtReadVoltage = 1,
     resistanceOffAtReadVoltage = 1, resistanceOnAtHalfReadVoltage = 1,
     resistanceOffAtHalfReadVoltage = 1, resistanceOnAtHalfResetVoltage = 1,
     flashEraseVoltage = 1, flashPassVoltage = 1, flashProgramVoltage = 1, flashEraseTime = 1,
     flashProgramTime = 1, gateCouplingRatio = 1, retentionTime = 1, cell_temperature = 1\<rparr>"

subsection \<open>The sample satisfies the hypotheses\<close>

lemma sample_search_ok: "search_ok sample_ip sample_globals"
  by (simp add: search_ok_def space_ok_def range_ok_def sample_globals_def sample_search_def
      sample_space_def sample_ip_def)

lemma sample_parameters:
  "data_parameters sample_ip sample_cell (g_search sample_globals) = (8192, 32, 1, g_search sample_globals)"
  by (simp add: data_parameters_def sample_ip_def sample_cell_def)

lemma sample_globals_search [simp]: "sample_globals\<lparr>g_search := g_search sample_globals\<rparr> = sample_globals"
  by simp

lemma sample_space_ranges [simp]:
  "dataSpace (g_search sample_globals) = sample_space"
  "stackLayer_range (g_search sample_globals) = (1, 1)"
  "numRowPerSet_range (g_search sample_globals) = (1, 1)"
  "ip_associativity sample_ip = 1"
  by (simp_all add: sample_globals_def sample_search_def sample_ip_def)

lemma sample_active_bound: "active_bound sample_space < 2147483648"
  by (simp add: active_bound_def sample_space_def)

lemma sample_wires:
  obtains G where "INITIAL_BASIC_WIRE sample_ip sample_globals = Inr G"
    "wireRepeaterType (g_localWire G) = repeated_none" "wireRepeaterType (g_globalWire G) = repeated_none"
proof -
  obtain lw where lw: "init_wire sample_tech sample_ip (0, 0, 0) sample_wire = Inr lw"
    "wireRepeaterType lw = repeated_none" using init_wire_plain [of 0] by force
  obtain gw where gw: "init_wire sample_tech sample_ip (4, 0, 0) sample_wire = Inr gw"
    "wireRepeaterType gw = repeated_none" using init_wire_plain [of 4] by force
  show ?thesis
    by (rule that [of "sample_globals\<lparr>g_localWire := lw, g_globalWire := gw\<rparr>"])
       (simp_all add: INITIAL_BASIC_WIRE_def sample_globals_def sample_search_def sample_space_def lw gw Let_def)
qed

lemma doubles_1I: "2 ^ k \<le> m \<Longrightarrow> 2 ^ k \<in> doubles (1, m)"
  by (auto simp: doubles_def)

lemma doubles_one [simp]: "doubles (1, 1) = {1}"
proof (rule set_eqI)
  fix y :: int
  show "y \<in> doubles (1, 1) \<longleftrightarrow> y \<in> {1}"
    using doubles_1I [of 0 1] doubles_pos [of "(1, 1)" y] doubles_le [of y "(1, 1)"]
    by (auto simp: range_ok_def)
qed

lemma doubles_1_4: "doubles (1, 4) = {1, 2, 4}"
proof (rule set_eqI)
  fix y :: int
  have "y \<in> {1, 2, 4}" if "y \<in> doubles (1, 4)"
  proof -
    from that obtain k where y: "y = 2 ^ k" "y \<le> 4" by (auto simp: doubles_def)
    have "k \<le> 2"
    proof (rule ccontr)
      assume "\<not> k \<le> 2"
      then have "(2::int) ^ 3 \<le> 2 ^ k" by (intro power_increasing) simp_all
      with y show False by simp
    qed
    then have "k = 0 \<or> k = 1 \<or> k = 2" by linarith
    with y(1) show ?thesis by auto
  qed
  then show "y \<in> doubles (1, 4) \<longleftrightarrow> y \<in> {1, 2, 4}"
    using doubles_1I [of 0 4] doubles_1I [of 1 4] doubles_1I [of 2 4] by auto
qed

text \<open>The designs of the sample: one, two or four rows of mats.\<close>

lemma sample_legal:
  assumes "legal 1 (1, 1) (1, 1) sample_space d"
  shows "numRowMat d \<in> {1, 2, 4}" "stackedDieCount d = 1"
  using legalD(1,3) [OF assms] by (simp_all add: sample_space_def doubles_1_4)

lemma sample_calc_ok:
  assumes "legal 1 (1, 1) (1, 1) sample_space d"
  shows "calc_ok sample_calc sample_ip G 8192 32 1 d"
proof -
  have "numRowMat d dvd 8192" using sample_legal(1) [OF assms] by auto
  then show ?thesis using sample_legal(2) [OF assms]
    by (simp add: calc_ok_def sample_calc_def data_args_def bank_bits_def sample_bank_def Let_def)
qed

lemma sample_calc_returns: "returns sample_calc"
  by (simp add: returns_def sample_calc_def Let_def)

lemma sample_data_pass:
  obtains G t where "data_pass sample_calc sample_result sample_ip sample_globals accept 8192 32 1 s = Inr (G, t)"
    "INITIAL_BASIC_WIRE sample_ip sample_globals = Inr G"
    "wireRepeaterType (g_localWire G) = repeated_none" "wireRepeaterType (g_globalWire G) = repeated_none"
proof -
  obtain G where G: "INITIAL_BASIC_WIRE sample_ip sample_globals = Inr G"
    "wireRepeaterType (g_localWire G) = repeated_none" "wireRepeaterType (g_globalWire G) = repeated_none"
    by (rule sample_wires)
  have "calc_ok sample_calc sample_ip G 8192 32 1 d"
    if "legal (ip_associativity sample_ip) (stackLayer_range (g_search sample_globals))
          (numRowPerSet_range (g_search sample_globals)) (dataSpace (g_search sample_globals)) d" for d
    using sample_calc_ok that by simp
  from data_pass_returns [OF sample_search_ok _ G(1) this]
  have "\<exists>t. data_pass sample_calc sample_result sample_ip sample_globals accept 8192 32 1 s = Inr (G, t)"
    using sample_active_bound by simp
  with G show ?thesis using that by blast
qed

lemma sample_plain_space: "plain_space sample_space"
  by (simp add: plain_space_def sample_space_def)

lemma sample_results_plain:
  "r \<in> set (init_results sample_result 0)
   \<Longrightarrow> wireRepeaterType (res_localWire r) = repeated_none \<and> wireRepeaterType (res_globalWire r) = repeated_none"
  by (auto simp: init_results_def sample_result_def Result_new_def sample_wire_def Wire_new_def)

lemma sample_refine:
  assumes "bests s = init_results sample_result 0"
  shows "\<exists>G' t. refine sample_calc sample_result data sample_ip sample_space (sample_globals, s) = Inr (G', t)"
proof (rule refine_returns [OF sample_calc_returns sample_plain_space])
  show "plain_state (sample_globals, bests s)"
    using sample_results_plain by (simp add: plain_state_def assms sample_globals_def sample_wire_def)
qed

text \<open>The whole data phase of the sample returns.\<close>

lemma plain_compare_all:
  assumes "wireRepeaterType (g_localWire G) = repeated_none" "wireRepeaterType (g_globalWire G) = repeated_none"
    and "wireRepeaterType (res_localWire r) = repeated_none \<and> wireRepeaterType (res_globalWire r) = repeated_none"
  shows "wireRepeaterType (res_localWire (compare_all (map (temp_result fresh G) bs) r)) = repeated_none
    \<and> wireRepeaterType (res_globalWire (compare_all (map (temp_result fresh G) bs) r)) = repeated_none"
  using assms(3)
proof (induction bs arbitrary: r)
  case (Cons b bs)
  show ?case
    by (simp, rule Cons.IH) (use Cons.prems assms(1,2) in
      \<open>auto simp: compareAndUpdate_def temp_result_def Wire_assign_eq\<close>)
qed simp

lemma sample_data_phase:
  obtains G' t where "data_phase sample_calc sample_result sample_overheads sample_cell sample_ip
    sample_globals (init_results sample_result 0) = Inr (G', t)"
proof -
  let ?s = "start_tally (init_results sample_result 0)"
  obtain G t where p: "data_pass sample_calc sample_result sample_ip sample_globals (\<lambda>_. True) 8192 32 1 ?s = Inr (G, t)"
    and w: "wireRepeaterType (g_localWire G) = repeated_none" "wireRepeaterType (g_globalWire G) = repeated_none"
    by (rule sample_data_pass)
  from data_pass_log [OF p] obtain bs where bs:
    "bests t = fold UPDATE_BEST (map (temp_result sample_result G) bs) (bests ?s)" by metis
  have "plain_state (G, bests t)"
    using plain_compare_all [OF w] sample_results_plain
    by (auto simp: plain_state_def w bs fold_UPDATE_BEST start_tally_def)
  from refine_returns [OF sample_calc_returns sample_plain_space this] obtain G' u where
    "refine sample_calc sample_result data sample_ip sample_space (G, t) = Inr (G', u)" by blast
  with p have "data_phase sample_calc sample_result sample_overheads sample_cell sample_ip
    sample_globals (init_results sample_result 0) = Inr (G', u)"
    by (simp add: data_phase_def sample_parameters constrained_phase_def) (simp add: sample_ip_def)
  then show ?thesis by (rule that)
qed

lemma sample_constrained:
  obtains G t where "constrained_phase sample_calc sample_result (sample_ip\<lparr>isConstraintApplied := True\<rparr>)
    sample_overheads 8192 32 1 (sample_globals, start_tally (init_results sample_result 0)) = Inr (G, t)"
proof -
  let ?ip = "sample_ip\<lparr>isConstraintApplied := True\<rparr>"
  let ?rs = "init_results sample_result 0" let ?l = "allowed sample_overheads ?rs"
  let ?s = "(start_tally ?rs)\<lparr>bests := map (APPLY_LIMIT ?l) ?rs, numSolution := 0\<rparr>"
  obtain G where G: "INITIAL_BASIC_WIRE sample_ip sample_globals = Inr G" by (rule sample_wires)
  then have G: "INITIAL_BASIC_WIRE ?ip sample_globals = Inr G"
    by (simp add: INITIAL_BASIC_WIRE_def init_wire_def Wire_Initialize_def wire_repeaters_def
        sample_globals_def sample_search_def sample_space_def enum_of_def aget_def repeater_types_def
        wire_types_def Let_def)
  have "search_ok ?ip sample_globals" using sample_search_ok by (simp add: search_ok_def)
  moreover have "calc_ok sample_calc ?ip G 8192 32 1 d"
    if "legal (ip_associativity ?ip) (stackLayer_range (g_search sample_globals))
          (numRowPerSet_range (g_search sample_globals)) (dataSpace (g_search sample_globals)) d" for d
    using sample_calc_ok [of d] that
    by (simp add: calc_ok_def sample_calc_def data_args_def Let_def)
  ultimately have "\<exists>t. data_pass sample_calc sample_result ?ip sample_globals (satisfies ?l) 8192 32 1 ?s = Inr (G, t)"
    using data_pass_returns [OF _ _ G] sample_active_bound by simp
  then show ?thesis using that
    by (auto simp: constrained_phase_def Let_def start_tally_def sample_ip_def)
qed

end
