(* ===== verification/MemCell.thy ===== *)
theory MemCell
  imports Technology
begin

text \<open>
  The operations of a memory cell (\<open>MemCell.cpp\<close>): the defaults of the constructor, the scaling to
  another process node, the retention time at the configured temperature, the resistance of a
  memristor, and the energies of a read and of a write.  The parser of the cell file is not part of
  this theory: the record \<open>MemCell\<close> holds what it reads.
\<close>

text \<open>The constructor leaves some members as they are in the raw memory.\<close>

definition MemCell_new :: "MemCell \<Rightarrow> MemCell" where
  "MemCell_new raw = raw\<lparr>
     memCellType := PCRAM, cell_area := 0, cell_aspectRatio := 0, resistanceOn := 0,
     resistanceOff := 0, readMode := True, readVoltage := 0, readCurrent := 0, readPower := 0,
     wordlineBoostRatio := 1, resetMode := True, resetVoltage := 0, resetCurrent := 0,
     minSenseVoltage := lit 8 (-2), resetPulse := 0, resetEnergy := 0, setMode := True,
     setVoltage := 0, setCurrent := 0, setPulse := 0, accessType := CMOS_access,
     cell_processNode := 0, setEnergy := 0,
     stitching := 0, gateOxThicknessFactor := 2, widthSOIDevice := 0, widthAccessCMOS := 0,
     voltageDropAccessDevice := 0, leakageCurrentAccessDevice := 0, capDRAMCell := 0,
     widthSRAMCellNMOS := lit 208 (-2), widthSRAMCellPMOS := lit 123 (-2),
     readFloating := False,
     resistanceOnAtSetVoltage := 0, resistanceOffAtSetVoltage := 0,
     resistanceOnAtResetVoltage := 0, resistanceOffAtResetVoltage := 0,
     resistanceOnAtReadVoltage := 0, resistanceOffAtReadVoltage := 0,
     resistanceOnAtHalfReadVoltage := 0, resistanceOffAtHalfReadVoltage := 0,
     retentionTime := invalid_value\<rparr>"

text \<open>\<open>exp\<close> on doubles.\<close>

fun dexp :: "dbl \<Rightarrow> dbl" where
  "dexp (Fin r) = Fin (exp r)"
| "dexp PInf = PInf"
| "dexp NInf = Fin 0"
| "dexp NaN = NaN"

definition MemCell_ApplyPVT :: "InputParameter \<Rightarrow> MemCell \<Rightarrow> MemCell" where
  "MemCell_ApplyPVT ip c =
     (if retentionTime c = invalid_value then c
      else if memCellType c = eDRAM then
        let exponent = - lit 268 (-4) * (i2d (ip_temperature ip) - cell_temperature c)
        in c\<lparr>retentionTime := retentionTime c * dexp exponent\<rparr>
      else c)"

text \<open>Currents shrink with the feature size; the voltages of an MRAM cell grow instead.\<close>

definition scale_writes :: "dbl \<Rightarrow> dbl \<Rightarrow> MemCell \<Rightarrow> MemCell" where
  "scale_writes k v c =
     (let c = (if setMode c then c\<lparr>setVoltage := setVoltage c * v\<rparr>
               else c\<lparr>setCurrent := setCurrent c / k\<rparr>);
          c = (if resetMode c then c\<lparr>resetVoltage := resetVoltage c * v\<rparr>
               else c\<lparr>resetCurrent := resetCurrent c / k\<rparr>)
      in if accessType c = diode_access
         then c\<lparr>capacitanceOn := capacitanceOn c / k, capacitanceOff := capacitanceOff c / k\<rparr>
         else c)"

definition MemCell_CellScaling :: "int \<Rightarrow> MemCell \<Rightarrow> MemCell" where
  "MemCell_CellScaling target c =
     (if 0 < cell_processNode c \<and> cell_processNode c \<noteq> target then
        let k = i2d (cell_processNode c) / i2d target;
            c = (if memCellType c = PCRAM then
                   scale_writes k 1 (c\<lparr>resistanceOn := resistanceOn c * k,
                                       resistanceOff := resistanceOff c * k\<rparr>)
                 else if memCellType c = MRAM then
                   scale_writes k k (c\<lparr>resistanceOn := resistanceOn c * (k * k),
                                       resistanceOff := resistanceOff c * (k * k)\<rparr>)
                 else c)
        in c\<lparr>cell_processNode := target\<rparr>
      else c)"

text \<open>The resistance of a memristor between the two voltages at which it is known.\<close>

definition MemCell_GetMemristance :: "dbl \<Rightarrow> MemCell \<Rightarrow> dbl" where
  "MemCell_GetMemristance relativeReadVoltage c =
     (if memCellType c = memristor then
        let x1 = (if readVoltage c = 0 then readCurrent c * resistanceOnAtReadVoltage c
                  else readVoltage c);
            x2 = readVoltage c / 2;
            x3 = relativeReadVoltage * readVoltage c;
            y1 = dlog2 (x1 / resistanceOnAtReadVoltage c);
            y2 = dlog2 (x2 / resistanceOnAtHalfReadVoltage c);
            y3 = (y2 - y1) / (x2 - x1) * x3 + (x2 * y1 - x1 * y2) / (x2 - x1)
        in x3 / dpow 2 y3
      else - 1)"

subsection \<open>Energy of a write\<close>

text \<open>The energy of a write in voltage mode, where \<open>onR\<close> is the resistance at the write voltage.\<close>

definition voltage_write_energy :: "MemCell \<Rightarrow> dbl \<Rightarrow> dbl \<Rightarrow> dbl \<Rightarrow> dbl \<Rightarrow> dbl" where
  "voltage_write_energy c onR voltage current pulse =
     (let drop = dfabs voltage * (dfabs voltage - voltageDropAccessDevice c)
      in if memCellType c = memristor then
           if accessType c = none_access then drop / onR * pulse else drop / resistanceOn c * pulse
         else if memCellType c = PCRAM then drop / resistanceOn c * pulse
         else if memCellType c = FBRAM then dfabs voltage * dfabs current * pulse
         else drop / resistanceOn c * pulse)"

text \<open>
  An energy that the cell file gives is kept.  In current mode the code asks for the reset voltage
  both times, also to choose the voltage of a set.
\<close>

definition reset_energy :: "Technology \<Rightarrow> MemCell \<Rightarrow> dbl" where
  "reset_energy T c =
     (if resetMode c then
        voltage_write_energy c (resistanceOnAtResetVoltage c) (resetVoltage c) (resetCurrent c)
          (resetPulse c)
      else if resetVoltage c = 0 then vdd T * dfabs (resetCurrent c) * resetPulse c
      else dfabs (resetVoltage c) * dfabs (resetCurrent c) * resetPulse c)"

definition set_energy :: "Technology \<Rightarrow> MemCell \<Rightarrow> dbl" where
  "set_energy T c =
     (if setMode c then
        voltage_write_energy c (resistanceOnAtSetVoltage c) (setVoltage c) (setCurrent c) (setPulse c)
      else if resetVoltage c = 0 then vdd T * dfabs (setCurrent c) * setPulse c
      else dfabs (setVoltage c) * dfabs (setCurrent c) * setPulse c)"

definition MemCell_CalculateWriteEnergy :: "Technology \<Rightarrow> MemCell \<Rightarrow> MemCell" where
  "MemCell_CalculateWriteEnergy T c =
     (let c = (if resetEnergy c = 0 then c\<lparr>resetEnergy := reset_energy T c\<rparr> else c)
      in if setEnergy c = 0 then c\<lparr>setEnergy := set_energy T c\<rparr> else c)"

text \<open>The operation asks the global cell for the read mode; it is called on that cell only.\<close>

definition MemCell_CalculateReadPower :: "Technology \<Rightarrow> MemCell \<Rightarrow> dbl" where
  "MemCell_CalculateReadPower T c =
     (if readPower c = 0 then
        if readMode c then
          if readVoltage c = 0 then vdd T * readCurrent c
          else if readCurrent c = 0 then
            let resInSerial = dsqrt (resistanceOn c * resistanceOff c)
            in vdd T * ((readVoltage c - voltageDropAccessDevice c) / (resistanceOn c + resInSerial))
          else - 1
        else vdd T * ((readVoltage c - voltageDropAccessDevice c) / resistanceOn c)
      else - 1)"

subsection \<open>What is computed once stays\<close>

lemma voltage_write_energy_update [simp]:
  "voltage_write_energy (c\<lparr>resetEnergy := e\<rparr>) onR = voltage_write_energy c onR"
  "voltage_write_energy (c\<lparr>setEnergy := e\<rparr>) onR = voltage_write_energy c onR"
  by (intro ext, simp add: voltage_write_energy_def Let_def cong: if_cong)+

lemma write_energies_update [simp]:
  "reset_energy T (c\<lparr>resetEnergy := e\<rparr>) = reset_energy T c"
  "reset_energy T (c\<lparr>setEnergy := e\<rparr>) = reset_energy T c"
  "set_energy T (c\<lparr>resetEnergy := e\<rparr>) = set_energy T c"
  "set_energy T (c\<lparr>setEnergy := e\<rparr>) = set_energy T c"
  by (simp_all add: reset_energy_def set_energy_def)

text \<open>
  The write energies of the cell are a cache: the operation stores them in the global cell, and a
  second call leaves the cell as it is.
\<close>

lemma CalculateWriteEnergy_again:
  "MemCell_CalculateWriteEnergy T (MemCell_CalculateWriteEnergy T c) = MemCell_CalculateWriteEnergy T c"
  by (simp add: MemCell_CalculateWriteEnergy_def Let_def)

lemma CellScaling_again:
  "MemCell_CellScaling target (MemCell_CellScaling target c) = MemCell_CellScaling target c"
  by (simp add: MemCell_CellScaling_def Let_def)

end
