(* ===== verification/SubArray.thy ===== *)
theory SubArray
  imports PredecodeBlock Mux SenseAmp Precharger Comparator TSV MemCell
begin

text \<open>
  A subarray (\<open>SubArray.cpp\<close>): the array of cells with its row decoder, prechargers, bitline
  multiplexer, sense amplifiers and the two levels of output multiplexers with their decoders.
  \<open>Initialize\<close> rejects the shapes that the cell cannot support, sizes the word- and bitlines and
  initializes the parts; the other operations put the figures of the parts together.
\<close>

subsection \<open>The global variables\<close>

text \<open>
  What the circuit code reads of the global variables (\<open>global.h\<close>): the technology of the periphery
  and of the devices, the configuration, the memory cell and the two wires.  The last three fields
  stand for the contents of newly allocated memory, on which constructors run.
\<close>

record Env =
  e_tech :: Technology
  e_devtech :: Technology
  e_ip :: InputParameter
  e_cell :: MemCell
  e_localWire :: Wire
  e_globalWire :: Wire
  e_rawRow :: RowDecoder
  e_rawBasic :: BasicDecoder
  e_rawSense :: SenseAmp

definition e_temperature :: "Env \<Rightarrow> dbl" where
  "e_temperature E = i2d (ip_temperature (e_ip E))"

subsection \<open>State\<close>

record SubArray = FunctionUnit +
  sub_initialized :: bool
  sub_invalid :: bool
  sub_internalSenseAmp :: bool
  sub_numRow :: int
  sub_numColumn :: int
  sub_multipleRowPerSet :: bool
  sub_split :: bool
  sub_muxSenseAmp :: int
  sub_muxOutputLev1 :: int
  sub_muxOutputLev2 :: int
  sub_areaOptimizationLevel :: BufferDesignTarget
  num3DLevels :: int
  voltageSense :: bool
  sub_senseVoltage :: dbl
  sub_voltagePrecharge :: dbl
  numSenseAmp :: int
  lenWordline :: dbl
  lenBitline :: dbl
  capWordline :: dbl
  capBitline :: dbl
  resWordline :: dbl
  resBitline :: dbl
  resCellAccess :: dbl
  capCellAccess :: dbl
  resMemCellOff :: dbl
  resMemCellOn :: dbl
  voltageMemCellOff :: dbl
  voltageMemCellOn :: dbl
  resInSerialForSenseAmp :: dbl
  resEquivalentOn :: dbl
  resEquivalentOff :: dbl
  bitlineDelay :: dbl
  chargeLatency :: dbl
  columnDecoderLatency :: dbl
  bitlineDelayOn :: dbl
  bitlineDelayOff :: dbl
  sub_rowDecoder :: RowDecoder
  bitlineMuxDecoder :: RowDecoder
  bitlineMux :: Mux
  senseAmpMuxLev1Decoder :: RowDecoder
  senseAmpMuxLev1 :: Mux
  senseAmpMuxLev2Decoder :: RowDecoder
  senseAmpMuxLev2 :: Mux
  sub_precharger :: Precharger
  sub_senseAmp :: SenseAmp

definition SubArray_new :: "SubArray \<Rightarrow> SubArray" where
  "SubArray_new raw = (FunctionUnit_new raw)\<lparr>sub_initialized := False, sub_invalid := False,
     sub_rowDecoder := RowDecoder_new (sub_rowDecoder raw),
     bitlineMuxDecoder := RowDecoder_new (bitlineMuxDecoder raw),
     bitlineMux := Mux_new (bitlineMux raw),
     senseAmpMuxLev1Decoder := RowDecoder_new (senseAmpMuxLev1Decoder raw),
     senseAmpMuxLev1 := Mux_new (senseAmpMuxLev1 raw),
     senseAmpMuxLev2Decoder := RowDecoder_new (senseAmpMuxLev2Decoder raw),
     senseAmpMuxLev2 := Mux_new (senseAmpMuxLev2 raw),
     sub_precharger := Precharger_new (sub_precharger raw),
     sub_senseAmp := SenseAmp_new (sub_senseAmp raw)\<rparr>"

subsection \<open>Initialize: legality\<close>

text \<open>The two early returns: an illegal configuration, and one that leaves \<open>initialized\<close> as it is.\<close>

definition sub_illegal :: "SubArray \<Rightarrow> (SubArray, 'a) early res" where
  "sub_illegal s = Inr (Return (s\<lparr>sub_invalid := True, sub_initialized := True\<rparr>))"

definition sub_reject :: "SubArray \<Rightarrow> (SubArray, 'a) early res" where
  "sub_reject s = Inr (Return (s\<lparr>sub_invalid := True\<rparr>))"

definition resistive_cell :: "MemCell \<Rightarrow> bool" where
  "resistive_cell c \<longleftrightarrow> memCellType c = MRAM \<or> memCellType c = PCRAM \<or> memCellType c = memristor"

definition dram_cell :: "MemCell \<Rightarrow> bool" where
  "dram_cell c \<longleftrightarrow> memCellType c = DRAM \<or> memCellType c = eDRAM"

text \<open>Which shapes the kind of memory supports.\<close>

definition sub_shape_legal :: "Env \<Rightarrow> SubArray \<Rightarrow> bool res" where
  "sub_shape_legal E s =
     (let ip = e_ip E; ty = memCellType (e_cell E) in
      if designTarget ip = cache \<and> cacheAccessMode ip \<noteq> sequential_access_mode
           \<and> sub_numColumn s < ip_associativity ip then Inr False
      else if dram_cell (e_cell E) \<and> 1 < sub_muxSenseAmp s then Inr False
      else if ty = SLCNAND then
        ebind (cdiv (flashBlockSize ip) (pageSize ip)) (\<lambda>pages.
          Inr (\<not> sub_numRow s < pages \<and> \<not> (sub_internalSenseAmp s \<and> sub_muxSenseAmp s < 2)))
      else if ty = memristor \<or> ty = FBRAM then
        Inr (\<not> (sub_internalSenseAmp s \<and> sub_muxSenseAmp s < 2))
      else Inr True)"

text \<open>
  The largest currents of a wordline and of a bitline.  For a memristor without access device the
  second assignment of the bitline current overwrites the first one instead of adding to it.
\<close>

definition cross_point_currents ::
  "Env \<Rightarrow> SubArray \<Rightarrow> (SubArray, dbl \<times> dbl) early res" where
  "cross_point_currents E s =
     (let c = e_cell E; T = e_tech E; ip = e_ip E;
          rows = sub_numRow s; cols = sub_numColumn s; above = i2d (num3DLevels s - 1);
          leak = leakageCurrentAccessDevice c;
          resetI = (if resetCurrent c = 0
                    then (dfabs (resetVoltage c) - voltageDropAccessDevice c) / resistanceOnAtResetVoltage c
                    else resetCurrent c);
          half = resetI * resistanceOnAtResetVoltage c / 2 / resistanceOnAtHalfResetVoltage c
      in ebind (cdiv cols (sub_muxSenseAmp s)) (\<lambda>n. ebind (cdiv n (sub_muxOutputLev1 s)) (\<lambda>n.
         ebind (cdiv n (sub_muxOutputLev2 s)) (\<lambda>n.
         let selected = wrap32 n;
             word = (if accessType c = none_access
                     then resetI * i2d selected + half * i2d (cols - selected) + half * i2d cols * above
                     else resetI * i2d selected + leak * i2d (cols - selected) + leak * i2d cols * above)
         in ebind (aget (currentOnNmos T) (ip_temperature ip - 300)) (\<lambda>ion.
            if maxNmosSize ip * featureSize T < word / ion then sub_reject s
            else Inr (Go (word,
              if accessType c = none_access then half * i2d rows * above
              else resetI + leak * i2d (rows - 1) + leak * i2d rows * above)))))))"

definition sub_currents :: "Env \<Rightarrow> SubArray \<Rightarrow> (SubArray, dbl \<times> dbl) early res" where
  "sub_currents E s =
     (let c = e_cell E; t = ip_temperature (e_ip E) - 300; rows = sub_numRow s;
          bitline = cMAX (resetCurrent c) (setCurrent c) + leakageCurrentAccessDevice c * i2d (rows - 1)
      in if memCellType c = FBRAM then
           if resistanceOff c / resistanceOn c < i2d rows then sub_illegal s
           else Inr (Go (0, bitline))
         else if resistive_cell c then
           if accessType c = CMOS_access then
             ebind (aget (currentOnNmos (e_tech E)) t) (\<lambda>ion.
             ebind (aget (currentOffNmos (e_tech E)) t) (\<lambda>ioff.
               if ion / ioff < i2d rows then sub_illegal s else Inr (Go (0, bitline))))
           else cross_point_currents E s
         else Inr (Go (0, 0)))"

text \<open>The width of the bitline multiplexer; one that is wider than allowed is rejected.\<close>

definition sub_mux_width :: "Env \<Rightarrow> dbl \<Rightarrow> SubArray \<Rightarrow> (SubArray, dbl) early res" where
  "sub_mux_width E maxBitlineCurrent s =
     ebind (aget (currentOnNmos (e_tech E)) (ip_temperature (e_ip E) - 300)) (\<lambda>ion.
       let F = featureSize (e_tech E); w = cMAX (MIN_NMOS_SIZE * F) (maxBitlineCurrent / ion)
       in if maxNmosSize (e_ip E) * F < w then sub_reject s else Inr (Go w))"

definition sub_sensing :: "Env \<Rightarrow> SubArray \<Rightarrow> SubArray res" where
  "sub_sensing E s =
     (let c = e_cell E in
      if sub_internalSenseAmp s then
        Inr (s\<lparr>voltageSense := (if resistive_cell c \<or> memCellType c = FBRAM then readMode c else True)\<rparr>)
      else if dram_cell c then Inl Exit
      else Inr s)"

subsection \<open>Initialize: lines\<close>

definition page_count :: "InputParameter \<Rightarrow> int res" where
  "page_count ip = ebind (cdiv (flashBlockSize ip) (pageSize ip)) (\<lambda>n. Inr (wrap32 n))"

text \<open>The lengths of the lines with the overhead of stitching and of the select transistors.\<close>

definition sub_lengths :: "Env \<Rightarrow> SubArray \<Rightarrow> SubArray res" where
  "sub_lengths E s =
     (let c = e_cell E; F = featureSize (e_devtech E); cols = sub_numColumn s; rows = sub_numRow s;
          word = i2d cols * widthInFeatureSize c * F;
          bit = i2d rows * heightInFeatureSize c * F
      in ebind (cdiv cols (sub_muxSenseAmp s)) (\<lambda>amps.
         ebind (if stitching c = 0 then Inr word
                else ebind (cdiv (cols - 1) (stitching c)) (\<lambda>n.
                  Inr (word + i2d (n + 1) * STITCHING_OVERHEAD * F))) (\<lambda>word.
         ebind (if memCellType c = SLCNAND then
                  ebind (page_count (e_ip E)) (\<lambda>pages. ebind (cdiv rows pages) (\<lambda>n.
                    Inr (bit + i2d (n * 5) * featureSize (e_tech E))))
                else Inr bit) (\<lambda>bit.
         let w = e_localWire E; k = i2d (num3DLevels s)
         in Inr (s\<lparr>numSenseAmp := amps, lenWordline := word, lenBitline := bit,
                   capWordline := word * capWirePerUnit w * k,
                   resWordline := word * resWirePerUnit w * k,
                   capBitline := bit * capWirePerUnit w * k,
                   resBitline := bit * resWirePerUnit w * k\<rparr>)))))"

text \<open>The load of the decoders of the multiplexers: capacitance and resistance.\<close>

definition sub_mux_load :: "Env \<Rightarrow> dbl \<Rightarrow> SubArray \<Rightarrow> dbl \<times> dbl" where
  "sub_mux_load E minBitlineMuxWidth s =
     (CalculateGateCap minBitlineMuxWidth (e_tech E) * i2d (sub_numColumn s) + capWordline s,
      resWordline s)"

definition sub_sense_voltage :: "Env \<Rightarrow> SubArray \<Rightarrow> (SubArray, SubArray) early res" where
  "sub_sense_voltage E s =
     (let c = e_cell E in
      if dram_cell c then
        let v = vdd (e_devtech E) / 2 * capDRAMCell c / (capDRAMCell c + capBitline s);
            s = s\<lparr>sub_senseVoltage := v\<rparr>
        in if v < minSenseVoltage c then sub_illegal s else Inr (Go s)
      else if memCellType c = SLCNAND then
        Inr (Go (s\<lparr>sub_senseVoltage := cMAX (minSenseVoltage c) (2 / 10 * vdd (e_tech E))\<rparr>))
      else Inr (Go (s\<lparr>sub_senseVoltage := minSenseVoltage c\<rparr>)))"

text \<open>
  With voltage sensing, the precharge voltage in the middle between the voltages over a cell in its
  two states.
\<close>

definition sub_precharge_voltage :: "Technology \<Rightarrow> SubArray \<Rightarrow> (SubArray, SubArray) early res" where
  "sub_precharge_voltage T s =
     (let v = cMIN (vdd T) ((voltageMemCellOff s + voltageMemCellOn s) / 2);
          s = s\<lparr>sub_voltagePrecharge := v\<rparr>
      in if v - voltageMemCellOn s \<le> sub_senseVoltage s then sub_reject s else Inr (Go s))"

definition sub_read_voltages :: "Env \<Rightarrow> SubArray \<Rightarrow> (SubArray, SubArray) early res" where
  "sub_read_voltages E s =
     (let c = e_cell E; on = resMemCellOn s; off = resMemCellOff s in
      if \<not> readMode c then Inr (Go s)
      else if readVoltage c = 0 then
        sub_precharge_voltage (e_tech E) (s\<lparr>voltageMemCellOff := readCurrent c * off,
          voltageMemCellOn := readCurrent c * on\<rparr>)
      else
        let r = dsqrt (on * off)
        in sub_precharge_voltage (e_tech E) (s\<lparr>resInSerialForSenseAmp := r,
             resEquivalentOn := on * r / (on + r), resEquivalentOff := off * r / (off + r),
             voltageMemCellOff := readVoltage c * off / (off + r),
             voltageMemCellOn := readVoltage c * on / (on + r)\<rparr>))"

text \<open>The access transistor of width \<open>w\<close> (in feature sizes) in the technology \<open>T\<close>.\<close>

definition access_transistor :: "Env \<Rightarrow> Technology \<Rightarrow> dbl \<Rightarrow> (dbl \<times> dbl) res" where
  "access_transistor E T w =
     ebind (CalculateOnResistance w NMOS (e_temperature E) T) (\<lambda>r.
     ebind (CalculateDrainCap w NMOS (widthInFeatureSize (e_cell E) * featureSize T) T) (\<lambda>c.
       Inr (r, c)))"

text \<open>
  The resistance and the capacitance of the access to a cell, and what the cells add to the lines.
  A cell with a bipolar access device adds nothing (the code has a TO-DO), nor does multi-level NAND
  flash.
\<close>

definition sub_access :: "Env \<Rightarrow> SubArray \<Rightarrow> (SubArray, SubArray) early res" where
  "sub_access E s =
     (let c = e_cell E; T = e_tech E; D = e_devtech E; F = featureSize T;
          rows = i2d (sub_numRow s); cols = i2d (sub_numColumn s) in
      if memCellType c = SRAM then
        let w = widthAccessCMOS c * F
        in ebind (access_transistor E T w) (\<lambda>(r, d).
             Inr (Go (s\<lparr>resCellAccess := r, capCellAccess := d,
               capWordline := capWordline s + 2 * CalculateGateCap w T * cols,
               capBitline := capBitline s + d * rows / 2,
               sub_voltagePrecharge := vdd T / 2\<rparr>)))
      else if dram_cell c then
        let w = widthAccessCMOS c * featureSize D
        in ebind (access_transistor E D w) (\<lambda>(r, d).
             Inr (Go (s\<lparr>resCellAccess := r, capCellAccess := d,
               capWordline := capWordline s + CalculateGateCap w D * cols,
               capBitline := capBitline s + d * rows / 2,
               sub_voltagePrecharge := vdd D / 2\<rparr>)))
      else if memCellType c = FBRAM then
        let w = widthSOIDevice c * F; d = CalculateFBRAMDrainCap w T
        in sub_read_voltages E (s\<lparr>resCellAccess := 0, capCellAccess := d,
             capWordline := capWordline s + CalculateFBRAMGateCap w (gateOxThicknessFactor c) T * cols,
             capBitline := capBitline s + d * rows / 2,
             resMemCellOff := resistanceOff c, resMemCellOn := resistanceOn c\<rparr>)
      else if resistive_cell c then
        ebind (if accessType c = CMOS_access then
                 let w = widthAccessCMOS c * F
                 in ebind (access_transistor E T w) (\<lambda>(r, d).
                      Inr (s\<lparr>resCellAccess := r, capCellAccess := d,
                        capWordline := capWordline s + CalculateGateCap w T * cols,
                        capBitline := capBitline s + d * rows / 2\<rparr>))
               else if accessType c = BJT_access then Inr s
               else
                 let m = cMAX (capacitanceOff c) (capacitanceOn c); above = i2d (num3DLevels s - 1)
                 in Inr (s\<lparr>resCellAccess := 0,
                      capCellAccess := cMAX (capacitanceOn c) (capacitanceOff c),
                      capWordline := capWordline s + m * cols + m * cols * above,
                      capBitline := capBitline s + m * rows + m * rows * above\<rparr>)) (\<lambda>s.
          sub_read_voltages E (s\<lparr>resMemCellOff := resCellAccess s + resistanceOff c,
                                 resMemCellOn := resCellAccess s + resistanceOn c\<rparr>))
      else if memCellType c = SLCNAND then
        ebind (page_count (e_ip E)) (\<lambda>pages.
        ebind (access_transistor E T F) (\<lambda>(r, d).
        ebind (cdiv (sub_numRow s) pages) (\<lambda>n.
          Inr (Go (s\<lparr>resCellAccess := r * i2d (pages + 2), capCellAccess := d,
            capWordline := capWordline s + CalculateGateCap F T * cols * gateCouplingRatio c
                             / (gateCouplingRatio c + 1),
            capBitline := capBitline s + d * i2d n / 2,
            sub_voltagePrecharge := vdd T * (6 / 10)\<rparr>)))))
      else Inr (Go s))"

subsection \<open>Initialize: the parts\<close>

text \<open>A decoder of a multiplexer, initialized only while nothing has been found invalid.\<close>

definition sub_mux_decoder ::
  "Env \<Rightarrow> dbl \<times> dbl \<Rightarrow> int \<Rightarrow> BufferDesignTarget \<Rightarrow> RowDecoder \<Rightarrow> bool \<Rightarrow> (RowDecoder \<times> bool) res" where
  "sub_mux_decoder E load n level rd bad =
     (if bad then Inr (rd, bad)
      else
        ebind (RowDecoder_Initialize (e_tech E) (e_ip E) n (fst load) (snd load) False level 0 rd) (\<lambda>rd.
          if rd_invalid rd then Inr (rd, True)
          else ebind (RowDecoder_CalculateRC (e_tech E) rd) (\<lambda>rd. Inr (rd, False))))"

definition sub_decoders :: "Env \<Rightarrow> dbl \<times> dbl \<Rightarrow> SubArray \<Rightarrow> SubArray res" where
  "sub_decoders E load s =
     (let level = sub_areaOptimizationLevel s in
      ebind (sub_mux_decoder E load (sub_muxSenseAmp s) level (bitlineMuxDecoder s) (sub_invalid s))
        (\<lambda>(d0, bad).
      ebind (sub_mux_decoder E load (sub_muxOutputLev1 s) level (senseAmpMuxLev1Decoder s) bad)
        (\<lambda>(d1, bad).
      ebind (sub_mux_decoder E load (sub_muxOutputLev2 s) level (senseAmpMuxLev2Decoder s) bad)
        (\<lambda>(d2, bad).
        Inr (s\<lparr>bitlineMuxDecoder := d0, senseAmpMuxLev1Decoder := d1, senseAmpMuxLev2Decoder := d2,
               sub_invalid := bad\<rparr>)))))"

text \<open>The output multiplexers: the second level is the load of the first.\<close>

definition sub_output_muxes :: "Env \<Rightarrow> dbl \<Rightarrow> SubArray \<Rightarrow> SubArray res" where
  "sub_output_muxes E maxBitlineCurrent s =
     (let T = e_tech E; ip = e_ip E; c = e_cell E in
      ebind (cdiv (sub_numColumn s) (sub_muxSenseAmp s)) (\<lambda>n.
      ebind (cdiv n (sub_muxOutputLev1 s)) (\<lambda>n1. ebind (cdiv n1 (sub_muxOutputLev2 s)) (\<lambda>n2.
      ebind (Mux_Initialize T ip c (sub_muxOutputLev2 s) n2 0 0 maxBitlineCurrent (senseAmpMuxLev2 s))
        (\<lambda>m2.
      ebind (Mux_CalculateRC T ip m2) (\<lambda>m2.
      ebind (Mux_Initialize T ip c (sub_muxOutputLev1 s) n1 (capForPreviousDelayCalculation m2)
               (capForPreviousPowerCalculation m2) maxBitlineCurrent (senseAmpMuxLev1 s)) (\<lambda>m1.
      ebind (Mux_CalculateRC T ip m1) (\<lambda>m1.
        Inr (s\<lparr>senseAmpMuxLev2 := m2, senseAmpMuxLev1 := m1\<rparr>)))))))))"

definition sub_bitline_mux :: "Env \<Rightarrow> dbl \<Rightarrow> dbl \<times> dbl \<Rightarrow> SubArray \<Rightarrow> SubArray res" where
  "sub_bitline_mux E maxBitlineCurrent next_stage s =
     (let T = e_tech E; ip = e_ip E in
      ebind (cdiv (sub_numColumn s) (sub_muxSenseAmp s)) (\<lambda>n.
      ebind (Mux_Initialize T ip (e_cell E) (sub_muxSenseAmp s) n (fst next_stage) (snd next_stage)
               maxBitlineCurrent (bitlineMux s)) (\<lambda>m.
      ebind (Mux_CalculateRC T ip m) (\<lambda>m. Inr (s\<lparr>bitlineMux := m\<rparr>)))))"

definition sub_sense_amps :: "Env \<Rightarrow> dbl \<Rightarrow> SubArray \<Rightarrow> SubArray res" where
  "sub_sense_amps E maxBitlineCurrent s =
     (if sub_invalid s then Inr s
      else if sub_internalSenseAmp s then
        let sa = SenseAmp_Initialize (e_tech E) (numSenseAmp s) (\<not> voltageSense s) (sub_senseVoltage s)
                   (lenWordline s / i2d (sub_numColumn s) * i2d (sub_muxSenseAmp s)) (sub_senseAmp s)
        in if sa_invalid sa then Inr (s\<lparr>sub_senseAmp := sa, sub_invalid := True\<rparr>)
           else ebind (SenseAmp_CalculateRC (e_tech E) sa) (\<lambda>sa.
                  sub_bitline_mux E maxBitlineCurrent (sa_capLoad sa, sa_capLoad sa)
                    (s\<lparr>sub_senseAmp := sa\<rparr>))
      else
        sub_bitline_mux E maxBitlineCurrent
          (capForPreviousDelayCalculation (senseAmpMuxLev1 s),
           capForPreviousPowerCalculation (senseAmpMuxLev1 s)) s)"

definition sub_parts :: "Env \<Rightarrow> dbl \<Rightarrow> dbl \<Rightarrow> dbl \<times> dbl \<Rightarrow> SubArray \<Rightarrow> (SubArray, SubArray) early res" where
  "sub_parts E maxWordlineCurrent maxBitlineCurrent load s =
     (let T = e_tech E; ip = e_ip E in
      ebind (Precharger_Initialize T ip (e_cell E) (e_localWire E) (vdd T) (wrap32 (sub_numColumn s))
               (capBitline s) (resBitline s) (sub_precharger s)) (\<lambda>pc.
      ebind (Precharger_CalculateRC T pc) (\<lambda>pc.
      ebind (RowDecoder_Initialize T ip (wrap32 (sub_numRow s)) (capWordline s) (resWordline s)
               (sub_multipleRowPerSet s) (sub_areaOptimizationLevel s) maxWordlineCurrent
               (sub_rowDecoder s)) (\<lambda>rd.
      if rd_invalid rd then sub_reject (s\<lparr>sub_precharger := pc, sub_rowDecoder := rd\<rparr>)
      else
        ebind (RowDecoder_CalculateRC T rd) (\<lambda>rd.
        ebind (sub_decoders E load (s\<lparr>sub_precharger := pc, sub_rowDecoder := rd\<rparr>)) (\<lambda>s.
        ebind (sub_output_muxes E maxBitlineCurrent s) (\<lambda>s.
        ebind (sub_sense_amps E maxBitlineCurrent s) (\<lambda>s.
          Inr (Go (s\<lparr>sub_initialized := True\<rparr>))))))))))"

definition sub_params ::
  "int \<Rightarrow> int \<Rightarrow> bool \<Rightarrow> bool \<Rightarrow> int \<Rightarrow> bool \<Rightarrow> int \<Rightarrow> int \<Rightarrow> BufferDesignTarget \<Rightarrow> int
     \<Rightarrow> SubArray \<Rightarrow> SubArray" where
  "sub_params numRow numColumn multipleRowPerSet split muxSA internal mux1 mux2 level levels s =
     s\<lparr>sub_numRow := numRow, sub_numColumn := numColumn, sub_multipleRowPerSet := multipleRowPerSet,
       sub_split := split, sub_muxSenseAmp := muxSA, sub_muxOutputLev1 := mux1,
       sub_muxOutputLev2 := mux2, sub_internalSenseAmp := internal,
       sub_areaOptimizationLevel := level, num3DLevels := levels\<rparr>"

definition SubArray_Initialize ::
  "Env \<Rightarrow> int \<Rightarrow> int \<Rightarrow> bool \<Rightarrow> bool \<Rightarrow> int \<Rightarrow> bool \<Rightarrow> int \<Rightarrow> int \<Rightarrow> BufferDesignTarget \<Rightarrow> int
     \<Rightarrow> SubArray \<Rightarrow> SubArray res" where
  "SubArray_Initialize E numRow numColumn multipleRowPerSet split muxSA internal mux1 mux2 level levels s =
     (let s = sub_params numRow numColumn multipleRowPerSet split muxSA internal mux1 mux2 level levels s in
      finish
       (ebind (sub_shape_legal E s) (\<lambda>legal.
        if \<not> legal then sub_illegal s
        else
          fbind (sub_currents E s) (\<lambda>(wordI, bitI).
          fbind (sub_mux_width E bitI s) (\<lambda>w.
          ebind (sub_sensing E s) (\<lambda>s.
          ebind (sub_lengths E s) (\<lambda>s.
          let load = sub_mux_load E w s in
          fbind (sub_sense_voltage E s) (\<lambda>s.
          fbind (sub_access E s) (\<lambda>s.
            sub_parts E wordI bitI load s)))))))))"

subsection \<open>CalculateArea\<close>

definition SubArray_CalculateArea :: "Env \<Rightarrow> SubArray \<Rightarrow> SubArray res" where
  "SubArray_CalculateArea E s =
     (if \<not> sub_initialized s then Inr s
      else if sub_invalid s
      then Inr (s\<lparr>height := invalid_value, width := invalid_value, area := invalid_value\<rparr>)
      else
        let T = e_tech E; w = lenWordline s; h = lenBitline s in
        ebind (RowDecoder_CalculateArea T (sub_rowDecoder s)) (\<lambda>rd.
        ebind (Precharger_CalculateArea T (sub_precharger s)) (\<lambda>pc.
        ebind (Mux_CalculateArea T (bitlineMux s)) (\<lambda>bm.
        ebind (if sub_internalSenseAmp s then SenseAmp_CalculateArea T (sub_senseAmp s)
               else Inr (sub_senseAmp s)) (\<lambda>sa.
        ebind (Mux_CalculateArea T (senseAmpMuxLev1 s)) (\<lambda>m1.
        ebind (Mux_CalculateArea T (senseAmpMuxLev2 s)) (\<lambda>m2.
        ebind (RowDecoder_CalculateArea T (bitlineMuxDecoder s)) (\<lambda>d0.
        ebind (RowDecoder_CalculateArea T (senseAmpMuxLev1Decoder s)) (\<lambda>d1.
        ebind (RowDecoder_CalculateArea T (senseAmpMuxLev2Decoder s)) (\<lambda>d2.
        let addWidth = (if h < height rd then area rd / h else width rd);
            addHeight = (if w < width pc then area pc / width pc else height pc);
            addHeight = addHeight + height bm;
            addHeight = (if sub_internalSenseAmp s \<and> \<not> w * lit 1001 (-3) < width sa
                         then addHeight + height sa else addHeight);
            addHeight = addHeight + height m1 + height m2;
            addWidth = cMAX (cMAX (cMAX addWidth (width d0)) (width d1)) (width d2);
            w = w + addWidth; h = h + addHeight
        in Inr (s\<lparr>sub_rowDecoder := rd, sub_precharger := pc, bitlineMux := bm, sub_senseAmp := sa,
                  senseAmpMuxLev1 := m1, senseAmpMuxLev2 := m2, bitlineMuxDecoder := d0,
                  senseAmpMuxLev1Decoder := d1, senseAmpMuxLev2Decoder := d2,
                  width := w, height := h, area := w * h\<rparr>)))))))))))"

subsection \<open>CalculateLatency\<close>

text \<open>The prechargers and the decoders, and the slowest of the decoders of the multiplexers.\<close>

definition sub_decoder_latency :: "Env \<Rightarrow> dbl \<Rightarrow> SubArray \<Rightarrow> SubArray res" where
  "sub_decoder_latency E ramp s =
     (let T = e_tech E; ip = e_ip E in
      ebind (Precharger_CalculateLatency T ip ramp (sub_precharger s)) (\<lambda>pc.
      ebind (RowDecoder_CalculateLatency T ip ramp (sub_rowDecoder s)) (\<lambda>rd.
      ebind (RowDecoder_CalculateLatency T ip ramp (bitlineMuxDecoder s)) (\<lambda>d0.
      ebind (RowDecoder_CalculateLatency T ip ramp (senseAmpMuxLev1Decoder s)) (\<lambda>d1.
      ebind (RowDecoder_CalculateLatency T ip ramp (senseAmpMuxLev2Decoder s)) (\<lambda>d2.
        Inr (s\<lparr>sub_precharger := pc, sub_rowDecoder := rd, bitlineMuxDecoder := d0,
               senseAmpMuxLev1Decoder := d1, senseAmpMuxLev2Decoder := d2,
               columnDecoderLatency := cMAX (cMAX (readLatency d0) (readLatency d1)) (readLatency d2)\<rparr>)))))))"

definition sub_charge_latency :: "SubArray \<Rightarrow> dbl" where
  "sub_charge_latency s =
     (let cap = capNMOSPassTransistor (bitlineMux s) + capNMOSPassTransistor (senseAmpMuxLev1 s)
                  + capNMOSPassTransistor (senseAmpMuxLev2 s);
          r = resNMOSPassTransistor (bitlineMux s) + resNMOSPassTransistor (senseAmpMuxLev1 s)
                  + resNMOSPassTransistor (senseAmpMuxLev2 s);
          tau = r * (cap + capBitline s) + resBitline s * capBitline s / 2
      in fst (horowitz tau 0 (lit 1 20)))"

text \<open>The time constant of a bitline that is driven through the resistance \<open>r\<close>.\<close>

definition bitline_tau :: "SubArray \<Rightarrow> dbl \<Rightarrow> dbl" where
  "bitline_tau s r =
     (let cm = capForPreviousDelayCalculation (bitlineMux s)
      in r * (capCellAccess s + capBitline s + cm) + resBitline s * (cm + capBitline s / 2))"

text \<open>The multiplexers and the sense amplifier behind the bitline.\<close>

definition sub_output_chain :: "Env \<Rightarrow> dbl \<Rightarrow> SubArray \<Rightarrow> SubArray" where
  "sub_output_chain E bitlineRamp s =
     (let bm = Mux_CalculateLatency bitlineRamp (bitlineMux s);
          sa = (if sub_internalSenseAmp s
                then SenseAmp_CalculateLatency (e_tech E) (rd_rampOutput (bitlineMuxDecoder s)) (sub_senseAmp s)
                else sub_senseAmp s);
          m1 = Mux_CalculateLatency (if sub_internalSenseAmp s then lit 1 20 else mux_rampOutput bm)
                 (senseAmpMuxLev1 s);
          m2 = Mux_CalculateLatency (mux_rampOutput m1) (senseAmpMuxLev2 s)
      in s\<lparr>bitlineMux := bm, sub_senseAmp := sa, senseAmpMuxLev1 := m1, senseAmpMuxLev2 := m2\<rparr>)"

definition sub_read_latency :: "dbl \<Rightarrow> SubArray \<Rightarrow> dbl" where
  "sub_read_latency decoderLatency s =
     decoderLatency + bitlineDelay s + readLatency (bitlineMux s) + readLatency (sub_senseAmp s)
       + readLatency (senseAmpMuxLev1 s) + readLatency (senseAmpMuxLev2 s)"

definition sub_latency_SRAM :: "Env \<Rightarrow> dbl \<Rightarrow> SubArray \<Rightarrow> SubArray res" where
  "sub_latency_SRAM E decoderLatency s =
     (let T = e_tech E; c = e_cell E; F = featureSize T in
      ebind (CalculateOnResistance (widthSRAMCellNMOS c * F) NMOS (e_temperature E) T) (\<lambda>resPullDown.
      let v = sub_voltagePrecharge s;
          tau = bitline_tau s (resCellAccess s + resPullDown) * dlog (v / (v - sub_senseVoltage s / 2));
          gm = CalculateTransconductance (widthAccessCMOS c * F) NMOS T;
          (delay, bitlineRamp) = horowitz tau (1 / (resPullDown * gm)) (rd_rampOutput (sub_rowDecoder s));
          s = sub_output_chain E bitlineRamp (s\<lparr>bitlineDelay := delay\<rparr>);
          l = sub_read_latency decoderLatency s
      in Inr (s\<lparr>readLatency := l, writeLatency := l\<rparr>)))"

text \<open>A refresh does not pass the output multiplexers; its latency covers all rows.\<close>

definition sub_latency_DRAM :: "Env \<Rightarrow> dbl \<Rightarrow> SubArray \<Rightarrow> SubArray" where
  "sub_latency_DRAM E decoderLatency s =
     (let cellCap = capCellAccess s + capDRAMCell (e_cell E);
          cm = capForPreviousDelayCalculation (bitlineMux s);
          cap = cellCap * (capBitline s + cm)
                  / (capCellAccess s + capDRAMCell (e_cell E) + capBitline s + cm);
          tau = lit 23 (-1) * (resBitline s + resCellAccess s) * cap;
          (delay, bitlineRamp) = horowitz tau 0 (rd_rampOutput (sub_rowDecoder s));
          sa = SenseAmp_CalculateLatency (e_tech E) bitlineRamp (sub_senseAmp s);
          m1 = Mux_CalculateLatency (lit 1 20) (senseAmpMuxLev1 s);
          m2 = Mux_CalculateLatency (mux_rampOutput m1) (senseAmpMuxLev2 s);
          row = decoderLatency + delay + readLatency sa;
          l = row + readLatency m1 + readLatency m2
      in s\<lparr>bitlineDelay := delay, sub_senseAmp := sa, senseAmpMuxLev1 := m1, senseAmpMuxLev2 := m2,
           refreshLatency := row * i2d (sub_numRow s), readLatency := l, writeLatency := l\<rparr>)"

text \<open>The delay of the bitline of a resistive cell: the new state and the slope at the end.\<close>

definition sub_resistive_delay :: "Env \<Rightarrow> SubArray \<Rightarrow> SubArray \<times> dbl" where
  "sub_resistive_delay E s =
     (let c = e_cell E in
      if \<not> readMode c then
        let tau = resBitline s * capBitline s / 2 * (resMemCellOff s + resBitline s / 3)
                    / (resMemCellOff s + resBitline s);
            (delay, bitlineRamp) = horowitz tau 0 (rd_rampOutput (sub_rowDecoder s))
        in (s\<lparr>bitlineDelay := delay\<rparr>, bitlineRamp)
      else
        let (rOn, rOff) = (if readVoltage c = 0 then (resMemCellOn s, resMemCellOff s)
                           else (resEquivalentOn s, resEquivalentOff s));
            v = sub_voltagePrecharge s; on = voltageMemCellOn s; off = voltageMemCellOff s;
            delayOn = bitline_tau s rOn * dlog ((v - on) / (v - on - sub_senseVoltage s));
            delayOff = bitline_tau s rOff * dlog ((off - v) / (off - v - sub_senseVoltage s))
        in (s\<lparr>bitlineDelayOn := delayOn, bitlineDelayOff := delayOff,
              bitlineDelay := cMAX delayOn delayOff\<rparr>, 0))"

text \<open>
  The latency of a write, a set and a reset.  Write-and-verify programming of a PCRAM is not
  implemented: the three latencies stay as they are.  Without an access transistor, a memristor or
  MRAM cell gets no set and reset latency.
\<close>

definition sub_resistive_write :: "Env \<Rightarrow> SubArray \<Rightarrow> SubArray" where
  "sub_resistive_write E s =
     (let c = e_cell E; scheme = writeScheme (e_ip E);
          row = writeLatency (sub_rowDecoder s);
          l = cMAX row (columnDecoderLatency s + chargeLatency s);
          longer = s\<lparr>writeLatency := l + cMAX (resetPulse c) (setPulse c),
                     resetLatency := l + resetPulse c, setLatency := l + setPulse c\<rparr>
      in if memCellType c = PCRAM then (if scheme = write_and_verify then s else longer)
         else if memCellType c = FBRAM then longer
         else if accessType c = diode_access \<or> accessType c = none_access then
           let l = (if scheme = erase_before_reset \<or> scheme = erase_before_set
                    then cMAX row (chargeLatency s) else l)
           in s\<lparr>writeLatency := l + chargeLatency s + (resetPulse c + setPulse c)\<rparr>
         else longer)"

definition sub_latency_resistive :: "Env \<Rightarrow> dbl \<Rightarrow> SubArray \<Rightarrow> SubArray" where
  "sub_latency_resistive E decoderLatency s =
     (let (s, bitlineRamp) = sub_resistive_delay E s;
          s = sub_output_chain E bitlineRamp s
      in sub_resistive_write E (s\<lparr>readLatency := sub_read_latency decoderLatency s\<rparr>))"

definition sub_latency_NAND :: "Env \<Rightarrow> dbl \<Rightarrow> SubArray \<Rightarrow> SubArray res" where
  "sub_latency_NAND E decoderLatency s =
     (let T = e_tech E; c = e_cell E; F = featureSize T in
      ebind (page_count (e_ip E)) (\<lambda>pages.
      ebind (CalculateOnResistance F NMOS (e_temperature E) T) (\<lambda>r.
      let resPullDown = r * i2d (pages + 2);
          v = sub_voltagePrecharge s;
          tau = bitline_tau s resPullDown * dlog (v / (v - sub_senseVoltage s));
          gm = CalculateTransconductance F NMOS T;
          (delay, bitlineRamp) = horowitz tau (1 / (resPullDown * gm)) (rd_rampOutput (sub_rowDecoder s));
          s = sub_output_chain E bitlineRamp (s\<lparr>bitlineDelay := cMAX delay (tau * 20)\<rparr>);
          l = cMAX (readLatency (sub_rowDecoder s)) (columnDecoderLatency s + chargeLatency s)
      in Inr (s\<lparr>readLatency := sub_read_latency decoderLatency s,
                resetLatency := l + flashEraseTime c, setLatency := l + flashProgramTime c,
                writeLatency := l + flashProgramTime c\<rparr>))))"

definition SubArray_CalculateLatency :: "Env \<Rightarrow> dbl \<Rightarrow> SubArray \<Rightarrow> SubArray res" where
  "SubArray_CalculateLatency E ramp s =
     (if \<not> sub_initialized s then Inr s
      else if sub_invalid s
      then Inr (s\<lparr>readLatency := invalid_value, writeLatency := invalid_value\<rparr>)
      else
        ebind (sub_decoder_latency E ramp s) (\<lambda>s.
        let c = e_cell E;
            decoderLatency = cMAX (readLatency (sub_rowDecoder s)) (columnDecoderLatency s);
            s = s\<lparr>chargeLatency := sub_charge_latency s\<rparr>
        in if memCellType c = SRAM then sub_latency_SRAM E decoderLatency s
           else if dram_cell c then Inr (sub_latency_DRAM E decoderLatency s)
           else if resistive_cell c \<or> memCellType c = FBRAM
           then Inr (sub_latency_resistive E decoderLatency s)
           else if memCellType c = SLCNAND then sub_latency_NAND E decoderLatency s
           else Inr s))"

subsection \<open>CalculatePower\<close>

definition sub_power_parts :: "Env \<Rightarrow> SubArray \<Rightarrow> SubArray res" where
  "sub_power_parts E s =
     (let T = e_tech E; ip = e_ip E; c = e_cell E in
      ebind (Precharger_CalculatePower T ip (sub_precharger s)) (\<lambda>pc.
      ebind (RowDecoder_CalculatePower T ip c (sub_rowDecoder s)) (\<lambda>rd.
      ebind (RowDecoder_CalculatePower T ip c (bitlineMuxDecoder s)) (\<lambda>d0.
      ebind (RowDecoder_CalculatePower T ip c (senseAmpMuxLev1Decoder s)) (\<lambda>d1.
      ebind (RowDecoder_CalculatePower T ip c (senseAmpMuxLev2Decoder s)) (\<lambda>d2.
      ebind (if sub_internalSenseAmp s then SenseAmp_CalculatePower T ip (sub_senseAmp s)
             else Inr (sub_senseAmp s)) (\<lambda>sa.
        Inr (s\<lparr>sub_precharger := pc, sub_rowDecoder := rd, bitlineMuxDecoder := d0,
               senseAmpMuxLev1Decoder := d1, senseAmpMuxLev2Decoder := d2, sub_senseAmp := sa,
               bitlineMux := Mux_CalculatePower T (bitlineMux s),
               senseAmpMuxLev1 := Mux_CalculatePower T (senseAmpMuxLev1 s),
               senseAmpMuxLev2 := Mux_CalculatePower T (senseAmpMuxLev2 s)\<rparr>))))))))"

text \<open>The capacitance of a bitline with the access to a cell and the multiplexer.\<close>

definition bitline_cap :: "SubArray \<Rightarrow> dbl" where
  "bitline_cap s = capCellAccess s + capBitline s + capForPreviousPowerCalculation (bitlineMux s)"

text \<open>The double \<open>x\<close> per bitline divided over the multiplexers.\<close>

definition per_output :: "SubArray \<Rightarrow> dbl \<Rightarrow> dbl" where
  "per_output s x = x * i2d (sub_numColumn s) / i2d (sub_muxSenseAmp s)
     / i2d (sub_muxOutputLev1 s) / i2d (sub_muxOutputLev2 s)"

definition sub_power_SRAM :: "Env \<Rightarrow> SubArray \<Rightarrow> SubArray res" where
  "sub_power_SRAM E s =
     (let T = e_tech E; c = e_cell E; F = featureSize T; t = e_temperature E;
          v = sub_voltagePrecharge s
      in ebind (CalculateGateLeakage INV 1 (widthSRAMCellNMOS c * F) (widthSRAMCellPMOS c * F) t T) (\<lambda>l1.
         ebind (CalculateGateLeakage INV 1 (widthAccessCMOS c * F) 0 t T) (\<lambda>l2.
           Inr (s\<lparr>readDynamicEnergy := bitline_cap s * v * v * i2d (sub_numColumn s),
                  writeDynamicEnergy := per_output s (bitline_cap s * v * v),
                  leakage := (l1 * vdd T * 2 + l2 * vdd T)
                               * i2d (sub_numRow s * sub_numColumn s)\<rparr>))))"

definition sub_power_DRAM :: "Env \<Rightarrow> SubArray \<Rightarrow> SubArray" where
  "sub_power_DRAM E s =
     (let cols = i2d (sub_numColumn s); writeVoltage = resetVoltage (e_cell E);
          e = bitline_cap s * sub_senseVoltage s * vdd (e_devtech E) * cols
      in s\<lparr>readDynamicEnergy := e, refreshDynamicEnergy := e,
           writeDynamicEnergy := (capBitline s + capForPreviousPowerCalculation (bitlineMux s))
             * writeVoltage * writeVoltage * cols,
           leakage := e / DRAM_REFRESH_PERIOD * i2d (sub_numRow s)\<rparr>)"

text \<open>The energy of the bitlines during a read of a resistive cell.\<close>

definition sub_resistive_read :: "Env \<Rightarrow> SubArray \<Rightarrow> dbl" where
  "sub_resistive_read E s =
     (let c = e_cell E; cols = i2d (sub_numColumn s); cm = capForPreviousPowerCalculation (bitlineMux s)
      in if \<not> readMode c then
           let rm = resNMOSPassTransistor (bitlineMux s);
               vmin = readVoltage c * rm / (rm + resBitline s + resMemCellOn s);
               vmax = readVoltage c * (rm + resBitline s) / (rm + resBitline s + resMemCellOn s)
           in (capCellAccess s * vmax * vmax + cm * vmin * vmin
                 + capBitline s * (vmax * vmax + vmin * vmin + vmax * vmin) / 3) * cols
         else
           bitline_cap s * (sub_voltagePrecharge s * sub_voltagePrecharge s
                              - voltageMemCellOn s * voltageMemCellOn s) * cols)"

text \<open>
  The energies of the cells.  The write energy per bit is stored in the global cell.  Write-and-verify
  programming of a PCRAM is not implemented: the energies stay as they are.
\<close>

definition sub_cell_write :: "Env \<Rightarrow> dbl \<Rightarrow> dbl \<Rightarrow> SubArray \<Rightarrow> SubArray" where
  "sub_cell_write E resetPerBit setPerBit s =
     (let c = e_cell E; scheme = writeScheme (e_ip E);
          r = per_output s resetPerBit; w = per_output s setPerBit;
          conservative = SHAPER_EFFICIENCY_CONSERVATIVE; aggressive = SHAPER_EFFICIENCY_AGGRESSIVE
      in if memCellType c = PCRAM then
           if scheme = write_and_verify then s
           else s\<lparr>cellResetEnergy := r / conservative, cellSetEnergy := w / conservative,
                  writeDynamicEnergy := cMAX (r / conservative) (w / conservative)\<rparr>
         else if memCellType c = FBRAM then
           s\<lparr>cellResetEnergy := r / aggressive, cellSetEnergy := w / aggressive,
             writeDynamicEnergy := cMAX (r / aggressive) (w / aggressive)\<rparr>
         else
           let e = (if (accessType c = diode_access \<or> accessType c = none_access)
                         \<and> (scheme = erase_before_reset \<or> scheme = erase_before_set)
                    then r + w else cMAX r w)
           in s\<lparr>cellResetEnergy := r / aggressive, cellSetEnergy := w / aggressive,
                writeDynamicEnergy := e / aggressive\<rparr>)"

definition sub_power_resistive :: "Env \<Rightarrow> SubArray \<Rightarrow> (Env \<times> SubArray) res" where
  "sub_power_resistive E s =
     (let T = e_tech E; c = e_cell E; cap = bitline_cap s;
          readPowerOf = (if readPower c = 0 then MemCell_CalculateReadPower T c else readPower c)
      in ebind (cdiv (sub_numColumn s) (sub_muxSenseAmp s)) (\<lambda>n.
         ebind (cdiv n (sub_muxOutputLev1 s)) (\<lambda>n. ebind (cdiv n (sub_muxOutputLev2 s)) (\<lambda>n.
         let s = s\<lparr>readDynamicEnergy := sub_resistive_read E s,
                   cellReadEnergy := 2 * readPowerOf * readLatency (sub_senseAmp s) * i2d n\<rparr>;
             c = MemCell_CalculateWriteEnergy T c;
             setPerBit = setEnergy c + (if setMode c then cap * setVoltage c * setVoltage c
                                        else cap * vdd T * vdd T);
             resetPerBit = resetEnergy c + (if resetMode c then cap * resetVoltage c * resetVoltage c
                                            else cap * vdd T * vdd T);
             s = sub_cell_write E resetPerBit setPerBit s
         in Inr (E\<lparr>e_cell := c\<rparr>, s\<lparr>leakage := 0\<rparr>)))))"

text \<open>
  In a NAND flash a read charges the unselected wordlines of the block to the pass voltage, a set
  (programming) also the selected one to the program voltage, and a reset (erase) all of them to a
  part of the erase voltage.  The three energies of the row decoder are corrected accordingly.
\<close>

definition sub_power_NAND :: "Env \<Rightarrow> SubArray \<Rightarrow> SubArray res" where
  "sub_power_NAND E s =
     (let T = e_tech E; c = e_cell E; ip = e_ip E; F = featureSize T; v = sub_voltagePrecharge s;
          rd = sub_rowDecoder s; cols = i2d (sub_numColumn s);
          pass = flashPassVoltage c; prog = flashProgramVoltage c; erase = flashEraseVoltage c
      in ebind (page_count ip) (\<lambda>pages. ebind (cdiv (sub_numRow s) pages) (\<lambda>blocks.
         let str = pages + 2;
             e = readDynamicEnergy rd;
             perVolt = e / vdd T / vdd T;
             rowRead = perVolt * pass * pass * i2d (blocks * str - 1);
             rowSet = e + perVolt * pass * pass * i2d (blocks * str - 1) + perVolt * prog * prog;
             rowReset = perVolt * (erase * (8 / 10)) * (erase * (8 / 10)) * i2d (blocks * str - pages);
             setE = bitline_cap s * prog * prog * cols
                      + DELTA_V_TH * TUNNEL_CURRENT_FLOW * cell_area c * F * F * flashProgramTime c * cols;
             overdrive = erase - buildInPotential T;
             well = capJunction T * cell_area c * F * F * i2d (flashBlockSize ip);
             resetE = bitline_cap s * overdrive * overdrive * i2d (sub_numColumn s + 1) + well * erase * erase
         in Inr (s\<lparr>readDynamicEnergy := bitline_cap s * v * v * cols,
                   setDynamicEnergy := setE, resetDynamicEnergy := resetE,
                   writeDynamicEnergy := (setE + resetE / i2d pages) / 2,
                   leakage := 0,
                   sub_rowDecoder := rd\<lparr>readDynamicEnergy := rowRead, setDynamicEnergy := rowSet,
                     resetDynamicEnergy := rowReset,
                     writeDynamicEnergy := (rowSet + rowReset / i2d pages) / 2\<rparr>\<rparr>))))"

text \<open>In a cache that reads all the ways at once, one way of several is written.\<close>

definition sub_way_share :: "InputParameter \<Rightarrow> SubArray \<Rightarrow> SubArray" where
  "sub_way_share ip s =
     (if designTarget ip = cache \<and> cacheAccessMode ip \<noteq> sequential_access_mode then
        let ways = i2d (ip_associativity ip)
        in s\<lparr>cellResetEnergy := cellResetEnergy s / ways, cellSetEnergy := cellSetEnergy s / ways,
             writeDynamicEnergy := writeDynamicEnergy s / ways,
             resetDynamicEnergy := resetDynamicEnergy s / ways,
             setDynamicEnergy := setDynamicEnergy s / ways\<rparr>
      else s)"

definition sub_mux_write :: "SubArray \<Rightarrow> dbl" where
  "sub_mux_write s = writeDynamicEnergy (bitlineMux s) + writeDynamicEnergy (sub_senseAmp s)
     + writeDynamicEnergy (senseAmpMuxLev1 s) + writeDynamicEnergy (senseAmpMuxLev2 s)"

definition sub_column_write :: "SubArray \<Rightarrow> dbl" where
  "sub_column_write s = writeDynamicEnergy (bitlineMuxDecoder s)
     + writeDynamicEnergy (senseAmpMuxLev1Decoder s) + writeDynamicEnergy (senseAmpMuxLev2Decoder s)
     + sub_mux_write s"

text \<open>The sums over the parts.  The reset energy includes the whole of the set energy.\<close>

definition sub_power_sums :: "MemCell \<Rightarrow> SubArray \<Rightarrow> SubArray" where
  "sub_power_sums c s =
     (let rd = sub_rowDecoder s; d0 = bitlineMuxDecoder s; d1 = senseAmpMuxLev1Decoder s;
          d2 = senseAmpMuxLev2Decoder s; pc = sub_precharger s; bm = bitlineMux s;
          sa = sub_senseAmp s; m1 = senseAmpMuxLev1 s; m2 = senseAmpMuxLev2 s;
          readE = readDynamicEnergy s + (cellReadEnergy s + readDynamicEnergy rd + readDynamicEnergy d0
                    + readDynamicEnergy d1 + readDynamicEnergy d2 + readDynamicEnergy pc
                    + readDynamicEnergy bm + readDynamicEnergy sa + readDynamicEnergy m1
                    + readDynamicEnergy m2);
          writeE = writeDynamicEnergy s + (writeDynamicEnergy rd + sub_column_write s);
          refreshE = (refreshDynamicEnergy s + (readDynamicEnergy rd + readDynamicEnergy pc
                        + readDynamicEnergy sa)) * i2d (sub_numRow s);
          setE = setDynamicEnergy s + (cellSetEnergy s + setDynamicEnergy rd + sub_column_write s);
          resetE = resetDynamicEnergy s + (setE + resetDynamicEnergy rd + sub_column_write s);
          writeE = (if accessType c = diode_access \<or> accessType c = none_access
                    then writeE + sub_mux_write s else writeE);
          leak = leakage s + (leakage rd + leakage d0 + leakage d1 + leakage d2 + leakage pc
                   + leakage bm + leakage sa + leakage m1 + leakage m2)
      in s\<lparr>readDynamicEnergy := readE, writeDynamicEnergy := writeE, refreshDynamicEnergy := refreshE,
           setDynamicEnergy := setE, resetDynamicEnergy := resetE, leakage := leak\<rparr>)"

text \<open>The energies of the cells and the bitlines of the kind of memory, with the changed global cell.\<close>

definition sub_power_cells :: "Env \<Rightarrow> SubArray \<Rightarrow> (Env \<times> SubArray) res" where
  "sub_power_cells E s =
     (let c = e_cell E; same = (\<lambda>m. ebind m (\<lambda>s. Inr (E, s))) in
      if memCellType c = SRAM then same (sub_power_SRAM E s)
      else if dram_cell c then Inr (E, sub_power_DRAM E s)
      else if resistive_cell c \<or> memCellType c = FBRAM then sub_power_resistive E s
      else if memCellType c = SLCNAND then same (sub_power_NAND E s)
      else Inr (E, s))"

definition SubArray_CalculatePower :: "Env \<Rightarrow> SubArray \<Rightarrow> (Env \<times> SubArray) res" where
  "SubArray_CalculatePower E s =
     (if \<not> sub_initialized s then Inr (E, s)
      else if sub_invalid s
      then Inr (E, s\<lparr>readDynamicEnergy := invalid_value, writeDynamicEnergy := invalid_value,
                     leakage := invalid_value\<rparr>)
      else
        ebind (sub_power_parts E s) (\<lambda>s.
        ebind (sub_power_cells E s) (\<lambda>(E, s).
          Inr (E, sub_power_sums (e_cell E) (sub_way_share (e_ip E) s)))))"

subsection \<open>Assignment\<close>

text \<open>The operator copies neither \<open>invalid\<close> nor the precharge and the cell voltages.\<close>

definition SubArray_assign :: "SubArray \<Rightarrow> SubArray \<Rightarrow> SubArray" where
  "SubArray_assign lhs rhs = (FunctionUnit_copy lhs rhs)\<lparr>
     refreshLatency := refreshLatency rhs, refreshDynamicEnergy := refreshDynamicEnergy rhs,
     sub_initialized := sub_initialized rhs, sub_numRow := sub_numRow rhs,
     sub_numColumn := sub_numColumn rhs, sub_multipleRowPerSet := sub_multipleRowPerSet rhs,
     sub_split := sub_split rhs, sub_muxSenseAmp := sub_muxSenseAmp rhs,
     sub_internalSenseAmp := sub_internalSenseAmp rhs, sub_muxOutputLev1 := sub_muxOutputLev1 rhs,
     sub_muxOutputLev2 := sub_muxOutputLev2 rhs,
     sub_areaOptimizationLevel := sub_areaOptimizationLevel rhs, num3DLevels := num3DLevels rhs,
     voltageSense := voltageSense rhs, sub_senseVoltage := sub_senseVoltage rhs,
     numSenseAmp := numSenseAmp rhs, lenWordline := lenWordline rhs, lenBitline := lenBitline rhs,
     capWordline := capWordline rhs, capBitline := capBitline rhs,
     resWordline := resWordline rhs, resBitline := resBitline rhs,
     resCellAccess := resCellAccess rhs, capCellAccess := capCellAccess rhs,
     bitlineDelay := bitlineDelay rhs, chargeLatency := chargeLatency rhs,
     columnDecoderLatency := columnDecoderLatency rhs, bitlineDelayOn := bitlineDelayOn rhs,
     bitlineDelayOff := bitlineDelayOff rhs,
     resInSerialForSenseAmp := resInSerialForSenseAmp rhs,
     resEquivalentOn := resEquivalentOn rhs, resEquivalentOff := resEquivalentOff rhs,
     resMemCellOff := resMemCellOff rhs, resMemCellOn := resMemCellOn rhs,
     sub_rowDecoder := RowDecoder_assign (sub_rowDecoder lhs) (sub_rowDecoder rhs),
     bitlineMuxDecoder := RowDecoder_assign (bitlineMuxDecoder lhs) (bitlineMuxDecoder rhs),
     bitlineMux := Mux_assign (bitlineMux lhs) (bitlineMux rhs),
     senseAmpMuxLev1Decoder := RowDecoder_assign (senseAmpMuxLev1Decoder lhs) (senseAmpMuxLev1Decoder rhs),
     senseAmpMuxLev1 := Mux_assign (senseAmpMuxLev1 lhs) (senseAmpMuxLev1 rhs),
     senseAmpMuxLev2Decoder := RowDecoder_assign (senseAmpMuxLev2Decoder lhs) (senseAmpMuxLev2Decoder rhs),
     senseAmpMuxLev2 := Mux_assign (senseAmpMuxLev2 lhs) (senseAmpMuxLev2 rhs),
     sub_precharger := Precharger_assign (sub_precharger lhs) (sub_precharger rhs),
     sub_senseAmp := SenseAmp_assign (sub_senseAmp lhs) (sub_senseAmp rhs)\<rparr>"

end
