(* ===== verification/Mat.thy ===== *)
theory Mat
  imports SubArray
begin

text \<open>
  A mat (\<open>Mat.cpp\<close>): a grid of equal subarrays with the four pairs of predecoder blocks, the
  comparators of a tag array and, in a stack of dies, the TSVs of the predecoder outputs.
\<close>

record Mat = FunctionUnit +
  mat_initialized :: bool
  mat_invalid :: bool
  mat_internalSenseAmp :: bool
  mat_numRowSubarray :: int
  mat_numColumnSubarray :: int
  mat_numAddressBit :: int
  mat_numDataBit :: int
  mat_numWay :: int
  mat_numRowPerSet :: int
  mat_split :: bool
  mat_numActiveSubarrayPerRow :: int
  mat_numActiveSubarrayPerColumn :: int
  mat_muxSenseAmp :: int
  mat_muxOutputLev1 :: int
  mat_muxOutputLev2 :: int
  mat_areaOptimizationLevel :: BufferDesignTarget
  mat_memoryType :: MemoryType
  mat_stackedDieCount :: int
  mat_partitionGranularity :: int
  totalPredecoderOutputBits :: int
  predecoderLatency :: dbl
  areaAllLogicBlocks :: dbl
  mat_subarray :: SubArray
  rowPredecoderBlock1 :: PredecodeBlock
  rowPredecoderBlock2 :: PredecodeBlock
  bitlineMuxPredecoderBlock1 :: PredecodeBlock
  bitlineMuxPredecoderBlock2 :: PredecodeBlock
  senseAmpMuxLev1PredecoderBlock1 :: PredecodeBlock
  senseAmpMuxLev1PredecoderBlock2 :: PredecodeBlock
  senseAmpMuxLev2PredecoderBlock1 :: PredecodeBlock
  senseAmpMuxLev2PredecoderBlock2 :: PredecodeBlock
  mat_comparator :: Comparator
  mat_tsvArray :: TSV

text \<open>The eight predecoder blocks in the order of the code, and the mat with other blocks.\<close>

definition predecoders :: "Mat \<Rightarrow> PredecodeBlock list" where
  "predecoders m = [rowPredecoderBlock1 m, rowPredecoderBlock2 m, bitlineMuxPredecoderBlock1 m,
     bitlineMuxPredecoderBlock2 m, senseAmpMuxLev1PredecoderBlock1 m, senseAmpMuxLev1PredecoderBlock2 m,
     senseAmpMuxLev2PredecoderBlock1 m, senseAmpMuxLev2PredecoderBlock2 m]"

definition set_predecoders :: "PredecodeBlock list \<Rightarrow> Mat \<Rightarrow> Mat" where
  "set_predecoders ps m = m\<lparr>
     rowPredecoderBlock1 := ps ! 0, rowPredecoderBlock2 := ps ! 1,
     bitlineMuxPredecoderBlock1 := ps ! 2, bitlineMuxPredecoderBlock2 := ps ! 3,
     senseAmpMuxLev1PredecoderBlock1 := ps ! 4, senseAmpMuxLev1PredecoderBlock2 := ps ! 5,
     senseAmpMuxLev2PredecoderBlock1 := ps ! 6, senseAmpMuxLev2PredecoderBlock2 := ps ! 7\<rparr>"

fun emap :: "('a \<Rightarrow> 'b res) \<Rightarrow> 'a list \<Rightarrow> 'b list res" where
  "emap f [] = Inr []"
| "emap f (x # xs) = ebind (f x) (\<lambda>y. ebind (emap f xs) (\<lambda>ys. Inr (y # ys)))"

definition Mat_new :: "Mat \<Rightarrow> Mat" where
  "Mat_new raw = set_predecoders (map PredecodeBlock_new (predecoders raw))
     ((FunctionUnit_new raw)\<lparr>mat_initialized := False, mat_invalid := False,
        mat_subarray := SubArray_new (mat_subarray raw),
        mat_comparator := Comparator_new (mat_comparator raw),
        mat_tsvArray := TSV_new (mat_tsvArray raw)\<rparr>)"

subsection \<open>Initialize: the shape of the subarrays\<close>

definition mat_illegal :: "Mat \<Rightarrow> (Mat, 'a) early res" where
  "mat_illegal m = Inr (Return (m\<lparr>mat_invalid := True, mat_initialized := True\<rparr>))"

definition mux_degree :: "int \<Rightarrow> int \<Rightarrow> int \<Rightarrow> int res" where
  "mux_degree muxSA mux1 mux2 = ebind (imul muxSA mux1) (\<lambda>n. imul n mux2)"

text \<open>
  The address bits that are left behind the power gating of the inactive units, of which there are
  \<open>rows * columns / activePerColumn / activePerRow\<close>.
\<close>

definition gating_bits :: "int \<Rightarrow> int \<Rightarrow> int \<Rightarrow> int \<Rightarrow> int res" where
  "gating_bits rows columns activePerColumn activePerRow =
     ebind (imul rows columns) (\<lambda>n. ebind (cdiv n activePerColumn) (\<lambda>n. ebind (cdiv n activePerRow) (\<lambda>n.
       ilog2 (i2d n))))"

text \<open>The rows and the columns of a subarray; \<open>None\<close> where there would be none.\<close>

definition mat_rows :: "MemoryType \<Rightarrow> int \<Rightarrow> int \<Rightarrow> int \<Rightarrow> int option res" where
  "mat_rows mt addressBits numWay muxes =
     ebind (shl1 addressBits) (\<lambda>n.
     let n = (if mt = data then n * numWay else n) in
     ebind (cdiv n muxes) (\<lambda>n. Inr (if n = 0 then None else Some n)))"

definition mat_columns :: "MemoryType \<Rightarrow> int \<Rightarrow> int \<Rightarrow> int \<Rightarrow> int \<Rightarrow> int \<Rightarrow> int option res" where
  "mat_columns mt dataBits activePerRow activePerColumn numWay muxes =
     ebind (imul activePerRow activePerColumn) (\<lambda>a. ebind (cdiv dataBits a) (\<lambda>n.
       Inr (if n = 0 then None
            else Some (if mt = tag then n * muxes * numWay else n * muxes))))"

text \<open>The number of rows and columns of a subarray and the address bits it decodes.\<close>

definition mat_shape :: "Mat \<Rightarrow> (Mat, int \<times> int \<times> int \<times> int) early res" where
  "mat_shape m =
     ebind (gating_bits (mat_numRowSubarray m) (mat_numColumnSubarray m)
              (mat_numActiveSubarrayPerColumn m) (mat_numActiveSubarrayPerRow m)) (\<lambda>g.
     let bits = mat_numAddressBit m - g in
     if bits \<le> 0 then mat_illegal m
     else
       ebind (mux_degree (mat_muxSenseAmp m) (mat_muxOutputLev1 m) (mat_muxOutputLev2 m)) (\<lambda>muxes.
       ebind (mat_rows (mat_memoryType m) bits (mat_numWay m) muxes) (\<lambda>rows.
       case rows of None \<Rightarrow> mat_illegal m
       | Some numRow \<Rightarrow>
           ebind (mat_columns (mat_memoryType m) (mat_numDataBit m) (mat_numActiveSubarrayPerRow m)
                    (mat_numActiveSubarrayPerColumn m) (mat_numWay m) muxes) (\<lambda>cols.
           case cols of None \<Rightarrow> mat_illegal m
           | Some numColumn \<Rightarrow> Inr (Go (numRow, numColumn, bits, muxes))))))"

subsection \<open>Initialize: the predecoders\<close>

text \<open>More than three bits are split over two blocks.\<close>

definition split_bits :: "int \<Rightarrow> int \<times> int" where
  "split_bits n = (if 3 < n then (n - n sdiv 2, n sdiv 2) else (n, 0))"

definition mat_predecoder_bits :: "Mat \<Rightarrow> int \<Rightarrow> int \<Rightarrow> (Mat, int list) early res" where
  "mat_predecoder_bits m bits muxes =
     ebind (ilog2 (i2d muxes)) (\<lambda>k.
     if bits - k < 0 then mat_illegal m
     else
       ebind (ilog2 (i2d (mat_muxSenseAmp m))) (\<lambda>k0.
       ebind (ilog2 (i2d (mat_muxOutputLev1 m))) (\<lambda>k1.
       ebind (ilog2 (i2d (mat_muxOutputLev2 m))) (\<lambda>k2.
         let pair = (\<lambda>n. [fst (split_bits n), snd (split_bits n)])
         in Inr (Go (pair (bits - k) @ pair k0 @ pair k1 @ pair k2))))))"

definition output_bits :: "int list \<Rightarrow> int res" where
  "output_bits ns = efold (\<lambda>n t. ebind (shl1 n) (\<lambda>x. Inr (t + x))) ns 0"

text \<open>The wire load of a predecoder in the middle of the mat.\<close>

definition row_predecoder_load :: "Env \<Rightarrow> Mat \<Rightarrow> dbl" where
  "row_predecoder_load E m =
     (let k = capWirePerUnit (e_localWire E); s = mat_subarray m
      in height s * k * i2d (mat_numRowSubarray m) / 2 + width s * k * i2d (mat_numColumnSubarray m) / 2)"

definition mux_predecoder_load :: "Env \<Rightarrow> Mat \<Rightarrow> dbl" where
  "mux_predecoder_load E m =
     (let k = capWirePerUnit (e_localWire E); s = mat_subarray m
      in cMAX 0 (height s * k * i2d (mat_numRowSubarray m - 2) / 2)
           + cMAX 0 (width s * k * i2d (mat_numColumnSubarray m - 2) / 2))"

definition init_predecoders :: "Env \<Rightarrow> Mat \<Rightarrow> int list \<Rightarrow> PredecodeBlock list res" where
  "init_predecoders E m ns =
     (let loads = replicate 2 (row_predecoder_load E m) @ replicate 6 (mux_predecoder_load E m)
      in emap (\<lambda>(n, load, pb). PredecodeBlock_Initialize (e_tech E) (e_ip E) (e_rawRow E) (e_rawBasic E)
                 n load 0 pb) (zip ns (zip loads (predecoders m))))"

definition has_comparator :: "Mat \<Rightarrow> bool" where
  "has_comparator m \<longleftrightarrow> mat_memoryType m = tag \<and> mat_internalSenseAmp m"

definition has_tsv :: "Mat \<Rightarrow> bool" where
  "has_tsv m \<longleftrightarrow> 1 < mat_stackedDieCount m \<and> mat_partitionGranularity m \<noteq> 0"

definition mat_parts :: "Env \<Rightarrow> Mat \<Rightarrow> int list \<Rightarrow> Mat res" where
  "mat_parts E m ns =
     ebind (output_bits ns) (\<lambda>total.
     ebind (init_predecoders E m ns) (\<lambda>ps.
     let m = set_predecoders ps (m\<lparr>totalPredecoderOutputBits := total\<rparr>);
         m = (if has_comparator m
              then m\<lparr>mat_comparator := Comparator_Initialize (e_tech E) (wrap32 (mat_numDataBit m)) 0
                                         (mat_comparator m)\<rparr>
              else m)
     in if has_tsv m then
          ebind (TSV_Initialize (e_tech E) (WireTypeToTSVType (maxLocalWireType (e_ip E))) False
                   (mat_tsvArray m)) (\<lambda>v. Inr (m\<lparr>mat_tsvArray := v, mat_initialized := True\<rparr>))
        else Inr (m\<lparr>mat_initialized := True\<rparr>)))"

subsection \<open>Initialize\<close>

record MatArgs =
  ma_numRowSubarray :: int
  ma_numColumnSubarray :: int
  ma_numAddressBit :: int
  ma_numDataBit :: int
  ma_numWay :: int
  ma_numRowPerSet :: int
  ma_split :: bool
  ma_numActiveSubarrayPerRow :: int
  ma_numActiveSubarrayPerColumn :: int
  ma_muxSenseAmp :: int
  ma_internalSenseAmp :: bool
  ma_muxOutputLev1 :: int
  ma_muxOutputLev2 :: int
  ma_areaOptimizationLevel :: BufferDesignTarget
  ma_memoryType :: MemoryType
  ma_stackedDieCount :: int
  ma_partitionGranularity :: int
  ma_monolithicStackCount :: int

definition mat_params :: "MatArgs \<Rightarrow> Mat \<Rightarrow> Mat" where
  "mat_params a m = m\<lparr>mat_numRowSubarray := ma_numRowSubarray a,
     mat_numColumnSubarray := ma_numColumnSubarray a, mat_numAddressBit := ma_numAddressBit a,
     mat_numDataBit := ma_numDataBit a, mat_numWay := ma_numWay a,
     mat_numRowPerSet := ma_numRowPerSet a, mat_split := ma_split a,
     mat_internalSenseAmp := ma_internalSenseAmp a,
     mat_areaOptimizationLevel := ma_areaOptimizationLevel a, mat_memoryType := ma_memoryType a,
     mat_stackedDieCount := ma_stackedDieCount a,
     mat_partitionGranularity := ma_partitionGranularity a,
     mat_numActiveSubarrayPerRow := (if ma_numColumnSubarray a < ma_numActiveSubarrayPerRow a
                                     then ma_numColumnSubarray a else ma_numActiveSubarrayPerRow a),
     mat_numActiveSubarrayPerColumn := (if ma_numRowSubarray a < ma_numActiveSubarrayPerColumn a
                                        then ma_numRowSubarray a else ma_numActiveSubarrayPerColumn a),
     mat_muxSenseAmp := ma_muxSenseAmp a, mat_muxOutputLev1 := ma_muxOutputLev1 a,
     mat_muxOutputLev2 := ma_muxOutputLev2 a\<rparr>"

definition Mat_Initialize :: "Env \<Rightarrow> MatArgs \<Rightarrow> Mat \<Rightarrow> Mat res" where
  "Mat_Initialize E a m =
     (let m = mat_params a m in
      finish
       (fbind (mat_shape m) (\<lambda>(numRow, numColumn, bits, muxes).
        ebind (SubArray_Initialize E numRow numColumn (1 < mat_numRowPerSet m) True (mat_muxSenseAmp m)
                 (mat_internalSenseAmp m) (mat_muxOutputLev1 m) (mat_muxOutputLev2 m)
                 (mat_areaOptimizationLevel m) (ma_monolithicStackCount a) (mat_subarray m)) (\<lambda>s.
        let m = m\<lparr>mat_subarray := s\<rparr> in
        if sub_invalid s then mat_illegal m
        else
          ebind (SubArray_CalculateArea E s) (\<lambda>s.
          let m = m\<lparr>mat_subarray := s\<rparr> in
          fbind (mat_predecoder_bits m bits muxes) (\<lambda>ns.
          ebind (mat_parts E m ns) (\<lambda>m. Inr (Go m))))))))"

subsection \<open>CalculateArea and CalculateRC\<close>

definition total :: "(PredecodeBlock \<Rightarrow> dbl) \<Rightarrow> Mat \<Rightarrow> dbl" where
  "total f m = f (rowPredecoderBlock1 m) + f (rowPredecoderBlock2 m)
     + f (bitlineMuxPredecoderBlock1 m) + f (bitlineMuxPredecoderBlock2 m)
     + f (senseAmpMuxLev1PredecoderBlock1 m) + f (senseAmpMuxLev1PredecoderBlock2 m)
     + f (senseAmpMuxLev2PredecoderBlock1 m) + f (senseAmpMuxLev2PredecoderBlock2 m)"

definition update_predecoders :: "(PredecodeBlock \<Rightarrow> PredecodeBlock res) \<Rightarrow> Mat \<Rightarrow> Mat res" where
  "update_predecoders f m = ebind (emap f (predecoders m)) (\<lambda>ps. Inr (set_predecoders ps m))"

text \<open>
  The predecoders (or, in a fine-grained stack, their TSVs) extend the shorter side of the mat by
  the side of a square of their area.
\<close>

definition extend_shorter :: "dbl \<Rightarrow> Mat \<Rightarrow> Mat" where
  "extend_shorter a m = (if height m < width m then m\<lparr>width := width m + dsqrt a\<rparr>
                         else m\<lparr>height := height m + dsqrt a\<rparr>)"

definition mat_tsv_area :: "Env \<Rightarrow> Mat \<Rightarrow> Mat res" where
  "mat_tsv_area E m =
     ebind (TSV_CalculateArea (e_tech E) (e_ip E) (mat_tsvArray m)) (\<lambda>v.
     let bits = i2d (totalPredecoderOutputBits m); k = tsvRedundancy (e_ip E);
         areaTSV = area v * bits * k
     in ebind (d2i (bits * k + 1 / 10)) (\<lambda>n.
          Inr (extend_shorter areaTSV (m\<lparr>mat_tsvArray := v\<lparr>numTotalBits := n, numAccessBits := n\<rparr>\<rparr>))))"

definition mat_comparator_area :: "Env \<Rightarrow> Mat \<Rightarrow> Mat res" where
  "mat_comparator_area E m =
     (if has_comparator m then
        ebind (Comparator_CalculateArea (e_tech E) (mat_comparator m)) (\<lambda>c.
        let m = m\<lparr>mat_comparator := c, areaAllLogicBlocks := areaAllLogicBlocks m + area c\<rparr>
        in Inr (if mat_stackedDieCount m \<le> 1 \<or> mat_partitionGranularity m \<noteq> 1
                then m\<lparr>height := height m + i2d (mat_numWay m) * area c / width m\<rparr> else m))
      else Inr m)"

definition Mat_CalculateArea :: "Env \<Rightarrow> Mat \<Rightarrow> Mat res" where
  "Mat_CalculateArea E m =
     (if \<not> mat_initialized m then Inr m
      else if mat_invalid m
      then Inr (m\<lparr>height := invalid_value, width := invalid_value, area := invalid_value\<rparr>)
      else
        ebind (update_predecoders (PredecodeBlock_CalculateArea (e_tech E)) m) (\<lambda>m.
        let a = total area m; s = mat_subarray m;
            m = m\<lparr>width := width s * i2d (mat_numColumnSubarray m),
                  height := height s * i2d (mat_numRowSubarray m), areaAllLogicBlocks := a\<rparr>
        in ebind (if 1 < mat_stackedDieCount m \<and> mat_partitionGranularity m = 1
                  then mat_tsv_area E m else Inr (extend_shorter a m)) (\<lambda>m.
           ebind (mat_comparator_area E m) (\<lambda>m. Inr (m\<lparr>area := height m * width m\<rparr>)))))"

definition Mat_CalculateRC :: "Env \<Rightarrow> Mat \<Rightarrow> Mat res" where
  "Mat_CalculateRC E m =
     (if \<not> mat_initialized m \<or> mat_invalid m then Inr m
      else
        ebind (update_predecoders (PredecodeBlock_CalculateRC (e_tech E)) m) (\<lambda>m.
        if has_comparator m
        then ebind (Comparator_CalculateRC (e_tech E) (e_ip E) (mat_comparator m)) (\<lambda>c.
               Inr (m\<lparr>mat_comparator := c\<rparr>))
        else Inr m))"

subsection \<open>CalculateLatency\<close>

definition slower :: "PredecodeBlock \<Rightarrow> PredecodeBlock \<Rightarrow> dbl" where
  "slower p q = cMAX (readLatency p) (readLatency q)"

definition predecoder_latency :: "Mat \<Rightarrow> dbl" where
  "predecoder_latency m =
     cMAX (cMAX (slower (rowPredecoderBlock1 m) (rowPredecoderBlock2 m))
             (slower (bitlineMuxPredecoderBlock1 m) (bitlineMuxPredecoderBlock2 m)))
          (cMAX (slower (senseAmpMuxLev1PredecoderBlock1 m) (senseAmpMuxLev1PredecoderBlock2 m))
             (slower (senseAmpMuxLev2PredecoderBlock1 m) (senseAmpMuxLev2PredecoderBlock2 m)))"

text \<open>The predecoders, and in a stack the way of the address through the dies.\<close>

definition mat_decode_latency :: "Env \<Rightarrow> dbl \<Rightarrow> Mat \<Rightarrow> Mat res" where
  "mat_decode_latency E ramp m =
     ebind (update_predecoders (PredecodeBlock_CalculateLatency (e_tech E) (e_ip E) ramp) m) (\<lambda>m.
     let l = predecoder_latency m in
     if has_tsv m then
       ebind (TSV_CalculateLatencyAndPower (e_tech E) (e_ip E) (lit 1 20) infinite_ramp (mat_tsvArray m))
         (\<lambda>v. Inr (m\<lparr>mat_tsvArray := v,
                      predecoderLatency := l + i2d (mat_stackedDieCount m - 1) * writeLatency v\<rparr>))
     else Inr (m\<lparr>predecoderLatency := l\<rparr>))"

definition Mat_CalculateLatency :: "Env \<Rightarrow> dbl \<Rightarrow> Mat \<Rightarrow> Mat res" where
  "Mat_CalculateLatency E ramp m =
     (if \<not> mat_initialized m then Inr m
      else if mat_invalid m
      then Inr (m\<lparr>readLatency := invalid_value, writeLatency := invalid_value\<rparr>)
      else
        ebind (mat_decode_latency E ramp m) (\<lambda>m.
        ebind (SubArray_CalculateLatency E
                 (cMIN (pb_rampOutput (rowPredecoderBlock1 m)) (pb_rampOutput (rowPredecoderBlock2 m)))
                 (mat_subarray m)) (\<lambda>s.
        let p = predecoderLatency m;
            m = m\<lparr>mat_subarray := s, readLatency := p + readLatency s, writeLatency := p + writeLatency s,
                  resetLatency := p + resetLatency s, setLatency := p + setLatency s,
                  refreshLatency := (p + refreshLatency s) * i2d (mat_numColumnSubarray m)\<rparr>
        in if has_comparator m then
             ebind (Comparator_CalculateLatency (e_tech E) (e_ip E) ramp (mat_comparator m)) (\<lambda>c.
               Inr (m\<lparr>mat_comparator := c, readLatency := readLatency m + readLatency c\<rparr>))
           else Inr m)))"

subsection \<open>CalculatePower\<close>

text \<open>The energies of the predecoders and of the subarrays, active ones or all of them.\<close>

definition mat_sums :: "Mat \<Rightarrow> Mat" where
  "mat_sums m =
     (let s = mat_subarray m;
          active = (\<lambda>x. x * i2d (mat_numActiveSubarrayPerRow m) * i2d (mat_numActiveSubarrayPerColumn m));
          all = (\<lambda>x. x * i2d (mat_numRowSubarray m) * i2d (mat_numColumnSubarray m));
          writeE = total writeDynamicEnergy m;
          refresh = (readDynamicEnergy (rowPredecoderBlock1 m) + readDynamicEnergy (rowPredecoderBlock2 m))
                      * i2d (sub_numRow s * mat_numRowSubarray m)
      in m\<lparr>readDynamicEnergy := total readDynamicEnergy m + active (readDynamicEnergy s),
           refreshDynamicEnergy := refresh + all (refreshDynamicEnergy s),
           cellReadEnergy := active (cellReadEnergy s), cellSetEnergy := active (cellSetEnergy s),
           cellResetEnergy := active (cellResetEnergy s),
           resetDynamicEnergy := writeE + active (resetDynamicEnergy s),
           setDynamicEnergy := writeE + active (setDynamicEnergy s),
           writeDynamicEnergy := writeE + active (writeDynamicEnergy s),
           leakage := total leakage m + all (leakage s)\<rparr>)"

text \<open>
  The TSVs of the address.  The leakage counts \<open>numTotalBits\<close>, which the area sets for a fine-grained
  stack only.
\<close>

definition mat_tsv_power :: "Mat \<Rightarrow> Mat" where
  "mat_tsv_power m =
     (if has_tsv m then
        let v = mat_tsvArray m; dies = mat_stackedDieCount m - 1;
            n = i2d (dies * totalPredecoderOutputBits m)
        in m\<lparr>readDynamicEnergy := readDynamicEnergy m + n * readDynamicEnergy v,
             writeDynamicEnergy := writeDynamicEnergy m + n * writeDynamicEnergy v,
             resetDynamicEnergy := resetDynamicEnergy m + n * resetDynamicEnergy v,
             setDynamicEnergy := setDynamicEnergy m + n * setDynamicEnergy v,
             refreshDynamicEnergy := refreshDynamicEnergy m + n * readDynamicEnergy v,
             leakage := leakage m + i2d (numTotalBits v * dies) * leakage v\<rparr>
      else m)"

definition mat_comparator_power :: "Env \<Rightarrow> Mat \<Rightarrow> Mat res" where
  "mat_comparator_power E m =
     (if has_comparator m then
        ebind (Comparator_CalculatePower (e_tech E) (e_ip E) (mat_comparator m)) (\<lambda>c.
        let ways = i2d (mat_numWay m)
        in Inr (m\<lparr>mat_comparator := c,
                  readDynamicEnergy := readDynamicEnergy m + readDynamicEnergy c * ways,
                  writeDynamicEnergy := writeDynamicEnergy m + writeDynamicEnergy c * ways,
                  leakage := leakage m + leakage c * ways\<rparr>))
      else Inr m)"

definition Mat_CalculatePower :: "Env \<Rightarrow> Mat \<Rightarrow> (Env \<times> Mat) res" where
  "Mat_CalculatePower E m =
     (if \<not> mat_initialized m then Inr (E, m)
      else if mat_invalid m
      then Inr (E, m\<lparr>readDynamicEnergy := invalid_value, writeDynamicEnergy := invalid_value,
                     leakage := invalid_value\<rparr>)
      else
        ebind (update_predecoders (PredecodeBlock_CalculatePower (e_tech E) (e_ip E) (e_cell E)) m) (\<lambda>m.
        ebind (SubArray_CalculatePower E (mat_subarray m)) (\<lambda>(E, s).
        ebind (mat_comparator_power E (mat_tsv_power (mat_sums (m\<lparr>mat_subarray := s\<rparr>)))) (\<lambda>m.
          Inr (E, m)))))"

subsection \<open>Assignment\<close>

text \<open>
  The operator copies neither the stacking parameters nor \<open>totalPredecoderOutputBits\<close>, and the
  comparator only where it is used.
\<close>

definition Mat_assign :: "Mat \<Rightarrow> Mat \<Rightarrow> Mat" where
  "Mat_assign lhs rhs =
     set_predecoders (map2 PredecodeBlock_assign (predecoders lhs) (predecoders rhs))
       ((FunctionUnit_copy lhs rhs)\<lparr>
     refreshLatency := refreshLatency rhs, refreshDynamicEnergy := refreshDynamicEnergy rhs,
     mat_initialized := mat_initialized rhs, mat_invalid := mat_invalid rhs,
     mat_numRowSubarray := mat_numRowSubarray rhs,
     mat_numColumnSubarray := mat_numColumnSubarray rhs,
     mat_numAddressBit := mat_numAddressBit rhs, mat_numDataBit := mat_numDataBit rhs,
     mat_numWay := mat_numWay rhs, mat_numRowPerSet := mat_numRowPerSet rhs,
     mat_split := mat_split rhs, mat_internalSenseAmp := mat_internalSenseAmp rhs,
     mat_numActiveSubarrayPerRow := mat_numActiveSubarrayPerRow rhs,
     mat_numActiveSubarrayPerColumn := mat_numActiveSubarrayPerColumn rhs,
     mat_muxSenseAmp := mat_muxSenseAmp rhs, mat_muxOutputLev1 := mat_muxOutputLev1 rhs,
     mat_muxOutputLev2 := mat_muxOutputLev2 rhs,
     mat_areaOptimizationLevel := mat_areaOptimizationLevel rhs,
     mat_memoryType := mat_memoryType rhs, predecoderLatency := predecoderLatency rhs,
     areaAllLogicBlocks := areaAllLogicBlocks rhs,
     mat_subarray := SubArray_assign (mat_subarray lhs) (mat_subarray rhs),
     mat_comparator := (if has_comparator rhs
                        then Comparator_assign (mat_comparator lhs) (mat_comparator rhs)
                        else mat_comparator lhs),
     mat_tsvArray := TSV_assign (mat_tsvArray lhs) (mat_tsvArray rhs)\<rparr>)"

end
