(* ===== verification/BankParts.thy ===== *)
theory BankParts
  imports Bank Mat
begin

text \<open>
  What the two organisations of a bank have in common: the members that \<open>Initialize\<close> sets, the
  address bits of a bank, the multiplexers that several ways in a row need, and the TSVs between the
  dies.
\<close>

subsection \<open>The mat and the TSVs of a bank\<close>

text \<open>
  The other members of the class \<open>Bank\<close>.  Whoever changes the mat also updates the two fields that
  repeat the shape of its subarrays.
\<close>

record BankUnit = Bank +
  bank_mat :: Mat
  bank_tsvArray :: TSV

definition put_mat :: "Mat \<Rightarrow> 'a BankUnit_scheme \<Rightarrow> 'a BankUnit_scheme" where
  "put_mat m b = b\<lparr>bank_mat := m, mat_subarray_numRow := sub_numRow (mat_subarray m),
     mat_subarray_numColumn := sub_numColumn (mat_subarray m)\<rparr>"

definition BankUnit_new :: "'a BankUnit_scheme \<Rightarrow> 'a BankUnit_scheme" where
  "BankUnit_new raw = put_mat (Mat_new (bank_mat raw))
     ((FunctionUnit_new raw)\<lparr>bank_initialized := False, bank_invalid := False,
        bank_tsvArray := TSV_new (bank_tsvArray raw)\<rparr>)"

text \<open>\<open>Bank::operator=\<close> assigns the members of the base class, the mat and the TSVs.\<close>

definition BankUnit_assign :: "'a BankUnit_scheme \<Rightarrow> 'a BankUnit_scheme \<Rightarrow> 'a BankUnit_scheme" where
  "BankUnit_assign lhs rhs =
     Bank.extend (Bank_assign (Bank.truncate lhs) (Bank.truncate rhs))
       (Bank.more (lhs\<lparr>bank_mat := Mat_assign (bank_mat lhs) (bank_mat rhs),
                       bank_tsvArray := TSV_assign (bank_tsvArray lhs) (bank_tsvArray rhs)\<rparr>))"

subsection \<open>Initialize\<close>

text \<open>The numbers of active units are limited to the numbers of units.\<close>

definition bank_params :: "Env \<Rightarrow> BankArgs \<Rightarrow> 'a Bank_scheme \<Rightarrow> 'a Bank_scheme" where
  "bank_params E a b = (let d = ba_design a in b\<lparr>
     bank_numRowMat := numRowMat d, bank_numColumnMat := numColumnMat d,
     bank_capacity := ba_capacity a, bank_blockSize := ba_blockSize a,
     bank_associativity := ba_associativity a, bank_numRowPerSet := numRowPerSet d,
     bank_internalSenseAmp := internalSensing (e_ip E),
     bank_areaOptimizationLevel := areaOptimizationLevel d, bank_memoryType := ba_memoryType a,
     bank_stackedDieCount := stackedDieCount d, bank_partitionGranularity := ba_partitionGranularity a,
     bank_numActiveMatPerRow := (if numColumnMat d < numActiveMatPerRow d then numColumnMat d
                                 else numActiveMatPerRow d),
     bank_numActiveMatPerColumn := (if numRowMat d < numActiveMatPerColumn d then numRowMat d
                                    else numActiveMatPerColumn d),
     bank_muxSenseAmp := muxSenseAmp d, bank_muxOutputLev1 := muxOutputLev1 d,
     bank_muxOutputLev2 := muxOutputLev2 d,
     bank_numRowSubarray := numRowSubarray d, bank_numColumnSubarray := numColumnSubarray d,
     bank_numActiveSubarrayPerRow := (if numColumnSubarray d < numActiveSubarrayPerRow d
                                      then numColumnSubarray d else numActiveSubarrayPerRow d),
     bank_numActiveSubarrayPerColumn := (if numRowSubarray d < numActiveSubarrayPerColumn d
                                         then numRowSubarray d else numActiveSubarrayPerColumn d)\<rparr>)"

text \<open>The sets of a bank on one die, in address bits.\<close>

definition bank_address_bits :: "'a Bank_scheme \<Rightarrow> int res" where
  "bank_address_bits b =
     (let n = i2d (bank_capacity b) / i2d (bank_blockSize b) / i2d (bank_associativity b)
      in ilog2 (if 1 < bank_stackedDieCount b then n / i2d (bank_stackedDieCount b) else n))"

text \<open>\<open>(int)pow(2, n)\<close>\<close>

definition ipow2 :: "int \<Rightarrow> int res" where
  "ipow2 n = d2i (dpow 2 (i2d n))"

text \<open>
  The factors of the three levels of multiplexers that select one way of several in a row.  A DRAM
  has no multiplexer before the sense amplifier.
\<close>

definition extra_muxes :: "MemCell \<Rightarrow> int \<Rightarrow> (int \<times> int \<times> int) res" where
  "extra_muxes c ways =
     (if ways \<le> 1 then Inr (1, 1, 1)
      else if dram_cell c then
        ebind (ilog2 (i2d ways)) (\<lambda>k. ebind (ipow2 (k sdiv 2)) (\<lambda>lev2.
        ebind (cdiv ways lev2) (\<lambda>lev1. Inr (1, lev1, lev2))))
      else
        ebind (ilog2 (i2d ways)) (\<lambda>k. ebind (ipow2 (k sdiv 3)) (\<lambda>lev.
        ebind (cdiv ways lev) (\<lambda>n. ebind (cdiv n lev) (\<lambda>n. Inr (n, lev, lev))))))"

definition multiply_muxes :: "int \<times> int \<times> int \<Rightarrow> 'a Bank_scheme \<Rightarrow> 'a Bank_scheme res" where
  "multiply_muxes f b =
     ebind (imul (bank_muxSenseAmp b) (fst f)) (\<lambda>n. ebind (imul (bank_muxOutputLev1 b) (fst (snd f))) (\<lambda>n1.
     ebind (imul (bank_muxOutputLev2 b) (snd (snd f))) (\<lambda>n2.
       Inr (b\<lparr>bank_muxSenseAmp := n, bank_muxOutputLev1 := n1, bank_muxOutputLev2 := n2\<rparr>))))"

definition bank_illegal :: "'a Bank_scheme \<Rightarrow> ('a Bank_scheme, 'b) early res" where
  "bank_illegal b = Inr (Return (b\<lparr>bank_invalid := True, bank_initialized := True\<rparr>))"

text \<open>The mat that a bank gives \<open>addressBits\<close> and \<open>dataBits\<close> to.\<close>

definition mat_args :: "Env \<Rightarrow> 'a Bank_scheme \<Rightarrow> int \<Rightarrow> int \<Rightarrow> int \<Rightarrow> MatArgs res" where
  "mat_args E b addressBits dataBits numWay =
     ebind (enum_of buffer_targets (bank_areaOptimizationLevel b)) (\<lambda>level.
       Inr \<lparr>ma_numRowSubarray = bank_numRowSubarray b, ma_numColumnSubarray = bank_numColumnSubarray b,
            ma_numAddressBit = addressBits, ma_numDataBit = dataBits, ma_numWay = numWay,
            ma_numRowPerSet = bank_numRowPerSet b, ma_split = False,
            ma_numActiveSubarrayPerRow = bank_numActiveSubarrayPerRow b,
            ma_numActiveSubarrayPerColumn = bank_numActiveSubarrayPerColumn b,
            ma_muxSenseAmp = bank_muxSenseAmp b, ma_internalSenseAmp = bank_internalSenseAmp b,
            ma_muxOutputLev1 = bank_muxOutputLev1 b, ma_muxOutputLev2 = bank_muxOutputLev2 b,
            ma_areaOptimizationLevel = level, ma_memoryType = bank_memoryType b,
            ma_stackedDieCount = bank_stackedDieCount b,
            ma_partitionGranularity = bank_partitionGranularity b,
            ma_monolithicStackCount = ip_monolithicStackCount (e_ip E)\<rparr>)"

text \<open>
  The ways of a data array that share a row need more multiplexers; then the mat is initialized with
  its part of the address, its bits of a block and its ways.
\<close>

definition way_muxes :: "Env \<Rightarrow> int \<Rightarrow> 'a Bank_scheme \<Rightarrow> 'a Bank_scheme res" where
  "way_muxes E ways b =
     (if bank_memoryType b = data then
        ebind (cdiv ways (bank_numRowPerSet b)) (\<lambda>n. ebind (extra_muxes (e_cell E) n) (\<lambda>f. multiply_muxes f b))
      else Inr b)"

definition init_mat :: "Env \<Rightarrow> int \<times> int \<times> int \<Rightarrow> 'a BankUnit_scheme \<Rightarrow> 'a BankUnit_scheme res" where
  "init_mat E request b =
     (let (addressBits, dataBits, ways) = request in
      ebind (way_muxes E ways b) (\<lambda>b.
      ebind (mat_args E b addressBits dataBits ways) (\<lambda>args.
      ebind (Mat_Initialize E args (bank_mat b)) (\<lambda>m. Inr (put_mat m b)))))"

text \<open>After a successful initialization the members show the multiplexers of the design again.\<close>

definition restore_muxes :: "Design \<Rightarrow> 'a Bank_scheme \<Rightarrow> 'a Bank_scheme" where
  "restore_muxes d b = b\<lparr>bank_muxSenseAmp := muxSenseAmp d, bank_muxOutputLev1 := muxOutputLev1 d,
     bank_muxOutputLev2 := muxOutputLev2 d\<rparr>"

definition global_tsv_type :: "Env \<Rightarrow> TSV_type" where
  "global_tsv_type E = WireTypeToTSVType (maxGlobalWireType (e_ip E))"

subsection \<open>Wires\<close>

text \<open>
  How many wires share the width of a repeater, and the pitch they take on the silicon: none
  without repeaters.
\<close>

definition wire_sharing :: "Wire \<Rightarrow> (int \<times> dbl) res" where
  "wire_sharing w =
     (if wireRepeaterType w = repeated_none then Inr (1, 0)
      else ebind (d2i (dfloor (repeaterSpacing w / repeaterHeight w))) (\<lambda>n.
             Inr (n, repeatedWirePitch w)))"

text \<open>
  The global wire over a length: its latency, energy and leakage.  \<open>old\<close> is what the three variables
  contain before the call.  The wire keeps its sense amplifier, if it has one.
\<close>

definition global_wire :: "Env \<Rightarrow> dbl \<Rightarrow> dbl \<times> dbl \<times> dbl \<Rightarrow> (Env \<times> dbl \<times> dbl \<times> dbl) res" where
  "global_wire E len old =
     ebind (Wire_CalculateLatencyAndPower (e_tech E) (e_ip E) (e_cell E) (e_rawSense E) len old
              (e_globalWire E)) (\<lambda>(w, costs). Inr (E\<lparr>e_globalWire := w\<rparr>, costs))"

text \<open>The aspect ratio of a data bank is limited.\<close>

definition bad_aspect :: "MemoryType \<Rightarrow> 'a FunctionUnit_scheme \<Rightarrow> bool" where
  "bad_aspect mt b \<longleftrightarrow> mt = data
     \<and> (CONSTRAINT_ASPECT_RATIO_BANK < height b / width b \<or> CONSTRAINT_ASPECT_RATIO_BANK < width b / height b)"

definition reject_bank :: "'a Bank_scheme \<Rightarrow> 'a Bank_scheme" where
  "reject_bank b = b\<lparr>bank_invalid := True, height := invalid_value, width := invalid_value,
     area := invalid_value\<rparr>"

subsection \<open>The TSVs between the dies\<close>

text \<open>The bits for control and address, and a number of bits with the redundant ones.\<close>

definition tsv_control_bits :: "'a Bank_scheme \<Rightarrow> int res" where
  "tsv_control_bits b =
     ebind (bank_address_bits b) (\<lambda>n.
       Inr (bank_stackedDieCount b + (if bank_partitionGranularity b = 1 then 0 else n)))"

definition with_redundancy :: "Env \<Rightarrow> int \<Rightarrow> int res" where
  "with_redundancy E n = d2i (i2d n * tsvRedundancy (e_ip E))"

definition tsv_counts :: "Env \<Rightarrow> 'a Bank_scheme \<Rightarrow> TSV \<Rightarrow> TSV res" where
  "tsv_counts E b v =
     ebind (tsv_control_bits b) (\<lambda>n.
     ebind (with_redundancy E (n + wrap32 (bank_blockSize b * 2))) (\<lambda>all.
     ebind (with_redundancy E (n + bank_blockSize b)) (\<lambda>access.
       Inr (v\<lparr>numTotalBits := all, numAccessBits := access\<rparr>))))"

text \<open>The area of the TSVs adds to the area of the bank, not to its height or width.\<close>

definition bank_tsv_area :: "Env \<Rightarrow> 'a Bank_scheme \<Rightarrow> TSV \<Rightarrow> (TSV \<times> dbl) res" where
  "bank_tsv_area E b v =
     (if bank_stackedDieCount b \<le> 1 then Inr (v, 0)
      else
        ebind (TSV_CalculateArea (e_tech E) (e_ip E) v) (\<lambda>v.
        ebind (tsv_counts E b v) (\<lambda>v. Inr (v, i2d (numTotalBits v) * area v))))"

text \<open>The latency and the energy of the TSVs with the numbers of the bits of a read.\<close>

definition bank_tsv_power :: "Env \<Rightarrow> 'a Bank_scheme \<Rightarrow> TSV \<Rightarrow> TSV res" where
  "bank_tsv_power E b v =
     ebind (TSV_CalculateLatencyAndPower (e_tech E) (e_ip E) (lit 1 20) infinite_ramp v) (\<lambda>v.
     ebind (tsv_counts E b v) (\<lambda>v.
     ebind (tsv_control_bits b) (\<lambda>n. ebind (with_redundancy E n) (\<lambda>reads.
     ebind (with_redundancy E (bank_blockSize b)) (\<lambda>datas.
       Inr (v\<lparr>numReadBits := reads, numDataBits := datas\<rparr>))))))"

text \<open>What the dies and the TSVs between them add to the energies and to the leakage.\<close>

definition add_tsv_energy :: "TSV \<Rightarrow> 'a Bank_scheme \<Rightarrow> 'a Bank_scheme" where
  "add_tsv_energy v b =
     (let dies = bank_stackedDieCount b - 1; w = writeDynamicEnergy v;
          reads = i2d (numReadBits v * dies); access = i2d (numAccessBits v * dies)
      in b\<lparr>readDynamicEnergy := readDynamicEnergy b
             + (reads * w + i2d (numDataBits v) * readDynamicEnergy v * i2d dies),
           writeDynamicEnergy := writeDynamicEnergy b + access * w,
           resetDynamicEnergy := resetDynamicEnergy b + access * resetDynamicEnergy v,
           setDynamicEnergy := setDynamicEnergy b + access * setDynamicEnergy v,
           refreshDynamicEnergy := refreshDynamicEnergy b + reads * w,
           leakage := leakage b * i2d (bank_stackedDieCount b)
             + i2d (numTotalBits v * dies) * leakage v\<rparr>)"

text \<open>An eDRAM that cannot be refreshed within the retention time is rejected.\<close>

definition check_retention :: "Env \<Rightarrow> 'a Bank_scheme \<Rightarrow> 'a Bank_scheme" where
  "check_retention E b =
     (if memCellType (e_cell E) = eDRAM \<and> retentionTime (e_cell E) < refreshLatency b
      then b\<lparr>bank_invalid := True\<rparr> else b)"

text \<open>What a bank costs beyond the mats in it; the energies are compared with those of the active mats.\<close>

definition add_routing :: "Mat \<Rightarrow> 'a Bank_scheme \<Rightarrow> 'a Bank_scheme" where
  "add_routing m b =
     (let rest = (\<lambda>e x. e - x * i2d (bank_numActiveMatPerColumn b) * i2d (bank_numActiveMatPerRow b))
      in b\<lparr>routingReadLatency := readLatency b - readLatency m,
           routingWriteLatency := writeLatency b - writeLatency m,
           routingResetLatency := resetLatency b - resetLatency m,
           routingSetLatency := setLatency b - setLatency m,
           routingRefreshLatency := refreshLatency b - refreshLatency m,
           routingReadDynamicEnergy := rest (readDynamicEnergy b) (readDynamicEnergy m),
           routingWriteDynamicEnergy := rest (writeDynamicEnergy b) (writeDynamicEnergy m),
           routingResetDynamicEnergy := rest (resetDynamicEnergy b) (resetDynamicEnergy m),
           routingSetDynamicEnergy := rest (setDynamicEnergy b) (setDynamicEnergy m),
           routingRefreshDynamicEnergy := rest (refreshDynamicEnergy b) (refreshDynamicEnergy m),
           routingLeakage := leakage b - leakage m * i2d (bank_numColumnMat b) * i2d (bank_numRowMat b)\<rparr>)"

text \<open>The energies of a number of equal mats, the active ones or all of them.\<close>

definition active_mats :: "'a Bank_scheme \<Rightarrow> dbl \<Rightarrow> dbl" where
  "active_mats b x = x * i2d (bank_numActiveMatPerRow b) * i2d (bank_numActiveMatPerColumn b)"

definition all_mats :: "'a Bank_scheme \<Rightarrow> dbl \<Rightarrow> dbl" where
  "all_mats b x = x * i2d (bank_numRowMat b) * i2d (bank_numColumnMat b)"

definition cell_energies :: "Mat \<Rightarrow> 'a Bank_scheme \<Rightarrow> 'a Bank_scheme" where
  "cell_energies m b = b\<lparr>cellReadEnergy := active_mats b (cellReadEnergy m),
     cellSetEnergy := active_mats b (cellSetEnergy m),
     cellResetEnergy := active_mats b (cellResetEnergy m)\<rparr>"

end
