(* ===== verification/Htree.thy ===== *)
theory Htree
  imports BankParts
begin

text \<open>
  The routing of a bank with an H-tree (\<open>BankWithHtree::Initialize\<close>).  The mats are reached over
  alternating horizontal and vertical levels of wires.  On each level the code records how many
  address bits, distributed data bits and broadcast data bits are routed and how many wires there
  are; on the way down, a level halves either the data bits (while several mats in its direction are
  active) or the choice of mats, which takes one address bit.
\<close>

subsection \<open>The arrays of a direction\<close>

record Levels =
  lv_address :: "int option list"
  lv_distribute :: "int option list"
  lv_broadcast :: "int option list"
  lv_wire :: "int option list"
  lv_sum :: "int option list"
  lv_active :: "int option list"
  lv_length :: "dbl option list"

text \<open>Without levels the pointers stay null.\<close>

definition new_levels :: "int \<Rightarrow> Levels" where
  "new_levels n = (let xs = replicate (nat n) None in
     \<lparr>lv_address = xs, lv_distribute = xs, lv_broadcast = xs, lv_wire = xs, lv_sum = xs,
      lv_active = xs, lv_length = replicate (nat n) None\<rparr>)"

subsection \<open>The local variables of the routing\<close>

record Route =
  rt_h :: int
  rt_v :: int
  rt_rowToActive :: int
  rt_columnToActive :: int
  rt_address :: int
  rt_distribute :: int
  rt_broadcast :: int
  rt_hTemp :: int
  rt_vTemp :: int
  rt_H :: Levels
  rt_V :: Levels

text \<open>There are no data bits or no address bits left to route.\<close>

definition rt_stuck :: "Route \<Rightarrow> bool" where
  "rt_stuck r \<longleftrightarrow> rt_distribute r + rt_broadcast r = 0 \<or> rt_address r = 0"

text \<open>Record a level: its bits, the active wires, the wire tiers and the sum of the wires.\<close>

definition put_level :: "int \<Rightarrow> int \<Rightarrow> int \<Rightarrow> int \<Rightarrow> Route \<Rightarrow> Levels \<Rightarrow> Levels res" where
  "put_level i active wire tot r L =
     ebind (uset (lv_active L) i active) (\<lambda>a. ebind (uset (lv_address L) i (rt_address r)) (\<lambda>b.
     ebind (uset (lv_distribute L) i (rt_distribute r)) (\<lambda>c.
     ebind (uset (lv_broadcast L) i (rt_broadcast r)) (\<lambda>d.
     ebind (uset (lv_wire L) i wire) (\<lambda>e. ebind (uset (lv_sum L) i tot) (\<lambda>f.
       Inr (L\<lparr>lv_active := a, lv_address := b, lv_distribute := c, lv_broadcast := d,
              lv_wire := e, lv_sum := f\<rparr>)))))))"

text \<open>Halve the data or choose one half; the number is the factor of the active wires.\<close>

definition halve_columns :: "Route \<Rightarrow> Route \<times> int" where
  "halve_columns r =
     (if 1 < rt_columnToActive r
      then (r\<lparr>rt_distribute := rt_distribute r sdiv 2, rt_columnToActive := rt_columnToActive r sdiv 2\<rparr>, 2)
      else (r\<lparr>rt_address := rt_address r - 1\<rparr>, 1))"

definition halve_rows :: "Route \<Rightarrow> Route \<times> int" where
  "halve_rows r =
     (if 1 < rt_rowToActive r
      then (r\<lparr>rt_distribute := rt_distribute r sdiv 2, rt_rowToActive := rt_rowToActive r sdiv 2\<rparr>, 2)
      else (r\<lparr>rt_address := rt_address r - 1\<rparr>, 1))"

text \<open>The active wires and the sum of the wires of level \<open>i\<close>.\<close>

definition level_wires :: "Levels \<Rightarrow> int \<Rightarrow> (int \<times> int) res" where
  "level_wires L i = ebind (uget (lv_active L) i) (\<lambda>a. ebind (uget (lv_sum L) i) (\<lambda>s. Inr (a, s)))"

subsection \<open>The levels\<close>

text \<open>The first level is horizontal, where there is one.\<close>

definition route_first :: "Route \<Rightarrow> (Route, Route) early res" where
  "route_first r =
     (if \<not> 0 < rt_h r then Inr (Go r)
      else if rt_stuck r then Inr (Return r)
      else ebind (put_level 0 1 1 1 r (rt_H r)) (\<lambda>H.
             Inr (Go (r\<lparr>rt_H := H, rt_h := rt_h r - 1\<rparr>))))"

text \<open>\<open>while (h > v)\<close>: more horizontal levels are left than vertical ones.\<close>

definition wide_step :: "int \<Rightarrow> Route \<Rightarrow> (Route, Route) early res" where
  "wide_step lh r =
     (if rt_stuck r then Inr (Return r)
      else
        let i = lh - rt_h r; (r, k) = halve_columns r
        in ebind (level_wires (rt_H r) (i - 1)) (\<lambda>(a, s).
           ebind (imul k a) (\<lambda>a. ebind (imul 2 s) (\<lambda>s.
           ebind (put_level i a 1 s r (rt_H r)) (\<lambda>H.
             Inr (Go (r\<lparr>rt_H := H, rt_h := rt_h r - 1, rt_vTemp := rt_vTemp r * 2\<rparr>)))))))"

text \<open>\<open>while (v > h)\<close>: the first vertical level starts from one wire.\<close>

definition tall_step :: "int \<Rightarrow> Route \<Rightarrow> (Route, Route) early res" where
  "tall_step lv r =
     (if rt_stuck r then Inr (Return r)
      else
        let i = lv - rt_v r; (r, k) = halve_rows r
        in ebind (if rt_v r = lv then Inr (1, 1) else level_wires (rt_V r) (i - 1)) (\<lambda>(a, s).
           ebind (imul k a) (\<lambda>a. ebind (imul 2 s) (\<lambda>s.
           ebind (put_level i a 1 s r (rt_V r)) (\<lambda>V.
             Inr (Go (r\<lparr>rt_V := V, rt_v := rt_v r - 1, rt_hTemp := rt_hTemp r * 2\<rparr>)))))))"

text \<open>\<open>while (h > 0)\<close>: a horizontal and a vertical level.\<close>

definition both_horizontal :: "int \<Rightarrow> int \<Rightarrow> Route \<Rightarrow> (Route, Route) early res" where
  "both_horizontal lh lv r =
     (if rt_stuck r then Inr (Return r)
      else
        let i = lh - rt_h r; (r, k) = halve_columns r
        in ebind (if rt_v r = lv then level_wires (rt_H r) (i - 1)
                  else level_wires (rt_V r) (lv - rt_v r - 1)) (\<lambda>(a, s).
           ebind (imul k a) (\<lambda>a. ebind (imul 2 s) (\<lambda>s.
           ebind (put_level i a (rt_hTemp r) s r (rt_H r)) (\<lambda>H. Inr (Go (r\<lparr>rt_H := H\<rparr>)))))))"

definition both_vertical :: "int \<Rightarrow> int \<Rightarrow> Route \<Rightarrow> (Route, Route) early res" where
  "both_vertical lh lv r =
     (if rt_stuck r then Inr (Return r)
      else
        let (r, k) = halve_rows r
        in ebind (level_wires (rt_H r) (lh - rt_h r)) (\<lambda>(a, s).
           ebind (imul k a) (\<lambda>a. ebind (imul 2 s) (\<lambda>s.
           ebind (put_level (lv - rt_v r) a (if lh = 2 then rt_vTemp r else 2 * rt_vTemp r) s r (rt_V r))
             (\<lambda>V. Inr (Go (r\<lparr>rt_V := V, rt_h := rt_h r - 1, rt_v := rt_v r - 1,
                            rt_hTemp := rt_hTemp r * 2, rt_vTemp := rt_vTemp r * 2\<rparr>)))))))"

definition both_step :: "int \<Rightarrow> int \<Rightarrow> Route \<Rightarrow> (Route, Route) early res" where
  "both_step lh lv r = fbind (both_horizontal lh lv r) (both_vertical lh lv)"

text \<open>The last halving, behind the last level: its wires are those inside the mat.\<close>

definition route_last :: "int \<Rightarrow> Route \<Rightarrow> (Route, Route) early res" where
  "route_last lh r =
     (if rt_stuck r then Inr (Return r)
      else if 1 < rt_columnToActive r \<or> 0 < lh then Inr (Go (fst (halve_columns r)))
      else Inr (Go r))"

subsection \<open>The loops end\<close>

lemma halve_columns_counters [simp]:
  "rt_h (fst (halve_columns r)) = rt_h r" "rt_v (fst (halve_columns r)) = rt_v r"
  by (simp_all add: halve_columns_def)

lemma halve_rows_counters [simp]:
  "rt_h (fst (halve_rows r)) = rt_h r" "rt_v (fst (halve_rows r)) = rt_v r"
  by (simp_all add: halve_rows_def)

lemma wide_step_counters:
  "wide_step lh r = Inr (Go r') \<Longrightarrow> rt_h r' = rt_h r - 1 \<and> rt_v r' = rt_v r"
  by (auto simp: wide_step_def ebind_Inr Let_def split_beta split: if_splits)

lemma tall_step_counters:
  "tall_step lv r = Inr (Go r') \<Longrightarrow> rt_h r' = rt_h r \<and> rt_v r' = rt_v r - 1"
  by (auto simp: tall_step_def ebind_Inr Let_def split_beta split: if_splits)

lemma both_step_counters:
  "both_step lh lv r = Inr (Go r') \<Longrightarrow> rt_h r' = rt_h r - 1 \<and> rt_v r' = rt_v r - 1"
  by (auto simp: both_step_def fbind_Go both_horizontal_def both_vertical_def ebind_Inr Let_def split_beta
      split: if_splits)

function route_wide :: "int \<Rightarrow> Route \<Rightarrow> (Route, Route) early res" where
  "route_wide lh r = (if rt_v r < rt_h r then fbind (wide_step lh r) (route_wide lh) else Inr (Go r))"
  by pat_completeness auto

termination
  by (relation "measure (\<lambda>(_, r). nat (rt_h r - rt_v r))") (auto dest: wide_step_counters)

function route_tall :: "int \<Rightarrow> Route \<Rightarrow> (Route, Route) early res" where
  "route_tall lv r = (if rt_h r < rt_v r then fbind (tall_step lv r) (route_tall lv) else Inr (Go r))"
  by pat_completeness auto

termination
  by (relation "measure (\<lambda>(_, r). nat (rt_v r - rt_h r))") (auto dest: tall_step_counters)

function route_both :: "int \<Rightarrow> int \<Rightarrow> Route \<Rightarrow> (Route, Route) early res" where
  "route_both lh lv r = (if 0 < rt_h r then fbind (both_step lh lv r) (route_both lh lv) else Inr (Go r))"
  by pat_completeness auto

termination
  by (relation "measure (\<lambda>(_, _, r). nat (rt_h r))") (auto dest: both_step_counters)

declare route_wide.simps [simp del] route_tall.simps [simp del] route_both.simps [simp del]

definition route :: "int \<Rightarrow> int \<Rightarrow> Route \<Rightarrow> (Route, Route) early res" where
  "route lh lv r =
     fbind (route_first r) (\<lambda>r. fbind (route_wide lh r) (\<lambda>r. fbind (route_tall lv r) (\<lambda>r.
     fbind (route_both lh lv r) (route_last lh))))"

end
