(* ===== verification/Routing.thy ===== *)
theory Routing
  imports Htree
begin

text \<open>
  What the routing of an H-tree computes, in closed form.  A level is described by the numbers of
  horizontal and vertical halvings before it; all of its figures are functions of the two numbers.
  The lemmas show that the loops of the code record exactly these figures, in every element of the
  arrays, and that they never leave an array or read an element that has not been written.
\<close>

subsection \<open>Specification\<close>

text \<open>
  What is to be routed: \<open>2 ^ pl_rows\<close> rows and \<open>2 ^ pl_columns\<close> columns of mats are active; so many
  address bits, bits that are distributed over the active mats and bits that are broadcast.
\<close>

record Plan =
  pl_rows :: nat
  pl_columns :: nat
  pl_address :: int
  pl_distribute :: int
  pl_broadcast :: int

text \<open>How many of \<open>c\<close> horizontal and \<open>d\<close> vertical halvings halve the data.\<close>

definition halved :: "Plan \<Rightarrow> nat \<Rightarrow> nat \<Rightarrow> nat" where
  "halved p c d = min (pl_columns p) c + min (pl_rows p) d"

definition address_at :: "Plan \<Rightarrow> nat \<Rightarrow> nat \<Rightarrow> int" where
  "address_at p c d = pl_address p - int (c + d - halved p c d)"

definition distribute_at :: "Plan \<Rightarrow> nat \<Rightarrow> nat \<Rightarrow> int" where
  "distribute_at p c d = pl_distribute p div 2 ^ halved p c d"

text \<open>The halvings before the horizontal level \<open>x\<close> and the vertical level \<open>y\<close>, of \<open>m\<close> and \<open>n\<close> levels.\<close>

definition H_at :: "nat \<Rightarrow> nat \<Rightarrow> nat \<Rightarrow> nat \<times> nat" where
  "H_at m n x = (x, if x = 0 then 0 else n + x - m)"

definition V_at :: "nat \<Rightarrow> nat \<Rightarrow> nat \<Rightarrow> nat \<times> nat" where
  "V_at m n y = (m + y - n, Suc y)"

text \<open>The wire tiers: one per halving in the other direction, with an exception for two levels.\<close>

definition V_tiers :: "nat \<Rightarrow> nat \<Rightarrow> nat \<Rightarrow> int" where
  "V_tiers m n y = (let c = m + y - n in if m = 2 \<and> 0 < c then 2 ^ (c - 1) else 2 ^ c)"

text \<open>All that is recorded of a level.\<close>

type_synonym entry = "int option \<times> int option \<times> int option \<times> int option \<times> int option \<times> int option"

definition ent :: "Levels \<Rightarrow> nat \<Rightarrow> entry" where
  "ent L x = (lv_active L ! x, lv_address L ! x, lv_distribute L ! x, lv_broadcast L ! x,
     lv_wire L ! x, lv_sum L ! x)"

definition spec_entry :: "Plan \<Rightarrow> nat \<times> nat \<Rightarrow> int \<Rightarrow> entry" where
  "spec_entry p cd tiers = (Some (2 ^ halved p (fst cd) (snd cd)),
     Some (address_at p (fst cd) (snd cd)), Some (distribute_at p (fst cd) (snd cd)),
     Some (pl_broadcast p), Some tiers, Some (2 ^ (fst cd + snd cd)))"

definition levels_sized :: "nat \<Rightarrow> Levels \<Rightarrow> bool" where
  "levels_sized n L \<longleftrightarrow> length (lv_active L) = n \<and> length (lv_address L) = n \<and> length (lv_distribute L) = n
     \<and> length (lv_broadcast L) = n \<and> length (lv_wire L) = n \<and> length (lv_sum L) = n
     \<and> length (lv_length L) = n"

text \<open>The first \<open>c\<close> horizontal and the first \<open>d\<close> vertical levels are recorded as specified.\<close>

definition H_done :: "Plan \<Rightarrow> nat \<Rightarrow> nat \<Rightarrow> nat \<Rightarrow> Levels \<Rightarrow> bool" where
  "H_done p m n c L \<longleftrightarrow> levels_sized m L
     \<and> (\<forall>x<c. ent L x = spec_entry p (H_at m n x) (2 ^ snd (H_at m n x)))"

definition V_done :: "Plan \<Rightarrow> nat \<Rightarrow> nat \<Rightarrow> nat \<Rightarrow> Levels \<Rightarrow> bool" where
  "V_done p m n d L \<longleftrightarrow> levels_sized n L
     \<and> (\<forall>y<d. ent L y = spec_entry p (V_at m n y) (V_tiers m n y))"

text \<open>The state after \<open>c\<close> horizontal and \<open>d\<close> vertical halvings.\<close>

definition reached :: "Plan \<Rightarrow> nat \<Rightarrow> nat \<Rightarrow> Route \<Rightarrow> bool" where
  "reached p c d r \<longleftrightarrow> rt_columnToActive r = 2 ^ (pl_columns p - c) \<and> rt_rowToActive r = 2 ^ (pl_rows p - d)
     \<and> rt_address r = address_at p c d \<and> rt_distribute r = distribute_at p c d
     \<and> rt_broadcast r = pl_broadcast p"

text \<open>The invariant of the loops: \<open>c\<close> horizontal and \<open>d\<close> vertical levels are done.\<close>

definition routing :: "Plan \<Rightarrow> nat \<Rightarrow> nat \<Rightarrow> nat \<Rightarrow> nat \<Rightarrow> Route \<Rightarrow> bool" where
  "routing p m n c d r \<longleftrightarrow> c \<le> m \<and> d \<le> n \<and> rt_h r = int (m - c) \<and> rt_v r = int (n - d)
     \<and> reached p (c - 1) d r \<and> H_done p m n c (rt_H r) \<and> V_done p m n d (rt_V r)
     \<and> rt_hTemp r = 2 ^ d \<and> rt_vTemp r = 2 ^ (c - 1)"

definition route_start :: "Plan \<Rightarrow> nat \<Rightarrow> nat \<Rightarrow> Route" where
  "route_start p m n = \<lparr>rt_h = int m, rt_v = int n, rt_rowToActive = 2 ^ pl_rows p,
     rt_columnToActive = 2 ^ pl_columns p, rt_address = pl_address p,
     rt_distribute = pl_distribute p, rt_broadcast = pl_broadcast p, rt_hTemp = 1, rt_vTemp = 1,
     rt_H = new_levels (int m), rt_V = new_levels (int n)\<rparr>"

subsection \<open>Recording a level\<close>

lemma sized_new: "levels_sized n (new_levels (int n))"
  by (simp add: levels_sized_def new_levels_def Let_def)

lemma put_level_ok:
  assumes "levels_sized n L" "x < n"
  obtains L' where "put_level (int x) a w t r L = Inr L'" "levels_sized n L'"
    "\<And>y. ent L' y = (if y = x then (Some a, Some (rt_address r), Some (rt_distribute r),
       Some (rt_broadcast r), Some w, Some t) else ent L y)"
proof -
  let ?L = "L\<lparr>lv_active := (lv_active L)[x := Some a], lv_address := (lv_address L)[x := Some (rt_address r)],
    lv_distribute := (lv_distribute L)[x := Some (rt_distribute r)],
    lv_broadcast := (lv_broadcast L)[x := Some (rt_broadcast r)],
    lv_wire := (lv_wire L)[x := Some w], lv_sum := (lv_sum L)[x := Some t]\<rparr>"
  have put: "put_level (int x) a w t r L = Inr ?L"
    using assms by (simp add: put_level_def levels_sized_def uset_ok)
  have len: "levels_sized n ?L" using assms(1) by (simp add: levels_sized_def)
  have ent: "ent ?L y = (if y = x then (Some a, Some (rt_address r), Some (rt_distribute r),
       Some (rt_broadcast r), Some w, Some t) else ent L y)" for y
    using assms by (simp add: ent_def levels_sized_def nth_list_update)
  from put len ent show ?thesis by (rule that)
qed

lemma level_wires_ok:
  assumes "levels_sized n L" "x < n" "ent L x = spec_entry p (c, d) w"
  shows "level_wires L (int x) = Inr (2 ^ halved p c d, 2 ^ (c + d))"
  using assms by (simp add: level_wires_def uget_def levels_sized_def ent_def spec_entry_def)

subsection \<open>Halving\<close>

lemma halved_le: "halved p c d \<le> c + d"
  by (simp add: halved_def)

lemma half_power: "(1::int) < 2 ^ Suc j" "(2::int) ^ Suc j sdiv 2 = 2 ^ j"
proof -
  show "(1::int) < 2 ^ Suc j" by (rule one_less_power) simp_all
  show "(2::int) ^ Suc j sdiv 2 = 2 ^ j" by (simp add: signed_divide_int_def)
qed

lemma half_quotient: "0 \<le> n \<Longrightarrow> (n div 2 ^ k) sdiv 2 = n div (2::int) ^ Suc k"
  by (simp add: signed_divide_int_def sgn_if pos_imp_zdiv_nonneg_iff zdiv_zmult2_eq mult.commute [of 2])

text \<open>The state after a halving, and the factor of the active wires.\<close>

lemma halve_columns_ok:
  assumes "reached p c d r" "0 \<le> pl_distribute p"
  shows "reached p (Suc c) d (fst (halve_columns r))"
    and "snd (halve_columns r) * 2 ^ halved p c d = (2::int) ^ halved p (Suc c) d"
proof -
  have "reached p (Suc c) d (fst (halve_columns r))
    \<and> snd (halve_columns r) * 2 ^ halved p c d = (2::int) ^ halved p (Suc c) d"
  proof (cases "pl_columns p - c")
    case 0
    then have "halved p (Suc c) d = halved p c d" by (simp add: halved_def)
    then show ?thesis using assms(1) 0 halved_le [of p c d]
      by (simp add: halve_columns_def reached_def address_at_def distribute_at_def)
  next
    case (Suc j)
    then have "halved p (Suc c) d = Suc (halved p c d)" "pl_columns p - Suc c = j"
      by (simp_all add: halved_def)
    then show ?thesis using assms Suc half_power [of j]
      by (simp add: halve_columns_def reached_def address_at_def distribute_at_def half_quotient del: power_Suc)
         (simp add: power_Suc)
  qed
  then show "reached p (Suc c) d (fst (halve_columns r))"
    "snd (halve_columns r) * 2 ^ halved p c d = (2::int) ^ halved p (Suc c) d" by simp_all
qed

lemma halve_rows_ok:
  assumes "reached p c d r" "0 \<le> pl_distribute p"
  shows "reached p c (Suc d) (fst (halve_rows r))"
    and "snd (halve_rows r) * 2 ^ halved p c d = (2::int) ^ halved p c (Suc d)"
proof -
  have "reached p c (Suc d) (fst (halve_rows r))
    \<and> snd (halve_rows r) * 2 ^ halved p c d = (2::int) ^ halved p c (Suc d)"
  proof (cases "pl_rows p - d")
    case 0
    then have "halved p c (Suc d) = halved p c d" by (simp add: halved_def)
    then show ?thesis using assms(1) 0 halved_le [of p c d]
      by (simp add: halve_rows_def reached_def address_at_def distribute_at_def)
  next
    case (Suc j)
    then have "halved p c (Suc d) = Suc (halved p c d)" "pl_rows p - Suc d = j"
      by (simp_all add: halved_def)
    then show ?thesis using assms Suc half_power [of j]
      by (simp add: halve_rows_def reached_def address_at_def distribute_at_def half_quotient del: power_Suc)
         (simp add: power_Suc)
  qed
  then show "reached p c (Suc d) (fst (halve_rows r))"
    "snd (halve_rows r) * 2 ^ halved p c d = (2::int) ^ halved p c (Suc d)" by simp_all
qed

subsection \<open>The loops record the specified levels\<close>

text \<open>What a part of the routing gives: the state it should reach, or a state with nothing left to route.\<close>

definition stops :: "Plan \<Rightarrow> nat \<Rightarrow> nat \<Rightarrow> bool" where
  "stops p c d \<longleftrightarrow> distribute_at p c d + pl_broadcast p = 0 \<or> address_at p c d = 0"

lemma rt_stuck_iff: "reached p c d r \<Longrightarrow> rt_stuck r \<longleftrightarrow> stops p c d"
  by (simp add: rt_stuck_def reached_def stops_def)

definition gives :: "Plan \<Rightarrow> nat \<Rightarrow> nat \<Rightarrow> (Route \<Rightarrow> bool) \<Rightarrow> (Route, Route) early res \<Rightarrow> bool" where
  "gives p m n P x \<longleftrightarrow> (case x of Inl _ \<Rightarrow> False | Inr (Go r) \<Rightarrow> P r
     | Inr (Return _) \<Rightarrow> \<exists>c\<le>m. \<exists>d\<le>n. stops p c d)"

lemma gives_simps [simp]:
  "gives p m n P (Inr (Go r)) = P r"
  "gives p m n P (Inr (Return r)) = (\<exists>c\<le>m. \<exists>d\<le>n. stops p c d)"
  by (simp_all add: gives_def)

lemma gives_fbind:
  "gives p m n P x \<Longrightarrow> (\<And>r. P r \<Longrightarrow> gives p m n Q (f r)) \<Longrightarrow> gives p m n Q (fbind x f)"
  by (cases x rule: early_cases) (auto simp: gives_def)

lemma int_ok_power: "e \<le> 30 \<Longrightarrow> int_ok (2 ^ e)"
proof (rule int_ok_small)
  assume "e \<le> 30"
  then have "(2::int) ^ e \<le> 2 ^ 30" by (intro power_increasing) simp_all
  also have "\<dots> < 2147483648" by simp
  finally show "(2::int) ^ e < 2147483648" .
qed simp

lemma imul_power: "j < 30 \<Longrightarrow> imul 2 (2 ^ j) = Inr (2 ^ Suc j)"
  using int_ok_power [of "Suc j"] by (simp add: imul_def)

lemma imul_halved: "k * 2 ^ halved p c d = 2 ^ e \<Longrightarrow> e \<le> 30 \<Longrightarrow> imul k (2 ^ halved p c d) = Inr (2 ^ e)"
  using int_ok_power [of e] by (simp add: imul_def)

text \<open>Recording the next level, horizontal and vertical.\<close>

lemma spec_entry_reached:
  "reached p (fst cd) (snd cd) r \<Longrightarrow> spec_entry p cd t = (Some (2 ^ halved p (fst cd) (snd cd)),
     Some (rt_address r), Some (rt_distribute r), Some (rt_broadcast r), Some t,
     Some (2 ^ (fst cd + snd cd)))"
  by (simp add: spec_entry_def reached_def)

lemma put_entry:
  assumes "levels_sized n L" "x < n" "reached p (fst cd) (snd cd) r"
  obtains L' where "put_level (int x) (2 ^ halved p (fst cd) (snd cd)) t (2 ^ (fst cd + snd cd)) r L = Inr L'"
    "levels_sized n L'" "\<And>y. ent L' y = (if y = x then spec_entry p cd t else ent L y)"
proof -
  obtain L' where L': "put_level (int x) (2 ^ halved p (fst cd) (snd cd)) t (2 ^ (fst cd + snd cd)) r L = Inr L'"
    "levels_sized n L'" "\<And>y. ent L' y = (if y = x then (Some (2 ^ halved p (fst cd) (snd cd)),
       Some (rt_address r), Some (rt_distribute r), Some (rt_broadcast r), Some t,
       Some (2 ^ (fst cd + snd cd))) else ent L y)"
    using put_level_ok [OF assms(1,2)] by blast
  have "ent L' y = (if y = x then spec_entry p cd t else ent L y)" for y
    by (simp only: L'(3) spec_entry_reached [OF assms(3)])
  with L'(1,2) show ?thesis by (rule that)
qed

lemma H_done_put:
  assumes "H_done p m n c L" "c < m" "H_at m n c = (i, j)" "reached p i j r"
  obtains L' where "put_level (int c) (2 ^ halved p i j) (2 ^ j) (2 ^ (i + j)) r L = Inr L'"
    "H_done p m n (Suc c) L'"
proof -
  have "levels_sized m L" using assms(1) by (simp add: H_done_def)
  then obtain L' where L': "put_level (int c) (2 ^ halved p i j) (2 ^ j) (2 ^ (i + j)) r L = Inr L'"
    "levels_sized m L'" "\<And>y. ent L' y = (if y = c then spec_entry p (i, j) (2 ^ j) else ent L y)"
    using put_entry [of m L c p "(i, j)" r "2 ^ j"] assms(2,4) by auto
  have "ent L' x = spec_entry p (H_at m n x) (2 ^ snd (H_at m n x))" if "x < Suc c" for x
  proof (cases "x = c")
    case True
    then show ?thesis by (simp add: L'(3) assms(3))
  next
    case False
    then show ?thesis using that assms(1) by (simp add: L'(3) H_done_def)
  qed
  with L'(2) have "H_done p m n (Suc c) L'" by (simp add: H_done_def)
  with L'(1) show ?thesis by (rule that)
qed

lemma V_done_put:
  assumes "V_done p m n d L" "d < n" "V_at m n d = (i, j)" "reached p i j r" "t = V_tiers m n d"
  obtains L' where "put_level (int d) (2 ^ halved p i j) t (2 ^ (i + j)) r L = Inr L'"
    "V_done p m n (Suc d) L'"
proof -
  have "levels_sized n L" using assms(1) by (simp add: V_done_def)
  then obtain L' where L': "put_level (int d) (2 ^ halved p i j) t (2 ^ (i + j)) r L = Inr L'"
    "levels_sized n L'" "\<And>y. ent L' y = (if y = d then spec_entry p (i, j) t else ent L y)"
    using put_entry [of n L d p "(i, j)" r t] assms(2,4) by auto
  have "ent L' y = spec_entry p (V_at m n y) (V_tiers m n y)" if "y < Suc d" for y
  proof (cases "y = d")
    case True
    then show ?thesis by (simp add: L'(3) assms(3,5))
  next
    case False
    then show ?thesis using that assms(1) by (simp add: L'(3) V_done_def)
  qed
  with L'(2) have "V_done p m n (Suc d) L'" by (simp add: V_done_def)
  with L'(1) show ?thesis by (rule that)
qed

lemma reached_update [simp]:
  "reached p c d (r\<lparr>rt_H := L\<rparr>) = reached p c d r" "reached p c d (r\<lparr>rt_V := L\<rparr>) = reached p c d r"
  "reached p c d (r\<lparr>rt_h := i\<rparr>) = reached p c d r" "reached p c d (r\<lparr>rt_v := i\<rparr>) = reached p c d r"
  "reached p c d (r\<lparr>rt_hTemp := i\<rparr>) = reached p c d r"
  "reached p c d (r\<lparr>rt_vTemp := i\<rparr>) = reached p c d r"
  by (simp_all add: reached_def)

lemma H_done_wires:
  "H_done p m n c L \<Longrightarrow> x < c \<Longrightarrow> c \<le> m \<Longrightarrow> H_at m n x = (i, j)
     \<Longrightarrow> level_wires L (int x) = Inr (2 ^ halved p i j, 2 ^ (i + j))"
  by (rule level_wires_ok [of m _ _ _ _ _ "2 ^ j"]) (auto simp: H_done_def)

lemma V_done_wires:
  "V_done p m n d L \<Longrightarrow> y < d \<Longrightarrow> d \<le> n \<Longrightarrow> V_at m n y = (i, j)
     \<Longrightarrow> level_wires L (int y) = Inr (2 ^ halved p i j, 2 ^ (i + j))"
  by (rule level_wires_ok [of n _ _ _ _ _ "V_tiers m n y"]) (auto simp: V_done_def)

lemma routing_start: "routing p m n 0 0 (route_start p m n)"
  using sized_new
  by (simp add: routing_def route_start_def reached_def address_at_def distribute_at_def halved_def
      H_done_def V_done_def)

lemma route_first_ok:
  assumes "routing p m n 0 0 r"
  shows "gives p m n (routing p m n (min 1 m) 0) (route_first r)"
proof (cases "m = 0")
  case True
  with assms show ?thesis by (simp add: route_first_def routing_def)
next
  case False
  have at: "reached p 0 0 r" using assms by (simp add: routing_def)
  show ?thesis
  proof (cases "rt_stuck r")
    case True
    then show ?thesis using at assms False
      by (simp add: route_first_def routing_def) (metis rt_stuck_iff zero_le)
  next
    case ns: False
    obtain L' where L': "put_level 0 1 1 1 r (rt_H r) = Inr L'" "H_done p m n 1 L'"
      using H_done_put [of p m n 0 "rt_H r" 0 0 r] assms at False
      by (auto simp: routing_def H_at_def halved_def)
    show ?thesis using L' assms False ns
      by (simp add: route_first_def routing_def of_nat_diff min_def Suc_le_eq)
  qed
qed

text \<open>A step of each of the three loops.\<close>

lemma wide_step_ok:
  assumes R: "routing p m n (Suc e) 0 r" and lt: "rt_v r < rt_h r"
    and small: "m + n \<le> 30" and N: "0 \<le> pl_distribute p"
  shows "gives p m n (routing p m n (Suc (Suc e)) 0) (wide_step (int m) r)"
proof -
  have cm: "Suc e < m" "n < m - Suc e" using R lt by (auto simp: routing_def)
  have at: "reached p e 0 r" using R by (simp add: routing_def)
  show ?thesis
  proof (cases "rt_stuck r")
    case True
    then have "stops p e 0" "e \<le> m" using at cm by (simp_all add: rt_stuck_iff)
    then show ?thesis using True by (auto simp: wide_step_def)
  next
    case False
    obtain r' k where rk: "halve_columns r = (r', k)" by (cases "halve_columns r")
    have r': "reached p (Suc e) 0 r'" and k: "k * 2 ^ halved p e 0 = (2::int) ^ halved p (Suc e) 0"
      using halve_columns_ok [OF at N] rk by simp_all
    have same: "rt_h r' = int (m - Suc e)" "rt_v r' = int n" "rt_H r' = rt_H r" "rt_V r' = rt_V r"
      "rt_hTemp r' = 1" "rt_vTemp r' = 2 ^ e"
      using R rk by (auto simp: routing_def halve_columns_def split: if_splits)
    have H: "H_done p m n (Suc e) (rt_H r)" using R by (simp add: routing_def)
    have "H_at m n e = (e, 0)" using cm by (auto simp: H_at_def)
    from H_done_wires [OF H _ _ this] cm
    have wires: "level_wires (rt_H r) (int e) = Inr (2 ^ halved p e 0, 2 ^ e)" by simp
    have a: "imul k (2 ^ halved p e 0) = Inr (2 ^ halved p (Suc e) 0)"
      by (rule imul_halved [OF k]) (use halved_le [of p "Suc e" 0] cm small in simp)
    have s: "imul 2 (2 ^ e) = Inr (2 ^ Suc e)" by (rule imul_power) (use cm small in simp)
    have "H_at m n (Suc e) = (Suc e, 0)" using cm by (auto simp: H_at_def)
    from H_done_put [OF H cm(1) this r'] obtain L' where
      L': "put_level (int (Suc e)) (2 ^ halved p (Suc e) 0) 1 (2 ^ Suc e) r' (rt_H r) = Inr L'"
        "H_done p m n (Suc (Suc e)) L'"
      by auto
    have i: "int m - rt_h r = int (Suc e)" "int (Suc e) - 1 = int e"
      using R cm by (auto simp: routing_def)
    have step: "wide_step (int m) r
        = Inr (Go (r'\<lparr>rt_H := L', rt_h := rt_h r' - 1, rt_vTemp := rt_vTemp r' * 2\<rparr>))"
      using False by (simp only: wide_step_def rk i same(3) L'(1) wires a s Let_def split_conv
          if_False ebind_simps prod.case)
    have h: "rt_h r' - 1 = int (m - Suc (Suc e))" using cm by (simp add: same(1) of_nat_diff)
    show ?thesis using R cm(1) r' L'(2) by (simp add: step routing_def h same)
  qed
qed

lemma tall_step_ok:
  assumes R: "routing p m n c d r" and lt: "rt_h r < rt_v r" and c: "c \<le> 1"
    and small: "m + n \<le> 30" and N: "0 \<le> pl_distribute p"
  shows "gives p m n (routing p m n c (Suc d)) (tall_step (int n) r)"
proof -
  have dn: "c \<le> m" "d < n" "m - c < n - d" using R lt by (auto simp: routing_def)
  have at: "reached p 0 d r" using R c by (auto simp: routing_def le_Suc_eq)
  show ?thesis
  proof (cases "rt_stuck r")
    case True
    then have "stops p 0 d" using at by (simp add: rt_stuck_iff)
    moreover have "d \<le> n" using dn by simp
    ultimately show ?thesis using True by (auto simp: tall_step_def)
  next
    case False
    obtain r' k where rk: "halve_rows r = (r', k)" by (cases "halve_rows r")
    have r': "reached p 0 (Suc d) r'" and k: "k * 2 ^ halved p 0 d = (2::int) ^ halved p 0 (Suc d)"
      using halve_rows_ok [OF at N] rk by simp_all
    have same: "rt_h r' = int (m - c)" "rt_v r' = int (n - d)" "rt_H r' = rt_H r" "rt_V r' = rt_V r"
      "rt_hTemp r' = 2 ^ d" "rt_vTemp r' = 1"
      using R rk c by (auto simp: routing_def halve_rows_def le_Suc_eq split: if_splits)
    have V: "V_done p m n d (rt_V r)" using R by (simp add: routing_def)
    have wires: "(if rt_v r = int n then Inr (1, 1) else level_wires (rt_V r) (int d - 1))
      = Inr (2 ^ halved p 0 d, 2 ^ d)"
    proof (cases d)
      case 0
      then show ?thesis using R by (simp add: routing_def halved_def)
    next
      case (Suc y)
      have "V_at m n y = (0, d)" using dn c Suc by (auto simp: V_at_def)
      from V_done_wires [OF V _ _ this] Suc dn
      have "level_wires (rt_V r) (int y) = Inr (2 ^ halved p 0 d, 2 ^ d)" by simp
      then show ?thesis using R Suc dn by (simp add: routing_def)
    qed
    have a: "imul k (2 ^ halved p 0 d) = Inr (2 ^ halved p 0 (Suc d))"
      by (rule imul_halved [OF k]) (use halved_le [of p 0 "Suc d"] dn small in simp)
    have s: "imul 2 (2 ^ d) = Inr (2 ^ Suc d)" by (rule imul_power) (use dn small in simp)
    have at': "V_at m n d = (0, Suc d)" "V_tiers m n d = 1" using dn c by (auto simp: V_at_def V_tiers_def)
    from V_done_put [OF V dn(2) at'(1) r' refl] obtain L' where
      L': "put_level (int d) (2 ^ halved p 0 (Suc d)) 1 (2 ^ Suc d) r' (rt_V r) = Inr L'"
        "V_done p m n (Suc d) L'"
      unfolding at'(2) by auto
    have i: "int n - rt_v r = int d" and rv: "rt_v r' = rt_v r"
      using R dn same(2) by (auto simp: routing_def)
    have step: "tall_step (int n) r
        = Inr (Go (r'\<lparr>rt_V := L', rt_v := rt_v r' - 1, rt_hTemp := rt_hTemp r' * 2\<rparr>))"
      using False by (simp only: tall_step_def rk i rv same(4) L'(1) wires a s Let_def split_conv
          if_False ebind_simps prod.case)
    have v: "rt_v r' - 1 = int (n - Suc d)" using dn by (simp add: same(2) of_nat_diff)
    have "c - 1 = 0" using c by simp
    then show ?thesis using R dn r' L'(2) by (simp add: step routing_def v same)
  qed
qed

lemma both_horizontal_ok:
  assumes R: "routing p m n (Suc e) d r" and hv: "rt_h r = rt_v r" "0 < rt_h r"
    and small: "m + n \<le> 30" and N: "0 \<le> pl_distribute p"
  shows "gives p m n (\<lambda>r'. reached p (Suc e) d r' \<and> H_done p m n (Suc (Suc e)) (rt_H r') \<and> rt_V r' = rt_V r
      \<and> rt_h r' = rt_h r \<and> rt_v r' = rt_v r \<and> rt_hTemp r' = rt_hTemp r \<and> rt_vTemp r' = rt_vTemp r)
    (both_horizontal (int m) (int n) r)"
proof -
  have cm: "Suc e < m" "d < n" "m - Suc e = n - d" using R hv by (auto simp: routing_def)
  have at: "reached p e d r" using R by (simp add: routing_def)
  show ?thesis
  proof (cases "rt_stuck r")
    case True
    then have "stops p e d" "e \<le> m" "d \<le> n" using at cm by (simp_all add: rt_stuck_iff)
    then show ?thesis using True by (auto simp: both_horizontal_def)
  next
    case False
    obtain r' k where rk: "halve_columns r = (r', k)" by (cases "halve_columns r")
    have r': "reached p (Suc e) d r'" and k: "k * 2 ^ halved p e d = (2::int) ^ halved p (Suc e) d"
      using halve_columns_ok [OF at N] rk by simp_all
    have same: "rt_h r' = rt_h r" "rt_v r' = rt_v r" "rt_H r' = rt_H r" "rt_V r' = rt_V r"
      "rt_hTemp r' = 2 ^ d" "rt_hTemp r = 2 ^ d" "rt_vTemp r' = rt_vTemp r"
      using R rk by (auto simp: routing_def halve_columns_def split: if_splits)
    have H: "H_done p m n (Suc e) (rt_H r)" and V: "V_done p m n d (rt_V r)"
      using R by (simp_all add: routing_def)
    have i: "int m - rt_h r = int (Suc e)" "int n - rt_v r = int d" "int (Suc e) - 1 = int e"
      using R cm by (auto simp: routing_def)
    have wires: "(if rt_v r = int n then level_wires (rt_H r) (int e) else level_wires (rt_V r) (int d - 1))
      = Inr (2 ^ halved p e d, 2 ^ (e + d))"
    proof (cases d)
      case 0
      have "H_at m n e = (e, 0)" using cm 0 by (auto simp: H_at_def)
      from H_done_wires [OF H _ _ this] cm
      have "level_wires (rt_H r) (int e) = Inr (2 ^ halved p e 0, 2 ^ e)" by simp
      moreover have "rt_v r = int n" using R 0 by (simp add: routing_def)
      ultimately show ?thesis using 0 by simp
    next
      case (Suc y)
      have "V_at m n y = (e, d)" using cm Suc by (auto simp: V_at_def)
      from V_done_wires [OF V _ _ this] Suc cm
      have "level_wires (rt_V r) (int y) = Inr (2 ^ halved p e d, 2 ^ (e + d))" by simp
      moreover have "rt_v r \<noteq> int n" using R Suc cm by (auto simp: routing_def)
      ultimately show ?thesis using Suc by simp
    qed
    have a: "imul k (2 ^ halved p e d) = Inr (2 ^ halved p (Suc e) d)"
      by (rule imul_halved [OF k]) (use halved_le [of p "Suc e" d] cm small in simp)
    have s: "imul 2 (2 ^ (e + d)) = Inr (2 ^ Suc (e + d))" by (rule imul_power) (use cm small in simp)
    have "H_at m n (Suc e) = (Suc e, d)" using cm by (auto simp: H_at_def)
    from H_done_put [OF H cm(1) this r'] obtain L' where
      L': "put_level (int (Suc e)) (2 ^ halved p (Suc e) d) (2 ^ d) (2 ^ Suc (e + d)) r' (rt_H r) = Inr L'"
        "H_done p m n (Suc (Suc e)) L'"
      by auto
    have "both_horizontal (int m) (int n) r = Inr (Go (r'\<lparr>rt_H := L'\<rparr>))"
      using False by (simp only: both_horizontal_def rk i same(1-5) wires a s L'(1) Let_def split_conv
          if_False ebind_simps prod.case)
    then show ?thesis using r' L'(2) by (simp add: same)
  qed
qed

lemma both_vertical_ok:
  assumes at: "reached p (Suc e) d r" and H: "H_done p m n (Suc (Suc e)) (rt_H r)"
    and V: "V_done p m n d (rt_V r)"
    and hv: "rt_h r = int (m - Suc e)" "rt_v r = int (n - d)" "m - Suc e = n - d" "Suc e < m" "d < n"
    and temps: "rt_hTemp r = 2 ^ d" "rt_vTemp r = 2 ^ e"
    and small: "m + n \<le> 30" and N: "0 \<le> pl_distribute p"
  shows "gives p m n (routing p m n (Suc (Suc e)) (Suc d)) (both_vertical (int m) (int n) r)"
proof (cases "rt_stuck r")
  case True
  then have "stops p (Suc e) d" "Suc e \<le> m" "d \<le> n" using at hv by (simp_all add: rt_stuck_iff)
  then show ?thesis using True by (auto simp: both_vertical_def)
next
  case False
  obtain r' k where rk: "halve_rows r = (r', k)" by (cases "halve_rows r")
  have r': "reached p (Suc e) (Suc d) r'"
    and k: "k * 2 ^ halved p (Suc e) d = (2::int) ^ halved p (Suc e) (Suc d)"
    using halve_rows_ok [OF at N] rk by simp_all
  have same: "rt_h r' = rt_h r" "rt_v r' = rt_v r" "rt_H r' = rt_H r" "rt_V r' = rt_V r"
    "rt_hTemp r' = rt_hTemp r" "rt_vTemp r' = rt_vTemp r"
    using rk by (auto simp: halve_rows_def split: if_splits)
  have i: "int m - rt_h r = int (Suc e)" "int n - rt_v r = int d" using hv by simp_all
  have "H_at m n (Suc e) = (Suc e, d)" using hv by (auto simp: H_at_def)
  from H_done_wires [OF H _ _ this] hv
  have wires: "level_wires (rt_H r) (int (Suc e)) = Inr (2 ^ halved p (Suc e) d, 2 ^ (Suc e + d))" by simp
  have a: "imul k (2 ^ halved p (Suc e) d) = Inr (2 ^ halved p (Suc e) (Suc d))"
    by (rule imul_halved [OF k]) (use halved_le [of p "Suc e" "Suc d"] hv small in simp)
  have s: "imul 2 (2 ^ (Suc e + d)) = Inr (2 ^ (Suc e + Suc d))"
    using imul_power [of "Suc e + d"] hv small by simp
  have c': "m + d - n = Suc e" using hv by linarith
  then have "V_at m n d = (Suc e, Suc d)" by (simp add: V_at_def)
  moreover have t: "V_tiers m n d = (if int m = 2 then rt_vTemp r else 2 * rt_vTemp r)"
    using hv temps by (simp add: V_tiers_def Let_def c')
  ultimately obtain L' where
    L': "put_level (int d) (2 ^ halved p (Suc e) (Suc d)) (if int m = 2 then rt_vTemp r else 2 * rt_vTemp r)
           (2 ^ (Suc e + Suc d)) r' (rt_V r) = Inr L'" "V_done p m n (Suc d) L'"
    using V_done_put [OF V hv(5) _ r' t [symmetric]] by auto
  have step: "both_vertical (int m) (int n) r = Inr (Go (r'\<lparr>rt_V := L', rt_h := rt_h r' - 1,
      rt_v := rt_v r' - 1, rt_hTemp := rt_hTemp r' * 2, rt_vTemp := rt_vTemp r' * 2\<rparr>))"
    using False by (simp only: both_vertical_def rk i same wires a s L'(1) Let_def split_conv
        if_False ebind_simps prod.case)
  have m: "rt_h r' - 1 = int (m - Suc (Suc e))" "rt_v r' - 1 = int (n - Suc d)"
    using hv by (simp_all add: same of_nat_diff)
  show ?thesis using r' H L'(2) hv temps by (simp add: step routing_def m same)
qed

lemma both_step_ok:
  assumes R: "routing p m n (Suc e) d r" and hv: "rt_h r = rt_v r" "0 < rt_h r"
    and small: "m + n \<le> 30" and N: "0 \<le> pl_distribute p"
  shows "gives p m n (routing p m n (Suc (Suc e)) (Suc d)) (both_step (int m) (int n) r)"
  unfolding both_step_def
proof (rule gives_fbind [OF both_horizontal_ok [OF R hv small N]])
  fix r'
  assume r': "reached p (Suc e) d r' \<and> H_done p m n (Suc (Suc e)) (rt_H r') \<and> rt_V r' = rt_V r
      \<and> rt_h r' = rt_h r \<and> rt_v r' = rt_v r \<and> rt_hTemp r' = rt_hTemp r \<and> rt_vTemp r' = rt_vTemp r"
  show "gives p m n (routing p m n (Suc (Suc e)) (Suc d)) (both_vertical (int m) (int n) r')"
    by (rule both_vertical_ok) (use r' R hv small N in \<open>auto simp: routing_def\<close>)
qed

text \<open>The loops, by induction on the number of levels that are left.\<close>

lemma route_wide_ok:
  assumes "routing p m n (Suc e) 0 r" "rt_v r \<le> rt_h r" "m + n \<le> 30" "0 \<le> pl_distribute p"
  shows "gives p m n (\<lambda>r. \<exists>e. routing p m n (Suc e) 0 r \<and> rt_h r = rt_v r) (route_wide (int m) r)"
  using assms(1,2)
proof (induction "nat (rt_h r - rt_v r)" arbitrary: e r)
  case 0
  then show ?case by (subst route_wide.simps) auto
next
  case (Suc k)
  then have lt: "rt_v r < rt_h r" by simp
  show ?case
  proof (subst route_wide.simps, simp only: lt if_True,
      rule gives_fbind [OF wide_step_ok [OF Suc.prems(1) lt assms(3,4)]])
    fix r' assume r': "routing p m n (Suc (Suc e)) 0 r'"
    have eq: "rt_h r' = rt_h r - 1" "rt_v r' = rt_v r"
      using Suc.prems(1) r' by (auto simp: routing_def of_nat_diff)
    show "gives p m n (\<lambda>r. \<exists>e. routing p m n (Suc e) 0 r \<and> rt_h r = rt_v r) (route_wide (int m) r')"
      by (rule Suc.hyps(1) [OF _ r']) (use Suc.hyps(2) eq lt in simp_all)
  qed
qed

lemma route_tall_ok:
  assumes "routing p m n c d r" "c \<le> 1" "rt_h r \<le> rt_v r" "m + n \<le> 30" "0 \<le> pl_distribute p"
  shows "gives p m n (\<lambda>r. \<exists>d. routing p m n c d r \<and> rt_h r = rt_v r) (route_tall (int n) r)"
  using assms(1,3)
proof (induction "nat (rt_v r - rt_h r)" arbitrary: d r)
  case 0
  then show ?case by (subst route_tall.simps) auto
next
  case (Suc k)
  then have lt: "rt_h r < rt_v r" by simp
  show ?case
  proof (subst route_tall.simps, simp only: lt if_True,
      rule gives_fbind [OF tall_step_ok [OF Suc.prems(1) lt assms(2,4,5)]])
    fix r' assume r': "routing p m n c (Suc d) r'"
    have eq: "rt_v r' = rt_v r - 1" "rt_h r' = rt_h r"
      using Suc.prems(1) r' by (auto simp: routing_def of_nat_diff)
    show "gives p m n (\<lambda>r. \<exists>d. routing p m n c d r \<and> rt_h r = rt_v r) (route_tall (int n) r')"
      by (rule Suc.hyps(1) [OF _ r']) (use Suc.hyps(2) eq lt in simp_all)
  qed
qed

lemma route_both_ok:
  assumes "routing p m n c d r" "c = 0 \<longrightarrow> m = 0" "rt_h r = rt_v r" "m + n \<le> 30" "0 \<le> pl_distribute p"
  shows "gives p m n (routing p m n m n) (route_both (int m) (int n) r)"
  using assms(1-3)
proof (induction "nat (rt_h r)" arbitrary: c d r)
  case 0
  then have "c = m" "d = n" by (auto simp: routing_def)
  with 0 show ?case by (subst route_both.simps) auto
next
  case (Suc k)
  then have pos: "0 < rt_h r" by simp
  with Suc.prems(1,2) obtain e where e: "c = Suc e" by (cases c) (auto simp: routing_def)
  show ?case
  proof (subst route_both.simps, simp only: pos if_True,
      rule gives_fbind [OF both_step_ok [OF Suc.prems(1) [unfolded e] Suc.prems(3) pos assms(4,5)]])
    fix r' assume r': "routing p m n (Suc (Suc e)) (Suc d) r'"
    have eq: "rt_v r' = rt_v r - 1" "rt_h r' = rt_h r - 1"
      using Suc.prems(1) e r' by (auto simp: routing_def of_nat_diff)
    show "gives p m n (routing p m n m n) (route_both (int m) (int n) r')"
      by (rule Suc.hyps(1) [OF _ r']) (use Suc.hyps(2) Suc.prems(3) eq in simp_all)
  qed
qed

text \<open>
  The whole routing: all the levels as specified and a mat that gets the bits behind them, or a
  level that has nothing to route.
\<close>

definition routed :: "Plan \<Rightarrow> nat \<Rightarrow> nat \<Rightarrow> Route \<Rightarrow> bool" where
  "routed p m n r \<longleftrightarrow> H_done p m n m (rt_H r) \<and> V_done p m n n (rt_V r)
     \<and> rt_address r = address_at p m n \<and> rt_distribute r = distribute_at p m n
     \<and> rt_broadcast r = pl_broadcast p"

lemma route_last_ok:
  assumes R: "routing p m n m n r" and col: "pl_columns p \<le> m" and N: "0 \<le> pl_distribute p"
  shows "gives p m n (routed p m n) (route_last (int m) r)"
proof -
  have at: "reached p (m - 1) n r" using R by (simp add: routing_def)
  have L: "H_done p m n m (rt_H r)" "V_done p m n n (rt_V r)" using R by (simp_all add: routing_def)
  have same: "rt_H (fst (halve_columns r)) = rt_H r" "rt_V (fst (halve_columns r)) = rt_V r"
    by (simp_all add: halve_columns_def)
  show ?thesis
  proof (cases "rt_stuck r")
    case True
    then have "stops p (m - 1) n" using at by (simp add: rt_stuck_iff)
    moreover have "m - 1 \<le> m" by simp
    ultimately have "\<exists>c\<le>m. \<exists>d\<le>n. stops p c d" by blast
    then show ?thesis using True by (simp add: route_last_def)
  next
    case ns: False
    show ?thesis
    proof (cases m)
      case 0
      then have "rt_columnToActive r = 1" using at col by (simp add: reached_def)
      then show ?thesis using ns at L 0 by (simp add: route_last_def routed_def reached_def)
    next
      case (Suc e)
      then have "reached p m n (fst (halve_columns r))" using halve_columns_ok(1) [OF at N] by simp
      then show ?thesis using ns L Suc by (simp add: route_last_def routed_def reached_def same)
    qed
  qed
qed

lemma route_ok:
  assumes "m + n \<le> 30" "pl_columns p \<le> m" "0 \<le> pl_distribute p"
  shows "gives p m n (routed p m n) (route (int m) (int n) (route_start p m n))"
  unfolding route_def
proof (rule gives_fbind [OF route_first_ok [OF routing_start]])
  fix r assume r: "routing p m n (min 1 m) 0 r"
  have wide: "gives p m n (\<lambda>r. \<exists>c. routing p m n c 0 r \<and> (c = 0 \<longrightarrow> m = 0)
      \<and> (rt_h r = rt_v r \<or> c \<le> 1 \<and> rt_h r \<le> rt_v r)) (route_wide (int m) r)"
  proof (cases "rt_v r \<le> rt_h r \<and> 0 < m")
    case True
    then have "min 1 m = Suc 0" by simp
    with r have "routing p m n (Suc 0) 0 r" by simp
    from route_wide_ok [OF this _ assms(1,3)] True
    have "gives p m n (\<lambda>r. \<exists>e. routing p m n (Suc e) 0 r \<and> rt_h r = rt_v r) (route_wide (int m) r)" by simp
    then show ?thesis by (auto simp: gives_def split: sum.splits early.splits)
  next
    case False
    then have "rt_h r \<le> rt_v r" using r by (auto simp: routing_def)
    then show ?thesis using r by (subst route_wide.simps) (auto intro!: exI [of _ "min 1 m"])
  qed
  show "gives p m n (routed p m n) (fbind (route_wide (int m) r) (\<lambda>r. fbind (route_tall (int n) r) (\<lambda>r.
     fbind (route_both (int m) (int n) r) (route_last (int m)))))"
  proof (rule gives_fbind [OF wide], elim exE conjE)
    fix r c assume c: "routing p m n c 0 r" "c = 0 \<longrightarrow> m = 0"
      and h: "rt_h r = rt_v r \<or> c \<le> 1 \<and> rt_h r \<le> rt_v r"
    have tall: "gives p m n (\<lambda>r. \<exists>d. routing p m n c d r \<and> rt_h r = rt_v r) (route_tall (int n) r)"
    proof (cases "rt_h r = rt_v r")
      case True
      then show ?thesis using c(1) by (subst route_tall.simps) auto
    next
      case False
      with h have "c \<le> 1" "rt_h r \<le> rt_v r" by simp_all
      from route_tall_ok [OF c(1) this assms(1,3)] show ?thesis .
    qed
    show "gives p m n (routed p m n) (fbind (route_tall (int n) r) (\<lambda>r.
       fbind (route_both (int m) (int n) r) (route_last (int m))))"
    proof (rule gives_fbind [OF tall], elim exE conjE)
      fix r d assume "routing p m n c d r" "rt_h r = rt_v r"
      from route_both_ok [OF this(1) c(2) this(2) assms(1,3)]
      show "gives p m n (routed p m n) (fbind (route_both (int m) (int n) r) (route_last (int m)))"
        by (rule gives_fbind) (rule route_last_ok [OF _ assms(2,3)])
    qed
  qed
qed

text \<open>When the address has enough bits and some data bits stay, nothing stops the routing.\<close>

lemma never_stops:
  assumes "int (m + n) - int (pl_columns p) - int (pl_rows p) < pl_address p"
    and "pl_columns p \<le> m" "pl_rows p \<le> n"
    and "0 < pl_broadcast p \<or> 2 ^ (pl_columns p + pl_rows p) \<le> pl_distribute p \<and> 0 \<le> pl_broadcast p"
    and "0 \<le> pl_distribute p" "c \<le> m" "d \<le> n"
  shows "\<not> stops p c d"
proof -
  have "0 < address_at p c d" using assms(1-3,6,7) by (auto simp: address_at_def halved_def)
  moreover have "0 < distribute_at p c d + pl_broadcast p"
  proof (cases "0 < pl_broadcast p")
    case True
    then show ?thesis using assms(5) by (simp add: distribute_at_def pos_imp_zdiv_nonneg_iff add_nonneg_pos)
  next
    case False
    have "(2::int) ^ halved p c d \<le> 2 ^ (pl_columns p + pl_rows p)"
      by (rule power_increasing) (auto simp: halved_def)
    also have "\<dots> \<le> pl_distribute p" using False assms(4) by simp
    finally have "0 < distribute_at p c d" by (simp add: distribute_at_def pos_imp_zdiv_pos_iff)
    then show ?thesis using False assms(4) by simp
  qed
  ultimately show ?thesis by (simp add: stops_def)
qed

end
