(* ===== verification/BankWithHtree.thy ===== *)
theory BankWithHtree
  imports Routing
begin

text \<open>
  A bank whose mats are connected by an H-tree (\<open>BankWithHtree.cpp\<close>): initialization, which routes
  the tree and gives the mat the bits behind its last level, area, latency and power.
\<close>

record BankWithHtree = BankUnit +
  numAddressBit :: int
  numDataDistributeBit :: int
  numDataBroadcastBit :: int
  levelHorizontal :: int
  levelVertical :: int
  horizontal :: Levels
  vertical :: Levels

definition no_levels :: "BankWithHtree \<Rightarrow> BankWithHtree" where
  "no_levels b = b\<lparr>horizontal := new_levels 0, vertical := new_levels 0\<rparr>"

definition BankWithHtree_new :: "BankWithHtree \<Rightarrow> BankWithHtree" where
  "BankWithHtree_new raw = no_levels (BankUnit_new raw)"

subsection \<open>Initialize\<close>

text \<open>An initialized bank is reset.\<close>

definition htree_reset :: "BankWithHtree \<Rightarrow> BankWithHtree" where
  "htree_reset b =
     (if bank_initialized b
      then no_levels (b\<lparr>bank_initialized := False, bank_invalid := False\<rparr>) else b)"

text \<open>
  The signals to route.  A data array distributes the block and broadcasts the way, a tag array
  distributes the ways and broadcasts the tag.
\<close>

definition htree_signals :: "BankWithHtree \<Rightarrow> BankWithHtree res" where
  "htree_signals b =
     ebind (bank_address_bits b) (\<lambda>n.
     let b = b\<lparr>numAddressBit := n\<rparr>; block = wrap32 (bank_blockSize b) in
     if bank_memoryType b = data then
       ebind (d2i (dlog2 (i2d (bank_associativity b)))) (\<lambda>k.
         Inr (b\<lparr>numDataDistributeBit := block, numDataBroadcastBit := k\<rparr>))
     else if bank_memoryType b = tag then
       Inr (b\<lparr>numDataDistributeBit := bank_associativity b, numDataBroadcastBit := block\<rparr>)
     else Inr (b\<lparr>numDataDistributeBit := 0, numDataBroadcastBit := block\<rparr>))"

definition htree_levels :: "BankWithHtree \<Rightarrow> BankWithHtree res" where
  "htree_levels b =
     ebind (ilog2 (i2d (bank_numColumnMat b))) (\<lambda>h. ebind (ilog2 (i2d (bank_numRowMat b))) (\<lambda>v.
       Inr (b\<lparr>levelHorizontal := h, levelVertical := v,
              horizontal := new_levels h, vertical := new_levels v\<rparr>)))"

definition route_of :: "BankWithHtree \<Rightarrow> Route" where
  "route_of b = \<lparr>rt_h = levelHorizontal b, rt_v = levelVertical b,
     rt_rowToActive = bank_numActiveMatPerColumn b, rt_columnToActive = bank_numActiveMatPerRow b,
     rt_address = numAddressBit b, rt_distribute = numDataDistributeBit b,
     rt_broadcast = numDataBroadcastBit b, rt_hTemp = 1, rt_vTemp = 1,
     rt_H = horizontal b, rt_V = vertical b\<rparr>"

definition htree_route :: "BankWithHtree \<Rightarrow> (BankWithHtree, BankWithHtree \<times> Route) early res" where
  "htree_route b =
     ebind (route (levelHorizontal b) (levelVertical b) (route_of b)) (\<lambda>x. case x of
       Return r \<Rightarrow> bank_illegal (b\<lparr>horizontal := rt_H r, vertical := rt_V r\<rparr>)
     | Go r \<Rightarrow> Inr (Go (b\<lparr>horizontal := rt_H r, vertical := rt_V r\<rparr>, r)))"

text \<open>The mat must contain at least one way, and as many as it has rows for a set.\<close>

definition few_ways :: "BankWithHtree \<Rightarrow> Route \<Rightarrow> bool res" where
  "few_ways b r =
     (if bank_memoryType b = data
      then ebind (ipow2 (rt_broadcast r)) (\<lambda>ways. Inr (ways < bank_numRowPerSet b))
      else if bank_memoryType b = tag
      then Inr (1 < bank_numRowPerSet b \<or> rt_distribute r = 0)
      else Inr False)"

text \<open>What the mat gets: its address bits, its bits of a block and its ways.\<close>

definition mat_block :: "BankWithHtree \<Rightarrow> Route \<Rightarrow> (int \<times> int \<times> int) res" where
  "mat_block b r =
     (if bank_memoryType b = data
      then ebind (ipow2 (rt_broadcast r)) (\<lambda>ways. Inr (rt_address r, rt_distribute r, ways))
      else if bank_memoryType b = tag then Inr (rt_address r, rt_broadcast r, rt_distribute r)
      else Inr (rt_address r, rt_broadcast r, 1))"

definition htree_mat :: "Env \<Rightarrow> BankWithHtree \<Rightarrow> Route \<Rightarrow> (BankWithHtree, BankWithHtree) early res" where
  "htree_mat E b r =
     ebind (few_ways b r) (\<lambda>few.
     if few then bank_illegal b
     else
       ebind (mat_block b r) (\<lambda>request.
       ebind (init_mat E request b) (\<lambda>b.
         if mat_invalid (bank_mat b) then bank_illegal b else Inr (Go b))))"

definition htree_tsv :: "Env \<Rightarrow> BankWithHtree \<Rightarrow> BankWithHtree res" where
  "htree_tsv E b =
     (if bank_stackedDieCount b \<noteq> 0
      then ebind (TSV_Initialize (e_tech E) (global_tsv_type E) False (bank_tsvArray b)) (\<lambda>v.
             Inr (b\<lparr>bank_tsvArray := v\<rparr>))
      else Inr b)"

text \<open>Without internal sensing the bank is invalid, and not initialized.\<close>

definition BankWithHtree_Initialize :: "Env \<Rightarrow> BankArgs \<Rightarrow> BankWithHtree \<Rightarrow> BankWithHtree res" where
  "BankWithHtree_Initialize E a b =
     (let b = htree_reset b in
      if \<not> internalSensing (e_ip E) then Inr (b\<lparr>bank_invalid := True\<rparr>)
      else
        finish
         (ebind (htree_signals (bank_params E a b)) (\<lambda>b.
          ebind (htree_levels b) (\<lambda>b.
          fbind (htree_route b) (\<lambda>(b, r).
          fbind (htree_mat E b r) (\<lambda>b.
          ebind (htree_tsv E (restore_muxes (ba_design a) b)) (\<lambda>b.
            Inr (Go (b\<lparr>bank_initialized := True\<rparr>)))))))))"

subsection \<open>CalculateArea and CalculateRC\<close>

text \<open>All the bits of level \<open>i\<close>.\<close>

definition level_bits :: "Levels \<Rightarrow> int \<Rightarrow> int res" where
  "level_bits L i =
     ebind (uget (lv_address L) i) (\<lambda>a. ebind (uget (lv_distribute L) i) (\<lambda>d.
     ebind (uget (lv_broadcast L) i) (\<lambda>b. Inr (a + d + b))))"

text \<open>The side of the bank with the tracks of the wires of \<open>n\<close> levels.\<close>

definition tree_side :: "Levels \<Rightarrow> int \<Rightarrow> int \<times> dbl \<Rightarrow> dbl \<Rightarrow> dbl res" where
  "tree_side L n share =
     for_up 0 n (\<lambda>i x. ebind (level_bits L i) (\<lambda>k. ebind (uget (lv_wire L) i) (\<lambda>w.
       Inr (x + dceil (i2d k * i2d w / i2d (fst share)) * snd share))))"

text \<open>Half of the width of the tracks of level \<open>i\<close>, which the wires of the other direction cross.\<close>

definition half_track :: "Levels \<Rightarrow> int \<Rightarrow> int \<times> dbl \<Rightarrow> dbl res" where
  "half_track L i share =
     ebind (level_bits L i) (\<lambda>k. Inr (dceil (i2d k / i2d (fst share)) * snd share / 2))"

definition put_length :: "int \<Rightarrow> dbl \<Rightarrow> Levels \<Rightarrow> Levels res" where
  "put_length i x L = ebind (uset (lv_length L) i x) (\<lambda>xs. Inr (L\<lparr>lv_length := xs\<rparr>))"

text \<open>The last level has the given length, every other one twice the length of the next level and \<open>extra\<close>.\<close>

definition level_length :: "int \<Rightarrow> int \<Rightarrow> dbl \<Rightarrow> dbl \<Rightarrow> Levels \<Rightarrow> Levels res" where
  "level_length n i bottom extra L =
     ebind (if i = n - 1 then Inr bottom
            else ebind (uget (lv_length L) (i + 1)) (\<lambda>x. Inr (x * 2 + extra))) (\<lambda>x. put_length i x L)"

text \<open>
  The lengths from the mats outwards: the levels in the longer direction beyond those in the other
  one have no tracks to cross.
\<close>

definition both_lengths ::
  "Mat \<Rightarrow> int \<times> dbl \<Rightarrow> int \<Rightarrow> int \<Rightarrow> int \<Rightarrow> Levels \<times> Levels \<Rightarrow> (Levels \<times> Levels) res" where
  "both_lengths m share lh lv v HV =
     (let h = lh - 1 - (min (lv - 1) (lh - 1) - v) in
      ebind (if v = lv - 1 \<or> h = lh - 1 then Inr 0 else half_track (fst HV) (h + 1) share) (\<lambda>t.
      ebind (level_length lv v (height m / 2) t (snd HV)) (\<lambda>V.
      ebind (if h = lh - 1
             then for_up v lv (\<lambda>i x. ebind (half_track V i share) (\<lambda>t. Inr (x + t))) (width m)
             else Inr 0) (\<lambda>bottom.
      ebind (if h = lh - 1 then Inr 0 else half_track V v share) (\<lambda>t.
      ebind (level_length lh h bottom t (fst HV)) (\<lambda>H. Inr (H, V)))))))"

definition tree_lengths :: "Mat \<Rightarrow> int \<times> dbl \<Rightarrow> BankWithHtree \<Rightarrow> BankWithHtree res" where
  "tree_lengths m share b =
     (let lh = levelHorizontal b; lv = levelVertical b; v = min (lv - 1) (lh - 1) in
      ebind (for_down (lv - 1) lh (\<lambda>i. level_length lv i (height m / 2) 0) (vertical b)) (\<lambda>V.
      ebind (for_down v 0 (both_lengths m share lh lv) (horizontal b, V)) (\<lambda>(H, V).
      ebind (for_down (lh - 1 - (v + 1)) 0 (\<lambda>i. level_length lh i (width m) 0) H) (\<lambda>H.
        Inr (b\<lparr>horizontal := H, vertical := V\<rparr>)))))"

definition BankWithHtree_CalculateArea :: "Env \<Rightarrow> BankWithHtree \<Rightarrow> BankWithHtree res" where
  "BankWithHtree_CalculateArea E b =
     (if \<not> bank_initialized b then Inr b
      else if bank_invalid b
      then Inr (b\<lparr>height := invalid_value, width := invalid_value, area := invalid_value\<rparr>)
      else
        ebind (Mat_CalculateArea E (bank_mat b)) (\<lambda>m.
        let b = put_mat m b in
        ebind (wire_sharing (e_globalWire E)) (\<lambda>share.
        ebind (tree_side (horizontal b) (levelHorizontal b) share (height m * i2d (bank_numRowMat b))) (\<lambda>h.
        ebind (tree_side (vertical b) (levelVertical b) share (width m * i2d (bank_numColumnMat b))) (\<lambda>w.
        let b = b\<lparr>height := h, width := w\<rparr> in
        if bad_aspect (bank_memoryType b) b then Inr (reject_bank b)
        else
          ebind (tree_lengths m share b) (\<lambda>b.
          ebind (bank_tsv_area E b (bank_tsvArray b)) (\<lambda>(v, extra).
            Inr (b\<lparr>bank_tsvArray := v, area := h * w + extra\<rparr>))))))))"

definition BankWithHtree_CalculateRC :: "Env \<Rightarrow> BankWithHtree \<Rightarrow> BankWithHtree res" where
  "BankWithHtree_CalculateRC E b =
     (if \<not> bank_initialized b \<or> bank_invalid b then Inr b
      else ebind (Mat_CalculateRC E (bank_mat b)) (\<lambda>m. Inr (put_mat m b)))"

subsection \<open>CalculateLatencyAndPower\<close>

text \<open>The mats without the wires; a refresh goes over all of them.\<close>

definition htree_mats :: "Mat \<Rightarrow> BankWithHtree \<Rightarrow> BankWithHtree" where
  "htree_mats m b = cell_energies m (b\<lparr>readLatency := readLatency m, writeLatency := writeLatency m,
     refreshLatency := refreshLatency m * i2d (bank_numColumnMat b),
     readDynamicEnergy := active_mats b (readDynamicEnergy m),
     writeDynamicEnergy := active_mats b (writeDynamicEnergy m),
     refreshDynamicEnergy := all_mats b (refreshDynamicEnergy m),
     leakage := all_mats b (leakage m),
     resetLatency := resetLatency m, setLatency := setLatency m,
     resetDynamicEnergy := active_mats b (resetDynamicEnergy m),
     setDynamicEnergy := active_mats b (setDynamicEnergy m)\<rparr>)"

text \<open>In a cache in fast access mode only one way is written.\<close>

definition write_share :: "InputParameter \<Rightarrow> dbl" where
  "write_share ip = i2d (if designTarget ip = cache \<and> cacheAccessMode ip = fast_access_mode
                         then ip_associativity ip else 1)"

text \<open>One level: a read goes down and up, the other operations go down only.\<close>

definition add_level :: "dbl \<Rightarrow> dbl \<times> dbl \<times> dbl \<Rightarrow> int \<Rightarrow> int \<Rightarrow> int \<Rightarrow> BankWithHtree \<Rightarrow> BankWithHtree" where
  "add_level beta cost active tot bits b =
     (let (latency, energy, leakageWire) = cost; e = energy * i2d active * i2d bits; part = e / beta
      in b\<lparr>readLatency := readLatency b + latency * 2, writeLatency := writeLatency b + latency,
           resetLatency := resetLatency b + latency, setLatency := setLatency b + latency,
           refreshLatency := refreshLatency b + latency,
           readDynamicEnergy := readDynamicEnergy b + e,
           writeDynamicEnergy := writeDynamicEnergy b + part,
           resetDynamicEnergy := resetDynamicEnergy b + part,
           setDynamicEnergy := setDynamicEnergy b + part,
           refreshDynamicEnergy := refreshDynamicEnergy b + part,
           leakage := leakage b + leakageWire * i2d tot * i2d bits\<rparr>)"

text \<open>A global wire that is not initialized leaves the three local variables without a value.\<close>

definition htree_level :: "Levels \<Rightarrow> int \<Rightarrow> Env \<times> BankWithHtree \<Rightarrow> (Env \<times> BankWithHtree) res" where
  "htree_level L i Eb =
     ebind (uget (lv_length L) i) (\<lambda>len.
     if \<not> wire_initialized (e_globalWire (fst Eb)) then Inl Undef
     else
       ebind (global_wire (fst Eb) len (0, 0, 0)) (\<lambda>(E, cost).
       ebind (uget (lv_active L) i) (\<lambda>active. ebind (uget (lv_sum L) i) (\<lambda>tot.
       ebind (level_bits L i) (\<lambda>bits.
         Inr (E, add_level (write_share (e_ip E)) cost active tot bits (snd Eb)))))))"

text \<open>The latency over the TSVs to the furthest die.\<close>

definition htree_tsv_latency :: "TSV \<Rightarrow> BankWithHtree \<Rightarrow> BankWithHtree" where
  "htree_tsv_latency v b =
     (let n = i2d (bank_stackedDieCount b - 1)
      in b\<lparr>readLatency := readLatency b + (n * readLatency v + n * writeLatency v),
           writeLatency := writeLatency b + n * writeLatency v,
           resetLatency := resetLatency b + n * resetLatency v,
           setLatency := setLatency b + n * setLatency v\<rparr>)"

definition htree_dies :: "Env \<Rightarrow> BankWithHtree \<Rightarrow> BankWithHtree res" where
  "htree_dies E b =
     (if 1 < bank_stackedDieCount b
      then ebind (bank_tsv_power E b (bank_tsvArray b)) (\<lambda>v.
             Inr (add_tsv_energy v (htree_tsv_latency v (b\<lparr>bank_tsvArray := v\<rparr>))))
      else Inr b)"

definition htree_power :: "Env \<Rightarrow> BankWithHtree \<Rightarrow> (Env \<times> BankWithHtree) res" where
  "htree_power E b =
     ebind (Mat_CalculateLatency E infinite_ramp (bank_mat b)) (\<lambda>m.
     ebind (Mat_CalculatePower E m) (\<lambda>(E, m).
     ebind (for_up 0 (levelHorizontal b) (htree_level (horizontal b)) (E, htree_mats m (put_mat m b))) (\<lambda>Eb.
     ebind (for_up 0 (levelVertical b) (htree_level (vertical b)) Eb) (\<lambda>(E, b).
     ebind (htree_dies E (add_routing m b)) (\<lambda>b. Inr (E, b))))))"

text \<open>The retention time is tested in every case.\<close>

definition BankWithHtree_CalculateLatencyAndPower :: "Env \<Rightarrow> BankWithHtree \<Rightarrow> (Env \<times> BankWithHtree) res" where
  "BankWithHtree_CalculateLatencyAndPower E b =
     ebind (if \<not> bank_initialized b then Inr (E, b)
            else if bank_invalid b
            then Inr (E, b\<lparr>readLatency := invalid_value, writeLatency := invalid_value,
                           readDynamicEnergy := invalid_value, writeDynamicEnergy := invalid_value,
                           leakage := invalid_value\<rparr>)
            else htree_power E b) (\<lambda>(E, b). Inr (E, check_retention E b))"

subsection \<open>Assignment\<close>

text \<open>The operator leaves the arrays of the levels to their owner.\<close>

definition BankWithHtree_assign :: "BankWithHtree \<Rightarrow> BankWithHtree \<Rightarrow> BankWithHtree" where
  "BankWithHtree_assign lhs rhs = (BankUnit_assign lhs rhs)\<lparr>levelHorizontal := levelHorizontal rhs,
     levelVertical := levelVertical rhs\<rparr>"

end
