(* ===== verification/BankWithoutHtree.thy ===== *)
theory BankWithoutHtree
  imports BankParts
begin

text \<open>
  A bank whose mats are connected by buses along the columns (\<open>BankWithoutHtree.cpp\<close>).  The sense
  amplifiers may be outside of the mats; then the buses carry the bitlines to one row of global sense
  amplifiers.
\<close>

record BankWithoutHtree = BankUnit +
  bw_numAddressBit :: int
  bw_numWay :: int
  numAddressBitRouteToMat :: int
  numDataBitRouteToMat :: int
  globalBitlineMux :: Mux
  globalSenseAmp :: SenseAmp
  globalComparator :: Comparator

definition BankWithoutHtree_new :: "BankWithoutHtree \<Rightarrow> BankWithoutHtree" where
  "BankWithoutHtree_new raw = (BankUnit_new raw)\<lparr>globalBitlineMux := Mux_new (globalBitlineMux raw),
     globalSenseAmp := SenseAmp_new (globalSenseAmp raw),
     globalComparator := Comparator_new (globalComparator raw)\<rparr>"

subsection \<open>Initialize\<close>

definition plain_reset :: "BankWithoutHtree \<Rightarrow> BankWithoutHtree" where
  "plain_reset b = (if bank_initialized b then b\<lparr>bank_initialized := False, bank_invalid := False\<rparr> else b)"

text \<open>A number per active mat.\<close>

definition per_active_mat :: "int \<Rightarrow> 'a Bank_scheme \<Rightarrow> int res" where
  "per_active_mat n b =
     ebind (cdiv n (bank_numActiveMatPerColumn b)) (\<lambda>n. cdiv n (bank_numActiveMatPerRow b))"

text \<open>The bits that go to every mat; the address bits for the choice among the mats stay behind.\<close>

definition plain_address :: "BankWithoutHtree \<Rightarrow> BankWithoutHtree res" where
  "plain_address b =
     ebind (bank_address_bits b) (\<lambda>n.
     ebind (gating_bits (bank_numRowMat b) (bank_numColumnMat b) (bank_numActiveMatPerColumn b)
              (bank_numActiveMatPerRow b)) (\<lambda>g.
       Inr (b\<lparr>bw_numAddressBit := n, bw_numWay := 1, numAddressBitRouteToMat := n - g,
              numDataBitRouteToMat := wrap32 (bank_blockSize b)\<rparr>)))"

definition plain_ways :: "BankWithoutHtree \<Rightarrow> (BankWithoutHtree, BankWithoutHtree) early res" where
  "plain_ways b =
     (if bank_memoryType b = data then
        ebind (per_active_mat (bank_blockSize b) b) (\<lambda>n.
        let b = b\<lparr>numDataBitRouteToMat := wrap32 n\<rparr> in
        if bank_associativity b < bank_numRowPerSet b then bank_illegal b
        else Inr (Go (b\<lparr>bw_numWay := bank_associativity b\<rparr>)))
      else if bank_memoryType b = tag then
        if 1 < bank_numRowPerSet b then bank_illegal b
        else
          ebind (per_active_mat (bank_associativity b) b) (\<lambda>n.
          let b = b\<lparr>bw_numWay := n\<rparr> in
          if n < 1 then bank_illegal b else Inr (Go b))
      else Inr (Go b))"

definition plain_mat :: "Env \<Rightarrow> BankWithoutHtree \<Rightarrow> (BankWithoutHtree, BankWithoutHtree) early res" where
  "plain_mat E b =
     ebind (init_mat E (numAddressBitRouteToMat b, numDataBitRouteToMat b, bw_numWay b) b) (\<lambda>b.
     if mat_invalid (bank_mat b) then bank_illegal b
     else ebind (Mat_CalculateArea E (bank_mat b)) (\<lambda>m. Inr (Go (put_mat m b))))"

text \<open>The sense amplifiers outside of the mats.  A NAND flash uses the default, voltage sensing.\<close>

definition voltage_sensing :: "MemCell \<Rightarrow> bool" where
  "voltage_sensing c \<longleftrightarrow> (if resistive_cell c \<or> memCellType c = FBRAM then readMode c else True)"

definition global_amps :: "'a Bank_scheme \<Rightarrow> int" where
  "global_amps b = wrap32 (if bank_memoryType b = data then bank_blockSize b
                           else bank_blockSize b * bank_associativity b)"

definition global_mux_inputs :: "'a Bank_scheme \<Rightarrow> int res" where
  "global_mux_inputs b = ebind (imul (bank_numRowMat b) (bank_numColumnMat b)) (\<lambda>n. per_active_mat n b)"

definition plain_sensing :: "Env \<Rightarrow> BankWithoutHtree \<Rightarrow> (BankWithoutHtree, BankWithoutHtree) early res" where
  "plain_sensing E b =
     (if bank_internalSenseAmp b then Inr (Go b)
      else
        let T = e_tech E; c = e_cell E; n = global_amps b;
            sa = SenseAmp_Initialize T n (\<not> voltage_sensing c) (minSenseVoltage c)
                   (width (bank_mat b) * i2d (bank_numColumnMat b) / i2d n) (globalSenseAmp b);
            b = b\<lparr>globalSenseAmp := sa\<rparr>
        in if sa_invalid sa then bank_illegal b
           else
             ebind (SenseAmp_CalculateRC T sa) (\<lambda>sa.
             ebind (global_mux_inputs b) (\<lambda>k.
             ebind (Mux_Initialize T (e_ip E) c k n (sa_capLoad sa) (sa_capLoad sa) 0 (globalBitlineMux b))
               (\<lambda>m.
             ebind (Mux_CalculateRC T (e_ip E) m) (\<lambda>m.
             let b = b\<lparr>globalSenseAmp := sa, globalBitlineMux := m\<rparr>
             in Inr (Go (if bank_memoryType b = tag
                         then b\<lparr>globalComparator := Comparator_Initialize T (wrap32 (bank_blockSize b)) 0
                                                       (globalComparator b)\<rparr>
                         else b)))))))"

definition plain_tsv :: "Env \<Rightarrow> BankWithoutHtree \<Rightarrow> BankWithoutHtree res" where
  "plain_tsv E b =
     (if 1 < bank_stackedDieCount b
      then ebind (TSV_Initialize (e_tech E) (global_tsv_type E) False (bank_tsvArray b)) (\<lambda>v.
             Inr (b\<lparr>bank_tsvArray := v\<rparr>))
      else Inr b)"

text \<open>
  Sensing outside of the mats is refused for a DRAM, without initialization, and on repeated wires.
\<close>

definition BankWithoutHtree_Initialize :: "Env \<Rightarrow> BankArgs \<Rightarrow> BankWithoutHtree \<Rightarrow> BankWithoutHtree res" where
  "BankWithoutHtree_Initialize E a b =
     (let b = plain_reset b; outside = \<not> internalSensing (e_ip E) in
      if outside \<and> dram_cell (e_cell E) then Inr (b\<lparr>bank_invalid := True\<rparr>)
      else if outside \<and> wireRepeaterType (e_globalWire E) \<noteq> repeated_none
      then Inr (b\<lparr>bank_invalid := True, bank_initialized := True\<rparr>)
      else
        finish
         (ebind (plain_address (bank_params E a b)) (\<lambda>b.
          fbind (plain_ways b) (\<lambda>b.
          fbind (plain_mat E b) (\<lambda>b.
          fbind (plain_sensing E b) (\<lambda>b.
          ebind (plain_tsv E (restore_muxes (ba_design a) b)) (\<lambda>b.
            Inr (Go (b\<lparr>bank_initialized := True\<rparr>)))))))))"

subsection \<open>CalculateArea and CalculateRC\<close>

text \<open>The global sense amplifiers, the multiplexer and the comparators extend the height.\<close>

definition global_parts_area :: "Env \<Rightarrow> BankWithoutHtree \<Rightarrow> BankWithoutHtree res" where
  "global_parts_area E b =
     (if bank_internalSenseAmp b then Inr b
      else
        ebind (SenseAmp_CalculateArea (e_tech E) (globalSenseAmp b)) (\<lambda>sa.
        ebind (Mux_CalculateArea (e_tech E) (globalBitlineMux b)) (\<lambda>m.
        let b = b\<lparr>globalSenseAmp := sa, globalBitlineMux := m, height := height b + height sa + height m\<rparr>
        in if bank_memoryType b = tag then
             ebind (Comparator_CalculateArea (e_tech E) (globalComparator b)) (\<lambda>c.
               Inr (b\<lparr>globalComparator := c,
                      height := height b + i2d (bank_associativity b) * area c / width b\<rparr>))
           else Inr b)))"

definition BankWithoutHtree_CalculateArea :: "Env \<Rightarrow> BankWithoutHtree \<Rightarrow> BankWithoutHtree res" where
  "BankWithoutHtree_CalculateArea E b =
     (if \<not> bank_initialized b then Inr b
      else if bank_invalid b
      then Inr (b\<lparr>height := invalid_value, width := invalid_value, area := invalid_value\<rparr>)
      else
        let m = bank_mat b; rows = i2d (bank_numRowMat b); columns = i2d (bank_numColumnMat b) in
        ebind (wire_sharing (e_globalWire E)) (\<lambda>(n, pitch).
        let tracks = dceil (rows * columns * i2d (numAddressBitRouteToMat b) / i2d n) * pitch in
        ebind (global_parts_area E (b\<lparr>height := height m * rows, width := width m * columns + tracks\<rparr>)) (\<lambda>b.
        if bad_aspect (bank_memoryType b) b then Inr (reject_bank b)
        else
          ebind (bank_tsv_area E b (bank_tsvArray b)) (\<lambda>(v, extra).
            Inr (b\<lparr>bank_tsvArray := v, area := height b * width b + extra\<rparr>)))))"

definition BankWithoutHtree_CalculateRC :: "Env \<Rightarrow> BankWithoutHtree \<Rightarrow> BankWithoutHtree res" where
  "BankWithoutHtree_CalculateRC E b =
     (if \<not> bank_initialized b \<or> bank_invalid b then Inr b
      else
        ebind (Mat_CalculateRC E (bank_mat b)) (\<lambda>m.
        let b = put_mat m b in
        if bank_internalSenseAmp b then Inr b
        else
          ebind (Mux_CalculateRC (e_tech E) (e_ip E) (globalBitlineMux b)) (\<lambda>x.
          ebind (SenseAmp_CalculateRC (e_tech E) (globalSenseAmp b)) (\<lambda>sa.
          let b = b\<lparr>globalBitlineMux := x, globalSenseAmp := sa\<rparr> in
          if bank_memoryType b = tag then
            ebind (Comparator_CalculateRC (e_tech E) (e_ip E) (globalComparator b)) (\<lambda>c.
              Inr (b\<lparr>globalComparator := c\<rparr>))
          else Inr b))))"

subsection \<open>CalculateLatencyAndPower: the buses inside\<close>

text \<open>
  The state of the loop over the rows of mats: the environment, the bank, the length of the wire to
  the row, and what the wire cost in the last row.
\<close>

type_synonym bus = "Env \<times> BankWithoutHtree \<times> dbl \<times> dbl \<times> dbl \<times> dbl"

text \<open>The bits on the bus of an active row; the tags of a row also need the result of each way.\<close>

definition bus_bits :: "BankWithoutHtree \<Rightarrow> int" where
  "bus_bits b = numAddressBitRouteToMat b + numDataBitRouteToMat b
     + (if bank_memoryType b = tag then bw_numWay b else 0)"

definition bus_inside :: "int \<Rightarrow> bus \<Rightarrow> bus res" where
  "bus_inside i s =
     (let (E, b, len, old) = s in
      ebind (global_wire E len old) (\<lambda>(E, latency, energy, leakageWire).
      let bits = (if i < bank_numActiveMatPerColumn b then i2d (bus_bits b) else 0);
          first = (if i = 0 then latency else 0);
          e = (if i < bank_numActiveMatPerColumn b
               then energy * bits * i2d (bank_numActiveMatPerRow b) else 0)
      in Inr (E, b\<lparr>readLatency := readLatency b + first, writeLatency := writeLatency b + first,
                    refreshLatency := refreshLatency b + first,
                    readDynamicEnergy := readDynamicEnergy b + e,
                    writeDynamicEnergy := writeDynamicEnergy b + e,
                    refreshDynamicEnergy := refreshDynamicEnergy b + e,
                    leakage := leakage b + leakageWire * bits * i2d (bank_numColumnMat b)\<rparr>,
              len, latency, energy, leakageWire)))"

subsection \<open>CalculateLatencyAndPower: the buses to the global sense amplifiers\<close>

text \<open>The resistance and the capacitance of a bitline with the multiplexer, and of the bus.\<close>

record Bitlines =
  res_local :: dbl
  cap_local :: dbl
  res_global :: dbl
  cap_global :: dbl

definition bitlines_of :: "Env \<Rightarrow> BankWithoutHtree \<Rightarrow> dbl \<Rightarrow> Bitlines" where
  "bitlines_of E b len =
     (let x = globalBitlineMux b; s = mat_subarray (bank_mat b); w = e_globalWire E
      in \<lparr>res_local = resBitline s + 3 * resNMOSPassTransistor x,
          cap_local = capBitline s + 6 * capNMOSPassTransistor x,
          res_global = len * resWirePerUnit w, cap_global = len * capWirePerUnit w\<rparr>)"

text \<open>The energy of the address bits on the bus.\<close>

definition bus_address_energy :: "Env \<Rightarrow> BankWithoutHtree \<Rightarrow> Bitlines \<Rightarrow> dbl" where
  "bus_address_energy E b l =
     cap_global l * vdd (e_tech E) * vdd (e_tech E) * i2d (numAddressBitRouteToMat b)"

definition bus_SRAM_latency :: "Env \<Rightarrow> Bitlines \<Rightarrow> BankWithoutHtree \<Rightarrow> BankWithoutHtree" where
  "bus_SRAM_latency E l b =
     (let vpre = readVoltage (e_cell E); half = res_local l * cap_global l / 2;
          latency = half + (res_local l + res_global l)
                      * (cap_global l / 2 + capForPreviousDelayCalculation (globalBitlineMux b));
          latency = latency * dlog (vpre / (vpre - sa_senseVoltage (globalSenseAmp b))) + half;
          x = Mux_CalculateLatency (lit 1 20) (globalBitlineMux b);
          sa = SenseAmp_CalculateLatency (e_tech E) (lit 1 20) (globalSenseAmp b);
          latency = latency + readLatency x
      in b\<lparr>globalBitlineMux := x, globalSenseAmp := sa,
           writeLatency := writeLatency b + latency,
           readLatency := readLatency b + (latency + readLatency sa)\<rparr>)"

definition bus_SRAM_energy :: "Env \<Rightarrow> Bitlines \<Rightarrow> BankWithoutHtree \<Rightarrow> BankWithoutHtree" where
  "bus_SRAM_energy E l b =
     (let vpre = readVoltage (e_cell E); energy = bus_address_energy E b l
      in b\<lparr>readDynamicEnergy := readDynamicEnergy b + energy + cap_global l * vpre * vpre * i2d (bw_numWay b),
           writeDynamicEnergy := writeDynamicEnergy b + energy
             + cap_global l * vpre * vpre * i2d (numDataBitRouteToMat b)\<rparr>)"

text \<open>Sensing of the resistance of a cell: with a current, or with a voltage through a load.\<close>

definition bus_sense_tau :: "Bitlines \<Rightarrow> dbl \<Rightarrow> dbl" where
  "bus_sense_tau l r = r * cap_global l + (r + res_global l) * cap_global l / 2"

definition bus_sense_latency :: "Env \<Rightarrow> Bitlines \<Rightarrow> BankWithoutHtree \<Rightarrow> dbl" where
  "bus_sense_latency E l b =
     (let c = e_cell E; s = mat_subarray (bank_mat b); v = sa_senseVoltage (globalSenseAmp b);
          pre = sub_voltagePrecharge s; on = voltageMemCellOn s; off = voltageMemCellOff s
      in if \<not> readMode c then
           let r = res_local l + resMemCellOff s
           in readLatency b + lit 63 (-2)
                * (res_global l * cap_global l / 2 * (r + res_global l / 3) / (r + res_global l))
         else
           let rOn = res_local l + (if readVoltage c = 0 then resMemCellOn s else resEquivalentOn s);
               rOff = rOn + (if readVoltage c = 0 then resistanceOff c - resistanceOn c
                             else resEquivalentOff s - resEquivalentOn s);
               latencyOn = bus_sense_tau l rOn * dlog ((pre - on) / (pre - on - v)) + bitlineDelayOn s;
               latencyOff = bus_sense_tau l rOff * dlog ((off - pre) / (off - pre - v)) + bitlineDelayOff s
           in readLatency b - bitlineDelay s + (if latencyOff < latencyOn then latencyOn else latencyOff))"

definition bus_resistive_latency :: "Env \<Rightarrow> Bitlines \<Rightarrow> BankWithoutHtree \<Rightarrow> BankWithoutHtree" where
  "bus_resistive_latency E l b =
     (let rm = resNMOSPassTransistor (globalBitlineMux b);
          tau = rm * cap_global l / 2 + (rm + res_global l) * (cap_global l + cap_local l) / 2
                  + (rm + res_global l + res_local l) * cap_local l / 2
      in b\<lparr>writeLatency := writeLatency b + lit 63 (-2) * tau, readLatency := bus_sense_latency E l b\<rparr>)"

definition bus_resistive_energy :: "Env \<Rightarrow> Bitlines \<Rightarrow> BankWithoutHtree \<Rightarrow> BankWithoutHtree" where
  "bus_resistive_energy E l b =
     (let c = e_cell E; s = mat_subarray (bank_mat b); energy = bus_address_energy E b l;
          vWrite = cMAX (dfabs (resetVoltage c)) (dfabs (setVoltage c));
          pre = sub_voltagePrecharge s; on = voltageMemCellOn s; bits = i2d (numDataBitRouteToMat b);
          sense = (if readMode c then cap_global l * (pre * pre - on * on) * bits else 0)
      in b\<lparr>readDynamicEnergy := readDynamicEnergy b + energy + sense,
           writeDynamicEnergy := writeDynamicEnergy b + energy + cap_global l * vWrite * vWrite * bits\<rparr>)"

text \<open>The first row gives the latency, the active ones the energy; a NAND flash gets neither.\<close>

definition bus_outside :: "int \<Rightarrow> bus \<Rightarrow> bus" where
  "bus_outside i s =
     (let (E, b, len, old) = s; c = e_cell E; l = bitlines_of E b len;
          active = i < bank_numActiveMatPerColumn b;
          b = (if memCellType c = SRAM then
                 let b = (if i = 0 then bus_SRAM_latency E l b else b)
                 in if active then bus_SRAM_energy E l b else b
               else if resistive_cell c \<or> memCellType c = FBRAM then
                 let b = (if i = 0 then bus_resistive_latency E l b else b)
                 in if active then bus_resistive_energy E l b else b
               else b)
      in (E, b, len, old))"

definition bus_row :: "int \<Rightarrow> bus \<Rightarrow> bus res" where
  "bus_row i s =
     (let (E, b, len, old) = s; s = (E, b, len - height (bank_mat b), old)
      in if bank_internalSenseAmp b then bus_inside i s else Inr (bus_outside i s))"

subsection \<open>CalculateLatencyAndPower\<close>

text \<open>The global multiplexer, sense amplifiers and comparators.\<close>

definition global_parts_power :: "Env \<Rightarrow> BankWithoutHtree \<Rightarrow> BankWithoutHtree res" where
  "global_parts_power E b =
     (if bank_internalSenseAmp b then Inr b
      else
        let T = e_tech E; ip = e_ip E; perRow = i2d (bank_numActiveMatPerRow b);
            x = Mux_CalculatePower T (Mux_CalculateLatency (lit 1 40) (globalBitlineMux b))
        in ebind (SenseAmp_CalculatePower T ip (SenseAmp_CalculateLatency T (lit 1 40) (globalSenseAmp b))) (\<lambda>sa.
           let b = b\<lparr>globalBitlineMux := x, globalSenseAmp := sa,
                     readLatency := readLatency b + (readLatency x + readLatency sa),
                     writeLatency := writeLatency b + (writeLatency x + writeLatency sa),
                     readDynamicEnergy := readDynamicEnergy b
                       + (readDynamicEnergy x + readDynamicEnergy sa) * perRow,
                     writeDynamicEnergy := writeDynamicEnergy b
                       + (writeDynamicEnergy x + writeDynamicEnergy sa) * perRow,
                     leakage := leakage b + (leakage x + leakage sa) * i2d (bank_numColumnMat b)\<rparr>
           in if bank_memoryType b = tag then
                ebind (Comparator_CalculateLatency T ip (lit 1 40) (globalComparator b)) (\<lambda>c.
                ebind (Comparator_CalculatePower T ip c) (\<lambda>c.
                  Inr (b\<lparr>globalComparator := c, readLatency := readLatency b + readLatency c,
                         readDynamicEnergy := readDynamicEnergy b + i2d (bw_numWay b) * readDynamicEnergy c,
                         leakage := leakage b + i2d (bank_associativity b) * leakage c\<rparr>)))
              else Inr b))"

text \<open>A refresh goes over all mats; everything else is added up from zero.\<close>

definition plain_start :: "Mat \<Rightarrow> BankWithoutHtree \<Rightarrow> BankWithoutHtree" where
  "plain_start m b = b\<lparr>readLatency := 0, resetLatency := 0, setLatency := 0, writeLatency := 0,
     refreshLatency := refreshLatency m * i2d (bank_numColumnMat b),
     readDynamicEnergy := 0, writeDynamicEnergy := 0, resetDynamicEnergy := 0, setDynamicEnergy := 0,
     refreshDynamicEnergy := all_mats b (refreshDynamicEnergy m), leakage := 0\<rparr>"

definition plain_buses :: "Env \<Rightarrow> BankWithoutHtree \<Rightarrow> (Env \<times> BankWithoutHtree) res" where
  "plain_buses E b =
     ebind (Mat_CalculateLatency E infinite_ramp (bank_mat b)) (\<lambda>m.
     ebind (Mat_CalculatePower E m) (\<lambda>(E, m).
     ebind (for_up 0 (bank_numRowMat b) bus_row
              (E, plain_start m (put_mat m b), height m * i2d (bank_numRowMat b + 1), 0, 0, 0)) (\<lambda>(E, b, _).
     ebind (global_parts_power E b) (\<lambda>b. Inr (E, b)))))"

text \<open>The mats are added in every case, also to a bank that is invalid.\<close>

definition plain_write_share :: "InputParameter \<Rightarrow> BankWithoutHtree \<Rightarrow> BankWithoutHtree" where
  "plain_write_share ip b =
     (if designTarget ip = cache \<and> cacheAccessMode ip = fast_access_mode
      then b\<lparr>writeDynamicEnergy := writeDynamicEnergy b / i2d (ip_associativity ip)\<rparr> else b)"

definition plain_mats :: "BankWithoutHtree \<Rightarrow> BankWithoutHtree" where
  "plain_mats b =
     (let m = bank_mat b in
      cell_energies m (b\<lparr>readLatency := readLatency b + readLatency m,
        resetLatency := writeLatency b + resetLatency m, setLatency := writeLatency b + setLatency m,
        writeLatency := writeLatency b + writeLatency m,
        readDynamicEnergy := readDynamicEnergy b + active_mats b (readDynamicEnergy m),
        resetDynamicEnergy := writeDynamicEnergy b + active_mats b (resetDynamicEnergy m),
        setDynamicEnergy := writeDynamicEnergy b + active_mats b (setDynamicEnergy m),
        writeDynamicEnergy := writeDynamicEnergy b + active_mats b (writeDynamicEnergy m),
        leakage := leakage b + all_mats b (leakage m)\<rparr>))"

text \<open>The latency over the TSVs; reset and set take that of a write, unlike in the H-tree bank.\<close>

definition plain_tsv_latency :: "TSV \<Rightarrow> BankWithoutHtree \<Rightarrow> BankWithoutHtree" where
  "plain_tsv_latency v b =
     (let n = i2d (bank_stackedDieCount b - 1); w = n * writeLatency v
      in b\<lparr>readLatency := readLatency b + (n * readLatency v + w), writeLatency := writeLatency b + w,
           resetLatency := resetLatency b + w, setLatency := setLatency b + w,
           refreshLatency := refreshLatency b + w\<rparr>)"

definition plain_dies :: "Env \<Rightarrow> BankWithoutHtree \<Rightarrow> BankWithoutHtree res" where
  "plain_dies E b =
     (if bank_initialized b \<and> \<not> bank_invalid b \<and> 1 < bank_stackedDieCount b
      then ebind (bank_tsv_power E b (bank_tsvArray b)) (\<lambda>v.
             Inr (add_tsv_energy v (plain_tsv_latency v (b\<lparr>bank_tsvArray := v\<rparr>))))
      else Inr b)"

definition BankWithoutHtree_CalculateLatencyAndPower ::
  "Env \<Rightarrow> BankWithoutHtree \<Rightarrow> (Env \<times> BankWithoutHtree) res" where
  "BankWithoutHtree_CalculateLatencyAndPower E b =
     ebind (if \<not> bank_initialized b then Inr (E, b)
            else if bank_invalid b
            then Inr (E, b\<lparr>readLatency := invalid_value, writeLatency := invalid_value,
                           readDynamicEnergy := invalid_value, writeDynamicEnergy := invalid_value,
                           leakage := invalid_value\<rparr>)
            else plain_buses E b) (\<lambda>(E, b).
     let b = plain_mats (plain_write_share (e_ip E) b) in
     ebind (plain_dies E (add_routing (bank_mat b) b)) (\<lambda>b. Inr (E, check_retention E b)))"

subsection \<open>Assignment\<close>

text \<open>The operator copies neither the ways nor the global circuits.\<close>

definition BankWithoutHtree_assign :: "BankWithoutHtree \<Rightarrow> BankWithoutHtree \<Rightarrow> BankWithoutHtree" where
  "BankWithoutHtree_assign lhs rhs = (BankUnit_assign lhs rhs)\<lparr>
     bw_numAddressBit := bw_numAddressBit rhs,
     numAddressBitRouteToMat := numAddressBitRouteToMat rhs,
     numDataBitRouteToMat := numDataBitRouteToMat rhs\<rparr>"

end
