(* ===== verification/Shape.thy ===== *)
theory Shape
  imports BankWithHtree BankWithoutHtree
begin

text \<open>
  What initialization and evaluation keep of the shape of a bank: the numbers of rows and columns of
  a subarray, and the numbers of subarrays and mats.
\<close>

subsection \<open>What a computation keeps\<close>

text \<open>A property of the result, when there is one.\<close>

definition keeps :: "('a \<Rightarrow> bool) \<Rightarrow> 'a res \<Rightarrow> bool" where
  "keeps P m \<longleftrightarrow> (\<forall>t. m = Inr t \<longrightarrow> P t)"

lemma keepsD: "keeps P m \<Longrightarrow> m = Inr t \<Longrightarrow> P t"
  by (simp add: keeps_def)

lemma keeps_Inr: "P x \<Longrightarrow> keeps P (Inr x)"
  by (simp add: keeps_def)

lemma keeps_ebind: "(\<And>x. keeps P (f x)) \<Longrightarrow> keeps P (ebind m f)"
  by (cases m) (simp_all add: keeps_def)

lemma keeps_then: "keeps Q m \<Longrightarrow> (\<And>x. Q x \<Longrightarrow> keeps P (f x)) \<Longrightarrow> keeps P (ebind m f)"
  by (cases m) (simp_all add: keeps_def)

lemma keeps_if: "keeps P a \<Longrightarrow> keeps P b \<Longrightarrow> keeps P (if c then a else b)"
  by simp

subsection \<open>Subarrays\<close>

definition sub_shape :: "SubArray \<Rightarrow> int \<times> int" where
  "sub_shape s = (sub_numRow s, sub_numColumn s)"

text \<open>Every block of the initialization passes on or returns a subarray of the same shape.\<close>

definition same_shape :: "SubArray \<Rightarrow> ('a \<Rightarrow> SubArray option) \<Rightarrow> (SubArray, 'a) early res \<Rightarrow> bool" where
  "same_shape s get m \<longleftrightarrow> (case m of Inl _ \<Rightarrow> True | Inr (Return t) \<Rightarrow> sub_shape t = sub_shape s
     | Inr (Go x) \<Rightarrow> (case get x of None \<Rightarrow> True | Some t \<Rightarrow> sub_shape t = sub_shape s))"

lemma same_shape_simps [simp]:
  "same_shape s get (Inl e)" "same_shape s get (Inr (Return t)) = (sub_shape t = sub_shape s)"
  "same_shape s get (Inr (Go x)) = (case get x of None \<Rightarrow> True | Some t \<Rightarrow> sub_shape t = sub_shape s)"
  by (simp_all add: same_shape_def)

lemma same_shape_fbind:
  assumes "same_shape s get m"
    "\<And>x. m = Inr (Go x) \<Longrightarrow> (\<And>t. get x = Some t \<Longrightarrow> sub_shape t = sub_shape s) \<Longrightarrow> same_shape s get' (f x)"
  shows "same_shape s get' (fbind m f)"
  using assms by (cases m rule: early_cases) (auto split: option.splits)

lemma same_shape_ebind: "(\<And>x. m = Inr x \<Longrightarrow> same_shape s get (f x)) \<Longrightarrow> same_shape s get (ebind m f)"
  by (cases m) simp_all

lemma same_shape_if: "same_shape s get a \<Longrightarrow> same_shape s get b \<Longrightarrow> same_shape s get (if c then a else b)"
  by simp

lemma same_shape_trans: "same_shape s get m \<Longrightarrow> sub_shape s = sub_shape t \<Longrightarrow> same_shape t get m"
  by (cases m rule: early_cases) (auto split: option.splits)

lemma same_shape_stop [simp]: "same_shape s get (sub_illegal t) = (sub_shape t = sub_shape s)"
  "same_shape s get (sub_reject t) = (sub_shape t = sub_shape s)"
  by (simp_all add: sub_illegal_def sub_reject_def sub_shape_def)

lemma cross_point_shape: "same_shape s (\<lambda>_. None) (cross_point_currents E s)"
  by (auto simp: cross_point_currents_def Let_def intro!: same_shape_ebind)

lemma currents_shape: "same_shape s (\<lambda>_. None) (sub_currents E s)"
  by (auto simp: sub_currents_def Let_def cross_point_shape intro!: same_shape_ebind)

lemma mux_width_shape: "same_shape s (\<lambda>_. None) (sub_mux_width E x s)"
  by (auto simp: sub_mux_width_def Let_def intro!: same_shape_ebind)

lemma sensing_shape: "sub_sensing E s = Inr t \<Longrightarrow> sub_shape t = sub_shape s"
  by (auto simp: sub_sensing_def sub_shape_def Let_def split: if_splits)

lemma lengths_shape: "sub_lengths E s = Inr t \<Longrightarrow> sub_shape t = sub_shape s"
  by (auto simp: sub_lengths_def sub_shape_def Let_def ebind_Inr)

lemma sense_voltage_shape: "same_shape s Some (sub_sense_voltage E s)"
  by (auto simp: sub_sense_voltage_def sub_shape_def Let_def)

lemma precharge_voltage_shape: "same_shape s Some (sub_precharge_voltage T s)"
  by (auto simp: sub_precharge_voltage_def sub_shape_def Let_def)

lemma read_voltages_shape: "same_shape s Some (sub_read_voltages E s)"
proof -
  have "same_shape s Some (sub_precharge_voltage T t)" if "sub_shape t = sub_shape s" for T t
    using same_shape_trans [OF precharge_voltage_shape that] .
  then show ?thesis by (auto simp: sub_read_voltages_def sub_shape_def Let_def)
qed

lemma access_shape: "same_shape s Some (sub_access E s)"
proof -
  have "same_shape s Some (sub_read_voltages E t)" if "sub_shape t = sub_shape s" for t
    using same_shape_trans [OF read_voltages_shape that] .
  then show ?thesis
    by (auto simp: sub_access_def sub_shape_def Let_def ebind_Inr split: if_splits intro!: same_shape_ebind)
qed

lemma decoders_shape: "sub_decoders E load s = Inr t \<Longrightarrow> sub_shape t = sub_shape s"
  by (auto simp: sub_decoders_def sub_shape_def Let_def ebind_Inr)

lemma output_muxes_shape: "sub_output_muxes E x s = Inr t \<Longrightarrow> sub_shape t = sub_shape s"
  by (auto simp: sub_output_muxes_def sub_shape_def Let_def ebind_Inr)

lemma bitline_mux_shape: "sub_bitline_mux E x y s = Inr t \<Longrightarrow> sub_shape t = sub_shape s"
  by (auto simp: sub_bitline_mux_def sub_shape_def Let_def ebind_Inr)

lemma sense_amps_shape: "sub_sense_amps E x s = Inr t \<Longrightarrow> sub_shape t = sub_shape s"
  by (auto simp: sub_sense_amps_def Let_def ebind_Inr sub_shape_def split: if_splits
      dest!: bitline_mux_shape)

lemma parts_shape: "same_shape s Some (sub_parts E x y load s)"
  by (auto simp: sub_parts_def Let_def sub_shape_def intro!: same_shape_ebind
      dest!: decoders_shape output_muxes_shape sense_amps_shape)

theorem SubArray_Initialize_shape:
  assumes "SubArray_Initialize E r c multi split mux internal mux1 mux2 level levels s = Inr t"
  shows "sub_shape t = (r, c)"
proof -
  let ?s = "sub_params r c multi split mux internal mux1 mux2 level levels s"
  have P: "same_shape ?s Some
       (ebind (sub_shape_legal E ?s) (\<lambda>legal.
        if \<not> legal then sub_illegal ?s
        else
          fbind (sub_currents E ?s) (\<lambda>(wordI, bitI).
          fbind (sub_mux_width E bitI ?s) (\<lambda>w.
          ebind (sub_sensing E ?s) (\<lambda>s.
          ebind (sub_lengths E s) (\<lambda>s.
          let load = sub_mux_load E w s in
          fbind (sub_sense_voltage E s) (\<lambda>s.
          fbind (sub_access E s) (\<lambda>s.
            sub_parts E wordI bitI load s))))))))"
    unfolding Let_def
    apply (rule same_shape_ebind)
    apply (rule same_shape_if)
     apply simp
    apply (rule same_shape_fbind [OF currents_shape], split prod.split, intro allI impI)
    apply (rule same_shape_fbind [OF mux_width_shape])
    apply (rule same_shape_ebind, drule sensing_shape)
    apply (rule same_shape_ebind, drule lengths_shape)
    apply (rule same_shape_fbind [OF same_shape_trans [OF sense_voltage_shape]], erule trans, assumption)
    apply (rule same_shape_fbind [OF same_shape_trans [OF access_shape]], blast)
    apply (rule same_shape_trans [OF parts_shape], blast)
    done
  moreover have "sub_shape ?s = (r, c)" by (simp add: sub_params_def sub_shape_def)
  ultimately show ?thesis
    using assms by (auto simp: SubArray_Initialize_def finish_Inr Let_def)
qed

text \<open>The evaluation keeps the shape.\<close>

lemma SubArray_CalculateArea_shape: "keeps (\<lambda>t. sub_shape t = sub_shape s) (SubArray_CalculateArea E s)"
  unfolding SubArray_CalculateArea_def Let_def
  by (intro keeps_if keeps_ebind keeps_Inr) (simp_all add: sub_shape_def)

lemma output_chain_shape [simp]: "sub_shape (sub_output_chain E x s) = sub_shape s"
  by (simp add: sub_output_chain_def sub_shape_def Let_def)

lemma decoder_latency_shape: "keeps (\<lambda>t. sub_shape t = sub_shape s) (sub_decoder_latency E ramp s)"
  unfolding sub_decoder_latency_def Let_def
  by (intro keeps_ebind keeps_Inr) (simp add: sub_shape_def)

lemma latency_SRAM_shape: "keeps (\<lambda>t. sub_shape t = sub_shape s) (sub_latency_SRAM E x s)"
  unfolding sub_latency_SRAM_def Let_def split_beta
  by (intro keeps_ebind keeps_Inr)
     (simp add: sub_shape_def, simp add: sub_output_chain_def Let_def)

lemma latency_DRAM_shape: "sub_shape (sub_latency_DRAM E x s) = sub_shape s"
  by (simp add: sub_latency_DRAM_def Let_def split_beta sub_shape_def)

lemma latency_resistive_shape: "sub_shape (sub_latency_resistive E x s) = sub_shape s"
proof -
  have "sub_shape (sub_resistive_write E t) = sub_shape t" for t
    by (simp add: sub_resistive_write_def sub_shape_def Let_def)
  moreover have "sub_shape (fst (sub_resistive_delay E s)) = sub_shape s"
    by (simp add: sub_resistive_delay_def sub_shape_def Let_def split_beta)
  moreover have "sub_shape (t\<lparr>readLatency := y\<rparr>) = sub_shape t" for t y
    by (simp add: sub_shape_def)
  ultimately show ?thesis by (simp add: sub_latency_resistive_def Let_def split_beta)
qed

lemma latency_NAND_shape: "keeps (\<lambda>t. sub_shape t = sub_shape s) (sub_latency_NAND E x s)"
  unfolding sub_latency_NAND_def Let_def split_beta
  by (intro keeps_ebind keeps_Inr) (simp add: sub_shape_def sub_output_chain_def Let_def)

lemma SubArray_CalculateLatency_shape:
  "keeps (\<lambda>t. sub_shape t = sub_shape s) (SubArray_CalculateLatency E ramp s)"
proof -
  have c: "sub_shape (t\<lparr>chargeLatency := y\<rparr>) = sub_shape t" for t y by (simp add: sub_shape_def)
  have "keeps (\<lambda>t. sub_shape t = sub_shape s) (sub_latency_SRAM E x t)"
    "keeps (\<lambda>t. sub_shape t = sub_shape s) (sub_latency_NAND E x t)"
    if "sub_shape t = sub_shape s" for x t
    using latency_SRAM_shape [of t E x] latency_NAND_shape [of t E x] that by simp_all
  then show ?thesis
    unfolding SubArray_CalculateLatency_def Let_def
    by (intro keeps_if keeps_then [OF decoder_latency_shape] keeps_Inr)
       (simp_all add: c latency_DRAM_shape latency_resistive_shape, simp_all add: sub_shape_def)
qed

lemma power_parts_shape: "keeps (\<lambda>t. sub_shape t = sub_shape s) (sub_power_parts E s)"
  unfolding sub_power_parts_def Let_def
  by (intro keeps_ebind keeps_Inr) (simp add: sub_shape_def)

lemma power_cells_shape: "keeps (\<lambda>Et. sub_shape (snd Et) = sub_shape s) (sub_power_cells E s)"
proof -
  have 1: "sub_shape (sub_cell_write E x y t) = sub_shape t" for x y t
    by (simp add: sub_cell_write_def sub_shape_def Let_def)
  have 2: "sub_shape (t\<lparr>leakage := y\<rparr>) = sub_shape t" for t y
    by (simp add: sub_shape_def)
  have "keeps (\<lambda>Et. sub_shape (snd Et) = sub_shape s) (sub_power_resistive E s)"
    unfolding sub_power_resistive_def Let_def
    by (intro keeps_ebind keeps_Inr) (simp only: snd_conv 2 1, simp add: sub_shape_def)
  moreover have "keeps (\<lambda>t. sub_shape t = sub_shape s) (sub_power_SRAM E s)"
    unfolding sub_power_SRAM_def Let_def by (intro keeps_ebind keeps_Inr) (simp add: sub_shape_def)
  moreover have "keeps (\<lambda>t. sub_shape t = sub_shape s) (sub_power_NAND E s)"
    unfolding sub_power_NAND_def Let_def by (intro keeps_ebind keeps_Inr) (simp add: sub_shape_def)
  moreover have "sub_shape (sub_power_DRAM E s) = sub_shape s"
    by (simp add: sub_power_DRAM_def sub_shape_def Let_def)
  ultimately show ?thesis
    unfolding sub_power_cells_def Let_def by (auto intro!: keeps_if keeps_then keeps_Inr)
qed

lemma SubArray_CalculatePower_shape:
  "keeps (\<lambda>Et. sub_shape (snd Et) = sub_shape s) (SubArray_CalculatePower E s)"
proof -
  have 1: "sub_shape (sub_power_sums c (sub_way_share ip t)) = sub_shape t" for c ip t
    by (simp add: sub_power_sums_def sub_way_share_def sub_shape_def Let_def)
  have "keeps (\<lambda>Et. sub_shape (snd Et) = sub_shape s)
      (ebind (sub_power_cells E t) (\<lambda>(E, s). Inr (E, sub_power_sums (e_cell E) (sub_way_share (e_ip E) s))))"
    if "sub_shape t = sub_shape s" for t
    using power_cells_shape [of t E] that by (auto intro!: keeps_then keeps_Inr simp: 1)
  then show ?thesis
    unfolding SubArray_CalculatePower_def Let_def
    by (intro keeps_if keeps_then [OF power_parts_shape] keeps_Inr) (simp_all add: sub_shape_def)
qed

subsection \<open>Mats\<close>

text \<open>Updates of the members of the base class do not touch the subarray.\<close>

lemma mat_subarray_base [simp]:
  fixes m :: Mat
  shows "mat_subarray (m\<lparr>height := x\<rparr>) = mat_subarray m"
    "mat_subarray (m\<lparr>width := x\<rparr>) = mat_subarray m"
    "mat_subarray (m\<lparr>area := x\<rparr>) = mat_subarray m"
    "mat_subarray (m\<lparr>readLatency := x\<rparr>) = mat_subarray m"
    "mat_subarray (m\<lparr>writeLatency := x\<rparr>) = mat_subarray m"
    "mat_subarray (m\<lparr>resetLatency := x\<rparr>) = mat_subarray m"
    "mat_subarray (m\<lparr>setLatency := x\<rparr>) = mat_subarray m"
    "mat_subarray (m\<lparr>refreshLatency := x\<rparr>) = mat_subarray m"
    "mat_subarray (m\<lparr>readDynamicEnergy := x\<rparr>) = mat_subarray m"
    "mat_subarray (m\<lparr>writeDynamicEnergy := x\<rparr>) = mat_subarray m"
    "mat_subarray (m\<lparr>resetDynamicEnergy := x\<rparr>) = mat_subarray m"
    "mat_subarray (m\<lparr>setDynamicEnergy := x\<rparr>) = mat_subarray m"
    "mat_subarray (m\<lparr>refreshDynamicEnergy := x\<rparr>) = mat_subarray m"
    "mat_subarray (m\<lparr>cellReadEnergy := x\<rparr>) = mat_subarray m"
    "mat_subarray (m\<lparr>cellSetEnergy := x\<rparr>) = mat_subarray m"
    "mat_subarray (m\<lparr>cellResetEnergy := x\<rparr>) = mat_subarray m"
    "mat_subarray (m\<lparr>leakage := x\<rparr>) = mat_subarray m"
  by (cases m; simp)+

definition mat_dims :: "Mat \<Rightarrow> int \<times> int" where
  "mat_dims m = sub_shape (mat_subarray m)"

lemma mat_dims_predecoders [simp]: "mat_dims (set_predecoders ps m) = mat_dims m"
  by (simp add: set_predecoders_def mat_dims_def)

lemma mat_illegal_iff: "mat_illegal m = Inr (Return m') \<longleftrightarrow> m' = m\<lparr>mat_invalid := True, mat_initialized := True\<rparr>"
  "mat_illegal m \<noteq> Inr (Go x)" "mat_illegal m \<noteq> Inl e"
  by (auto simp: mat_illegal_def)

lemma mat_shape_Return: "mat_shape m = Inr (Return m') \<Longrightarrow> mat_invalid m'"
  by (auto simp: mat_shape_def Let_def ebind_Inr mat_illegal_iff split: if_splits option.splits)

lemma mat_predecoder_bits_Return: "mat_predecoder_bits m bits muxes = Inr (Return m') \<Longrightarrow> mat_invalid m'"
  by (auto simp: mat_predecoder_bits_def Let_def ebind_Inr mat_illegal_iff split: if_splits)

lemma mat_parts_dims: "keeps (\<lambda>t. mat_dims t = mat_dims m) (mat_parts E m ns)"
  unfolding mat_parts_def Let_def
  by (intro keeps_ebind keeps_if keeps_Inr) (simp_all add: mat_dims_def set_predecoders_def)

theorem Mat_Initialize_dims:
  assumes "Mat_Initialize E a m = Inr m'" "\<not> mat_invalid m'"
  obtains bits muxes where "mat_shape (mat_params a m) = Inr (Go (fst (mat_dims m'), snd (mat_dims m'), bits, muxes))"
proof -
  let ?m = "mat_params a m"
  obtain x where x: "mat_shape ?m = Inr x" using assms(1)
    by (cases "mat_shape ?m") (auto simp: Mat_Initialize_def)
  show ?thesis
  proof (cases x)
    case (Return r)
    then have "m' = r" using x assms(1) by (simp add: Mat_Initialize_def)
    then show ?thesis using mat_shape_Return x Return assms(2) by auto
  next
    case (Go y)
    obtain r c bits muxes where y: "y = (r, c, bits, muxes)" by (cases y)
    from assms(1) obtain s where s: "SubArray_Initialize E r c (1 < mat_numRowPerSet ?m) True (mat_muxSenseAmp ?m)
        (mat_internalSenseAmp ?m) (mat_muxOutputLev1 ?m) (mat_muxOutputLev2 ?m)
        (mat_areaOptimizationLevel ?m) (ma_monolithicStackCount a) (mat_subarray ?m) = Inr s"
      and rest: "finish (if sub_invalid s then mat_illegal (?m\<lparr>mat_subarray := s\<rparr>)
        else ebind (SubArray_CalculateArea E s) (\<lambda>s.
          fbind (mat_predecoder_bits (?m\<lparr>mat_subarray := s\<rparr>) bits muxes) (\<lambda>ns.
          ebind (mat_parts E (?m\<lparr>mat_subarray := s\<rparr>) ns) (\<lambda>m. Inr (Go m))))) = Inr m'"
      unfolding Mat_Initialize_def Let_def x Go y
      by (cases "SubArray_Initialize E r c (1 < mat_numRowPerSet ?m) True (mat_muxSenseAmp ?m)
        (mat_internalSenseAmp ?m) (mat_muxOutputLev1 ?m) (mat_muxOutputLev2 ?m)
        (mat_areaOptimizationLevel ?m) (ma_monolithicStackCount a) (mat_subarray ?m)") (simp_all cong: if_cong)
    have "\<not> sub_invalid s" using rest assms(2) by (auto simp: finish_Inr mat_illegal_iff)
    with rest obtain t ns where t: "SubArray_CalculateArea E s = Inr t"
      and m': "mat_parts E (?m\<lparr>mat_subarray := t\<rparr>) ns = Inr m'"
      using assms(2) mat_predecoder_bits_Return
      by (auto simp: finish_Inr ebind_Inr fbind_Go fbind_Return)
    have "mat_dims m' = sub_shape t" using keepsD [OF mat_parts_dims m'] by (simp add: mat_dims_def)
    also have "\<dots> = (r, c)"
      using keepsD [OF SubArray_CalculateArea_shape t] SubArray_Initialize_shape [OF s] by simp
    finally show ?thesis using that x Go y by simp
  qed
qed

lemma update_predecoders_dims: "keeps (\<lambda>t. mat_dims t = mat_dims m) (update_predecoders f m)"
  unfolding update_predecoders_def by (intro keeps_ebind keeps_Inr) simp

lemma comparator_area_dims: "keeps (\<lambda>t. mat_dims t = mat_dims m) (mat_comparator_area E m)"
  unfolding mat_comparator_area_def Let_def
  by (intro keeps_ebind keeps_if keeps_Inr) (simp_all add: mat_dims_def)

lemma extend_shorter_dims [simp]: "mat_dims (extend_shorter x m) = mat_dims m"
  by (simp add: extend_shorter_def mat_dims_def)

lemma tsv_area_dims: "keeps (\<lambda>t. mat_dims t = mat_dims m) (mat_tsv_area E m)"
  unfolding mat_tsv_area_def Let_def
  by (intro keeps_ebind keeps_Inr) (simp add: mat_dims_def extend_shorter_def)

lemma mat_dims_trans: "keeps (\<lambda>t. mat_dims t = mat_dims m) x \<Longrightarrow> mat_dims m = d \<Longrightarrow> keeps (\<lambda>t. mat_dims t = d) x"
  by simp

lemma Mat_CalculateArea_dims: "keeps (\<lambda>t. mat_dims t = mat_dims m) (Mat_CalculateArea E m)"
  unfolding Mat_CalculateArea_def Let_def
  apply (rule keeps_if, rule keeps_Inr, rule refl)
  apply (rule keeps_if, rule keeps_Inr, simp add: mat_dims_def)
  apply (rule keeps_then [OF update_predecoders_dims])
  apply (rule keeps_then [where Q = "\<lambda>t. mat_dims t = mat_dims m"])
   apply (rule keeps_if)
    apply (rule mat_dims_trans [OF tsv_area_dims], simp add: mat_dims_def)
   apply (rule keeps_Inr, simp add: mat_dims_def extend_shorter_def)
  apply (rule keeps_then [OF mat_dims_trans [OF comparator_area_dims]], assumption)
  apply (rule keeps_Inr, simp add: mat_dims_def)
  done

lemma Mat_CalculateRC_dims: "keeps (\<lambda>t. mat_dims t = mat_dims m) (Mat_CalculateRC E m)"
  unfolding Mat_CalculateRC_def
  by (intro keeps_if keeps_then [OF update_predecoders_dims] keeps_ebind keeps_Inr)
     (simp_all add: mat_dims_def)

lemma decode_latency_dims: "keeps (\<lambda>t. mat_dims t = mat_dims m) (mat_decode_latency E ramp m)"
  unfolding mat_decode_latency_def Let_def
  by (intro keeps_if keeps_then [OF update_predecoders_dims] keeps_ebind keeps_Inr)
     (simp_all add: mat_dims_def)

lemma Mat_CalculateLatency_dims: "keeps (\<lambda>t. mat_dims t = mat_dims m) (Mat_CalculateLatency E ramp m)"
  unfolding Mat_CalculateLatency_def Let_def
  by (intro keeps_if keeps_then [OF decode_latency_dims] keeps_then [OF SubArray_CalculateLatency_shape]
      keeps_ebind keeps_Inr) (simp_all add: mat_dims_def)

lemma Mat_CalculatePower_dims: "keeps (\<lambda>Et. mat_dims (snd Et) = mat_dims m) (Mat_CalculatePower E m)"
proof -
  have "keeps (\<lambda>t. mat_dims t = mat_dims u) (mat_comparator_power E (mat_tsv_power (mat_sums u)))" for E u
    unfolding mat_comparator_power_def Let_def
    by (intro keeps_if keeps_ebind keeps_Inr)
       (simp_all add: mat_dims_def mat_tsv_power_def mat_sums_def Let_def)
  then have 1: "keeps (\<lambda>t. mat_dims t = mat_dims m) (mat_comparator_power E (mat_tsv_power (mat_sums u)))"
    if "mat_dims u = mat_dims m" for E u
    using that by metis
  have 2: "keeps (\<lambda>Et. mat_dims (snd Et) = mat_dims m) (ebind (SubArray_CalculatePower E (mat_subarray t))
      (\<lambda>(E, s). ebind (mat_comparator_power E (mat_tsv_power (mat_sums (t\<lparr>mat_subarray := s\<rparr>)))) (\<lambda>m. Inr (E, m))))"
    if "mat_dims t = mat_dims m" for t
    by (rule keeps_then [OF SubArray_CalculatePower_shape], split prod.split, intro allI impI,
        rule keeps_then [OF 1]) (use that in \<open>auto simp: mat_dims_def intro: keeps_Inr\<close>)
  show ?thesis
    unfolding Mat_CalculatePower_def
    by (intro keeps_if keeps_then [OF update_predecoders_dims] keeps_Inr)
       (simp_all add: 2, simp_all add: mat_dims_def)
qed

end
