(* ===== verification/BankShape.thy ===== *)
theory BankShape
  imports Shape
begin

text \<open>
  The evaluation of a bank, in both organisations, keeps its dimensions: those of a subarray and the
  numbers of subarrays and mats.
\<close>

subsection \<open>The dimensions of a bank\<close>

type_synonym dims = "(int \<times> int) \<times> (int \<times> int) \<times> int \<times> int"

text \<open>The mat has these dimensions, and the fields of the base class repeat them.\<close>

definition bank_has :: "dims \<Rightarrow> 'a BankUnit_scheme \<Rightarrow> bool" where
  "bank_has D b \<longleftrightarrow> mat_dims (bank_mat b) = fst D
     \<and> (mat_subarray_numRow b, mat_subarray_numColumn b) = fst D
     \<and> (bank_numRowMat b, bank_numColumnMat b) = fst (snd D)
     \<and> (bank_numRowSubarray b, bank_numColumnSubarray b) = snd (snd D)"

lemma bank_has_base [simp]:
  fixes b :: "'a BankUnit_scheme"
  shows "bank_has D (b\<lparr>height := x1\<rparr>) = bank_has D b"
    "bank_has D (b\<lparr>width := x2\<rparr>) = bank_has D b"
    "bank_has D (b\<lparr>area := x3\<rparr>) = bank_has D b"
    "bank_has D (b\<lparr>readLatency := x4\<rparr>) = bank_has D b"
    "bank_has D (b\<lparr>writeLatency := x5\<rparr>) = bank_has D b"
    "bank_has D (b\<lparr>resetLatency := x6\<rparr>) = bank_has D b"
    "bank_has D (b\<lparr>setLatency := x7\<rparr>) = bank_has D b"
    "bank_has D (b\<lparr>refreshLatency := x8\<rparr>) = bank_has D b"
    "bank_has D (b\<lparr>readDynamicEnergy := x9\<rparr>) = bank_has D b"
    "bank_has D (b\<lparr>writeDynamicEnergy := x10\<rparr>) = bank_has D b"
    "bank_has D (b\<lparr>resetDynamicEnergy := x11\<rparr>) = bank_has D b"
    "bank_has D (b\<lparr>setDynamicEnergy := x12\<rparr>) = bank_has D b"
    "bank_has D (b\<lparr>refreshDynamicEnergy := x13\<rparr>) = bank_has D b"
    "bank_has D (b\<lparr>cellReadEnergy := x14\<rparr>) = bank_has D b"
    "bank_has D (b\<lparr>cellSetEnergy := x15\<rparr>) = bank_has D b"
    "bank_has D (b\<lparr>cellResetEnergy := x16\<rparr>) = bank_has D b"
    "bank_has D (b\<lparr>leakage := x17\<rparr>) = bank_has D b"
    "bank_has D (b\<lparr>routingReadLatency := x18\<rparr>) = bank_has D b"
    "bank_has D (b\<lparr>routingWriteLatency := x19\<rparr>) = bank_has D b"
    "bank_has D (b\<lparr>routingResetLatency := x20\<rparr>) = bank_has D b"
    "bank_has D (b\<lparr>routingSetLatency := x21\<rparr>) = bank_has D b"
    "bank_has D (b\<lparr>routingRefreshLatency := x22\<rparr>) = bank_has D b"
    "bank_has D (b\<lparr>routingReadDynamicEnergy := x23\<rparr>) = bank_has D b"
    "bank_has D (b\<lparr>routingWriteDynamicEnergy := x24\<rparr>) = bank_has D b"
    "bank_has D (b\<lparr>routingResetDynamicEnergy := x25\<rparr>) = bank_has D b"
    "bank_has D (b\<lparr>routingSetDynamicEnergy := x26\<rparr>) = bank_has D b"
    "bank_has D (b\<lparr>routingRefreshDynamicEnergy := x27\<rparr>) = bank_has D b"
    "bank_has D (b\<lparr>routingLeakage := x28\<rparr>) = bank_has D b"
    "bank_has D (b\<lparr>bank_initialized := x29\<rparr>) = bank_has D b"
    "bank_has D (b\<lparr>bank_invalid := x30\<rparr>) = bank_has D b"
    "bank_has D (b\<lparr>bank_muxSenseAmp := x31\<rparr>) = bank_has D b"
    "bank_has D (b\<lparr>bank_muxOutputLev1 := x32\<rparr>) = bank_has D b"
    "bank_has D (b\<lparr>bank_muxOutputLev2 := x33\<rparr>) = bank_has D b"
    "bank_has D (b\<lparr>bank_tsvArray := x34\<rparr>) = bank_has D b"
  by (cases b; simp add: bank_has_def)+

lemma bank_has_tree [simp]:
  fixes b :: "BankWithHtree"
  shows "bank_has D (b\<lparr>numAddressBit := x35\<rparr>) = bank_has D b"
    "bank_has D (b\<lparr>numDataDistributeBit := x36\<rparr>) = bank_has D b"
    "bank_has D (b\<lparr>numDataBroadcastBit := x37\<rparr>) = bank_has D b"
    "bank_has D (b\<lparr>levelHorizontal := x38\<rparr>) = bank_has D b"
    "bank_has D (b\<lparr>levelVertical := x39\<rparr>) = bank_has D b"
    "bank_has D (b\<lparr>horizontal := x40\<rparr>) = bank_has D b"
    "bank_has D (b\<lparr>vertical := x41\<rparr>) = bank_has D b"
  by (cases b; simp add: bank_has_def)+

lemma bank_has_plain [simp]:
  fixes b :: "BankWithoutHtree"
  shows "bank_has D (b\<lparr>globalBitlineMux := x42\<rparr>) = bank_has D b"
    "bank_has D (b\<lparr>globalSenseAmp := x43\<rparr>) = bank_has D b"
    "bank_has D (b\<lparr>globalComparator := x44\<rparr>) = bank_has D b"
  by (cases b; simp add: bank_has_def)+

lemma bank_has_put: "bank_has D b \<Longrightarrow> mat_dims m = mat_dims (bank_mat b) \<Longrightarrow> bank_has D (put_mat m b)"
  by (simp add: bank_has_def put_mat_def mat_dims_def sub_shape_def)

lemma bank_has_shared [simp]:
  fixes b :: "'a BankUnit_scheme"
  shows "bank_has D (restore_muxes d b) = bank_has D b" "bank_has D (reject_bank b) = bank_has D b"
    "bank_has D (add_tsv_energy v b) = bank_has D b" "bank_has D (check_retention E b) = bank_has D b"
    "bank_has D (add_routing m b) = bank_has D b" "bank_has D (cell_energies m b) = bank_has D b"
  by (simp_all add: restore_muxes_def reject_bank_def add_tsv_energy_def check_retention_def
      add_routing_def cell_energies_def Let_def)

text \<open>A mat that is evaluated keeps the dimensions of the bank.\<close>

lemma keeps_put:
  assumes "keeps (\<lambda>m. mat_dims m = mat_dims (bank_mat b)) x" "bank_has D b"
    and "\<And>m. bank_has D (put_mat m b) \<Longrightarrow> keeps P (f m)"
  shows "keeps P (ebind x f)"
  by (rule keeps_then [OF assms(1)]) (rule assms(3), rule bank_has_put [OF assms(2)])

subsection \<open>With an H-tree\<close>

lemma bank_has_tree_steps [simp]:
  "bank_has D (htree_mats m b) = bank_has D b" "bank_has D (add_level x c y z w b) = bank_has D b"
  "bank_has D (htree_tsv_latency v b) = bank_has D b"
  by (simp_all add: htree_mats_def add_level_def htree_tsv_latency_def Let_def split_beta)

lemma htree_tsv_has: "bank_has D b \<Longrightarrow> keeps (bank_has D) (htree_tsv E b)"
  unfolding htree_tsv_def by (intro keeps_if keeps_ebind keeps_Inr) simp_all

lemma htree_dies_has: "bank_has D b \<Longrightarrow> keeps (bank_has D) (htree_dies E b)"
  unfolding htree_dies_def by (intro keeps_if keeps_ebind keeps_Inr) simp_all

lemma tree_lengths_has: "bank_has D b \<Longrightarrow> keeps (bank_has D) (tree_lengths m sh b)"
  unfolding tree_lengths_def Let_def split_beta by (intro keeps_ebind keeps_Inr) simp

lemma keeps_for_up:
  assumes "P s" "\<And>i s. P s \<Longrightarrow> keeps P (f i s)"
  shows "keeps P (for_up lo hi f s)"
  using efold_inv [of f "[lo..hi - 1]" s _ P] assms by (auto simp: keeps_def for_up_def)

lemma htree_level_has: "bank_has D (snd Eb) \<Longrightarrow> keeps (\<lambda>Eb. bank_has D (snd Eb)) (htree_level L i Eb)"
  unfolding htree_level_def
  by (intro keeps_ebind keeps_if) (auto simp: keeps_def ebind_Inr split_beta)

lemma BankWithHtree_CalculateArea_has:
  assumes "bank_has D b" shows "keeps (bank_has D) (BankWithHtree_CalculateArea E b)"
proof -
  have "keeps (bank_has D) (ebind (tree_lengths m sh t) (\<lambda>b.
          ebind (bank_tsv_area E b (bank_tsvArray b)) (\<lambda>(v, extra).
            Inr (b\<lparr>bank_tsvArray := v, area := h * w + extra\<rparr>))))" if "bank_has D t" for m sh t h w
    by (rule keeps_then [OF tree_lengths_has [OF that]], rule keeps_ebind) (auto intro: keeps_Inr)
  then show ?thesis
    unfolding BankWithHtree_CalculateArea_def Let_def
    apply (intro keeps_if keeps_Inr)
      apply (rule assms)
     apply (simp add: assms)
    apply (rule keeps_put [OF Mat_CalculateArea_dims assms])
    apply (rule keeps_ebind, rule keeps_ebind, rule keeps_ebind, rule keeps_if)
     apply (rule keeps_Inr, simp)
    apply (simp add: Let_def)
    done
qed

lemma BankWithHtree_CalculateRC_has:
  assumes "bank_has D b" shows "keeps (bank_has D) (BankWithHtree_CalculateRC E b)"
  unfolding BankWithHtree_CalculateRC_def
  by (intro keeps_if keeps_put [OF Mat_CalculateRC_dims assms] keeps_Inr assms)

lemma htree_power_has:
  assumes "bank_has D b" shows "keeps (\<lambda>Eb. bank_has D (snd Eb)) (htree_power E b)"
  unfolding htree_power_def
proof (rule keeps_then [OF Mat_CalculateLatency_dims], rule keeps_then [OF Mat_CalculatePower_dims],
    split prod.split, intro allI impI)
  fix m m' :: Mat and E' :: Env and Em
  assume "mat_dims m = mat_dims (bank_mat b)" "mat_dims (snd Em) = mat_dims m" "Em = (E', m')"
  then have "bank_has D (put_mat m' b)" using bank_has_put [OF assms] by simp
  then have 1: "keeps (\<lambda>Eb. bank_has D (snd Eb)) (for_up 0 (levelHorizontal b) (htree_level (horizontal b))
      (E', htree_mats m' (put_mat m' b)))"
    by (intro keeps_for_up) (simp_all add: htree_level_has)
  show "keeps (\<lambda>Eb. bank_has D (snd Eb)) (ebind (for_up 0 (levelHorizontal b) (htree_level (horizontal b))
      (E', htree_mats m' (put_mat m' b)))
      (\<lambda>Eb. ebind (for_up 0 (levelVertical b) (htree_level (vertical b)) Eb)
         (\<lambda>(E, b). ebind (htree_dies E (add_routing m' b)) (\<lambda>b. Inr (E, b)))))"
  proof (rule keeps_then [OF 1])
    fix Eb :: "Env \<times> BankWithHtree"
    assume "bank_has D (snd Eb)"
    then have "keeps (\<lambda>Eb. bank_has D (snd Eb)) (for_up 0 (levelVertical b) (htree_level (vertical b)) Eb)"
      by (intro keeps_for_up) (simp_all add: htree_level_has)
    then show "keeps (\<lambda>Eb. bank_has D (snd Eb)) (ebind (for_up 0 (levelVertical b) (htree_level (vertical b)) Eb)
        (\<lambda>(E, b). ebind (htree_dies E (add_routing m' b)) (\<lambda>b. Inr (E, b))))"
      by (rule keeps_then) (auto intro!: keeps_then [OF htree_dies_has] keeps_Inr)
  qed
qed

lemma BankWithHtree_CalculateLatencyAndPower_has:
  assumes "bank_has D b" shows "keeps (\<lambda>Eb. bank_has D (snd Eb)) (BankWithHtree_CalculateLatencyAndPower E b)"
  unfolding BankWithHtree_CalculateLatencyAndPower_def
  by (rule keeps_then [where Q = "\<lambda>Eb. bank_has D (snd Eb)"])
     (auto intro!: keeps_if keeps_Inr htree_power_has simp: assms split: prod.split)

subsection \<open>Without an H-tree\<close>

lemma bank_has_plain_steps [simp]:
  "bank_has D (bus_SRAM_latency E l b) = bank_has D b" "bank_has D (bus_SRAM_energy E l b) = bank_has D b"
  "bank_has D (bus_resistive_latency E l b) = bank_has D b"
  "bank_has D (bus_resistive_energy E l b) = bank_has D b"
  "bank_has D (plain_write_share ip b) = bank_has D b" "bank_has D (plain_mats b) = bank_has D b"
  "bank_has D (plain_tsv_latency v b) = bank_has D b" "bank_has D (plain_start m b) = bank_has D b"
  by (simp_all add: bus_SRAM_latency_def bus_SRAM_energy_def bus_resistive_latency_def
      bus_resistive_energy_def plain_write_share_def plain_mats_def plain_tsv_latency_def
      plain_start_def Let_def)

lemma plain_tsv_has: "bank_has D b \<Longrightarrow> keeps (bank_has D) (plain_tsv E b)"
  unfolding plain_tsv_def by (intro keeps_if keeps_ebind keeps_Inr) simp_all

lemma plain_dies_has: "bank_has D b \<Longrightarrow> keeps (bank_has D) (plain_dies E b)"
  unfolding plain_dies_def by (intro keeps_if keeps_ebind keeps_Inr) simp_all

lemma global_parts_area_has: "bank_has D b \<Longrightarrow> keeps (bank_has D) (global_parts_area E b)"
  unfolding global_parts_area_def Let_def by (intro keeps_if keeps_ebind keeps_Inr) simp_all

lemma global_parts_power_has: "bank_has D b \<Longrightarrow> keeps (bank_has D) (global_parts_power E b)"
  unfolding global_parts_power_def Let_def by (intro keeps_if keeps_ebind keeps_Inr) simp_all

lemma BankWithoutHtree_CalculateArea_has:
  assumes "bank_has D b" shows "keeps (bank_has D) (BankWithoutHtree_CalculateArea E b)"
  unfolding BankWithoutHtree_CalculateArea_def Let_def
  apply (intro keeps_if keeps_Inr)
    apply (rule assms)
   apply (simp add: assms)
  apply (rule keeps_ebind, split prod.split, intro allI impI, rule keeps_then [OF global_parts_area_has [where D = D]])
   apply (simp add: assms)
  apply (intro keeps_if keeps_Inr keeps_ebind)
   apply simp
  apply (auto intro: keeps_Inr)
  done

lemma BankWithoutHtree_CalculateRC_has:
  assumes "bank_has D b" shows "keeps (bank_has D) (BankWithoutHtree_CalculateRC E b)"
  unfolding BankWithoutHtree_CalculateRC_def Let_def
  by (intro keeps_if keeps_put [OF Mat_CalculateRC_dims assms] keeps_ebind keeps_Inr assms) simp_all

definition bus_has :: "dims \<Rightarrow> bus \<Rightarrow> bool" where
  "bus_has D s \<longleftrightarrow> bank_has D (fst (snd s))"

lemma bus_row_has: "bus_has D s \<Longrightarrow> keeps (bus_has D) (bus_row i s)"
  by (cases s) (auto simp: bus_row_def bus_inside_def bus_outside_def bus_has_def Let_def split_beta
      intro!: keeps_if keeps_ebind keeps_Inr)

lemma plain_buses_has:
  assumes "bank_has D b" shows "keeps (\<lambda>Eb. bank_has D (snd Eb)) (plain_buses E b)"
  unfolding plain_buses_def Let_def
proof (rule keeps_then [OF Mat_CalculateLatency_dims], rule keeps_then [OF Mat_CalculatePower_dims],
    split prod.split, intro allI impI)
  fix m m' :: Mat and E' :: Env and Em
  assume "mat_dims m = mat_dims (bank_mat b)" "mat_dims (snd Em) = mat_dims m" "Em = (E', m')"
  then have "bank_has D (put_mat m' b)" using bank_has_put [OF assms] by simp
  then have "keeps (bus_has D) (for_up 0 (bank_numRowMat b) bus_row (E', plain_start m' (put_mat m' b), len, old))"
    for len old by (intro keeps_for_up bus_row_has) (simp add: bus_has_def)
  then show "keeps (\<lambda>Eb. bank_has D (snd Eb)) (ebind (for_up 0 (bank_numRowMat b) bus_row
      (E', plain_start m' (put_mat m' b), height m' * i2d (bank_numRowMat b + 1), 0, 0, 0))
      (\<lambda>(E, b, _). ebind (global_parts_power E b) (\<lambda>b. Inr (E, b))))"
    by (rule keeps_then)
       (auto simp: bus_has_def intro!: keeps_then [OF global_parts_power_has] keeps_Inr)
qed

lemma BankWithoutHtree_CalculateLatencyAndPower_has:
  assumes "bank_has D b"
  shows "keeps (\<lambda>Eb. bank_has D (snd Eb)) (BankWithoutHtree_CalculateLatencyAndPower E b)"
  unfolding BankWithoutHtree_CalculateLatencyAndPower_def Let_def
proof (rule keeps_then [where Q = "\<lambda>Eb. bank_has D (snd Eb)"])
  show "keeps (\<lambda>Eb. bank_has D (snd Eb)) (if \<not> bank_initialized b then Inr (E, b)
      else if bank_invalid b then Inr (E, b\<lparr>readLatency := invalid_value, writeLatency := invalid_value,
        readDynamicEnergy := invalid_value, writeDynamicEnergy := invalid_value, leakage := invalid_value\<rparr>)
      else plain_buses E b)"
    by (intro keeps_if keeps_Inr plain_buses_has assms) (simp_all add: assms)
qed (auto intro!: keeps_then [OF plain_dies_has] keeps_Inr split: prod.split)

end
