(* ===== verification/Evaluate.thy ===== *)
theory Evaluate
  imports BankWithHtree BankWithoutHtree Explore
begin

text \<open>
  The macro \<open>CALCULATE\<close> (\<open>macros.h\<close>): the bank of the configured organisation is constructed, initialized
  and evaluated.  The result is the part of the bank that the search reads, and the global variables,
  since the evaluation stores the write energies in the memory cell and a low-swing wire keeps its
  sense amplifier.
\<close>

definition calculate_tree :: "Env \<Rightarrow> BankArgs \<Rightarrow> BankWithHtree \<Rightarrow> (Env \<times> BankWithHtree) res" where
  "calculate_tree E a raw =
     ebind (BankWithHtree_Initialize E a (BankWithHtree_new raw)) (\<lambda>b.
     ebind (BankWithHtree_CalculateArea E b) (\<lambda>b. ebind (BankWithHtree_CalculateRC E b) (\<lambda>b.
       BankWithHtree_CalculateLatencyAndPower E b)))"

definition calculate_plain :: "Env \<Rightarrow> BankArgs \<Rightarrow> BankWithoutHtree \<Rightarrow> (Env \<times> BankWithoutHtree) res" where
  "calculate_plain E a raw =
     ebind (BankWithoutHtree_Initialize E a (BankWithoutHtree_new raw)) (\<lambda>b.
     ebind (BankWithoutHtree_CalculateArea E b) (\<lambda>b. ebind (BankWithoutHtree_CalculateRC E b) (\<lambda>b.
       BankWithoutHtree_CalculateLatencyAndPower E b)))"

definition CALCULATE :: "BankWithHtree \<Rightarrow> BankWithoutHtree \<Rightarrow> Env \<Rightarrow> BankArgs \<Rightarrow> (Env \<times> Bank) res" where
  "CALCULATE rawTree rawPlain E a =
     (if routingMode (e_ip E) = h_tree
      then ebind (calculate_tree E a rawTree) (\<lambda>(E, b). Inr (E, Bank.truncate b))
      else ebind (calculate_plain E a rawPlain) (\<lambda>(E, b). Inr (E, Bank.truncate b)))"

end
