(* ===== verification/Capacity.thy ===== *)
theory Capacity
  imports BankShape Evaluate
begin

text \<open>
  What the mats of a bank store.  For a regular design, in which all numbers are powers of two, both
  organisations ask a mat for the same part of the address, of the block and of the ways, and the
  subarrays of all mats on all dies hold the capacity of the bank bit for bit.
\<close>

subsection \<open>Powers of two\<close>

lemma ilog2_power: "k < 2 ^ 30 \<Longrightarrow> ilog2 (i2d (2 ^ k)) = Inr (int k)"
  using ilog2_pow2 [of k] by (simp add: i2d_def)

lemma int_ok_power_exp: "int_ok (2 ^ k) \<Longrightarrow> k < 31"
proof (rule ccontr)
  assume "int_ok (2 ^ k)" "\<not> k < 31"
  then have "(2::int) ^ 31 \<le> 2 ^ k" by (intro power_increasing) simp_all
  with \<open>int_ok (2 ^ k)\<close> show False by (simp add: int_ok_def)
qed

lemma ipow2_power: "ipow2 (int k) = Inr n \<Longrightarrow> n = 2 ^ k"
proof -
  have "dpow 2 (i2d (int k)) = Fin (of_int (2 ^ k))"
    by (simp add: i2d_def dbl_lits powr_realpow)
  then show "ipow2 (int k) = Inr n \<Longrightarrow> n = 2 ^ k"
    by (simp only: ipow2_def) (simp add: d2i_def split: if_splits del: of_int_power)
qed

lemma cdiv_power: "j \<le> i \<Longrightarrow> cdiv (2 ^ i) (2 ^ j) = Inr (2 ^ (i - j))"
  by (simp add: cdiv_nonneg power_diff)

lemma gating_bits_power:
  assumes "gating_bits (2 ^ i) (2 ^ j) (2 ^ p) (2 ^ q) = Inr g" "p \<le> i" "q \<le> j"
  shows "g = int (i + j - (p + q))"
proof -
  have "int_ok (2 ^ (i + j))" using assms(1)
    by (auto simp: gating_bits_def imul_def power_add split: if_splits)
  then have ij: "imul (2 ^ i) (2 ^ j) = Inr (2 ^ (i + j))" "i + j < 31"
    using int_ok_power_exp by (auto simp: imul_def power_add)
  have "cdiv (2 ^ (i + j)) (2 ^ p) = Inr (2 ^ (i + j - p))"
    "cdiv (2 ^ (i + j - p)) (2 ^ q) = Inr (2 ^ (i + j - p - q))"
    using cdiv_power [of p "i + j"] cdiv_power [of q "i + j - p"] assms(2,3) by simp_all
  moreover have "ilog2 (i2d (2 ^ (i + j - p - q))) = Inr (int (i + j - p - q))"
    using ij(2) by (intro ilog2_power) simp
  ultimately show ?thesis
    using assms(1) ij(1) by (simp add: gating_bits_def del: of_nat_diff)
qed

lemma cdiv_pow2_exact:
  assumes "pow2 a" "pow2 b" "cdiv a b = Inr q" "q \<noteq> 0"
  shows "a = q * b"
proof -
  have "0 < a" "0 < b" using assms(1,2) pow2_pos by auto
  then have q: "q = a div b" using assms(3) by (simp add: cdiv_nonneg)
  with assms(4) \<open>0 < a\<close> have "b \<le> a" by (meson div_pos_pos_trivial linorder_not_le less_imp_le)
  then have "b dvd a" using pow2_le_dvd assms(1,2) by blast
  with q show ?thesis by simp
qed

lemma imul_Inr: "imul a b = Inr n \<Longrightarrow> n = a * b"
  by (simp add: imul_def split: if_splits)

subsection \<open>The subarrays of a mat\<close>

text \<open>
  The arguments of a mat of \<open>2 ^ i\<close> times \<open>2 ^ j\<close> subarrays, of which \<open>2 ^ p\<close> times \<open>2 ^ q\<close> are active.
\<close>

definition mat_regular :: "nat \<Rightarrow> nat \<Rightarrow> nat \<Rightarrow> nat \<Rightarrow> MatArgs \<Rightarrow> bool" where
  "mat_regular i j p q args \<longleftrightarrow> p \<le> i \<and> q \<le> j
     \<and> ma_numRowSubarray args = 2 ^ i \<and> ma_numColumnSubarray args = 2 ^ j
     \<and> ma_numActiveSubarrayPerColumn args = 2 ^ p \<and> ma_numActiveSubarrayPerRow args = 2 ^ q
     \<and> pow2 (ma_muxSenseAmp args) \<and> pow2 (ma_muxOutputLev1 args) \<and> pow2 (ma_muxOutputLev2 args)
     \<and> pow2 (ma_numWay args) \<and> ma_memoryType args \<noteq> CAM
     \<and> 0 \<le> ma_numDataBit args \<and> 2 ^ p * 2 ^ q dvd ma_numDataBit args"

lemma mat_rows_exact:
  assumes "mat_rows mt (int n) ways muxes = Inr (Some r)" "pow2 ways" "pow2 muxes"
  shows "r * muxes = 2 ^ n * (if mt = data then ways else 1)"
proof -
  let ?n = "2 ^ n * (if mt = data then ways else 1)"
  have "pow2 ?n" using assms(2) by auto
  moreover have "cdiv ?n muxes = Inr r" "r \<noteq> 0"
    using assms(1) by (auto simp: mat_rows_def shl1_def Let_def ebind_Inr split: if_splits)
  ultimately show ?thesis using cdiv_pow2_exact [of ?n muxes r] assms(3) by simp
qed

lemma mat_columns_exact:
  assumes "mat_columns mt y q p ways muxes = Inr (Some c)" "0 \<le> y" "0 < p * q" "p * q dvd y"
  shows "c * (p * q) = y * muxes * (if mt = tag then ways else 1)"
proof -
  obtain n where n: "cdiv y (q * p) = Inr n" "c = (if mt = tag then n * muxes * ways else n * muxes)"
    using assms(1) by (auto simp: mat_columns_def ebind_Inr dest!: imul_Inr split: if_splits)
  have "y = n * (q * p)"
    using cdiv_dvd [OF _ _ _ n(1)] assms(2-4) by (simp add: mult.commute)
  then show ?thesis using n(2) by (simp add: algebra_simps)
qed

text \<open>The bits of all subarrays of a mat: its rows, its ways and its bits of a block.\<close>

lemma mat_bits:
  assumes "mat_shape (mat_params args m) = Inr (Go (r, c, bits, muxes))" "mat_regular i j p q args"
  shows "0 < ma_numAddressBit args"
    and "r * c * (2 ^ i * 2 ^ j) = 2 ^ nat (ma_numAddressBit args) * ma_numWay args * ma_numDataBit args"
proof -
  let ?m = "mat_params args m" and ?x = "ma_numAddressBit args" and ?y = "ma_numDataBit args"
    and ?z = "ma_numWay args"
  note reg = assms(2) [unfolded mat_regular_def]
  have le: "(2::int) ^ p \<le> 2 ^ i" "(2::int) ^ q \<le> 2 ^ j" using reg by simp_all
  have fields: "mat_numRowSubarray ?m = 2 ^ i" "mat_numColumnSubarray ?m = 2 ^ j"
    "mat_numActiveSubarrayPerColumn ?m = 2 ^ p" "mat_numActiveSubarrayPerRow ?m = 2 ^ q"
    "mat_numAddressBit ?m = ?x" "mat_memoryType ?m = ma_memoryType args" "mat_numDataBit ?m = ?y"
    "mat_numWay ?m = ?z" "mat_muxSenseAmp ?m = ma_muxSenseAmp args"
    "mat_muxOutputLev1 ?m = ma_muxOutputLev1 args" "mat_muxOutputLev2 ?m = ma_muxOutputLev2 args"
    using reg le by (simp_all add: mat_params_def)
  obtain g where g: "gating_bits (2 ^ i) (2 ^ j) (2 ^ p) (2 ^ q) = Inr g" "0 < ?x - g" "bits = ?x - g"
    and mu: "mux_degree (ma_muxSenseAmp args) (ma_muxOutputLev1 args) (ma_muxOutputLev2 args) = Inr muxes"
    and rows: "mat_rows (ma_memoryType args) bits ?z muxes = Inr (Some r)"
    and cols: "mat_columns (ma_memoryType args) ?y (2 ^ q) (2 ^ p) ?z muxes = Inr (Some c)"
    using assms(1) unfolding mat_shape_def fields
    by (auto simp: Let_def ebind_Inr mat_illegal_iff split: if_splits option.splits)
  have g': "g = int (i + j - (p + q))" using gating_bits_power [OF g(1)] reg by simp
  show "0 < ?x" using g(2) g' by simp
  then obtain n where n: "bits = int n" "nat ?x = n + (i + j - (p + q))"
    using g(2,3) g' by (metis (no_types, lifting) add.commute diff_add_cancel int_nat_eq
        less_imp_le nat_int of_nat_add zero_less_imp_eq_int)
  have pm: "pow2 muxes" using mu reg by (auto simp: mux_degree_def ebind_Inr dest!: imul_Inr)
  have R: "r * muxes = 2 ^ n * (if ma_memoryType args = data then ?z else 1)"
    using mat_rows_exact [OF rows [unfolded n(1)]] reg pm by simp
  have C: "c * (2 ^ p * 2 ^ q) = ?y * muxes * (if ma_memoryType args = tag then ?z else 1)"
    by (rule mat_columns_exact [OF cols]) (use reg in simp_all)
  have e: "(2::int) ^ i * 2 ^ j = 2 ^ p * 2 ^ q * 2 ^ (i + j - (p + q))"
    using reg by (simp add: power_add [symmetric])
  have "muxes \<noteq> 0" using pow2_pos [OF pm] by simp
  have "r * c * (2 ^ i * 2 ^ j) * muxes
      = (r * muxes) * (c * (2 ^ p * 2 ^ q)) * 2 ^ (i + j - (p + q))"
    by (simp only: e ac_simps)
  also have "\<dots> = 2 ^ n * ?z * (?y * muxes) * 2 ^ (i + j - (p + q))"
    using reg by (cases "ma_memoryType args") (simp_all add: R C)
  also have "\<dots> = 2 ^ nat ?x * ?z * ?y * muxes"
    by (simp add: n(2) power_add ac_simps)
  finally show "r * c * (2 ^ i * 2 ^ j) = 2 ^ nat ?x * ?z * ?y"
    using \<open>muxes \<noteq> 0\<close> by simp
qed

subsection \<open>The multiplexers of a bank\<close>

lemma ilog2_powerD: "ilog2 (i2d (2 ^ k)) = Inr n \<Longrightarrow> n = int k"
proof -
  have "trunc (real k + 1 / 10) = int k" by (rule trunc_eqI) simp_all
  then show "ilog2 (i2d (2 ^ k)) = Inr n \<Longrightarrow> n = int k"
    by (simp add: ilog2_def i2d_def dbl_lits log_nat_power d2i_Inr)
qed

lemma sdiv_nat: "int e sdiv 2 = int (e div 2)" "int e sdiv 3 = int (e div 3)"
  by (simp_all add: signed_divide_int_def sgn_if zdiv_int)

lemma extra_muxes_pow2:
  assumes "extra_muxes c ways = Inr f" "pow2 ways"
  shows "pow2 (fst f)" "pow2 (fst (snd f))" "pow2 (snd (snd f))"
proof -
  obtain e where e: "ways = 2 ^ e" using assms(2) by (auto simp: pow2_def)
  have "pow2 (fst f) \<and> pow2 (fst (snd f)) \<and> pow2 (snd (snd f))"
  proof (cases "ways \<le> 1")
    case True
    then show ?thesis using assms(1) by (auto simp: extra_muxes_def)
  next
    case several: False
    show ?thesis
    proof (cases "dram_cell c")
      case True
      have "cdiv ways (2 ^ (e div 2)) = Inr (2 ^ (e - e div 2))" using cdiv_power [of "e div 2" e] e by simp
      then show ?thesis using assms(1) several True
        by (auto simp: extra_muxes_def ebind_Inr e sdiv_nat dest!: ilog2_powerD ipow2_power)
    next
      case False
      have "cdiv (2 ^ e) (2 ^ (e div 3)) = Inr ((2::int) ^ (e - e div 3))"
        "cdiv (2 ^ (e - e div 3)) (2 ^ (e div 3)) = Inr ((2::int) ^ (e - e div 3 - e div 3))"
        by (rule cdiv_power; simp)+
      then show ?thesis using assms(1) several False
        by (auto simp: extra_muxes_def ebind_Inr e sdiv_nat dest!: ilog2_powerD ipow2_power)
    qed
  qed
  then show "pow2 (fst f)" "pow2 (fst (snd f))" "pow2 (snd (snd f))" by simp_all
qed

text \<open>The members that \<open>Initialize\<close> sets from its arguments are set.\<close>

definition params_set :: "Env \<Rightarrow> BankArgs \<Rightarrow> 'a Bank_scheme \<Rightarrow> bool" where
  "params_set E a b \<longleftrightarrow> bank_params E a b = b"

lemma params_set_start [simp]: "params_set E a (bank_params E a b)"
  by (simp add: params_set_def bank_params_def Let_def)

lemma params_setD:
  assumes "params_set E a b"
  shows "bank_numRowMat b = numRowMat (ba_design a)" "bank_numColumnMat b = numColumnMat (ba_design a)"
    "bank_capacity b = ba_capacity a" "bank_blockSize b = ba_blockSize a"
    "bank_associativity b = ba_associativity a" "bank_numRowPerSet b = numRowPerSet (ba_design a)"
    "bank_internalSenseAmp b = internalSensing (e_ip E)"
    "bank_areaOptimizationLevel b = areaOptimizationLevel (ba_design a)"
    "bank_memoryType b = ba_memoryType a" "bank_stackedDieCount b = stackedDieCount (ba_design a)"
    "bank_partitionGranularity b = ba_partitionGranularity a"
    "bank_numRowSubarray b = numRowSubarray (ba_design a)"
    "bank_numColumnSubarray b = numColumnSubarray (ba_design a)"
    "bank_muxSenseAmp b = muxSenseAmp (ba_design a)" "bank_muxOutputLev1 b = muxOutputLev1 (ba_design a)"
    "bank_muxOutputLev2 b = muxOutputLev2 (ba_design a)"
    "bank_numActiveMatPerRow b = cMIN (numColumnMat (ba_design a)) (numActiveMatPerRow (ba_design a))"
    "bank_numActiveMatPerColumn b = cMIN (numRowMat (ba_design a)) (numActiveMatPerColumn (ba_design a))"
    "bank_numActiveSubarrayPerRow b = cMIN (numColumnSubarray (ba_design a)) (numActiveSubarrayPerRow (ba_design a))"
    "bank_numActiveSubarrayPerColumn b = cMIN (numRowSubarray (ba_design a)) (numActiveSubarrayPerColumn (ba_design a))"
  by (subst assms [unfolded params_set_def, symmetric], simp add: bank_params_def cMIN_def Let_def)+

subsection \<open>Regular designs\<close>

text \<open>
  All the numbers are powers of two, no more is active than there is, the capacity is \<open>2 ^ A\<close> sets
  on each die, and what is active divides a block.
\<close>

definition regular :: "nat \<Rightarrow> BankArgs \<Rightarrow> bool" where
  "regular A a \<longleftrightarrow> (let d = ba_design a in
     list_all pow2 [numRowMat d, numColumnMat d, numActiveMatPerRow d, numActiveMatPerColumn d,
       numRowSubarray d, numColumnSubarray d, numActiveSubarrayPerRow d, numActiveSubarrayPerColumn d,
       muxSenseAmp d, muxOutputLev1 d, muxOutputLev2 d, numRowPerSet d, stackedDieCount d,
       ba_associativity a]
     \<and> numActiveMatPerRow d \<le> numColumnMat d \<and> numActiveMatPerColumn d \<le> numRowMat d
     \<and> numActiveSubarrayPerRow d \<le> numColumnSubarray d
     \<and> numActiveSubarrayPerColumn d \<le> numRowSubarray d
     \<and> numRowMat d * numColumnMat d \<le> 2 ^ 30 \<and> A < 2 ^ 30
     \<and> ba_capacity a = 2 ^ A * ba_blockSize a * ba_associativity a * stackedDieCount d
     \<and> 0 < ba_blockSize a \<and> int_ok (ba_blockSize a) \<and> int_ok (ba_associativity a)
     \<and> numActiveMatPerColumn d * numActiveMatPerRow d
         * (numActiveSubarrayPerColumn d * numActiveSubarrayPerRow d) dvd ba_blockSize a
     \<and> ba_memoryType a \<noteq> CAM)"

lemma regularD:
  assumes "regular A a"
  shows "pow2 (numRowMat (ba_design a))" "pow2 (numColumnMat (ba_design a))"
    "pow2 (numActiveMatPerRow (ba_design a))" "pow2 (numActiveMatPerColumn (ba_design a))"
    "pow2 (numRowSubarray (ba_design a))" "pow2 (numColumnSubarray (ba_design a))"
    "pow2 (numActiveSubarrayPerRow (ba_design a))" "pow2 (numActiveSubarrayPerColumn (ba_design a))"
    "pow2 (muxSenseAmp (ba_design a))" "pow2 (muxOutputLev1 (ba_design a))"
    "pow2 (muxOutputLev2 (ba_design a))" "pow2 (numRowPerSet (ba_design a))"
    "pow2 (stackedDieCount (ba_design a))" "pow2 (ba_associativity a)"
    "numActiveMatPerRow (ba_design a) \<le> numColumnMat (ba_design a)"
    "numActiveMatPerColumn (ba_design a) \<le> numRowMat (ba_design a)"
    "numActiveSubarrayPerRow (ba_design a) \<le> numColumnSubarray (ba_design a)"
    "numActiveSubarrayPerColumn (ba_design a) \<le> numRowSubarray (ba_design a)"
    "numRowMat (ba_design a) * numColumnMat (ba_design a) \<le> 2 ^ 30" "A < 2 ^ 30"
    "ba_capacity a = 2 ^ A * ba_blockSize a * ba_associativity a * stackedDieCount (ba_design a)"
    "0 < ba_blockSize a" "int_ok (ba_blockSize a)" "int_ok (ba_associativity a)"
    "numActiveMatPerColumn (ba_design a) * numActiveMatPerRow (ba_design a)
       * (numActiveSubarrayPerColumn (ba_design a) * numActiveSubarrayPerRow (ba_design a)) dvd ba_blockSize a"
    "ba_memoryType a \<noteq> CAM"
  using assms by (simp_all add: regular_def Let_def)

text \<open>The mats of a row and of a column, and those that are active, as exponents.\<close>

lemma regular_mats:
  assumes "regular A a"
  obtains m n s t where "numColumnMat (ba_design a) = 2 ^ m" "numRowMat (ba_design a) = 2 ^ n"
    "numActiveMatPerRow (ba_design a) = 2 ^ s" "numActiveMatPerColumn (ba_design a) = 2 ^ t"
    "s \<le> m" "t \<le> n" "m + n \<le> 30"
proof -
  note r = regularD [OF assms]
  from r(1-4) obtain m n s t where e: "numColumnMat (ba_design a) = 2 ^ m" "numRowMat (ba_design a) = 2 ^ n"
    "numActiveMatPerRow (ba_design a) = 2 ^ s" "numActiveMatPerColumn (ba_design a) = 2 ^ t"
    by (auto simp: pow2_def)
  have "(2::int) ^ (n + m) \<le> 2 ^ 30" using r(19) e by (simp add: power_add)
  then have "n + m \<le> 30" by (simp only: power_increasing_iff)
  with e r(15,16) show ?thesis by (intro that [of m n s t]) simp_all
qed

text \<open>A mat that is initialized with a part of the address, of a block and of the ways.\<close>

lemma way_muxes_regular:
  assumes "way_muxes E z b = Inr b'" "params_set E a b" "regular A a" "pow2 z"
    and "ba_memoryType a = data \<Longrightarrow> numRowPerSet (ba_design a) \<le> z"
  shows "\<exists>x y w. b' = b\<lparr>bank_muxSenseAmp := x, bank_muxOutputLev1 := y, bank_muxOutputLev2 := w\<rparr>
     \<and> pow2 x \<and> pow2 y \<and> pow2 w"
proof (cases "ba_memoryType a = data")
  case True
  note r = regularD [OF assms(3)] and p = params_setD [OF assms(2)]
  have "cdiv z (numRowPerSet (ba_design a)) = Inr (z div numRowPerSet (ba_design a))"
    using pow2_pos [OF r(12)] pow2_pos [OF assms(4)] by (intro cdiv_nonneg) simp_all
  moreover have "pow2 (z div numRowPerSet (ba_design a))"
    using pow2_div [OF r(12) assms(4)] assms(5) True by simp
  moreover obtain q f where "cdiv z (numRowPerSet (ba_design a)) = Inr q"
      "extra_muxes (e_cell E) q = Inr f" "multiply_muxes f b = Inr b'"
    using assms(1) True by (auto simp: way_muxes_def p ebind_Inr)
  ultimately have "pow2 (fst f)" "pow2 (fst (snd f))" "pow2 (snd (snd f))" "multiply_muxes f b = Inr b'"
    using extra_muxes_pow2 [of "e_cell E" q f] by simp_all
  then show ?thesis
    using r(9-11) by (auto simp: multiply_muxes_def p ebind_Inr dest!: imul_Inr)
next
  case False
  note r = regularD [OF assms(3)] and p = params_setD [OF assms(2)]
  have "b' = b" using assms(1) False by (simp add: way_muxes_def p)
  then show ?thesis using r(9-11) p
    by (intro exI [of _ "bank_muxSenseAmp b"] exI [of _ "bank_muxOutputLev1 b"]
        exI [of _ "bank_muxOutputLev2 b"]) simp
qed

lemma init_mat_bits:
  assumes "init_mat E (x, y, z) b = Inr b'" "\<not> mat_invalid (bank_mat b')"
    and "params_set E a b" "regular A a" "pow2 z" "0 \<le> y"
    and "ba_memoryType a = data \<Longrightarrow> numRowPerSet (ba_design a) \<le> z"
    and "numActiveSubarrayPerColumn (ba_design a) * numActiveSubarrayPerRow (ba_design a) dvd y"
  shows "0 < x"
    and "mat_subarray_numRow b' * mat_subarray_numColumn b'
           * (numRowSubarray (ba_design a) * numColumnSubarray (ba_design a)) = 2 ^ nat x * z * y"
    and "bank_numRowMat b' = numRowMat (ba_design a)" "bank_numColumnMat b' = numColumnMat (ba_design a)"
    and "bank_numRowSubarray b' = numRowSubarray (ba_design a)"
    and "bank_numColumnSubarray b' = numColumnSubarray (ba_design a)"
proof -
  note r = regularD [OF assms(4)] and p = params_setD [OF assms(3)]
  from assms(1) obtain b1 args m where b1: "way_muxes E z b = Inr b1"
    and args: "mat_args E b1 x y z = Inr args" and m: "Mat_Initialize E args (bank_mat b1) = Inr m"
    and b': "b' = put_mat m b1"
    by (auto simp: init_mat_def ebind_Inr)
  from way_muxes_regular [OF b1 assms(3-5,7)] obtain k0 k1 k2 where
    k: "b1 = b\<lparr>bank_muxSenseAmp := k0, bank_muxOutputLev1 := k1, bank_muxOutputLev2 := k2\<rparr>"
      "pow2 k0" "pow2 k1" "pow2 k2" by blast
  from r(5-8) obtain i j u v where e: "numRowSubarray (ba_design a) = 2 ^ i"
    "numColumnSubarray (ba_design a) = 2 ^ j" "numActiveSubarrayPerColumn (ba_design a) = 2 ^ u"
    "numActiveSubarrayPerRow (ba_design a) = 2 ^ v" by (auto simp: pow2_def)
  then have le: "u \<le> i" "v \<le> j" using r(17,18) by simp_all
  have fields: "ma_numAddressBit args = x" "ma_numWay args = z" "ma_numDataBit args = y"
    using args by (auto simp: mat_args_def ebind_Inr)
  have "mat_regular i j u v args"
    using args k e le r(17,18,26) assms(5,6,8) p
    by (auto simp: mat_regular_def mat_args_def ebind_Inr cMIN_def)
  moreover have "mat_invalid m = False" using assms(2) b' by (simp add: put_mat_def)
  then obtain bits muxes where "mat_shape (mat_params args (bank_mat b1))
      = Inr (Go (fst (mat_dims m), snd (mat_dims m), bits, muxes))"
    using Mat_Initialize_dims [OF m] by blast
  ultimately have "0 < x"
    and "fst (mat_dims m) * snd (mat_dims m) * (2 ^ i * 2 ^ j) = 2 ^ nat x * z * y"
    using mat_bits fields by metis+
  then show "0 < x" "mat_subarray_numRow b' * mat_subarray_numColumn b'
      * (numRowSubarray (ba_design a) * numColumnSubarray (ba_design a)) = 2 ^ nat x * z * y"
    by (simp_all add: b' put_mat_def mat_dims_def sub_shape_def e)
  show "bank_numRowMat b' = numRowMat (ba_design a)" "bank_numColumnMat b' = numColumnMat (ba_design a)"
    "bank_numRowSubarray b' = numRowSubarray (ba_design a)"
    "bank_numColumnSubarray b' = numColumnSubarray (ba_design a)"
    by (simp_all add: b' put_mat_def k(1) p)
qed

subsection \<open>What a mat is asked for\<close>

text \<open>
  Of \<open>2 ^ (k + l)\<close> mats \<open>2 ^ l\<close> are active: \<open>k\<close> bits of the address choose among the mats, and the
  active mats share the block of a data array and the ways of a tag array.
\<close>

definition request :: "nat \<Rightarrow> nat \<Rightarrow> nat \<Rightarrow> BankArgs \<Rightarrow> int \<times> int \<times> int" where
  "request A k l a = (int A - int k,
     if ba_memoryType a = data then ba_blockSize a div 2 ^ l else ba_blockSize a,
     if ba_memoryType a = data then ba_associativity a else ba_associativity a div 2 ^ l)"

definition ways_legal :: "nat \<Rightarrow> BankArgs \<Rightarrow> bool" where
  "ways_legal l a \<longleftrightarrow> (if ba_memoryType a = data then numRowPerSet (ba_design a) \<le> ba_associativity a
     else numRowPerSet (ba_design a) \<le> 1 \<and> 2 ^ l \<le> ba_associativity a)"

lemma regular_address:
  assumes "regular A a" "params_set E a b"
  shows "bank_address_bits b = Inr (int A)"
proof -
  note r = regularD [OF assms(1)] and p = params_setD [OF assms(2)]
  let ?s = "stackedDieCount (ba_design a)"
  have pos: "0 < ba_associativity a" "0 < ?s" using r(13,14) pow2_pos by auto
  have "i2d (ba_capacity a) / i2d (ba_blockSize a) / i2d (ba_associativity a) = i2d (2 ^ A * ?s)"
    using r(21,22) pos by (simp add: i2d_def)
  moreover have "i2d (2 ^ A * ?s) / i2d ?s = i2d (2 ^ A)" using pos by (simp add: i2d_def)
  moreover have "?s = 1" if "\<not> 1 < ?s" using that pos(2) by simp
  ultimately show ?thesis
    using ilog2_power [OF r(20)] by (auto simp: bank_address_bits_def p Let_def)
qed

text \<open>The request of a regular design is regular, and over all mats and dies it is the capacity.\<close>

lemma request_ok:
  assumes "regular A a" "request A k l a = (x, y, z)" "ways_legal l a"
    and "numActiveMatPerColumn (ba_design a) * numActiveMatPerRow (ba_design a) = 2 ^ l"
  shows "pow2 z" "0 \<le> y" "ba_memoryType a = data \<Longrightarrow> numRowPerSet (ba_design a) \<le> z"
    and "numActiveSubarrayPerColumn (ba_design a) * numActiveSubarrayPerRow (ba_design a) dvd y"
    and "y * z * 2 ^ l = ba_blockSize a * ba_associativity a"
proof -
  note r = regularD [OF assms(1)]
  let ?sub = "numActiveSubarrayPerColumn (ba_design a) * numActiveSubarrayPerRow (ba_design a)"
  have dvd: "2 ^ l * ?sub dvd ba_blockSize a" using r(25) assms(4) by simp
  show "0 \<le> y" using assms(2) r(22) by (auto simp: request_def pos_imp_zdiv_nonneg_iff)
  show "numRowPerSet (ba_design a) \<le> z" if "ba_memoryType a = data"
    using that assms(2,3) by (auto simp: request_def ways_legal_def)
  have "pow2 z \<and> ?sub dvd y \<and> y * z * 2 ^ l = ba_blockSize a * ba_associativity a"
  proof (cases "ba_memoryType a = data")
    case True
    then have yz: "y = ba_blockSize a div 2 ^ l" "z = ba_associativity a"
      using assms(2) by (auto simp: request_def)
    have "y * 2 ^ l = ba_blockSize a" unfolding yz using dvd by (meson dvd_div_mult_self dvd_mult_left)
    then have "2 ^ l * ?sub dvd 2 ^ l * y" "y * z * 2 ^ l = ba_blockSize a * z"
      using dvd by (simp_all add: ac_simps)
    then show ?thesis using yz(2) r(14) by simp
  next
    case False
    then have le: "2 ^ l \<le> ba_associativity a" using assms(3) by (simp add: ways_legal_def)
    have yz: "y = ba_blockSize a" "z = ba_associativity a div 2 ^ l"
      using assms(2) False by (auto simp: request_def)
    have "2 ^ l dvd ba_associativity a" by (rule pow2_le_dvd [OF pow2_I r(14) le])
    moreover have "?sub dvd y" unfolding yz(1) using dvd by (rule dvd_mult_right)
    ultimately show ?thesis using yz pow2_div [OF pow2_I r(14) le] by simp
  qed
  then show "pow2 z" "?sub dvd y" "y * z * 2 ^ l = ba_blockSize a * ba_associativity a" by blast+
qed

lemma request_capacity:
  assumes "regular A a" "request A k l a = (x, y, z)" "ways_legal l a" "0 < x"
    and "numActiveMatPerColumn (ba_design a) * numActiveMatPerRow (ba_design a) = 2 ^ l"
    and "numRowMat (ba_design a) * numColumnMat (ba_design a) = 2 ^ (k + l)"
  shows "2 ^ nat x * z * y * (numRowMat (ba_design a) * numColumnMat (ba_design a))
           * stackedDieCount (ba_design a) = ba_capacity a"
proof -
  have x: "A = nat x + k" using assms(2,4) by (auto simp: request_def)
  have "2 ^ nat x * z * y * 2 ^ (k + l) = 2 ^ (nat x + k) * (y * z * 2 ^ l)"
    by (simp add: power_add ac_simps)
  then have "2 ^ nat x * z * y * (numRowMat (ba_design a) * numColumnMat (ba_design a))
      * stackedDieCount (ba_design a) = 2 ^ A * (ba_blockSize a * ba_associativity a) * stackedDieCount (ba_design a)"
    by (simp only: assms(6) x request_ok(5) [OF assms(1-3,5)])
  then show ?thesis by (simp only: regularD(21) [OF assms(1)] mult.assoc)
qed

subsection \<open>The organisation without an H-tree\<close>

lemma params_set_plain [simp]:
  fixes b :: BankWithoutHtree
  shows "params_set E a (b\<lparr>bw_numAddressBit := x\<rparr>) = params_set E a b"
    "params_set E a (b\<lparr>bw_numWay := x\<rparr>) = params_set E a b"
    "params_set E a (b\<lparr>numAddressBitRouteToMat := x\<rparr>) = params_set E a b"
    "params_set E a (b\<lparr>numDataBitRouteToMat := x\<rparr>) = params_set E a b"
  by (cases b; simp add: params_set_def bank_params_def Let_def)+

lemma bank_illegal_iff [simp]: "bank_illegal b \<noteq> Inr (Go x)" "bank_illegal b \<noteq> Inl e"
  "bank_illegal b = Inr (Return b') \<longleftrightarrow> b' = b\<lparr>bank_invalid := True, bank_initialized := True\<rparr>"
  by (auto simp: bank_illegal_def)

lemma per_active_mat_power:
  assumes "params_set E a b" "numActiveMatPerRow (ba_design a) = 2 ^ s" "numColumnMat (ba_design a) = 2 ^ m"
    "numActiveMatPerColumn (ba_design a) = 2 ^ t" "numRowMat (ba_design a) = 2 ^ n" "s \<le> m" "t \<le> n" "0 \<le> x"
  shows "per_active_mat x b = Inr (x div 2 ^ (s + t))"
proof -
  have "bank_numActiveMatPerColumn b = 2 ^ t" "bank_numActiveMatPerRow b = 2 ^ s"
    using params_setD [OF assms(1)] assms(2-7) by (simp_all add: cMIN_def)
  moreover have "0 \<le> x div 2 ^ t" using assms(8) by (simp add: pos_imp_zdiv_nonneg_iff)
  ultimately show ?thesis
    using assms(8) by (simp add: per_active_mat_def cdiv_nonneg zdiv_zmult2_eq [symmetric] power_add mult.commute)
qed

lemma plain_request:
  assumes R: "regular A a" and N: "numColumnMat (ba_design a) = 2 ^ m" "numRowMat (ba_design a) = 2 ^ n"
    "numActiveMatPerRow (ba_design a) = 2 ^ s" "numActiveMatPerColumn (ba_design a) = 2 ^ t" "s \<le> m" "t \<le> n"
    and P: "params_set E a b" "plain_address b = Inr b1" "plain_ways b1 = Inr (Go b2)"
  shows "(numAddressBitRouteToMat b2, numDataBitRouteToMat b2, bw_numWay b2) = request A (m + n - (s + t)) (s + t) a"
    and "params_set E a b2" "bank_mat b2 = bank_mat b" "ways_legal (s + t) a"
proof -
  note r = regularD [OF R] and p = params_setD [OF P(1)]
  have "gating_bits (2 ^ n) (2 ^ m) (2 ^ t) (2 ^ s) = Inr g \<Longrightarrow> g = int (m + n - (s + t))" for g
    using gating_bits_power [of n m t s g] N(5,6) by (simp add: add.commute)
  then have b1: "b1 = b\<lparr>bw_numAddressBit := int A, bw_numWay := 1,
      numAddressBitRouteToMat := int A - int (m + n - (s + t)),
      numDataBitRouteToMat := ba_blockSize a\<rparr>"
    using P(2) regular_address [OF R P(1)] r(15,16) N wrap32_id [OF r(23)]
    by (auto simp: plain_address_def ebind_Inr p cMIN_def simp del: of_nat_diff)
  have q: "params_set E a b1" using P(1) by (simp add: b1)
  note p1 = params_setD [OF q]
  have v: "numAddressBitRouteToMat b1 = int A - int (m + n - (s + t))" "numDataBitRouteToMat b1 = ba_blockSize a"
    "bank_mat b1 = bank_mat b" by (simp_all add: b1)
  have act: "per_active_mat x b1 = Inr (x div 2 ^ (s + t))" if "0 \<le> x" for x
    using per_active_mat_power [OF q N(3,1,4,2,5,6) that] .
  have "0 \<le> ba_blockSize a div 2 ^ (s + t)" "ba_blockSize a div 2 ^ (s + t) \<le> ba_blockSize a"
    using r(22) zdiv_mono2 [of "ba_blockSize a" 1 "2 ^ (s + t)"] by (simp_all add: pos_imp_zdiv_nonneg_iff)
  then have w: "wrap32 (ba_blockSize a div 2 ^ (s + t)) = ba_blockSize a div 2 ^ (s + t)"
    using r(23) by (intro wrap32_id) (simp add: int_ok_def)
  have "0 \<le> ba_associativity a" using pow2_pos [OF r(14)] by simp
  have ge: "1 \<le> ba_associativity a div 2 ^ (s + t) \<longleftrightarrow> 2 ^ (s + t) \<le> ba_associativity a"
    unfolding int_one_le_iff_zero_less by (rule pos_imp_zdiv_pos_iff) simp
  have "(numAddressBitRouteToMat b2, numDataBitRouteToMat b2, bw_numWay b2) = request A (m + n - (s + t)) (s + t) a
      \<and> params_set E a b2 \<and> bank_mat b2 = bank_mat b \<and> ways_legal (s + t) a"
  proof (cases "ba_memoryType a = data")
    case True
    then show ?thesis
      using P(3) act [of "ba_blockSize a"] r(22) q w
      by (auto simp: plain_ways_def p1 request_def ways_legal_def v Let_def split: if_splits)
  next
    case False
    then have "ba_memoryType a = tag" using r(26) by (cases "ba_memoryType a") simp_all
    then show ?thesis
      using P(3) act [of "ba_associativity a"] \<open>0 \<le> ba_associativity a\<close> q ge
      by (auto simp: plain_ways_def p1 request_def ways_legal_def v Let_def split: if_splits)
  qed
  then show "(numAddressBitRouteToMat b2, numDataBitRouteToMat b2, bw_numWay b2) = request A (m + n - (s + t)) (s + t) a"
    "params_set E a b2" "bank_mat b2 = bank_mat b" "ways_legal (s + t) a" by blast+
qed

subsection \<open>The organisation with an H-tree\<close>

lemma params_set_tree [simp]:
  fixes b :: BankWithHtree
  shows "params_set E a (b\<lparr>numAddressBit := x\<rparr>) = params_set E a b"
    "params_set E a (b\<lparr>numDataDistributeBit := x\<rparr>) = params_set E a b"
    "params_set E a (b\<lparr>numDataBroadcastBit := x\<rparr>) = params_set E a b"
    "params_set E a (b\<lparr>levelHorizontal := x\<rparr>) = params_set E a b"
    "params_set E a (b\<lparr>levelVertical := x\<rparr>) = params_set E a b"
    "params_set E a (b\<lparr>horizontal := L\<rparr>) = params_set E a b"
    "params_set E a (b\<lparr>vertical := L\<rparr>) = params_set E a b"
  by (cases b; simp add: params_set_def bank_params_def Let_def)+

text \<open>The signals of a regular design; the ways of a set are \<open>2 ^ w\<close>.\<close>

definition tree_plan :: "nat \<Rightarrow> nat \<Rightarrow> nat \<Rightarrow> nat \<Rightarrow> BankArgs \<Rightarrow> Plan" where
  "tree_plan A s t w a = \<lparr>pl_rows = t, pl_columns = s, pl_address = int A,
     pl_distribute = (if ba_memoryType a = data then ba_blockSize a else ba_associativity a),
     pl_broadcast = (if ba_memoryType a = data then int w else ba_blockSize a)\<rparr>"

lemma htree_start:
  assumes R: "regular A a" and N: "numColumnMat (ba_design a) = 2 ^ m" "numRowMat (ba_design a) = 2 ^ n"
    "numActiveMatPerRow (ba_design a) = 2 ^ s" "numActiveMatPerColumn (ba_design a) = 2 ^ t" "s \<le> m" "t \<le> n"
    and w: "ba_associativity a = 2 ^ w"
    and P: "params_set E a b" "htree_signals b = Inr b1" "htree_levels b1 = Inr b2"
  shows "route_of b2 = route_start (tree_plan A s t w a) m n" "params_set E a b2" "bank_mat b2 = bank_mat b"
    and "levelHorizontal b2 = int m" "levelVertical b2 = int n"
proof -
  note r = regularD [OF R] and p = params_setD [OF P(1)]
  have log: "d2i (dlog2 (i2d (2 ^ w))) = Inr k \<Longrightarrow> k = int w" for k
    using trunc_of_int [of "int w"] by (simp add: i2d_def log_nat_power d2i_Inr)
  have b1: "params_set E a b1 \<and> bank_mat b1 = bank_mat b \<and> numAddressBit b1 = int A
      \<and> numDataDistributeBit b1 = pl_distribute (tree_plan A s t w a)
      \<and> numDataBroadcastBit b1 = pl_broadcast (tree_plan A s t w a)"
    using P(1,2) r(26) wrap32_id [OF r(23)] log
    by (auto simp: htree_signals_def regular_address [OF R P(1)] p Let_def ebind_Inr tree_plan_def w
        split: if_splits) (cases "ba_memoryType a"; simp)+
  then have q: "params_set E a b1" by blast
  note p1 = params_setD [OF q]
  have b2: "b2 = b1\<lparr>levelHorizontal := int m, levelVertical := int n, horizontal := new_levels (int m),
      vertical := new_levels (int n)\<rparr>"
    using P(3) by (auto simp: htree_levels_def p1 N ebind_Inr dest!: ilog2_powerD)
  then have q2: "params_set E a b2" using q by simp
  then show "params_set E a b2" .
  show "bank_mat b2 = bank_mat b" "levelHorizontal b2 = int m" "levelVertical b2 = int n"
    using b1 by (simp_all add: b2)
  have "bank_numActiveMatPerColumn b2 = 2 ^ t" "bank_numActiveMatPerRow b2 = 2 ^ s"
    using params_setD [OF q2] r(15,16) N by (simp_all add: cMIN_def)
  with b1 show "route_of b2 = route_start (tree_plan A s t w a) m n"
    by (simp add: route_of_def route_start_def b2) (simp add: tree_plan_def)
qed

lemma htree_request:
  assumes R: "regular A a" and N: "numColumnMat (ba_design a) = 2 ^ m" "numRowMat (ba_design a) = 2 ^ n"
    "numActiveMatPerRow (ba_design a) = 2 ^ s" "numActiveMatPerColumn (ba_design a) = 2 ^ t" "s \<le> m" "t \<le> n"
    "m + n \<le> 30"
    and P: "params_set E a b" "htree_signals b = Inr b1" "htree_levels b1 = Inr b2"
      "htree_route b2 = Inr (Go (b3, rt))" "few_ways b3 rt = Inr False" "mat_block b3 rt = Inr q"
  shows "q = request A (m + n - (s + t)) (s + t) a"
    and "params_set E a b3" "bank_mat b3 = bank_mat b" "ways_legal (s + t) a"
proof -
  note r = regularD [OF R]
  obtain w where w: "ba_associativity a = 2 ^ w" using r(14) by (auto simp: pow2_def)
  let ?p = "tree_plan A s t w a"
  note start = htree_start [OF R N(1-6) w P(1-3)]
  have nn: "0 \<le> pl_distribute ?p" using r(22) w by (simp add: tree_plan_def)
  have "pl_columns ?p \<le> m" using N(5) by (simp add: tree_plan_def)
  from route_ok [OF N(7) this nn]
  have g: "gives ?p m n (routed ?p m n) (route (int m) (int n) (route_start ?p m n))" .
  have rt: "routed ?p m n rt" and b3: "b3 = b2\<lparr>horizontal := rt_H rt, vertical := rt_V rt\<rparr>"
  proof -
    obtain x where x: "route (int m) (int n) (route_start ?p m n) = Inr x"
      "(case x of Return r \<Rightarrow> bank_illegal (b2\<lparr>horizontal := rt_H r, vertical := rt_V r\<rparr>)
        | Go r \<Rightarrow> Inr (Go (b2\<lparr>horizontal := rt_H r, vertical := rt_V r\<rparr>, r))) = Inr (Go (b3, rt))"
      using P(4) unfolding htree_route_def start(1,4,5) ebind_Inr by blast
    show "routed ?p m n rt" "b3 = b2\<lparr>horizontal := rt_H rt, vertical := rt_V rt\<rparr>"
      using g x by (cases x; auto)+
  qed
  have h: "halved ?p m n = s + t" using N(5,6) by (simp add: halved_def tree_plan_def)
  have v: "rt_address rt = int A - int (m + n - (s + t))" "rt_broadcast rt = pl_broadcast ?p"
    "rt_distribute rt = pl_distribute ?p div 2 ^ (s + t)"
    using rt by (simp_all add: routed_def address_at_def distribute_at_def h) (simp_all add: tree_plan_def)
  show q3: "params_set E a b3" using start(2) by (simp add: b3)
  show "bank_mat b3 = bank_mat b" using start(3) by (simp add: b3)
  note p3 = params_setD [OF q3]
  have "0 < (2::int) ^ w div 2 ^ (s + t) \<longleftrightarrow> 2 ^ (s + t) \<le> (2::int) ^ w"
    by (rule pos_imp_zdiv_pos_iff) simp
  moreover have "0 \<le> (2::int) ^ w div 2 ^ (s + t)" by (simp add: pos_imp_zdiv_nonneg_iff)
  ultimately have pos: "(2::int) ^ w div 2 ^ (s + t) = 0 \<longleftrightarrow> \<not> 2 ^ (s + t) \<le> (2::int) ^ w" by linarith
  have "q = request A (m + n - (s + t)) (s + t) a \<and> ways_legal (s + t) a"
  proof (cases "ba_memoryType a = data")
    case True
    then show ?thesis
      using P(5,6)
      by (auto simp: few_ways_def mat_block_def p3 v request_def ways_legal_def w tree_plan_def ebind_Inr
          dest!: ipow2_power)
  next
    case False
    then have "ba_memoryType a = tag" using r(26) by (cases "ba_memoryType a") simp_all
    then show ?thesis
      using P(5,6) pos
      by (auto simp: few_ways_def mat_block_def p3 v request_def ways_legal_def w tree_plan_def)
  qed
  then show "q = request A (m + n - (s + t)) (s + t) a" "ways_legal (s + t) a" by blast+
qed

subsection \<open>A valid bank has initialized its mat with the request\<close>

text \<open>
  \<open>b'\<close> is a valid bank whose mat was initialized, in the bank \<open>b0\<close> with the members of the arguments and
  the mat \<open>m\<close> before, with the request of the design.
\<close>

definition asked :: "Env \<Rightarrow> nat \<Rightarrow> nat \<Rightarrow> nat \<Rightarrow> BankArgs \<Rightarrow> Mat \<Rightarrow> 'a BankUnit_scheme \<Rightarrow> 'a BankUnit_scheme \<Rightarrow> bool" where
  "asked E A k l a m b0 b1 \<longleftrightarrow> params_set E a b0 \<and> bank_mat b0 = m \<and> ways_legal l a
     \<and> init_mat E (request A k l a) b0 = Inr b1 \<and> \<not> mat_invalid (bank_mat b1)"

lemma htree_route_invalid: "htree_route b = Inr (Return b') \<Longrightarrow> bank_invalid b'"
  by (cases "route (levelHorizontal b) (levelVertical b) (route_of b)" rule: early_cases)
     (auto simp: htree_route_def)

lemma mat_of [simp]:
  fixes b :: "'a BankUnit_scheme"
  shows "bank_mat (bank_params E a b) = bank_mat b" "bank_mat (restore_muxes d b) = bank_mat b"
  by (simp_all add: bank_params_def restore_muxes_def Let_def)

lemma reset_mat_of [simp]: "bank_mat (htree_reset b) = bank_mat b" "bank_mat (plain_reset c) = bank_mat c"
  by (simp_all add: htree_reset_def no_levels_def plain_reset_def)

lemma htree_init:
  assumes R: "regular A a" and N: "numColumnMat (ba_design a) = 2 ^ m" "numRowMat (ba_design a) = 2 ^ n"
    "numActiveMatPerRow (ba_design a) = 2 ^ s" "numActiveMatPerColumn (ba_design a) = 2 ^ t" "s \<le> m" "t \<le> n"
    "m + n \<le> 30"
    and I: "BankWithHtree_Initialize E a b = Inr b'" "\<not> bank_invalid b'"
  obtains b0 b1 :: BankWithHtree where "asked E A (m + n - (s + t)) (s + t) a (bank_mat b) b0 b1" "internalSensing (e_ip E)"
    "bank_mat b' = bank_mat b1" "\<And>D. bank_has D b1 \<Longrightarrow> bank_has D b'"
proof -
  let ?b = "bank_params E a (htree_reset b)"
  have i: "internalSensing (e_ip E)" using I by (auto simp: BankWithHtree_Initialize_def Let_def split: if_splits)
  then obtain b1 b2 where b12: "htree_signals ?b = Inr b1" "htree_levels b1 = Inr b2"
    and rest: "fbind (htree_route b2) (\<lambda>(b, r). fbind (htree_mat E b r) (\<lambda>b.
        ebind (htree_tsv E (restore_muxes (ba_design a) b)) (\<lambda>b. Inr (Go (b\<lparr>bank_initialized := True\<rparr>)))))
      = Inr (Return b') \<or> fbind (htree_route b2) (\<lambda>(b, r). fbind (htree_mat E b r) (\<lambda>b.
        ebind (htree_tsv E (restore_muxes (ba_design a) b)) (\<lambda>b. Inr (Go (b\<lparr>bank_initialized := True\<rparr>)))))
      = Inr (Go b')"
    using I(1) by (auto simp: BankWithHtree_Initialize_def Let_def ebind_Inr finish_Inr)
  have inv: "htree_mat E b3 r = Inr (Return x) \<Longrightarrow> bank_invalid x" for b3 r x
    by (auto simp: htree_mat_def ebind_Inr split: if_splits)
  obtain b3 r b4 b5 where steps: "htree_route b2 = Inr (Go (b3, r))" "htree_mat E b3 r = Inr (Go b4)"
    "htree_tsv E (restore_muxes (ba_design a) b4) = Inr b5" "b' = b5\<lparr>bank_initialized := True\<rparr>"
    using rest I(2) htree_route_invalid inv by (auto simp: fbind_Go fbind_Return ebind_Inr)
  obtain q where q: "few_ways b3 r = Inr False" "mat_block b3 r = Inr q" "init_mat E q b3 = Inr b4"
    "\<not> mat_invalid (bank_mat b4)"
    using steps(2) by (auto simp: htree_mat_def ebind_Inr split: if_splits)
  note H = htree_request [OF R N params_set_start b12 steps(1) q(1,2)]
  show ?thesis
  proof (rule that [of b3 b4])
    show "asked E A (m + n - (s + t)) (s + t) a (bank_mat b) b3 b4"
      using H q by (simp add: asked_def)
    have "bank_mat b5 = bank_mat (restore_muxes (ba_design a) b4)"
      using steps(3) by (auto simp: htree_tsv_def ebind_Inr split: if_splits)
    then show "bank_mat b' = bank_mat b4" by (simp add: steps(4))
    show "bank_has D b'" if "bank_has D b4" for D
      using keepsD [OF htree_tsv_has steps(3)] that by (simp add: steps(4))
  qed (rule i)
qed

lemma plain_sensing_Go:
  assumes "plain_sensing E b = Inr (Go b')"
  shows "bank_mat b' = bank_mat b" "bank_has D b \<Longrightarrow> bank_has D b'"
proof -
  have "bank_mat b' = bank_mat b \<and> (bank_has D b \<longrightarrow> bank_has D b')"
    using assms by (auto simp: plain_sensing_def Let_def ebind_Inr split: if_splits)
  then show "bank_mat b' = bank_mat b" "bank_has D b \<Longrightarrow> bank_has D b'" by blast+
qed

lemma plain_Return:
  "plain_ways b = Inr (Return b') \<Longrightarrow> bank_invalid b'"
  "plain_mat E b = Inr (Return b') \<Longrightarrow> bank_invalid b'"
  "plain_sensing E b = Inr (Return b') \<Longrightarrow> bank_invalid b'"
  by (auto simp: plain_ways_def plain_mat_def plain_sensing_def Let_def ebind_Inr split: if_splits)

lemma plain_init:
  assumes R: "regular A a" and N: "numColumnMat (ba_design a) = 2 ^ m" "numRowMat (ba_design a) = 2 ^ n"
    "numActiveMatPerRow (ba_design a) = 2 ^ s" "numActiveMatPerColumn (ba_design a) = 2 ^ t" "s \<le> m" "t \<le> n"
    and I: "BankWithoutHtree_Initialize E a b = Inr b'" "\<not> bank_invalid b'"
  obtains b0 b1 :: BankWithoutHtree where
    "asked E A (m + n - (s + t)) (s + t) a (bank_mat b) b0 b1"
    "Mat_CalculateArea E (bank_mat b1) = Inr (bank_mat b')" "\<And>D. bank_has D b1 \<Longrightarrow> bank_has D b'"
proof -
  let ?b = "bank_params E a (plain_reset b)"
  let ?f = "\<lambda>b1. fbind (plain_ways b1) (\<lambda>b. fbind (plain_mat E b) (\<lambda>b. fbind (plain_sensing E b) (\<lambda>b.
          ebind (plain_tsv E (restore_muxes (ba_design a) b)) (\<lambda>b. Inr (Go (b\<lparr>bank_initialized := True\<rparr>))))))"
  obtain b1 where b1: "plain_address ?b = Inr b1" "?f b1 = Inr (Return b') \<or> ?f b1 = Inr (Go b')"
    using I by (auto simp: BankWithoutHtree_Initialize_def Let_def ebind_Inr finish_Inr split: if_splits)
  obtain b2 b3 b4 b5 where steps: "plain_ways b1 = Inr (Go b2)" "plain_mat E b2 = Inr (Go b3)"
    "plain_sensing E b3 = Inr (Go b4)" "plain_tsv E (restore_muxes (ba_design a) b4) = Inr b5"
    "b' = b5\<lparr>bank_initialized := True\<rparr>"
    using b1(2) I(2) plain_Return by (auto simp: fbind_Go fbind_Return ebind_Inr)
  note H = plain_request [OF R N params_set_start b1(1) steps(1)]
  obtain c mt where c: "init_mat E (numAddressBitRouteToMat b2, numDataBitRouteToMat b2, bw_numWay b2) b2 = Inr c"
    "\<not> mat_invalid (bank_mat c)" "Mat_CalculateArea E (bank_mat c) = Inr mt" "b3 = put_mat mt c"
    using steps(2) by (auto simp: plain_mat_def ebind_Inr split: if_splits)
  have mt: "mat_dims mt = mat_dims (bank_mat c)" using keepsD [OF Mat_CalculateArea_dims c(3)] .
  show ?thesis
  proof (rule that [of b2 c])
    show "asked E A (m + n - (s + t)) (s + t) a (bank_mat b) b2 c"
      using H c by (simp add: asked_def)
    have "bank_mat b5 = bank_mat (restore_muxes (ba_design a) b4)"
      using steps(4) by (auto simp: plain_tsv_def ebind_Inr split: if_splits)
    then have "bank_mat b' = mt"
      using plain_sensing_Go(1) [OF steps(3)] c(4) by (simp add: steps(5) put_mat_def)
    then show "Mat_CalculateArea E (bank_mat c) = Inr (bank_mat b')" using c(3) by simp
    show "bank_has D b'" if "bank_has D c" for D
      using bank_has_put [OF that mt] plain_sensing_Go(2) [OF steps(3)]
        keepsD [OF plain_tsv_has steps(4), of D] c(4) by (simp add: steps(5))
  qed
qed

subsection \<open>The capacity\<close>

text \<open>The dimensions of a bank whose mat was asked for the request.\<close>

lemma asked_capacity:
  assumes R: "regular A a" and N: "numColumnMat (ba_design a) = 2 ^ m" "numRowMat (ba_design a) = 2 ^ n"
    "numActiveMatPerRow (ba_design a) = 2 ^ s" "numActiveMatPerColumn (ba_design a) = 2 ^ t" "s \<le> m" "t \<le> n"
    and Q: "asked E A (m + n - (s + t)) (s + t) a mt b0 b1"
  obtains D where "bank_has D b1"
    "fst (fst D) * snd (fst D) * (fst (fst (snd D)) * snd (fst (snd D))) * (fst (snd (snd D)) * snd (snd (snd D)))
       * stackedDieCount (ba_design a) = ba_capacity a"
proof -
  let ?q = "request A (m + n - (s + t)) (s + t) a"
  obtain x y z where q: "?q = (x, y, z)" by (cases ?q)
  have Q': "params_set E a b0" "ways_legal (s + t) a" "init_mat E (x, y, z) b0 = Inr b1"
    "\<not> mat_invalid (bank_mat b1)" using Q by (simp_all add: asked_def q)
  have mats: "numRowMat (ba_design a) * numColumnMat (ba_design a) = 2 ^ (m + n - (s + t) + (s + t))"
    "numActiveMatPerColumn (ba_design a) * numActiveMatPerRow (ba_design a) = 2 ^ (s + t)"
    using N by (simp_all add: power_add [symmetric] add.commute)
  note ok = request_ok [OF R q Q'(2) mats(2)]
  note bits = init_mat_bits [OF Q'(3,4,1) R ok(1-4)]
  let ?r = "mat_subarray_numRow b1" and ?c = "mat_subarray_numColumn b1" and ?d = "ba_design a"
  have "mat_dims (bank_mat b1) = (?r, ?c)"
    using Q'(3) by (auto simp: init_mat_def ebind_Inr put_mat_def mat_dims_def sub_shape_def)
  then have has: "bank_has ((?r, ?c), (numRowMat ?d, numColumnMat ?d), (numRowSubarray ?d, numColumnSubarray ?d)) b1"
    using bits(3-6) by (simp add: bank_has_def)
  have "?r * ?c * (numRowMat ?d * numColumnMat ?d) * (numRowSubarray ?d * numColumnSubarray ?d) * stackedDieCount ?d
      = (?r * ?c * (numRowSubarray ?d * numColumnSubarray ?d)) * (numRowMat ?d * numColumnMat ?d) * stackedDieCount ?d"
    by (simp only: ac_simps)
  also have "\<dots> = ba_capacity a"
    using request_capacity [OF R q Q'(2) bits(1) mats(2,1)] by (simp only: bits(2))
  finally show ?thesis using has by (intro that [OF has]) (simp only: fst_conv snd_conv)
qed

text \<open>A bank that is invalid after its initialization stays invalid.\<close>

lemma tree_invalid:
  "bank_invalid b \<Longrightarrow> keeps bank_invalid (BankWithHtree_CalculateArea E b)"
  "bank_invalid b \<Longrightarrow> keeps bank_invalid (BankWithHtree_CalculateRC E b)"
  "bank_invalid b \<Longrightarrow> keeps (\<lambda>Eb. bank_invalid (snd Eb)) (BankWithHtree_CalculateLatencyAndPower E b)"
  by (auto simp: BankWithHtree_CalculateArea_def BankWithHtree_CalculateRC_def
      BankWithHtree_CalculateLatencyAndPower_def keeps_def check_retention_def split: if_splits)

lemma invalid_base [simp]:
  fixes b :: BankWithoutHtree
  shows "bank_invalid (add_routing m b) = bank_invalid b" "bank_invalid (plain_mats b) = bank_invalid b"
    "bank_invalid (plain_write_share ip b) = bank_invalid b"
  by (cases b; simp add: add_routing_def plain_mats_def cell_energies_def plain_write_share_def Let_def)+

lemma plain_invalid:
  "bank_invalid b \<Longrightarrow> keeps bank_invalid (BankWithoutHtree_CalculateArea E b)"
  "bank_invalid b \<Longrightarrow> keeps bank_invalid (BankWithoutHtree_CalculateRC E b)"
  "bank_invalid b \<Longrightarrow> keeps (\<lambda>Eb. bank_invalid (snd Eb)) (BankWithoutHtree_CalculateLatencyAndPower E b)"
proof -
  show "bank_invalid b \<Longrightarrow> keeps bank_invalid (BankWithoutHtree_CalculateArea E b)"
    "bank_invalid b \<Longrightarrow> keeps bank_invalid (BankWithoutHtree_CalculateRC E b)"
    by (auto simp: BankWithoutHtree_CalculateArea_def BankWithoutHtree_CalculateRC_def keeps_def split: if_splits)
  have 1: "keeps (\<lambda>Eb. bank_invalid (snd Eb)) (let t = plain_mats (plain_write_share ip t) in
      ebind (plain_dies E (add_routing (bank_mat t) t)) (\<lambda>b. Inr (E, check_retention E b)))"
    if "bank_invalid t" for t ip E
    using that by (auto simp: Let_def plain_dies_def check_retention_def keeps_def)
  show "keeps (\<lambda>Eb. bank_invalid (snd Eb)) (BankWithoutHtree_CalculateLatencyAndPower E b)" if "bank_invalid b"
    using that 1 by (auto simp: BankWithoutHtree_CalculateLatencyAndPower_def)
qed

lemma bank_has_bits:
  "bank_has D b \<Longrightarrow> bank_bits (Bank.truncate b) dies =
     fst (fst D) * snd (fst D) * (fst (fst (snd D)) * snd (fst (snd D))) * (fst (snd (snd D)) * snd (snd (snd D))) * dies"
proof -
  assume h: "bank_has D b"
  obtain r c rm cm rs cs where D: "D = ((r, c), (rm, cm), (rs, cs))" by (metis prod.exhaust)
  have "bank_bits (Bank.truncate b) dies = c * r * cm * rm * cs * rs * dies"
    using h by (simp add: D bank_has_def bank_bits_def Bank.truncate_def)
  then show ?thesis by (simp add: D ac_simps)
qed

text \<open>Bit for bit: the check \<open>VERIFY_DATA_CAPACITY\<close> never fails for a regular design.\<close>

lemma tree_capacity:
  assumes R: "regular A a" and C: "calculate_tree E a raw = Inr (E', b)" "\<not> bank_invalid b"
  shows "bank_bits (Bank.truncate b) (stackedDieCount (ba_design a)) = ba_capacity a"
proof -
  from C(1) obtain b1 b2 b3 where s: "BankWithHtree_Initialize E a (BankWithHtree_new raw) = Inr b1"
    "BankWithHtree_CalculateArea E b1 = Inr b2" "BankWithHtree_CalculateRC E b2 = Inr b3"
    "BankWithHtree_CalculateLatencyAndPower E b3 = Inr (E', b)"
    by (auto simp: calculate_tree_def ebind_Inr)
  have v: "\<not> bank_invalid b1"
    using C(2) keepsD [OF tree_invalid(1) s(2)] keepsD [OF tree_invalid(2) s(3)]
      keepsD [OF tree_invalid(3) s(4)] by auto
  from regular_mats [OF R] obtain m n k t where N: "numColumnMat (ba_design a) = 2 ^ m"
    "numRowMat (ba_design a) = 2 ^ n" "numActiveMatPerRow (ba_design a) = 2 ^ k"
    "numActiveMatPerColumn (ba_design a) = 2 ^ t" "k \<le> m" "t \<le> n" "m + n \<le> 30" by blast
  from htree_init [OF R N s(1) v] obtain c0 c1 :: BankWithHtree where
    c: "asked E A (m + n - (k + t)) (k + t) a (bank_mat (BankWithHtree_new raw)) c0 c1"
      "\<And>D. bank_has D c1 \<Longrightarrow> bank_has D b1" by blast
  from asked_capacity [OF R N(1-6) c(1)] obtain D where D: "bank_has D c1"
    "fst (fst D) * snd (fst D) * (fst (fst (snd D)) * snd (fst (snd D))) * (fst (snd (snd D)) * snd (snd (snd D)))
       * stackedDieCount (ba_design a) = ba_capacity a" by blast
  have "bank_has D b2" using keepsD [OF BankWithHtree_CalculateArea_has s(2)] c(2) D(1) by blast
  then have "bank_has D b3" using keepsD [OF BankWithHtree_CalculateRC_has s(3)] by blast
  from keepsD [OF BankWithHtree_CalculateLatencyAndPower_has [OF this] s(4)]
  have "bank_has D b" by simp
  then show ?thesis by (simp only: bank_has_bits D(2))
qed

lemma plain_capacity:
  assumes R: "regular A a" and C: "calculate_plain E a raw = Inr (E', b)" "\<not> bank_invalid b"
  shows "bank_bits (Bank.truncate b) (stackedDieCount (ba_design a)) = ba_capacity a"
proof -
  from C(1) obtain b1 b2 b3 where s: "BankWithoutHtree_Initialize E a (BankWithoutHtree_new raw) = Inr b1"
    "BankWithoutHtree_CalculateArea E b1 = Inr b2" "BankWithoutHtree_CalculateRC E b2 = Inr b3"
    "BankWithoutHtree_CalculateLatencyAndPower E b3 = Inr (E', b)"
    by (auto simp: calculate_plain_def ebind_Inr)
  have v: "\<not> bank_invalid b1"
    using C(2) keepsD [OF plain_invalid(1) s(2)] keepsD [OF plain_invalid(2) s(3)]
      keepsD [OF plain_invalid(3) s(4)] by auto
  from regular_mats [OF R] obtain m n k t where N: "numColumnMat (ba_design a) = 2 ^ m"
    "numRowMat (ba_design a) = 2 ^ n" "numActiveMatPerRow (ba_design a) = 2 ^ k"
    "numActiveMatPerColumn (ba_design a) = 2 ^ t" "k \<le> m" "t \<le> n" "m + n \<le> 30" by blast
  from plain_init [OF R N(1-6) s(1) v] obtain c0 c1 :: BankWithoutHtree where
    c: "asked E A (m + n - (k + t)) (k + t) a (bank_mat (BankWithoutHtree_new raw)) c0 c1"
      "\<And>D. bank_has D c1 \<Longrightarrow> bank_has D b1" by blast
  from asked_capacity [OF R N(1-6) c(1)] obtain D where D: "bank_has D c1"
    "fst (fst D) * snd (fst D) * (fst (fst (snd D)) * snd (fst (snd D))) * (fst (snd (snd D)) * snd (snd (snd D)))
       * stackedDieCount (ba_design a) = ba_capacity a" by blast
  have "bank_has D b2" using keepsD [OF BankWithoutHtree_CalculateArea_has s(2)] c(2) D(1) by blast
  then have "bank_has D b3" using keepsD [OF BankWithoutHtree_CalculateRC_has s(3)] by blast
  from keepsD [OF BankWithoutHtree_CalculateLatencyAndPower_has [OF this] s(4)]
  have "bank_has D b" by simp
  then show ?thesis by (simp only: bank_has_bits D(2))
qed

lemma CALCULATE_capacity:
  assumes "regular A a" "CALCULATE rawTree rawPlain E a = Inr (E', b)" "\<not> bank_invalid b"
  shows "bank_bits b (stackedDieCount (ba_design a)) = ba_capacity a"
  using assms(2,3) tree_capacity [OF assms(1)] plain_capacity [OF assms(1)]
  by (auto simp: CALCULATE_def ebind_Inr Bank.truncate_def split: if_splits prod.split_asm)

end
