(* ===== verification/Organisations.thy ===== *)
theory Organisations
  imports Capacity
begin

text \<open>
  The two organisations of a bank compared: an H-tree brings to its mats what the buses of the other
  organisation bring, so that both initialize equal mats.
\<close>

lemma ebind_assoc: "ebind (ebind m f) g = ebind m (\<lambda>x. ebind (f x) g)"
  by (cases m) simp_all

definition mat_of :: "'a BankUnit_scheme res \<Rightarrow> Mat res" where
  "mat_of x = ebind x (\<lambda>b. Inr (bank_mat b))"

lemma mat_of_Inr: "mat_of x = Inr m \<longleftrightarrow> (\<exists>b. x = Inr b \<and> bank_mat b = m)"
  by (auto simp: mat_of_def ebind_Inr)

text \<open>The initialization of a mat depends on the arguments of the bank and the request only.\<close>

lemma init_mat_same:
  assumes "params_set E a b" "params_set E a c" "bank_mat b = bank_mat c"
  shows "mat_of (init_mat E q b) = mat_of (init_mat E q c)"
proof -
  obtain x y z where q: "q = (x, y, z)" by (cases q)
  note p = params_setD [OF assms(1)] params_setD [OF assms(2)]
  show ?thesis
    by (simp add: mat_of_def q init_mat_def way_muxes_def multiply_muxes_def mat_args_def ebind_assoc p
        put_mat_def assms(3) cong: if_cong)
qed

text \<open>The signals of the organisation without an H-tree are always defined for a regular design.\<close>

lemma gating_bits_defined:
  assumes "i + j \<le> 30" "p \<le> i" "q \<le> j"
  shows "gating_bits (2 ^ i) (2 ^ j) (2 ^ p) (2 ^ q) = Inr (int (i + j - (p + q)))"
proof -
  have "imul (2 ^ i) (2 ^ j) = Inr (2 ^ (i + j))"
    using int_ok_power [OF assms(1)] by (simp add: imul_def power_add)
  moreover have "cdiv (2 ^ (i + j)) (2 ^ p) = Inr (2 ^ (i + j - p))"
    "cdiv (2 ^ (i + j - p)) (2 ^ q) = Inr (2 ^ (i + j - p - q))"
    using cdiv_power [of p "i + j"] cdiv_power [of q "i + j - p"] assms(2,3) by simp_all
  moreover have "ilog2 (i2d (2 ^ (i + j - p - q))) = Inr (int (i + j - p - q))"
    using assms(1) by (intro ilog2_power) simp
  ultimately show ?thesis by (simp add: gating_bits_def del: of_nat_diff)
qed

lemma plain_ready:
  assumes R: "regular A a" and N: "numColumnMat (ba_design a) = 2 ^ m" "numRowMat (ba_design a) = 2 ^ n"
    "numActiveMatPerRow (ba_design a) = 2 ^ s" "numActiveMatPerColumn (ba_design a) = 2 ^ t" "s \<le> m" "t \<le> n"
    "m + n \<le> 30" and P: "params_set E a b" and L: "ways_legal (s + t) a"
  obtains b1 b2 where "plain_address b = Inr b1" "plain_ways b1 = Inr (Go b2)"
proof -
  note r = regularD [OF R] and p = params_setD [OF P]
  have "gating_bits (2 ^ n) (2 ^ m) (2 ^ t) (2 ^ s) = Inr (int (n + m - (t + s)))"
    by (rule gating_bits_defined) (use N in simp_all)
  then obtain b1 where b1: "plain_address b = Inr b1" "params_set E a b1"
    using regular_address [OF R P] P r(15,16) N
    by (simp add: plain_address_def p cMIN_def del: of_nat_diff)
  note p1 = params_setD [OF b1(2)]
  have act: "per_active_mat x b1 = Inr (x div 2 ^ (s + t))" if "0 \<le> x" for x
    using per_active_mat_power [OF b1(2) N(3,1,4,2,5,6) that] .
  have ge: "1 \<le> ba_associativity a div 2 ^ (s + t) \<longleftrightarrow> 2 ^ (s + t) \<le> ba_associativity a"
    unfolding int_one_le_iff_zero_less by (rule pos_imp_zdiv_pos_iff) simp
  have "\<exists>b2. plain_ways b1 = Inr (Go b2)"
  proof (cases "ba_memoryType a = data")
    case True
    then show ?thesis using L act [of "ba_blockSize a"] r(22)
      by (simp add: plain_ways_def p1 ways_legal_def Let_def)
  next
    case False
    then have "ba_memoryType a = tag" using r(26) by (cases "ba_memoryType a") simp_all
    moreover have "\<not> ba_associativity a div 2 ^ (s + t) < 1" using L False ge by (simp add: ways_legal_def)
    ultimately show ?thesis using L False act [of "ba_associativity a"] pow2_pos [OF r(14)]
      by (simp add: plain_ways_def p1 ways_legal_def Let_def)
  qed
  with b1(1) that show ?thesis by blast
qed

lemma init_mat_keeps:
  "init_mat E q b = Inr b' \<Longrightarrow> bank_internalSenseAmp b' = bank_internalSenseAmp b \<and> bank_invalid b' = bank_invalid b"
  by (auto simp: init_mat_def way_muxes_def multiply_muxes_def put_mat_def ebind_Inr split: prod.split_asm if_splits)

lemma plain_signals_keep:
  "plain_address b = Inr b1 \<Longrightarrow> bank_invalid b1 = bank_invalid b"
  "plain_ways b = Inr (Go b2) \<Longrightarrow> bank_invalid b2 = bank_invalid b"
  by (auto simp: plain_address_def plain_ways_def Let_def ebind_Inr split: if_splits)

lemma TSV_plain_defined: "\<exists>v'. TSV_Initialize T ty False v = Inr v'"
  by (simp add: TSV_Initialize_def Let_def)

theorem same_mats:
  fixes bt :: BankWithHtree and bp :: BankWithoutHtree
  assumes R: "regular A a" and T: "BankWithHtree_Initialize E a bt = Inr bt'" "\<not> bank_invalid bt'"
    and M: "bank_mat bp = bank_mat bt" "\<not> bank_invalid (plain_reset bp)"
  shows "mat_of (BankWithoutHtree_Initialize E a bp) = Mat_CalculateArea E (bank_mat bt')"
    and "BankWithoutHtree_Initialize E a bp = Inr bp' \<Longrightarrow> \<not> bank_invalid bp' \<and> bank_initialized bp'"
proof -
  from regular_mats [OF R] obtain m n k t where N: "numColumnMat (ba_design a) = 2 ^ m"
    "numRowMat (ba_design a) = 2 ^ n" "numActiveMatPerRow (ba_design a) = 2 ^ k"
    "numActiveMatPerColumn (ba_design a) = 2 ^ t" "k \<le> m" "t \<le> n" "m + n \<le> 30" by blast
  let ?q = "request A (m + n - (k + t)) (k + t) a" and ?b = "bank_params E a (plain_reset bp)"
  from htree_init [OF R N T] obtain c0 c1 :: BankWithHtree where
    c: "asked E A (m + n - (k + t)) (k + t) a (bank_mat bt) c0 c1" "internalSensing (e_ip E)"
      "bank_mat bt' = bank_mat c1" by blast
  then have c': "params_set E a c0" "bank_mat c0 = bank_mat bt" "ways_legal (k + t) a"
    "init_mat E ?q c0 = Inr c1" "\<not> mat_invalid (bank_mat c1)" by (simp_all add: asked_def)
  obtain b1 b2 where b: "plain_address ?b = Inr b1" "plain_ways b1 = Inr (Go b2)"
    using plain_ready [OF R N params_set_start c'(3)] by blast
  note H = plain_request [OF R N(1-6) params_set_start b]
  have "mat_of (init_mat E ?q b2) = Inr (bank_mat bt')"
    using init_mat_same [OF H(2) c'(1), of ?q] H(3) c'(2,4) c(3) M(1) by (simp add: mat_of_def)
  then obtain b3 where b3: "init_mat E ?q b2 = Inr b3" "bank_mat b3 = bank_mat bt'"
    by (auto simp: mat_of_Inr)
  have keep: "bank_internalSenseAmp b3" "bank_invalid b3 = bank_invalid ?b"
    using init_mat_keeps [OF b3(1)] params_setD(7) [OF H(2)] c(2) plain_signals_keep b by auto
  have valid: "\<not> bank_invalid b3" using keep(2) M(2) by (simp add: bank_params_def Let_def)
  have start: "BankWithoutHtree_Initialize E a bp
      = finish (fbind (plain_mat E b2) (\<lambda>b. fbind (plain_sensing E b) (\<lambda>b.
          ebind (plain_tsv E (restore_muxes (ba_design a) b)) (\<lambda>b. Inr (Go (b\<lparr>bank_initialized := True\<rparr>))))))"
    using c(2) b by (simp add: BankWithoutHtree_Initialize_def Let_def)
  have pm: "plain_mat E b2 = ebind (Mat_CalculateArea E (bank_mat bt')) (\<lambda>m. Inr (Go (put_mat m b3)))"
    using c'(5) c(3) b3 by (simp add: plain_mat_def H(1))
  have "mat_of (BankWithoutHtree_Initialize E a bp) = Mat_CalculateArea E (bank_mat bt')
      \<and> (BankWithoutHtree_Initialize E a bp = Inr bp' \<longrightarrow> \<not> bank_invalid bp' \<and> bank_initialized bp')"
  proof (cases "Mat_CalculateArea E (bank_mat bt')")
    case (Inl e)
    then show ?thesis by (simp add: start pm mat_of_def)
  next
    case (Inr m')
    let ?r = "restore_muxes (ba_design a) (put_mat m' b3)"
    have sense: "plain_sensing E (put_mat m' b3) = Inr (Go (put_mat m' b3))"
      using keep(1) by (simp add: plain_sensing_def put_mat_def)
    obtain w where w: "TSV_Initialize (e_tech E) (global_tsv_type E) False (bank_tsvArray ?r) = Inr w"
      using TSV_plain_defined by blast
    let ?v = "if 1 < bank_stackedDieCount ?r then ?r\<lparr>bank_tsvArray := w\<rparr> else ?r"
    have "plain_tsv E ?r = Inr ?v" "bank_mat ?v = bank_mat ?r" "bank_invalid ?v = bank_invalid ?r"
      using w by (simp_all add: plain_tsv_def)
    moreover have "bank_mat ?r = m'" "\<not> bank_invalid ?r"
      using valid by (simp_all add: put_mat_def restore_muxes_def)
    ultimately show ?thesis by (auto simp: start pm Inr sense mat_of_def)
  qed
  then show "mat_of (BankWithoutHtree_Initialize E a bp) = Mat_CalculateArea E (bank_mat bt')"
    "BankWithoutHtree_Initialize E a bp = Inr bp' \<Longrightarrow> \<not> bank_invalid bp' \<and> bank_initialized bp'" by blast+
qed

text \<open>Freshly constructed banks over the same memory.\<close>

lemma new_bank_mats:
  "bank_mat (BankWithoutHtree_new p) = Mat_new (bank_mat p)"
  "bank_mat (BankWithHtree_new t) = Mat_new (bank_mat t)"
  "\<not> bank_invalid (plain_reset (BankWithoutHtree_new p))"
  by (simp_all add: BankWithoutHtree_new_def BankWithHtree_new_def BankUnit_new_def put_mat_def
      plain_reset_def no_levels_def)

end
