(* ===== verification/Explored.thy ===== *)
theory Explored
  imports Organisations Sample
begin

text \<open>
  The search with the evaluation of the real banks: \<open>CALCULATE\<close> as the argument of the exploration.  The
  designs of a search space whose ranges start from powers of two are regular, so that the check of the
  capacity never ends the program; only the evaluation of a design can.
\<close>

text \<open>The environment of an evaluation during the search.\<close>

definition env_now :: "Env \<Rightarrow> Globals \<Rightarrow> Env" where
  "env_now E G = E\<lparr>e_tech := fst (g_tech G), e_localWire := g_localWire G, e_globalWire := g_globalWire G\<rparr>"

definition calc_of :: "BankWithHtree \<Rightarrow> BankWithoutHtree \<Rightarrow> Env \<Rightarrow> calculate" where
  "calc_of rawTree rawPlain E G a =
     ebind (CALCULATE rawTree rawPlain (env_now E G) a) (\<lambda>(_, b). Inr b)"

lemma calc_of_capacity:
  assumes "regular A a" "calc_of rawTree rawPlain E G a = Inr b" "\<not> bank_invalid b"
  shows "bank_bits b (stackedDieCount (ba_design a)) = ba_capacity a"
  using assms CALCULATE_capacity [OF assms(1)] by (auto simp: calc_of_def ebind_Inr split: prod.splits)

subsection \<open>The designs of a search are regular\<close>

lemma active_pow2:
  assumes "pow2_space stack rps S" "legal assoc stack rps S d"
  shows "pow2 (numActiveMatPerRow d * numActiveMatPerColumn d
           * numActiveSubarrayPerRow d * numActiveSubarrayPerColumn d)"
  using legal_pow2 [OF assms] by (intro pow2_mult)

lemma legal_rows:
  assumes "pow2_space stack rps S" "legal assoc stack rps S d"
  shows "pow2 (numRowPerSet d)"
  using assms(2) pow2_spaceD(2) [OF assms(1)] doubles_pow2 [of "(fst rps, cMIN (snd rps) assoc)"]
  by (simp add: legal_def)

lemma legal_regular:
  assumes "space_ok assoc stack rps S" "pow2_space stack rps S" "legal assoc stack rps S d"
    and "snd (numRowMat_range S) * snd (numColumnMat_range S) \<le> 2 ^ 30"
    and "numActiveMatPerRow d * numActiveMatPerColumn d
           * numActiveSubarrayPerRow d * numActiveSubarrayPerColumn d dvd ba_blockSize a"
    and "ba_design a = d" "ba_memoryType a \<noteq> CAM" "0 < ba_blockSize a" "int_ok (ba_blockSize a)"
    and "pow2 (ba_associativity a)" "int_ok (ba_associativity a)"
    and "ba_capacity a = 2 ^ A * ba_blockSize a * ba_associativity a * stackedDieCount d" "A < 2 ^ 30"
  shows "regular A a"
proof -
  have p: "numRowMat d \<le> snd (numRowMat_range S)" "numColumnMat d \<le> snd (numColumnMat_range S)"
    using legalD(1,2) [OF assms(3)] doubles_le by blast+
  have "0 < numRowMat d" "0 < numColumnMat d" using legal_pow2 [OF assms(2,3)] pow2_pos by blast+
  with p have "numRowMat d * numColumnMat d \<le> snd (numRowMat_range S) * snd (numColumnMat_range S)"
    by (intro mult_mono) simp_all
  with assms(4) have "numRowMat d * numColumnMat d \<le> 2 ^ 30" by simp
  then show ?thesis
    using legal_pow2 [OF assms(2,3)] legal_rows [OF assms(2,3)] space_ok_legal [OF assms(1,3)] assms(5-)
    by (simp add: regular_def Let_def ac_simps)
qed

subsection \<open>The search over the data arrays\<close>

text \<open>
  All ranges start from powers of two, as do the capacity, the block and the associativity, and the
  highest stack has a set on each die.
\<close>

definition regular_search :: "InputParameter \<Rightarrow> Globals \<Rightarrow> int \<Rightarrow> int \<Rightarrow> int \<Rightarrow> bool" where
  "regular_search ip G cap blk assoc \<longleftrightarrow> (let S = g_search G in
     search_ok ip G \<and> pow2_space (stackLayer_range S) (numRowPerSet_range S) (dataSpace S)
     \<and> active_bound (dataSpace S) < 2147483648
     \<and> snd (numRowMat_range (dataSpace S)) * snd (numColumnMat_range (dataSpace S)) \<le> 1073741824
     \<and> pow2 cap \<and> cap < 2 ^ 63 \<and> pow2 blk \<and> int_ok blk \<and> pow2 assoc \<and> int_ok assoc
     \<and> blk * assoc * snd (stackLayer_range S) \<le> cap)"

lemma pow2_cofactor:
  assumes "pow2 m" "pow2 n" "n \<le> m" "m < 2 ^ 63"
  obtains A where "m = 2 ^ A * n" "A < 2 ^ 30"
proof -
  from assms(1,2) obtain i j where e: "m = 2 ^ i" "n = 2 ^ j" by (auto simp: pow2_def)
  then have "(2::int) ^ j \<le> 2 ^ i" "(2::int) ^ i < 2 ^ 63" using assms(3,4) by simp_all
  then have "j \<le> i" "i < 63" by (simp, simp only: power_strict_increasing_iff)
  then have "m = 2 ^ (i - j) * n" by (simp add: e power_add [symmetric])
  with that [of "i - j"] \<open>i < 63\<close> show ?thesis by simp
qed

lemma regular_search_args:
  assumes "regular_search ip G cap blk assoc"
    and "legal (ip_associativity ip) (stackLayer_range (g_search G)) (numRowPerSet_range (g_search G))
           (dataSpace (g_search G)) d"
    and "active_subarrays d = Inr n" "blk sdiv n \<noteq> 0"
  obtains A where "regular A (data_args ip cap blk assoc d)"
proof -
  note R = assms(1) [unfolded regular_search_def Let_def search_ok_def]
  note A = active_subarrays_ok [OF conjunct1 [OF R] assms(2)] and L = legalD [OF assms(2)]
  have p: "pow2 (blk * assoc * stackedDieCount d)" "0 < blk" "0 < assoc"
    using R legal_pow2(3) [OF _ assms(2)] pow2_pos by auto
  have "stackedDieCount d \<le> snd (stackLayer_range (g_search G))" using doubles_le [OF L(3)] .
  then have "blk * assoc * stackedDieCount d \<le> blk * assoc * snd (stackLayer_range (g_search G))"
    using p by (intro mult_left_mono) simp_all
  then have "blk * assoc * stackedDieCount d \<le> cap" using R by linarith
  then obtain k where k: "cap = 2 ^ k * (blk * assoc * stackedDieCount d)" "k < 2 ^ 30"
    using pow2_cofactor [OF _ p(1), of cap] R by blast
  have n: "n = numActiveMatPerRow d * numActiveMatPerColumn d
      * numActiveSubarrayPerRow d * numActiveSubarrayPerColumn d" "0 < n"
    using A(1,2) R assms(3) by simp_all
  have "pow2 n" using active_pow2 [OF _ assms(2)] R n by blast
  moreover have "n \<le> blk"
    using assms(4) p n by (auto simp: signed_divide_int_def not_less intro: ccontr)
  ultimately have "n dvd blk" using pow2_le_dvd R by blast
  then have "regular k (data_args ip cap blk assoc d)"
    using R k n(1) p(2) by (intro legal_regular [OF conjunct1 [OF R] _ assms(2)]) (auto simp: data_args_def ac_simps)
  then show ?thesis by (rule that)
qed

text \<open>A design that is not skipped passes the check once it is evaluated.\<close>

lemma data_step_checked:
  assumes "regular_search ip G cap blk assoc"
    and "legal (ip_associativity ip) (stackLayer_range (g_search G)) (numRowPerSet_range (g_search G))
           (dataSpace (g_search G)) d"
    and "data_step (calc_of rawTree rawPlain E) fresh ip G' accept cap blk assoc d s = Inl e"
  shows "calc_of rawTree rawPlain E G' (data_args ip cap blk assoc d) = Inl e"
proof -
  note R = assms(1) [unfolded regular_search_def Let_def search_ok_def]
  note A = active_subarrays_ok [OF conjunct1 [OF R] assms(2)]
  obtain n where n: "active_subarrays d = Inr n" "0 < n" using A R by blast
  then have q: "blk sdiv n \<noteq> 0" and v: "visit (calc_of rawTree rawPlain E) fresh G' accept
      (data_args ip cap blk assoc d) s = Inl e"
    using assms(3) by (auto simp: data_step_def cdiv_def data_args_def split: if_splits)
  obtain k where k: "regular k (data_args ip cap blk assoc d)"
    using regular_search_args [OF assms(1,2) n(1) q] .
  show ?thesis
  proof (cases "calc_of rawTree rawPlain E G' (data_args ip cap blk assoc d)")
    case (Inr b)
    then show ?thesis using v calc_of_capacity [OF k Inr]
      by (auto simp: visit_def VERIFY_CAPACITY_def Let_def split: if_splits)
  qed (use v in \<open>simp add: visit_def\<close>)
qed

lemma efold_aborts:
  "efold f xs s = Inl e \<Longrightarrow> \<exists>x \<in> set xs. \<exists>t. f x t = Inl e"
proof (induction xs arbitrary: s)
  case (Cons x xs)
  then show ?case by (cases "f x s") auto
qed simp

text \<open>The search ends early only when the wires cannot be built or a design cannot be evaluated.\<close>

lemma data_pass_aborts:
  assumes "regular_search ip G cap blk assoc" "INITIAL_BASIC_WIRE ip G = Inr G'"
    and "data_pass (calc_of rawTree rawPlain E) fresh ip G accept cap blk assoc s = Inl e"
  obtains d where
    "legal (ip_associativity ip) (stackLayer_range (g_search G)) (numRowPerSet_range (g_search G))
       (dataSpace (g_search G)) d"
    "calc_of rawTree rawPlain E G' (data_args ip cap blk assoc d) = Inl e"
proof -
  note R = assms(1) [unfolded regular_search_def Let_def search_ok_def]
  from BIGFOR_covers [OF conjunct1 [OF R]] obtain ds where ds:
    "BIGFOR (ip_associativity ip) (stackLayer_range (g_search G)) (numRowPerSet_range (g_search G))
       (dataSpace (g_search G)) = Some ds"
    "set ds = {d. legal (ip_associativity ip) (stackLayer_range (g_search G))
       (numRowPerSet_range (g_search G)) (dataSpace (g_search G)) d}"
    by (auto simp: covers_def)
  then have "efold (data_step (calc_of rawTree rawPlain E) fresh ip G' accept cap blk assoc) ds s = Inl e"
    using assms(2,3)
    by (cases "efold (data_step (calc_of rawTree rawPlain E) fresh ip G' accept cap blk assoc) ds s")
       (simp_all add: data_pass_def Let_def)
  from efold_aborts [OF this] obtain d t where "d \<in> set ds"
    "data_step (calc_of rawTree rawPlain E) fresh ip G' accept cap blk assoc d t = Inl e" by blast
  with ds(2) data_step_checked [OF assms(1)] that show ?thesis by blast
qed

subsection \<open>A sample\<close>

definition sample_design :: Design where
  "sample_design = \<lparr>numRowMat = 4, numColumnMat = 2, stackedDieCount = 2, numActiveMatPerRow = 2,
     numActiveMatPerColumn = 1, numRowSubarray = 2, numColumnSubarray = 2, numActiveSubarrayPerRow = 2,
     numActiveSubarrayPerColumn = 1, muxSenseAmp = 1, muxOutputLev1 = 2, muxOutputLev2 = 4,
     numRowPerSet = 2, areaOptimizationLevel = 0\<rparr>"

definition sample_args :: BankArgs where
  "sample_args = \<lparr>ba_design = sample_design, ba_capacity = 2 ^ 20, ba_blockSize = 64, ba_associativity = 8,
     ba_memoryType = data, ba_partitionGranularity = 0\<rparr>"

lemma sample_args_regular: "regular 10 sample_args"
  using pow2_I [of 1] pow2_I [of 2] pow2_I [of 3]
  by (simp add: regular_def sample_args_def sample_design_def int_ok_def)

lemma sample_args_fields [simp]:
  "stackedDieCount (ba_design sample_args) = 2" "ba_capacity sample_args = 1048576"
  by (simp_all add: sample_args_def sample_design_def)

lemma sample_search_regular: "regular_search sample_ip sample_globals 8192 32 1"
  using sample_search_ok sample_active_bound pow2_I [of 13] pow2_I [of 5]
  by (simp add: regular_search_def pow2_space_def sample_space_def int_ok_def)

end
