(* ===== verification/Nodes.thy ===== *)
theory Nodes
  imports Technology
begin

text \<open>
  The numeric tables of \<open>Technology::Initialize\<close>: the parameters of a process node and a device roadmap,
  with the four current tables given at every tenth degree, and the dimensions of the TSVs of a node.
\<close>

subsection \<open>The parameters of the nodes\<close>

text \<open>The assignments to the elements 0, 10, ..., 100 of a current table.\<close>

definition decades :: "dbl list \<Rightarrow> dbl list \<Rightarrow> dbl list" where
  "decades vs t = fold (\<lambda>k t. t[10 * k := vs ! k]) [0..<11] t"

text \<open>At 22 nm the PMOS on-currents take half of the NMOS current ten degrees below.\<close>

definition shifted_halves :: "dbl list \<Rightarrow> dbl list" where
  "shifted_halves on = map (\<lambda>x. x / 2) (hd on # butlast on)"

definition high_performance_180 :: "Technology \<Rightarrow> Technology" where
  "high_performance_180 T =
     (let on = [750, 750, 750, 750, 750, 750, 750, 750, 750, 750, 750];
          off = [lit 8 (-3), lit 8 (-3), lit 8 (-3), lit 8 (-3), lit 8 (-3), lit 8 (-3),
                 lit 8 (-3), lit 8 (-3), lit 8 (-3), lit 8 (-3), lit 8 (-3)]
      in T\<lparr>vdd := lit 15 (-1), vth := lit 3 (-1), phyGateLength := lit 1 (-7),
           capIdealGate := lit 8 (-10), capFringe := lit 25 (-11), capJunction := lit 1 (-3),
           capOx := lit 1 (-2), effectiveElectronMobility := lit 32 (-3),
           effectiveHoleMobility := lit 8 (-3), pnSizeRatio := lit 245 (-2),
           effectiveResistanceMultiplier := lit 154 (-2),
           currentOnNmos := decades on (currentOnNmos T),
           currentOnPmos := decades [350, 350, 350, 350, 350, 350, 350, 350, 350, 350, 350] (currentOnPmos T),
           currentOffNmos := decades off (currentOffNmos T),
           currentOffPmos := decades [lit 16 (-3), lit 16 (-3), lit 16 (-3), lit 16 (-3), lit 16 (-3),
                              lit 16 (-3), lit 16 (-3), lit 16 (-3), lit 16 (-3), lit 16 (-3),
                              lit 16 (-3)] (currentOffPmos T)\<rparr>)"

definition low_standby_180 :: "Technology \<Rightarrow> Technology" where
  "low_standby_180 T =
     (let on = [330, 330, 330, 330, 330, 330, 330, 330, 330, 330, 330];
          off = [lit 425 (-8), lit 425 (-8), lit 425 (-8), lit 425 (-8), lit 425 (-8),
                 lit 425 (-8), lit 425 (-8), lit 425 (-8), lit 425 (-8), lit 425 (-8),
                 lit 425 (-8)]
      in T\<lparr>vdd := lit 15 (-1), vth := lit 6 (-1), phyGateLength := lit 16 (-8),
           capIdealGate := lit 8 (-10), capFringe := lit 25 (-11), capJunction := lit 1 (-3),
           capOx := lit 1 (-2), effectiveElectronMobility := lit 32 (-3),
           effectiveHoleMobility := lit 8 (-3), pnSizeRatio := lit 245 (-2),
           effectiveResistanceMultiplier := lit 154 (-2),
           currentOnNmos := decades on (currentOnNmos T),
           currentOnPmos := decades [168, 168, 168, 168, 168, 168, 168, 168, 168, 168, 168] (currentOnPmos T),
           currentOffNmos := decades off (currentOffNmos T),
           currentOffPmos := decades [lit 85 (-7), lit 85 (-7), lit 85 (-7), lit 85 (-7), lit 85 (-7),
                              lit 85 (-7), lit 85 (-7), lit 85 (-7), lit 85 (-7), lit 85 (-7),
                              lit 85 (-7)] (currentOffPmos T)\<rparr>)"

definition low_operating_180 :: "Technology \<Rightarrow> Technology" where
  "low_operating_180 T =
     (let on = [490, 490, 490, 490, 490, 490, 490, 490, 490, 490, 490];
          off = [lit 4 (-4), lit 4 (-4), lit 4 (-4), lit 4 (-4), lit 4 (-4), lit 4 (-4),
                 lit 4 (-4), lit 4 (-4), lit 4 (-4), lit 4 (-4), lit 4 (-4)]
      in T\<lparr>vdd := lit 12 (-1), vth := lit 45 (-2), phyGateLength := lit 135 (-9),
           capIdealGate := lit 8 (-10), capFringe := lit 25 (-11), capJunction := lit 1 (-3),
           capOx := lit 1 (-2), effectiveElectronMobility := lit 33 (-3),
           effectiveHoleMobility := lit 9 (-3), pnSizeRatio := lit 245 (-2),
           effectiveResistanceMultiplier := lit 154 (-2),
           currentOnNmos := decades on (currentOnNmos T),
           currentOnPmos := decades [230, 230, 230, 230, 230, 230, 230, 230, 230, 230, 230] (currentOnPmos T),
           currentOffNmos := decades off (currentOffNmos T),
           currentOffPmos := decades [lit 8 (-4), lit 8 (-4), lit 8 (-4), lit 8 (-4), lit 8 (-4),
                              lit 8 (-4), lit 8 (-4), lit 8 (-4), lit 8 (-4), lit 8 (-4),
                              lit 8 (-4)] (currentOffPmos T)\<rparr>)"

definition high_performance_120 :: "Technology \<Rightarrow> Technology" where
  "high_performance_120 T =
     (let on = [lit 9609 (-1), lit 9479 (-1), lit 9351 (-1), lit 9225 (-1), 910, lit 8977 (-1),
                lit 8855 (-1), lit 8736 (-1), lit 8618 (-1), lit 8501 (-1), lit 8386 (-1)];
          off = [lit 19 (-3), lit 235 (-4), lit 286 (-4), lit 345 (-4), lit 412 (-4),
                 lit 487 (-4), lit 571 (-4), lit 664 (-4), lit 767 (-4), lit 88 (-3), lit 1 (-1)]
      in T\<lparr>vdd := lit 12 (-1), vth := lit 21804 (-5), phyGateLength := lit 451 (-10),
           capIdealGate := lit 741 (-12), capFringe := lit 24 (-11), capJunction := lit 1 (-3),
           capOx := lit 164 (-4), effectiveElectronMobility := lit 24959 (-6),
           effectiveHoleMobility := lit 5952 (-6), pnSizeRatio := lit 245 (-2),
           effectiveResistanceMultiplier := lit 154 (-2),
           currentOnNmos := decades on (currentOnNmos T),
           currentOnPmos := decades [lit 5784 (-1), lit 5678 (-1), lit 5575 (-1), lit 5474 (-1),
                             lit 5375 (-1), lit 5278 (-1), lit 5183 (-1), lit 5091 (-1), 500,
                             lit 4911 (-1), lit 4825 (-1)] (currentOnPmos T),
           currentOffNmos := decades off (currentOffNmos T),
           currentOffPmos := decades [lit 382 (-4), lit 384 (-4), lit 387 (-4), lit 39 (-3), lit 393 (-4),
                              lit 397 (-4), lit 401 (-4), lit 405 (-4), lit 41 (-3), lit 416 (-4),
                              lit 422 (-4)] (currentOffPmos T)\<rparr>)"

definition low_standby_120 :: "Technology \<Rightarrow> Technology" where
  "low_standby_120 T =
     (let on = [lit 4225 (-1), 415, lit 4077 (-1), lit 4005 (-1), lit 3936 (-1), lit 3868 (-1),
                lit 3801 (-1), lit 3737 (-1), lit 3674 (-1), lit 3613 (-1), lit 3555 (-1)];
          off = [lit 101 (-7), lit 104 (-7), lit 106 (-7), lit 109 (-7), lit 112 (-7),
                 lit 116 (-7), lit 12 (-6), lit 124 (-7), lit 128 (-7), lit 132 (-7), lit 137 (-7)]
      in T\<lparr>vdd := lit 12 (-1), vth := lit 50125 (-5), phyGateLength := lit 75 (-9),
           capIdealGate := lit 862 (-12), capFringe := lit 25 (-11), capJunction := lit 1 (-3),
           capOx := lit 115 (-4), effectiveElectronMobility := lit 28497 (-6),
           effectiveHoleMobility := lit 6182 (-6), pnSizeRatio := lit 245 (-2),
           effectiveResistanceMultiplier := lit 154 (-2),
           currentOnNmos := decades on (currentOnNmos T),
           currentOnPmos := decades [lit 2049 (-1), lit 2003 (-1), lit 1959 (-1), lit 1917 (-1),
                             lit 1875 (-1), lit 1835 (-1), lit 1797 (-1), lit 1759 (-1),
                             lit 1723 (-1), lit 1688 (-1), lit 1654 (-1)] (currentOnPmos T),
           currentOffNmos := decades off (currentOffNmos T),
           currentOffPmos := decades [lit 221 (-7), lit 227 (-7), lit 233 (-7), lit 24 (-6), lit 247 (-7),
                              lit 254 (-7), lit 262 (-7), lit 271 (-7), lit 28 (-6), lit 29 (-6),
                              lit 301 (-7)] (currentOffPmos T)\<rparr>)"

definition low_operating_120 :: "Technology \<Rightarrow> Technology" where
  "low_operating_120 T =
     (let on = [lit 5314 (-1), lit 5226 (-1), 514, lit 5055 (-1), lit 4973 (-1), lit 4892 (-1),
                lit 4813 (-1), lit 4736 (-1), lit 4661 (-1), lit 4588 (-1), lit 4516 (-1)];
          off = [lit 969 (-6), lit 987 (-6), lit 101 (-5), lit 103 (-5), lit 105 (-5),
                 lit 108 (-5), lit 11 (-4), lit 113 (-5), lit 116 (-5), lit 119 (-5), lit 123 (-5)]
      in T\<lparr>vdd := 1, vth := lit 3126 (-4), phyGateLength := lit 65 (-9),
           capIdealGate := lit 634 (-12), capFringe := lit 25 (-11), capJunction := lit 1 (-3),
           capOx := lit 144 (-4), effectiveElectronMobility := lit 29243 (-6),
           effectiveHoleMobility := lit 6453 (-6), pnSizeRatio := lit 245 (-2),
           effectiveResistanceMultiplier := lit 154 (-2),
           currentOnNmos := decades on (currentOnNmos T),
           currentOnPmos := decades [lit 2785 (-1), lit 2725 (-1), lit 2668 (-1), lit 2612 (-1),
                             lit 2558 (-1), lit 2505 (-1), lit 2454 (-1), lit 2404 (-1),
                             lit 2356 (-1), 231, lit 2264 (-1)] (currentOnPmos T),
           currentOffNmos := decades off (currentOffNmos T),
           currentOffPmos := decades [lit 22 (-4), lit 225 (-5), lit 229 (-5), lit 234 (-5), lit 239 (-5),
                              lit 245 (-5), lit 251 (-5), lit 257 (-5), lit 264 (-5),
                              lit 272 (-5), lit 279 (-5)] (currentOffPmos T)\<rparr>)"

definition high_performance_90 :: "Technology \<Rightarrow> Technology" where
  "high_performance_90 T =
     (let on = [lit 10505 (-1), 1037, lit 10236 (-1), lit 10103 (-1), lit 9972 (-1),
                lit 9842 (-1), lit 9714 (-1), lit 9588 (-1), lit 9463 (-1), lit 9339 (-1),
                lit 9217 (-1)];
          off = map (\<lambda>x. x * lit 273 (-2))
            [lit 19 (-3), lit 235 (-4), lit 286 (-4), lit 345 (-4), lit 412 (-4), lit 487 (-4),
             lit 571 (-4), lit 664 (-4), lit 767 (-4), lit 88 (-3), lit 1 (-1)]
      in T\<lparr>vdd := lit 12 (-1), vth := lit 19795 (-5), phyGateLength := lit 37 (-9),
           capIdealGate := lit 638 (-12), capFringe := lit 25 (-11), capJunction := lit 1 (-3),
           capOx := lit 173 (-4), effectiveElectronMobility := lit 24343 (-6),
           effectiveHoleMobility := lit 5832 (-6), pnSizeRatio := lit 245 (-2),
           effectiveResistanceMultiplier := lit 154 (-2),
           currentOnNmos := decades on (currentOnNmos T),
           currentOnPmos := decades [lit 6387 (-1), lit 6275 (-1), lit 6165 (-1), lit 6058 (-1),
                             lit 5952 (-1), lit 5849 (-1), lit 5747 (-1), lit 5648 (-1),
                             lit 5551 (-1), lit 5455 (-1), lit 5362 (-1)] (currentOnPmos T),
           currentOffNmos := decades off (currentOffNmos T),
           currentOffPmos := decades [lit 526 (-4), lit 526 (-4), lit 526 (-4), lit 527 (-4),
                              lit 528 (-4), lit 529 (-4), lit 531 (-4), lit 534 (-4),
                              lit 536 (-4), lit 54 (-3), lit 543 (-4)] (currentOffPmos T)\<rparr>)"

definition low_standby_90 :: "Technology \<Rightarrow> Technology" where
  "low_standby_90 T =
     (let on = [lit 4466 (-1), lit 4387 (-1), lit 4312 (-1), lit 4238 (-1), lit 4167 (-1),
                lit 4097 (-1), lit 4029 (-1), lit 3963 (-1), lit 3898 (-1), lit 3835 (-1),
                lit 3773 (-1)];
          off = [lit 945 (-8), lit 967 (-8), lit 991 (-7), lit 102 (-7), lit 105 (-7),
                 lit 108 (-7), lit 111 (-7), lit 114 (-7), lit 128 (-7), lit 132 (-7),
                 lit 137 (-7)]
      in T\<lparr>vdd := lit 12 (-1), vth := lit 50236 (-5), phyGateLength := lit 65 (-9),
           capIdealGate := lit 773 (-12), capFringe := lit 24 (-11), capJunction := lit 1 (-3),
           capOx := lit 119 (-4), effectiveElectronMobility := lit 27794 (-6),
           effectiveHoleMobility := lit 6064 (-6), pnSizeRatio := lit 244 (-2),
           effectiveResistanceMultiplier := lit 192 (-2),
           currentOnNmos := decades on (currentOnNmos T),
           currentOnPmos := decades [lit 2215 (-1), lit 2166 (-1), 212, lit 2074 (-1), lit 2031 (-1),
                             lit 1988 (-1), lit 1947 (-1), lit 1907 (-1), lit 1869 (-1),
                             lit 1831 (-1), lit 1795 (-1)] (currentOnPmos T),
           currentOffNmos := decades off (currentOffNmos T),
           currentOffPmos := decades [lit 205 (-7), lit 21 (-6), lit 215 (-7), lit 221 (-7), lit 227 (-7),
                              lit 234 (-7), lit 241 (-7), lit 248 (-7), lit 256 (-7),
                              lit 265 (-7), lit 274 (-7)] (currentOffPmos T)\<rparr>)"

definition low_operating_90 :: "Technology \<Rightarrow> Technology" where
  "low_operating_90 T =
     (let on = [lit 5345 (-1), lit 5257 (-1), 517, lit 5085 (-1), lit 5002 (-1), lit 4921 (-1),
                lit 4841 (-1), lit 4763 (-1), lit 4687 (-1), lit 4612 (-1), lit 4539 (-1)];
          off = [lit 274 (-5), lit 26 (-4), lit 279 (-5), lit 281 (-5), lit 284 (-5),
                 lit 288 (-5), lit 291 (-5), lit 295 (-5), lit 299 (-5), lit 304 (-5),
                 lit 309 (-5)]
      in T\<lparr>vdd := lit 9 (-1), vth := lit 26454 (-5), phyGateLength := lit 53 (-9),
           capIdealGate := lit 795 (-12), capFringe := lit 24 (-11), capJunction := lit 1 (-3),
           capOx := lit 15 (-3), effectiveElectronMobility := lit 30904 (-6),
           effectiveHoleMobility := lit 6788 (-6), pnSizeRatio := lit 254 (-2),
           effectiveResistanceMultiplier := lit 177 (-2),
           currentOnNmos := decades on (currentOnNmos T),
           currentOnPmos := decades [lit 2942 (-1), lit 2878 (-1), lit 2817 (-1), lit 2757 (-1),
                             lit 2699 (-1), lit 2642 (-1), lit 2587 (-1), lit 2534 (-1),
                             lit 2482 (-1), lit 2432 (-1), lit 2383 (-1)] (currentOnPmos T),
           currentOffNmos := decades off (currentOffNmos T),
           currentOffPmos := decades [lit 651 (-5), lit 656 (-5), lit 661 (-5), lit 667 (-5),
                              lit 674 (-5), lit 682 (-5), lit 691 (-5), lit 7 (-3), lit 71 (-4),
                              lit 721 (-5), lit 733 (-5)] (currentOffPmos T)\<rparr>)"

definition embedded_90 :: "Technology \<Rightarrow> Technology" where
  "embedded_90 T =
     (let on = [lit 3216 (-1), lit 3216 (-1), lit 3216 (-1), lit 3216 (-1), lit 3216 (-1),
                lit 3216 (-1), lit 3216 (-1), lit 3216 (-1), lit 3216 (-1), lit 3216 (-1),
                lit 3216 (-1)];
          off = [lit 142 (-7), lit 225 (-7), lit 346 (-7), lit 518 (-7), lit 758 (-7),
                 lit 108 (-6), lit 151 (-6), lit 202 (-6), lit 257 (-6), lit 314 (-6),
                 lit 385 (-6)]
      in T\<lparr>vdd := lit 12 (-1), vpp := lit 16 (-1), vth := lit 4545 (-4),
           phyGateLength := lit 12 (-8), capIdealGate := lit 147 (-11), capFringe := lit 8 (-11),
           capJunction := lit 1 (-3), capOx := lit 122 (-4),
           effectiveElectronMobility := lit 32395 (-6), effectiveHoleMobility := lit 32395 (-6),
           pnSizeRatio := lit 195 (-2), effectiveResistanceMultiplier := lit 165 (-2),
           currentOnNmos := decades on (currentOnNmos T),
           currentOnPmos := decades [lit 2033 (-1), lit 2033 (-1), lit 2033 (-1), lit 2033 (-1),
                             lit 2033 (-1), lit 2033 (-1), lit 2033 (-1), lit 2033 (-1),
                             lit 2033 (-1), lit 2033 (-1), lit 2033 (-1)] (currentOnPmos T),
           currentOffNmos := decades off (currentOffNmos T),
           currentOffPmos := decades [lit 142 (-7), lit 225 (-7), lit 346 (-7), lit 518 (-7),
                              lit 758 (-7), lit 108 (-6), lit 151 (-6), lit 202 (-6),
                              lit 257 (-6), lit 314 (-6), lit 385 (-6)] (currentOffPmos T)\<rparr>)"

definition high_performance_65 :: "Technology \<Rightarrow> Technology" where
  "high_performance_65 T =
     (let on = [lit 12114 (-1), lit 11984 (-1), lit 11854 (-1), lit 11725 (-1), lit 11569 (-1),
                lit 11467 (-1), lit 11336 (-1), lit 11199 (-1), lit 11043 (-1), lit 10846 (-1),
                1059];
          off = [lit 343 (-3), lit 373 (-3), lit 403 (-3), lit 435 (-3), lit 466 (-3),
                 lit 499 (-3), lit 531 (-3), lit 564 (-3), lit 596 (-3), lit 625 (-3),
                 lit 651 (-3)]
      in T\<lparr>vdd := lit 11 (-1), vth := lit 16398 (-5), phyGateLength := lit 25 (-9),
           capIdealGate := lit 47 (-11), capFringe := lit 24 (-11), capJunction := lit 1 (-3),
           capOx := lit 188 (-4), effectiveElectronMobility := lit 44574 (-6),
           effectiveHoleMobility := lit 11333 (-6), pnSizeRatio := lit 241 (-2),
           effectiveResistanceMultiplier := lit 15 (-1),
           currentOnNmos := decades on (currentOnNmos T),
           currentOnPmos := decades [lit 8887 (-1), lit 8758 (-1), lit 8617 (-1), lit 8485 (-1),
                             lit 8354 (-1), lit 8226 (-1), lit 8099 (-1), lit 7973 (-1),
                             lit 7848 (-1), lit 7722 (-1), lit 7594 (-1)] (currentOnPmos T),
           currentOffNmos := decades off (currentOffNmos T),
           currentOffPmos := decades [lit 568 (-3), lit 607 (-3), lit 646 (-3), lit 686 (-3),
                              lit 726 (-3), lit 766 (-3), lit 806 (-3), lit 846 (-3),
                              lit 886 (-3), lit 926 (-3), lit 965 (-3)] (currentOffPmos T)\<rparr>)"

definition low_standby_65 :: "Technology \<Rightarrow> Technology" where
  "low_standby_65 T =
     (let on = [lit 4654 (-1), lit 4585 (-1), lit 4518 (-1), lit 4451 (-1), lit 4384 (-1),
                lit 4316 (-1), lit 4239 (-1), lit 4142 (-1), lit 4006 (-1), lit 3835 (-1),
                lit 3672 (-1)];
          off = [lit 303 (-7), lit 446 (-7), lit 643 (-7), lit 906 (-7), lit 125 (-6),
                 lit 17 (-5), lit 225 (-6), lit 29 (-5), lit 361 (-6), lit 435 (-6), lit 52 (-5)]
      in T\<lparr>vdd := lit 11 (-1), vth := lit 56392 (-5), phyGateLength := lit 45 (-9),
           capIdealGate := lit 617 (-12), capFringe := lit 24 (-11), capJunction := lit 1 (-3),
           capOx := lit 137 (-4), effectiveElectronMobility := lit 45786 (-6),
           effectiveHoleMobility := lit 10264 (-6), pnSizeRatio := lit 223 (-2),
           effectiveResistanceMultiplier := lit 196 (-2),
           currentOnNmos := decades on (currentOnNmos T),
           currentOnPmos := decades [lit 2342 (-1), lit 2297 (-1), lit 2253 (-1), 221, lit 2168 (-1),
                             lit 2127 (-1), lit 2088 (-1), lit 2048 (-1), lit 2007 (-1),
                             lit 1966 (-1), lit 1926 (-1)] (currentOnPmos T),
           currentOffNmos := decades off (currentOffNmos T),
           currentOffPmos := decades [lit 385 (-7), lit 564 (-7), lit 809 (-7), lit 114 (-6),
                              lit 157 (-6), lit 212 (-6), lit 282 (-6), lit 37 (-5), lit 478 (-6),
                              lit 609 (-6), lit 766 (-6)] (currentOffPmos T)\<rparr>)"

definition low_operating_65 :: "Technology \<Rightarrow> Technology" where
  "low_operating_65 T =
     (let on = [lit 5629 (-1), lit 5552 (-1), lit 5475 (-1), lit 5398 (-1), lit 5322 (-1),
                lit 5245 (-1), lit 5161 (-1), lit 5057 (-1), lit 4911 (-1), lit 4717 (-1),
                lit 4516 (-1)];
          off = [lit 908 (-5), lit 111 (-4), lit 135 (-4), lit 162 (-4), lit 192 (-4),
                 lit 225 (-4), lit 262 (-4), lit 299 (-4), lit 335 (-4), lit 367 (-4),
                 lit 398 (-4)]
      in T\<lparr>vdd := lit 8 (-1), vth := lit 32375 (-5), phyGateLength := lit 32 (-9),
           capIdealGate := lit 601 (-12), capFringe := lit 24 (-11), capJunction := lit 1 (-3),
           capOx := lit 188 (-4), effectiveElectronMobility := lit 49159 (-6),
           effectiveHoleMobility := lit 11095 (-6), pnSizeRatio := lit 228 (-2),
           effectiveResistanceMultiplier := lit 182 (-2),
           currentOnNmos := decades on (currentOnNmos T),
           currentOnPmos := decades [lit 3295 (-1), lit 3233 (-1), lit 3172 (-1), lit 3112 (-1),
                             lit 3054 (-1), lit 2998 (-1), lit 2942 (-1), lit 2887 (-1),
                             lit 2832 (-1), lit 2775 (-1), lit 2718 (-1)] (currentOnPmos T),
           currentOffNmos := decades off (currentOffNmos T),
           currentOffPmos := decades [lit 13 (-3), lit 157 (-4), lit 189 (-4), lit 224 (-4), lit 264 (-4),
                              lit 308 (-4), lit 356 (-4), lit 109 (-4), lit 465 (-4),
                              lit 526 (-4), lit 591 (-4)] (currentOffPmos T)\<rparr>)"

definition embedded_65 :: "Technology \<Rightarrow> Technology" where
  "embedded_65 T =
     (let on = [lit 3998 (-1), lit 3998 (-1), lit 3998 (-1), lit 3998 (-1), lit 3998 (-1),
                lit 3998 (-1), lit 3998 (-1), lit 3998 (-1), lit 3998 (-1), lit 3998 (-1),
                lit 3998 (-1)];
          off = [lit 223 (-7), lit 346 (-7), lit 524 (-7), lit 775 (-7), lit 112 (-6),
                 lit 158 (-6), lit 218 (-6), lit 288 (-6), lit 363 (-6), lit 441 (-6),
                 lit 536 (-6)]
      in T\<lparr>vdd := lit 12 (-1), vpp := lit 16 (-1), vth := lit 43806 (-5),
           phyGateLength := lit 12 (-8), capIdealGate := lit 146 (-11), capFringe := lit 8 (-11),
           capJunction := lit 1 (-3), capOx := lit 122 (-4),
           effectiveElectronMobility := lit 32832 (-6), effectiveHoleMobility := lit 32832 (-6),
           pnSizeRatio := lit 205 (-2), effectiveResistanceMultiplier := lit 165 (-2),
           currentOnNmos := decades on (currentOnNmos T),
           currentOnPmos := decades [lit 2434 (-1), lit 2434 (-1), lit 2434 (-1), lit 2434 (-1),
                             lit 2434 (-1), lit 2434 (-1), lit 2434 (-1), lit 2434 (-1),
                             lit 2434 (-1), lit 2434 (-1), lit 2434 (-1)] (currentOnPmos T),
           currentOffNmos := decades off (currentOffNmos T),
           currentOffPmos := decades [lit 223 (-7), lit 346 (-7), lit 524 (-7), lit 775 (-7),
                              lit 112 (-6), lit 158 (-6), lit 218 (-6), lit 288 (-6),
                              lit 363 (-6), lit 441 (-6), lit 536 (-6)] (currentOffPmos T)\<rparr>)"

definition high_performance_45 :: "Technology \<Rightarrow> Technology" where
  "high_performance_45 T =
     (let on = [lit 18238 (-1), lit 18082 (-1), lit 17926 (-1), 1777, lit 17614 (-1),
                lit 17458 (-1), lit 17303 (-1), lit 17147 (-1), lit 16991 (-1), lit 16832 (-1),
                lit 16666 (-1)];
          off = [lit 28 (-2), lit 328 (-3), lit 381 (-3), lit 439 (-3), lit 502 (-3),
                 lit 569 (-3), lit 642 (-3), lit 72 (-2), lit 803 (-3), lit 891 (-3), lit 984 (-3)]
      in T\<lparr>vdd := 1, vth := lit 12679 (-5), phyGateLength := lit 18 (-9),
           capIdealGate := lit 678 (-12), capFringe := lit 17 (-11), capJunction := lit 1 (-3),
           capOx := lit 377 (-4), effectiveElectronMobility := lit 2977 (-5),
           effectiveHoleMobility := lit 9527 (-6), pnSizeRatio := lit 241 (-2),
           effectiveResistanceMultiplier := lit 151 (-2),
           currentOnNmos := decades on (currentOnNmos T),
           currentOnPmos := decades [lit 16322 (-1), lit 16128 (-1), lit 15936 (-1), lit 15741 (-1),
                             lit 15547 (-1), lit 15355 (-1), lit 15164 (-1), lit 14976 (-1),
                             lit 14788 (-1), lit 14603 (-1), lit 14418 (-1)] (currentOnPmos T),
           currentOffNmos := decades off (currentOffNmos T),
           currentOffPmos := decades off (currentOffPmos T)\<rparr>)"

definition low_standby_45 :: "Technology \<Rightarrow> Technology" where
  "low_standby_45 T =
     (let on = [lit 5275 (-1), lit 5202 (-1), lit 5129 (-1), lit 5058 (-1), lit 4986 (-1),
                lit 4914 (-1), lit 4837 (-1), lit 4744 (-1), lit 4612 (-1), lit 4426 (-1),
                lit 4213 (-1)];
          off = [lit 101 (-7), lit 165 (-7), lit 262 (-7), lit 406 (-7), lit 612 (-7),
                 lit 902 (-7), lit 13 (-5), lit 183 (-6), lit 251 (-6), lit 329 (-6), lit 41 (-5)]
      in T\<lparr>vdd := 1, vth := lit 56452 (-5), phyGateLength := lit 28 (-9),
           capIdealGate := lit 558 (-12), capFringe := lit 21 (-11), capJunction := lit 1 (-3),
           capOx := lit 199 (-4), effectiveElectronMobility := lit 45614 (-6),
           effectiveHoleMobility := lit 9698 (-6), pnSizeRatio := lit 223 (-2),
           effectiveResistanceMultiplier := lit 199 (-2),
           currentOnNmos := decades on (currentOnNmos T),
           currentOnPmos := decades [lit 4979 (-1), lit 4895 (-1), lit 4813 (-1), lit 4732 (-1),
                             lit 4653 (-1), lit 4576 (-1), 450, lit 4425 (-1), lit 4351 (-1),
                             lit 4275 (-1), lit 4197 (-1)] (currentOnPmos T),
           currentOffNmos := decades off (currentOffNmos T),
           currentOffPmos := decades off (currentOffPmos T)\<rparr>)"

definition low_operating_45 :: "Technology \<Rightarrow> Technology" where
  "low_operating_45 T =
     (let on = [lit 6821 (-1), lit 6723 (-1), lit 6625 (-1), lit 6528 (-1), 643, lit 6328 (-1),
                lit 6209 (-1), 605, lit 5836 (-1), 561, lit 5427 (-1)];
          off = [lit 403 (-5), lit 502 (-5), lit 618 (-5), lit 751 (-5), lit 904 (-5),
                 lit 108 (-4), lit 127 (-4), lit 147 (-4), lit 166 (-4), lit 184 (-4),
                 lit 203 (-4)]
      in T\<lparr>vdd := lit 7 (-1), vth := lit 28894 (-5), phyGateLength := lit 22 (-9),
           capIdealGate := lit 613 (-12), capFringe := lit 2 (-10), capJunction := lit 1 (-3),
           capOx := lit 279 (-4), effectiveElectronMobility := lit 60695 (-6),
           effectiveHoleMobility := lit 1246 (-5), pnSizeRatio := lit 228 (-2),
           effectiveResistanceMultiplier := lit 176 (-2),
           currentOnNmos := decades on (currentOnNmos T),
           currentOnPmos := decades [lit 7724 (-1), lit 7596 (-1), lit 7469 (-1), lit 7344 (-1),
                             lit 7221 (-1), 710, lit 6981 (-1), lit 6863 (-1), lit 6744 (-1),
                             lit 6623 (-1), lit 6502 (-1)] (currentOnPmos T),
           currentOffNmos := decades off (currentOffNmos T),
           currentOffPmos := decades off (currentOffPmos T)\<rparr>)"

definition embedded_45 :: "Technology \<Rightarrow> Technology" where
  "embedded_45 T =
     (let on = [456, 456, 456, 456, 456, 456, 456, 456, 456, 456, 456];
          off = [lit 254 (-7), lit 394 (-7), lit 595 (-7), lit 879 (-7), lit 127 (-6),
                 lit 179 (-6), lit 247 (-6), lit 331 (-6), lit 426 (-6), lit 527 (-6),
                 lit 646 (-6)]
      in T\<lparr>vdd := lit 11 (-1), vpp := lit 15 (-1), vth := lit 44559 (-5),
           phyGateLength := lit 78 (-9), capIdealGate := lit 11 (-10), capFringe := lit 8 (-11),
           capJunction := lit 1 (-3), capOx := lit 141 (-4),
           effectiveElectronMobility := lit 4263 (-5), effectiveHoleMobility := lit 4263 (-5),
           pnSizeRatio := lit 205 (-2), effectiveResistanceMultiplier := lit 165 (-2),
           currentOnNmos := decades on (currentOnNmos T),
           currentOnPmos := decades [228, 228, 228, 228, 228, 228, 228, 228, 228, 228, 228] (currentOnPmos T),
           currentOffNmos := decades off (currentOffNmos T),
           currentOffPmos := decades [lit 254 (-7), lit 394 (-7), lit 595 (-7), lit 879 (-7),
                              lit 127 (-6), lit 179 (-6), lit 247 (-6), lit 331 (-6),
                              lit 426 (-6), lit 527 (-6), lit 646 (-6)] (currentOffPmos T)\<rparr>)"

definition high_performance_32 :: "Technology \<Rightarrow> Technology" where
  "high_performance_32 T =
     (let on = [lit 17858 (-1), lit 17718 (-1), lit 17578 (-1), lit 17438 (-1), lit 17298 (-1),
                lit 17157 (-1), lit 17017 (-1), lit 16876 (-1), lit 16735 (-1), lit 16594 (-1),
                1645];
          off = [lit 834 (-3), lit 9 (-1), lit 968 (-3), lit 104 (-2), lit 111 (-2), lit 118 (-2),
                 lit 125 (-2), lit 132 (-2), lit 139 (-2), lit 146 (-2), lit 154 (-2)]
      in T\<lparr>vdd := lit 9 (-1), vth := lit 13172 (-5), phyGateLength := lit 14 (-9),
           capIdealGate := lit 642 (-12), capFringe := lit 16 (-11), capJunction := lit 1 (-3),
           capOx := lit 459 (-4), effectiveElectronMobility := lit 25773 (-6),
           effectiveHoleMobility := lit 8992 (-6), pnSizeRatio := lit 241 (-2),
           effectiveResistanceMultiplier := lit 149 (-2),
           currentOnNmos := decades on (currentOnNmos T),
           currentOnPmos := decades [lit 17135 (-1), lit 16628 (-1), lit 16201 (-1), lit 16016 (-1),
                             lit 15833 (-1), lit 15651 (-1), lit 15471 (-1), lit 15291 (-1),
                             lit 15113 (-1), lit 14937 (-1), lit 14761 (-1)] (currentOnPmos T),
           currentOffNmos := decades off (currentOffNmos T),
           currentOffPmos := decades off (currentOffPmos T)\<rparr>)"

definition low_standby_32 :: "Technology \<Rightarrow> Technology" where
  "low_standby_32 T =
     (let on = [560, 553, lit 5461 (-1), lit 5393 (-1), lit 5325 (-1), lit 5258 (-1),
                lit 5189 (-1), lit 5115 (-1), lit 5023 (-1), lit 4892 (-1), lit 4697 (-1)];
          off = [lit 302 (-7), lit 451 (-7), lit 657 (-7), lit 935 (-7), lit 131 (-6),
                 lit 179 (-6), lit 241 (-6), lit 319 (-6), lit 415 (-6), lit 529 (-6),
                 lit 658 (-6)]
      in T\<lparr>vdd := 1, vth := lit 58181 (-5), phyGateLength := lit 22 (-9),
           capIdealGate := lit 502 (-12), capFringe := lit 19 (-11), capJunction := lit 1 (-3),
           capOx := lit 219 (-4), effectiveElectronMobility := lit 3952 (-5),
           effectiveHoleMobility := lit 8867 (-6), pnSizeRatio := lit 223 (-2),
           effectiveResistanceMultiplier := lit 199 (-2),
           currentOnNmos := decades on (currentOnNmos T),
           currentOnPmos := decades [lit 5496 (-1), lit 5411 (-1), lit 5328 (-1), lit 5246 (-1),
                             lit 5165 (-1), lit 5087 (-1), lit 5009 (-1), lit 4933 (-1),
                             lit 4858 (-1), lit 4783 (-1), lit 4707 (-1)] (currentOnPmos T),
           currentOffNmos := decades off (currentOffNmos T),
           currentOffPmos := decades off (currentOffPmos T)\<rparr>)"

definition low_operating_32 :: "Technology \<Rightarrow> Technology" where
  "low_operating_32 T =
     (let on = [lit 7603 (-1), lit 7504 (-1), lit 7405 (-1), lit 7307 (-1), lit 7208 (-1),
                lit 7109 (-1), lit 7003 (-1), lit 6876 (-1), lit 6705 (-1), lit 6474 (-1),
                lit 6236 (-1)];
          off = [lit 357 (-4), lit 421 (-4), lit 491 (-4), lit 568 (-4), lit 651 (-4),
                 lit 742 (-4), lit 843 (-4), lit 957 (-4), lit 11 (-2), lit 128 (-3), lit 148 (-3)]
      in T\<lparr>vdd := lit 7 (-1), vth := lit 27852 (-5), phyGateLength := lit 18 (-9),
           capIdealGate := lit 554 (-12), capFringe := lit 2 (-10), capJunction := lit 1 (-3),
           capOx := lit 308 (-4), effectiveElectronMobility := lit 58162 (-6),
           effectiveHoleMobility := lit 1203 (-5), pnSizeRatio := lit 228 (-2),
           effectiveResistanceMultiplier := lit 173 (-2),
           currentOnNmos := decades on (currentOnNmos T),
           currentOnPmos := decades [lit 8786 (-1), lit 8651 (-1), lit 8518 (-1), lit 8387 (-1),
                             lit 8257 (-1), 813, lit 8003 (-1), lit 7879 (-1), lit 7755 (-1), 763,
                             lit 7503 (-1)] (currentOnPmos T),
           currentOffNmos := decades off (currentOffNmos T),
           currentOffPmos := decades off (currentOffPmos T)\<rparr>)"

definition embedded_32 :: "Technology \<Rightarrow> Technology" where
  "embedded_32 T =
     (let on = [lit 10554 (-1), lit 10554 (-1), lit 10554 (-1), lit 10554 (-1), lit 10554 (-1),
                lit 10554 (-1), lit 10554 (-1), lit 10554 (-1), lit 10554 (-1), lit 10554 (-1),
                lit 10554 (-1)];
          off = [lit 357 (-7), lit 551 (-7), lit 827 (-7), lit 121 (-6), lit 174 (-6),
                 lit 245 (-6), lit 338 (-6), lit 453 (-6), lit 587 (-6), lit 729 (-6),
                 lit 887 (-6)]
      in T\<lparr>vdd := 1, vpp := lit 15 (-1), vth := lit 44129 (-5), phyGateLength := lit 56 (-9),
           capIdealGate := lit 745 (-12), capFringe := lit 53 (-12), capJunction := lit 1 (-3),
           capOx := lit 148 (-4), effectiveElectronMobility := lit 40812 (-6),
           effectiveHoleMobility := lit 40812 (-6), pnSizeRatio := lit 205 (-2),
           effectiveResistanceMultiplier := lit 165 (-2),
           currentOnNmos := decades on (currentOnNmos T),
           currentOnPmos := decades [lit 5277 (-1), lit 5277 (-1), lit 5277 (-1), lit 5277 (-1),
                             lit 5277 (-1), lit 5277 (-1), lit 5277 (-1), lit 5277 (-1),
                             lit 5277 (-1), lit 5277 (-1), lit 5277 (-1)] (currentOnPmos T),
           currentOffNmos := decades off (currentOffNmos T),
           currentOffPmos := decades [lit 357 (-7), lit 551 (-7), lit 827 (-7), lit 121 (-6),
                              lit 174 (-6), lit 245 (-6), lit 338 (-6), lit 453 (-6),
                              lit 587 (-6), lit 729 (-6), lit 887 (-6)] (currentOffPmos T)\<rparr>)"

definition high_performance_22 :: "Technology \<Rightarrow> Technology" where
  "high_performance_22 T =
     (let on = [lit 20299 (-1), lit 20098 (-1), lit 19896 (-1), lit 19696 (-1), lit 19498 (-1),
                lit 19307 (-1), lit 19105 (-1), 1891, lit 18717 (-1), lit 18525 (-1),
                lit 18344 (-1)];
          off = map (\<lambda>x. x * lit 393 4)
            [lit 152 (-9), lit 155 (-9), lit 159 (-9), lit 168 (-9), lit 19 (-8), lit 269 (-9),
             lit 532 (-9), lit 102 (-8), lit 162 (-8), lit 273 (-8), lit 61 (-7)]
      in T\<lparr>vdd := lit 9 (-1), vth := lit 12872 (-5), phyGateLength := lit 1 (-8),
           capIdealGate := lit 383 (-12), capFringe := lit 16 (-11), capJunction := 0,
           capOx := lit 383 (-4), effectiveElectronMobility := lit 39726 (-6),
           effectiveHoleMobility := lit 836 (-5), pnSizeRatio := 2,
           effectiveResistanceMultiplier := lit 145 (-2),
           currentOnNmos := decades on (currentOnNmos T),
           currentOnPmos := decades (shifted_halves on) (currentOnPmos T),
           currentOffNmos := decades off (currentOffNmos T),
           currentOffPmos := decades off (currentOffPmos T)\<rparr>)"

definition low_standby_22 :: "Technology \<Rightarrow> Technology" where
  "low_standby_22 T =
     (let on = [lit 7455 (-1), lit 7352 (-1), lit 7251 (-1), lit 7152 (-1), lit 7054 (-1),
                lit 6957 (-1), lit 6862 (-1), lit 6769 (-1), lit 6677 (-1), lit 6587 (-1),
                lit 6498 (-1)];
          off = map (\<lambda>x. x / lit 186 (-2))
            [lit 302 (-7), lit 451 (-7), lit 657 (-7), lit 935 (-7), lit 131 (-6), lit 179 (-6),
             lit 241 (-6), lit 319 (-6), lit 415 (-6), lit 529 (-6), lit 658 (-6)]
      in T\<lparr>vdd := lit 8 (-1), vth := lit 44571 (-5), phyGateLength := lit 16 (-9),
           capIdealGate := lit 425 (-12), capFringe := lit 2 (-10), capJunction := 0,
           capOx := lit 265 (-4), effectiveElectronMobility := lit 73129 (-6),
           effectiveHoleMobility := lit 11122 (-6), pnSizeRatio := lit 223 (-2),
           effectiveResistanceMultiplier := lit 199 (-2),
           currentOnNmos := decades on (currentOnNmos T),
           currentOnPmos := decades (shifted_halves on) (currentOnPmos T),
           currentOffNmos := decades off (currentOffNmos T),
           currentOffPmos := decades off (currentOffPmos T)\<rparr>)"

definition low_operating_22 :: "Technology \<Rightarrow> Technology" where
  "low_operating_22 T =
     (let on = [lit 7161 (-1), lit 7043 (-1), lit 6926 (-1), lit 6812 (-1), lit 6699 (-1),
                lit 6588 (-1), lit 6479 (-1), lit 6371 (-1), lit 6265 (-1), 616, lit 6057 (-1)];
          off = map (\<lambda>x. x / lit 17 (-1))
            [lit 357 (-4), lit 421 (-4), lit 491 (-4), lit 568 (-4), lit 651 (-4), lit 742 (-4),
             lit 843 (-4), lit 957 (-4), lit 11 (-2), lit 128 (-3), lit 148 (-3)]
      in T\<lparr>vdd := lit 5 (-1), vth := lit 21739 (-5), phyGateLength := lit 11 (-9),
           capIdealGate := lit 345 (-12), capFringe := lit 17 (-11), capJunction := 0,
           capOx := lit 314 (-4), effectiveElectronMobility := lit 74737 (-6),
           effectiveHoleMobility := lit 11835 (-6), pnSizeRatio := lit 228 (-2),
           effectiveResistanceMultiplier := lit 173 (-2),
           currentOnNmos := decades on (currentOnNmos T),
           currentOnPmos := decades (shifted_halves on) (currentOnPmos T),
           currentOffNmos := decades off (currentOffNmos T),
           currentOffPmos := decades off (currentOffPmos T)\<rparr>)"

definition embedded_22 :: "Technology \<Rightarrow> Technology" where
  "embedded_22 T =
     (let on = [lit 11226 (-1), lit 11226 (-1), lit 11226 (-1), lit 11226 (-1), lit 11226 (-1),
                lit 11226 (-1), lit 11226 (-1), lit 11226 (-1), lit 11226 (-1), lit 11226 (-1),
                lit 11226 (-1)];
          off = [lit 466 (-7), lit 636 (-7), lit 952 (-7), lit 139 (-6), lit 2 (-4), lit 281 (-6),
                 lit 386 (-6), lit 518 (-6), lit 672 (-6), lit 836 (-6), lit 102 (-5)]
      in T\<lparr>vdd := lit 9 (-1), vpp := lit 14 (-1), vth := lit 436835 (-6),
           phyGateLength := lit 1 (-8), capIdealGate := lit 522 (-12), capFringe := lit 8 (-12),
           capJunction := lit 1 (-3), capOx := lit 158 (-4),
           effectiveElectronMobility := lit 459295 (-7), effectiveHoleMobility := lit 459295 (-7),
           pnSizeRatio := lit 21 (-1), effectiveResistanceMultiplier := lit 165 (-2),
           currentOnNmos := decades on (currentOnNmos T),
           currentOnPmos := decades [lit 54005 (-2), lit 54005 (-2), lit 54005 (-2), lit 54005 (-2),
                             lit 54005 (-2), lit 54005 (-2), lit 54005 (-2), lit 54005 (-2),
                             lit 54005 (-2), lit 54005 (-2), lit 54005 (-2)] (currentOnPmos T),
           currentOffNmos := decades off (currentOffNmos T),
           currentOffPmos := decades [lit 466 (-7), lit 636 (-7), lit 952 (-7), lit 139 (-6), lit 2 (-4),
                              lit 281 (-6), lit 386 (-6), lit 518 (-6), lit 672 (-6),
                              lit 836 (-6), lit 103 (-5)] (currentOffPmos T)\<rparr>)"

subsection \<open>The dimensions of the TSVs\<close>

text \<open>The seven parameters of one entry of the two-by-two tables.\<close>

definition put_tsv :: "int \<Rightarrow> int \<Rightarrow> dbl list \<Rightarrow> TsvParameters \<Rightarrow> TsvParameters" where
  "put_tsv i j v P = P\<lparr>tsv_pitch := tset (tsv_pitch P) i j (v ! 0),
     tsv_diameter := tset (tsv_diameter P) i j (v ! 1), tsv_length := tset (tsv_length P) i j (v ! 2),
     tsv_dielec_thickness := tset (tsv_dielec_thickness P) i j (v ! 3),
     tsv_contact_resistance := tset (tsv_contact_resistance P) i j (v ! 4),
     tsv_depletion_width := tset (tsv_depletion_width P) i j (v ! 5),
     tsv_liner_dielectric_constant := tset (tsv_liner_dielectric_constant P) i j (v ! 6)\<rparr>"

definition tsv_180 :: "TsvParameters \<Rightarrow> TsvParameters" where
  "tsv_180 P =
     put_tsv 1 1 [104, lit 1154 (-2), 85, lit 68 (-2), lit 2 (-1), lit 6 (-1), lit 34652 (-4)]
       (put_tsv 0 1 [lit 586 (-1), lit 712 (-2), 77, lit 26 (-2), lit 26 (-2), lit 6 (-1), lit 33012 (-4)]
       (put_tsv 1 0 [lit 888 (-2), lit 446 (-2), 40, lit 1 (-1), lit 1 (-1), lit 6 (-1), lit 34652 (-4)]
       (put_tsv 0 0 [lit 56 (-1), lit 28 (-1), 10, lit 1 (-1), lit 1 (-1), lit 6 (-1), lit 33012 (-4)] P)))"

definition tsv_120 :: "TsvParameters \<Rightarrow> TsvParameters" where
  "tsv_120 P =
     put_tsv 1 1 [91, lit 1141 (-2), lit 775 (-1), lit 62 (-2), lit 2 (-1), lit 6 (-1), lit 32264 (-4)]
       (put_tsv 0 1 [lit 499 (-1), lit 641 (-2), 68, lit 24 (-2), lit 24 (-2), lit 6 (-1), lit 29783 (-4)]
       (put_tsv 1 0 [lit 77 (-1), lit 387 (-2), 35, lit 1 (-1), lit 1 (-1), lit 6 (-1), lit 32264 (-4)]
       (put_tsv 0 0 [lit 478 (-2), lit 239 (-2), 9, lit 1 (-1), lit 1 (-1), lit 6 (-1), lit 29783 (-4)] P)))"

definition tsv_90 :: "TsvParameters \<Rightarrow> TsvParameters" where
  "tsv_90 P =
     put_tsv 1 1 [90, lit 113 (-1), 75, lit 5 (-1), lit 2 (-1), lit 6 (-1), lit 3038 (-3)]
       (put_tsv 0 1 [45, lit 69 (-1), 60, lit 2 (-1), lit 2 (-1), lit 6 (-1), lit 2709 (-3)]
       (put_tsv 1 0 [lit 69 (-1), lit 35 (-1), 30, lit 1 (-1), lit 1 (-1), lit 6 (-1), lit 3038 (-3)]
       (put_tsv 0 0 [4, 2, 8, lit 1 (-1), lit 1 (-1), lit 6 (-1), lit 2709 (-3)] P)))"

definition tsv_65 :: "TsvParameters \<Rightarrow> TsvParameters" where
  "tsv_65 P =
     put_tsv 1 1 [60, lit 75 (-1), lit 625 (-1), lit 5 (-1), lit 2 (-1), lit 6 (-1), lit 2734 (-3)]
       (put_tsv 0 1 [30, lit 46 (-1), 50, lit 2 (-1), lit 2 (-1), lit 6 (-1), lit 2303 (-3)]
       (put_tsv 1 0 [5, lit 25 (-1), 25, lit 1 (-1), lit 1 (-1), lit 6 (-1), lit 2734 (-3)]
       (put_tsv 0 0 [lit 32 (-1), lit 16 (-1), 7, lit 1 (-1), lit 1 (-1), lit 6 (-1), lit 2303 (-3)] P)))"

definition tsv_45 :: "TsvParameters \<Rightarrow> TsvParameters" where
  "tsv_45 P =
     put_tsv 1 1 [40, 5, 50, lit 5 (-1), lit 2 (-1), lit 6 (-1), lit 246 (-2)]
       (put_tsv 0 1 [20, lit 31 (-1), 40, lit 2 (-1), lit 2 (-1), lit 6 (-1), lit 1958 (-3)]
       (put_tsv 1 0 [lit 34 (-1), lit 17 (-1), 20, lit 1 (-1), lit 1 (-1), lit 6 (-1), lit 246 (-2)]
       (put_tsv 0 0 [lit 22 (-1), lit 11 (-1), 6, lit 1 (-1), lit 1 (-1), lit 6 (-1), lit 1958 (-3)] P)))"

definition tsv_32 :: "TsvParameters \<Rightarrow> TsvParameters" where
  "tsv_32 P =
     put_tsv 1 1 [30, lit 38 (-1), lit 375 (-1), lit 5 (-1), lit 2 (-1), lit 6 (-1), lit 2214 (-3)]
       (put_tsv 0 1 [15, lit 23 (-1), 30, lit 2 (-1), lit 2 (-1), lit 6 (-1), lit 1664 (-3)]
       (put_tsv 1 0 [4, 2, 15, lit 1 (-1), lit 1 (-1), lit 6 (-1), lit 2214 (-3)]
       (put_tsv 0 0 [lit 14 (-1), lit 7 (-1), 5, lit 1 (-1), lit 1 (-1), lit 6 (-1), lit 1664 (-3)] P)))"

definition tsv_22 :: "TsvParameters \<Rightarrow> TsvParameters" where
  "tsv_22 P =
     put_tsv 1 1 [40, lit 75 (-1), 50, lit 2 (-1), lit 2 (-1), lit 6 (-1), lit 2104 (-3)]
       (put_tsv 0 1 [9, lit 45 (-1), 25, lit 1 (-1), lit 1 (-1), lit 6 (-1), lit 1414 (-3)]
       (put_tsv 1 0 [lit 15 (-1), lit 8 (-1), 10, lit 1 (-1), lit 1 (-1), lit 6 (-1), lit 2104 (-3)]
       (put_tsv 0 0 [lit 8 (-1), lit 4 (-1), 4, lit 1 (-1), lit 1 (-1), lit 6 (-1), lit 1414 (-3)] P)))"

subsection \<open>The choice of the node\<close>

text \<open>
  The table of a node is the next one that is not above it; below 22 nm nothing is assigned.  There is no
  table for embedded DRAM at 120 nm and above: the program ends.
\<close>

definition node_values :: "int \<Rightarrow> DeviceRoadmap \<Rightarrow> (Technology \<Rightarrow> Technology) res" where
  "node_values node roadmap =
     (if 180 \<le> node then
       (case roadmap of HP \<Rightarrow> Inr high_performance_180 | LSTP \<Rightarrow> Inr low_standby_180
        | LOP \<Rightarrow> Inr low_operating_180 | EDRAM \<Rightarrow> Inl Exit)
      else if 120 \<le> node then
       (case roadmap of HP \<Rightarrow> Inr high_performance_120 | LSTP \<Rightarrow> Inr low_standby_120
        | LOP \<Rightarrow> Inr low_operating_120 | EDRAM \<Rightarrow> Inl Exit)
      else if 90 \<le> node then
       (case roadmap of HP \<Rightarrow> Inr high_performance_90 | LSTP \<Rightarrow> Inr low_standby_90
        | LOP \<Rightarrow> Inr low_operating_90 | EDRAM \<Rightarrow> Inr embedded_90)
      else if 65 \<le> node then
       (case roadmap of HP \<Rightarrow> Inr high_performance_65 | LSTP \<Rightarrow> Inr low_standby_65
        | LOP \<Rightarrow> Inr low_operating_65 | EDRAM \<Rightarrow> Inr embedded_65)
      else if 45 \<le> node then
       (case roadmap of HP \<Rightarrow> Inr high_performance_45 | LSTP \<Rightarrow> Inr low_standby_45
        | LOP \<Rightarrow> Inr low_operating_45 | EDRAM \<Rightarrow> Inr embedded_45)
      else if 32 \<le> node then
       (case roadmap of HP \<Rightarrow> Inr high_performance_32 | LSTP \<Rightarrow> Inr low_standby_32
        | LOP \<Rightarrow> Inr low_operating_32 | EDRAM \<Rightarrow> Inr embedded_32)
      else if 22 \<le> node then
       (case roadmap of HP \<Rightarrow> Inr high_performance_22 | LSTP \<Rightarrow> Inr low_standby_22
        | LOP \<Rightarrow> Inr low_operating_22 | EDRAM \<Rightarrow> Inr embedded_22)
      else Inr id)"

definition tsv_values :: "int \<Rightarrow> TsvParameters \<Rightarrow> TsvParameters" where
  "tsv_values node =
     (if 180 \<le> node then tsv_180
      else if 120 \<le> node then tsv_120
      else if 90 \<le> node then tsv_90
      else if 65 \<le> node then tsv_65
      else if 45 \<le> node then tsv_45
      else if 32 \<le> node then tsv_32
      else if 22 \<le> node then tsv_22 else id)"

end
