(* ===== verification/Process.thy ===== *)
theory Process
  imports Nodes Component
begin

text \<open>
  \<open>Technology::Initialize\<close> and the technology of a run (\<open>main.cpp\<close>): the table of the configured node,
  interpolated with the next larger one.
\<close>

subsection \<open>Initialize\<close>

definition Technology_new :: "Technology \<times> TsvParameters \<Rightarrow> Technology \<times> TsvParameters" where
  "Technology_new raw = ((fst raw)\<lparr>tech_initialized := False\<rparr>, (snd raw)\<lparr>layerCount := 0\<rparr>)"

text \<open>The parameters that follow from those of the table.\<close>

definition derived :: "Technology \<Rightarrow> Technology" where
  "derived T =
     (let cjd = lit 1 (-3); cjswd = lit 25 (-11); cjswgd = lit 5 (-11);
          mjd = lit 5 (-1); mjswd = lit 33 (-2); mjswgd = lit 33 (-2); bip = lit 9 (-1)
      in T\<lparr>vpp := (if deviceRoadmap T \<noteq> EDRAM then vdd T else vpp T),
           capOverlap := capIdealGate T * lit 2 (-1), buildInPotential := bip,
           capJunction := cjd / dpow (1 + vdd T / bip) mjd,
           capSidewall := cjswd / dpow (1 + vdd T / bip) mjswd,
           capDrainToChannel := cjswgd / dpow (1 + vdd T / bip) mjswgd,
           vdsatNmos := phyGateLength T * lit 1 5 / effectiveElectronMobility T,
           vdsatPmos := phyGateLength T * lit 1 5 / effectiveHoleMobility T, capPolywire := 0\<rparr>)"

text \<open>The elements between two tenth degrees are interpolated.\<close>

definition interpolate_step :: "int \<Rightarrow> dbl list \<Rightarrow> dbl list res" where
  "interpolate_step i t =
     (if i mod 10 = 0 then Inr t
      else ebind (aget t (i div 10 * 10)) (\<lambda>a. ebind (aget t (i div 10 * 10 + 10)) (\<lambda>b.
             aset t i (a + (b - a) * i2d (i mod 10) / 10))))"

definition interpolate :: "dbl list \<Rightarrow> dbl list res" where
  "interpolate = for_up 1 100 interpolate_step"

definition interpolate_currents :: "Technology \<Rightarrow> Technology res" where
  "interpolate_currents T =
     ebind (interpolate (currentOnNmos T)) (\<lambda>onN. ebind (interpolate (currentOnPmos T)) (\<lambda>onP.
     ebind (interpolate (currentOffNmos T)) (\<lambda>offN. ebind (interpolate (currentOffPmos T)) (\<lambda>offP.
       Inr (T\<lparr>currentOnNmos := onN, currentOnPmos := onP, currentOffNmos := offN,
              currentOffPmos := offP\<rparr>)))))"

definition Technology_Initialize ::
  "InputParameter \<Rightarrow> int \<Rightarrow> DeviceRoadmap \<Rightarrow> Technology \<times> TsvParameters \<Rightarrow> (Technology \<times> TsvParameters) res"
where
  "Technology_Initialize ip node roadmap TP =
     ebind (node_values node roadmap) (\<lambda>values.
     let T = values ((fst TP)\<lparr>featureSizeInNano := node, featureSize := i2d node * lit 1 (-9),
                              deviceRoadmap := roadmap\<rparr>)
     in ebind (SetLayerCount ip 2 (T, tsv_values node (snd TP))) (\<lambda>(T, P).
        ebind (interpolate_currents (derived T)) (\<lambda>T. Inr (T\<lparr>tech_initialized := True\<rparr>, P))))"

subsection \<open>The technology of a run\<close>

text \<open>The next larger node and the weight of its parameters.\<close>

definition upper_node :: "int \<Rightarrow> (int \<times> dbl) option" where
  "upper_node node =
     (if 200 < node then None
      else if 120 < node then Some (200, (i2d node - 120) / 60)
      else if 90 < node then Some (120, (i2d node - 90) / 30)
      else if 65 < node then Some (90, (i2d node - 65) / 25)
      else if 45 < node then Some (65, (i2d node - 45) / 20)
      else if 32 \<le> node then Some (45, (i2d node - 32) / 13)
      else if 22 \<le> node then Some (32, (i2d node - 22) / 10)
      else None)"

text \<open>
  Without a larger node the technology is interpolated with one that is not initialized, with weight
  zero.
\<close>

definition main_technology ::
  "InputParameter \<Rightarrow> Technology \<times> TsvParameters \<Rightarrow> Technology \<times> TsvParameters \<Rightarrow> (Technology \<times> TsvParameters) res"
where
  "main_technology ip raw rawHigh =
     (let node = processNode ip; high = Technology_new rawHigh in
      ebind (Technology_Initialize ip node (ip_deviceRoadmap ip) (Technology_new raw)) (\<lambda>(T, P).
      case upper_node node of
        None \<Rightarrow> Inr (InterpolateWith (fst high) 0 T, P)
      | Some (upper, alpha) \<Rightarrow>
          ebind (Technology_Initialize ip upper (ip_deviceRoadmap ip) high) (\<lambda>(H, _).
            Inr (InterpolateWith H alpha T, P))))"

subsection \<open>The tables are well-formed\<close>

text \<open>A current table that is positive at every tenth degree.\<close>

definition arrays :: "Technology \<Rightarrow> bool" where
  "arrays T \<longleftrightarrow> length (currentOnNmos T) = 101 \<and> length (currentOnPmos T) = 101
     \<and> length (currentOffNmos T) = 101 \<and> length (currentOffPmos T) = 101"

definition decades_ok :: "dbl list \<Rightarrow> bool" where
  "decades_ok t \<longleftrightarrow> length t = 101 \<and> (\<forall>k \<le> 10. fpos (t ! (10 * k)))"

lemma decades_length [simp]: "length (decades vs t) = length t"
proof -
  have "length (fold (\<lambda>k t. t[10 * k := vs ! k]) ks t) = length t" for ks by (induction ks arbitrary: t) simp_all
  then show ?thesis by (simp add: decades_def)
qed

lemma decades_nth:
  assumes "length t = 101" "k \<le> 10" shows "decades vs t ! (10 * k) = vs ! k"
proof -
  have up: "[0..<11] = [0, 1, 2, 3, 4, 5, 6, 7, 8, 9, 10 :: nat]" by (simp add: upt_rec)
  have "k \<in> {0, 1, 2, 3, 4, 5, 6, 7, 8, 9, 10}" using assms(2) by simp presburger
  then show ?thesis by (auto simp: decades_def up assms(1) nth_list_update)
qed

lemma decades_decades_ok:
  assumes "length t = 101" "length vs = 11" "list_all fpos vs"
  shows "decades_ok (decades vs t)"
  using assms by (simp add: decades_ok_def decades_nth list_all_length)

text \<open>What the tables promise of a technology, and what they leave alone.\<close>

definition node_ok :: "Technology \<Rightarrow> bool" where
  "node_ok T \<longleftrightarrow> fpos (vdd T) \<and> fpos (vth T) \<and> fpos (vdd T - vth T) \<and> fpos (phyGateLength T)
     \<and> fpos (capIdealGate T) \<and> fnn (capFringe T) \<and> fpos (capOx T)
     \<and> fpos (effectiveElectronMobility T) \<and> fpos (effectiveHoleMobility T) \<and> fpos (pnSizeRatio T)
     \<and> 1 / 4 \<le> pnSizeRatio T \<and> pnSizeRatio T \<le> 4
     \<and> fpos (effectiveResistanceMultiplier T)
     \<and> (deviceRoadmap T = EDRAM \<longrightarrow> fpos (vpp T))
     \<and> decades_ok (currentOnNmos T) \<and> decades_ok (currentOnPmos T)
     \<and> decades_ok (currentOffNmos T) \<and> decades_ok (currentOffPmos T)"

definition same_node :: "Technology \<Rightarrow> Technology \<Rightarrow> bool" where
  "same_node T T' \<longleftrightarrow> featureSizeInNano T' = featureSizeInNano T \<and> featureSize T' = featureSize T
     \<and> deviceRoadmap T' = deviceRoadmap T"

lemma lit_Fin: "lit m e = Fin (of_int m * 10 powi e)"
  by (simp add: lit_def)

lemmas node_simps = node_ok_def same_node_def arrays_def decades_decades_ok shifted_halves_def
  fsign Let_def lit_Fin power_int_minus dbl_lits

definition tabled :: "(Technology \<Rightarrow> Technology) \<Rightarrow> DeviceRoadmap \<Rightarrow> bool" where
  "tabled f roadmap \<longleftrightarrow>
     (\<forall>T. arrays T \<and> deviceRoadmap T = roadmap \<longrightarrow> node_ok (f T) \<and> same_node T (f T))"

lemma high_performance_ok:
  "tabled high_performance_180 HP"
  "tabled high_performance_120 HP"
  "tabled high_performance_90 HP"
  "tabled high_performance_65 HP"
  "tabled high_performance_45 HP"
  "tabled high_performance_32 HP"
  "tabled high_performance_22 HP"
  unfolding high_performance_180_def high_performance_120_def high_performance_90_def
    high_performance_65_def high_performance_45_def high_performance_32_def
    high_performance_22_def
  by (simp_all add: tabled_def node_simps)

lemma low_standby_ok:
  "tabled low_standby_180 LSTP"
  "tabled low_standby_120 LSTP"
  "tabled low_standby_90 LSTP"
  "tabled low_standby_65 LSTP"
  "tabled low_standby_45 LSTP"
  "tabled low_standby_32 LSTP"
  "tabled low_standby_22 LSTP"
  unfolding low_standby_180_def low_standby_120_def low_standby_90_def low_standby_65_def
    low_standby_45_def low_standby_32_def low_standby_22_def
  by (simp_all add: tabled_def node_simps)

lemma low_operating_ok:
  "tabled low_operating_180 LOP"
  "tabled low_operating_120 LOP"
  "tabled low_operating_90 LOP"
  "tabled low_operating_65 LOP"
  "tabled low_operating_45 LOP"
  "tabled low_operating_32 LOP"
  "tabled low_operating_22 LOP"
  unfolding low_operating_180_def low_operating_120_def low_operating_90_def low_operating_65_def
    low_operating_45_def low_operating_32_def low_operating_22_def
  by (simp_all add: tabled_def node_simps)

lemma embedded_ok:
  "tabled embedded_90 EDRAM"
  "tabled embedded_65 EDRAM"
  "tabled embedded_45 EDRAM"
  "tabled embedded_32 EDRAM"
  "tabled embedded_22 EDRAM"
  unfolding embedded_90_def embedded_65_def embedded_45_def embedded_32_def embedded_22_def
  by (simp_all add: tabled_def node_simps)

lemma node_values_ok:
  assumes "node_values node roadmap = Inr f" "22 \<le> node"
  shows "tabled f roadmap"
  using assms high_performance_ok low_standby_ok low_operating_ok embedded_ok
  by (auto simp: node_values_def split: if_splits DeviceRoadmap.splits)

text \<open>All elements of a current table are positive after the interpolation.\<close>

lemma interpolated_pos:
  assumes "fpos a" "fpos b" "0 \<le> r" "r < 10"
  shows "fpos (a + (b - a) * i2d r / 10)"
proof -
  obtain x y where e: "a = Fin x" "0 < x" "b = Fin y" "0 < y" using assms(1,2) by (auto simp: fpos_def)
  have "0 < (1 - real_of_int r / 10) * x + real_of_int r / 10 * y"
    using assms(3,4) e by (intro convex_pos) simp_all
  then show ?thesis by (simp add: e i2d_def dbl_lits algebra_simps add_divide_distrib diff_divide_distrib)
qed

definition filled :: "int \<Rightarrow> dbl list \<Rightarrow> bool" where
  "filled i t \<longleftrightarrow> decades_ok t \<and> (\<forall>j. 0 \<le> j \<and> j < i \<longrightarrow> fpos (t ! nat j))"

lemma filled_next:
  assumes "filled i t" "fpos (t ! nat i)" shows "filled (i + 1) t"
proof -
  have "fpos (t ! nat j)" if "0 \<le> j" "j < i + 1" for j
    using assms that by (cases "j = i") (simp_all add: filled_def)
  then show ?thesis using assms(1) by (simp add: filled_def)
qed

lemma filled_put:
  assumes "filled i t" "fpos v" shows "filled i (t[n := v])"
proof -
  have "t[n := v] ! m = (if m = n \<and> n < length t then v else t ! m)" for m
    by (cases "n < length t") (auto simp: nth_list_update list_update_beyond)
  then show ?thesis using assms by (simp add: filled_def decades_ok_def)
qed

lemma decades_ok_aget:
  assumes "decades_ok t" "0 \<le> k" "k \<le> 10"
  shows "\<exists>v. aget t (k * 10) = Inr v \<and> fpos v \<and> v = t ! nat (k * 10)"
proof -
  have "nat (k * 10) = 10 * nat k" using assms(2) by (simp add: nat_mult_distrib)
  then show ?thesis using assms by (simp add: decades_ok_def nat_le_iff)
qed

lemma interpolate_step_ok:
  assumes "filled i t" "1 \<le> i" "i < 100"
  shows "\<exists>t'. interpolate_step i t = Inr t' \<and> filled (i + 1) t'"
proof (cases "i mod 10 = 0")
  case True
  have t: "decades_ok t" using assms(1) by (simp add: filled_def)
  have "0 \<le> i div 10" "i div 10 \<le> 10" "i div 10 * 10 = i" using assms(2,3) True by auto
  with decades_ok_aget [OF t, of "i div 10"] have "fpos (t ! nat i)" by auto
  with filled_next [OF assms(1)] have "filled (i + 1) t" .
  then show ?thesis using True by (simp add: interpolate_step_def)
next
  case False
  have t: "decades_ok t" using assms(1) by (simp add: filled_def)
  have k: "0 \<le> i div 10" "i div 10 \<le> 9" using assms(2,3) by auto
  obtain a b where ab: "aget t (i div 10 * 10) = Inr a" "fpos a"
    "aget t (i div 10 * 10 + 10) = Inr b" "fpos b"
    using decades_ok_aget [OF t, of "i div 10"] decades_ok_aget [OF t, of "i div 10 + 1"] k
    by (auto simp: distrib_right)
  let ?v = "a + (b - a) * i2d (i mod 10) / 10" and ?n = "nat i"
  have v: "fpos ?v" using ab by (intro interpolated_pos) simp_all
  have "?n < length t" using t assms(2,3) by (simp add: decades_ok_def)
  then have "filled (i + 1) (t[?n := ?v])" using filled_put [OF assms(1) v] v by (intro filled_next) simp_all
  moreover have "aset t i ?v = Inr (t[?n := ?v])" using t assms(2,3) by (simp add: decades_ok_def)
  ultimately show ?thesis using False ab by (simp add: interpolate_step_def)
qed

lemma interpolate_ok:
  assumes "decades_ok t" shows "\<exists>t'. interpolate t = Inr t' \<and> table_ok t'"
proof -
  have "filled 1 t" using decades_ok_aget [OF assms, of 0] assms by (auto simp: filled_def)
  have "\<exists>t'. for_up 1 100 interpolate_step t = Inr t' \<and> filled 100 t'"
    by (rule for_up_total [where P = filled]) (simp, fact, rule interpolate_step_ok)
  then obtain t' where t': "interpolate t = Inr t'" "filled 100 t'" by (auto simp: interpolate_def)
  have "fpos (t' ! j)" if "j < 101" for j
  proof (cases "j < 100")
    case True
    then show ?thesis using t'(2) by (auto simp: filled_def dest: spec [of _ "int j"])
  next
    case False
    then have "j = 10 * 10" using that by simp
    then show ?thesis using t'(2) by (auto simp: filled_def decades_ok_def simp del: mult_numeral_left_semiring_numeral)
  qed
  then have "table_ok t'" using t'(2) by (auto simp: table_ok_def filled_def decades_ok_def in_set_conv_nth)
  with t'(1) show ?thesis by blast
qed

subsection \<open>Initialize gives a well-formed technology\<close>

definition projections_ok :: "InputParameter \<Rightarrow> bool" where
  "projections_ok ip \<longleftrightarrow> localTsvProjection ip \<in> {0, 1} \<and> globalTsvProjection ip \<in> {0, 1}"

lemma SetLayerCount_ok:
  assumes "projections_ok ip"
  shows "\<exists>r c a P'. SetLayerCount ip n (T, P) = Inr (T\<lparr>resTSV := r, capTSV := c, areaTSV := a\<rparr>, P')
           \<and> layerCount P' = n"
proof (cases "n = layerCount P")
  case True
  then show ?thesis
    by (intro exI [of _ "resTSV T"] exI [of _ "capTSV T"] exI [of _ "areaTSV T"] exI [of _ P])
       (simp add: SetLayerCount_def)
next
  case False
  have "int_of_TSV_type ty \<in> {0, 1}" for ty by (cases ty) simp_all
  then have get: "tget t (int_of_TSV_type ty) j = Inr (t (int_of_TSV_type ty) j)" if "j \<in> {0, 1}" for t ty j
    using that unfolding tget_def by simp
  show ?thesis using False assms by (simp add: SetLayerCount_def projections_ok_def get Let_def) blast
qed

lemma interpolate_currents_ok:
  assumes "decades_ok (currentOnNmos T)" "decades_ok (currentOnPmos T)"
    "decades_ok (currentOffNmos T)" "decades_ok (currentOffPmos T)"
  obtains a b c d where "interpolate_currents T = Inr (T\<lparr>currentOnNmos := a, currentOnPmos := b,
      currentOffNmos := c, currentOffPmos := d\<rparr>)" "table_ok a" "table_ok b" "table_ok c" "table_ok d"
proof -
  from assms [THEN interpolate_ok] obtain a b c d where
    "interpolate (currentOnNmos T) = Inr a" "interpolate (currentOnPmos T) = Inr b"
    "interpolate (currentOffNmos T) = Inr c" "interpolate (currentOffPmos T) = Inr d"
    "table_ok a" "table_ok b" "table_ok c" "table_ok d" by blast
  then show ?thesis by (intro that [of d c b a]) (simp_all add: interpolate_currents_def)
qed

text \<open>What \<open>main\<close> needs of a technology: also the bounds of the PMOS to NMOS ratio.\<close>

definition process_ok :: "Technology \<Rightarrow> bool" where
  "process_ok T \<longleftrightarrow> tech_ok T \<and> capPolywire T = 0 \<and> 1 / 4 \<le> pnSizeRatio T \<and> pnSizeRatio T \<le> 4"

lemma derived_ok:
  assumes "node_ok T" "fpos (featureSize T)" "table_ok a" "table_ok b" "table_ok c" "table_ok d"
  shows "process_ok ((derived T)\<lparr>currentOnNmos := a, currentOnPmos := b, currentOffNmos := c,
                        currentOffPmos := d, tech_initialized := True\<rparr>)"
proof -
  have v: "fpos (vdd T)" using assms(1) by (simp add: node_ok_def)
  have jn: "fpos (lit x y / dpow (1 + vdd T / lit 9 (-1)) (lit z w))" if "0 < x" for x y z w
    using v that by (simp add: fsign)
  note n = assms(1) [unfolded node_ok_def]
  show ?thesis
    unfolding process_ok_def tech_ok_def
    by (cases "deviceRoadmap T = EDRAM") (simp_all add: derived_def Let_def n assms(2-) jn fsign)
qed

theorem Technology_Initialize_ok:
  assumes "22 \<le> node" "node < 120 \<or> roadmap \<noteq> EDRAM" "arrays (fst TP)" "projections_ok ip"
  obtains T P where "Technology_Initialize ip node roadmap TP = Inr (T, P)" "process_ok T"
    "featureSizeInNano T = node" "layerCount P = 2"
proof -
  have "\<exists>f. node_values node roadmap = Inr f"
    using assms(1,2) by (cases roadmap) (simp_all add: node_values_def split: if_split)
  then obtain f where f: "node_values node roadmap = Inr f" by blast
  let ?T = "(fst TP)\<lparr>featureSizeInNano := node, featureSize := i2d node * lit 1 (-9), deviceRoadmap := roadmap\<rparr>"
  have "arrays ?T" using assms(3) by (simp add: arrays_def)
  then have n: "node_ok (f ?T)" "same_node ?T (f ?T)"
    using node_values_ok [OF f assms(1)] by (simp_all add: tabled_def)
  obtain r c a P where L: "SetLayerCount ip 2 (f ?T, tsv_values node (snd TP))
      = Inr ((f ?T)\<lparr>resTSV := r, capTSV := c, areaTSV := a\<rparr>, P)" "layerCount P = 2"
    using SetLayerCount_ok [OF assms(4)] by blast
  let ?U = "(f ?T)\<lparr>resTSV := r, capTSV := c, areaTSV := a\<rparr>"
  have U: "node_ok ?U" "fpos (featureSize ?U)" "featureSizeInNano ?U = node"
    using n assms(1) by (simp_all add: node_ok_def same_node_def fsign)
  then have "decades_ok (currentOnNmos (derived ?U))" "decades_ok (currentOnPmos (derived ?U))"
    "decades_ok (currentOffNmos (derived ?U))" "decades_ok (currentOffPmos (derived ?U))"
    by (simp_all add: node_ok_def derived_def Let_def)
  then obtain w x y z where I:
    "interpolate_currents (derived ?U) = Inr ((derived ?U)\<lparr>currentOnNmos := w, currentOnPmos := x,
       currentOffNmos := y, currentOffPmos := z\<rparr>)" "table_ok w" "table_ok x" "table_ok y" "table_ok z"
    by (rule interpolate_currents_ok)
  have "featureSizeInNano (derived ?U) = node" using U(3) by (simp add: derived_def Let_def)
  moreover have "Technology_Initialize ip node roadmap TP = Inr ((derived ?U)\<lparr>currentOnNmos := w,
      currentOnPmos := x, currentOffNmos := y, currentOffPmos := z, tech_initialized := True\<rparr>, P)"
    using f L(1) I(1) by (simp add: Technology_Initialize_def Let_def)
  ultimately show ?thesis using that [OF _ derived_ok [OF U(1,2) I(2-5)]] L(2) by simp
qed

lemma embedded_refused:
  assumes "120 \<le> node" shows "Technology_Initialize ip node EDRAM TP = Inl Exit"
  using assms by (simp add: Technology_Initialize_def node_values_def)

subsection \<open>The technology of a run\<close>

lemma InterpolateWith_process_ok:
  assumes "process_ok T" "process_ok H" "0 \<le> a" "a \<le> 1"
  shows "process_ok (InterpolateWith H (Fin a) T)"
proof -
  have t: "tech_ok T" "tech_ok H" using assms(1,2) by (simp_all add: process_ok_def)
  obtain x y where p: "pnSizeRatio T = Fin x" "pnSizeRatio H = Fin y"
    using tech_okD(17) [OF t(1)] tech_okD(17) [OF t(2)] by (auto simp: fpos_def)
  have "1 / 4 \<le> x" "x \<le> 4" "1 / 4 \<le> y" "y \<le> 4"
    using assms(1,2) by (simp_all add: process_ok_def p dbl_lits)
  then have m: "(1 - a) * (1 / 4) \<le> (1 - a) * x" "a * (1 / 4) \<le> a * y"
    "(1 - a) * x \<le> (1 - a) * 4" "a * y \<le> a * 4"
    using assms(3,4) by (intro mult_left_mono; simp)+
  have "(1 - a) * c + a * c = c" for c by (simp add: algebra_simps)
  from this [of "1 / 4"] this [of 4] m have "1 / 4 \<le> (1 - a) * x + a * y" "(1 - a) * x + a * y \<le> 4"
    by linarith+
  then have "1 / 4 \<le> lerp (Fin a) (pnSizeRatio T) (pnSizeRatio H)"
    "lerp (Fin a) (pnSizeRatio T) (pnSizeRatio H) \<le> 4"
    by (simp_all add: p lerp_Fin, simp_all add: dbl_lits)
  moreover have "pnSizeRatio (InterpolateWith H (Fin a) T) = pnSizeRatio T
      \<or> pnSizeRatio (InterpolateWith H (Fin a) T) = lerp (Fin a) (pnSizeRatio T) (pnSizeRatio H)"
    "capPolywire (InterpolateWith H (Fin a) T) = capPolywire T"
    by (simp_all add: InterpolateWith_def Let_def)
  ultimately show ?thesis using InterpolateWith_ok [OF t assms(3,4)] assms(1)
    by (auto simp: process_ok_def)
qed

text \<open>The weight of the larger node is between 0 and 1, and a node that is in a table is not changed.\<close>

lemma upper_node_weight:
  assumes "22 \<le> node" "node \<le> 180"
  shows "\<exists>upper a. upper_node node = Some (upper, Fin a) \<and> 0 \<le> a \<and> a \<le> 1
           \<and> node \<le> upper \<and> (upper < 120 \<longleftrightarrow> node \<le> 90)"
proof -
  have d: "(i2d node - Fin x) / Fin y = Fin ((real_of_int node - x) / y)" if "y \<noteq> 0" for x y
    using that by (simp add: i2d_def)
  have w: "\<exists>a. real_of_int node - x = a * y \<and> 0 \<le> a \<and> a \<le> 1"
    if "x \<le> real_of_int node" "real_of_int node \<le> x + y" "0 < y" for x y
    using that by (intro exI [of _ "(real_of_int node - x) / y"]) simp
  show ?thesis using assms by (simp add: upper_node_def dbl_lits d) (intro conjI impI w; simp)
qed

theorem main_technology_ok:
  assumes "22 \<le> processNode ip" "processNode ip \<le> 180 \<or> processNode ip = 200"
    and "processNode ip \<le> 90 \<or> ip_deviceRoadmap ip \<noteq> EDRAM"
    and "arrays (fst raw)" "arrays (fst rawHigh)" "projections_ok ip"
  obtains T P where "main_technology ip raw rawHigh = Inr (T, P)" "process_ok T"
    "featureSizeInNano T = processNode ip" "layerCount P = 2"
proof -
  have new: "arrays (fst (Technology_new raw))" "arrays (fst (Technology_new rawHigh))"
    using assms(4,5) by (simp_all add: Technology_new_def arrays_def)
  have range: "processNode ip < 120 \<or> ip_deviceRoadmap ip \<noteq> EDRAM" using assms(3) by auto
  obtain T P where T: "Technology_Initialize ip (processNode ip) (ip_deviceRoadmap ip) (Technology_new raw)
      = Inr (T, P)" "process_ok T" "featureSizeInNano T = processNode ip" "layerCount P = 2"
    by (rule Technology_Initialize_ok [OF assms(1) range new(1) assms(6)])
  have "\<exists>upper a. upper_node (processNode ip) = Some (upper, Fin a)
      \<and> (0 \<le> a \<and> a \<le> 1 \<or> upper = processNode ip) \<and> 22 \<le> upper \<and> (upper < 120 \<or> ip_deviceRoadmap ip \<noteq> EDRAM)"
  proof (cases "processNode ip = 200")
    case True
    then show ?thesis using assms(3)
      by (intro exI [of _ 200] exI [of _ "80 / 60"]) (simp add: upper_node_def i2d_def dbl_lits)
  next
    case False
    then have "processNode ip \<le> 180" using assms(2) by simp
    from upper_node_weight [OF assms(1) this] obtain upper a where
      "upper_node (processNode ip) = Some (upper, Fin a)" "0 \<le> a" "a \<le> 1" "processNode ip \<le> upper"
      "upper < 120 \<longleftrightarrow> processNode ip \<le> 90" by blast
    then show ?thesis using assms(1,3) by (intro exI [of _ upper] exI [of _ a]) auto
  qed
  then obtain upper a where u: "upper_node (processNode ip) = Some (upper, Fin a)"
    "0 \<le> a \<and> a \<le> 1 \<or> upper = processNode ip" "22 \<le> upper" "upper < 120 \<or> ip_deviceRoadmap ip \<noteq> EDRAM"
    by blast
  obtain H Q where H: "Technology_Initialize ip upper (ip_deviceRoadmap ip) (Technology_new rawHigh)
      = Inr (H, Q)" "process_ok H" "featureSizeInNano H = upper"
    by (rule Technology_Initialize_ok [OF u(3,4) new(2) assms(6)])
  have "process_ok (InterpolateWith H (Fin a) T)"
  proof (cases "upper = processNode ip")
    case True
    then show ?thesis using T(2,3) H(3) by (simp add: InterpolateWith_def)
  qed (use InterpolateWith_process_ok [OF T(2) H(2)] u(2) in blast)
  moreover have "featureSizeInNano (InterpolateWith H (Fin a) T) = processNode ip"
    using T(3) by (simp add: InterpolateWith_def Let_def)
  moreover have "main_technology ip raw rawHigh = Inr (InterpolateWith H (Fin a) T, P)"
    using T(1) H(1) u(1) by (simp add: main_technology_def Let_def)
  ultimately show ?thesis using T(4) by (intro that)
qed

text \<open>There is no embedded DRAM above 90 nm: the larger node, if not the node itself, is refused.\<close>

lemma main_embedded_exits:
  assumes "90 < processNode ip" "ip_deviceRoadmap ip = EDRAM" "arrays (fst raw)" "projections_ok ip"
  shows "main_technology ip raw rawHigh = Inl Exit"
proof (cases "120 \<le> processNode ip")
  case True
  then show ?thesis using assms(2) by (simp add: main_technology_def embedded_refused)
next
  case False
  have new: "arrays (fst (Technology_new raw))" using assms(3) by (simp add: Technology_new_def arrays_def)
  have node: "22 \<le> processNode ip" "processNode ip < 120 \<or> EDRAM \<noteq> EDRAM" using assms(1) False by auto
  obtain T P where "Technology_Initialize ip (processNode ip) EDRAM (Technology_new raw) = Inr (T, P)"
    by (rule Technology_Initialize_ok [OF node new assms(4)])
  then show ?thesis using assms(1,2) False
    by (simp add: main_technology_def upper_node_def embedded_refused)
qed

text \<open>The environment of the circuit components.\<close>

lemma env_ok_process:
  assumes "process_ok T" "temp_ok (ip_temperature ip)" "fpos (maxNmosSize ip)" "5 \<le> maxNmosSize ip"
    "maxNmosSize ip \<le> 1000000"
  shows "env_ok T ip"
  using assms by (simp add: env_ok_def process_ok_def)

end
