(* ===== verification/Scanf.thy ===== *)
theory Scanf
  imports Types
begin

text \<open>
  The part of the C library that the readers of the configuration and of the cell files use: \<open>fscanf\<close>
  with the format \<open>%[^\n]\n\<close>, which reads lines, and \<open>sscanf\<close> with literal text and the conversions
  \<open>%s\<close>, \<open>%d\<close>, \<open>%ld\<close> and \<open>%lf\<close>.  A conversion that fails leaves its variable, and those of all later
  conversions, as they were.
\<close>

subsection \<open>Characters\<close>

definition newline :: char where
  "newline = CHR 0x0A"

definition is_space :: "char \<Rightarrow> bool" where
  "is_space c \<longleftrightarrow> c = CHR 0x20 \<or> c = CHR 0x09 \<or> c = newline \<or> c = CHR 0x0B \<or> c = CHR 0x0C \<or> c = CHR 0x0D"

definition is_digit :: "char \<Rightarrow> bool" where
  "is_digit c \<longleftrightarrow> 48 \<le> (of_char c :: int) \<and> (of_char c :: int) \<le> 57"

definition digit :: "char \<Rightarrow> int" where
  "digit c = of_char c - 48"

definition skip_space :: "string \<Rightarrow> string" where
  "skip_space s = dropWhile is_space s"

subsection \<open>Lines\<close>

text \<open>
  \<open>fscanf(fp, "%[^\n]\n", line)\<close> until the end of the file.  A line has at least one character, and the
  white space behind it, also empty lines and indentation, is skipped.  At an empty first line the
  conversion fails without reading anything, and the loop goes on with a buffer that has no value yet; a
  line has to fit the buffer.
\<close>

function read_lines :: "string \<Rightarrow> string list res" where
  "read_lines s =
     (if s = [] then Inr []
      else let line = takeWhile (\<lambda>c. c \<noteq> newline) s in
        if line = [] then Inl Undef
        else if 5000 \<le> length line then Inl Undef
        else ebind (read_lines (skip_space (drop (length line) s))) (\<lambda>lines. Inr (line # lines)))"
  by auto
termination
proof (relation "measure length", simp)
  fix s line :: string
  assume "s \<noteq> []" "line = takeWhile (\<lambda>c. c \<noteq> newline) s" "line \<noteq> []"
  then have "length (drop (length line) s) < length s" by simp
  moreover have "length (skip_space (drop (length line) s)) \<le> length (drop (length line) s)"
    unfolding skip_space_def by (rule length_dropWhile_le)
  ultimately show "(skip_space (drop (length line) s), s) \<in> measure length" by simp
qed

declare read_lines.simps [simp del]

subsection \<open>Numbers\<close>

text \<open>An optional sign, and the value of digits.\<close>

definition read_sign :: "string \<Rightarrow> bool \<times> string" where
  "read_sign s = (case s of [] \<Rightarrow> (False, [])
     | c # t \<Rightarrow> if c = CHR ''-'' then (True, t) else if c = CHR ''+'' then (False, t) else (False, s))"

definition number :: "string \<Rightarrow> int" where
  "number ds = foldl (\<lambda>n c. 10 * n + digit c) 0 ds"

definition read_digits :: "string \<Rightarrow> string \<times> string" where
  "read_digits s = (takeWhile is_digit s, dropWhile is_digit s)"

definition read_int :: "string \<Rightarrow> (int \<times> string) option" where
  "read_int s =
     (let (neg, s) = read_sign (skip_space s); (ds, rest) = read_digits s
      in if ds = [] then None else Some (if neg then - number ds else number ds, rest))"

text \<open>
  The exponent of a double: \<open>None\<close> when the letter is there and the number is not.
\<close>

definition read_exponent :: "string \<Rightarrow> (int \<times> string) option" where
  "read_exponent s =
     (case s of [] \<Rightarrow> Some (0, s)
      | c # t \<Rightarrow>
          if c = CHR ''e'' \<or> c = CHR ''E'' then
            let (neg, t) = read_sign t; (ds, rest) = read_digits t
            in if ds = [] then None else Some (if neg then - number ds else number ds, rest)
          else Some (0, s))"

definition read_fraction :: "string \<Rightarrow> string \<times> string" where
  "read_fraction s = (case s of [] \<Rightarrow> ([], s)
     | c # t \<Rightarrow> if c = CHR ''.'' then read_digits t else ([], s))"

text \<open>
  A decimal number.  Infinities, NaNs and hexadecimal numbers, which start with a letter or go on with
  one, are not described here: they are left undefined.
\<close>

definition other_double :: "string \<Rightarrow> bool" where
  "other_double s \<longleftrightarrow> (case s of [] \<Rightarrow> False
     | c # t \<Rightarrow> c \<in> {CHR ''i'', CHR ''I'', CHR ''n'', CHR ''N''}
         \<or> c = CHR ''0'' \<and> (case t of [] \<Rightarrow> False | d # _ \<Rightarrow> d = CHR ''x'' \<or> d = CHR ''X''))"

definition read_double :: "string \<Rightarrow> (dbl \<times> string) option res" where
  "read_double s =
     (let (neg, s) = read_sign (skip_space s) in
      if other_double s then Inl Undef
      else
        let (ds, s) = read_digits s; (fs, s) = read_fraction s in
        if ds = [] \<and> fs = [] then Inr None
        else Inr (case read_exponent s of None \<Rightarrow> None
          | Some (e, rest) \<Rightarrow>
              let m = number (ds @ fs) in Some (lit (if neg then - m else m) (e - int (length fs)), rest)))"

subsection \<open>sscanf\<close>

datatype directive = Skip_space | Match char | Read_word | Read_int | Read_long | Read_double

datatype conversion = Word string | Number int | Real dbl

text \<open>The directives of a format; the two flags are set inside of a conversion and after the letter l.\<close>

definition conversion :: "bool \<Rightarrow> char \<Rightarrow> directive" where
  "conversion long c = (if c = CHR ''s'' then Read_word
     else if c = CHR ''d'' then (if long then Read_long else Read_int) else Read_double)"

fun directives :: "bool \<Rightarrow> bool \<Rightarrow> string \<Rightarrow> directive list" where
  "directives conv long [] = []"
| "directives conv long (c # f) =
     (if conv then
        if c = CHR ''l'' then directives True True f else conversion long c # directives False False f
      else if c = CHR ''%'' then directives True False f
      else (if is_space c then Skip_space else Match c) # directives False False f)"

definition store :: "conversion \<Rightarrow> conversion list res \<Rightarrow> conversion list res" where
  "store v rest = ebind rest (\<lambda>vs. Inr (v # vs))"

text \<open>The values of the conversions up to the first that fails; too large a number is undefined.\<close>

fun scan :: "directive list \<Rightarrow> string \<Rightarrow> conversion list res" where
  "scan [] s = Inr []"
| "scan (Skip_space # ds) s = scan ds (skip_space s)"
| "scan (Match c # ds) s = (case s of [] \<Rightarrow> Inr [] | d # t \<Rightarrow> if d = c then scan ds t else Inr [])"
| "scan (Read_word # ds) s =
     (let s = skip_space s; w = takeWhile (\<lambda>c. \<not> is_space c) s
      in if w = [] then Inr [] else store (Word w) (scan ds (drop (length w) s)))"
| "scan (Read_int # ds) s =
     (case read_int s of None \<Rightarrow> Inr []
      | Some (n, rest) \<Rightarrow> if int_ok n then store (Number n) (scan ds rest) else Inl Undef)"
| "scan (Read_long # ds) s =
     (case read_int s of None \<Rightarrow> Inr []
      | Some (n, rest) \<Rightarrow> if - (2 ^ 63) \<le> n \<and> n < 2 ^ 63 then store (Number n) (scan ds rest) else Inl Undef)"
| "scan (Read_double # ds) s =
     ebind (read_double s) (\<lambda>r. case r of None \<Rightarrow> Inr []
      | Some (x, rest) \<Rightarrow> store (Real x) (scan ds rest))"

definition sscanf :: "string \<Rightarrow> string \<Rightarrow> conversion list res" where
  "sscanf line format = scan (directives False False format) line"

subsection \<open>Options\<close>

text \<open>
  Both readers test a line for the names of the options in turn.  The local array \<open>tmp\<close> is read after
  every \<open>%s\<close>, also one that failed: it still holds the word of an earlier line, or nothing yet.
\<close>

type_synonym 'a reader = "string option \<times> 'a"

type_synonym 'a option_line = "string \<times> bool \<times> (string \<Rightarrow> 'a reader \<Rightarrow> 'a reader res)"

definition scan_word :: "string \<Rightarrow> string \<Rightarrow> string option \<Rightarrow> string option res" where
  "scan_word format line tmp =
     ebind (sscanf line format) (\<lambda>vs. Inr (case vs of Word w # _ \<Rightarrow> Some w | _ \<Rightarrow> tmp))"

definition by_word :: "string \<Rightarrow> (string \<Rightarrow> 'a \<Rightarrow> 'a) \<Rightarrow> string \<Rightarrow> 'a reader \<Rightarrow> 'a reader res" where
  "by_word format f line st =
     ebind (scan_word format line (fst st)) (\<lambda>tmp.
       case tmp of None \<Rightarrow> Inl Undef | Some w \<Rightarrow> Inr (tmp, f w (snd st)))"

definition by_number :: "string \<Rightarrow> (int \<Rightarrow> 'a \<Rightarrow> 'a) \<Rightarrow> string \<Rightarrow> 'a reader \<Rightarrow> 'a reader res" where
  "by_number format f line st =
     ebind (sscanf line format) (\<lambda>vs.
       Inr (fst st, case vs of Number n # _ \<Rightarrow> f n (snd st) | _ \<Rightarrow> snd st))"

definition by_double :: "string \<Rightarrow> (dbl \<Rightarrow> 'a \<Rightarrow> 'a) \<Rightarrow> string \<Rightarrow> 'a reader \<Rightarrow> 'a reader res" where
  "by_double format f line st =
     ebind (sscanf line format) (\<lambda>vs.
       Inr (fst st, case vs of Real x # _ \<Rightarrow> f x (snd st) | _ \<Rightarrow> snd st))"

text \<open>The assignment to a member.\<close>

definition assign :: "(('v \<Rightarrow> 'v) \<Rightarrow> 'c \<Rightarrow> 'c) \<Rightarrow> 'v \<Rightarrow> 'c \<Rightarrow> 'c" where
  "assign update v = update (\<lambda>_. v)"

text \<open>Every option that a line starts with is applied, up to the first that ends with \<open>continue\<close>.\<close>

fun run_options :: "'a option_line list \<Rightarrow> string \<Rightarrow> 'a reader \<Rightarrow> 'a reader res" where
  "run_options [] line st = Inr st"
| "run_options ((name, continue, f) # os) line st =
     (if take (length name) line = name
      then ebind (f line st) (\<lambda>st. if continue then Inr st else run_options os line st)
      else run_options os line st)"

text \<open>A file that cannot be opened ends the program.\<close>

definition read_file :: "'a option_line list \<Rightarrow> string option \<Rightarrow> 'a \<Rightarrow> 'a res" where
  "read_file os contents c =
     (case contents of None \<Rightarrow> Inl Exit
      | Some s \<Rightarrow> ebind (read_lines s) (\<lambda>lines.
          ebind (efold (run_options os) lines (None, c)) (\<lambda>st. Inr (snd st))))"

end
