(* ===== verification/ReadConfig.thy ===== *)
theory ReadConfig
  imports Scanf Explore
begin

text \<open>
  The configuration (\<open>InputParameter.h\<close>, \<open>InputParameter.cpp\<close>): its defaults and the reader of the
  configuration file.  The members that the rest of the program reads are those of \<open>InputParameter\<close>,
  the ranges of the search and the limits of the constraints; \<open>Configuration\<close> adds the other ones.
\<close>

record Configuration = InputParameter +
  cf_search :: Search
  cf_constraints :: Overheads
  maxDriverCurrent :: dbl
  useCactiAssumption :: bool
  outputFilePrefix :: string
  fileMemCell :: "string list"
  doublePrune :: bool
  printAllOptimals :: bool
  allowDifferentTagTech :: bool
  printLevel :: int

subsection \<open>The defaults\<close>

text \<open>The wires of the tag array have no default.\<close>

definition default_data :: "Space \<Rightarrow> Space" where
  "default_data raw = raw\<lparr>
     numRowMat_range := (1, 512), numColumnMat_range := (1, 512),
     numActiveMatPerRow_range := (1, 512), numActiveMatPerColumn_range := (1, 512),
     numRowSubarray_range := (1, 2), numColumnSubarray_range := (1, 2),
     numActiveSubarrayPerRow_range := (1, 2), numActiveSubarrayPerColumn_range := (1, 2),
     muxSenseAmp_range := (1, 256), muxOutputLev1_range := (1, 256), muxOutputLev2_range := (1, 256),
     areaOptimizationLevel_range := (0, 2)\<rparr>"

definition default_wires :: "Space \<Rightarrow> Space" where
  "default_wires S = S\<lparr>
     localWireType_range := (int_of_WireType local_aggressive, int_of_WireType local_conservative),
     globalWireType_range := (int_of_WireType global_aggressive, int_of_WireType global_conservative),
     localWireRepeaterType_range := (0, 7), globalWireRepeaterType_range := (0, 7),
     isLocalWireLowSwing_range := (0, 1), isGlobalWireLowSwing_range := (0, 1)\<rparr>"

definition Configuration_new :: "Configuration \<Rightarrow> Configuration" where
  "Configuration_new raw = raw\<lparr>
     designTarget := cache, optimizationTarget := read_latency_optimized, processNode := 90,
     maxDriverCurrent := 0, maxNmosSize := MAX_NMOS_SIZE,
     cf_search := \<lparr>dataSpace = default_wires (default_data (dataSpace (cf_search raw))),
                   tagSpace = default_data (tagSpace (cf_search raw)),
                   numRowPerSet_range = (1, 256), stackLayer_range = (1, 16)\<rparr>,
     ip_associativity := 1, routingMode := h_tree, internalSensing := True, useCactiAssumption := False,
     writeScheme := normal_write, cacheAccessMode := normal_access_mode,
     cf_constraints := \<lparr>readLatencyConstraint = invalid_value, writeLatencyConstraint = invalid_value,
       readDynamicEnergyConstraint = invalid_value, writeDynamicEnergyConstraint = invalid_value,
       leakageConstraint = invalid_value, areaConstraint = invalid_value,
       readEdpConstraint = invalid_value, writeEdpConstraint = invalid_value\<rparr>,
     isConstraintApplied := False, isPruningEnabled := False, pageSize := 0, flashBlockSize := 0,
     outputFilePrefix := ''output'', ip_partitionGranularity := 0, localTsvProjection := 1,
     globalTsvProjection := 1, tsvRedundancy := lit 15 (-1), ip_monolithicStackCount := 1,
     fileMemCell := [], doublePrune := False, printAllOptimals := False,
     allowDifferentTagTech := False, printLevel := 1\<rparr>"

subsection \<open>The words of the options\<close>

definition target_named :: "string \<Rightarrow> OptimizationTarget" where
  "target_named w =
     (if w = ''ReadLatency'' then read_latency_optimized
      else if w = ''WriteLatency'' then write_latency_optimized
      else if w = ''ReadDynamicEnergy'' then read_energy_optimized
      else if w = ''WriteDynamicEnergy'' then write_energy_optimized
      else if w = ''ReadEDP'' then read_edp_optimized
      else if w = ''WriteEDP'' then write_edp_optimized
      else if w = ''LeakagePower'' then leakage_optimized
      else if w = ''Area'' then area_optimized
      else full_exploration)"

definition roadmap_named :: "string \<Rightarrow> DeviceRoadmap" where
  "roadmap_named w = (if w = ''HP'' then HP else if w = ''LSTP'' then LSTP else LOP)"

definition scheme_named :: "string \<Rightarrow> WriteScheme" where
  "scheme_named w =
     (if w = ''SetBeforeReset'' then set_before_reset
      else if w = ''ResetBeforeSet'' then reset_before_set
      else if w = ''EraseBeforeSet'' then erase_before_set
      else if w = ''EraseBeforeReset'' then erase_before_reset
      else if w = ''WriteAndVerify'' then write_and_verify
      else normal_write)"

definition mode_named :: "string \<Rightarrow> CacheAccessMode" where
  "mode_named w = (if w = ''Sequential'' then sequential_access_mode
     else if w = ''Fast'' then fast_access_mode else normal_access_mode)"

definition wire_named :: "string \<Rightarrow> int" where
  "wire_named w = int_of_WireType
     (if w = ''LocalAggressive'' then local_aggressive
      else if w = ''LocalConservative'' then local_conservative
      else if w = ''SemiAggressive'' then semi_aggressive
      else if w = ''SemiConservative'' then semi_conservative
      else if w = ''GlobalAggressive'' then global_aggressive
      else if w = ''GlobalConservative'' then global_conservative
      else dram_wordline)"

definition repeater_named :: "string \<Rightarrow> int" where
  "repeater_named w =
     (if w = ''RepeatedOpt'' then 1
      else if w = ''Repeated5%Penalty'' then 2
      else if w = ''Repeated10%Penalty'' then 3
      else if w = ''Repeated20%Penalty'' then 4
      else if w = ''Repeated30%Penalty'' then 5
      else if w = ''Repeated40%Penalty'' then 6
      else if w = ''Repeated50%Penalty'' then 7
      else 0)"

definition yes_named :: "string \<Rightarrow> int" where
  "yes_named w = (if w = ''Yes'' then 1 else 0)"

definition routing_named :: "string \<Rightarrow> RoutingMode" where
  "routing_named w = (if w = ''H-tree'' then h_tree else non_h_tree)"

definition level_named :: "string \<Rightarrow> int" where
  "level_named w = (if w = ''latency'' then 0 else if w = ''area'' then 2 else 1)"

subsection \<open>Assignments\<close>

type_synonym on_space = "(Space \<Rightarrow> Space) \<Rightarrow> Configuration \<Rightarrow> Configuration"

type_synonym on_range = "(range \<Rightarrow> range) \<Rightarrow> Space \<Rightarrow> Space"

definition data_space :: on_space where
  "data_space f = cf_search_update (dataSpace_update f)"

definition tag_space :: on_space where
  "tag_space f = cf_search_update (tagSpace_update f)"

text \<open>Both ends of a range get the value of a word.\<close>

definition fixed :: "on_space \<Rightarrow> on_range \<Rightarrow> (string \<Rightarrow> int) \<Rightarrow> string \<Rightarrow> Configuration \<Rightarrow> Configuration" where
  "fixed space update named w = space (update (\<lambda>_. (named w, named w)))"

text \<open>
  \<open>sscanf\<close> writes the \<open>i\<close>th number to the lower end of a range, if it gets that far; then the upper end is
  set to the lower one.
\<close>

definition forced :: "conversion list \<Rightarrow> nat \<Rightarrow> range \<Rightarrow> range" where
  "forced vs i r =
     (let m = (if i < length vs then (case vs ! i of Number n \<Rightarrow> n | _ \<Rightarrow> fst r) else fst r) in (m, m))"

definition by_numbers ::
  "string \<Rightarrow> (conversion list \<Rightarrow> 'a \<Rightarrow> 'a) \<Rightarrow> string \<Rightarrow> 'a reader \<Rightarrow> 'a reader res" where
  "by_numbers format f line st = ebind (sscanf line format) (\<lambda>vs. Inr (fst st, f vs (snd st)))"

definition forced_range ::
  "on_space \<Rightarrow> on_range \<Rightarrow> nat \<Rightarrow> conversion list \<Rightarrow> Configuration \<Rightarrow> Configuration" where
  "forced_range space update i vs = space (update (forced vs i))"

definition force_layers :: "nat \<Rightarrow> conversion list \<Rightarrow> Configuration \<Rightarrow> Configuration" where
  "force_layers i vs = cf_search_update (stackLayer_range_update (forced vs i))"

definition force_mats :: "on_space \<Rightarrow> conversion list \<Rightarrow> Configuration \<Rightarrow> Configuration" where
  "force_mats space vs =
     space (numRowMat_range_update (forced vs 0) \<circ> numColumnMat_range_update (forced vs 1))"

definition force_active_mats :: "on_space \<Rightarrow> nat \<Rightarrow> conversion list \<Rightarrow> Configuration \<Rightarrow> Configuration" where
  "force_active_mats space i vs =
     space (numActiveMatPerColumn_range_update (forced vs i)
            \<circ> numActiveMatPerRow_range_update (forced vs (i + 1)))"

definition force_subarrays :: "on_space \<Rightarrow> conversion list \<Rightarrow> Configuration \<Rightarrow> Configuration" where
  "force_subarrays space vs =
     space (numRowSubarray_range_update (forced vs 0) \<circ> numColumnSubarray_range_update (forced vs 1))"

definition force_active_subarrays :: "on_space \<Rightarrow> conversion list \<Rightarrow> Configuration \<Rightarrow> Configuration" where
  "force_active_subarrays space vs =
     space (numActiveSubarrayPerColumn_range_update (forced vs 2)
            \<circ> numActiveSubarrayPerRow_range_update (forced vs 3))"

text \<open>A RAM or a CAM has one row per set.\<close>

definition set_target :: "string \<Rightarrow> Configuration \<Rightarrow> Configuration" where
  "set_target w c =
     (if w = ''cache'' then c\<lparr>designTarget := cache\<rparr>
      else c\<lparr>designTarget := (if w = ''RAM'' then RAM_chip else CAM_chip),
             cf_search := (cf_search c)\<lparr>numRowPerSet_range := (1, 1)\<rparr>\<rparr>)"

text \<open>The capacity goes through a local variable that is not initialized.\<close>

definition read_capacity :: "string \<Rightarrow> int \<Rightarrow> string \<Rightarrow> Configuration reader \<Rightarrow> Configuration reader res" where
  "read_capacity format k line st =
     ebind (sscanf line format) (\<lambda>vs.
       case vs of Number n # _ \<Rightarrow> Inr (fst st, (snd st)\<lparr>ip_capacity := n * k\<rparr>) | _ \<Rightarrow> Inl Undef)"

text \<open>The unit is applied also when no number is read.\<close>

definition read_scaled ::
  "string \<Rightarrow> ((int \<Rightarrow> int) \<Rightarrow> Configuration \<Rightarrow> Configuration) \<Rightarrow> int \<Rightarrow> string \<Rightarrow> Configuration reader
     \<Rightarrow> Configuration reader res" where
  "read_scaled format update k line st =
     ebind (by_number format (assign update) line st) (\<lambda>st. Inr (fst st, update (\<lambda>n. n * k) (snd st)))"

definition read_constraint ::
  "string \<Rightarrow> ((dbl \<Rightarrow> dbl) \<Rightarrow> Overheads \<Rightarrow> Overheads) \<Rightarrow> string \<Rightarrow> Configuration reader
     \<Rightarrow> Configuration reader res" where
  "read_constraint format update line st =
     ebind (by_double format (\<lambda>x. cf_constraints_update (update (\<lambda>_. x))) line st) (\<lambda>st.
       Inr (fst st, (snd st)\<lparr>isConstraintApplied := True\<rparr>))"

text \<open>The organisation that CACTI assumes: all mats of one row, and two by two active subarrays.\<close>

definition cacti_assumption :: "string \<Rightarrow> Configuration \<Rightarrow> Configuration" where
  "cacti_assumption w c =
     (if w = ''Yes'' then
        data_space (\<lambda>S. let n = snd (numColumnMat_range S) in S\<lparr>
          numActiveMatPerRow_range := (n, n), numActiveMatPerColumn_range := (1, 1),
          numRowSubarray_range := (2, 2), numColumnSubarray_range := (2, 2),
          numActiveSubarrayPerRow_range := (2, 2), numActiveSubarrayPerColumn_range := (2, 2)\<rparr>)
          (c\<lparr>useCactiAssumption := True\<rparr>)
      else c\<lparr>useCactiAssumption := False\<rparr>)"

subsection \<open>The options in the order of the code\<close>

text \<open>
  The order matters where one name is the beginning of another, as of \<open>-ForceBank3DA\<close>.  Three options do
  not end with \<open>continue\<close>.  What is printed, as the warning of a number of dies that is given twice and the
  variable \<open>forcedStackLayers\<close> that decides on it, is left out.
\<close>

definition design_options :: "Configuration option_line list" where
  "design_options =
    [(''-DesignTarget'', True, by_word ''-DesignTarget: %s'' set_target),
     (''-OptimizationTarget'', True, by_word ''-OptimizationTarget: %s''
      (assign optimizationTarget_update \<circ> target_named)),
     (''-OutputFilePrefix'', True, by_word ''-OutputFilePrefix: %s'' (assign outputFilePrefix_update)),
     (''-ProcessNode'', True, by_number ''-ProcessNode: %d'' (assign processNode_update)),
     (''-Capacity (B)'', True, read_capacity ''-Capacity (B): %ld'' 1),
     (''-Capacity (KB)'', True, read_capacity ''-Capacity (KB): %ld'' 1024),
     (''-Capacity (MB)'', True, read_capacity ''-Capacity (MB): %ld'' 1048576),
     (''-WordWidth'', True, by_number ''-WordWidth (bit): %ld'' (assign wordWidth_update)),
     (''-Associativity'', True, by_number ''-Associativity (for cache only): %d''
      (assign ip_associativity_update)),
     (''-Temperature'', True, by_number ''-Temperature (K): %d'' (assign ip_temperature_update)),
     (''-MaxDriverCurrent'', True, by_double ''-MaxDriverCurrent (uA): %lf''
      (assign maxDriverCurrent_update)),
     (''-DeviceRoadmap'', True, by_word ''-DeviceRoadmap: %s''
      (assign ip_deviceRoadmap_update \<circ> roadmap_named)),
     (''-WriteScheme'', True, by_word ''-WriteScheme: %s''
      (assign writeScheme_update \<circ> scheme_named)),
     (''-CacheAccessMode'', True, by_word ''-CacheAccessMode: %s''
      (assign cacheAccessMode_update \<circ> mode_named))]"

definition wire_options :: "Configuration option_line list" where
  "wire_options =
    [(''-LocalWireType'', True, by_word ''-LocalWireType: %s''
      (fixed data_space localWireType_range_update wire_named)),
     (''-LocalWireRepeaterType'', True, by_word ''-LocalWireRepeaterType: %s''
      (fixed data_space localWireRepeaterType_range_update repeater_named)),
     (''-LocalWireUseLowSwing'', True, by_word ''-LocalWireUseLowSwing: %s''
      (fixed data_space isLocalWireLowSwing_range_update yes_named)),
     (''-GlobalWireType'', True, by_word ''-GlobalWireType: %s''
      (fixed data_space globalWireType_range_update wire_named)),
     (''-GlobalWireRepeaterType'', True, by_word ''-GlobalWireRepeaterType: %s''
      (fixed data_space globalWireRepeaterType_range_update repeater_named)),
     (''-GlobalWireUseLowSwing'', True, by_word ''-GlobalWireUseLowSwing: %s''
      (fixed data_space isGlobalWireLowSwing_range_update yes_named))]"

definition tag_wire_options :: "Configuration option_line list" where
  "tag_wire_options =
    [(''-TagLocalWireType'', True, by_word ''-TagLocalWireType: %s''
      (fixed tag_space localWireType_range_update wire_named)),
     (''-TagLocalWireRepeaterType'', True, by_word ''-TagLocalWireRepeaterType: %s''
      (fixed tag_space localWireRepeaterType_range_update repeater_named)),
     (''-TagLocalWireUseLowSwing'', True, by_word ''-TagLocalWireUseLowSwing: %s''
      (fixed tag_space isLocalWireLowSwing_range_update yes_named)),
     (''-TagGlobalWireType'', True, by_word ''-TagGlobalWireType: %s''
      (fixed tag_space globalWireType_range_update wire_named)),
     (''-TagGlobalWireRepeaterType'', True, by_word ''-TagGlobalWireRepeaterType: %s''
      (fixed tag_space globalWireRepeaterType_range_update repeater_named)),
     (''-TagGlobalWireUseLowSwing'', True, by_word ''-TagGlobalWireUseLowSwing: %s''
      (fixed tag_space isGlobalWireLowSwing_range_update yes_named))]"

definition array_options :: "Configuration option_line list" where
  "array_options =
    [(''-Routing'', True, by_word ''-Routing: %s'' (assign routingMode_update \<circ> routing_named)),
     (''-InternalSensing'', True, by_word ''-InternalSensing: %s''
      (assign internalSensing_update \<circ> (=) ''true'')),
     (''-MemoryCellInputFile'', True, by_word ''-MemoryCellInputFile: %s''
      (\<lambda>w. fileMemCell_update (\<lambda>fs. fs @ [w]))),
     (''-MaxNmosSize'', True, by_double ''-MaxNmosSize (F): %lf'' (assign maxNmosSize_update)),
     (''-ForceBank3DA'', True, by_numbers ''-ForceBank3DA (Total AxBxC): %dx%dx%d''
      (\<lambda>vs. force_layers 2 vs \<circ> force_mats data_space vs)),
     (''-ForceBank3D'', True, by_numbers ''-ForceBank3D (Total AxBxC, Active DxE): %dx%dx%d, %dx%d''
      (\<lambda>vs. force_layers 2 vs \<circ> force_active_mats data_space 3 vs \<circ> force_mats data_space vs)),
     (''-ForceBankA'', True, by_numbers ''-ForceBankA (Total AxB): %dx%d'' (force_mats data_space)),
     (''-ForceBank'', True, by_numbers ''-ForceBank (Total AxB, Active CxD): %dx%d, %dx%d''
      (\<lambda>vs. force_active_mats data_space 2 vs \<circ> force_mats data_space vs)),
     (''-ForceMatA'', True, by_numbers ''-ForceMatA (Total AxB): %dx%d'' (force_subarrays data_space)),
     (''-ForceMat'', True, by_numbers ''-ForceMat (Total AxB, Active CxD): %dx%d, %dx%d''
      (\<lambda>vs. force_active_subarrays data_space vs \<circ> force_subarrays data_space vs))]"

definition mux_options :: "Configuration option_line list" where
  "mux_options =
    [(''-ForceMuxSenseAmp'', True, by_numbers ''-ForceMuxSenseAmp: %d''
      (forced_range data_space muxSenseAmp_range_update 0)),
     (''-ForceMuxOutputLev1'', True, by_numbers ''-ForceMuxOutputLev1: %d''
      (forced_range data_space muxOutputLev1_range_update 0)),
     (''-ForceMuxOutputLev2'', True, by_numbers ''-ForceMuxOutputLev2: %d''
      (forced_range data_space muxOutputLev2_range_update 0)),
     (''-ForceTagBank'', True, by_numbers ''-ForceTagBank (Total AxB, Active CxD): %dx%d, %dx%d''
      (\<lambda>vs. force_active_mats tag_space 2 vs \<circ> force_mats tag_space vs)),
     (''-ForceTagMat'', True, by_numbers ''-ForceTagMat (Total AxB, Active CxD): %dx%d, %dx%d''
      (\<lambda>vs. force_active_subarrays tag_space vs \<circ> force_subarrays tag_space vs)),
     (''-ForceTagMuxSenseAmp'', True, by_numbers ''-ForceTagMuxSenseAmp: %d''
      (forced_range tag_space muxSenseAmp_range_update 0)),
     (''-ForceTagMuxOutputLev1'', True, by_numbers ''-ForceTagMuxOutputLev1: %d''
      (forced_range tag_space muxOutputLev1_range_update 0)),
     (''-ForceTagMuxOutputLev2'', True, by_numbers ''-ForceTagMuxOutputLev2: %d''
      (forced_range tag_space muxOutputLev2_range_update 0))]"

definition policy_options :: "Configuration option_line list" where
  "policy_options =
    [(''-UseCactiAssumption'', True, by_word ''-UseCactiAssumption: %s'' cacti_assumption),
     (''-EnablePruning'', True, by_word ''-EnablePruning: %s''
      (assign isPruningEnabled_update \<circ> (=) ''Yes'')),
     (''-BufferDesignOptimization'', False, by_word ''-BufferDesignOptimization: %s''
      (fixed data_space areaOptimizationLevel_range_update level_named)),
     (''-TagBufferDesignOptimization'', False, by_word ''-TagBufferDesignOptimization: %s''
      (fixed tag_space areaOptimizationLevel_range_update level_named)),
     (''-FlashPageSize'', True, read_scaled ''-FlashPageSize (Byte): %ld'' pageSize_update 8),
     (''-FlashBlockSize'', True, read_scaled ''-FlashBlockSize (KB): %ld'' flashBlockSize_update 8192),
     (''-ApplyReadLatencyConstraint'', True, read_constraint ''-ApplyReadLatencyConstraint: %lf''
      readLatencyConstraint_update),
     (''-ApplyWriteLatencyConstraint'', True, read_constraint ''-ApplyWriteLatencyConstraint: %lf''
      writeLatencyConstraint_update),
     (''-ApplyReadDynamicEnergyConstraint'', True, read_constraint ''-ApplyReadDynamicEnergyConstraint: %lf''
      readDynamicEnergyConstraint_update),
     (''-ApplyWriteDynamicEnergyConstraint'', True, read_constraint ''-ApplyWriteDynamicEnergyConstraint: %lf''
      writeDynamicEnergyConstraint_update),
     (''-ApplyLeakageConstraint'', True, read_constraint ''-ApplyLeakageConstraint: %lf''
      leakageConstraint_update),
     (''-ApplyAreaConstraint'', True, read_constraint ''-ApplyAreaConstraint: %lf''
      areaConstraint_update),
     (''-ApplyReadEdpConstraint'', True, read_constraint ''-ApplyReadEdpConstraint: %lf''
      readEdpConstraint_update),
     (''-ApplyWriteEdpConstraint'', True, read_constraint ''-ApplyWriteEdpConstraint: %lf''
      writeEdpConstraint_update)]"

definition stack_options :: "Configuration option_line list" where
  "stack_options =
    [(''-PartitionGranularity'', True, by_number ''-PartitionGranularity: %d''
      (assign ip_partitionGranularity_update)),
     (''-LocalTSVProjection'', True, by_number ''-LocalTSVProjection: %d''
      (assign localTsvProjection_update)),
     (''-GlobalTSVProjection'', True, by_number ''-GlobalTSVProjection: %d''
      (assign globalTsvProjection_update)),
     (''-TSVRedundancy'', True, by_double ''-TSVRedundancy: %lf'' (assign tsvRedundancy_update)),
     (''-StackedDieCount'', True, by_numbers ''-StackedDieCount: %d'' (force_layers 0)),
     (''-MonolithicStackCount'', True, by_number ''-MonolithicStackCount: %d''
      (assign ip_monolithicStackCount_update)),
     (''-PrintAllOptimals'', True, by_word ''-PrintAllOptimals: %s''
      (assign printAllOptimals_update \<circ> (=) ''true'')),
     (''-AllowDifferentTagTech'', True, by_word ''-AllowDifferentTagTech: %s''
      (assign allowDifferentTagTech_update \<circ> (=) ''true'')),
     (''-PrintLevel'', False, by_number ''-PrintLevel: %d'' (assign printLevel_update))]"

definition config_options :: "Configuration option_line list" where
  "config_options = design_options @ wire_options @ tag_wire_options @ array_options @ mux_options
     @ policy_options @ stack_options"

definition ReadInputParameterFromFile :: "string option \<Rightarrow> Configuration \<Rightarrow> Configuration res" where
  "ReadInputParameterFromFile = read_file config_options"

text \<open>The configuration as the technology sees it.\<close>

definition configured :: "Configuration \<Rightarrow> InputParameter" where
  "configured c = (InputParameter.truncate c)\<lparr>
     maxLocalWireType := snd (localWireType_range (dataSpace (cf_search c))),
     maxGlobalWireType := snd (globalWireType_range (dataSpace (cf_search c)))\<rparr>"

end
