(* ===== verification/ReadCell.thy ===== *)
theory ReadCell
  imports Scanf SubArray
begin

text \<open>
  The reader of a cell file (\<open>MemCell::ReadCellFromFile\<close>).  It is called with the technology of the run,
  for the voltages that are given as \<open>vdd\<close>.
\<close>

subsection \<open>Words and units\<close>

definition cell_type_named :: "string \<Rightarrow> MemCellType" where
  "cell_type_named w =
     (if w = ''SRAM'' then SRAM else if w = ''DRAM'' then DRAM else if w = ''eDRAM'' then eDRAM
      else if w = ''MRAM'' then MRAM else if w = ''PCRAM'' then PCRAM else if w = ''FBRAM'' then FBRAM
      else if w = ''memristor'' then memristor else if w = ''SLCNAND'' then SLCNAND else MLCNAND)"

definition access_named :: "string \<Rightarrow> CellAccessType" where
  "access_named w = (if w = ''CMOS'' then CMOS_access else if w = ''BJT'' then BJT_access
     else if w = ''diode'' then diode_access else none_access)"

definition flash_cell :: "MemCell \<Rightarrow> bool" where
  "flash_cell c \<longleftrightarrow> memCellType c = SLCNAND \<or> memCellType c = MLCNAND"

type_synonym on_double = "(dbl \<Rightarrow> dbl) \<Rightarrow> MemCell \<Rightarrow> MemCell"

text \<open>What follows a conversion is done also when it failed.\<close>

definition read_then ::
  "string \<Rightarrow> on_double \<Rightarrow> (MemCell \<Rightarrow> MemCell) \<Rightarrow> string \<Rightarrow> MemCell reader \<Rightarrow> MemCell reader res" where
  "read_then format update f line st =
     ebind (by_double format (assign update) line st) (\<lambda>st. Inr (fst st, f (snd st)))"

text \<open>A value in a unit of \<open>10 ^ - k\<close>.\<close>

definition read_unit :: "string \<Rightarrow> on_double \<Rightarrow> int \<Rightarrow> string \<Rightarrow> MemCell reader \<Rightarrow> MemCell reader res" where
  "read_unit format update k = read_then format update (update (\<lambda>x. x / lit 1 k))"

text \<open>The sides of a cell are computed with the area that is known when its aspect ratio is read.\<close>

definition read_aspect :: "string \<Rightarrow> MemCell reader \<Rightarrow> MemCell reader res" where
  "read_aspect = read_then ''-CellAspectRatio: %lf'' cell_aspectRatio_update (\<lambda>c.
     c\<lparr>heightInFeatureSize := dsqrt (cell_area c * cell_aspectRatio c),
       widthInFeatureSize := dsqrt (cell_area c / cell_aspectRatio c)\<rparr>)"

text \<open>
  A voltage, or the word \<open>vdd\<close>.  The code looks for the word with the format of the reset voltage and
  assigns it to the reset voltage, for a set voltage as well.
\<close>

definition read_voltage ::
  "Technology \<Rightarrow> string \<Rightarrow> string \<Rightarrow> on_double \<Rightarrow> string \<Rightarrow> MemCell reader \<Rightarrow> MemCell reader res" where
  "read_voltage T word_format format update line st =
     ebind (scan_word word_format line (fst st)) (\<lambda>tmp.
       case tmp of None \<Rightarrow> Inl Undef
       | Some w \<Rightarrow>
           if w = ''vdd'' then Inr (tmp, (snd st)\<lparr>resetVoltage := vdd T\<rparr>)
           else by_double format (assign update) line (tmp, snd st))"

text \<open>An option that the kind of cell does not have is ignored.\<close>

definition only_if ::
  "(MemCell \<Rightarrow> bool) \<Rightarrow> (string \<Rightarrow> MemCell reader \<Rightarrow> MemCell reader res) \<Rightarrow> string \<Rightarrow> MemCell reader
     \<Rightarrow> MemCell reader res" where
  "only_if P f line st = (if P (snd st) then f line st else Inr st)"

subsection \<open>The options in the order of the code\<close>

definition cell_options :: "MemCell option_line list" where
  "cell_options =
    [(''-MemCellType'', True,
       by_word ''-MemCellType: %s'' (assign memCellType_update \<circ> cell_type_named)),
     (''-ProcessNode'', True, by_number ''-ProcessNode: %d'' (assign cell_processNode_update)),
     (''-CellArea'', True, by_double ''-CellArea (F^2): %lf'' (assign cell_area_update)),
     (''-CellAspectRatio'', True, read_aspect)]"

definition resistance_options :: "MemCell option_line list" where
  "resistance_options =
    [(''-ResistanceOnAtSetVoltage'', True,
       by_double ''-ResistanceOnAtSetVoltage (ohm): %lf'' (assign resistanceOnAtSetVoltage_update)),
     (''-ResistanceOffAtSetVoltage'', True,
       by_double ''-ResistanceOffAtSetVoltage (ohm): %lf'' (assign resistanceOffAtSetVoltage_update)),
     (''-ResistanceOnAtResetVoltage'', True,
       by_double ''-ResistanceOnAtResetVoltage (ohm): %lf'' (assign resistanceOnAtResetVoltage_update)),
     (''-ResistanceOffAtResetVoltage'', True,
       by_double ''-ResistanceOffAtResetVoltage (ohm): %lf''
         (assign resistanceOffAtResetVoltage_update)),
     (''-ResistanceOnAtReadVoltage'', True,
       read_then ''-ResistanceOnAtReadVoltage (ohm): %lf''
         resistanceOnAtReadVoltage_update (\<lambda>c. c\<lparr>resistanceOn := resistanceOnAtReadVoltage c\<rparr>)),
     (''-ResistanceOffAtReadVoltage'', True,
       read_then ''-ResistanceOffAtReadVoltage (ohm): %lf''
         resistanceOffAtReadVoltage_update (\<lambda>c. c\<lparr>resistanceOff := resistanceOffAtReadVoltage c\<rparr>)),
     (''-ResistanceOnAtHalfReadVoltage'', True,
       by_double ''-ResistanceOnAtHalfReadVoltage (ohm): %lf''
         (assign resistanceOnAtHalfReadVoltage_update)),
     (''-ResistanceOffAtHalfReadVoltage'', True,
       by_double ''-ResistanceOffAtHalfReadVoltage (ohm): %lf''
         (assign resistanceOffAtHalfReadVoltage_update)),
     (''-ResistanceOnAtHalfResetVoltage'', True,
       by_double ''-ResistanceOnAtHalfResetVoltage (ohm): %lf''
         (assign resistanceOnAtHalfResetVoltage_update)),
     (''-ResistanceOn'', True, by_double ''-ResistanceOn (ohm): %lf'' (assign resistanceOn_update)),
     (''-ResistanceOff'', True, by_double ''-ResistanceOff (ohm): %lf'' (assign resistanceOff_update)),
     (''-CapacitanceOn'', True, by_double ''-CapacitanceOn (F): %lf'' (assign capacitanceOn_update)),
     (''-CapacitanceOff'', True, by_double ''-CapacitanceOff (F): %lf'' (assign capacitanceOff_update))]"

definition read_options :: "MemCell option_line list" where
  "read_options =
    [(''-GateOxThicknessFactor'', True,
       by_double ''-GateOxThicknessFactor: %lf'' (assign gateOxThicknessFactor_update)),
     (''-SOIDeviceWidth (F)'', True,
       by_double ''-SOIDeviceWidth (F): %lf'' (assign widthSOIDevice_update)),
     (''-ReadMode'', True, by_word ''-ReadMode: %s'' (assign readMode_update \<circ> (=) ''voltage'')),
     (''-ReadVoltage'', True, by_double ''-ReadVoltage (V): %lf'' (assign readVoltage_update)),
     (''-ReadCurrent'', True, read_unit ''-ReadCurrent (uA): %lf'' readCurrent_update 6),
     (''-ReadPower'', True, read_unit ''-ReadPower (uW): %lf'' readPower_update 6),
     (''-WordlineBoostRatio'', True,
       by_double ''-WordlineBoostRatio: %lf'' (assign wordlineBoostRatio_update)),
     (''-MinSenseVoltage'', True, read_unit ''-MinSenseVoltage (mV): %lf'' minSenseVoltage_update 3)]"

definition write_options :: "Technology \<Rightarrow> MemCell option_line list" where
  "write_options T =
    [(''-ResetMode'', True,
       by_word ''-ResetMode: %s'' (assign resetMode_update \<circ> (=) ''voltage'')),
     (''-ResetVoltage'', True,
       read_voltage T ''-ResetVoltage (V): %s'' ''-ResetVoltage (V): %lf'' resetVoltage_update),
     (''-ResetCurrent'', True, read_unit ''-ResetCurrent (uA): %lf'' resetCurrent_update 6),
     (''-ResetPulse'', True, read_unit ''-ResetPulse (ns): %lf'' resetPulse_update 9),
     (''-ResetEnergy'', True, read_unit ''-ResetEnergy (pJ): %lf'' resetEnergy_update 12),
     (''-SetMode'', True, by_word ''-SetMode: %s'' (assign setMode_update \<circ> (=) ''voltage'')),
     (''-SetVoltage'', True,
       read_voltage T ''-ResetVoltage (V): %s'' ''-SetVoltage (V): %lf'' setVoltage_update),
     (''-SetCurrent'', True, read_unit ''-SetCurrent (uA): %lf'' setCurrent_update 6),
     (''-SetPulse'', True, read_unit ''-SetPulse (ns): %lf'' setPulse_update 9),
     (''-SetEnergy'', True, read_unit ''-SetEnergy (pJ): %lf'' setEnergy_update 12)]"

definition access_options :: "MemCell option_line list" where
  "access_options =
    [(''-Stitching'', True, by_number ''-Stitching: %d'' (assign stitching_update)),
     (''-AccessType'', True,
       by_word ''-AccessType: %s'' (assign accessType_update \<circ> access_named)),
     (''-AccessCMOSWidth'', True,
       only_if (\<lambda>c. accessType c = CMOS_access) (by_double ''-AccessCMOSWidth (F): %lf''
         (assign widthAccessCMOS_update))),
     (''-VoltageDropAccessDevice'', True,
       by_double ''-VoltageDropAccessDevice (V): %lf'' (assign voltageDropAccessDevice_update)),
     (''-LeakageCurrentAccessDevice'', True,
       read_unit ''-LeakageCurrentAccessDevice (uA): %lf'' leakageCurrentAccessDevice_update 6),
     (''-DRAMCellCapacitance'', True,
       only_if dram_cell (by_double ''-DRAMCellCapacitance (F): %lf'' (assign capDRAMCell_update))),
     (''-SRAMCellNMOSWidth'', True,
       only_if (\<lambda>c. memCellType c = SRAM) (by_double ''-SRAMCellNMOSWidth (F): %lf''
         (assign widthSRAMCellNMOS_update))),
     (''-SRAMCellPMOSWidth'', True,
       only_if (\<lambda>c. memCellType c = SRAM) (by_double ''-SRAMCellPMOSWidth (F): %lf''
         (assign widthSRAMCellPMOS_update))),
     (''-ReadFloating'', True,
       by_word ''-ReadFloating: %s'' (assign readFloating_update \<circ> (=) ''true''))]"

definition flash_options :: "MemCell option_line list" where
  "flash_options =
    [(''-FlashEraseVoltage (V)'', True,
       only_if flash_cell (by_double ''-FlashEraseVoltage (V): %lf'' (assign flashEraseVoltage_update))),
     (''-FlashProgramVoltage (V)'', True,
       only_if flash_cell (by_double ''-FlashProgramVoltage (V): %lf''
         (assign flashProgramVoltage_update))),
     (''-FlashPassVoltage (V)'', True,
       only_if flash_cell (by_double ''-FlashPassVoltage (V): %lf'' (assign flashPassVoltage_update))),
     (''-FlashEraseTime'', True,
       only_if flash_cell (read_unit ''-FlashEraseTime (ms): %lf'' flashEraseTime_update 3)),
     (''-FlashProgramTime'', True,
       only_if flash_cell (read_unit ''-FlashProgramTime (us): %lf'' flashProgramTime_update 6)),
     (''-GateCouplingRatio'', True,
       only_if flash_cell (by_double ''-GateCouplingRatio: %lf'' (assign gateCouplingRatio_update))),
     (''-RetentionTime'', True,
       only_if (\<lambda>c. memCellType c = eDRAM) (read_unit ''-RetentionTime (us): %lf''
         retentionTime_update 6)),
     (''-Temperature'', True,
       only_if (\<lambda>c. memCellType c = eDRAM) (by_double ''-Temperature (K): %lf''
         (assign cell_temperature_update)))]"

definition cell_file_options :: "Technology \<Rightarrow> MemCell option_line list" where
  "cell_file_options T = cell_options @ resistance_options @ read_options @ write_options T
     @ access_options @ flash_options"

definition ReadCellFromFile :: "Technology \<Rightarrow> string option \<Rightarrow> MemCell \<Rightarrow> MemCell res" where
  "ReadCellFromFile T = read_file (cell_file_options T)"

end
