(* ===== verification/ReadBack.thy ===== *)
theory ReadBack
  imports ReadConfig ReadCell
begin

text \<open>
  Reading back what is written: a configuration file that gives the settings in decimal, one per line,
  sets exactly these members.
\<close>

subsection \<open>Decimal numbers\<close>

fun decimal :: "nat \<Rightarrow> string" where
  "decimal n = (if n < 10 then [char_of (48 + n)] else decimal (n div 10) @ [char_of (48 + n mod 10)])"

declare decimal.simps [simp del]

definition show_int :: "int \<Rightarrow> string" where
  "show_int n = (if n < 0 then CHR ''-'' # decimal (nat (- n)) else decimal (nat n))"

lemma digit_char:
  assumes "d < 10" shows "is_digit (char_of (48 + d))" "digit (char_of (48 + d)) = int d"
proof -
  have "of_char (char_of (48 + d) :: char) = 48 + d" using assms by simp
  then have "of_char (char_of (48 + d) :: char) = (int (48 + d))"
    by (metis of_nat_of_char)
  then show "is_digit (char_of (48 + d))" "digit (char_of (48 + d)) = int d"
    using assms by (simp_all add: is_digit_def digit_def)
qed

lemma decimal_digits: "\<forall>c \<in> set (decimal n). is_digit c"
  by (induction n rule: decimal.induct) (subst decimal.simps, auto simp: digit_char)

lemma number_decimal: "number (decimal n) = int n"
proof (induction n rule: decimal.induct)
  case (1 n)
  show ?case
  proof (cases "n < 10")
    case True
    then show ?thesis by (subst decimal.simps) (simp add: number_def digit_char)
  next
    case False
    have "number (ds @ [c]) = 10 * number ds + digit c" for ds c by (simp add: number_def)
    then show ?thesis using 1 False digit_char [of "n mod 10"]
      by (subst decimal.simps) (simp add: zdiv_int zmod_int)
  qed
qed

lemma decimal_nonempty: "decimal n \<noteq> []"
  by (subst decimal.simps) simp

lemma decimal_length:
  "n < 10 ^ Suc k \<Longrightarrow> length (decimal n) \<le> Suc k"
proof (induction k arbitrary: n)
  case 0
  then show ?case by (subst decimal.simps) simp
next
  case (Suc k)
  then have "n div 10 < 10 ^ Suc k" by (simp add: div_less_iff_less_mult mult.commute)
  then show ?case using Suc.IH by (subst decimal.simps) simp
qed

text \<open>What may follow a number.\<close>

definition stops_number :: "string \<Rightarrow> bool" where
  "stops_number s \<longleftrightarrow> (case s of [] \<Rightarrow> True | c # _ \<Rightarrow> \<not> is_digit c)"

lemma read_digits_decimal:
  assumes "stops_number rest" shows "read_digits (decimal n @ rest) = (decimal n, rest)"
proof -
  have "takeWhile is_digit rest = []" "dropWhile is_digit rest = rest"
    using assms by (auto simp: stops_number_def split: list.splits)
  then show ?thesis using decimal_digits [of n]
    by (simp add: read_digits_def takeWhile_append2 dropWhile_append2)
qed

lemma digit_not_other: "is_digit c \<Longrightarrow> \<not> is_space c \<and> c \<noteq> CHR ''-'' \<and> c \<noteq> CHR ''+'' \<and> c \<noteq> newline"
  by (auto simp: is_digit_def is_space_def newline_def)

lemma decimal_start:
  "skip_space (decimal n @ rest) = decimal n @ rest" "read_sign (decimal n @ rest) = (False, decimal n @ rest)"
proof -
  obtain c cs where d: "decimal n = c # cs" using decimal_nonempty [of n] by (cases "decimal n") auto
  then have "is_digit c" using decimal_digits [of n] by simp
  then show "skip_space (decimal n @ rest) = decimal n @ rest"
    "read_sign (decimal n @ rest) = (False, decimal n @ rest)"
    using digit_not_other [of c] by (simp_all add: d skip_space_def read_sign_def)
qed

lemma read_int_show:
  assumes "stops_number rest" shows "read_int (show_int n @ rest) = Some (n, rest)"
proof (cases "n < 0")
  case True
  have "skip_space (CHR ''-'' # s) = CHR ''-'' # s" for s by (simp add: skip_space_def is_space_def newline_def)
  then show ?thesis using True read_digits_decimal [OF assms] decimal_nonempty
    by (simp add: read_int_def show_int_def read_sign_def number_decimal)
next
  case False
  then show ?thesis using read_digits_decimal [OF assms] decimal_nonempty
    by (simp add: read_int_def show_int_def decimal_start number_decimal)
qed

lemma show_int_chars: "c \<in> set (show_int n) \<Longrightarrow> c \<noteq> newline \<and> \<not> is_space c"
  using decimal_digits digit_not_other
  by (auto simp: show_int_def is_space_def newline_def split: if_splits)

lemma show_int_length: "- (2 ^ 63) \<le> n \<Longrightarrow> n < 2 ^ 63 \<Longrightarrow> length (show_int n) \<le> 20"
  using decimal_length [of "nat n" 18] decimal_length [of "nat (- n)" 18]
  by (auto simp: show_int_def nat_less_iff)

subsection \<open>Lines\<close>

lemma skip_space_simps [simp]: "skip_space [] = []"
  "skip_space (c # s) = (if is_space c then skip_space s else c # s)"
  by (simp_all add: skip_space_def)

definition line_ok :: "string \<Rightarrow> bool" where
  "line_ok l \<longleftrightarrow> l \<noteq> [] \<and> newline \<notin> set l \<and> length l < 5000 \<and> \<not> is_space (hd l)"

text \<open>A file: lines, each with the white space that follows its newline, which the reader skips.\<close>

definition text_with :: "(string \<times> string) list \<Rightarrow> string" where
  "text_with ls = concat (map (\<lambda>(l, gap). l @ newline # gap) ls)"

definition text_of :: "string list \<Rightarrow> string" where
  "text_of ls = text_with (map (\<lambda>l. (l, [])) ls)"

lemma skip_gap: "list_all is_space gap \<Longrightarrow> skip_space (gap @ s) = skip_space s"
  by (induction gap) simp_all

lemma read_lines_with:
  "\<forall>(l, gap) \<in> set ls. line_ok l \<and> list_all is_space gap \<Longrightarrow> read_lines (text_with ls) = Inr (map fst ls)"
proof (induction ls)
  case Nil
  then show ?case by (simp add: text_with_def read_lines.simps)
next
  case (Cons line ls)
  obtain l gap where p: "line = (l, gap)" by (cases line)
  have ok: "line_ok l" and gap: "list_all is_space gap" using Cons.prems by (simp_all add: p)
  have start: "text_with ((l, gap) # ls) = l @ newline # gap @ text_with ls" by (simp add: text_with_def)
  have "takeWhile (\<lambda>c. c \<noteq> newline) (l @ newline # gap @ text_with ls) = l"
    using ok by (subst takeWhile_append2) (auto simp: line_ok_def)
  moreover have "text_with ls = [] \<or> \<not> is_space (hd (text_with ls))"
    using Cons.prems by (cases ls) (auto simp: text_with_def line_ok_def hd_append)
  then have "skip_space (newline # gap @ text_with ls) = text_with ls"
    using gap skip_gap [OF gap, of "[]"] by (cases "text_with ls") (simp_all add: is_space_def skip_gap)
  ultimately show ?case using ok Cons
    by (subst read_lines.simps) (simp add: start p line_ok_def Let_def)
qed

lemma read_lines_text: "\<forall>l \<in> set ls. line_ok l \<Longrightarrow> read_lines (text_of ls) = Inr ls"
  using read_lines_with [of "map (\<lambda>l. (l, [])) ls"] by (auto simp: text_of_def comp_def)

lemma show_int_start [simp]: "skip_space (show_int n @ rest) = show_int n @ rest" "skip_space (show_int n) = show_int n"
proof -
  show "skip_space (show_int n @ rest) = show_int n @ rest" for rest
    by (cases "n < 0") (simp_all add: show_int_def decimal_start, simp add: skip_space_def is_space_def newline_def)
  from this [of "[]"] show "skip_space (show_int n) = show_int n" by simp
qed

lemma read_int_shown [simp]:
  "read_int (show_int n) = Some (n, [])"
  "\<not> is_digit c \<Longrightarrow> read_int (show_int n @ c # rest) = Some (n, c # rest)"
  using read_int_show [of "[]" n] read_int_show [of "c # rest" n] by (simp_all add: stops_number_def)

lemmas option_simps = config_options_def design_options_def wire_options_def tag_wire_options_def
  array_options_def mux_options_def policy_options_def stack_options_def sscanf_def conversion_def
  is_space_def newline_def store_def is_digit_def scan_word_def by_word_def by_number_def by_numbers_def
  assign_def

subsection \<open>A configuration file\<close>

text \<open>
  The settings of a file, and their lines: the rows and columns of the mats with their dies and those of
  the subarrays of a mat, each with the columns and rows that are active.
\<close>

record Settings =
  s_target :: DesignTarget
  s_node :: int
  s_capacity :: int
  s_width :: int
  s_associativity :: int
  s_temperature :: int
  s_roadmap :: DeviceRoadmap
  s_routing :: RoutingMode
  s_internal :: bool
  s_mats :: "int \<times> int \<times> int \<times> int \<times> int"
  s_subarrays :: "int \<times> int \<times> int \<times> int"

definition target_word :: "DesignTarget \<Rightarrow> string" where
  "target_word t = (case t of cache \<Rightarrow> ''cache'' | RAM_chip \<Rightarrow> ''RAM'' | CAM_chip \<Rightarrow> ''CAM'')"

definition roadmap_word :: "DeviceRoadmap \<Rightarrow> string" where
  "roadmap_word r = (case r of HP \<Rightarrow> ''HP'' | LSTP \<Rightarrow> ''LSTP'' | LOP \<Rightarrow> ''LOP'' | EDRAM \<Rightarrow> ''EDRAM'')"

definition routing_word :: "RoutingMode \<Rightarrow> string" where
  "routing_word r = (case r of h_tree \<Rightarrow> ''H-tree'' | non_h_tree \<Rightarrow> ''non-H-tree'')"

definition mats_line :: "int \<times> int \<times> int \<times> int \<times> int \<Rightarrow> string" where
  "mats_line m = (case m of (r, c, l, ac, ar) \<Rightarrow>
     ''-ForceBank3D (Total AxBxC, Active DxE): '' @ show_int r @ ''x'' @ show_int c @ ''x'' @ show_int l
       @ '', '' @ show_int ac @ ''x'' @ show_int ar)"

definition subarrays_line :: "int \<times> int \<times> int \<times> int \<Rightarrow> string" where
  "subarrays_line m = (case m of (r, c, ac, ar) \<Rightarrow>
     ''-ForceMat (Total AxB, Active CxD): '' @ show_int r @ ''x'' @ show_int c
       @ '', '' @ show_int ac @ ''x'' @ show_int ar)"

definition settings_lines :: "Settings \<Rightarrow> string list" where
  "settings_lines s =
     [''-DesignTarget: '' @ target_word (s_target s), ''-ProcessNode: '' @ show_int (s_node s),
      ''-Capacity (KB): '' @ show_int (s_capacity s), ''-WordWidth (bit): '' @ show_int (s_width s),
      ''-Associativity (for cache only): '' @ show_int (s_associativity s),
      ''-Temperature (K): '' @ show_int (s_temperature s), ''-DeviceRoadmap: '' @ roadmap_word (s_roadmap s),
      ''-Routing: '' @ routing_word (s_routing s),
      ''-InternalSensing: '' @ (if s_internal s then ''true'' else ''false''),
      mats_line (s_mats s), subarrays_line (s_subarrays s)]"

text \<open>The numbers fit their variables; the file has no name for the roadmap of embedded DRAM.\<close>

definition settings_ok :: "Settings \<Rightarrow> bool" where
  "settings_ok s \<longleftrightarrow> int_ok (s_node s) \<and> int_ok (s_associativity s) \<and> int_ok (s_temperature s)
     \<and> - (2 ^ 63) \<le> s_capacity s \<and> s_capacity s < 2 ^ 63 \<and> - (2 ^ 63) \<le> s_width s \<and> s_width s < 2 ^ 63
     \<and> s_roadmap s \<noteq> EDRAM
     \<and> (case s_mats s of (r, c, l, ac, ar) \<Rightarrow> list_all int_ok [r, c, l, ac, ar])
     \<and> (case s_subarrays s of (r, c, ac, ar) \<Rightarrow> list_all int_ok [r, c, ac, ar])"

text \<open>An example: a memory of 2 MB on two dies.\<close>

definition sample_settings :: Settings where
  "sample_settings = \<lparr>s_target = RAM_chip, s_node = 32, s_capacity = 2048, s_width = 512, s_associativity = 1,
     s_temperature = 350, s_roadmap = LOP, s_routing = h_tree, s_internal = True,
     s_mats = (4, 4, 2, 1, 4), s_subarrays = (2, 2, - 1, 2)\<rparr>"

definition set_mats :: "int \<times> int \<times> int \<times> int \<times> int \<Rightarrow> Search \<Rightarrow> Search" where
  "set_mats m S = (case m of (r, c, l, ac, ar) \<Rightarrow> S\<lparr>stackLayer_range := (l, l),
     dataSpace := (dataSpace S)\<lparr>numRowMat_range := (r, r), numColumnMat_range := (c, c),
       numActiveMatPerColumn_range := (ac, ac), numActiveMatPerRow_range := (ar, ar)\<rparr>\<rparr>)"

definition set_subarrays :: "int \<times> int \<times> int \<times> int \<Rightarrow> Search \<Rightarrow> Search" where
  "set_subarrays m S = (case m of (r, c, ac, ar) \<Rightarrow> S\<lparr>
     dataSpace := (dataSpace S)\<lparr>numRowSubarray_range := (r, r), numColumnSubarray_range := (c, c),
       numActiveSubarrayPerColumn_range := (ac, ac), numActiveSubarrayPerRow_range := (ar, ar)\<rparr>\<rparr>)"

definition set_rows :: "DesignTarget \<Rightarrow> Search \<Rightarrow> Search" where
  "set_rows t S = (if t = cache then S else S\<lparr>numRowPerSet_range := (1, 1)\<rparr>)"

definition with_settings :: "Settings \<Rightarrow> Configuration \<Rightarrow> Configuration" where
  "with_settings s c = c\<lparr>designTarget := s_target s, processNode := s_node s,
     ip_capacity := s_capacity s * 1024, wordWidth := s_width s, ip_associativity := s_associativity s,
     ip_temperature := s_temperature s, ip_deviceRoadmap := s_roadmap s, routingMode := s_routing s,
     internalSensing := s_internal s,
     cf_search := set_subarrays (s_subarrays s) (set_mats (s_mats s) (set_rows (s_target s) (cf_search c)))\<rparr>"

subsection \<open>Every line sets its member\<close>

lemma read_target:
  "run_options config_options (''-DesignTarget: '' @ target_word t) st = Inr (Some (target_word t),
     (snd st)\<lparr>designTarget := t, cf_search := set_rows t (cf_search (snd st))\<rparr>)"
  by (cases t) (simp_all add: option_simps target_word_def set_target_def set_rows_def)

lemma read_node:
  "int_ok n \<Longrightarrow> run_options config_options (''-ProcessNode: '' @ show_int n) st
     = Inr (fst st, (snd st)\<lparr>processNode := n\<rparr>)"
  by (simp add: option_simps)

lemma read_size:
  "- (2 ^ 63) \<le> n \<Longrightarrow> n < 2 ^ 63 \<Longrightarrow> run_options config_options (''-Capacity (KB): '' @ show_int n) st
     = Inr (fst st, (snd st)\<lparr>ip_capacity := n * 1024\<rparr>)"
  by (simp add: option_simps read_capacity_def)

lemma read_width:
  "- (2 ^ 63) \<le> n \<Longrightarrow> n < 2 ^ 63 \<Longrightarrow> run_options config_options (''-WordWidth (bit): '' @ show_int n) st
     = Inr (fst st, (snd st)\<lparr>wordWidth := n\<rparr>)"
  by (simp add: option_simps)

lemma read_associativity:
  "int_ok n \<Longrightarrow> run_options config_options (''-Associativity (for cache only): '' @ show_int n) st
     = Inr (fst st, (snd st)\<lparr>ip_associativity := n\<rparr>)"
  by (simp add: option_simps)

lemma read_temperature:
  "int_ok n \<Longrightarrow> run_options config_options (''-Temperature (K): '' @ show_int n) st
     = Inr (fst st, (snd st)\<lparr>ip_temperature := n\<rparr>)"
  by (simp add: option_simps)

lemma read_roadmap:
  "r \<noteq> EDRAM \<Longrightarrow> run_options config_options (''-DeviceRoadmap: '' @ roadmap_word r) st
     = Inr (Some (roadmap_word r), (snd st)\<lparr>ip_deviceRoadmap := r\<rparr>)"
  by (cases r) (simp_all add: option_simps roadmap_word_def roadmap_named_def)

lemma read_routing:
  "run_options config_options (''-Routing: '' @ routing_word r) st
     = Inr (Some (routing_word r), (snd st)\<lparr>routingMode := r\<rparr>)"
  by (cases r) (simp_all add: option_simps routing_word_def routing_named_def)

lemma read_internal:
  "run_options config_options (''-InternalSensing: '' @ (if b then ''true'' else ''false'')) st
     = Inr (Some (if b then ''true'' else ''false''), (snd st)\<lparr>internalSensing := b\<rparr>)"
  by (cases b) (simp_all add: option_simps)

lemma read_mats:
  "list_all int_ok [r, c, l, ac, ar] \<Longrightarrow> run_options config_options (mats_line (r, c, l, ac, ar)) st
     = Inr (fst st, (snd st)\<lparr>cf_search := set_mats (r, c, l, ac, ar) (cf_search (snd st))\<rparr>)"
  by (simp add: option_simps mats_line_def force_layers_def force_active_mats_def force_mats_def
      data_space_def forced_def set_mats_def)

lemma read_subarrays:
  "list_all int_ok [r, c, ac, ar] \<Longrightarrow> run_options config_options (subarrays_line (r, c, ac, ar)) st
     = Inr (fst st, (snd st)\<lparr>cf_search := set_subarrays (r, c, ac, ar) (cf_search (snd st))\<rparr>)"
  by (simp add: option_simps subarrays_line_def force_active_subarrays_def force_subarrays_def
      data_space_def forced_def set_subarrays_def)

subsection \<open>The file\<close>

lemma show_int_line [simp]: "newline \<notin> set (show_int n)"
  using show_int_chars by blast

lemma settings_lines_ok:
  assumes "settings_ok s"
  shows "\<forall>l \<in> set (settings_lines s). line_ok l"
proof -
  obtain r c d ac ar where m: "s_mats s = (r, c, d, ac, ar)" by (cases "s_mats s")
  obtain r' c' ac' ar' where u: "s_subarrays s = (r', c', ac', ar')" by (cases "s_subarrays s")
  have k: "length (show_int n) \<le> 20" if "int_ok n" for n
    using that show_int_length [of n] by (simp add: int_ok_def)
  note ok = assms [unfolded settings_ok_def m u, simplified]
  have e: "newline \<noteq> c" if "c \<noteq> CHR 0x0A" for c using that by (simp add: newline_def)
  have "list_all line_ok (settings_lines s)"
    unfolding settings_lines_def m u mats_line_def subarrays_line_def
    using ok k [of "s_node s"] k [of "s_associativity s"] k [of "s_temperature s"] show_int_length [of "s_capacity s"]
      show_int_length [of "s_width s"] k [of r] k [of c] k [of d] k [of ac] k [of ar]
      k [of r'] k [of c'] k [of ac'] k [of ar']
    by (simp add: line_ok_def e e [THEN not_sym] is_space_def target_word_def roadmap_word_def routing_word_def
        split: DesignTarget.split DeviceRoadmap.split RoutingMode.split)
  then show ?thesis by (simp add: list_all_iff)
qed

lemma run_settings:
  assumes "settings_ok s"
  shows "efold (run_options config_options) (settings_lines s) (None, c)
      = Inr (Some (if s_internal s then ''true'' else ''false''), with_settings s c)"
proof -
  obtain r k d ac ar where m: "s_mats s = (r, k, d, ac, ar)" by (cases "s_mats s")
  obtain r' k' ac' ar' where u: "s_subarrays s = (r', k', ac', ar')" by (cases "s_subarrays s")
  note ok = assms [unfolded settings_ok_def m u prod.case]
  show ?thesis
    unfolding settings_lines_def m u efold.simps
    by (simp only: read_target read_node read_size read_width read_associativity read_temperature
        read_roadmap read_routing read_internal read_mats read_subarrays ebind_simps fst_conv snd_conv
        ok simp_thms)
       (simp add: with_settings_def m u)
qed

lemma read_settings:
  assumes "settings_ok s"
  shows "ReadInputParameterFromFile (Some (text_of (settings_lines s))) c = Inr (with_settings s c)"
  using read_lines_text [OF settings_lines_ok [OF assms]] run_settings [OF assms]
  by (simp add: ReadInputParameterFromFile_def read_file_def)

subsection \<open>Lines that go wrong\<close>

lemma first_line_empty: "read_file os (Some (newline # s)) c = Inl Undef"
  by (simp add: read_file_def read_lines.simps)

lemma ebind_return [simp]: "ebind m Inr = m"
  by (cases m) simp_all

lemmas cell_simps = cell_file_options_def cell_options_def resistance_options_def read_options_def
  write_options_def access_options_def flash_options_def

lemmas scan_simps = scan_word_def sscanf_def conversion_def is_space_def newline_def store_def

text \<open>The line of the set voltage does not match the format with which its word is looked for.\<close>

lemma set_voltage_word:
  "scan_word ''-ResetVoltage (V): %s'' (''-SetVoltage'' @ s) tmp = Inr tmp"
  by (simp add: scan_simps)

lemma set_voltage_line:
  "run_options (cell_file_options T) (''-SetVoltage'' @ s) (Some w, c)
     = (if w = ''vdd'' then Inr (Some w, c\<lparr>resetVoltage := vdd T\<rparr>)
        else by_double ''-SetVoltage (V): %lf'' (assign setVoltage_update) (''-SetVoltage'' @ s) (Some w, c))"
  using set_voltage_word [of s "Some w"]
  by (simp add: cell_simps read_voltage_def)

lemma set_voltage_vdd:
  "by_double ''-SetVoltage (V): %lf'' (assign setVoltage_update) ''-SetVoltage (V): vdd'' st = Inr st"
  by (simp add: by_double_def scan_simps read_double_def read_sign_def read_digits_def read_fraction_def
      is_digit_def other_double_def)

lemma reset_voltage_line:
  "run_options (cell_file_options T) ''-ResetVoltage (V): vdd'' (tmp, c)
     = Inr (Some ''vdd'', c\<lparr>resetVoltage := vdd T\<rparr>)"
  by (simp add: cell_simps read_voltage_def scan_simps)

subsection \<open>The cell file of embedded DRAM\<close>

text \<open>The file \<open>config/eDRAM.cell\<close>, and the cell that it describes.\<close>

definition edram_file :: "(string \<times> string) list" where
  "edram_file =
    [(''-MemCellType: eDRAM'', [newline, newline]),
     (''-CellArea (F^2): 60'', []), (''-CellAspectRatio: 1.46'', [newline]),
     (''-ReadMode: voltage'', [newline]),
     (''-AccessType: CMOS'', []), (''-AccessCMOSWidth (F): 1.31'', [newline]),
     (''-DRAMCellCapacitance (F): 13e-15'', []), (''-ResetVoltage (V): vdd'', []),
     (''-SetVoltage (V): vdd'', [newline]), (''-MinSenseVoltage (mV): 10'', [])]"

definition edram_cell :: "Technology \<Rightarrow> MemCell \<Rightarrow> MemCell" where
  "edram_cell T c = c\<lparr>memCellType := eDRAM, cell_area := lit 60 0, cell_aspectRatio := lit 146 (- 2),
     heightInFeatureSize := dsqrt (lit 60 0 * lit 146 (- 2)),
     widthInFeatureSize := dsqrt (lit 60 0 / lit 146 (- 2)), readMode := True,
     accessType := CMOS_access, widthAccessCMOS := lit 131 (- 2), capDRAMCell := lit 13 (- 15),
     resetVoltage := vdd T, minSenseVoltage := lit 10 0 / lit 1 3\<rparr>"

lemmas value_simps = scan_simps by_word_def by_double_def assign_def read_double_def read_sign_def
  read_digits_def read_fraction_def read_exponent_def is_digit_def digit_def number_def other_double_def
  only_if_def read_then_def read_unit_def

lemma edram_lines:
  "run_options (cell_file_options T) ''-MemCellType: eDRAM'' (tmp, c) = Inr (Some ''eDRAM'', c\<lparr>memCellType := eDRAM\<rparr>)"
  "run_options (cell_file_options T) ''-CellArea (F^2): 60'' (tmp, c) = Inr (tmp, c\<lparr>cell_area := lit 60 0\<rparr>)"
  "run_options (cell_file_options T) ''-CellAspectRatio: 1.46'' (tmp, c)
     = Inr (tmp, c\<lparr>cell_aspectRatio := lit 146 (- 2), heightInFeatureSize := dsqrt (cell_area c * lit 146 (- 2)),
         widthInFeatureSize := dsqrt (cell_area c / lit 146 (- 2))\<rparr>)"
  "run_options (cell_file_options T) ''-ReadMode: voltage'' (tmp, c) = Inr (Some ''voltage'', c\<lparr>readMode := True\<rparr>)"
  "run_options (cell_file_options T) ''-AccessType: CMOS'' (tmp, c) = Inr (Some ''CMOS'', c\<lparr>accessType := CMOS_access\<rparr>)"
  "accessType c = CMOS_access \<Longrightarrow> run_options (cell_file_options T) ''-AccessCMOSWidth (F): 1.31'' (tmp, c)
     = Inr (tmp, c\<lparr>widthAccessCMOS := lit 131 (- 2)\<rparr>)"
  "memCellType c = eDRAM \<Longrightarrow> run_options (cell_file_options T) ''-DRAMCellCapacitance (F): 13e-15'' (tmp, c)
     = Inr (tmp, c\<lparr>capDRAMCell := lit 13 (- 15)\<rparr>)"
  "run_options (cell_file_options T) ''-MinSenseVoltage (mV): 10'' (tmp, c)
     = Inr (tmp, c\<lparr>minSenseVoltage := lit 10 0 / lit 1 3\<rparr>)"
  by (simp_all add: cell_simps value_simps cell_type_named_def access_named_def dram_cell_def read_aspect_def)

lemma read_edram:
  "ReadCellFromFile T (Some (text_with edram_file)) c = Inr (edram_cell T c)"
proof -
  have "read_lines (text_with edram_file) = Inr (map fst edram_file)"
    by (rule read_lines_with) (simp add: edram_file_def line_ok_def is_space_def newline_def)
  moreover have "efold (run_options (cell_file_options T)) (map fst edram_file) (None, c)
      = Inr (Some ''vdd'', edram_cell T c)"
    unfolding edram_file_def list.map fst_conv efold.simps
    using set_voltage_line [of T "'' (V): vdd''"]
    by (simp add: edram_lines reset_voltage_line edram_cell_def)
  ultimately show ?thesis by (simp add: ReadCellFromFile_def read_file_def)
qed

end
