(* ===== verification/Program.thy ===== *)
theory Program
  imports Nvsim Process ReadConfig ReadCell Evaluate
begin

text \<open>
  The function \<open>main\<close>: the configuration is read, the technology is chosen, \<open>nvsim\<close> runs for every memory cell,
  the results of the cells are merged and the best designs are reported.  The evaluation of a bank is an
  argument, as in the search; \<open>evaluation\<close> is the one of the program.
\<close>

subsection \<open>The memory of the objects\<close>

record Memory =
  m_config :: Configuration
  m_tech :: "Technology \<times> TsvParameters"
  m_high :: "Technology \<times> TsvParameters"
  m_cell :: MemCell
  m_wire :: Wire
  m_bank :: Bank

text \<open>An evaluation depends on the cell and on the configuration.\<close>

type_synonym evaluator = "MemCell \<Rightarrow> InputParameter \<Rightarrow> calculate"

text \<open>
  The evaluation of the program, in the environment of the run: the device technology is the technology, and
  the wire types are those of the ranges at the time.
\<close>

definition evaluation :: "BankWithHtree \<Rightarrow> BankWithoutHtree \<Rightarrow> Env \<Rightarrow> evaluator" where
  "evaluation rawTree rawPlain E cell ip G a =
     ebind (CALCULATE rawTree rawPlain
              (E\<lparr>e_tech := fst (g_tech G), e_devtech := fst (g_tech G), e_ip := ip_now ip G, e_cell := cell,
                 e_localWire := g_localWire G, e_globalWire := g_globalWire G\<rparr>) a) (\<lambda>(_, b). Inr b)"

subsection \<open>Reading the configuration\<close>

text \<open>A file system: the contents of the files that exist.\<close>

type_synonym files = "string \<Rightarrow> string option"

definition read_configuration :: "files \<Rightarrow> string \<Rightarrow> Configuration \<Rightarrow> Configuration res" where
  "read_configuration files name raw =
     (let c = Configuration_new raw
      in ReadInputParameterFromFile (files name)
           (c\<lparr>cf_search := RESTORE_SEARCH_SIZE (ip_associativity c) (cf_search c)\<rparr>))"

text \<open>
  The ranges after the file is read once more, for a cache after the search over the tags.  What the reader
  does to a line does not depend on the configuration, so that a file that was read can be read again; the
  other members get the values that they have.
\<close>

definition reread :: "files \<Rightarrow> string \<Rightarrow> Configuration \<Rightarrow> Search \<Rightarrow> Search" where
  "reread files name c S =
     (case ReadInputParameterFromFile (files name) (c\<lparr>cf_search := S\<rparr>) of Inl _ \<Rightarrow> S | Inr c \<Rightarrow> cf_search c)"

subsection \<open>The memory cells\<close>

record Run =
  run_code :: int
  run_data :: "Result list"
  run_tags :: "Result list"
  run_solutions :: int

definition run_cell ::
  "evaluator \<Rightarrow> Memory \<Rightarrow> files \<Rightarrow> string \<Rightarrow> Configuration \<Rightarrow> int \<times> string
     \<Rightarrow> InputParameter \<times> Globals \<times> Run list \<Rightarrow> (InputParameter \<times> Globals \<times> Run list) res" where
  "run_cell eval mem files name c cellFile st =
     (let (ip, G, runs) = st; fresh = Result_new (m_bank mem) (m_wire mem) (m_wire mem) in
      ebind (ReadCellFromFile (fst (g_tech G)) (files (snd cellFile)) (MemCell_new (m_cell mem))) (\<lambda>cell.
      let cell = MemCell_ApplyPVT ip cell in
      ebind (nvsim (eval cell ip) fresh (reread files name c) (cf_constraints c) cell (fst cellFile) ip G)
        (\<lambda>(code, datas, tags, n, ip, G).
          Inr (ip, G, runs @ [\<lparr>run_code = code, run_data = datas, run_tags = tags, run_solutions = n\<rparr>]))))"

definition cell_files :: "Configuration \<Rightarrow> (int \<times> string) list" where
  "cell_files c = zip (map int [0..<length (fileMemCell c)]) (fileMemCell c)"

definition run_cells ::
  "evaluator \<Rightarrow> Memory \<Rightarrow> files \<Rightarrow> string \<Rightarrow> (Configuration \<times> Run list) res" where
  "run_cells eval mem files name =
     ebind (read_configuration files name (m_config mem)) (\<lambda>c.
     ebind (main_technology (configured c) (m_tech mem) (m_high mem)) (\<lambda>TP.
     let G = \<lparr>g_localWire = m_wire mem, g_globalWire = m_wire mem, g_tech = TP, g_search = cf_search c\<rparr> in
     ebind (efold (run_cell eval mem files name c) (cell_files c) (InputParameter.truncate c, G, []))
       (\<lambda>(_, _, runs). Inr (c, runs))))"

subsection \<open>What is reported\<close>

text \<open>The best data array and tag array over the runs, for the target with the given index.\<close>

definition merged :: "bool \<Rightarrow> Run list \<Rightarrow> nat \<Rightarrow> Result \<times> Result" where
  "merged different runs i =
     (let best = (\<lambda>r. (run_data r ! i, run_tags r ! i))
      in merge_cells different (zip (map int [1..<length runs]) (map best (tl runs))) (best (hd runs)))"

definition total_solutions :: "Run list \<Rightarrow> int" where
  "total_solutions runs = sum_list (map run_solutions (filter (\<lambda>r. run_code r = 0) runs))"

datatype outcome = Designs "(Result \<times> Result) list" | No_solutions | Explored int | Pruned

definition report :: "Configuration \<Rightarrow> Run list \<Rightarrow> outcome" where
  "report c runs =
     (if optimizationTarget c = full_exploration
      then if isPruningEnabled c then Pruned
        else Explored (total_solutions runs * (if designTarget c = cache then 8 else 1))
      else if total_solutions runs \<le> 0 then No_solutions
      else if printAllOptimals c then Designs (map (merged (allowDifferentTagTech c) runs) [0..<8])
      else Designs [merged (allowDifferentTagTech c) runs (nat (int_of_OptimizationTarget (optimizationTarget c)))])"

definition main_program :: "evaluator \<Rightarrow> Memory \<Rightarrow> files \<Rightarrow> string \<Rightarrow> outcome res" where
  "main_program eval mem files name = ebind (run_cells eval mem files name) (\<lambda>(c, runs). Inr (report c runs))"

subsection \<open>The globals stay\<close>

text \<open>The search changes the wires only, and the ranges for a cache only.\<close>

definition same_globals :: "Globals \<Rightarrow> Globals \<Rightarrow> bool" where
  "same_globals G H \<longleftrightarrow> g_search G = g_search H \<and> g_tech G = g_tech H"

lemma same_globals_refl [simp]: "same_globals G G" by (simp add: same_globals_def)

lemma same_globals_trans: "same_globals G H \<Longrightarrow> same_globals H K \<Longrightarrow> same_globals G K"
  by (simp add: same_globals_def)

lemma INITIAL_BASIC_WIRE_globals: "INITIAL_BASIC_WIRE ip G = Inr H \<Longrightarrow> same_globals H G"
  by (auto simp: INITIAL_BASIC_WIRE_def Let_def same_globals_def)

lemma efold_globals:
  assumes "efold f xs (G, rs) = Inr (H, ss)"
    and "\<And>x Gr Hs. f x Gr = Inr Hs \<Longrightarrow> same_globals (fst Hs) (fst Gr)"
  shows "same_globals H G"
proof -
  have "same_globals (fst (H, ss)) G"
    by (rule efold_inv [OF assms(1), of "\<lambda>Gr. same_globals (fst Gr) G"], simp)
       (blast intro: same_globals_trans assms(2))
  then show ?thesis by simp
qed

lemma refine_step_globals:
  assumes "refine_step calc fresh mt load i Gr = Inr Hs"
    and "\<And>r G H. load r G = Inr H \<Longrightarrow> same_globals H G"
  shows "same_globals (fst Hs) (fst Gr)"
  using assms by (fastforce simp: refine_step_def ebind_Inr)

lemma LOAD_globals:
  "LOAD_GLOBAL_WIRE ip r G = Inr H \<Longrightarrow> same_globals H G"
  "LOAD_LOCAL_WIRE ip r G = Inr H \<Longrightarrow> same_globals H G"
  by (auto simp: LOAD_GLOBAL_WIRE_def LOAD_LOCAL_WIRE_def same_globals_def)

lemma refine_wire_globals:
  "refine_local calc fresh mt ip trl Gr = Inr Hs \<Longrightarrow> same_globals (fst Hs) (fst Gr)"
  "refine_global calc fresh mt ip trl Gr = Inr Hs \<Longrightarrow> same_globals (fst Hs) (fst Gr)"
proof -
  assume "refine_local calc fresh mt ip trl Gr = Inr Hs"
  then obtain lw where f: "efold (refine_step calc fresh mt (LOAD_GLOBAL_WIRE ip)) [0..7]
      ((fst Gr)\<lparr>g_localWire := lw\<rparr>, snd Gr) = Inr (fst Hs, snd Hs)"
    by (auto simp: refine_local_def for_up_def)
  have "same_globals (fst Hs) ((fst Gr)\<lparr>g_localWire := lw\<rparr>)"
    by (rule efold_globals [OF f]) (auto elim!: refine_step_globals intro: LOAD_globals)
  then show "same_globals (fst Hs) (fst Gr)" by (simp add: same_globals_def)
next
  assume "refine_global calc fresh mt ip trl Gr = Inr Hs"
  then obtain gw where f: "efold (refine_step calc fresh mt (LOAD_LOCAL_WIRE ip)) [0..7]
      ((fst Gr)\<lparr>g_globalWire := gw\<rparr>, snd Gr) = Inr (fst Hs, snd Hs)"
    by (auto simp: refine_global_def for_up_def)
  have "same_globals (fst Hs) ((fst Gr)\<lparr>g_globalWire := gw\<rparr>)"
    by (rule efold_globals [OF f]) (auto elim!: refine_step_globals intro: LOAD_globals)
  then show "same_globals (fst Hs) (fst Gr)" by (simp add: same_globals_def)
qed

lemma refine_globals:
  assumes "refine calc fresh mt ip S (G, s) = Inr (H, t)" shows "same_globals H G"
proof (cases "numSolution s \<le> 0")
  case False
  with assms obtain G1 rs1 rs2 where R:
    "efold (refine_local calc fresh mt ip) (wire_loop (localWireType_range S) (localWireRepeaterType_range S)
        (isLocalWireLowSwing_range S)) (G, bests s) = Inr (G1, rs1)"
    "efold (refine_global calc fresh mt ip) (wire_loop (globalWireType_range S) (globalWireRepeaterType_range S)
        (isGlobalWireLowSwing_range S)) (G1, rs1) = Inr (H, rs2)"
    by (auto simp: refine_def)
  show ?thesis
    by (rule same_globals_trans [OF efold_globals [OF R(2) refine_wire_globals(2)]
          efold_globals [OF R(1) refine_wire_globals(1)]])
qed (use assms in \<open>simp add: refine_def\<close>)

lemma refine_solutions: "refine calc fresh mt ip S (G, s) = Inr (H, t) \<Longrightarrow> numSolution t = numSolution s"
  by (auto simp: refine_def ebind_Inr split: if_splits)

subsection \<open>One cell\<close>

text \<open>
  A result of a search that started with \<open>r\<close>: no bank found within the limits is better, and it is not worse
  than \<open>r\<close>.
\<close>

definition best_found :: "Result \<Rightarrow> Bank set \<Rightarrow> Result \<Rightarrow> bool" where
  "best_found r B r' \<longleftrightarrow> not_worse r r'
     \<and> (\<forall>b \<in> B. within_limits r b \<longrightarrow> \<not> better (res_optimizationTarget r) b (bank r'))"

lemma best_foundI:
  assumes "optimal r B s" "not_worse s t" shows "best_found r B t"
proof -
  have g: "same_goal s r" using assms(1) by (simp add: optimal_def)
  have "not_worse r s"
    using assms(1) kept.trans [of "res_optimizationTarget r"] by (auto simp: optimal_def not_worse_def)
  then have "not_worse r t" using assms(2) not_worse_trans by blast
  moreover have "\<not> better (res_optimizationTarget r) b (bank t)" if "b \<in> B" "within_limits r b" for b
    using assms that same_goal_target [OF g] by (auto simp: optimal_def not_worse_def)
  ultimately show ?thesis by (simp add: best_found_def)
qed

text \<open>The memory chips that the search takes without changes to the configuration.\<close>

definition plain_memory :: "'a InputParameter_scheme \<Rightarrow> bool" where
  "plain_memory ip \<longleftrightarrow> designTarget ip \<noteq> cache \<and> ip_associativity ip \<le> 1
     \<and> (optimizationTarget ip = full_exploration \<or> \<not> isConstraintApplied ip)"

definition memory_block :: "InputParameter \<Rightarrow> MemCell \<Rightarrow> int \<times> int" where
  "memory_block ip cell =
     (if designTarget ip = RAM_chip \<and> (memCellType cell = SLCNAND \<or> memCellType cell = DRAM)
      then (pageSize ip, 1) else (wordWidth ip, ip_associativity ip))"

lemma memory_parameters:
  "designTarget ip \<noteq> cache \<Longrightarrow> data_parameters ip cell S
     = (ip_capacity ip * 8, fst (memory_block ip cell), snd (memory_block ip cell), S)"
  by (simp add: data_parameters_def memory_block_def Let_def)

text \<open>The wires at the start of a search: constructed, and then those of the ranges.\<close>

definition initial_wires :: "InputParameter \<Rightarrow> Globals \<Rightarrow> Globals \<Rightarrow> bool" where
  "initial_wires ip G G1 \<longleftrightarrow>
     INITIAL_BASIC_WIRE ip (G\<lparr>g_localWire := Wire_new (g_localWire G), g_globalWire := Wire_new (g_globalWire G)\<rparr>) = Inr G1"

lemma initial_wires_globals: "initial_wires ip G G1 \<Longrightarrow> same_globals G1 G"
  unfolding initial_wires_def by (drule INITIAL_BASIC_WIRE_globals) (simp add: same_globals_def)

text \<open>The results and the number of solutions of a search that started with \<open>rs\<close> and found the banks \<open>B\<close>.\<close>

definition found_result :: "Result list \<Rightarrow> Bank set \<Rightarrow> int \<Rightarrow> Result list \<Rightarrow> bool" where
  "found_result rs B n datas \<longleftrightarrow> 0 \<le> n \<and> (n = 0 \<longleftrightarrow> B = {}) \<and> (\<forall>i < 8. best_found (rs ! i) B (datas ! i))"

lemma nvsim_memory:
  assumes "nvsim calc fresh rr c cell idx ip G = Inr (code, datas, tags, n, ip', H)"
    and "plain_memory ip" "search_ok ip G"
  shows "ip' = ip \<and> same_globals H G \<and> code = 0
    \<and> (\<exists>G1. initial_wires ip G G1 \<and> found_result (init_results fresh idx)
          (found_in calc ip G1 (\<lambda>_. True) (ip_capacity ip * 8) (fst (memory_block ip cell))
             (snd (memory_block ip cell))) n datas)"
proof -
  let ?rs = "init_results fresh idx"
  let ?G = "G\<lparr>g_localWire := Wire_new (g_localWire G), g_globalWire := Wire_new (g_globalWire G)\<rparr>"
  let ?blk = "fst (memory_block ip cell)" and ?a = "snd (memory_block ip cell)"
  have t: "designTarget ip \<noteq> cache" using assms(2) by (simp add: plain_memory_def)
  from assms(1) obtain ip1 where ip1: "applyConstraint cell ip = Inr ip1" by (auto simp: nvsim_def)
  have "ip1 = ip" using ip1 assms(2) by (auto simp: applyConstraint_def plain_memory_def Let_def split: if_splits)
  with assms(1) ip1 t obtain s where d: "data_phase calc fresh c cell ip ?G ?rs = Inr (H, s)"
    and e: "datas = bests s" "ip' = ip" "n = numSolution s" "code = 0"
    by (auto simp: nvsim_def Let_def)
  from d assms(2) obtain G1 u where
    p: "data_pass calc fresh ip ?G (\<lambda>_. True) (ip_capacity ip * 8) ?blk ?a (start_tally ?rs) = Inr (G1, u)"
    and r: "refine calc fresh data ip (dataSpace (g_search G)) (G1, u) = Inr (H, s)"
    by (auto simp: data_phase_def constrained_phase_def plain_memory_def memory_parameters)
  obtain ds where ds: "BIGFOR (ip_associativity ip) (stackLayer_range (g_search ?G)) (numRowPerSet_range (g_search ?G))
       (dataSpace (g_search ?G)) = Some ds" and w: "INITIAL_BASIC_WIRE ip ?G = Inr G1"
    and n: "numSolution u = numSolution (start_tally ?rs)
      + int (length (all_found calc ip G1 (\<lambda>_. True) (ip_capacity ip * 8) ?blk ?a ds))"
    by (rule data_pass_log [OF p])
  let ?B = "found_in calc ip G1 (\<lambda>_. True) (ip_capacity ip * 8) ?blk ?a"
  have g: "same_globals G1 G" using INITIAL_BASIC_WIRE_globals [OF w] by (simp add: same_globals_def)
  have o: "search_ok ip ?G" using assms(3) by (simp add: search_ok_def)
  have b: "bests (start_tally ?rs) = ?rs" by (simp add: start_tally_def)
  have "numSolution s = int (length (all_found calc ip G1 (\<lambda>_. True) (ip_capacity ip * 8) ?blk ?a ds))"
    using refine_solutions [OF r] n by (simp add: start_tally_def)
  then have "0 \<le> n" "n = 0 \<longleftrightarrow> ?B = {}"
    using all_found_set [OF o INITIAL_BASIC_WIRE_search [OF w] ds, symmetric] e(3) by auto
  moreover have "length (bests u) = 8" using data_pass_optimal(1) [OF o p, of 0] by (simp add: b)
  then have "length (bests s) = 8 \<and> (\<forall>i < 8. not_worse (bests u ! i) (bests s ! i))"
    using refine_best [OF r] by (metis zero_less_numeral)
  moreover have "optimal (?rs ! i) ?B (bests u ! i)" if "i < 8" for i
    using data_pass_optimal(2) [OF o p, of i] that by (simp add: b)
  ultimately have "found_result ?rs ?B n datas"
    using e(1) best_foundI unfolding found_result_def by blast
  moreover have "initial_wires ip G G1" using w by (simp add: initial_wires_def)
  ultimately show ?thesis
    using e(2,4) same_globals_trans [OF refine_globals [OF r] g] by (intro conjI exI [of _ G1]) simp_all
qed

subsection \<open>All cells\<close>

text \<open>The valid banks of the designs of the search for the cell of a file.\<close>

definition found_by ::
  "evaluator \<Rightarrow> Memory \<Rightarrow> files \<Rightarrow> InputParameter \<Rightarrow> Globals \<Rightarrow> string \<Rightarrow> Bank set \<Rightarrow> bool" where
  "found_by eval mem files ip G file B \<longleftrightarrow>
     (\<exists>c H G1. ReadCellFromFile (fst (g_tech G)) (files file) (MemCell_new (m_cell mem)) = Inr c
        \<and> same_globals H G \<and> initial_wires ip H G1
        \<and> B = (let cell = MemCell_ApplyPVT ip c
               in found_in (eval cell ip) ip G1 (\<lambda>_. True) (ip_capacity ip * 8)
                    (fst (memory_block ip cell)) (snd (memory_block ip cell))))"

lemma found_by_globals: "same_globals H G \<Longrightarrow> found_by eval mem files ip H file B \<Longrightarrow> found_by eval mem files ip G file B"
  unfolding found_by_def same_globals_def by (elim exE conjE, intro exI conjI) simp_all

abbreviation (input) fresh_result :: "Memory \<Rightarrow> Result" where
  "fresh_result mem \<equiv> Result_new (m_bank mem) (m_wire mem) (m_wire mem)"

definition good_run :: "evaluator \<Rightarrow> Memory \<Rightarrow> files \<Rightarrow> InputParameter \<Rightarrow> Globals \<Rightarrow> int \<times> string \<Rightarrow> Run \<Rightarrow> bool" where
  "good_run eval mem files ip G cellFile run \<longleftrightarrow>
     (\<exists>B. found_by eval mem files ip G (snd cellFile) B \<and> run_code run = 0
        \<and> found_result (init_results (fresh_result mem) (fst cellFile)) B (run_solutions run) (run_data run))"

lemma run_cell_memory:
  assumes "run_cell eval mem files name c cellFile (ip, G, runs) = Inr st"
    and "plain_memory ip" "search_ok ip G"
  obtains H run where "st = (ip, H, runs @ [run])" "same_globals H G" "good_run eval mem files ip G cellFile run"
proof -
  from assms(1) obtain r code datas tags n ip' H where
    r: "ReadCellFromFile (fst (g_tech G)) (files (snd cellFile)) (MemCell_new (m_cell mem)) = Inr r"
    and s: "nvsim (eval (MemCell_ApplyPVT ip r) ip) (fresh_result mem) (reread files name c) (cf_constraints c)
        (MemCell_ApplyPVT ip r) (fst cellFile) ip G = Inr (code, datas, tags, n, ip', H)"
    and st: "st = (ip', H, runs @ [\<lparr>run_code = code, run_data = datas, run_tags = tags, run_solutions = n\<rparr>])"
    by (auto simp: run_cell_def Let_def ebind_Inr)
  note N = nvsim_memory [OF s assms(2,3)]
  then obtain G1 where "initial_wires ip G G1" "found_result (init_results (fresh_result mem) (fst cellFile))
      (found_in (eval (MemCell_ApplyPVT ip r) ip) ip G1 (\<lambda>_. True) (ip_capacity ip * 8)
        (fst (memory_block ip (MemCell_ApplyPVT ip r))) (snd (memory_block ip (MemCell_ApplyPVT ip r)))) n datas"
    by blast
  then have "\<exists>B. found_by eval mem files ip G (snd cellFile) B
      \<and> found_result (init_results (fresh_result mem) (fst cellFile)) B n datas"
    using r same_globals_refl [of G] unfolding found_by_def Let_def by blast
  then have "good_run eval mem files ip G cellFile \<lparr>run_code = code, run_data = datas, run_tags = tags, run_solutions = n\<rparr>"
    using N by (simp add: good_run_def)
  then show ?thesis using that st N by blast
qed

lemma run_cells_memory:
  assumes "efold (run_cell eval mem files name c) cs (ip, G, runs) = Inr (ip', H, runs')"
    and "plain_memory ip" "search_ok ip G"
  shows "\<exists>new. runs' = runs @ new \<and> list_all2 (good_run eval mem files ip G) cs new"
  using assms(1,3)
proof (induction cs arbitrary: G runs)
  case (Cons cf cs)
  from Cons.prems(1) obtain st where st: "run_cell eval mem files name c cf (ip, G, runs) = Inr st"
    "efold (run_cell eval mem files name c) cs st = Inr (ip', H, runs')" by (auto simp: ebind_Inr)
  from run_cell_memory [OF st(1) assms(2) Cons.prems(2)] obtain K run where K: "st = (ip, K, runs @ [run])"
    "same_globals K G" "good_run eval mem files ip G cf run" by blast
  have "search_ok ip K" using Cons.prems(2) K(2) by (simp add: search_ok_def same_globals_def)
  from Cons.IH [OF st(2) [unfolded K(1)] this] obtain new where new: "runs' = (runs @ [run]) @ new"
    "list_all2 (good_run eval mem files ip K) cs new" by blast
  have "list_all2 (good_run eval mem files ip G) cs new"
    using new(2) by (rule list_all2_mono) (unfold good_run_def, blast intro: found_by_globals [OF K(2)])
  then show ?case using new(1) K(3) by auto
qed simp

text \<open>What is not better than one of the results is not better than the merged one.\<close>

lemma within_number: "within_limits r b \<Longrightarrow> metric t b \<noteq> Some NaN"
  by (cases t) (auto simp: within_limits_def)

lemma better_total:
  assumes "\<not> better t y m" "better t b m" "metric t y \<noteq> Some NaN" shows "better t b y"
proof -
  from assms(2) obtain x z where m: "metric t b = Some x" "metric t m = Some z" "x < z"
    by (auto simp: better_def split: option.splits)
  then obtain w where w: "metric t y = Some w" by (cases t) auto
  have "z \<noteq> NaN" "w \<noteq> NaN" using m(3) w assms(3) by auto
  moreover have "\<not> w < z" using assms(1) m w by (simp add: better_def)
  ultimately have "z \<le> w" by (simp add: not_dless)
  then show ?thesis using m w dless_dleq_trans by (auto simp: better_def)
qed

lemma init_results_simps:
  assumes "i < 8"
  shows "res_optimizationTarget (init_results fresh idx ! i) = targets ! i"
    "(within_limits (init_results fresh idx ! i) :: Bank \<Rightarrow> bool) = within_limits fresh"
    "bank (init_results fresh idx ! i) = bank fresh"
  by (auto simp: init_results_nth assms within_limits_def)

lemma merge_not_better:
  assumes "i < 8" "best_found (init_results fresh 0 ! i) B0 d" "best_found (init_results fresh k ! i) B d'"
    and "d' \<in> set ds" "b \<in> B" "within_limits fresh b"
  shows "\<not> better (targets ! i) b (fold (keep (better (targets ! i)) (within_limits fresh)) (map bank ds) (bank d))"
proof
  note I = init_results_simps [OF assms(1), of fresh]
  let ?t = "targets ! i" let ?m = "fold (keep (better ?t) (within_limits fresh)) (map bank ds) (bank d)"
  assume m: "better ?t b ?m"
  have b: "\<not> better ?t b (bank d')" using assms(3,5,6) I by (simp add: best_found_def)
  have "bank d' = bank fresh \<or> within_limits fresh (bank d')"
    using assms(3) I by (simp add: best_found_def not_worse_def)
  then show False
  proof
    assume "bank d' = bank fresh"
    moreover have "better ?t b (bank d)" using kept.fold_mono [OF m] .
    then have "better ?t b (bank fresh)" using assms(2) I by (auto simp: best_found_def not_worse_def)
    ultimately show False using b by simp
  next
    assume w: "within_limits fresh (bank d')"
    then have "\<not> better ?t (bank d') ?m"
      using kept.fold_best [of "bank d'" "map bank ds" fresh ?t "bank d"] assms(4) by simp
    then show False using better_total [OF _ m within_number [OF w]] b by blast
  qed
qed

lemma merged_data:
  assumes "same_goal (run_data r ! i) (init_results fresh 0 ! i)" "i < 8"
  shows "bank (fst (merged different (r # runs) i))
    = fold (keep (better (targets ! i)) (within_limits fresh)) (map bank (map (\<lambda>r. run_data r ! i) runs)) (bank (run_data r ! i))"
proof -
  have z: "map (\<lambda>n. bank (fst (snd n))) (zip xs (map (\<lambda>r. (run_data r ! i, run_tags r ! i)) runs))
      = map bank (map (\<lambda>r. run_data r ! i) runs)" if "length xs = length runs" for xs :: "int list"
    using that by (intro nth_equalityI) simp_all
  have "map (\<lambda>n. bank (fst (snd n))) (zip (map int [1..<length (r # runs)]) (map (\<lambda>r. (run_data r ! i, run_tags r ! i)) runs))
      = map bank (map (\<lambda>r. run_data r ! i) runs)" by (rule z) (simp del: upt_Suc)
  moreover have "(within_limits (run_data r ! i) :: Bank \<Rightarrow> bool) = within_limits fresh"
    "res_optimizationTarget (run_data r ! i) = targets ! i"
    by (simp_all add: same_goal_within [OF assms(1)] same_goal_target [OF assms(1)] init_results_simps [OF assms(2)])
  ultimately show ?thesis
    unfolding merged_def Let_def merge_cells_data list.sel fst_conv by (simp only:)
qed

text \<open>The runs of the program, for a memory chip without constraints: one for each cell, in their order.\<close>

lemma run_cells_good:
  assumes "run_cells eval mem files name = Inr (c, runs)"
    and "plain_memory c" "space_ok (ip_associativity c) (stackLayer_range (cf_search c))
           (numRowPerSet_range (cf_search c)) (dataSpace (cf_search c))"
  obtains G where "main_technology (configured c) (m_tech mem) (m_high mem) = Inr (g_tech G)"
    "g_search G = cf_search c" "length runs = length (fileMemCell c)"
    "\<forall>k < length runs. good_run eval mem files (InputParameter.truncate c) G (int k, fileMemCell c ! k) (runs ! k)"
proof -
  let ?ip = "InputParameter.truncate c"
  from assms(1) obtain TP ip' H where TP: "main_technology (configured c) (m_tech mem) (m_high mem) = Inr TP"
    and e: "efold (run_cell eval mem files name c) (cell_files c)
      (?ip, \<lparr>g_localWire = m_wire mem, g_globalWire = m_wire mem, g_tech = TP, g_search = cf_search c\<rparr>, []) = Inr (ip', H, runs)"
    by (auto simp: run_cells_def Let_def ebind_Inr)
  let ?G = "\<lparr>g_localWire = m_wire mem, g_globalWire = m_wire mem, g_tech = TP, g_search = cf_search c\<rparr>"
  have "plain_memory ?ip" "search_ok ?ip ?G"
    using assms(2,3) by (simp_all add: plain_memory_def search_ok_def InputParameter.truncate_def)
  from run_cells_memory [OF e this] have g: "list_all2 (good_run eval mem files ?ip ?G) (cell_files c) runs" by simp
  then have n: "length runs = length (fileMemCell c)"
    using list_all2_lengthD [OF g] by (simp add: cell_files_def)
  have "good_run eval mem files ?ip ?G (int k, fileMemCell c ! k) (runs ! k)" if "k < length runs" for k
    using list_all2_nthD2 [OF g that] n that by (simp add: cell_files_def)
  then show ?thesis using that [of ?G] TP n by simp
qed

text \<open>What the runs are for the banks \<open>Bs\<close> of the searches, one set for each cell.\<close>

definition runs_of :: "Memory \<Rightarrow> Bank set list \<Rightarrow> Run list \<Rightarrow> bool" where
  "runs_of mem Bs runs \<longleftrightarrow> length runs = length Bs \<and> (\<forall>k < length runs. run_code (runs ! k) = 0
     \<and> found_result (init_results (fresh_result mem) (int k)) (Bs ! k) (run_solutions (runs ! k)) (run_data (runs ! k)))"

lemma main_program_runs:
  assumes "read_configuration files name (m_config mem) = Inr c" "main_program eval mem files name = Inr out"
    and "plain_memory c" "space_ok (ip_associativity c) (stackLayer_range (cf_search c))
           (numRowPerSet_range (cf_search c)) (dataSpace (cf_search c))"
  obtains G Bs runs where "main_technology (configured c) (m_tech mem) (m_high mem) = Inr (g_tech G)"
    "g_search G = cf_search c" "list_all2 (found_by eval mem files (InputParameter.truncate c) G) (fileMemCell c) Bs"
    "runs_of mem Bs runs" "out = report c runs"
proof -
  let ?ip = "InputParameter.truncate c"
  from assms(2) obtain c' runs where r: "run_cells eval mem files name = Inr (c', runs)" and out: "out = report c' runs"
    by (auto simp: main_program_def ebind_Inr)
  from r assms(1) have c': "c' = c" by (auto simp: run_cells_def Let_def ebind_Inr)
  obtain G where G: "main_technology (configured c) (m_tech mem) (m_high mem) = Inr (g_tech G)" "g_search G = cf_search c"
    "length runs = length (fileMemCell c)"
    "\<forall>k < length runs. good_run eval mem files ?ip G (int k, fileMemCell c ! k) (runs ! k)"
    by (rule run_cells_good [OF r [unfolded c'] assms(3,4)])
  from G(4) obtain f where f: "\<And>k. k < length runs \<Longrightarrow> found_by eval mem files ?ip G (fileMemCell c ! k) (f k)
      \<and> run_code (runs ! k) = 0 \<and> found_result (init_results (fresh_result mem) (int k)) (f k)
          (run_solutions (runs ! k)) (run_data (runs ! k))"
    unfolding good_run_def fst_conv snd_conv by metis
  let ?Bs = "map f [0..<length runs]"
  have "list_all2 (found_by eval mem files ?ip G) (fileMemCell c) ?Bs"
    using f G(3) by (simp add: list_all2_conv_all_nth)
  moreover have "runs_of mem ?Bs runs" using f by (simp add: runs_of_def)
  ultimately show ?thesis using that [of G ?Bs runs] G(1,2) out c' by simp
qed

text \<open>No valid bank of any design for any of the cells is better than the one that the merged result has.\<close>

lemma runs_optimal:
  assumes "runs_of mem Bs runs" "B \<in> set Bs" "b \<in> B" "within_limits (fresh_result mem) b" "i < 8"
  shows "\<not> better (targets ! i) b (bank (fst (merged different runs i)))"
proof -
  let ?fresh = "fresh_result mem"
  have found: "best_found (init_results ?fresh (int k) ! i) (Bs ! k) (run_data (runs ! k) ! i)" if "k < length runs" for k
    using that assms(1,5) by (simp add: runs_of_def found_result_def)
  from assms(1,2) obtain k where k: "k < length runs" "B = Bs ! k" by (auto simp: in_set_conv_nth runs_of_def)
  from k obtain r rs where runs: "runs = r # rs" by (cases runs) auto
  have B0: "best_found (init_results ?fresh 0 ! i) (Bs ! 0) (run_data r ! i)" using found [of 0] by (simp add: runs)
  then have s: "same_goal (run_data r ! i) (init_results ?fresh 0 ! i)" by (simp add: best_found_def not_worse_def)
  show ?thesis
  proof (cases k)
    case 0
    then have "\<not> better (targets ! i) b (bank (run_data r ! i))"
      using found [OF k(1)] k(2) assms(3,4) init_results_simps [OF assms(5), of ?fresh]
      by (simp add: best_found_def runs)
    then show ?thesis unfolding runs merged_data [OF s assms(5)] using kept.fold_mono by blast
  next
    case (Suc j)
    then have "run_data (runs ! k) ! i \<in> set (map (\<lambda>r. run_data r ! i) rs)"
      using k(1) by (simp add: runs)
    from merge_not_better [OF assms(5) B0 found [OF k(1)] this _ assms(4)] assms(3) k(2) show ?thesis
      unfolding runs merged_data [OF s assms(5)] by blast
  qed
qed

text \<open>There are solutions exactly when the search for one of the cells found a bank.\<close>

lemma runs_solutions:
  assumes "runs_of mem Bs runs"
  shows "total_solutions runs \<le> 0 \<longleftrightarrow> (\<forall>B \<in> set Bs. B = {})"
proof -
  have good: "run_code (runs ! k) = 0" "0 \<le> run_solutions (runs ! k)" "run_solutions (runs ! k) = 0 \<longleftrightarrow> Bs ! k = {}"
    if "k < length runs" for k
    using assms that by (auto simp: runs_of_def found_result_def)
  have "filter (\<lambda>r. run_code r = 0) runs = runs"
    using good(1) by (auto simp: filter_id_conv in_set_conv_nth)
  then have t: "total_solutions runs = sum_list (map run_solutions runs)" by (simp add: total_solutions_def)
  have nn: "0 \<le> x" if "x \<in> set (map run_solutions runs)" for x
    using that good(2) by (auto simp: in_set_conv_nth)
  have "total_solutions runs \<le> 0 \<longleftrightarrow> (\<forall>x \<in> set (map run_solutions runs). x = 0)"
    using sum_list_nonneg_eq_0_iff [of "map run_solutions runs"] sum_list_nonneg [of "map run_solutions runs"] nn
    by (auto simp: t)
  then show ?thesis using good(3) assms by (simp add: runs_of_def all_set_conv_all_nth)
qed

text \<open>What the program reports.\<close>

lemma target_nth:
  "t \<noteq> full_exploration \<Longrightarrow> nat (int_of_OptimizationTarget t) < 8 \<and> targets ! nat (int_of_OptimizationTarget t) = t"
  by (cases t) (simp_all add: targets_def)

lemma report_design:
  assumes "report c runs = Designs [best]" "\<not> printAllOptimals c"
  obtains i where "i < 8" "targets ! i = optimizationTarget c" "best = merged (allowDifferentTagTech c) runs i"
proof -
  have "optimizationTarget c \<noteq> full_exploration" "best = merged (allowDifferentTagTech c) runs
      (nat (int_of_OptimizationTarget (optimizationTarget c)))"
    using assms by (auto simp: report_def split: if_splits)
  then show ?thesis using that target_nth by blast
qed

lemma report_none:
  "optimizationTarget c \<noteq> full_exploration \<Longrightarrow> report c runs = No_solutions \<longleftrightarrow> total_solutions runs \<le> 0"
  by (simp add: report_def)

end
