(* ===== verification/SampleProgram.thy ===== *)
theory SampleProgram
  imports Program Sample ReadBack
begin

text \<open>
  A run of the whole program, used to exhibit instances of the theorems: a memory of 2 MB on two dies, with
  the cell of \<open>config/eDRAM.cell\<close>, wires without repeaters and an evaluation that always gives the same
  figures.
\<close>

subsection \<open>A search that returns\<close>

lemma plain_wires:
  assumes "plain_space (dataSpace (g_search G))"
  shows "\<exists>H. INITIAL_BASIC_WIRE ip G = Inr H \<and> wireRepeaterType (g_localWire H) = repeated_none
      \<and> wireRepeaterType (g_globalWire H) = repeated_none"
proof -
  let ?S = "dataSpace (g_search G)" and ?w = "init_wire (fst (g_tech G)) ip"
  define pick where "pick r d = (if fst r = snd r then fst r else d)" for r and d :: int
  note P = assms [unfolded plain_space_def]
  have "0 \<le> pick (localWireType_range ?S) 0" "pick (localWireType_range ?S) 0 < 7"
    "0 \<le> pick (globalWireType_range ?S) 4" "pick (globalWireType_range ?S) 4 < 7"
    using P by (auto simp: pick_def)
  note w = init_wire_plain [OF this(1,2)] init_wire_plain [OF this(3,4)]
  obtain lw where lw: "?w (pick (localWireType_range ?S) 0, 0, pick (isLocalWireLowSwing_range ?S) 0) (g_localWire G) = Inr lw"
    "wireRepeaterType lw = repeated_none" using w(1) by blast
  obtain gw where gw: "?w (pick (globalWireType_range ?S) 4, 0, pick (isGlobalWireLowSwing_range ?S) 0) (g_globalWire G) = Inr gw"
    "wireRepeaterType gw = repeated_none" using w(2) by blast
  show ?thesis
    using lw gw P by (intro exI [of _ "G\<lparr>g_localWire := lw, g_globalWire := gw\<rparr>"])
      (simp add: INITIAL_BASIC_WIRE_def Let_def pick_def)
qed

lemma nvsim_returns:
  assumes "plain_memory ip" "applyConstraint cell ip = Inr ip" "search_ok ip G"
    and "active_bound (dataSpace (g_search G)) < 2147483648" "plain_space (dataSpace (g_search G))"
    and "returns calc"
    and "\<And>G' d. legal (ip_associativity ip) (stackLayer_range (g_search G)) (numRowPerSet_range (g_search G))
                    (dataSpace (g_search G)) d
           \<Longrightarrow> calc_ok calc ip G' (ip_capacity ip * 8) (fst (memory_block ip cell)) (snd (memory_block ip cell)) d"
    and "wireRepeaterType (res_localWire fresh) = repeated_none" "wireRepeaterType (res_globalWire fresh) = repeated_none"
  shows "\<exists>r. nvsim calc fresh rr c cell idx ip G = Inr r"
proof -
  let ?rs = "init_results fresh idx"
  let ?G = "G\<lparr>g_localWire := Wire_new (g_localWire G), g_globalWire := Wire_new (g_globalWire G)\<rparr>"
  let ?cap = "ip_capacity ip * 8" and ?blk = "fst (memory_block ip cell)" and ?a = "snd (memory_block ip cell)"
  have t: "designTarget ip \<noteq> cache" using assms(1) by (simp add: plain_memory_def)
  have o: "search_ok ip ?G" "active_bound (dataSpace (g_search ?G)) < 2147483648" "plain_space (dataSpace (g_search ?G))"
    using assms(3-5) by (simp_all add: search_ok_def)
  obtain H where H: "INITIAL_BASIC_WIRE ip ?G = Inr H" "wireRepeaterType (g_localWire H) = repeated_none"
    "wireRepeaterType (g_globalWire H) = repeated_none" using plain_wires [OF o(3)] by blast
  obtain u where p: "data_pass calc fresh ip ?G (\<lambda>_. True) ?cap ?blk ?a (start_tally ?rs) = Inr (H, u)"
    using data_pass_returns [OF o(1,2) H(1), of calc ?cap ?blk ?a] assms(7) by (simp del: split_paired_Ex) blast
  from data_pass_log [OF p] obtain bs where bs: "bests u = fold UPDATE_BEST (map (temp_result fresh H) bs) (bests (start_tally ?rs))"
    by metis
  have "wireRepeaterType (res_localWire r) = repeated_none \<and> wireRepeaterType (res_globalWire r) = repeated_none"
    if "r \<in> set ?rs" for r using that assms(8,9) by (auto simp: init_results_def)
  then have "plain_state (H, bests u)"
    using plain_compare_all [OF H(2,3)] H(2,3) by (auto simp: plain_state_def bs fold_UPDATE_BEST start_tally_def)
  from refine_returns [OF assms(6,5) this] obtain K v where
    r: "refine calc fresh data ip (dataSpace (g_search G)) (H, u) = Inr (K, v)" by blast
  have "data_phase calc fresh c cell ip ?G ?rs = Inr (K, v)"
    using p r assms(1) t by (auto simp: data_phase_def memory_parameters constrained_phase_def plain_memory_def)
  then show ?thesis using t by (simp add: nvsim_def assms(2) Let_def)
qed

subsection \<open>The files\<close>

definition program_settings :: Settings where
  "program_settings = sample_settings\<lparr>s_subarrays := (2, 2, 1, 2)\<rparr>"

definition program_lines :: "string list" where
  "program_lines = settings_lines program_settings
     @ [''-LocalWireRepeaterType: RepeatedNone'', ''-GlobalWireRepeaterType: RepeatedNone'',
        ''-MemoryCellInputFile: eDRAM.cell'']"

definition program_files :: files where
  "program_files name =
     (if name = ''memory.cfg'' then Some (text_of program_lines)
      else if name = ''eDRAM.cell'' then Some (text_with edram_file) else None)"

definition program_memory :: "Configuration \<Rightarrow> Memory" where
  "program_memory raw = \<lparr>m_config = raw, m_tech = (sample_tech, sample_params), m_high = (sample_tech, sample_params),
     m_cell = sample_cell, m_wire = sample_wire, m_bank = sample_bank\<rparr>"

definition program_evaluator :: evaluator where
  "program_evaluator cell ip G a = (let d = ba_design a in Inr (sample_bank\<lparr>
     bank_numRowMat := numRowMat d, mat_subarray_numRow := ba_capacity a div (numRowMat d * stackedDieCount d)\<rparr>))"

text \<open>The configuration that is read.\<close>

definition program_configuration :: "Configuration \<Rightarrow> Configuration" where
  "program_configuration raw =
     (let c = Configuration_new raw;
          c = with_settings program_settings (c\<lparr>cf_search := RESTORE_SEARCH_SIZE 1 (cf_search c)\<rparr>);
          S = cf_search c
      in c\<lparr>cf_search := S\<lparr>dataSpace := (dataSpace S)\<lparr>localWireRepeaterType_range := (0, 0),
               globalWireRepeaterType_range := (0, 0)\<rparr>\<rparr>,
           fileMemCell := [''eDRAM.cell'']\<rparr>)"

lemma wire_lines:
  "run_options config_options ''-LocalWireRepeaterType: RepeatedNone'' st = Inr (Some ''RepeatedNone'',
     data_space (localWireRepeaterType_range_update (\<lambda>_. (0, 0))) (snd st))"
  "run_options config_options ''-GlobalWireRepeaterType: RepeatedNone'' st = Inr (Some ''RepeatedNone'',
     data_space (globalWireRepeaterType_range_update (\<lambda>_. (0, 0))) (snd st))"
  "run_options config_options ''-MemoryCellInputFile: eDRAM.cell'' st = Inr (Some ''eDRAM.cell'',
     fileMemCell_update (\<lambda>fs. fs @ [''eDRAM.cell'']) (snd st))"
  by (simp_all add: option_simps fixed_def repeater_named_def)

lemma program_settings_ok: "settings_ok program_settings"
  by (simp add: settings_ok_def program_settings_def sample_settings_def int_ok_def)

lemma program_lines_ok: "\<forall>l \<in> set program_lines. line_ok l"
proof -
  have "list_all line_ok [''-LocalWireRepeaterType: RepeatedNone'', ''-GlobalWireRepeaterType: RepeatedNone'',
        ''-MemoryCellInputFile: eDRAM.cell'']" by (simp add: line_ok_def newline_def is_space_def)
  then show ?thesis using settings_lines_ok [OF program_settings_ok] by (auto simp: program_lines_def)
qed

lemma program_read:
  "read_configuration program_files ''memory.cfg'' raw = Inr (program_configuration raw)"
proof -
  have "fileMemCell (Configuration_new raw) = []" "ip_associativity (Configuration_new raw) = 1"
    by (simp_all add: Configuration_new_def)
  then show ?thesis
    using read_lines_text [OF program_lines_ok]
    by (simp add: read_configuration_def ReadInputParameterFromFile_def read_file_def program_files_def Let_def)
       (simp only: program_lines_def efold_append run_settings [OF program_settings_ok] efold.simps ebind_simps
          wire_lines snd_conv, simp add: program_configuration_def data_space_def with_settings_def Let_def)
qed

subsection \<open>The run\<close>

lemma program_configuration_simps:
  fixes raw defines "c \<equiv> program_configuration raw"
  shows "designTarget c = RAM_chip" "ip_associativity c = 1" "processNode c = 32" "ip_deviceRoadmap c = LOP"
    "optimizationTarget c = read_latency_optimized" "isConstraintApplied c = False" "routingMode c = h_tree"
    "internalSensing c = True" "ip_capacity c = 2097152" "wordWidth c = 512" "fileMemCell c = [''eDRAM.cell'']"
    "localTsvProjection c = 1" "globalTsvProjection c = 1" "pageSize c = 0" "printAllOptimals c = False"
  by (simp_all add: c_def program_configuration_def with_settings_def program_settings_def sample_settings_def
      Configuration_new_def Let_def)

lemma program_space:
  fixes raw defines "S \<equiv> cf_search (program_configuration raw)"
  shows "stackLayer_range S = (2, 2)" "numRowPerSet_range S = (1, 1)" "numRowMat_range (dataSpace S) = (4, 4)"
    "plain_space (dataSpace S)" "active_bound (dataSpace S) < 2147483648" "space_ok 1 (2, 2) (1, 1) (dataSpace S)"
  by (simp_all add: S_def program_configuration_def with_settings_def program_settings_def sample_settings_def
      RESTORE_SEARCH_SIZE_def set_rows_def set_mats_def set_subarrays_def Let_def plain_space_def active_bound_def
      space_ok_def range_ok_def)

lemma doubles_same: "doubles (n, n) \<subseteq> {n}" if "0 < n"
proof
  fix y assume "y \<in> doubles (n, n)"
  then obtain k where "y = n * 2 ^ k" "n * 2 ^ k \<le> n" by (auto simp: doubles_def)
  moreover have "(1::int) \<le> 2 ^ k" by simp
  ultimately show "y \<in> {n}" using that mult_left_mono [of 1 "2 ^ k" n] by simp
qed

lemma program_calc_ok:
  assumes "legal 1 (2, 2) (1, 1) (dataSpace (cf_search (program_configuration raw))) d"
  shows "calc_ok (program_evaluator cell ip) ip' G (8 * 2097152) blk assoc d"
proof -
  have "numRowMat d = 4" "stackedDieCount d = 2"
    using legalD(1,3) [OF assms] doubles_same [of 4] doubles_same [of 2] by (auto simp: program_space)
  then show ?thesis
    by (simp add: calc_ok_def program_evaluator_def data_args_def bank_bits_def sample_bank_def Let_def)
qed

lemma program_runs:
  "\<exists>runs. run_cells program_evaluator (program_memory raw) program_files ''memory.cfg''
      = Inr (program_configuration raw, runs)"
proof -
  let ?c = "program_configuration raw" and ?ip = "InputParameter.truncate (program_configuration raw)"
  note C = program_configuration_simps [of raw]
  have a: "arrays sample_tech"
    using tech_ok_tables [OF env_okD(1) [OF env_ok_sample]] by (simp add: arrays_def table_ok_def)
  have p: "projections_ok (configured ?c)" and n: "processNode (configured ?c) = 32"
    using C by (simp_all add: projections_ok_def configured_def InputParameter.truncate_def)
  have n': "22 \<le> processNode (configured ?c)"
    "processNode (configured ?c) \<le> 180 \<or> processNode (configured ?c) = 200"
    "processNode (configured ?c) \<le> 90 \<or> ip_deviceRoadmap (configured ?c) \<noteq> EDRAM" by (simp_all add: n)
  have a': "arrays (fst (sample_tech, sample_params))" using a by simp
  obtain T P where "main_technology (configured ?c) (sample_tech, sample_params) (sample_tech, sample_params) = Inr (T, P)"
    by (rule main_technology_ok [OF n' a' a' p])
  then obtain TP where TP: "main_technology (configured ?c) (sample_tech, sample_params) (sample_tech, sample_params) = Inr TP"
    by blast
  let ?G = "\<lparr>g_localWire = sample_wire, g_globalWire = sample_wire, g_tech = TP, g_search = cf_search ?c\<rparr>"
  define cell where "cell = edram_cell (fst TP) (MemCell_new sample_cell)"
  let ?fresh = "Result_new sample_bank sample_wire sample_wire"
  have r: "ReadCellFromFile (fst TP) (program_files ''eDRAM.cell'') (MemCell_new sample_cell) = Inr cell"
    using read_edram by (simp add: program_files_def cell_def)
  have pvt: "MemCell_ApplyPVT ?ip cell = cell"
    by (simp add: MemCell_ApplyPVT_def cell_def edram_cell_def MemCell_new_def)
  have e: "memCellType cell = eDRAM" by (simp add: cell_def edram_cell_def)
  have block: "memory_block ?ip cell = (512, 1)"
    using C e by (simp add: memory_block_def InputParameter.truncate_def)
  have "\<exists>r. nvsim (program_evaluator cell ?ip) ?fresh (reread program_files ''memory.cfg'' ?c) (cf_constraints ?c)
      cell 0 ?ip ?G = Inr r"
  proof (rule nvsim_returns)
    show "plain_memory ?ip" using C by (simp add: plain_memory_def InputParameter.truncate_def)
    show "applyConstraint cell ?ip = Inr ?ip"
      using C e by (simp add: applyConstraint_def InputParameter.truncate_def)
    show "search_ok ?ip ?G" using C program_space [of raw] by (simp add: search_ok_def InputParameter.truncate_def)
    show "returns (program_evaluator cell ?ip)" by (simp add: returns_def program_evaluator_def Let_def)
    show "active_bound (dataSpace (g_search ?G)) < 2147483648" "plain_space (dataSpace (g_search ?G))"
      using program_space by simp_all
    show "wireRepeaterType (res_localWire ?fresh) = repeated_none" "wireRepeaterType (res_globalWire ?fresh) = repeated_none"
      using sample_results_plain by (simp_all add: Result_new_def Wire_new_def sample_wire_def)
    fix G' d
    assume "legal (ip_associativity ?ip) (stackLayer_range (g_search ?G)) (numRowPerSet_range (g_search ?G))
      (dataSpace (g_search ?G)) d"
    then show "calc_ok (program_evaluator cell ?ip) ?ip G' (ip_capacity ?ip * 8) (fst (memory_block ?ip cell))
        (snd (memory_block ?ip cell)) d"
      using program_calc_ok [of raw d] C program_space [of raw] by (simp add: InputParameter.truncate_def mult.commute)
  qed
  then obtain code datas tags n ip' H where "nvsim (program_evaluator cell ?ip) ?fresh
      (reread program_files ''memory.cfg'' ?c) (cf_constraints ?c) cell 0 ?ip ?G = Inr (code, datas, tags, n, ip', H)"
    by (metis prod_cases6)
  then show ?thesis
    using C program_read [of raw] TP r pvt
    by (simp add: run_cells_def run_cell_def cell_files_def program_memory_def Let_def)
qed

text \<open>The run finds a bank.\<close>

definition program_design :: Design where
  "program_design = \<lparr>numRowMat = 4, numColumnMat = 4, stackedDieCount = 2, numActiveMatPerRow = 4,
     numActiveMatPerColumn = 1, numRowSubarray = 2, numColumnSubarray = 2, numActiveSubarrayPerRow = 2,
     numActiveSubarrayPerColumn = 1, muxSenseAmp = 1, muxOutputLev1 = 1, muxOutputLev2 = 1, numRowPerSet = 1,
     areaOptimizationLevel = 0\<rparr>"

lemma doubles_start: "fst r \<le> snd r \<Longrightarrow> fst r \<in> doubles r"
  unfolding doubles_def by (auto intro: exI [of _ 0])

lemma program_design_legal:
  "legal 1 (2, 2) (1, 1) (dataSpace (cf_search (program_configuration raw))) program_design"
proof -
  have same: "n \<in> doubles (n, n)" for n :: int using doubles_start [of "(n, n)"] by simp
  have more: "1 \<in> doubles (1, n)" if "1 \<le> n" for n :: int using doubles_start [of "(1, n)"] that by simp
  show ?thesis
    by (simp add: legal_def program_design_def program_configuration_def with_settings_def program_settings_def
        sample_settings_def RESTORE_SEARCH_SIZE_def set_rows_def set_mats_def set_subarrays_def Let_def capped_def same more)
qed

lemma program_found:
  assumes "found_by program_evaluator (program_memory raw) program_files
      (InputParameter.truncate (program_configuration raw)) G ''eDRAM.cell'' B"
    and "g_search G = cf_search (program_configuration raw)"
  shows "B \<noteq> {}"
proof -
  let ?ip = "InputParameter.truncate (program_configuration raw)"
  note C = program_configuration_simps [of raw]
  from assms(1) obtain c H G1 where r: "ReadCellFromFile (fst (g_tech G)) (program_files ''eDRAM.cell'') (MemCell_new sample_cell) = Inr c"
    and H: "same_globals H G" "initial_wires ?ip H G1"
    and B: "B = found_in (program_evaluator (MemCell_ApplyPVT ?ip c) ?ip) ?ip G1 (\<lambda>_. True) (ip_capacity ?ip * 8)
        (fst (memory_block ?ip (MemCell_ApplyPVT ?ip c))) (snd (memory_block ?ip (MemCell_ApplyPVT ?ip c)))"
    by (auto simp: found_by_def Let_def program_memory_def)
  have "c = edram_cell (fst (g_tech G)) (MemCell_new sample_cell)"
    using r read_edram by (simp add: program_files_def)
  then have "memCellType (MemCell_ApplyPVT ?ip c) = eDRAM"
    by (simp add: MemCell_ApplyPVT_def edram_cell_def MemCell_new_def)
  then have block: "memory_block ?ip (MemCell_ApplyPVT ?ip c) = (512, 1)"
    using C by (simp add: memory_block_def InputParameter.truncate_def)
  have G1: "g_search G1 = cf_search (program_configuration raw)"
    using initial_wires_globals [OF H(2)] H(1) assms(2) by (simp add: same_globals_def)
  have ip: "ip_associativity ?ip = 1" "ip_capacity ?ip = 2097152" using C by (simp_all add: InputParameter.truncate_def)
  have "found (program_evaluator (MemCell_ApplyPVT ?ip c) ?ip) ?ip G1 (\<lambda>_. True) (ip_capacity ?ip * 8) 512 1 program_design \<noteq> []"
    by (simp add: found_def evaluated_def program_design_def active_subarrays_def imul_def int_ok_def
        program_evaluator_def data_args_def Let_def sample_bank_def)
  then show ?thesis
    using program_design_legal [of raw] program_space [of raw] G1 unfolding B block found_in_def ip fst_conv snd_conv
    by (fastforce simp: neq_Nil_conv)
qed

lemma program_outcome:
  "\<exists>best. main_program program_evaluator (program_memory raw) program_files ''memory.cfg'' = Inr (Designs [best])"
proof -
  let ?c = "program_configuration raw" and ?mem = "program_memory raw"
  note C = program_configuration_simps [of raw] and S = program_space [of raw]
  obtain runs where "run_cells program_evaluator ?mem program_files ''memory.cfg'' = Inr (?c, runs)"
    using program_runs by blast
  then have m: "main_program program_evaluator ?mem program_files ''memory.cfg'' = Inr (report ?c runs)"
    by (simp add: main_program_def)
  have "read_configuration program_files ''memory.cfg'' (m_config ?mem) = Inr ?c"
    by (simp add: program_memory_def program_read)
  moreover have "plain_memory ?c" using C by (simp add: plain_memory_def)
  moreover have "space_ok (ip_associativity ?c) (stackLayer_range (cf_search ?c)) (numRowPerSet_range (cf_search ?c))
      (dataSpace (cf_search ?c))" using C S by simp
  ultimately obtain G Bs runs' where G: "g_search G = cf_search ?c"
    and Bs: "list_all2 (found_by program_evaluator ?mem program_files (InputParameter.truncate ?c) G) (fileMemCell ?c) Bs"
    and r: "runs_of ?mem Bs runs'" "report ?c runs = report ?c runs'"
    by (rule main_program_runs [OF _ m])
  from Bs C obtain B where B: "Bs = [B]" "B \<noteq> {}"
    using program_found [OF _ G] by (auto simp: list_all2_Cons1)
  then have "\<not> total_solutions runs' \<le> 0" using runs_solutions [OF r(1)] by simp
  then show ?thesis using m r(2) C by (simp add: report_def)
qed

end
