(* ===== verification/Report.thy ===== *)
theory Report
  imports BankParts Explore
begin

text \<open>
  The reports (\<open>Result.cpp\<close>): the figures of a cache, which combine those of its data and tag arrays, the
  summary on the console and the lines of the file of the full exploration.  The mat of the bank of a
  result is an argument, since the record of a result does not keep it.
\<close>

subsection \<open>What a line consists of\<close>

text \<open>
  The cells of a line.  A figure that is scaled to a unit shows the number and the unit; a comma at the end
  of a line starts one more cell, which is empty.
\<close>

datatype field = Text string | Count int | Figure dbl | Scaled dbl string

text \<open>A power, \<open>TO_WATT\<close>, in the unit that fits it.\<close>

definition TO_WATT :: "dbl \<Rightarrow> field" where
  "TO_WATT x =
     (if x < lit 1 (- 9) then Scaled (x * lit 1 12) ''pW''
      else if x < lit 1 (- 6) then Scaled (x * lit 1 9) ''nW''
      else if x < lit 1 (- 3) then Scaled (x * lit 1 6) ''uW''
      else if x < 1 then Scaled (x * lit 1 3) ''mW''
      else Scaled x ''W'')"

subsection \<open>Names\<close>

fun roadmapToStr :: "DeviceRoadmap \<Rightarrow> string" where
  "roadmapToStr HP = ''HP''"
| "roadmapToStr LSTP = ''LSTP''"
| "roadmapToStr LOP = ''LOP''"
| "roadmapToStr EDRAM = ''EDRAM''"

fun cellTypeToStr :: "MemCellType \<Rightarrow> string" where
  "cellTypeToStr SRAM = ''SRAM''"
| "cellTypeToStr eDRAM = ''eDRAM''"
| "cellTypeToStr memristor = ''RRAM''"
| "cellTypeToStr MRAM = ''MRAM''"
| "cellTypeToStr PCRAM = ''PCRAM''"
| "cellTypeToStr FBRAM = ''FBRAM''"
| "cellTypeToStr SLCNAND = ''SLCNAND''"
| "cellTypeToStr _ = ''Other''"

fun printOptimizationTarget :: "OptimizationTarget \<Rightarrow> string" where
  "printOptimizationTarget read_latency_optimized = ''Read Latency''"
| "printOptimizationTarget write_latency_optimized = ''Write Latency''"
| "printOptimizationTarget read_energy_optimized = ''Read Energy''"
| "printOptimizationTarget write_energy_optimized = ''Write Energy''"
| "printOptimizationTarget read_edp_optimized = ''Read Energy-Delay-Product''"
| "printOptimizationTarget write_edp_optimized = ''Write Energy-Delay-Product''"
| "printOptimizationTarget area_optimized = ''Area''"
| "printOptimizationTarget leakage_optimized = ''Leakage''"
| "printOptimizationTarget full_exploration = ''''"

fun wire_text :: "WireType \<Rightarrow> string" where
  "wire_text local_aggressive = ''Local Aggressive''"
| "wire_text local_conservative = ''Local Conservative''"
| "wire_text semi_aggressive = ''Semi-Global Aggressive''"
| "wire_text semi_conservative = ''Semi-Global Conservative''"
| "wire_text global_aggressive = ''Global Aggressive''"
| "wire_text global_conservative = ''Global Conservative''"
| "wire_text dram_wordline = ''DRAM Wire''"

fun repeater_text :: "WireRepeaterType \<Rightarrow> string" where
  "repeater_text repeated_none = ''No Repeaters''"
| "repeater_text repeated_opt = ''Fully-Optimized Repeaters''"
| "repeater_text repeated_5 = ''Repeaters with 5% Overhead''"
| "repeater_text repeated_10 = ''Repeaters with 10% Overhead''"
| "repeater_text repeated_20 = ''Repeaters with 20% Overhead''"
| "repeater_text repeated_30 = ''Repeaters with 30% Overhead''"
| "repeater_text repeated_40 = ''Repeaters with 40% Overhead''"
| "repeater_text repeated_50 = ''Repeaters with 50% Overhead''"

definition level_text :: "int \<Rightarrow> string" where
  "level_text n = (if n = 0 then ''Latency-Optimized'' else if n = 2 then ''Area-Optimized'' else ''Balanced'')"

definition yes_no :: "bool \<Rightarrow> string" where
  "yes_no b = (if b then ''Yes'' else ''No'')"

definition mode_text :: "CacheAccessMode \<Rightarrow> string" where
  "mode_text m = (if m = normal_access_mode then ''Normal'' else if m = fast_access_mode then ''Fast''
     else ''Sequential'')"

subsection \<open>The columns\<close>

definition swept_names :: "string list" where
  "swept_names = [''opt_target'', ''capacity_kb'', ''word_width_bits'', ''associativity'', ''temperature_K'',
     ''process_node_nm'', ''device_roadmap'', ''internal_sensing'', ''mem_cell_type'']"

definition cache_names :: "string list" where
  "cache_names = [''cache_access_mode'', ''cache_area_mm2'', ''cache_hit_latency_ns'', ''cache_miss_latency_ns'',
     ''cache_write_latency_ns'', ''cache_refresh_latency_ns'', ''cache_hit_energy_nJ'', ''cache_miss_energy_nJ'',
     ''cache_write_energy_nJ'', ''cache_refresh_energy_nJ'', ''cache_leakage_mW'', ''cache_refresh_power_W'']"

definition array_names :: "string list" where
  "array_names = [''num_row_mat'', ''num_col_mat'', ''stacked_die_count'', ''total_banks'', ''total_mats'',
     ''num_active_mat_per_col'', ''num_active_mat_per_row'', ''num_row_subarray'', ''num_col_subarray'',
     ''num_active_subarray_per_col'', ''num_active_subarray_per_row'', ''subarray_num_row'', ''subarray_num_col'',
     ''mux_sense_amp'', ''mux_output_lev1'', ''mux_output_lev2'', ''num_row_per_set'', ''local_wire_type'',
     ''local_wire_repeater_type'', ''local_wire_low_swing'', ''global_wire_type'', ''global_wire_repeater_type'',
     ''global_wire_low_swing'', ''area_optimization_level'', ''bank_height_um'', ''bank_width_um'', ''bank_area_mm2'',
     ''mat_height_um'', ''mat_width_um'', ''mat_area_mm2'', ''subarray_height_um'', ''subarray_width_um'',
     ''subarray_area_mm2'', ''area_efficiency_pct'', ''read_latency_ns'', ''write_latency_ns'', ''refresh_latency_ns'',
     ''read_energy_pJ'', ''write_energy_pJ'', ''refresh_energy_pJ'', ''leakage_mW'', ''refresh_power_W'']"

definition writeArrayColumnHeaders :: "string \<Rightarrow> string list" where
  "writeArrayColumnHeaders prefix = map (\<lambda>name. prefix @ name) array_names"

definition printCsvHeader :: "DesignTarget \<Rightarrow> string list" where
  "printCsvHeader target = swept_names
     @ (if target = cache then cache_names @ writeArrayColumnHeaders ''data_'' @ writeArrayColumnHeaders ''tag_''
          @ [''combined_subarray_leakage_W'', ''combined_subarray_area_mm2'']
        else writeArrayColumnHeaders '''' @ [''_sentinel_''])"

subsection \<open>The lines of an array\<close>

definition writeSweptParamsCols :: "Env \<Rightarrow> OptimizationTarget \<Rightarrow> field list" where
  "writeSweptParamsCols E t = (let ip = e_ip E in
     [Text (printOptimizationTarget t), Count (ip_capacity ip sdiv 1024), Count (wordWidth ip),
      Count (ip_associativity ip), Count (ip_temperature ip), Count (processNode ip),
      Text (roadmapToStr (ip_deviceRoadmap ip)), Text (if internalSensing ip then ''true'' else ''false''),
      Text (cellTypeToStr (memCellType (e_cell E)))])"

definition wire_fields :: "Wire \<Rightarrow> field list" where
  "wire_fields w = [Text (wire_text (wireType w)), Text (repeater_text (wireRepeaterType w)),
     Text (yes_no (isLowSwing w))]"

definition size_fields :: "'a FunctionUnit_scheme \<Rightarrow> field list" where
  "size_fields u = [Figure (height u * lit 1 6), Figure (width u * lit 1 6), Figure (area u * lit 1 6)]"

text \<open>A column about the refresh is zero for all cells but those of embedded DRAM.\<close>

definition refresh_field :: "Env \<Rightarrow> field \<Rightarrow> field" where
  "refresh_field E x = (if memCellType (e_cell E) = eDRAM then x else Text ''0'')"

definition refresh_power :: "Env \<Rightarrow> 'a FunctionUnit_scheme \<Rightarrow> field" where
  "refresh_power E b = refresh_field E (TO_WATT (refreshDynamicEnergy b / retentionTime (e_cell E)))"

definition area_efficiency :: "Env \<Rightarrow> Bank \<Rightarrow> dbl" where
  "area_efficiency E b = cell_area (e_cell E) * featureSize (e_tech E) * featureSize (e_tech E)
     * i2d (bank_capacity b) / area b * 100"

definition figure_fields :: "Env \<Rightarrow> Bank \<Rightarrow> field list" where
  "figure_fields E b =
     [Figure (area_efficiency E b), Figure (readLatency b * lit 1 9), Figure (writeLatency b * lit 1 9),
      refresh_field E (Figure (refreshLatency b * lit 1 9)),
      Figure (readDynamicEnergy b * lit 1 12), Figure (writeDynamicEnergy b * lit 1 12),
      refresh_field E (Figure (refreshDynamicEnergy b * lit 1 12)),
      Figure (leakage b * lit 1 3), refresh_power E b]"

definition count_fields :: "Env \<Rightarrow> Bank \<Rightarrow> field list res" where
  "count_fields E b =
     ebind (imul (bank_numRowMat b) (bank_numColumnMat b)) (\<lambda>n. ebind (imul n (bank_stackedDieCount b)) (\<lambda>banks.
     ebind (imul (bank_numRowSubarray b) (bank_numColumnSubarray b)) (\<lambda>mats.
       Inr (map Count
        [bank_numRowMat b, bank_numColumnMat b, bank_stackedDieCount b, banks, mats,
         bank_numActiveMatPerColumn b, bank_numActiveMatPerRow b, bank_numRowSubarray b, bank_numColumnSubarray b,
         bank_numActiveSubarrayPerColumn b, bank_numActiveSubarrayPerRow b,
         mat_subarray_numRow b, mat_subarray_numColumn b,
         bank_muxSenseAmp b, bank_muxOutputLev1 b, bank_muxOutputLev2 b]
        @ [if designTarget (e_ip E) = cache then Count (bank_numRowPerSet b) else Text ''N/A'']))))"

definition printToCsvFile :: "Env \<Rightarrow> bool \<Rightarrow> Mat \<Rightarrow> Result \<Rightarrow> field list res" where
  "printToCsvFile E writePrefix m r =
     ebind (count_fields E (bank r)) (\<lambda>counts.
       Inr ((if writePrefix then writeSweptParamsCols E (res_optimizationTarget r) else [])
         @ counts @ wire_fields (res_localWire r) @ wire_fields (res_globalWire r)
         @ [Text (level_text (bank_areaOptimizationLevel (bank r)))]
         @ size_fields (bank r) @ size_fields m @ size_fields (mat_subarray m) @ figure_fields E (bank r)))"

subsection \<open>A cache\<close>

text \<open>
  The figures of a cache in its access mode.  The normal mode reads tags and data at once and selects the way
  late, the fast mode reads the whole set, and the sequential mode reads the tags first.
\<close>

record CacheFigures =
  cacheHitLatency :: dbl
  cacheMissLatency :: dbl
  cacheWriteLatency :: dbl
  cacheHitDynamicEnergy :: dbl
  cacheMissDynamicEnergy :: dbl
  cacheWriteDynamicEnergy :: dbl
  cacheLeakage :: dbl
  cacheArea :: dbl

definition hit_latency :: "CacheAccessMode \<Rightarrow> Mat \<Rightarrow> Bank \<Rightarrow> Bank \<Rightarrow> dbl" where
  "hit_latency mode m d t =
     (case mode of
        normal_access_mode \<Rightarrow> cMAX (readLatency t) (readLatency m) + columnDecoderLatency (mat_subarray m)
          + (readLatency d - readLatency m)
      | fast_access_mode \<Rightarrow> cMAX (readLatency t) (readLatency d)
      | sequential_access_mode \<Rightarrow> readLatency t + readLatency d)"

definition cache_figures :: "CacheAccessMode \<Rightarrow> Mat \<Rightarrow> Bank \<Rightarrow> Bank \<Rightarrow> CacheFigures" where
  "cache_figures mode m d t =
     \<lparr>cacheHitLatency = hit_latency mode m d t, cacheMissLatency = readLatency t,
      cacheWriteLatency = cMAX (writeLatency t) (writeLatency d),
      cacheHitDynamicEnergy = readDynamicEnergy t + readDynamicEnergy d,
      cacheMissDynamicEnergy = (if mode = sequential_access_mode then readDynamicEnergy t
                                else readDynamicEnergy t + readDynamicEnergy d),
      cacheWriteDynamicEnergy = writeDynamicEnergy t + writeDynamicEnergy d,
      cacheLeakage = leakage t + leakage d, cacheArea = area t + area d\<rparr>"

definition valid_cache :: "Bank \<Rightarrow> Bank \<Rightarrow> bool" where
  "valid_cache d t \<longleftrightarrow> bank_memoryType d = data \<and> bank_memoryType t = tag"

definition cache_fields :: "Env \<Rightarrow> CacheAccessMode \<Rightarrow> Mat \<Rightarrow> Bank \<Rightarrow> Bank \<Rightarrow> field list" where
  "cache_fields E mode m d t = (let c = cache_figures mode m d t in
     [Text (mode_text mode), Figure (cacheArea c * lit 1 6), Figure (cacheHitLatency c * lit 1 9),
      Figure (cacheMissLatency c * lit 1 9), Figure (cacheWriteLatency c * lit 1 9),
      refresh_field E (Figure (cMAX (refreshLatency t) (refreshLatency d) * lit 1 9)),
      Figure (cacheHitDynamicEnergy c * lit 1 9), Figure (cacheMissDynamicEnergy c * lit 1 9),
      Figure (cacheWriteDynamicEnergy c * lit 1 9),
      refresh_field E (Figure ((refreshDynamicEnergy t + refreshDynamicEnergy d) * lit 1 9)),
      Figure (cacheLeakage c * lit 1 3), refresh_power E d])"

text \<open>A line of a cache; nothing is written for two arrays that are not data and tags.\<close>

definition printAsCacheToCsvFile ::
  "Env \<Rightarrow> CacheAccessMode \<Rightarrow> Mat \<times> Result \<Rightarrow> Mat \<times> Result \<Rightarrow> field list option res" where
  "printAsCacheToCsvFile E mode dataResult tagResult =
     (let (m, r) = dataResult; (m', r') = tagResult in
      if \<not> valid_cache (bank r) (bank r') then Inr None
      else
        ebind (printToCsvFile E False m r) (\<lambda>dataFields. ebind (printToCsvFile E False m' r') (\<lambda>tagFields.
          Inr (Some (writeSweptParamsCols E (res_optimizationTarget r)
            @ cache_fields E mode m (bank r) (bank r') @ dataFields @ tagFields
            @ [Figure (leakage (mat_subarray m) + leakage (mat_subarray m')),
               Figure ((area (mat_subarray m) + area (mat_subarray m')) * lit 1 6)])))))"

text \<open>
  \<open>OUTPUT_TO_FILE\<close>: a design of the full exploration is written once, or for a cache once with each of the
  best tag arrays.  The line of a memory ends with a comma.
\<close>

definition ram_line :: "Env \<Rightarrow> Mat \<Rightarrow> Result \<Rightarrow> field list res" where
  "ram_line E m r = ebind (printToCsvFile E True m r) (\<lambda>cells. Inr (cells @ [Text '''']))"

definition OUTPUT_TO_FILE :: "Env \<Rightarrow> Mat \<times> Result \<Rightarrow> (Mat \<times> Result) list \<Rightarrow> field list list res" where
  "OUTPUT_TO_FILE E temp tags =
     (if designTarget (e_ip E) = cache then
        efold (\<lambda>t lines. ebind (printAsCacheToCsvFile E (cacheAccessMode (e_ip E)) temp t) (\<lambda>line.
          Inr (lines @ (case line of None \<Rightarrow> [] | Some cells \<Rightarrow> [cells])))) tags []
      else ebind (ram_line E (fst temp) (snd temp)) (\<lambda>line. Inr [line]))"

subsection \<open>The lines fit the header\<close>

lemma efold_collect:
  assumes "efold f xs ys = Inr zs" "\<forall>y \<in> set ys. P y"
    and "\<And>x ys zs. f x ys = Inr zs \<Longrightarrow> \<forall>y \<in> set ys. P y \<Longrightarrow> \<forall>z \<in> set zs. P z"
  shows "\<forall>z \<in> set zs. P z"
  using assms(1,2)
proof (induction xs arbitrary: ys)
  case (Cons x xs)
  from Cons.prems(1) obtain us where "f x ys = Inr us" "efold f xs us = Inr zs" by (auto simp: ebind_Inr)
  then show ?case using Cons.IH assms(3) [of x ys us] Cons.prems(2) by blast
qed simp

lemma csv_length:
  assumes "printToCsvFile E prefix m r = Inr cells"
  shows "length cells = (if prefix then length swept_names else 0) + length array_names"
  using assms
  by (auto simp: printToCsvFile_def count_fields_def ebind_Inr writeSweptParamsCols_def wire_fields_def
      size_fields_def figure_fields_def swept_names_def array_names_def Let_def)

lemma ram_line_length:
  assumes "ram_line E m r = Inr cells" "target \<noteq> cache"
  shows "length cells = length (printCsvHeader target)"
  using assms csv_length [of E True m r]
  by (auto simp: ram_line_def printCsvHeader_def writeArrayColumnHeaders_def ebind_Inr)

lemma cache_line_length:
  assumes "printAsCacheToCsvFile E mode dr tr = Inr (Some cells)"
  shows "length cells = length (printCsvHeader cache)"
  using assms csv_length [of E False "fst dr" "snd dr"] csv_length [of E False "fst tr" "snd tr"]
  by (auto simp: printAsCacheToCsvFile_def printCsvHeader_def writeArrayColumnHeaders_def ebind_Inr Let_def
      cache_fields_def cache_names_def writeSweptParamsCols_def swept_names_def split: prod.splits if_splits)

lemma output_lines:
  assumes "OUTPUT_TO_FILE E temp tags = Inr lines"
  shows "\<forall>line \<in> set lines. length line = length (printCsvHeader (designTarget (e_ip E)))"
proof (cases "designTarget (e_ip E) = cache")
  case True
  then have e: "efold (\<lambda>t lines. ebind (printAsCacheToCsvFile E (cacheAccessMode (e_ip E)) temp t) (\<lambda>line.
      Inr (lines @ (case line of None \<Rightarrow> [] | Some cells \<Rightarrow> [cells])))) tags [] = Inr lines"
    using assms by (simp add: OUTPUT_TO_FILE_def)
  show ?thesis unfolding True
    by (rule efold_collect [OF e]) (auto simp: ebind_Inr dest: cache_line_length split: option.splits)
next
  case False
  then show ?thesis using assms ram_line_length by (auto simp: OUTPUT_TO_FILE_def ebind_Inr)
qed

lemma header_distinct: "distinct (printCsvHeader target)"
  by (cases target)
     (simp_all add: printCsvHeader_def swept_names_def cache_names_def writeArrayColumnHeaders_def array_names_def)

subsection \<open>Units\<close>

text \<open>What a unit stands for, and the power that a field shows.\<close>

definition watts :: "string \<Rightarrow> real" where
  "watts u = (if u = ''pW'' then 1 / 10 ^ 12 else if u = ''nW'' then 1 / 10 ^ 9 else if u = ''uW'' then 1 / 10 ^ 6
     else if u = ''mW'' then 1 / 10 ^ 3 else 1)"

lemma lit_powers:
  "lit 1 (- 9) = Fin (1 / 10 ^ 9)" "lit 1 (- 6) = Fin (1 / 10 ^ 6)" "lit 1 (- 3) = Fin (1 / 10 ^ 3)"
  "lit 1 12 = Fin (10 ^ 12)" "lit 1 9 = Fin (10 ^ 9)" "lit 1 6 = Fin (10 ^ 6)" "lit 1 3 = Fin (10 ^ 3)"
  by (simp_all add: lit_def power_int_def inverse_eq_divide power_one_over)

lemma TO_WATT_shown:
  assumes "0 < x"
  shows "\<exists>y u. TO_WATT (Fin x) = Scaled (Fin y) u \<and> y * watts u = x \<and> (1 / 10 ^ 12 \<le> x \<longrightarrow> 1 \<le> y) \<and> (x < 1 \<longrightarrow> y < 1000)"
proof -
  consider "x < 1 / 10 ^ 9" | "\<not> x < 1 / 10 ^ 9" "x < 1 / 10 ^ 6" | "\<not> x < 1 / 10 ^ 9" "\<not> x < 1 / 10 ^ 6" "x < 1 / 10 ^ 3"
    | "\<not> x < 1 / 10 ^ 9" "\<not> x < 1 / 10 ^ 6" "\<not> x < 1 / 10 ^ 3" "x < 1" | "\<not> x < 1 / 10 ^ 9" "\<not> x < 1 / 10 ^ 6" "\<not> x < 1 / 10 ^ 3" "\<not> x < 1" by linarith
  then show ?thesis
    by cases (simp_all add: TO_WATT_def lit_powers dbl_one watts_def field_simps)
qed

subsection \<open>The access modes\<close>

text \<open>A miss is found as soon as the tags are read; the fast mode is never slower than the two others.\<close>

lemma fast_not_slower:
  assumes "fnn (readLatency t)" "fnn (readLatency m)" "fnn (readLatency d)"
    and "fnn (columnDecoderLatency (mat_subarray m))" "readLatency m \<le> readLatency d"
  shows "readLatency t \<le> hit_latency fast_access_mode m d t"
    and "hit_latency fast_access_mode m d t \<le> hit_latency normal_access_mode m d t"
    and "hit_latency fast_access_mode m d t \<le> hit_latency sequential_access_mode m d t"
  using assms by (auto simp: hit_latency_def fnn_def)

end
