(* ===== verification/Console.thy ===== *)
theory Console
  imports Report BankWithHtree BankWithoutHtree
begin

text \<open>
  What the program prints: the configuration (\<open>PrintInputParameter\<close>), the memory cell (\<open>PrintCell\<close>), the report on
  the design of an array (\<open>Result::print\<close>) and on a cache (\<open>Result::printAsCache\<close>), as lines of fields.  A bank is an
  argument with its mat and its TSVs, which the record of a result does not keep.
\<close>

subsection \<open>Units\<close>

text \<open>A figure in the unit of the first limit that is above it.\<close>

fun scaled :: "(dbl \<times> dbl \<times> string) list \<Rightarrow> string \<Rightarrow> dbl \<Rightarrow> field" where
  "scaled [] u x = Scaled x u"
| "scaled ((limit, factor, v) # steps) u x = (if x < limit then Scaled (x * factor) v else scaled steps u x)"

definition TO_SECOND :: "dbl \<Rightarrow> field" where
  "TO_SECOND = scaled [(lit 1 (- 9), lit 1 12, ''ps''), (lit 1 (- 6), lit 1 9, ''ns''),
     (lit 1 (- 3), lit 1 6, ''us''), (1, lit 1 3, ''ms'')] ''s''"

definition TO_BPS :: "dbl \<Rightarrow> field" where
  "TO_BPS x =
     (if x < lit 1 3 then Scaled x ''B/s''
      else if x < lit 1 6 then Scaled (x / lit 1 3) ''KB/s''
      else if x < lit 1 9 then Scaled (x / lit 1 6) ''MB/s''
      else if x < lit 1 12 then Scaled (x / lit 1 9) ''GB/s''
      else Scaled (x / lit 1 12) ''TB/s'')"

definition TO_JOULE :: "dbl \<Rightarrow> field" where
  "TO_JOULE = scaled [(lit 1 (- 9), lit 1 12, ''pJ''), (lit 1 (- 6), lit 1 9, ''nJ''),
     (lit 1 (- 3), lit 1 6, ''uJ''), (1, lit 1 3, ''mJ'')] ''J''"

definition TO_METER :: "dbl \<Rightarrow> field" where
  "TO_METER = scaled [(lit 1 (- 9), lit 1 12, ''pm''), (lit 1 (- 6), lit 1 9, ''nm''),
     (lit 1 (- 3), lit 1 6, ''um''), (1, lit 1 3, ''mm'')] ''m''"

definition TO_SQM :: "dbl \<Rightarrow> field" where
  "TO_SQM = scaled [(lit 1 (- 12), lit 1 18, ''nm^2''), (lit 1 (- 6), lit 1 12, ''um^2''),
     (1, lit 1 6, ''mm^2'')] ''m^2''"

subsection \<open>Lines\<close>

type_synonym lines = "field list list"

definition spaces :: "nat \<Rightarrow> field" where "spaces n = Text (replicate n CHR 0x20)"

definition line :: "nat \<Rightarrow> field list \<Rightarrow> field list" where "line n fs = spaces n # fs"

definition banner :: "nat \<Rightarrow> string \<Rightarrow> lines" where
  "banner n title = [line n [Text ''=============''], line n [Text title], line n [Text ''=============''] ]"

definition timed :: "nat \<Rightarrow> string \<Rightarrow> dbl \<Rightarrow> field list" where
  "timed n label x = line n [Text label, TO_SECOND x]"

definition energy :: "nat \<Rightarrow> string \<Rightarrow> dbl \<Rightarrow> field list" where
  "energy n label x = line n [Text label, TO_JOULE x]"

definition power :: "nat \<Rightarrow> string \<Rightarrow> dbl \<Rightarrow> field list" where
  "power n label x = line n [Text label, TO_WATT x]"

subsection \<open>The configuration\<close>

fun target_text :: "DesignTarget \<Rightarrow> string" where
  "target_text cache = ''Cache''"
| "target_text RAM_chip = ''Random Access Memory''"
| "target_text CAM_chip = ''Content Addressable Memory''"

definition capacity_text :: "int \<Rightarrow> field list" where
  "capacity_text n = Text ''Capacity   : '' #
     (if n < 1024 * 1024 then [Count (n sdiv 1024), Text ''KB'']
      else if n < 1024 * 1024 * 1024 then [Count (n sdiv 1024 sdiv 1024), Text ''MB'']
      else [Count (n sdiv 1024 sdiv 1024 sdiv 1024), Text ''GB''])"

definition width_lines :: "InputParameter \<Rightarrow> lines" where
  "width_lines ip =
     (if designTarget ip = cache
      then [[Text ''Cache Line Size: '', Count (wordWidth ip sdiv 8), Text ''Bytes''],
            [Text ''Cache Associativity: '', Count (ip_associativity ip), Text '' Ways'']]
      else [[Text ''Data Width : '', Count (wordWidth ip), Text ''Bits'']
            @ (if wordWidth ip smod 8 = 0 then [Text '' ('', Count (wordWidth ip sdiv 8), Text ''Bytes)''] else [])])"

definition page_lines :: "InputParameter \<Rightarrow> MemCell \<Rightarrow> lines" where
  "page_lines ip cell =
     (if designTarget ip = RAM_chip \<and> (memCellType cell = SLCNAND \<or> memCellType cell = MLCNAND)
      then [[Text ''Page Size  : '', Count (pageSize ip sdiv 8), Text ''Bytes''],
            [Text ''Block Size : '', Count (flashBlockSize ip sdiv 8 sdiv 1024), Text ''KB'']] else [])"

fun goal_text :: "OptimizationTarget \<Rightarrow> string" where
  "goal_text read_latency_optimized = ''read latency ...''"
| "goal_text write_latency_optimized = ''write latency ...''"
| "goal_text read_energy_optimized = ''read energy ...''"
| "goal_text write_energy_optimized = ''write energy ...''"
| "goal_text read_edp_optimized = ''read energy-delay-product ...''"
| "goal_text write_edp_optimized = ''write energy-delay-product ...''"
| "goal_text leakage_optimized = ''leakage power ...''"
| "goal_text _ = ''area ...''"

definition goal_lines :: "OptimizationTarget \<Rightarrow> lines" where
  "goal_lines t =
     (if t = full_exploration
      then [[], [Text ''Full design space exploration ... might take hours and will produce a csv''],
            [Text ''If you are interested in optimizing for a single metric only, please change -OptimizationTarget in *cfg file, for example ''],
            [Text '' -OptimizationTarget: WriteEDP'']]
      else [[], [Text ''Searching for the best solution that is optimized for '', Text (goal_text t)]])"

definition PrintInputParameter :: "InputParameter \<Rightarrow> MemCell \<Rightarrow> lines" where
  "PrintInputParameter ip cell =
     [[], [Text ''====================''], [Text ''DESIGN SPECIFICATION''], [Text ''====================''],
      [Text ''Design Target: '', Text (target_text (designTarget ip))], capacity_text (ip_capacity ip)]
     @ width_lines ip @ page_lines ip cell @ goal_lines (optimizationTarget ip)"

subsection \<open>The memory cell\<close>

fun cell_name :: "MemCellType \<Rightarrow> string" where
  "cell_name SRAM = ''Memory Cell: SRAM''"
| "cell_name DRAM = ''Memory Cell: DRAM''"
| "cell_name eDRAM = ''Memory Cell: Embedded DRAM''"
| "cell_name MRAM = ''Memory Cell: MRAM (Magnetoresistive)''"
| "cell_name PCRAM = ''Memory Cell: PCRAM (Phase-Change)''"
| "cell_name memristor = ''Memory Cell: RRAM (Memristor)''"
| "cell_name FBRAM = ''Memory Cell: FBRAM (Floating Body)''"
| "cell_name SLCNAND = ''Memory Cell: Single-Level Cell NAND Flash''"
| "cell_name MLCNAND = ''Memory Cell: Multi-Level Cell NAND Flash''"

definition resistance_line :: "nat \<Rightarrow> string \<Rightarrow> dbl \<Rightarrow> field list" where
  "resistance_line n label r = line n (Text label #
     (if r < lit 1 3 then [Figure r, Text ''ohm''] else if r < lit 1 6 then [Figure (r / lit 1 3), Text ''Kohm'']
      else [Figure (r / lit 1 6), Text ''Mohm'']))"

definition read_mode_lines :: "nat \<Rightarrow> MemCell \<Rightarrow> lines" where
  "read_mode_lines n c =
     [line n [Text (if readMode c then ''Read Mode: Voltage-Sensing'' else ''Read Mode: Current-Sensing'')]]
     @ (if 0 < readCurrent c then [line n [Text ''  - Read Current: '', Figure (readCurrent c * lit 1 6), Text ''uA'']] else [])
     @ (if 0 < readVoltage c then [line n [Text ''  - Read Voltage: '', Figure (readVoltage c), Text ''V'']] else [])"

definition write_mode_lines :: "nat \<Rightarrow> MemCell \<Rightarrow> lines" where
  "write_mode_lines n c =
     (if resetMode c then [line n [Text ''Reset Mode: Voltage''], line n [Text ''  - Reset Voltage: '', Figure (resetVoltage c), Text ''V'']]
      else [line n [Text ''Reset Mode: Current''],
            line n [Text ''  - Reset Current: '', Figure (resetCurrent c * lit 1 6), Text ''uA'']])
     @ [timed n ''  - Reset Pulse: '' (resetPulse c)]
     @ (if setMode c then [line n [Text ''Set Mode: Voltage''], line n [Text ''  - Set Voltage: '', Figure (setVoltage c), Text ''V'']]
        else [line n [Text ''Set Mode: Current''],
              line n [Text ''  - Set Current: '', Figure (setCurrent c * lit 1 6), Text ''uA'']])
     @ [timed n ''  - Set Pulse: '' (setPulse c)]"

fun access_text :: "CellAccessType \<Rightarrow> string" where
  "access_text CMOS_access = ''Access Type: CMOS''"
| "access_text BJT_access = ''Access Type: BJT''"
| "access_text diode_access = ''Access Type: Diode''"
| "access_text none_access = ''Access Type: None Access Device''"

definition resistive_lines :: "nat \<Rightarrow> MemCell \<Rightarrow> lines" where
  "resistive_lines n c =
     [resistance_line n ''Cell Turned-On Resistance : '' (resistanceOn c),
      resistance_line n ''Cell Turned-Off Resistance: '' (resistanceOff c)]
     @ read_mode_lines n c @ write_mode_lines n c @ [line n [Text (access_text (accessType c))]]"

definition SRAM_lines :: "nat \<Rightarrow> MemCell \<Rightarrow> lines" where
  "SRAM_lines n c =
     [line n [Text ''SRAM Cell Access Transistor Width: '', Figure (widthAccessCMOS c), Text ''F''],
      line n [Text ''SRAM Cell NMOS Width: '', Figure (widthSRAMCellNMOS c), Text ''F''],
      line n [Text ''SRAM Cell PMOS Width: '', Figure (widthSRAMCellPMOS c), Text ''F'']]"

definition flash_lines :: "nat \<Rightarrow> MemCell \<Rightarrow> lines" where
  "flash_lines n c =
     [line n [Text ''Pass Voltage       : '', Figure (flashPassVoltage c), Text ''V''],
      line n [Text ''Programming Voltage: '', Figure (flashProgramVoltage c), Text ''V''],
      line n [Text ''Erase Voltage      : '', Figure (flashEraseVoltage c), Text ''V''],
      timed n ''Programming Time   : '' (flashProgramTime c),
      timed n ''Erase Time         : '' (flashEraseTime c),
      line n [Text ''Gate Coupling Ratio: '', Figure (gateCouplingRatio c)]]"

definition PrintCell :: "nat \<Rightarrow> MemCell \<Rightarrow> lines" where
  "PrintCell n c =
     [line n [Text (cell_name (memCellType c))],
      line n [Text ''Cell Area (F^2)    : '', Figure (cell_area c), Text '' ('', Figure (heightInFeatureSize c), Text ''Fx'',
              Figure (widthInFeatureSize c), Text ''F)''],
      line n [Text ''Cell Aspect Ratio  : '', Figure (cell_aspectRatio c)]]
     @ (if memCellType c \<in> {PCRAM, MRAM, memristor, FBRAM} then resistive_lines n c
        else if memCellType c = SRAM then SRAM_lines n c
        else if memCellType c = SLCNAND then flash_lines n c else [])"

subsection \<open>The design of an array: its configuration\<close>

definition bank_lines :: "nat \<Rightarrow> 'a BankUnit_scheme \<Rightarrow> lines" where
  "bank_lines n b =
     (let rows = Count (bank_numRowMat b); columns = Count (bank_numColumnMat b);
          die = (if 1 < bank_stackedDieCount b then [Text '' x 1''] else [])
      in [line n ([Text ''Bank Organization: '', rows, Text '' x '', columns]
            @ (if 1 < bank_stackedDieCount b then [Text '' x '', Count (bank_stackedDieCount b)] else [])),
          line n ([Text '' - Row Activation   : '', Count (bank_numActiveMatPerColumn b), Text '' / '', rows] @ die),
          line n ([Text '' - Column Activation: '', Count (bank_numActiveMatPerRow b), Text '' / '', columns] @ die)])"

definition mat_lines :: "nat \<Rightarrow> 'a BankUnit_scheme \<Rightarrow> lines" where
  "mat_lines n b =
     (let rows = Count (bank_numRowSubarray b); columns = Count (bank_numColumnSubarray b); s = mat_subarray (bank_mat b)
      in [line n [Text ''Mat Organization: '', rows, Text '' x '', columns],
          line n [Text '' - Row Activation   : '', Count (bank_numActiveSubarrayPerColumn b), Text '' / '', rows],
          line n [Text '' - Column Activation: '', Count (bank_numActiveSubarrayPerRow b), Text '' / '', columns],
          line n [Text '' - Subarray Size    : '', Count (sub_numRow s), Text '' Rows x '', Count (sub_numColumn s), Text '' Columns''],
          line n [Text ''Mux Level:''],
          line n [Text '' - Senseamp Mux      : '', Count (bank_muxSenseAmp b)],
          line n [Text '' - Output Level-1 Mux: '', Count (bank_muxOutputLev1 b)],
          line n [Text '' - Output Level-2 Mux: '', Count (bank_muxOutputLev2 b)]])"

definition set_lines :: "Env \<Rightarrow> nat \<Rightarrow> 'a Bank_scheme \<Rightarrow> lines" where
  "set_lines E n b =
     (if designTarget (e_ip E) = cache
      then [line n [Text '' - One set is partitioned into '', Count (bank_numRowPerSet b), Text '' rows'']] else [])"

text \<open>The spaces are printed once more in the middle of a line.\<close>

definition wire_lines :: "nat \<Rightarrow> string \<Rightarrow> Wire \<Rightarrow> lines" where
  "wire_lines n title w =
     [line n [Text title],
      line n [Text '' - Wire Type : '', spaces n, Text (wire_text (wireType w))],
      line n [Text '' - Repeater Type: '', spaces n, Text (repeater_text (wireRepeaterType w))],
      line n [Text '' - Low Swing : '', spaces n, Text (yes_no (isLowSwing w))]]"

definition configuration_lines :: "Env \<Rightarrow> nat \<Rightarrow> 'a BankUnit_scheme \<Rightarrow> Result \<Rightarrow> lines" where
  "configuration_lines E n b r =
     [line n []] @ banner n ''CONFIGURATION'' @ bank_lines n b @ mat_lines n b @ set_lines E n b
     @ wire_lines n ''Local Wire:'' (res_localWire r) @ wire_lines n ''Global Wire:'' (res_globalWire r)
     @ [line n [Text ''Buffer Design Style: '', spaces n, Text (level_text (bank_areaOptimizationLevel b))]]"

subsection \<open>The area\<close>

definition cell_share :: "Env \<Rightarrow> 'a Bank_scheme \<Rightarrow> dbl" where
  "cell_share E b = cell_area (e_cell E) * featureSize (e_tech E) * featureSize (e_tech E) * i2d (bank_capacity b)"

definition size_line :: "nat \<Rightarrow> string \<Rightarrow> 'a FunctionUnit_scheme \<Rightarrow> field list \<Rightarrow> field list" where
  "size_line n label u rest = line n ([Text label, TO_METER (height u), Text '' x '', TO_METER (width u), Text '' = '',
     TO_SQM (area u)] @ rest)"

text \<open>A line about the TSVs: one of two figures, depending on what is on a die.\<close>

definition on_dies :: "'a Bank_scheme \<Rightarrow> 'b list \<Rightarrow> 'b list \<Rightarrow> 'b list" where
  "on_dies b coarse fine =
     (if 1 < bank_stackedDieCount b \<and> bank_partitionGranularity b = 0 then coarse
      else if 1 < bank_stackedDieCount b \<and> bank_partitionGranularity b = 1 then fine else [])"

definition tsv_area_lines :: "nat \<Rightarrow> 'a BankUnit_scheme \<Rightarrow> lines" where
  "tsv_area_lines n b =
     (let v = bank_tsvArray b; m = bank_mat b; cols = i2d (bank_numColumnMat b); rows = i2d (bank_numRowMat b)
      in on_dies b [line n [Text '' |--- TSV Area      = '', TO_SQM (area v)]]
           [line n [Text '' |--- TSV Area      = '', TO_SQM (area v + area (mat_tsvArray m) * cols * rows)],
            line n [Text '' |--- Logic Layer Area = '', TO_SQM (areaAllLogicBlocks m * cols * rows)]])"

definition area_lines :: "Env \<Rightarrow> nat \<Rightarrow> 'a BankUnit_scheme \<Rightarrow> lines" where
  "area_lines E n b =
     (let m = bank_mat b; s = mat_subarray m; share = cell_share E b;
          per_mat = share / i2d (bank_numRowMat b) / i2d (bank_numColumnMat b);
          per_subarray = per_mat / i2d (bank_numRowSubarray b) / i2d (bank_numColumnSubarray b)
      in [line n [Text ''Area:''], size_line n '' - Total Area = '' b [],
          size_line n '' |--- Mat Area      = '' m [Text ''   ('', Figure (per_mat / area m * 100), Text ''%)''],
          size_line n '' |--- Subarray Area = '' s [Text ''   ('', Figure (per_subarray / area s * 100), Text ''%)'']]
         @ tsv_area_lines n b
         @ [line n [Text '' - Area Efficiency = '', Figure (share / area b * 100), Text ''%'']])"

subsection \<open>The timing\<close>

definition dies_above :: "'a Bank_scheme \<Rightarrow> dbl" where
  "dies_above b = i2d (bank_stackedDieCount b - 1)"

text \<open>What is above the mats: the total, the TSVs, the routing and the mats.\<close>

definition routing_text :: "Env \<Rightarrow> string \<Rightarrow> string \<Rightarrow> string" where
  "routing_text E tree plain = (if routingMode (e_ip E) = h_tree then tree else plain)"

definition bank_timing :: "Env \<Rightarrow> nat \<Rightarrow> string \<Rightarrow> dbl \<Rightarrow> dbl list \<Rightarrow> dbl \<Rightarrow> dbl \<Rightarrow> lines" where
  "bank_timing E n label whole tsvs rest m =
     [timed n label whole] @ map (timed n '' |--- TSV Latency    = '') tsvs
     @ [timed n (routing_text E '' |--- H-Tree Latency = '' '' |--- Non-H-Tree Latency = '') rest,
        timed n '' |--- Mat Latency    = '' m]"

definition mat_timing :: "nat \<Rightarrow> Mat \<Rightarrow> dbl \<Rightarrow> lines" where
  "mat_timing n m sub =
     [timed n ''    |--- Predecoder Latency = '' (predecoderLatency m), timed n ''    |--- Subarray Latency   = '' sub]"

definition read_tsv_latency :: "'a BankUnit_scheme \<Rightarrow> dbl list" where
  "read_tsv_latency b =
     (let v = bank_tsvArray b; above = dies_above b
      in on_dies b [(readLatency v + writeLatency v) * above]
           [readLatency v * above + writeLatency (mat_tsvArray (bank_mat b)) * above])"

definition tsv_latency :: "'a BankUnit_scheme \<Rightarrow> dbl \<Rightarrow> dbl list" where
  "tsv_latency b x = on_dies b [x * dies_above b] [x * dies_above b]"

definition read_timing :: "Env \<Rightarrow> nat \<Rightarrow> 'a BankUnit_scheme \<Rightarrow> lines" where
  "read_timing E n b =
     (let m = bank_mat b; s = mat_subarray m in
      bank_timing E n '' -  Read Latency = '' (readLatency b) (read_tsv_latency b) (routingReadLatency b) (readLatency m)
      @ mat_timing n m (readLatency s)
      @ [timed n ''       |--- Row Decoder Latency = '' (readLatency (sub_rowDecoder s)),
         timed n ''       |--- Bitline Latency     = '' (bitlineDelay s)]
      @ (if internalSensing (e_ip E) then [timed n ''       |--- Senseamp Latency    = '' (readLatency (sub_senseAmp s))] else [])
      @ [timed n ''       |--- Mux Latency         = ''
           (readLatency (bitlineMux s) + readLatency (senseAmpMuxLev1 s) + readLatency (senseAmpMuxLev2 s)),
         timed n ''       |--- Precharge Latency   = '' (readLatency (sub_precharger s))]
      @ (if mat_memoryType m = tag \<and> mat_internalSenseAmp m
         then [timed n ''    |--- Comparator Latency  = '' (readLatency (mat_comparator m))] else []))"

text \<open>The cells that are written in two phases.\<close>

definition two_phases :: "MemCell \<Rightarrow> bool" where
  "two_phases c \<longleftrightarrow> memCellType c = PCRAM \<or> memCellType c = FBRAM
     \<or> memCellType c = memristor \<and> (accessType c = CMOS_access \<or> accessType c = BJT_access)"

definition phase_timing :: "Env \<Rightarrow> nat \<Rightarrow> 'a BankUnit_scheme \<Rightarrow> lines" where
  "phase_timing E n b =
     (let m = bank_mat b; s = mat_subarray m; v = bank_tsvArray b in
      bank_timing E n '' - RESET Latency = '' (resetLatency b) (tsv_latency b (resetLatency v)) (routingResetLatency b) (resetLatency m)
      @ mat_timing n m (resetLatency s)
      @ [timed n ''       |--- RESET Pulse Duration = '' (resetPulse (e_cell E)),
         timed n ''       |--- Row Decoder Latency  = '' (writeLatency (sub_rowDecoder s)),
         timed n ''       |--- Charge Latency   = '' (chargeLatency s)]
      @ bank_timing E n '' - SET Latency   = '' (setLatency b) (tsv_latency b (setLatency v)) (routingSetLatency b) (setLatency m)
      @ mat_timing n m (setLatency s)
      @ [timed n ''       |--- SET Pulse Duration   = '' (setPulse (e_cell E)),
         timed n ''       |--- Row Decoder Latency  = '' (writeLatency (sub_rowDecoder s)),
         timed n ''       |--- Charger Latency      = '' (chargeLatency s)])"

definition flash_timing :: "Env \<Rightarrow> nat \<Rightarrow> 'a BankUnit_scheme \<Rightarrow> lines" where
  "flash_timing E n b =
     (let m = bank_mat b in
      bank_timing E n '' - Erase Latency = '' (resetLatency b) (tsv_latency b (resetLatency (bank_tsvArray b)))
        (routingResetLatency b) (resetLatency m)
      @ bank_timing E n '' - Programming Latency   = '' (setLatency b) [] (routingSetLatency b) (setLatency m))"

definition write_timing :: "Env \<Rightarrow> nat \<Rightarrow> 'a BankUnit_scheme \<Rightarrow> lines" where
  "write_timing E n b =
     (let m = bank_mat b; s = mat_subarray m in
      bank_timing E n '' - Write Latency = '' (writeLatency b) (tsv_latency b (writeLatency (bank_tsvArray b)))
        (routingWriteLatency b) (writeLatency m)
      @ mat_timing n m (writeLatency s)
      @ (if memCellType (e_cell E) = MRAM
         then [timed n ''       |--- Write Pulse Duration = '' (resetPulse (e_cell E))] else [])
      @ [timed n ''       |--- Row Decoder Latency = '' (writeLatency (sub_rowDecoder s)),
         timed n ''       |--- Charge Latency      = '' (chargeLatency s)])"

definition refresh_timing :: "Env \<Rightarrow> nat \<Rightarrow> 'a BankUnit_scheme \<Rightarrow> lines" where
  "refresh_timing E n b =
     (let m = bank_mat b in
      if memCellType (e_cell E) = eDRAM
      then bank_timing E n '' - Refresh Latency = '' (refreshLatency b) (tsv_latency b (writeLatency (bank_tsvArray b)))
             (routingRefreshLatency b) (refreshLatency m) @ mat_timing n m (refreshLatency (mat_subarray m))
      else [])"

definition bandwidth_lines :: "nat \<Rightarrow> 'a BankUnit_scheme \<Rightarrow> lines" where
  "bandwidth_lines n b =
     (let s = mat_subarray (bank_mat b) in
      [line n [Text '' - Read Bandwidth  = '', TO_BPS (i2d (bank_blockSize b)
         / (readLatency s - readLatency (sub_rowDecoder s) + readLatency (sub_precharger s)) / 8)],
       line n [Text '' - Write Bandwidth = '', TO_BPS (i2d (bank_blockSize b) / writeLatency s / 8)]])"

definition timing_lines :: "Env \<Rightarrow> nat \<Rightarrow> 'a BankUnit_scheme \<Rightarrow> lines" where
  "timing_lines E n b =
     [line n [Text ''Timing:'']] @ read_timing E n b
     @ (if two_phases (e_cell E) then phase_timing E n b
        else if memCellType (e_cell E) = SLCNAND then flash_timing E n b else write_timing E n b)
     @ refresh_timing E n b @ bandwidth_lines n b"

subsection \<open>The power\<close>

definition bank_energy :: "Env \<Rightarrow> nat \<Rightarrow> string \<Rightarrow> dbl \<Rightarrow> field list \<Rightarrow> dbl list \<Rightarrow> dbl \<Rightarrow> dbl \<Rightarrow> lines" where
  "bank_energy E n label whole unit tsvs rest m =
     [line n ([Text label, TO_JOULE whole] @ unit)]
     @ map (energy n '' |--- TSV Dynamic Energy    = '') tsvs
     @ [energy n (routing_text E '' |--- H-Tree Dynamic Energy = '' '' |--- Non-H-Tree Dynamic Energy = '') rest,
        line n [Text '' |--- Mat Dynamic Energy    = '', TO_JOULE m, Text '' per mat'']]"

definition mat_energy :: "nat \<Rightarrow> 'a Bank_scheme \<Rightarrow> dbl \<Rightarrow> dbl \<Rightarrow> lines" where
  "mat_energy n b m sub =
     [energy n ''    |--- Predecoder Dynamic Energy = ''
        (m - sub * i2d (bank_numActiveSubarrayPerRow b) * i2d (bank_numActiveSubarrayPerColumn b)),
      line n [Text ''    |--- Subarray Dynamic Energy   = '', TO_JOULE sub, Text '' per active subarray'']]"

text \<open>The circuits of a subarray, in a read and in a write.\<close>

definition read_energy_lines :: "Env \<Rightarrow> nat \<Rightarrow> SubArray \<Rightarrow> lines" where
  "read_energy_lines E n s =
     [energy n ''       |--- Row Decoder Dynamic Energy = '' (readDynamicEnergy (sub_rowDecoder s)),
      energy n ''       |--- Mux Decoder Dynamic Energy = '' (readDynamicEnergy (bitlineMuxDecoder s)
        + readDynamicEnergy (senseAmpMuxLev1Decoder s) + readDynamicEnergy (senseAmpMuxLev2Decoder s))]
     @ (if memCellType (e_cell E) \<in> {PCRAM, FBRAM, MRAM, memristor}
        then [energy n ''       |--- Bitline & Cell Read Energy = '' (cellReadEnergy s)] else [])
     @ (if internalSensing (e_ip E)
        then [energy n ''       |--- Senseamp Dynamic Energy    = '' (readDynamicEnergy (sub_senseAmp s))] else [])
     @ [energy n ''       |--- Mux Dynamic Energy         = '' (readDynamicEnergy (bitlineMux s)
          + readDynamicEnergy (senseAmpMuxLev1 s) + readDynamicEnergy (senseAmpMuxLev2 s)),
        energy n ''       |--- Precharge Dynamic Energy   = '' (readDynamicEnergy (sub_precharger s))]"

definition write_energy_lines :: "nat \<Rightarrow> SubArray \<Rightarrow> lines" where
  "write_energy_lines n s =
     [energy n ''       |--- Row Decoder Dynamic Energy = '' (writeDynamicEnergy (sub_rowDecoder s)),
      energy n ''       |--- Mux Decoder Dynamic Energy = '' (writeDynamicEnergy (bitlineMuxDecoder s)
        + writeDynamicEnergy (senseAmpMuxLev1Decoder s) + writeDynamicEnergy (senseAmpMuxLev2Decoder s)),
      energy n ''       |--- Mux Dynamic Energy         = '' (writeDynamicEnergy (bitlineMux s)
        + writeDynamicEnergy (senseAmpMuxLev1 s) + writeDynamicEnergy (senseAmpMuxLev2 s))]"

definition read_tsv_energy :: "'a BankUnit_scheme \<Rightarrow> dbl list" where
  "read_tsv_energy b =
     (let v = bank_tsvArray b; u = mat_tsvArray (bank_mat b); above = dies_above b
      in on_dies b
           [writeDynamicEnergy v * above * i2d (numReadBits v) + readDynamicEnergy v * i2d (numDataBits v) * above]
           [writeDynamicEnergy u * above * i2d (numAccessBits u)
            + writeDynamicEnergy v * above * i2d (bank_stackedDieCount b)
            + readDynamicEnergy v * i2d (bank_blockSize b) * above])"

definition tsv_energy :: "'a BankUnit_scheme \<Rightarrow> dbl \<Rightarrow> (TSV \<Rightarrow> int) \<Rightarrow> dbl list" where
  "tsv_energy b x bits =
     (let shown = [x * dies_above b * i2d (bits (bank_tsvArray b))] in on_dies b shown shown)"

definition read_power :: "Env \<Rightarrow> nat \<Rightarrow> 'a BankUnit_scheme \<Rightarrow> lines" where
  "read_power E n b =
     (let m = bank_mat b; s = mat_subarray m in
      bank_energy E n '' -  Read Dynamic Energy = '' (readDynamicEnergy b) [] (read_tsv_energy b)
        (routingReadDynamicEnergy b) (readDynamicEnergy m)
      @ mat_energy n b (readDynamicEnergy m) (readDynamicEnergy s) @ read_energy_lines E n s)"

text \<open>In the energy of a RESET the label of the routing is that of the H-tree in both cases.\<close>

definition phase_power :: "Env \<Rightarrow> nat \<Rightarrow> 'a BankUnit_scheme \<Rightarrow> lines" where
  "phase_power E n b =
     (let m = bank_mat b; s = mat_subarray m; v = bank_tsvArray b;
          array = mat_energy n b (writeDynamicEnergy m) (writeDynamicEnergy s) @ write_energy_lines n s
      in bank_energy (E\<lparr>e_ip := (e_ip E)\<lparr>routingMode := h_tree\<rparr>\<rparr>) n '' - RESET Dynamic Energy = '' (resetDynamicEnergy b) []
           (tsv_energy b (resetDynamicEnergy v) numAccessBits) (routingResetDynamicEnergy b) (resetDynamicEnergy m)
         @ array @ [energy n ''       |--- Cell RESET Dynamic Energy  = '' (cellResetEnergy s)]
         @ bank_energy E n '' - SET Dynamic Energy = '' (setDynamicEnergy b) [] []
             (routingSetDynamicEnergy b) (setDynamicEnergy m)
         @ array @ [energy n ''       |--- Cell SET Dynamic Energy    = '' (cellSetEnergy s)])"

definition flash_power :: "Env \<Rightarrow> nat \<Rightarrow> 'a BankUnit_scheme \<Rightarrow> lines" where
  "flash_power E n b =
     (let m = bank_mat b; s = mat_subarray m; v = bank_tsvArray b;
          array = mat_energy n b (writeDynamicEnergy m) (writeDynamicEnergy s) @ write_energy_lines n s
      in bank_energy E n '' - Erase Dynamic Energy = '' (resetDynamicEnergy b) [Text '' per block'']
           (tsv_energy b (resetDynamicEnergy v) numAccessBits) (routingResetDynamicEnergy b) (resetDynamicEnergy m)
         @ array
         @ bank_energy E n '' - Programming Dynamic Energy = '' (setDynamicEnergy b) [Text '' per page''] []
             (routingSetDynamicEnergy b) (setDynamicEnergy m)
         @ array)"

definition write_power :: "Env \<Rightarrow> nat \<Rightarrow> 'a BankUnit_scheme \<Rightarrow> lines" where
  "write_power E n b =
     (let m = bank_mat b; s = mat_subarray m; v = bank_tsvArray b in
      bank_energy E n '' - Write Dynamic Energy = '' (writeDynamicEnergy b) []
        (tsv_energy b (writeDynamicEnergy v) numAccessBits) (routingWriteDynamicEnergy b) (writeDynamicEnergy m)
      @ mat_energy n b (writeDynamicEnergy m) (writeDynamicEnergy s) @ write_energy_lines n s
      @ (if memCellType (e_cell E) = MRAM
         then [energy n ''       |--- Bitline & Cell Write Energy= '' (cellResetEnergy s)] else []))"

definition refresh_power_lines :: "Env \<Rightarrow> nat \<Rightarrow> 'a BankUnit_scheme \<Rightarrow> lines" where
  "refresh_power_lines E n b =
     (let m = bank_mat b; s = mat_subarray m; v = bank_tsvArray b in
      if memCellType (e_cell E) \<noteq> eDRAM then []
      else
        bank_energy E n '' - Refresh Dynamic Energy = '' (refreshDynamicEnergy b) []
          (tsv_energy b (writeDynamicEnergy v) numReadBits) (routingRefreshDynamicEnergy b) (refreshDynamicEnergy m)
        @ mat_energy n b (refreshDynamicEnergy m) (refreshDynamicEnergy s)
        @ [energy n ''       |--- Row Decoder Dynamic Energy = '' (refreshDynamicEnergy (sub_rowDecoder s))]
        @ (if internalSensing (e_ip E)
           then [energy n ''       |--- Senseamp Dynamic Energy    = '' (refreshDynamicEnergy (sub_senseAmp s))] else [])
        @ [energy n ''       |--- Precharge Dynamic Energy   = '' (refreshDynamicEnergy (sub_precharger s))])"

definition tsv_leakage :: "'a BankUnit_scheme \<Rightarrow> dbl list" where
  "tsv_leakage b =
     (let v = bank_tsvArray b; u = mat_tsvArray (bank_mat b);
          above = leakage v * dies_above b * i2d (numTotalBits v)
      in on_dies b [above]
           [above + leakage u * i2d (bank_numColumnMat b) * i2d (bank_numRowMat b) * i2d (numTotalBits u)])"

definition leakage_lines :: "Env \<Rightarrow> nat \<Rightarrow> 'a BankUnit_scheme \<Rightarrow> lines" where
  "leakage_lines E n b =
     [power n '' - Leakage Power = '' (leakage b)]
     @ map (power n '' |--- TSV Leakage              = '') (tsv_leakage b)
     @ [power n (routing_text E '' |--- H-Tree Leakage Power     = '' '' |--- Non-H-Tree Leakage Power = '') (routingLeakage b),
        line n [Text '' |--- Mat Leakage Power        = '', TO_WATT (leakage (bank_mat b)), Text '' per mat'']]
     @ (if memCellType (e_cell E) = eDRAM
        then [power n '' - Refresh Power = '' (refreshDynamicEnergy b / retentionTime (e_cell E))] else [])"

definition power_lines :: "Env \<Rightarrow> nat \<Rightarrow> 'a BankUnit_scheme \<Rightarrow> lines" where
  "power_lines E n b =
     [line n [Text ''Power:'']] @ read_power E n b
     @ (if two_phases (e_cell E) then phase_power E n b
        else if memCellType (e_cell E) = SLCNAND then flash_power E n b else write_power E n b)
     @ refresh_power_lines E n b @ leakage_lines E n b"

subsection \<open>The reports\<close>

text \<open>The cell of the result is printed; the figures use the cell of the run.\<close>

definition print :: "Env \<Rightarrow> nat \<Rightarrow> MemCell \<Rightarrow> 'a BankUnit_scheme \<Rightarrow> Result \<Rightarrow> lines" where
  "print E n techCell b r =
     [line n []] @ banner n ''   SUMMARY   ''
     @ [line n [Text ''Optimized for: '', Text (printOptimizationTarget (res_optimizationTarget r))]]
     @ PrintCell n techCell @ configuration_lines E n b r @ banner n ''   RESULT''
     @ area_lines E n b @ timing_lines E n b @ power_lines E n b"

text \<open>A title stands in front of the first line of what follows.\<close>

fun titled :: "string \<Rightarrow> lines \<Rightarrow> lines" where
  "titled t [] = [[Text t]]"
| "titled t (l # ls) = (Text t # l) # ls"

definition for_eDRAM :: "Env \<Rightarrow> lines \<Rightarrow> lines" where
  "for_eDRAM E ls = (if memCellType (e_cell E) = eDRAM then ls else [])"

definition cache_area_lines :: "CacheFigures \<Rightarrow> 'a FunctionUnit_scheme \<Rightarrow> 'b FunctionUnit_scheme \<Rightarrow> lines" where
  "cache_area_lines c d t =
     [[Text ''Area:''], [Text '' - Total Area = '', Figure (cacheArea c * lit 1 6), Text ''mm^2''],
      [Text '' |--- Data Array Area = '', Figure (height d * lit 1 6), Text ''um x '', Figure (width d * lit 1 6),
       Text ''um = '', Figure (area d * lit 1 6), Text ''mm^2''],
      [Text '' |--- Tag Array Area  = '', Figure (height t * lit 1 6), Text ''um x '', Figure (width t * lit 1 6),
       Text ''um = '', Figure (area t * lit 1 6), Text ''mm^2'']]"

definition cache_timing_lines :: "Env \<Rightarrow> CacheFigures \<Rightarrow> 'a FunctionUnit_scheme \<Rightarrow> 'b FunctionUnit_scheme \<Rightarrow> lines" where
  "cache_timing_lines E c d t =
     (let refresh = cMAX (refreshLatency t) (refreshLatency d); r = retentionTime (e_cell E)
      in [[Text ''Timing:''],
          [Text '' - Cache Hit Latency   = '', Figure (cacheHitLatency c * lit 1 9), Text ''ns''],
          [Text '' - Cache Miss Latency  = '', Figure (cacheMissLatency c * lit 1 9), Text ''ns''],
          [Text '' - Cache Write Latency = '', Figure (cacheWriteLatency c * lit 1 9), Text ''ns'']]
         @ for_eDRAM E
             [[Text '' - Cache Refresh Latency = '', Figure (refresh * lit 1 6), Text ''us per bank''],
              [Text '' - Cache Availability = '', Figure ((r - refresh) / r * 100), Text ''%'']])"

definition cache_power_lines :: "Env \<Rightarrow> CacheFigures \<Rightarrow> 'a FunctionUnit_scheme \<Rightarrow> 'b FunctionUnit_scheme \<Rightarrow> lines" where
  "cache_power_lines E c d t =
     [[Text ''Power:''],
      [Text '' - Cache Hit Dynamic Energy   = '', Figure (cacheHitDynamicEnergy c * lit 1 9), Text ''nJ per access''],
      [Text '' - Cache Miss Dynamic Energy  = '', Figure (cacheMissDynamicEnergy c * lit 1 9), Text ''nJ per access''],
      [Text '' - Cache Write Dynamic Energy = '', Figure (cacheWriteDynamicEnergy c * lit 1 9), Text ''nJ per access'']]
     @ for_eDRAM E
         [[Text '' - Cache Refresh Dynamic Energy = '', Figure ((refreshDynamicEnergy t + refreshDynamicEnergy d) * lit 1 9),
           Text ''nJ per bank'']]
     @ [[Text '' - Cache Total Leakage Power  = '', Figure (cacheLeakage c * lit 1 3), Text ''mW''],
        [Text '' |--- Cache Data Array Leakage Power = '', Figure (leakage d * lit 1 3), Text ''mW''],
        [Text '' |--- Cache Tag Array Leakage Power  = '', Figure (leakage t * lit 1 3), Text ''mW'']]
     @ for_eDRAM E
         [[Text '' - Cache Refresh Power = '', TO_WATT (refreshDynamicEnergy d / retentionTime (e_cell E)), Text '' per bank'']]"

text \<open>Data and tag arrays come with the cell of their results.\<close>

definition printAsCache ::
  "Env \<Rightarrow> int \<Rightarrow> CacheAccessMode \<Rightarrow> MemCell \<times> BankUnit \<times> Result \<Rightarrow> MemCell \<times> BankUnit \<times> Result \<Rightarrow> lines" where
  "printAsCache E level mode dataResult tagResult =
     (let (dc, d, dr) = dataResult; (tc, t, tr) = tagResult;
          c = cache_figures mode (bank_mat d) (Bank.truncate d) (Bank.truncate t) in
      if \<not> valid_cache (Bank.truncate d) (Bank.truncate t) then [[Text ''This is not a valid cache configuration.'']]
      else
        [[], [Text ''=======================''], [Text ''CACHE DESIGN -- SUMMARY''], [Text ''=======================''],
         [Text ''Access Mode: '', Text (mode_text mode)]]
        @ cache_area_lines c d t @ cache_timing_lines E c d t @ cache_power_lines E c d t
        @ (if 0 < level
           then [[]] @ titled ''CACHE DATA ARRAY DETAILS'' (print E 4 dc d dr)
             @ [[]] @ titled ''CACHE TAG ARRAY DETAILS'' (print E 4 tc t tr)
           else []))"

end
