(* ===== verification/Breakdown.thy ===== *)
theory Breakdown
  imports Console BankShape
begin

text \<open>
  The parts that the report shows below a figure of a bank: the TSVs, the routing and the mats.  For a bank
  with whole mats on a die they add up to the figure.
\<close>

subsection \<open>Sums of doubles\<close>

lemma fin_add_back: "fin y \<Longrightarrow> x - y + y = (x :: dbl)"
  by (cases x; cases y) (simp_all add: plus_dbl_def minus_dbl_def fin_def)

lemma i2d_mult: "i2d (a * b) = i2d a * i2d b"
  by (simp add: i2d_def)

subsection \<open>What is shown\<close>

text \<open>The sum of the parts, and the figures that must be numbers.\<close>

definition shown :: "dbl list \<Rightarrow> dbl \<Rightarrow> dbl \<Rightarrow> dbl" where
  "shown tsvs rest m = foldl (+) (rest + m) tsvs"

definition figures_fin :: "'a FunctionUnit_scheme \<Rightarrow> bool" where
  "figures_fin u \<longleftrightarrow> fin (readLatency u) \<and> fin (writeLatency u) \<and> fin (readDynamicEnergy u) \<and> fin (writeDynamicEnergy u)"

definition adds_up :: "'a BankUnit_scheme \<Rightarrow> bool" where
  "adds_up b \<longleftrightarrow> (let m = bank_mat b; v = bank_tsvArray b in
     shown (read_tsv_latency b) (routingReadLatency b) (readLatency m) = readLatency b
     \<and> shown (tsv_latency b (writeLatency v)) (routingWriteLatency b) (writeLatency m) = writeLatency b
     \<and> shown (read_tsv_energy b) (routingReadDynamicEnergy b) (active_mats b (readDynamicEnergy m)) = readDynamicEnergy b
     \<and> shown (tsv_energy b (writeDynamicEnergy v) numAccessBits) (routingWriteDynamicEnergy b)
         (active_mats b (writeDynamicEnergy m)) = writeDynamicEnergy b)"

text \<open>
  With predecoders on a die of their own the report counts the TSVs of a mat, which are part of the latency of
  the mat already, and leaves out the way of the address through the TSVs of the bank.
\<close>

definition off_by_address :: "'a BankUnit_scheme \<Rightarrow> bool" where
  "off_by_address b \<longleftrightarrow> (let m = bank_mat b in
     shown (read_tsv_latency b) (routingReadLatency b) (readLatency m) + dies_above b * writeLatency (bank_tsvArray b)
     = readLatency b + dies_above b * writeLatency (mat_tsvArray m))"

definition parts_ok :: "'a BankUnit_scheme \<Rightarrow> bool" where
  "parts_ok b \<longleftrightarrow> (bank_partitionGranularity b = 0 \<longrightarrow> adds_up b)
     \<and> (bank_partitionGranularity b = 1 \<and> 1 < bank_stackedDieCount b \<longrightarrow> off_by_address b)"

definition parts_fin :: "'a BankUnit_scheme \<Rightarrow> bool" where
  "parts_fin b \<longleftrightarrow> figures_fin (bank_mat b) \<and> figures_fin (bank_tsvArray b) \<and> figures_fin (mat_tsvArray (bank_mat b))"

text \<open>What the evaluation of a bank does to its figures is enough for this.\<close>

lemma parts_okI:
  fixes b :: "'a BankUnit_scheme"
  defines "m \<equiv> bank_mat b" and "v \<equiv> bank_tsvArray b" and "n \<equiv> i2d (bank_stackedDieCount b - 1)"
  assumes "parts_fin b"
    and "routingReadLatency b = x - readLatency m" "routingWriteLatency b = y - writeLatency m"
    and "routingReadDynamicEnergy b
      = e - readDynamicEnergy m * i2d (bank_numActiveMatPerColumn b) * i2d (bank_numActiveMatPerRow b)"
    and "routingWriteDynamicEnergy b
      = f - writeDynamicEnergy m * i2d (bank_numActiveMatPerColumn b) * i2d (bank_numActiveMatPerRow b)"
    and "readLatency b = (if 1 < bank_stackedDieCount b then x + (n * readLatency v + n * writeLatency v) else x)"
    and "writeLatency b = (if 1 < bank_stackedDieCount b then y + n * writeLatency v else y)"
    and "readDynamicEnergy b = (if 1 < bank_stackedDieCount b
      then e + (i2d (numReadBits v * (bank_stackedDieCount b - 1)) * writeDynamicEnergy v + i2d (numDataBits v) * readDynamicEnergy v * n)
      else e)"
    and "writeDynamicEnergy b = (if 1 < bank_stackedDieCount b
      then f + i2d (numAccessBits v * (bank_stackedDieCount b - 1)) * writeDynamicEnergy v else f)"
  shows "parts_ok b"
proof -
  have fin: "figures_fin m" "figures_fin v" "figures_fin (mat_tsvArray m)"
    using assms(4) by (simp_all add: parts_fin_def m_def v_def)
  obtain rm wm em fm where m: "readLatency m = Fin rm" "writeLatency m = Fin wm" "readDynamicEnergy m = Fin em"
    "writeDynamicEnergy m = Fin fm" using fin(1) by (auto simp: figures_fin_def fin_def)
  obtain rv wv ev fv where v: "readLatency v = Fin rv" "writeLatency v = Fin wv" "readDynamicEnergy v = Fin ev"
    "writeDynamicEnergy v = Fin fv" using fin(2) by (auto simp: figures_fin_def fin_def)
  obtain wu where u: "writeLatency (mat_tsvArray m) = Fin wu" using fin(3) by (auto simp: figures_fin_def fin_def)
  have restored: "e - Fin (em * real_of_int p * real_of_int q) + Fin (em * real_of_int q * real_of_int p) = e"
    for e :: dbl and em p q
    using fin_add_back [of "Fin (em * real_of_int p * real_of_int q)" e] by (simp add: mult.commute mult.left_commute)
  note parts = shown_def m_def [symmetric] v_def [symmetric] read_tsv_latency_def tsv_latency_def
    read_tsv_energy_def tsv_energy_def on_dies_def dies_above_def n_def [symmetric] active_mats_def
  have "adds_up b" if "bank_partitionGranularity b = 0"
    unfolding adds_up_def Let_def parts using assms(5-) that m v
    by (simp add: i2d_def n_def fin_add_back restored algebra_simps)
  moreover have "off_by_address b" if "bank_partitionGranularity b = 1" "1 < bank_stackedDieCount b"
    unfolding off_by_address_def Let_def parts using assms(5,9) that m v u
    by (simp add: i2d_def n_def fin_add_back add.assoc algebra_simps)
  ultimately show ?thesis by (simp add: parts_ok_def)
qed

subsection \<open>Both organisations\<close>

text \<open>A valid bank after the evaluation of its figures.\<close>

definition evaluated_bank :: "Env \<Rightarrow> BankUnit \<Rightarrow> bool" where
  "evaluated_bank E u \<longleftrightarrow> bank_initialized u \<and> \<not> bank_invalid u
     \<and> ((\<exists>b E' b'. BankWithHtree_CalculateLatencyAndPower E b = Inr (E', b') \<and> u = BankUnit.truncate b')
      \<or> (\<exists>b E' b'. BankWithoutHtree_CalculateLatencyAndPower E b = Inr (E', b') \<and> u = BankUnit.truncate b'))"

lemma tree_mat [simp]:
  "bank_mat (add_level x c y z w b) = bank_mat b" "bank_mat (htree_mats m b) = bank_mat b"
  "bank_mat (put_mat m b) = m"
  by (cases b; simp add: add_level_def htree_mats_def cell_energies_def put_mat_def Let_def split_beta)+

lemma htree_level_mat: "keeps (\<lambda>Eb. bank_mat (snd Eb) = m) (htree_level L i Eb)" if "bank_mat (snd Eb) = m"
  using that unfolding htree_level_def
  by (intro keeps_ebind keeps_if)
     (auto simp: keeps_def ebind_Inr split_beta)

lemma htree_levels_mat:
  assumes "for_up 0 k (htree_level L) (E, b) = Inr (E', b')" shows "bank_mat b' = bank_mat b"
  using keepsD [OF keeps_for_up [where P = "\<lambda>Eb. bank_mat (snd Eb) = bank_mat b", OF _ htree_level_mat] assms] by simp

lemma htree_power_routing:
  assumes "htree_power E b = Inr (E', b')"
  obtains c E1 where "htree_dies E1 (add_routing (bank_mat c) c) = Inr b'"
proof -
  from assms obtain m E1 m1 E2 b2 E3 b3 where
    "for_up 0 (levelHorizontal b) (htree_level (horizontal b)) (E1, htree_mats m1 (put_mat m1 b)) = Inr (E2, b2)"
    and 2: "for_up 0 (levelVertical b) (htree_level (vertical b)) (E2, b2) = Inr (E3, b3)"
    and 3: "htree_dies E3 (add_routing m1 b3) = Inr b'"
    by (auto simp: htree_power_def ebind_Inr)
  then have "bank_mat b3 = m1" using htree_levels_mat by fastforce
  then show ?thesis using that 3 by blast
qed

lemma tree_parts:
  assumes "htree_dies E (add_routing (bank_mat c) c) = Inr b"
    and "parts_fin b"
  shows "parts_ok b"
proof (cases "1 < bank_stackedDieCount c")
  case False
  then have b: "b = add_routing (bank_mat c) c"
    using assms(1) by (cases c) (simp add: htree_dies_def add_routing_def Let_def)
  show ?thesis
    by (rule parts_okI [OF assms(2), of "readLatency c" "writeLatency c" "readDynamicEnergy c" "writeDynamicEnergy c"];
        use False b in \<open>cases c, simp add: add_routing_def Let_def\<close>)
next
  case True
  then obtain v where b: "b = add_tsv_energy v (htree_tsv_latency v ((add_routing (bank_mat c) c)\<lparr>bank_tsvArray := v\<rparr>))"
    using assms(1) by (cases c) (auto simp: htree_dies_def add_routing_def Let_def ebind_Inr)
  show ?thesis
    by (rule parts_okI [OF assms(2), of "readLatency c" "writeLatency c" "readDynamicEnergy c" "writeDynamicEnergy c"];
        use True b in \<open>cases c, simp add: add_routing_def add_tsv_energy_def htree_tsv_latency_def Let_def\<close>)
qed

lemma plain_parts:
  assumes "plain_dies E (add_routing (bank_mat c) c) = Inr b" "bank_initialized b" "\<not> bank_invalid b"
    and "parts_fin b"
  shows "parts_ok b"
proof (cases "bank_initialized c \<and> \<not> bank_invalid c \<and> 1 < bank_stackedDieCount c")
  case False
  then have b: "b = add_routing (bank_mat c) c"
    using assms(1) by (cases c) (auto simp: plain_dies_def add_routing_def Let_def)
  then have "\<not> 1 < bank_stackedDieCount c"
    using False assms(2,3) by (cases c) (simp add: add_routing_def Let_def)
  with b show ?thesis
    by - (rule parts_okI [OF assms(4), of "readLatency c" "writeLatency c" "readDynamicEnergy c" "writeDynamicEnergy c"];
        cases c, simp add: add_routing_def Let_def)
next
  case True
  then obtain v where b: "b = add_tsv_energy v (plain_tsv_latency v ((add_routing (bank_mat c) c)\<lparr>bank_tsvArray := v\<rparr>))"
    using assms(1) by (cases c) (auto simp: plain_dies_def add_routing_def Let_def ebind_Inr)
  show ?thesis
    by (rule parts_okI [OF assms(4), of "readLatency c" "writeLatency c" "readDynamicEnergy c" "writeDynamicEnergy c"];
        use True b in \<open>cases c, simp add: add_routing_def add_tsv_energy_def plain_tsv_latency_def Let_def\<close>)
qed

text \<open>The test of the retention time marks a bank, and the base class is what the report reads.\<close>

lemma parts_base [simp]:
  "parts_ok (check_retention E b) = parts_ok b" "parts_ok (BankUnit.truncate b) = parts_ok b"
  by (cases b; simp add: parts_ok_def off_by_address_def adds_up_def check_retention_def read_tsv_latency_def tsv_latency_def
      read_tsv_energy_def tsv_energy_def on_dies_def dies_above_def active_mats_def BankUnit.truncate_def Let_def)+

lemma check_retention_keeps [simp]:
  "bank_mat (check_retention E b) = bank_mat b" "bank_tsvArray (check_retention E b) = bank_tsvArray b"
  "bank_partitionGranularity (check_retention E b) = bank_partitionGranularity b"
  "bank_initialized (check_retention E b) = bank_initialized b"
  "\<not> bank_invalid (check_retention E b) \<Longrightarrow> \<not> bank_invalid b"
  by (cases b; auto simp: check_retention_def split: if_splits)+

lemma check_retention_invalid: "bank_invalid b \<Longrightarrow> bank_invalid (check_retention E b)"
  by (simp add: check_retention_def)

lemma invalid_stays:
  fixes b :: BankWithHtree
  assumes "bank_invalid b"
  shows "bank_invalid (check_retention E (b\<lparr>readLatency := x, writeLatency := x,
    readDynamicEnergy := y, writeDynamicEnergy := y, leakage := z\<rparr>))"
  by (rule check_retention_invalid, insert assms, cases b, simp)

lemma BankUnit_truncate_simps [simp]:
  "bank_mat (BankUnit.truncate b) = bank_mat b" "bank_tsvArray (BankUnit.truncate b) = bank_tsvArray b"
  "bank_partitionGranularity (BankUnit.truncate b) = bank_partitionGranularity b"
  "bank_initialized (BankUnit.truncate b) = bank_initialized b" "bank_invalid (BankUnit.truncate b) = bank_invalid b"
  by (cases b; simp add: BankUnit.truncate_def)+

lemma parts_fin_base [simp]:
  "parts_fin (check_retention E b) = parts_fin b" "parts_fin (BankUnit.truncate b) = parts_fin b"
  by (simp_all add: parts_fin_def)

lemma evaluated_parts:
  assumes "evaluated_bank E u" "parts_fin u" shows "parts_ok u"
proof -
  have valid: "bank_initialized u" "\<not> bank_invalid u" using assms(1) by (simp_all add: evaluated_bank_def)
  from assms(1) consider
    (tree) b E' b' where "BankWithHtree_CalculateLatencyAndPower E b = Inr (E', b')" "u = BankUnit.truncate b'"
  | (plain) b E' b' where "BankWithoutHtree_CalculateLatencyAndPower E b = Inr (E', b')" "u = BankUnit.truncate b'"
    unfolding evaluated_bank_def by blast
  then show ?thesis
  proof cases
    case tree
    from tree(1) valid tree(2) obtain d where p: "htree_power E b = Inr (E', d)" and b': "b' = check_retention E' d"
      by (auto simp: BankWithHtree_CalculateLatencyAndPower_def ebind_Inr invalid_stays split: if_splits)
    obtain c E1 where "htree_dies E1 (add_routing (bank_mat c) c) = Inr d" by (rule htree_power_routing [OF p])
    then have "parts_ok d" by (rule tree_parts) (use assms(2) tree(2) b' in simp_all)
    then show ?thesis using tree(2) b' by simp
  next
    case plain
    from plain(1) obtain c d where "plain_dies E' (add_routing (bank_mat c) c) = Inr d"
      and b': "b' = check_retention E' d"
      by (auto simp: BankWithoutHtree_CalculateLatencyAndPower_def Let_def ebind_Inr)
    then have "parts_ok d"
      by (rule_tac plain_parts) (use assms(2) plain(2) b' valid in simp_all)
    then show ?thesis using plain(2) b' by simp
  qed
qed

end
