(* ===== verification/SampleReport.thy ===== *)
theory SampleReport
  imports Breakdown SampleUnits Sample
begin

text \<open>
  A bank of one mat on two dies that are connected by TSVs without buffers, evaluated in the arrangement with
  an H-tree, to exhibit an instance of the theorem on the report.  The mat keeps the figures that it has.
\<close>

definition sample_mat :: "Mat \<Rightarrow> Mat" where
  "sample_mat raw = raw\<lparr>readLatency := 3, writeLatency := 4, readDynamicEnergy := 5, writeDynamicEnergy := 6,
     mat_initialized := False, mat_tsvArray := sample_tsv\<rparr>"

definition sample_tree :: "BankWithHtree \<Rightarrow> BankWithHtree" where
  "sample_tree raw = raw\<lparr>bank_initialized := True, bank_invalid := False, levelHorizontal := 0, levelVertical := 0,
     bank_stackedDieCount := 2, bank_partitionGranularity := 0, bank_capacity := 1024, bank_blockSize := 32,
     bank_associativity := 1, bank_mat := sample_mat (bank_mat raw), bank_tsvArray := sample_tsv\<rparr>"

definition sample_env :: "Env \<Rightarrow> Env" where
  "sample_env E = E\<lparr>e_tech := sample_tech, e_ip := sample_ip, e_cell := sample_cell\<rparr>"

lemma sample_env_simps [simp]:
  "e_tech (sample_env E) = sample_tech" "e_ip (sample_env E) = sample_ip" "e_cell (sample_env E) = sample_cell"
  by (simp_all add: sample_env_def)

lemma sample_mat_simps [simp]:
  "readLatency (sample_mat m) = 3" "writeLatency (sample_mat m) = 4" "readDynamicEnergy (sample_mat m) = 5"
  "writeDynamicEnergy (sample_mat m) = 6" "\<not> mat_initialized (sample_mat m)" "mat_tsvArray (sample_mat m) = sample_tsv"
  by (cases m; simp add: sample_mat_def)+

lemma sample_tsv_evaluated:
  obtains v where "TSV_CalculateLatencyAndPower sample_tech sample_ip (lit 1 20) infinite_ramp sample_tsv = Inr v"
    "figures_fin v"
proof -
  obtain dr rr where r: "horowitz (1 * 1 / 2) tsv_beta (lit 1 20) = (dr, rr)" by force
  obtain dw rw where w: "horowitz (1 * 1 / 2) tsv_beta infinite_ramp = (dw, rw)" by force
  have p: "fpos (1 * 1 / 2 :: dbl)" "fnn tsv_beta" "fpos (lit 1 20)" "fpos infinite_ramp" "lit 1 20 \<noteq> 0" "infinite_ramp \<noteq> 0"
    by (simp_all add: tsv_beta_def lit_def dbl_lits infinite_ramp_def)
  have "fpos dr" "fpos dw" using horowitz_pos [OF p(1,2,3) r] horowitz_pos [OF p(1,2,4) w] by blast+
  then show ?thesis
    using r w p(5,6) by (intro that)
      (auto simp: TSV_CalculateLatencyAndPower_def TSV_latency_power_def sample_tsv_def sample_tech_def Let_def guard_exit_def
        figures_fin_def dbl_lits fpos_def fin_def)
qed

lemma sample_bank_tsv:
  assumes "bank_capacity b = 1024" "bank_blockSize b = 32" "bank_associativity b = 1" "bank_stackedDieCount b = 2"
    "bank_partitionGranularity b = 0"
  obtains v where "bank_tsv_power (sample_env E) b sample_tsv = Inr v" "figures_fin v"
proof -
  obtain v where v: "TSV_CalculateLatencyAndPower sample_tech sample_ip (lit 1 20) infinite_ramp sample_tsv = Inr v"
    "figures_fin v" by (rule sample_tsv_evaluated)
  have a: "bank_address_bits b = Inr 4"
    using ilog2_pow2 [of 4] assms by (simp add: bank_address_bits_def i2d_def)
  show ?thesis
    using v assms that
    by (simp add: bank_tsv_power_def tsv_counts_def tsv_control_bits_def a with_redundancy_def sample_ip_def
        d2i_def i2d_def dbl_lits int_ok_def trunc_def wrap32_def figures_fin_def)
qed

lemma sample_tree_evaluated:
  obtains E' b where "BankWithHtree_CalculateLatencyAndPower (sample_env E) (sample_tree raw) = Inr (E', b)"
    "bank_initialized b" "\<not> bank_invalid b" "parts_fin b" "bank_partitionGranularity b = 0"
    "bank_stackedDieCount b = 2"
proof -
  let ?E = "sample_env E" and ?m = "sample_mat (bank_mat raw)"
  let ?b = "add_routing ?m (htree_mats ?m (put_mat ?m (sample_tree raw)))"
  have b: "bank_capacity ?b = 1024" "bank_blockSize ?b = 32" "bank_associativity ?b = 1" "bank_stackedDieCount ?b = 2"
    "bank_partitionGranularity ?b = 0" "bank_tsvArray ?b = sample_tsv" "bank_mat ?b = ?m"
    "bank_initialized ?b" "\<not> bank_invalid ?b"
    by (cases raw; simp add: add_routing_def htree_mats_def cell_energies_def put_mat_def sample_tree_def Let_def)+
  obtain v where v: "bank_tsv_power ?E ?b sample_tsv = Inr v" "figures_fin v"
    by (rule sample_bank_tsv [OF b(1-5), of E])
  let ?c = "add_tsv_energy v (htree_tsv_latency v (?b\<lparr>bank_tsvArray := v\<rparr>))"
  have "bank_mat (sample_tree raw) = ?m" "bank_initialized (sample_tree raw)" "\<not> bank_invalid (sample_tree raw)"
    "levelHorizontal (sample_tree raw) = 0" "levelVertical (sample_tree raw) = 0"
    by (cases raw; simp add: sample_tree_def)+
  then have "htree_power ?E (sample_tree raw) = Inr (?E, ?c)"
    using b(4,6) v(1) by (simp add: htree_power_def Mat_CalculateLatency_def Mat_CalculatePower_def htree_dies_def)
  moreover have "check_retention ?E ?c = ?c" by (simp add: check_retention_def sample_cell_def)
  ultimately have "BankWithHtree_CalculateLatencyAndPower ?E (sample_tree raw) = Inr (?E, ?c)"
    using \<open>bank_initialized (sample_tree raw)\<close> \<open>\<not> bank_invalid (sample_tree raw)\<close>
    by (simp add: BankWithHtree_CalculateLatencyAndPower_def)
  moreover have "bank_mat ?c = ?m" "bank_tsvArray ?c = v" "bank_partitionGranularity ?c = 0" "bank_stackedDieCount ?c = 2"
    "bank_initialized ?c" "\<not> bank_invalid ?c"
    by (cases raw; simp add: add_routing_def htree_mats_def cell_energies_def put_mat_def sample_tree_def
        add_tsv_energy_def htree_tsv_latency_def Let_def)+
  moreover have "figures_fin ?m" "figures_fin sample_tsv" by (simp_all add: figures_fin_def sample_tsv_def dbl_lits)
  ultimately show ?thesis using that v(2) by (simp add: parts_fin_def)
qed

end
