(* ===== verification/Spec2Isabelle.thy ===== *)
theory Spec2Isabelle
  imports SampleUnits Mux Comparator Precharger TSV Repeater Sample Routing Explored Process ReadBack SampleProgram SampleReport
begin

text \<open>
  DESTINY: a simulator for the area, latency and power of memory arrays.

  \<^bold>\<open>The program.\<close>  \<open>main\<close> reads a configuration (\<open>InputParameter.cpp\<close>), chooses the technology of the process
  node (\<open>Technology.cpp\<close>) and calls \<open>nvsim\<close> (\<open>main.cpp\<close>) for every memory cell of the configuration, whose file
  \<open>MemCell.cpp\<close> reads.  \<open>nvsim\<close> visits all designs of a search space, for a cache first those of the tag array and
  then those of the data array.  For each design the macro \<open>CALCULATE\<close> (\<open>macros.h\<close>) constructs a bank of one
  of two organisations (\<open>BankWithHtree.cpp\<close>, \<open>BankWithoutHtree.cpp\<close>), which consists of mats (\<open>Mat.cpp\<close>), which consist
  of subarrays (\<open>SubArray.cpp\<close>), which consist of decoders, drivers, multiplexers and sense amplifiers, each
  computed with the formulas of \<open>formula.cpp\<close>.  The best bank for each of eight targets is kept
  (\<open>Result.cpp\<close>), the wires are refined, and the results of all cells are merged and reported.

  \<^bold>\<open>Conventions.\<close>  A \<open>double\<close> is a real number, an infinity or NaN (theory \<open>Dbl\<close>): the special values are those
  of IEEE arithmetic, rounding is not modelled.  An \<open>int\<close> is an integer; a product of \<open>int\<close>s that overflows,
  a cast out of range, a division by zero, an index outside of an array and the use of an uninitialized
  element are the value \<open>Inl Undef\<close>, an \<open>exit\<close> is \<open>Inl Exit\<close> and a loop that does not end \<open>Inl Diverge\<close> (theory
  \<open>Prelude\<close>).  Integers of 64 bits are not bounded.  A class is a record and a subclass an extension of it; a
  constructor takes the memory in which the object is constructed, since most constructors leave members
  as they are.  The global variables are the fields of \<open>Env\<close> (theory \<open>SubArray\<close>) and \<open>Globals\<close> (theory \<open>Explore\<close>).
  An operation has the name of its class in front, as in \<open>Mat_CalculateArea\<close>; parts of a long function that
  have no name in the code are definitions of their own.

  \<^bold>\<open>Theories.\<close>
  \<^item> \<open>Prelude\<close>, \<open>Dbl\<close>, \<open>Types\<close>: outcomes, arrays, loops, the locale \<open>keeper\<close> of what keeps a best candidate;
    doubles and the collection \<open>fsign\<close> of rules for signs; \<open>typedef.h\<close>, \<open>constant.h\<close> and the members of the
    configuration and of a cell.
  \<^item> \<open>Formula\<close>, \<open>Technology\<close>, \<open>Nodes\<close>, \<open>Process\<close>: \<open>formula.cpp\<close>; the members of a technology, interpolation and
    TSV parameters; the tables of the process nodes; \<open>Technology::Initialize\<close> and the choice in \<open>main\<close>.
  \<^item> \<open>FunctionUnit\<close>, \<open>Component\<close>: the base class of all circuits, and the contract that a circuit keeps through
    initialization, area, parasitics, latency and power (the locale \<open>component\<close>).
  \<^item> \<open>OutputDriver\<close>, \<open>BasicDecoder\<close>, \<open>RowDecoder\<close>, \<open>PredecodeBlock\<close>, \<open>Mux\<close>, \<open>SenseAmp\<close>, \<open>Precharger\<close>, \<open>Comparator\<close>,
    \<open>TSV\<close>, \<open>Wire\<close>, \<open>Repeater\<close>: the circuits, one theory for each file of the same name.  The first four
    interpret \<open>component\<close>; \<open>Repeater\<close> has the search for repeaters of \<open>Wire.cpp\<close>.
  \<^item> \<open>MemCell\<close>, \<open>SubArray\<close>, \<open>Mat\<close>, \<open>Bank\<close>, \<open>BankParts\<close>, \<open>Htree\<close>, \<open>BankWithHtree\<close>, \<open>BankWithoutHtree\<close>: the arrays.
  \<^item> \<open>Shape\<close>, \<open>BankShape\<close>, \<open>Capacity\<close>, \<open>Routing\<close>, \<open>Organisations\<close>: what evaluation keeps of the shape of an
    array, what the mats of a bank store, the routing of an H-tree in closed form, and the comparison of
    the two organisations.
  \<^item> \<open>Result\<close>, \<open>Explore\<close>, \<open>Evaluate\<close>, \<open>Search\<close>, \<open>Optimum\<close>, \<open>Nvsim\<close>, \<open>Explored\<close>: the results; the search space, its
    loops, \<open>nvsim\<close> and the merge over the cells, with the evaluation of a bank as an argument; \<open>CALCULATE\<close>;
    the designs that the loops visit; the optimality of what is kept; the search with real banks.
  \<^item> \<open>Scanf\<close>, \<open>ReadConfig\<close>, \<open>ReadCell\<close>, \<open>ReadBack\<close>: the part of \<open>scanf\<close> that is used, both readers with all
    options, and the proof that a written configuration is read back.
  \<^item> \<open>Report\<close>, \<open>Console\<close>, \<open>Breakdown\<close>: the file of the full exploration and the figures of a cache; what is printed on
    the console, line by line; the parts of a figure and their sum.
  \<^item> \<open>Program\<close>: \<open>main\<close>, from the name of the configuration file and the contents of the files to what is
    reported: reading, technology, one run for every cell, merge and choice of the design (\<open>run_cells\<close>, \<open>report\<close>).
    The memory in which the objects are constructed is the record \<open>Memory\<close>.
  \<^item> \<open>Sample\<close>, \<open>SampleUnits\<close>, \<open>SampleReport\<close>, \<open>SampleProgram\<close>: the small instances that the witnesses use; the last one is a run of
    the whole program on a configuration file and on \<open>config/eDRAM.cell\<close>.

  \<^bold>\<open>What the theorems show.\<close>  Program: for a memory chip without constraints the design that is reported is
  optimal among the valid banks of all designs for all cells, and \<open>No valid solutions\<close> is reported exactly when
  there are none; the proof composes the technology, the readers, the search, the refinement and the merge.
  Input: the configuration is read back, and what the readers do with the set
  voltage and with files that cannot be read.  Technology: every configured node has a well-formed one,
  or the program exits.  Circuits: a decoder and a predecoder that are initialized can be evaluated and
  have figures of the right sign, drivers keep their bounds, formulas and wires behave at their limits.
  Banks: an H-tree loses and duplicates no bit on the way to the mats, both organisations store exactly
  the capacity and agree on their mats.  Search: the loops visit every design once and end, what is kept
  is optimal, within limits and of the right capacity, also after the refinement and the merge.  Reports:
  the lines fit the header, the parts of a report add up and the access modes compare.  Where the code is
  not what it means to be, the theorem states what it does.

  \<^bold>\<open>Bounds and termination.\<close>  No definition uses fuel.  The loops that double a counter are a
  \<open>partial_function (option)\<close>, whose value \<open>None\<close> is a loop that does not end; they end when they start above
  zero and stay below \<open>2 ^ 30\<close> (theory \<open>Search\<close>).  The loop of \<open>findPenalizedRepeater\<close> is one too; all other
  loops run over a list or have a measure.

  \<^bold>\<open>Not modelled.\<close>  The operations \<open>PrintProperty\<close> of the circuits, which print members for debugging, and \<open>tsvVerif\<close> are
  not called; messages about progress and errors are not part of an outcome.  The scripts in Python, which
  run the program and train models on its files, are not part of it.  Infinities, NaNs and
  hexadecimal numbers in an input file are left undefined.  The headers of the C library, the rounding of
  \<open>double\<close> and the file system are outside of the model.
\<close>

section \<open>Formulas\<close>

text \<open>C22: \<open>isPow2\<close>, a bit trick on 32-bit words, decides for every 32-bit integer whether it is a
  power of two.\<close>

theorem isPow2_correct:
  assumes "n < 2 ^ 31"
  shows "isPow2 n \<longleftrightarrow> (\<exists>k::nat. n = 2 ^ k)"
proof (cases "0 < n")
  case True
  then show ?thesis
    using land_pred_pow2 [OF True] land_pred_word [OF True assms] by (simp add: isPow2_def pow2_def)
next
  case False
  then have "n \<noteq> 2 ^ k" for k :: nat using zero_less_power [of "2::int" k] by linarith
  then show ?thesis using False by (simp add: isPow2_def)
qed

theorem isPow2_correct_witness: "isPow2 64 \<longleftrightarrow> (\<exists>k::nat. (64::int) = 2 ^ k)"
  by (rule isPow2_correct) simp

text \<open>C25: A gate whose transistors fit into their regions has a positive height and width, and
  the area that \<open>CalculateGateArea\<close> returns is their product.\<close>

theorem gate_area_positive:
  assumes "tech_ok T" "gate_fits wN wP h T" "1 \<le> numInput" "gateType \<in> {0, 1, 2}"
  shows "\<exists>ht wd. CalculateGateArea gateType numInput wN wP h T = Inr (ht, wd, wd * ht)
           \<and> fpos ht \<and> fpos wd"
  using GateArea_ok [OF assms] .

theorem gate_area_positive_witness:
  "\<exists>ht wd. CalculateGateArea 2 2 3 3 20 sample_tech = Inr (ht, wd, wd * ht) \<and> fpos ht \<and> fpos wd"
proof -
  have "gate_fits 3 3 20 sample_tech"
    by (simp add: gate_fits_def fits_def maxWidths_def sample_tech_def dbl_lits Let_def)
  then show ?thesis
    using gate_area_positive [of sample_tech 3 3 20 2 2] env_okD(1) [OF env_ok_sample] by simp
qed

section \<open>The search\<close>

text \<open>C6: The fourteen nested loops of the exploration end, and visit every design of the space exactly
  once, whenever the ranges start above zero and end below 2^30.\<close>

theorem search_visits_all:
  assumes "space_ok assoc stack rowPerSet S"
  shows "\<exists>ds. BIGFOR assoc stack rowPerSet S = Some ds \<and> distinct ds
           \<and> set ds = {d. legal assoc stack rowPerSet S d}"
  using BIGFOR_covers [OF assms] by (simp add: covers_def)

theorem search_visits_all_witness:
  "\<exists>ds. BIGFOR 1 (1, 1) (1, 1) sample_space = Some ds \<and> distinct ds
      \<and> set ds = {d. legal 1 (1, 1) (1, 1) sample_space d}"
  by (rule search_visits_all) (use sample_search_ok in \<open>simp add: search_ok_def\<close>)





text \<open>C12: The pass over the data arrays returns: for a well-formed space whose active products fit an
  integer, when the evaluation of every design returns a bank of the capacity asked for.\<close>

theorem data_search_returns:
  assumes "search_ok ip G" "active_bound (dataSpace (g_search G)) < 2147483648"
    and "INITIAL_BASIC_WIRE ip G = Inr G'"
    and "\<And>d. legal (ip_associativity ip) (stackLayer_range (g_search G))
               (numRowPerSet_range (g_search G)) (dataSpace (g_search G)) d
             \<Longrightarrow> calc_ok calc ip G' cap blk assoc d"
  shows "\<exists>t. data_pass calc fresh ip G accept cap blk assoc s = Inr (G', t)"
  using assms by (rule data_pass_returns)

theorem data_search_returns_witness:
  "\<exists>G' t. data_pass sample_calc sample_result sample_ip sample_globals (\<lambda>_. True) 8192 32 1
            (start_tally (init_results sample_result 0)) = Inr (G', t)"
proof -
  obtain G where G: "INITIAL_BASIC_WIRE sample_ip sample_globals = Inr G" by (rule sample_wires)
  have "calc_ok sample_calc sample_ip G 8192 32 1 d"
    if "legal (ip_associativity sample_ip) (stackLayer_range (g_search sample_globals))
          (numRowPerSet_range (g_search sample_globals)) (dataSpace (g_search sample_globals)) d" for d
    using sample_calc_ok that by simp
  from data_search_returns [OF sample_search_ok _ G this]
  have "\<exists>t. data_pass sample_calc sample_result sample_ip sample_globals (\<lambda>_. True) 8192 32 1
            (start_tally (init_results sample_result 0)) = Inr (G, t)"
    using sample_active_bound by simp
  then show ?thesis by blast
qed

text \<open>C5: The search over the data arrays is optimal.  For each of the eight targets, no valid bank of any
  design of the space that lies within the limits is strictly better than the bank kept after the
  refinement of the wires; target, limits and memory cell of the result are unchanged.\<close>

theorem data_search_optimal:
  assumes "data_phase calc fresh c cell ip G rs = Inr (G', t)"
    and "data_parameters ip cell (g_search G) = (cap, blk, assoc, S)"
    and "search_ok ip (G\<lparr>g_search := S\<rparr>)"
    and "optimizationTarget ip = full_exploration \<or> \<not> isConstraintApplied ip" "i < length rs"
  shows "\<exists>G1. INITIAL_BASIC_WIRE ip (G\<lparr>g_search := S\<rparr>) = Inr G1
      \<and> same_goal (bests t ! i) (rs ! i)
      \<and> (\<forall>b \<in> found_in calc ip G1 (\<lambda>_. True) cap blk assoc. within_limits (rs ! i) b
           \<longrightarrow> \<not> better (res_optimizationTarget (rs ! i)) b (bank (bests t ! i)))"
  using data_phase_optimal [OF assms] by metis

theorem data_search_optimal_witness:
  "\<exists>G' t G1. data_phase sample_calc sample_result sample_overheads sample_cell sample_ip sample_globals
               (init_results sample_result 0) = Inr (G', t)
      \<and> (\<forall>b \<in> found_in sample_calc sample_ip G1 (\<lambda>_. True) 8192 32 1.
           within_limits (init_results sample_result 0 ! 0) b
             \<longrightarrow> \<not> better read_latency_optimized b (bank (bests t ! 0)))"
proof -
  obtain G' t where d: "data_phase sample_calc sample_result sample_overheads sample_cell sample_ip
      sample_globals (init_results sample_result 0) = Inr (G', t)" by (rule sample_data_phase)
  have u: "optimizationTarget sample_ip = full_exploration \<or> \<not> isConstraintApplied sample_ip"
    by (simp add: sample_ip_def)
  have o: "search_ok sample_ip (sample_globals\<lparr>g_search := g_search sample_globals\<rparr>)"
    using sample_search_ok by simp
  from data_search_optimal [OF d sample_parameters o u, of 0] d show ?thesis
    by (auto simp: init_results_def targets_def)
qed



text \<open>C13: Refining the wires never worsens a result: for every target, whatever is better than the bank after
  the refinement was better than the bank before; targets, limits and cells stay.\<close>

theorem refinement_never_worsens:
  assumes "refine calc fresh mt ip S (G, s) = Inr (G', t)" "i < length (bests s)"
  shows "length (bests t) = length (bests s) \<and> same_goal (bests t ! i) (bests s ! i)
      \<and> (\<forall>x :: Bank. better (res_optimizationTarget (bests s ! i)) x (bank (bests t ! i))
            \<longrightarrow> better (res_optimizationTarget (bests s ! i)) x (bank (bests s ! i)))"
  using refine_best [OF assms] by (auto simp: not_worse_def)

theorem refinement_never_worsens_witness:
  "\<exists>G' t. refine sample_calc sample_result data sample_ip sample_space
            (sample_globals, (start_tally (init_results sample_result 0))\<lparr>numSolution := 1\<rparr>) = Inr (G', t)
      \<and> length (bests t) = 8"
proof -
  let ?s = "(start_tally (init_results sample_result 0))\<lparr>numSolution := 1\<rparr>"
  obtain G' t where r: "refine sample_calc sample_result data sample_ip sample_space
      (sample_globals, ?s) = Inr (G', t)" using sample_refine [of ?s] by (auto simp: start_tally_def)
  from refinement_never_worsens [OF r, of 0] r show ?thesis by (auto simp: start_tally_def)
qed

text \<open>C8: Under design constraints a result is either the worst case or a valid bank that satisfies all eight
  limits, which follow from the best banks of the unconstrained search, and no valid bank of the space
  that satisfies them is better for its target.\<close>

theorem constrained_search:
  assumes "constrained_phase calc fresh ip c cap blk assoc (G, s) = Inr (G', t)"
    and "optimizationTarget ip \<noteq> full_exploration" "isConstraintApplied ip"
    and "search_ok ip G" "i < length (bests s)"
  shows "(bank (bests t ! i) = worst_case (bank (bests s ! i))
          \<or> \<not> bank_invalid (bank (bests t ! i)) \<and> satisfies (allowed c (bests s)) (bank (bests t ! i)))
      \<and> (\<forall>b \<in> found_in calc ip G' (satisfies (allowed c (bests s))) cap blk assoc.
           \<not> better (res_optimizationTarget (bests s ! i)) b (bank (bests t ! i)))"
  using constrained_phase_optimal(1,2) [OF assms] by (auto simp: found_in_def found_def)

theorem constrained_search_witness:
  "\<exists>G t. constrained_phase sample_calc sample_result (sample_ip\<lparr>isConstraintApplied := True\<rparr>)
           sample_overheads 8192 32 1 (sample_globals, start_tally (init_results sample_result 0))
         = Inr (G, t)
      \<and> (\<forall>b \<in> found_in sample_calc (sample_ip\<lparr>isConstraintApplied := True\<rparr>) G
             (satisfies (allowed sample_overheads (init_results sample_result 0))) 8192 32 1.
           \<not> better read_latency_optimized b (bank (bests t ! 0)))"
proof -
  let ?ip = "sample_ip\<lparr>isConstraintApplied := True\<rparr>" and ?s = "start_tally (init_results sample_result 0)"
  obtain G t where p: "constrained_phase sample_calc sample_result ?ip sample_overheads 8192 32 1
      (sample_globals, ?s) = Inr (G, t)" by (rule sample_constrained)
  have "search_ok ?ip sample_globals" using sample_search_ok by (simp add: search_ok_def sample_ip_def)
  from constrained_search [OF p _ _ this, of 0] p show ?thesis
    by (auto simp: start_tally_def init_results_def targets_def sample_ip_def)
qed

text \<open>C14: The merge over the memory cells keeps, for a target, a data bank that no data bank of a later cell
  within the limits beats.  The bank and the recorded cell belong to the same run, and when the tag array
  must use the technology of the data array, the tag bank comes from that run too.\<close>

theorem cells_merged:
  assumes "(d, t) = best" "cellTech t = cellTech d"
  shows "(\<forall>n \<in> set news. within_limits d (bank (fst (snd n)))
            \<longrightarrow> \<not> better (res_optimizationTarget d) (bank (fst (snd n)))
                  (bank (fst (merge_cells different news best))))
      \<and> (\<exists>run \<in> insert (cellTech d, bank d, bank t) (run_of ` set news).
            from_run different run (merge_cells different news best))"
  using merge_cells_optimal [OF assms(1)] merge_cells_runs [OF assms] by blast

theorem cells_merged_witness:
  "\<exists>run \<in> insert (None, bank sample_result, bank sample_result)
       (run_of ` set [(1, sample_result\<lparr>bank := sample_bank\<rparr>, sample_result)]).
     from_run False run (merge_cells False [(1, sample_result\<lparr>bank := sample_bank\<rparr>, sample_result)]
       (sample_result, sample_result))"
proof -
  have "cellTech sample_result = None" by (simp add: sample_result_def Result_new_def)
  then show ?thesis
    using cells_merged [where d = sample_result and t = sample_result and different = False
        and best = "(sample_result, sample_result)"
        and news = "[(1, sample_result\<lparr>bank := sample_bank\<rparr>, sample_result)]"] by simp
qed

text \<open>C23: The tag is widened to the least multiple of the number of active subarrays that holds it.\<close>

theorem tag_width_least:
  assumes "0 < blk" "0 < n"
  shows "\<exists>m. round_block blk n = Inr m \<and> n dvd m \<and> blk \<le> m
           \<and> (\<forall>k. n dvd k \<and> blk \<le> k \<longrightarrow> m \<le> k)"
  using round_block_least [OF assms] .

theorem tag_width_least_witness:
  "\<exists>m. round_block 30 8 = Inr m \<and> 8 dvd m \<and> 30 \<le> m \<and> (\<forall>k. 8 dvd k \<and> 30 \<le> k \<longrightarrow> m \<le> k)"
  by (rule tag_width_least) simp_all

text \<open>C31: The refinement does not test whether the bank it tries is valid: a bank that is marked invalid but
  has better figures replaces the valid one.\<close>

theorem refinement_keeps_invalid:
  assumes "calc G (bank_args mt (bank r)) = Inr b" "bank_invalid b"
    and "within_limits r b" "better (res_optimizationTarget r) b (bank r)"
  shows "\<exists>r'. TRY_AND_UPDATE calc fresh mt G r = Inr r' \<and> bank r' = b \<and> bank_invalid (bank r')"
  using assms
  by (simp add: TRY_AND_UPDATE_def compareAndUpdate_def temp_result_def Bank_assign_eq)

theorem refinement_keeps_invalid_witness:
  "\<exists>r'. TRY_AND_UPDATE (\<lambda>_ _. Inr (sample_bank\<lparr>bank_invalid := True\<rparr>)) sample_result data
      sample_globals sample_result = Inr r' \<and> bank_invalid (bank r')"
proof -
  let ?b = "sample_bank\<lparr>bank_invalid := True\<rparr>"
  have "Fin 1 \<le> invalid_value" "Fin 1 < invalid_value" by (simp_all add: invalid_value_def lit_def)
  then have "within_limits sample_result ?b" "better (res_optimizationTarget sample_result) ?b (bank sample_result)"
    by (simp_all add: within_limits_def sample_result_def Result_new_def sample_bank_def readEdp_def
        writeEdp_def better_def worst_case_def dbl_lits)
  then show ?thesis
    using refinement_keeps_invalid [of "\<lambda>_ _. Inr ?b" sample_globals data sample_result ?b sample_result]
    by auto
qed


section \<open>The H-tree\<close>



section \<open>The banks\<close>

text \<open>C4: Both organisations of a bank store what they were asked for.  For a design of powers of two, a bank
  that is evaluated and not marked invalid has, over the subarrays of all mats on all dies, exactly the
  capacity in bits, whatever the cell, the technology, the wires and the memory it is constructed in.\<close>

theorem bank_capacity:
  assumes "regular A a"
  shows "case CALCULATE rawTree rawPlain E a of Inl _ \<Rightarrow> True
         | Inr (E', b) \<Rightarrow> bank_invalid b \<or> bank_bits b (stackedDieCount (ba_design a)) = ba_capacity a"
proof (cases "CALCULATE rawTree rawPlain E a")
  case (Inr r)
  moreover obtain E' b where "r = (E', b)" by (cases r)
  ultimately show ?thesis using CALCULATE_capacity [OF assms, of rawTree rawPlain E E' b] by auto
qed simp

theorem bank_capacity_witness:
  "\<forall>rawTree rawPlain E. case CALCULATE rawTree rawPlain E sample_args of Inl _ \<Rightarrow> True
     | Inr (E', b) \<Rightarrow> bank_invalid b \<or> bank_bits b 2 = 1048576"
proof (intro allI)
  fix rawTree rawPlain E
  from bank_capacity [OF sample_args_regular, of rawTree rawPlain E]
  show "case CALCULATE rawTree rawPlain E sample_args of Inl _ \<Rightarrow> True
     | Inr (E', b) \<Rightarrow> bank_invalid b \<or> bank_bits b 2 = 1048576"
    by (simp split: sum.split_asm sum.split prod.split_asm prod.split)
qed

text \<open>C9: The two organisations agree on the mats.  For a design of powers of two whose H-tree bank is valid,
  the bank without an H-tree, constructed over the same memory, initializes its mat with the same
  arguments: it gets the mat of the H-tree bank, with its area calculated, and is valid too.\<close>

theorem organisations_agree:
  assumes "regular A a" "bank_mat rawPlain = bank_mat rawTree"
  shows "case BankWithHtree_Initialize E a (BankWithHtree_new rawTree) of Inl _ \<Rightarrow> True
         | Inr t \<Rightarrow> bank_invalid t
             \<or> mat_of (BankWithoutHtree_Initialize E a (BankWithoutHtree_new rawPlain))
                 = Mat_CalculateArea E (bank_mat t)
               \<and> (case BankWithoutHtree_Initialize E a (BankWithoutHtree_new rawPlain) of Inl _ \<Rightarrow> True
                  | Inr p \<Rightarrow> \<not> bank_invalid p \<and> bank_initialized p)"
proof (cases "BankWithHtree_Initialize E a (BankWithHtree_new rawTree)")
  case (Inr t)
  have "bank_mat (BankWithoutHtree_new rawPlain) = bank_mat (BankWithHtree_new rawTree)"
    "\<not> bank_invalid (plain_reset (BankWithoutHtree_new rawPlain))"
    using new_bank_mats assms(2) by simp_all
  from same_mats [OF assms(1) Inr _ this] Inr show ?thesis
    by (cases "bank_invalid t") (simp_all split: sum.split)
qed simp

theorem organisations_agree_witness:
  "\<forall>E t p. let p = p\<lparr>bank_mat := bank_mat t\<rparr> in
     (case BankWithHtree_Initialize E sample_args (BankWithHtree_new t) of Inl _ \<Rightarrow> True
      | Inr t' \<Rightarrow> bank_invalid t'
          \<or> mat_of (BankWithoutHtree_Initialize E sample_args (BankWithoutHtree_new p))
              = Mat_CalculateArea E (bank_mat t')
            \<and> (case BankWithoutHtree_Initialize E sample_args (BankWithoutHtree_new p) of Inl _ \<Rightarrow> True
               | Inr p' \<Rightarrow> \<not> bank_invalid p' \<and> bank_initialized p'))"
  unfolding Let_def by (intro allI organisations_agree [OF sample_args_regular]) simp

text \<open>C10: The check of the capacity never ends the program.  Where the ranges of the search, the capacity, the
  block and the associativity are powers of two and the wires can be built, the search over the data
  arrays with the evaluation of the real banks ends early only when the evaluation of a design does.\<close>

theorem capacity_check_passes:
  assumes "regular_search ip G cap blk assoc" "INITIAL_BASIC_WIRE ip G = Inr G'"
  shows "case data_pass (calc_of rawTree rawPlain E) fresh ip G accept cap blk assoc s of Inr _ \<Rightarrow> True
         | Inl e \<Rightarrow> \<exists>d. legal (ip_associativity ip) (stackLayer_range (g_search G))
                            (numRowPerSet_range (g_search G)) (dataSpace (g_search G)) d
                      \<and> calc_of rawTree rawPlain E G' (data_args ip cap blk assoc d) = Inl e"
  using data_pass_aborts [OF assms, of rawTree rawPlain E fresh accept s] by (auto split: sum.split)

theorem capacity_check_passes_witness:
  "\<exists>G. \<forall>rawTree rawPlain E.
     case data_pass (calc_of rawTree rawPlain E) sample_result sample_ip sample_globals (\<lambda>_. True) 8192 32 1
            (start_tally (init_results sample_result 0)) of Inr _ \<Rightarrow> True
     | Inl e \<Rightarrow> \<exists>d. legal 1 (1, 1) (1, 1) sample_space d
                  \<and> calc_of rawTree rawPlain E G (data_args sample_ip 8192 32 1 d) = Inl e"
proof -
  obtain G where G: "INITIAL_BASIC_WIRE sample_ip sample_globals = Inr G" by (rule sample_wires)
  from capacity_check_passes [OF sample_search_regular G] show ?thesis
    by (intro exI [of _ G] allI) (simp only: sample_space_ranges)
qed

section \<open>The circuit components\<close>



text \<open>C18: The roadmap of embedded DRAM ends the program above 90 nm, also between 90 and 120 nm, where the
  table of the node itself exists and only the larger node has none.\<close>

theorem embedded_roadmap_exits:
  assumes "90 < processNode ip" "ip_deviceRoadmap ip = EDRAM" "arrays (fst raw)" "projections_ok ip"
  shows "main_technology ip raw rawHigh = Inl Exit"
  by (rule main_embedded_exits [OF assms])

theorem embedded_roadmap_exits_witness:
  "\<forall>P Q. main_technology (sample_ip\<lparr>processNode := 100, ip_deviceRoadmap := EDRAM\<rparr>) (sample_tech, P) Q = Inl Exit"
proof (intro allI)
  fix P Q
  have "arrays sample_tech"
    using tech_ok_tables [OF env_okD(1) [OF env_ok_sample]] by (simp add: arrays_def table_ok_def)
  then show "main_technology (sample_ip\<lparr>processNode := 100, ip_deviceRoadmap := EDRAM\<rparr>) (sample_tech, P) Q = Inl Exit"
    by (intro embedded_roadmap_exits) (simp_all add: projections_ok_def sample_ip_def)
qed



text \<open>C24: The address is split among the 1-to-2, 2-to-4 and 3-to-8 decoders without loss: their inputs add up
  to the address bits, for every number of bits.\<close>

theorem address_split:
  assumes "1 \<le> n" "basic_decoders n = (d12, d24, d38)"
  shows "d12 + 2 * d24 + 3 * d38 = n \<and> 0 \<le> d12 \<and> 0 \<le> d24 \<and> d24 \<le> 2 \<and> 0 \<le> d38 \<and> (n = 1 \<or> d12 = 0)"
  using basic_decoders_sum [OF assms] by blast

theorem address_split_witness: "\<exists>d12 d24 d38. basic_decoders 11 = (d12, d24, d38) \<and> d12 + 2 * d24 + 3 * d38 = 11"
proof -
  obtain d12 d24 d38 where d: "basic_decoders 11 = (d12, d24, d38)" using prod_cases3 by blast
  with address_split [OF _ d] show ?thesis by auto
qed





text \<open>C26: The delay of \<open>horowitz\<close> is at least that of a step input, and the output ramp is positive and
  never steeper than half the reciprocal of that delay.\<close>

theorem horowitz_bounds:
  assumes "0 < tr" "0 \<le> beta" "0 < rampIn"
  shows "\<exists>d r. horowitz (Fin tr) (Fin beta) (Fin rampIn) = (Fin d, Fin r)
      \<and> tr * ln 2 \<le> d \<and> 0 < r \<and> r \<le> 1 / (2 * tr * ln 2)"
proof -
  note h = horowitz_Fin [OF assms]
  have "0 < tr * ln 2" using assms(1) by simp
  then have "1 / 2 / horowitz_real tr beta rampIn \<le> 1 / 2 / (tr * ln 2)"
    using h(2,3) by (intro divide_left_mono) simp_all
  also have "\<dots> = 1 / (2 * tr * ln 2)" by simp
  finally show ?thesis
    using h by (intro exI [of _ "horowitz_real tr beta rampIn"]
        exI [of _ "1 / 2 / horowitz_real tr beta rampIn"]) simp
qed

theorem horowitz_bounds_witness:
  "\<exists>d r. horowitz (Fin 2) (Fin 1) (Fin 3) = (Fin d, Fin r) \<and> 2 * ln 2 \<le> d \<and> 0 < r \<and> r \<le> 1 / (2 * 2 * ln 2)"
  by (rule horowitz_bounds) simp_all

text \<open>C27: The current tables cover 300 K to 400 K: at every other temperature the resistance and the leakage of
  a transistor end the program, and within the range the resistance is positive.\<close>

theorem temperature_range:
  assumes "tech_ok T" "fpos w" "int_ok t"
  shows "if 300 \<le> t \<and> t \<le> 400
         then \<exists>r. CalculateOnResistance w type (i2d t) T = Inr r \<and> fpos r
         else CalculateOnResistance w type (i2d t) T = Inl Exit
              \<and> CalculateGateLeakage gate n w w' (i2d t) T = Inl Exit"
  using OnResistance_ok [OF assms(1) _ assms(2), of t type] tempIndex_exit [OF assms(3)]
  by (auto simp: temp_ok_def CalculateOnResistance_def CalculateGateLeakage_def)

theorem temperature_range_witness:
  "(\<exists>r. CalculateOnResistance 1 0 (i2d 350) sample_tech = Inr r \<and> fpos r)
   \<and> CalculateOnResistance 1 0 (i2d 401) sample_tech = Inl Exit"
  using temperature_range [OF env_okD(1) [OF env_ok_sample], of 1 350 0 0 0 0]
    temperature_range [OF env_okD(1) [OF env_ok_sample], of 1 401 0 0 0 0]
  by (simp add: int_ok_def)

text \<open>C21: Interpolating between two well-formed technologies, with a factor from 0 to 1, gives a well-formed
  technology: all parameters have the right sign, the supply stays above the threshold and the four
  current tables keep their 101 positive entries.\<close>

theorem interpolation_ok:
  assumes "tech_ok T" "tech_ok rhs" "0 \<le> a" "a \<le> 1"
  shows "tech_ok (InterpolateWith rhs (Fin a) T)"
  using InterpolateWith_ok [OF assms] .

theorem interpolation_ok_witness:
  "tech_ok (InterpolateWith (sample_tech\<lparr>featureSizeInNano := 22, vdd := 3\<rparr>) (Fin (1 / 2)) sample_tech)"
proof (rule interpolation_ok)
  show "tech_ok sample_tech" by (rule env_okD(1) [OF env_ok_sample])
  then show "tech_ok (sample_tech\<lparr>featureSizeInNano := 22, vdd := 3\<rparr>)"
    by (simp add: tech_ok_def) (simp add: sample_tech_def dbl_lits)
qed simp_all

text \<open>C29: Setting the number of layers is idempotent, even after a change of the configuration: the parasitics
  are not recomputed for a number of layers that is already set.\<close>

theorem layers_idempotent:
  assumes "SetLayerCount ip n TP = Inr TP'"
  shows "layerCount (snd TP') = n \<and> SetLayerCount ip' n TP' = Inr TP'"
  using SetLayerCount_layers [OF assms] SetLayerCount_again [OF assms] by simp

theorem layers_idempotent_witness:
  "\<exists>TP'. SetLayerCount sample_ip 4 (sample_tech, sample_params) = Inr TP' \<and> layerCount (snd TP') = 4
      \<and> SetLayerCount (sample_ip\<lparr>localTsvProjection := 1\<rparr>) 4 TP' = Inr TP'"
proof -
  have "\<exists>TP'. SetLayerCount sample_ip 4 (sample_tech, sample_params) = Inr TP'"
    by (simp add: SetLayerCount_def sample_params_def sample_ip_def tget_def WireTypeToTSVType_def Let_def)
  then show ?thesis using layers_idempotent by blast
qed

text \<open>C20: The search for a penalized repeater ends for every wire with a finite optimal repeater.  It never
  changes the spacing, and where it changes the size the delay stays within the penalty.\<close>

theorem penalized_repeater:
  assumes "repeaterSpacing w = Fin s" "repeaterSize w = Fin r"
  shows "findPenalizedRepeater T ip penalty w \<noteq> Inl Diverge
      \<and> (\<forall>w'. findPenalizedRepeater T ip penalty w = Inr w' \<longrightarrow>
           repeaterSpacing w' = repeaterSpacing w
           \<and> (\<exists>d. getRepeatedWireUnitDelay T ip w = Inr d
                \<and> (repeaterSize w' = repeaterSize w
                   \<or> (\<exists>d'. getRepeatedWireUnitDelay T ip w' = Inr d' \<and> d' \<le> d * (1 + penalty)))))"
  using findPenalizedRepeater_ok [OF assms] by (auto simp: halts_def)

theorem penalized_repeater_witness:
  "findPenalizedRepeater sample_tech sample_ip (Fin (1 / 10)) sample_wire \<noteq> Inl Diverge"
proof -
  have "repeaterSpacing sample_wire = Fin 1" "repeaterSize sample_wire = Fin 1"
    by (simp_all add: sample_wire_def dbl_lits)
  from penalized_repeater [OF this] show ?thesis by blast
qed



text \<open>C40: The dynamic energy of an unbuffered TSV depends on how often it was evaluated: each evaluation adds
  the energy of one transfer to the member instead of setting it.\<close>

theorem tsv_energy_accumulates:
  assumes "num_gates v = 0" "fpos rr" "fpos rw"
  shows "\<exists>v1 v2. TSV_CalculateLatencyAndPower T ip rr rw v = Inr v1
      \<and> TSV_CalculateLatencyAndPower T ip rr rw v1 = Inr v2
      \<and> readDynamicEnergy v2 = readDynamicEnergy v + tsv_cap v * vdd T * vdd T + tsv_cap v * vdd T * vdd T
      \<and> readLatency v2 = readLatency v1"
proof -
  obtain v1 where 1: "TSV_CalculateLatencyAndPower T ip rr rw v = Inr v1" "num_gates v1 = 0"
    "tsv_cap v1 = tsv_cap v" "tsv_res v1 = tsv_res v"
    "readDynamicEnergy v1 = readDynamicEnergy v + tsv_cap v * vdd T * vdd T"
    "readLatency v1 = 0 + fst (horowitz (tsv_res v * tsv_cap v / 2) tsv_beta rr)"
    using TSV_unbuffered [OF assms] by blast
  with TSV_unbuffered [OF 1(2) assms(2,3), of T ip] show ?thesis by auto
qed

theorem tsv_energy_accumulates_witness:
  "\<exists>v1 v2. TSV_CalculateLatencyAndPower sample_tech sample_ip 1 1 (sample_tsv\<lparr>num_gates := 0\<rparr>) = Inr v1
      \<and> TSV_CalculateLatencyAndPower sample_tech sample_ip 1 1 v1 = Inr v2
      \<and> readDynamicEnergy v1 = Fin 4 \<and> readDynamicEnergy v2 = Fin 8"
proof -
  let ?v = "sample_tsv\<lparr>num_gates := 0\<rparr>"
  obtain v1 v2 where "TSV_CalculateLatencyAndPower sample_tech sample_ip 1 1 ?v = Inr v1"
    "TSV_CalculateLatencyAndPower sample_tech sample_ip 1 1 v1 = Inr v2"
    "readDynamicEnergy v2 = readDynamicEnergy ?v + tsv_cap ?v * vdd sample_tech * vdd sample_tech
       + tsv_cap ?v * vdd sample_tech * vdd sample_tech"
    using tsv_energy_accumulates [of ?v 1 1 sample_tech sample_ip] by auto
  moreover from this(1) TSV_unbuffered [of ?v 1 1 sample_tech sample_ip] have
    "readDynamicEnergy v1 = readDynamicEnergy ?v + tsv_cap ?v * vdd sample_tech * vdd sample_tech" by auto
  ultimately show ?thesis by (auto simp: sample_tsv_def sample_tech_def dbl_lits)
qed

section \<open>The input files\<close>






section \<open>The reports\<close>

text \<open>C33: The file of the full exploration is a table: the names of its columns are distinct, and every line
  that a design adds, one for a memory and one for each best tag array for a cache, has exactly one cell
  under every name.\<close>

theorem csv_lines:
  assumes "OUTPUT_TO_FILE E temp tags = Inr lines"
  shows "distinct (printCsvHeader (designTarget (e_ip E)))
      \<and> (\<forall>line \<in> set lines. length line = length (printCsvHeader (designTarget (e_ip E))))"
  using header_distinct output_lines [OF assms] by blast

theorem csv_lines_witness:
  "\<forall>(E :: Env) m. \<exists>line. OUTPUT_TO_FILE (E\<lparr>e_ip := sample_ip\<lparr>designTarget := RAM_chip\<rparr>\<rparr>) (m, sample_result) [] = Inr [line]
      \<and> length line = 52"
proof (intro allI)
  fix E :: Env and m
  let ?E = "E\<lparr>e_ip := sample_ip\<lparr>designTarget := RAM_chip\<rparr>\<rparr>"
  have "\<exists>line. OUTPUT_TO_FILE ?E (m, sample_result) [] = Inr [line]"
    by (simp add: OUTPUT_TO_FILE_def ram_line_def printToCsvFile_def count_fields_def imul_def int_ok_def
        sample_result_def Result_new_def worst_case_def Bank_new_def FunctionUnit_new_def sample_bank_def)
  then obtain line where l: "OUTPUT_TO_FILE ?E (m, sample_result) [] = Inr [line]" by blast
  from csv_lines [OF l] l show "\<exists>line. OUTPUT_TO_FILE ?E (m, sample_result) [] = Inr [line] \<and> length line = 52"
    by (simp add: printCsvHeader_def swept_names_def writeArrayColumnHeaders_def array_names_def)
qed

text \<open>C34: The report on an array adds up.  For a valid bank of either organisation, whose figures are numbers,
  with whole mats on a die, what is shown for the TSVs, the routing and the mats below the read and write latencies
  and energies sums up to the figure above.  With predecoders on a die of their own it does not: what is shown
  for the read latency is off by the difference between the write latencies of the TSVs of the mat and of the bank,
  once for each die above the first.\<close>

theorem report_adds_up:
  assumes "evaluated_bank E u" "parts_fin u"
  shows "(bank_partitionGranularity u = 0 \<longrightarrow> adds_up u)
      \<and> (bank_partitionGranularity u = 1 \<and> 1 < bank_stackedDieCount u \<longrightarrow> off_by_address u)"
  using evaluated_parts [OF assms] by (simp add: parts_ok_def)

theorem report_adds_up_witness:
  "\<forall>(E :: Env) raw. \<exists>E' b. BankWithHtree_CalculateLatencyAndPower (sample_env E) (sample_tree raw) = Inr (E', b)
     \<and> bank_stackedDieCount b = 2 \<and> adds_up (BankUnit.truncate b)"
proof (intro allI)
  fix E :: Env and raw
  obtain E' b where b: "BankWithHtree_CalculateLatencyAndPower (sample_env E) (sample_tree raw) = Inr (E', b)"
    "bank_initialized b" "\<not> bank_invalid b" "parts_fin b" "bank_partitionGranularity b = 0" "bank_stackedDieCount b = 2"
    by (rule sample_tree_evaluated)
  then have "evaluated_bank (sample_env E) (BankUnit.truncate b)" by (auto simp: evaluated_bank_def)
  from report_adds_up [OF this] b show "\<exists>E' b. BankWithHtree_CalculateLatencyAndPower (sample_env E) (sample_tree raw) = Inr (E', b)
     \<and> bank_stackedDieCount b = 2 \<and> adds_up (BankUnit.truncate b)" by auto
qed



section \<open>The program\<close>





end
